(* ===== verification/Usb_Prelude.thy ===== *)
theory Usb_Prelude
  imports Main "HOL-Library.Word" "HOL-Library.List_Lexorder" "HOL-Library.Char_ord"
begin

section \<open>Prelude: machine types, return codes, decimal strings, ordered maps\<close>

text \<open>
  What every component of the USB service shares: the fixed-width integer types, the
  enumeration of return codes of \<^verbatim>\<open>utils/native/include/usb_errors.h\<close>, the decimal
  rendering \<^verbatim>\<open>std::to_string\<close>, and the ordered associative container
  \<^verbatim>\<open>std::map\<close> (a list of key-value pairs sorted by key) together with the interface
  \<open>std_map\<close> through which the components reason about it.
\<close>

unbundle bit_operations_syntax


subsection \<open>Machine integers\<close>

type_synonym u8 = "8 word"
type_synonym u16 = "16 word"
type_synonym u32 = "32 word"
type_synonym u64 = "64 word"
type_synonym int32 = int

text \<open>A 32-bit value with its highest bit set, read as signed.\<close>

lemma sint32_high:
  assumes "2 ^ 31 \<le> n" and "n < 2 ^ 32"
  shows "sint (word_of_int n :: u32) = n - 2 ^ 32"
proof -
  have "(n + 2 ^ 31) mod 2 ^ 32 = n + 2 ^ 31 - 2 ^ 32"
    using assms mod_pos_pos_trivial [of "n + 2 ^ 31 - 2 ^ 32" "2 ^ 32"]
      minus_mod_self2 [of "n + 2 ^ 31" "2 ^ 32"] by simp
  then show ?thesis unfolding int_word_sint by simp
qed

subsection \<open>Return codes\<close>

text \<open>
  The codes of \<^verbatim>\<open>UsbErrCode\<close> that the modelled operations return. The numeric base of
  the enumeration comes from a macro of another repository, so the codes are constructors;
  \<open>Code n\<close> is any other non-zero \<^verbatim>\<open>int32_t\<close> that a function passes on (a code of a
  driver or of the database).
\<close>

datatype (plugins del: size transfer lifting quickcheck_random quickcheck_exhaustive quickcheck_bounded_forall quickcheck_full_exhaustive quickcheck_narrowing) retcode =
    UEC_OK
  | UEC_INTERFACE_INVALID_OPERATION | UEC_INTERFACE_INVALID_VALUE
  | UEC_INTERFACE_NAME_NOT_FOUND | UEC_INTERFACE_TIMED_OUT
  | UEC_SERVICE_INVALID_OPERATION | UEC_SERVICE_INVALID_VALUE
  | UEC_SERVICE_PERMISSION_DENIED 
  | UEC_SERVICE_GET_SYSTEM_ABILITY_MANAGER_FAILED 
  | UEC_SERVICE_INNER_ERR
  | UEC_SERVICE_PERMISSION_DENIED_SYSAPI | UEC_SERVICE_PERMISSION_CHECK_HDC
  | UEC_SERVICE_NOT_SUPPORT_SWITCH_PORT 
  | UEC_SERVICE_PRE_MANAGE_INTERFACE_FAILED | UEC_SERVICE_EXECUTE_POLICY_FAILED
  | UEC_SERVICE_PREPARE_EDM_SA_FAILED | UEC_SERVICE_GET_EDM_SERVICE_FAILED
  | UEC_SERVICE_EDM_DEVICE_SIZE_EXCEED | UEC_SERVICE_EDM_SA_TIME_OUT_FAILED
  | UEC_SERVICE_EDM_SEND_REQUEST_FAILED 
  | UEC_SERVICE_GET_TOKEN_INFO_FAILED | UEC_SERVICE_ACCESSORY_NOT_MATCH
  | UEC_SERVICE_ACCESSORY_REOPEN | UEC_SERVICE_ACCESSORY_OPEN_NATIVE_NODE_FAILED
  | UEC_SERVICE_DATABASE_OPERATION_FAILED | UEC_SERVICE_FUNCTION_NOT_SUPPORT
  | UEC_SERVICE_PERMISSION_DENIED_SYSAPI_FAILED | UEC_SERIAL_PORT_REPEAT_OPEN
  | UEC_SERIAL_PORT_NOT_OPEN | UEC_SERIAL_IO_EXCEPTION
  | UEC_SERIAL_DEVICENOTOPEN | UEC_SERIAL_OTHER_ERROR | UEC_SERIAL_PORT_NOT_EXIST
  | UEC_SERIAL_DATEBASE_ERROR | UEC_SERVICE_OBJECT_CREATE_FAILED
  | UEC_INTERFACE_PERMISSION_DENIED | UEC_SERVICE_WRITE_PARCEL_ERROR
  | UEC_INTERFACE_NO_INIT | UEC_INTERFACE_GET_SYSTEM_ABILITY_MANAGER_FAILED
  | UEC_INTERFACE_GET_USB_SERVICE_FAILED | UEC_INTERFACE_DEAD_OBJECT
  | Code int

text \<open>An \<^verbatim>\<open>int32_t\<close> read as a return code: zero is \<open>UEC_OK\<close>.\<close>

definition ret_of_int :: "int \<Rightarrow> retcode" where
  "ret_of_int n = (if n = 0 then UEC_OK else Code n)"

lemma ret_of_int_OK [simp]: "ret_of_int n = UEC_OK \<longleftrightarrow> n = 0"
  by (simp add: ret_of_int_def)

text \<open>\<^verbatim>\<open>UsbRightErrCode\<close>: the codes of the right database, with their values.\<close>

definition USB_RIGHT_OK :: int where "USB_RIGHT_OK = 0"
definition USB_RIGHT_FAILURE :: int where "USB_RIGHT_FAILURE = - 1"
definition USB_RIGHT_RDB_EXECUTE_FAILTURE :: int where "USB_RIGHT_RDB_EXECUTE_FAILTURE = - 2"
definition USB_RIGHT_RDB_NO_INIT :: int where "USB_RIGHT_RDB_NO_INIT = - 3"
definition USB_RIGHT_RDB_EMPTY :: int where "USB_RIGHT_RDB_EMPTY = - 4"
definition USB_RIGHT_NOP :: int where "USB_RIGHT_NOP = - 6"

lemmas right_code_defs [simp] =
  USB_RIGHT_OK_def USB_RIGHT_FAILURE_def USB_RIGHT_RDB_EXECUTE_FAILTURE_def
  USB_RIGHT_RDB_NO_INIT_def USB_RIGHT_RDB_EMPTY_def USB_RIGHT_NOP_def

text \<open>The notifications of \<^verbatim>\<open>usb_connection_notifier.h\<close> that the managers send.\<close>

datatype notifier = USB_FUNC_MTP | USB_FUNC_PTP | USB_FUNC_CHARGE | USB_FUNC_REVERSE_CHARGE

text \<open>The function masks of \<^verbatim>\<open>usb_srv_support.h\<close>.\<close>

definition FUNCTION_NONE :: u32 where "FUNCTION_NONE = 0"
definition FUNCTION_ACM :: u32 where "FUNCTION_ACM = 1"
definition FUNCTION_ECM :: u32 where "FUNCTION_ECM = 2"
definition FUNCTION_HDC :: u32 where "FUNCTION_HDC = 4"
definition FUNCTION_MTP :: u32 where "FUNCTION_MTP = 8"
definition FUNCTION_PTP :: u32 where "FUNCTION_PTP = 16"
definition FUNCTION_RNDIS :: u32 where "FUNCTION_RNDIS = 32"
definition FUNCTION_NCM :: u32 where "FUNCTION_NCM = 256"
definition FUNCTION_STORAGE :: u32 where "FUNCTION_STORAGE = 512"
definition FUNCTION_DEVMODE_AUTH :: u32 where "FUNCTION_DEVMODE_AUTH = 4096"

lemmas function_masks [simp] = FUNCTION_NONE_def FUNCTION_ACM_def FUNCTION_ECM_def
  FUNCTION_HDC_def FUNCTION_MTP_def FUNCTION_PTP_def FUNCTION_RNDIS_def FUNCTION_NCM_def
  FUNCTION_STORAGE_def FUNCTION_DEVMODE_AUTH_def

subsection \<open>Decimal strings\<close>

text \<open>\<^verbatim>\<open>std::to_string\<close> on unsigned and signed integers.\<close>

fun nat_to_string :: "nat \<Rightarrow> string" where
  "nat_to_string n =
     (if n < 10 then [char_of (48 + n)]
      else nat_to_string (n div 10) @ [char_of (48 + n mod 10)])"

declare nat_to_string.simps [simp del]

definition to_string :: "int \<Rightarrow> string" where
  "to_string i = (if i < 0 then CHR ''-'' # nat_to_string (nat (- i)) else nat_to_string (nat i))"

definition is_digit :: "char \<Rightarrow> bool" where
  "is_digit c \<longleftrightarrow> 48 \<le> (of_char c :: nat) \<and> (of_char c :: nat) \<le> 57"

text \<open>The reading of a decimal numeral (\<^verbatim>\<open>strtoul\<close> on a string of digits).\<close>

definition dec_value :: "string \<Rightarrow> nat" where
  "dec_value s = foldl (\<lambda>a c. 10 * a + (of_char c - 48)) 0 s"

lemma of_char_digit [simp]: "d < 10 \<Longrightarrow> (of_char (char_of (48 + d) :: char) :: nat) = 48 + d"
  by simp

lemma nat_to_string_digits: "c \<in> set (nat_to_string n) \<Longrightarrow> is_digit c"
proof (induction n rule: nat_to_string.induct)
  case (1 n)
  show ?case
  proof (cases "n < 10")
    case True
    with "1.prems" show ?thesis by (simp add: nat_to_string.simps [of n] is_digit_def)
  next
    case False
    with "1.prems" have "c \<in> set (nat_to_string (n div 10)) \<or> c = char_of (48 + n mod 10)"
      by (auto simp: nat_to_string.simps [of n])
    with "1.IH" [OF False] show ?thesis by (auto simp: is_digit_def)
  qed
qed

lemma nat_to_string_nonempty [simp]: "nat_to_string n \<noteq> []"
  by (subst nat_to_string.simps) simp

lemma dec_value_snoc: "dec_value (s @ [c]) = 10 * dec_value s + (of_char c - 48)"
  by (simp add: dec_value_def)

lemma dec_value_nat_to_string [simp]: "dec_value (nat_to_string n) = n"
proof (induction n rule: nat_to_string.induct)
  case (1 n)
  show ?case
  proof (cases "n < 10")
    case True
    then show ?thesis by (simp add: nat_to_string.simps [of n] dec_value_def)
  next
    case False
    then show ?thesis
      by (simp add: nat_to_string.simps [of n] dec_value_snoc "1.IH" [OF False])
  qed
qed

lemma nat_to_string_inject [simp]: "nat_to_string m = nat_to_string n \<longleftrightarrow> m = n"
  by (metis dec_value_nat_to_string)

text \<open>Two numerals joined by a character that is no digit determine both numbers.\<close>

lemma joined_inject:
  assumes "xs @ c # ys = xs' @ c # ys'" and "c \<notin> set xs" and "c \<notin> set xs'"
  shows "xs = xs' \<and> ys = ys'"
  using assms by (induction xs arbitrary: xs') (case_tac xs', auto)+

lemma dash_not_in_nat_to_string [simp]: "CHR ''-'' \<notin> set (nat_to_string n)"
proof
  assume "CHR ''-'' \<in> set (nat_to_string n)"
  from nat_to_string_digits [OF this] show False by (simp add: is_digit_def)
qed

subsection \<open>Ordered maps\<close>

text \<open>
  \<^verbatim>\<open>std::map\<close> as the list of its entries in iteration order: \<^verbatim>\<open>insert\<close> keeps an entry
  that is there, assignment through \<^verbatim>\<open>operator[]\<close> replaces it, \<^verbatim>\<open>erase\<close> drops it,
  \<^verbatim>\<open>find\<close> is \<open>map_of\<close>.
\<close>

type_synonym ('k, 'v) omap = "('k \<times> 'v) list"

fun omap_insert :: "'k::linorder \<Rightarrow> 'v \<Rightarrow> ('k, 'v) omap \<Rightarrow> ('k, 'v) omap" where
  "omap_insert k v [] = [(k, v)]"
| "omap_insert k v ((k', v') # m) =
     (if k < k' then (k, v) # (k', v') # m
      else if k = k' then (k', v') # m
      else (k', v') # omap_insert k v m)"

fun omap_put :: "'k::linorder \<Rightarrow> 'v \<Rightarrow> ('k, 'v) omap \<Rightarrow> ('k, 'v) omap" where
  "omap_put k v [] = [(k, v)]"
| "omap_put k v ((k', v') # m) =
     (if k < k' then (k, v) # (k', v') # m
      else if k = k' then (k, v) # m
      else (k', v') # omap_put k v m)"

fun omap_erase :: "'k \<Rightarrow> ('k, 'v) omap \<Rightarrow> ('k, 'v) omap" where
  "omap_erase k [] = []"
| "omap_erase k ((k', v') # m) = (if k = k' then m else (k', v') # omap_erase k m)"

definition omap_ok :: "('k::linorder, 'v) omap \<Rightarrow> bool" where
  "omap_ok m \<longleftrightarrow> sorted (map fst m) \<and> distinct (map fst m)"

text \<open>
  The interface of an ordered map as its clients use it: what \<^verbatim>\<open>find\<close> returns after each
  update, and that every update keeps the representation invariant.
\<close>

locale std_map =
  fixes find :: "'m \<Rightarrow> 'k \<Rightarrow> 'v option"
    and insert :: "'k \<Rightarrow> 'v \<Rightarrow> 'm \<Rightarrow> 'm"
    and put :: "'k \<Rightarrow> 'v \<Rightarrow> 'm \<Rightarrow> 'm"
    and erase :: "'k \<Rightarrow> 'm \<Rightarrow> 'm"
    and ok :: "'m \<Rightarrow> bool"
  assumes find_insert:
      "ok m \<Longrightarrow> find (insert k v m) =
         (case find m k of None \<Rightarrow> (find m)(k \<mapsto> v) | Some _ \<Rightarrow> find m)"
    and find_put: "ok m \<Longrightarrow> find (put k v m) = (find m)(k \<mapsto> v)"
    and find_erase: "ok m \<Longrightarrow> find (erase k m) = (find m)(k := None)"
    and ok_insert: "ok m \<Longrightarrow> ok (insert k v m)"
    and ok_put: "ok m \<Longrightarrow> ok (put k v m)"
    and ok_erase: "ok m \<Longrightarrow> ok (erase k m)"
begin

lemma ok_insert_all: "ok m \<Longrightarrow> ok (foldl (\<lambda>m (k, v). insert k v m) m kvs)"
  by (induction kvs arbitrary: m) (auto simp: ok_insert)

lemma ok_put_all: "ok m \<Longrightarrow> ok (foldl (\<lambda>m (k, v). put k v m) m kvs)"
  by (induction kvs arbitrary: m) (auto simp: ok_put)

text \<open>A loop of \<^verbatim>\<open>insert\<close>: the first entry of a key wins, an old one over all new ones.\<close>

lemma find_insert_all:
  "ok m \<Longrightarrow> find (foldl (\<lambda>m (k, v). insert k v m) m kvs) = map_of kvs ++ find m"
proof (induction kvs arbitrary: m)
  case Nil
  then show ?case by simp
next
  case (Cons kv kvs)
  obtain k v where kv: "kv = (k, v)" by (cases kv)
  have "find (foldl (\<lambda>m (k, v). insert k v m) m (kv # kvs)) =
      map_of kvs ++ find (insert k v m)"
    using Cons.IH [OF ok_insert [OF Cons.prems]] by (simp add: kv)
  also have "\<dots> = map_of (kv # kvs) ++ find m"
    by (auto simp: fun_eq_iff kv find_insert [OF Cons.prems] map_add_def split: option.splits)
  finally show ?case .
qed

text \<open>A loop of assignments: the last entry of a key wins, over an old one too.\<close>

lemma find_put_all:
  "ok m \<Longrightarrow> find (foldl (\<lambda>m (k, v). put k v m) m kvs) = find m ++ map_of (rev kvs)"
proof (induction kvs arbitrary: m)
  case Nil
  then show ?case by simp
next
  case (Cons kv kvs)
  obtain k v where kv: "kv = (k, v)" by (cases kv)
  have "find (foldl (\<lambda>m (k, v). put k v m) m (kv # kvs)) = find (put k v m) ++ map_of (rev kvs)"
    using Cons.IH [OF ok_put [OF Cons.prems]] by (simp add: kv)
  also have "\<dots> = find m ++ map_of (rev (kv # kvs))"
    by (auto simp: fun_eq_iff kv find_put [OF Cons.prems] map_add_def split: option.splits)
  finally show ?case .
qed

end

lemma omap_insert_keys: "set (map fst (omap_insert k v m)) = insert k (set (map fst m))"
  by (induction k v m rule: omap_insert.induct) auto

lemma omap_put_keys: "set (map fst (omap_put k v m)) = insert k (set (map fst m))"
  by (induction k v m rule: omap_put.induct) auto

lemma omap_insert_subset: "set (omap_insert k v m) \<subseteq> insert (k, v) (set m)"
  by (induction k v m rule: omap_insert.induct) auto

lemma omap_put_subset: "set (omap_put k v m) \<subseteq> insert (k, v) (set m)"
  by (induction k v m rule: omap_put.induct) auto

lemma omap_erase_subset: "set (omap_erase k m) \<subseteq> set m"
  by (induction k m rule: omap_erase.induct) auto

lemma omap_ok_Nil [simp]: "omap_ok []"
  by (simp add: omap_ok_def)

lemma omap_ok_Cons [simp]:
  "omap_ok ((k, v) # m) \<longleftrightarrow> omap_ok m \<and> (\<forall>k' \<in> set (map fst m). k < k')"
  by (auto simp: omap_ok_def order_less_le)

lemma omap_ok_insert: "omap_ok m \<Longrightarrow> omap_ok (omap_insert k v m)"
proof (induction k v m rule: omap_insert.induct)
  case (2 k v k' v' m)
  then show ?case using omap_insert_keys [of k v m] by (auto dest: order.strict_trans)
qed simp

lemma omap_ok_put: "omap_ok m \<Longrightarrow> omap_ok (omap_put k v m)"
proof (induction k v m rule: omap_put.induct)
  case (2 k v k' v' m)
  then show ?case using omap_put_keys [of k v m] by (auto dest: order.strict_trans)
qed simp

lemma omap_ok_erase: "omap_ok m \<Longrightarrow> omap_ok (omap_erase k m)"
proof (induction k m rule: omap_erase.induct)
  case (2 k k' v' m)
  then show ?case using omap_erase_subset [of k m] by fastforce
qed simp

lemma map_of_below: "\<forall>k' \<in> set (map fst m). (k :: 'k::linorder) < k' \<Longrightarrow> map_of m k = None"
  by (induction m) auto

lemma omap_find_insert:
  "omap_ok m \<Longrightarrow> map_of (omap_insert k v m) =
     (case map_of m k of None \<Rightarrow> (map_of m)(k \<mapsto> v) | Some _ \<Rightarrow> map_of m)"
proof (induction k v m rule: omap_insert.induct)
  case (2 k v k' v' m)
  consider "k < k'" | "k = k'" | "k' < k" by fastforce
  then show ?case
  proof cases
    case 1
    with "2.prems" have "map_of m k = None"
      by (intro map_of_below) (auto dest: order.strict_trans)
    with 1 show ?thesis by (auto dest: less_imp_neq)
  next
    case 3
    with 2 show ?thesis by (auto simp: fun_eq_iff split: option.splits)
  qed simp
qed simp

lemma omap_find_put: "omap_ok m \<Longrightarrow> map_of (omap_put k v m) = (map_of m)(k \<mapsto> v)"
  by (induction k v m rule: omap_put.induct) (auto simp: fun_eq_iff)

lemma omap_find_erase: "omap_ok m \<Longrightarrow> map_of (omap_erase k m) = (map_of m)(k := None)"
proof (induction k m rule: omap_erase.induct)
  case (2 k k' v' m)
  then have "map_of m k' = None" by (intro map_of_below) auto
  with 2 show ?case by (auto simp: fun_eq_iff)
qed (simp add: fun_eq_iff)

lemma map_of_rev: "distinct (map fst kvs) \<Longrightarrow> map_of (rev kvs) = map_of kvs"
  by (simp add: map_of_inject_set flip: rev_map)

interpretation omap: std_map map_of omap_insert omap_put omap_erase omap_ok
  by unfold_locales
    (auto simp: omap_find_insert omap_find_put omap_find_erase
      omap_ok_insert omap_ok_put omap_ok_erase)

end
