(* ===== verification/Usb_Data.thy ===== *)
theory Usb_Data
  imports Usb_Prelude "HOL-Library.State_Monad" "HOL-Library.Monad_Syntax"
begin

section \<open>Device data and its parcels\<close>

text \<open>
  The data classes \<^verbatim>\<open>USBEndpoint\<close>, \<^verbatim>\<open>UsbInterface\<close>, \<^verbatim>\<open>USBConfig\<close> and
  \<^verbatim>\<open>UsbDevice\<close> of \<^verbatim>\<open>interfaces/innerkits/native/include\<close> with the default values of
  their members, and their \<^verbatim>\<open>Marshalling\<close> and \<^verbatim>\<open>Unmarshalling\<close> methods. The
  \<^verbatim>\<open>Parcel\<close> class is of another repository: it is the record \<open>parcel_ops\<close> of the calls
  the methods make, and \<open>parcel_fifo\<close> states what they rely on (a value written is appended, a
  read takes the value at the front). The interface \<open>parcelable\<close> is the contract of a
  marshallable class; the counted loops over endpoints, interfaces and configurations are
  proved once in it. An \<^verbatim>\<open>int32_t\<close> member is a 32-bit word read through \<open>sint\<close>.
\<close>

subsection \<open>The data classes\<close>

type_synonym i32 = "32 word"

record USBEndpoint =
  ep_address :: u32
  ep_attributes :: u32
  ep_interval :: i32
  ep_maxPacketSize :: i32
  ep_interfaceId :: u8

record UsbInterface =
  if_id :: i32
  if_protocol :: i32
  if_klass :: i32
  if_subClass :: i32
  if_alternateSetting :: i32
  if_name :: string
  if_endpoints :: "USBEndpoint list"
  if_iInterface :: u8
  if_authorized :: bool

record USBConfig =
  cf_id :: i32
  cf_attributes :: u32
  cf_interfaces :: "UsbInterface list"
  cf_maxPower :: i32
  cf_name :: string
  cf_iConfiguration :: u8

datatype AuthorizeStatus = DISABLED | ENABLED | NEW_ARRIVED

record UsbDevice =
  dev_name :: string
  dev_manufacturerName :: string
  dev_productName :: string
  dev_version :: string
  dev_serial :: string
  dev_authorizeStatus :: AuthorizeStatus
  dev_devAddr :: u8
  dev_busNum :: u8
  dev_descConfigCount :: u8
  dev_bMaxPacketSize0 :: u8
  dev_bcdUSB :: u16
  dev_bcdDevice :: u16
  dev_iManufacturer :: u8
  dev_iProduct :: u8
  dev_iSerialNumber :: u8
  dev_vendorId :: i32
  dev_productId :: i32
  dev_baseClass :: i32
  dev_subClass :: i32
  dev_protocol :: i32
  dev_configs :: "USBConfig list"

definition INVALID_USB_INT_VALUE :: i32 where "INVALID_USB_INT_VALUE = - 1"
definition INT32_MAX :: i32 where "INT32_MAX = 0x7FFFFFFF"

definition new_endpoint :: USBEndpoint where
  "new_endpoint = \<lparr>ep_address = 0, ep_attributes = 0, ep_interval = INVALID_USB_INT_VALUE,
     ep_maxPacketSize = INVALID_USB_INT_VALUE, ep_interfaceId = 255\<rparr>"

definition new_interface :: UsbInterface where
  "new_interface = \<lparr>if_id = INT32_MAX, if_protocol = INT32_MAX, if_klass = INT32_MAX,
     if_subClass = INT32_MAX, if_alternateSetting = INT32_MAX, if_name = [],
     if_endpoints = [], if_iInterface = 255, if_authorized = True\<rparr>"

definition new_config :: USBConfig where
  "new_config = \<lparr>cf_id = INVALID_USB_INT_VALUE, cf_attributes = 0, cf_interfaces = [],
     cf_maxPower = INVALID_USB_INT_VALUE, cf_name = [], cf_iConfiguration = 255\<rparr>"

definition new_device :: UsbDevice where
  "new_device = \<lparr>dev_name = [], dev_manufacturerName = [], dev_productName = [],
     dev_version = [], dev_serial = [], dev_authorizeStatus = ENABLED, dev_devAddr = 255,
     dev_busNum = 255, dev_descConfigCount = 255, dev_bMaxPacketSize0 = 255,
     dev_bcdUSB = 65535, dev_bcdDevice = 65535, dev_iManufacturer = 255, dev_iProduct = 255,
     dev_iSerialNumber = 255, dev_vendorId = INVALID_USB_INT_VALUE,
     dev_productId = INVALID_USB_INT_VALUE, dev_baseClass = INVALID_USB_INT_VALUE,
     dev_subClass = INVALID_USB_INT_VALUE, dev_protocol = INVALID_USB_INT_VALUE,
     dev_configs = []\<rparr>"

lemmas new_data_defs = new_endpoint_def new_interface_def new_config_def new_device_def

text \<open>The bit masks of the endpoint address and attributes, and the flags of a configuration.\<close>

definition GetEndpointNumber :: "USBEndpoint \<Rightarrow> u32" where
  "GetEndpointNumber ep = ep_address ep AND 0xf"

definition GetDirection :: "USBEndpoint \<Rightarrow> u32" where
  "GetDirection ep = ep_address ep AND 0x80"

definition GetType :: "USBEndpoint \<Rightarrow> u32" where
  "GetType ep = ep_attributes ep AND 0x3"

definition IsRemoteWakeup :: "USBConfig \<Rightarrow> bool" where
  "IsRemoteWakeup c \<longleftrightarrow> cf_attributes c AND 0x20 \<noteq> 0"

definition IsSelfPowered :: "USBConfig \<Rightarrow> bool" where
  "IsSelfPowered c \<longleftrightarrow> cf_attributes c AND 0x80 \<noteq> 0"

definition GetMaxPower :: "USBConfig \<Rightarrow> i32" where
  "GetMaxPower c = cf_maxPower c * 2"

subsection \<open>The parcel\<close>

datatype cell = C64 u64 | C32 u32 | C16 u16 | C8 u8 | CStr string

record 'p parcel_ops =
  WriteInt32 :: "i32 \<Rightarrow> 'p \<Rightarrow> bool \<times> 'p"
  WriteUint32 :: "u32 \<Rightarrow> 'p \<Rightarrow> bool \<times> 'p"
  WriteUint16 :: "u16 \<Rightarrow> 'p \<Rightarrow> bool \<times> 'p"
  WriteUint8 :: "u8 \<Rightarrow> 'p \<Rightarrow> bool \<times> 'p"
  WriteString :: "string \<Rightarrow> 'p \<Rightarrow> bool \<times> 'p"
  ReadInt32 :: "('p, i32) state"
  ReadUint32 :: "('p, u32) state"
  ReadUint16 :: "('p, u16) state"
  ReadUint8 :: "('p, u8) state"
  ReadString :: "('p, string) state"

text \<open>
  The documented behaviour of a parcel with room: a write succeeds and appends its value; a read
  of the type of the value at the front removes it. The two 32-bit types share their layout.
\<close>

definition writes :: "('p \<Rightarrow> cell list) \<Rightarrow> ('p \<Rightarrow> bool \<times> 'p) \<Rightarrow> cell list \<Rightarrow> bool" where
  "writes view w cs \<longleftrightarrow> (\<forall>p. fst (w p) \<and> view (snd (w p)) = view p @ cs)"

definition reads :: "('p \<Rightarrow> cell list) \<Rightarrow> ('p, 'a) state \<Rightarrow> cell list \<Rightarrow> 'a \<Rightarrow> bool" where
  "reads view m cs x \<longleftrightarrow>
     (\<forall>p r. view p = cs @ r \<longrightarrow> fst (run_state m p) = x \<and> view (snd (run_state m p)) = r)"

definition parcel_fifo :: "'p parcel_ops \<Rightarrow> ('p \<Rightarrow> cell list) \<Rightarrow> bool" where
  "parcel_fifo ops view \<longleftrightarrow>
     (\<forall>v. writes view (WriteInt32 ops v) [C32 v]) \<and> (\<forall>v. reads view (ReadInt32 ops) [C32 v] v) \<and>
     (\<forall>v. writes view (WriteUint32 ops v) [C32 v]) \<and> (\<forall>v. reads view (ReadUint32 ops) [C32 v] v) \<and>
     (\<forall>v. writes view (WriteUint16 ops v) [C16 v]) \<and> (\<forall>v. reads view (ReadUint16 ops) [C16 v] v) \<and>
     (\<forall>v. writes view (WriteUint8 ops v) [C8 v]) \<and> (\<forall>v. reads view (ReadUint8 ops) [C8 v] v) \<and>
     (\<forall>v. writes view (WriteString ops v) [CStr v]) \<and> (\<forall>v. reads view (ReadString ops) [CStr v] v)"

subsection \<open>Marshalling\<close>

text \<open>
  \<^verbatim>\<open>WRITE_PARCEL_AND_RETURN_FALSE_WHEN_FAIL\<close> in sequence: the first write that fails ends
  the method with \<open>False\<close>.
\<close>

fun write_seq :: "('p \<Rightarrow> bool \<times> 'p) list \<Rightarrow> 'p \<Rightarrow> bool \<times> 'p" where
  "write_seq [] p = (True, p)"
| "write_seq (w # ws) p = (case w p of (ok, p') \<Rightarrow> if ok then write_seq ws p' else (False, p'))"

text \<open>The loops over contained objects write at most 128 of them and ignore what each returns.\<close>

definition MAX_NUM :: nat where "MAX_NUM = 128"

definition loop_count :: "u32 \<Rightarrow> nat" where
  "loop_count n = min (unat n) MAX_NUM"

fun write_each :: "('a \<Rightarrow> 'p \<Rightarrow> bool \<times> 'p) \<Rightarrow> 'a list \<Rightarrow> 'p \<Rightarrow> bool \<times> 'p" where
  "write_each w [] p = (True, p)"
| "write_each w (x # xs) p = write_each w xs (snd (w x p))"

fun read_each :: "('p, 'a) state \<Rightarrow> nat \<Rightarrow> ('p, 'a list) state" where
  "read_each r 0 = State_Monad.return []"
| "read_each r (Suc n) = do { x \<leftarrow> r; xs \<leftarrow> read_each r n; State_Monad.return (x # xs) }"

definition size32 :: "'a list \<Rightarrow> u32" where
  "size32 xs = word_of_nat (length xs)"

definition marshal_endpoint :: "'p parcel_ops \<Rightarrow> USBEndpoint \<Rightarrow> 'p \<Rightarrow> bool \<times> 'p" where
  "marshal_endpoint ops ep = write_seq
     [WriteUint32 ops (ep_address ep), WriteUint32 ops (ep_attributes ep),
      WriteInt32 ops (ep_interval ep), WriteInt32 ops (ep_maxPacketSize ep),
      WriteUint8 ops (ep_interfaceId ep)]"

definition unmarshal_endpoint :: "'p parcel_ops \<Rightarrow> ('p, USBEndpoint) state" where
  "unmarshal_endpoint ops = do {
     address \<leftarrow> ReadUint32 ops;
     attributes \<leftarrow> ReadUint32 ops;
     interval \<leftarrow> ReadInt32 ops;
     maxPacketSize \<leftarrow> ReadInt32 ops;
     interfaceId \<leftarrow> ReadUint8 ops;
     State_Monad.return (new_endpoint\<lparr>ep_address := address, ep_attributes := attributes,
       ep_interval := interval, ep_maxPacketSize := maxPacketSize,
       ep_interfaceId := interfaceId\<rparr>) }"

definition marshal_interface :: "'p parcel_ops \<Rightarrow> UsbInterface \<Rightarrow> 'p \<Rightarrow> bool \<times> 'p" where
  "marshal_interface ops i = write_seq
     [WriteInt32 ops (if_id i), WriteInt32 ops (if_protocol i), WriteInt32 ops (if_klass i),
      WriteInt32 ops (if_subClass i), WriteInt32 ops (if_alternateSetting i),
      WriteString ops (if_name i), WriteUint8 ops (if_iInterface i),
      WriteUint32 ops (size32 (if_endpoints i)),
      write_each (marshal_endpoint ops)
        (take (loop_count (size32 (if_endpoints i))) (if_endpoints i))]"

definition unmarshal_interface :: "'p parcel_ops \<Rightarrow> ('p, UsbInterface) state" where
  "unmarshal_interface ops = do {
     id \<leftarrow> ReadInt32 ops;
     protocol \<leftarrow> ReadInt32 ops;
     klass \<leftarrow> ReadInt32 ops;
     subClass \<leftarrow> ReadInt32 ops;
     alternateSetting \<leftarrow> ReadInt32 ops;
     name \<leftarrow> ReadString ops;
     iInterface \<leftarrow> ReadUint8 ops;
     epCount \<leftarrow> ReadUint32 ops;
     endpoints \<leftarrow> read_each (unmarshal_endpoint ops) (loop_count epCount);
     State_Monad.return (new_interface\<lparr>if_id := id, if_protocol := protocol, if_klass := klass,
       if_subClass := subClass, if_alternateSetting := alternateSetting, if_name := name,
       if_iInterface := iInterface, if_endpoints := endpoints\<rparr>) }"

definition marshal_config :: "'p parcel_ops \<Rightarrow> USBConfig \<Rightarrow> 'p \<Rightarrow> bool \<times> 'p" where
  "marshal_config ops c = write_seq
     [WriteInt32 ops (cf_id c), WriteUint32 ops (cf_attributes c), WriteInt32 ops (cf_maxPower c),
      WriteUint8 ops (cf_iConfiguration c), WriteString ops (cf_name c),
      WriteUint32 ops (size32 (cf_interfaces c)),
      write_each (marshal_interface ops)
        (take (loop_count (size32 (cf_interfaces c))) (cf_interfaces c))]"

definition unmarshal_config :: "'p parcel_ops \<Rightarrow> ('p, USBConfig) state" where
  "unmarshal_config ops = do {
     id \<leftarrow> ReadInt32 ops;
     attributes \<leftarrow> ReadUint32 ops;
     maxPower \<leftarrow> ReadInt32 ops;
     iConfiguration \<leftarrow> ReadUint8 ops;
     name \<leftarrow> ReadString ops;
     infCount \<leftarrow> ReadUint32 ops;
     interfaces \<leftarrow> read_each (unmarshal_interface ops) (loop_count infCount);
     State_Monad.return (new_config\<lparr>cf_id := id, cf_attributes := attributes,
       cf_maxPower := maxPower, cf_iConfiguration := iConfiguration, cf_name := name,
       cf_interfaces := interfaces\<rparr>) }"

definition marshal_device :: "'p parcel_ops \<Rightarrow> UsbDevice \<Rightarrow> 'p \<Rightarrow> bool \<times> 'p" where
  "marshal_device ops d = write_seq
     [WriteUint8 ops (dev_busNum d), WriteUint8 ops (dev_devAddr d),
      WriteInt32 ops (dev_vendorId d), WriteInt32 ops (dev_productId d),
      WriteInt32 ops (dev_baseClass d), WriteInt32 ops (dev_subClass d),
      WriteInt32 ops (dev_protocol d), WriteUint8 ops (dev_iManufacturer d),
      WriteUint8 ops (dev_iProduct d), WriteUint8 ops (dev_iSerialNumber d),
      WriteUint8 ops (dev_bMaxPacketSize0 d), WriteUint16 ops (dev_bcdUSB d),
      WriteUint16 ops (dev_bcdDevice d), WriteString ops (dev_name d),
      WriteString ops (dev_manufacturerName d), WriteString ops (dev_productName d),
      WriteString ops (dev_version d), WriteString ops (dev_serial d),
      WriteInt32 ops (size32 (dev_configs d)),
      write_each (marshal_config ops)
        (take (loop_count (size32 (dev_configs d))) (dev_configs d))]"

definition unmarshal_device :: "'p parcel_ops \<Rightarrow> ('p, UsbDevice) state" where
  "unmarshal_device ops = do {
     busNum \<leftarrow> ReadUint8 ops;
     devAddr \<leftarrow> ReadUint8 ops;
     vendorId \<leftarrow> ReadInt32 ops;
     productId \<leftarrow> ReadInt32 ops;
     baseClass \<leftarrow> ReadInt32 ops;
     subClass \<leftarrow> ReadInt32 ops;
     protocol \<leftarrow> ReadInt32 ops;
     iManufacturer \<leftarrow> ReadUint8 ops;
     iProduct \<leftarrow> ReadUint8 ops;
     iSerialNumber \<leftarrow> ReadUint8 ops;
     bMaxPacketSize0 \<leftarrow> ReadUint8 ops;
     bcdUSB \<leftarrow> ReadUint16 ops;
     bcdDevice \<leftarrow> ReadUint16 ops;
     name \<leftarrow> ReadString ops;
     manufacturerName \<leftarrow> ReadString ops;
     productName \<leftarrow> ReadString ops;
     version \<leftarrow> ReadString ops;
     serial \<leftarrow> ReadString ops;
     configCount \<leftarrow> ReadUint32 ops;
     configs \<leftarrow> read_each (unmarshal_config ops) (loop_count configCount);
     State_Monad.return (new_device\<lparr>dev_busNum := busNum, dev_devAddr := devAddr,
       dev_vendorId := vendorId, dev_productId := productId, dev_baseClass := baseClass,
       dev_subClass := subClass, dev_protocol := protocol, dev_iManufacturer := iManufacturer,
       dev_iProduct := iProduct, dev_iSerialNumber := iSerialNumber,
       dev_bMaxPacketSize0 := bMaxPacketSize0, dev_bcdUSB := bcdUSB,
       dev_bcdDevice := bcdDevice, dev_name := name, dev_manufacturerName := manufacturerName,
       dev_productName := productName, dev_version := version, dev_serial := serial,
       dev_configs := configs\<rparr>) }"

subsection \<open>What a receiver sees\<close>

text \<open>
  The abstract contract: the receiver's object has the marshalled members of the sender's, at
  most 128 objects in each list, and the defaults in the members that are not marshalled
  (\<^verbatim>\<open>authorized_\<close> of an interface, \<^verbatim>\<open>authorizeStatus_\<close> and
  \<^verbatim>\<open>descConfigCount_\<close> of a device).
\<close>

definition first_objects :: "('a \<Rightarrow> 'b) \<Rightarrow> 'a list \<Rightarrow> 'b list" where
  "first_objects f xs = map f (take (loop_count (size32 xs)) xs)"

definition received_interface :: "UsbInterface \<Rightarrow> UsbInterface" where
  "received_interface i = i\<lparr>if_endpoints := first_objects (\<lambda>e. e) (if_endpoints i),
     if_authorized := True\<rparr>"

definition received_config :: "USBConfig \<Rightarrow> USBConfig" where
  "received_config c = c\<lparr>cf_interfaces := first_objects received_interface (cf_interfaces c)\<rparr>"

definition received_device :: "UsbDevice \<Rightarrow> UsbDevice" where
  "received_device d = d\<lparr>dev_configs := first_objects received_config (dev_configs d),
     dev_authorizeStatus := ENABLED, dev_descConfigCount := 255\<rparr>"

definition wire_list :: "('a \<Rightarrow> cell list) \<Rightarrow> 'a list \<Rightarrow> cell list" where
  "wire_list w xs = C32 (size32 xs) # concat (first_objects w xs)"

definition wire_endpoint :: "USBEndpoint \<Rightarrow> cell list" where
  "wire_endpoint ep = [C32 (ep_address ep), C32 (ep_attributes ep), C32 (ep_interval ep),
     C32 (ep_maxPacketSize ep), C8 (ep_interfaceId ep)]"

definition wire_interface :: "UsbInterface \<Rightarrow> cell list" where
  "wire_interface i = [C32 (if_id i), C32 (if_protocol i), C32 (if_klass i), C32 (if_subClass i),
     C32 (if_alternateSetting i), CStr (if_name i), C8 (if_iInterface i)]
     @ wire_list wire_endpoint (if_endpoints i)"

definition wire_config :: "USBConfig \<Rightarrow> cell list" where
  "wire_config c = [C32 (cf_id c), C32 (cf_attributes c), C32 (cf_maxPower c),
     C8 (cf_iConfiguration c), CStr (cf_name c)] @ wire_list wire_interface (cf_interfaces c)"

definition wire_device :: "UsbDevice \<Rightarrow> cell list" where
  "wire_device d = [C8 (dev_busNum d), C8 (dev_devAddr d), C32 (dev_vendorId d),
     C32 (dev_productId d), C32 (dev_baseClass d), C32 (dev_subClass d), C32 (dev_protocol d),
     C8 (dev_iManufacturer d), C8 (dev_iProduct d), C8 (dev_iSerialNumber d),
     C8 (dev_bMaxPacketSize0 d), C16 (dev_bcdUSB d), C16 (dev_bcdDevice d), CStr (dev_name d),
     CStr (dev_manufacturerName d), CStr (dev_productName d), CStr (dev_version d),
     CStr (dev_serial d)] @ wire_list wire_config (dev_configs d)"

text \<open>A parcel as the queue of its cells, with every read of a missing or wrong cell zero.\<close>

definition list_read :: "(cell \<Rightarrow> 'a option) \<Rightarrow> 'a \<Rightarrow> (cell list, 'a) state" where
  "list_read sel dflt = State (\<lambda>p. case p of [] \<Rightarrow> (dflt, [])
     | c # r \<Rightarrow> (case sel c of Some v \<Rightarrow> (v, r) | None \<Rightarrow> (dflt, p)))"

definition queue_parcel :: "cell list parcel_ops" where
  "queue_parcel = \<lparr>
     WriteInt32 = (\<lambda>v p. (True, p @ [C32 v])), WriteUint32 = (\<lambda>v p. (True, p @ [C32 v])),
     WriteUint16 = (\<lambda>v p. (True, p @ [C16 v])), WriteUint8 = (\<lambda>v p. (True, p @ [C8 v])),
     WriteString = (\<lambda>v p. (True, p @ [CStr v])),
     ReadInt32 = list_read (\<lambda>c. case c of C32 v \<Rightarrow> Some v | _ \<Rightarrow> None) 0,
     ReadUint32 = list_read (\<lambda>c. case c of C32 v \<Rightarrow> Some v | _ \<Rightarrow> None) 0,
     ReadUint16 = list_read (\<lambda>c. case c of C16 v \<Rightarrow> Some v | _ \<Rightarrow> None) 0,
     ReadUint8 = list_read (\<lambda>c. case c of C8 v \<Rightarrow> Some v | _ \<Rightarrow> None) 0,
     ReadString = list_read (\<lambda>c. case c of CStr v \<Rightarrow> Some v | _ \<Rightarrow> None) []\<rparr>"

subsection \<open>Sequences of reads and writes\<close>

lemma writes_seq: "list_all2 (writes view) ws css \<Longrightarrow> writes view (write_seq ws) (concat css)"
proof (induction ws css rule: list_all2_induct)
  case Nil
  then show ?case by (simp add: writes_def)
next
  case (Cons w ws cs css)
  then show ?case by (simp add: writes_def case_prod_beta)
qed

lemma reads_return: "x = y \<Longrightarrow> reads view (State_Monad.return x) [] y"
  by (simp add: reads_def)

lemma reads_bind:
  "reads view m cs x \<Longrightarrow> reads view (f x) ds y \<Longrightarrow> reads view (State_Monad.bind m f) (cs @ ds) y"
  by (simp add: reads_def State_Monad.bind_def case_prod_beta)

lemma reads_bind_last:
  "reads view m cs x \<Longrightarrow> reads view (f x) [] y \<Longrightarrow> reads view (State_Monad.bind m f) cs y"
  using reads_bind [of view m cs x f "[]" y] by simp

lemma parcel_fifo_writes [intro]:
  assumes "parcel_fifo ops view"
  shows "writes view (WriteInt32 ops v) [C32 v]" and "writes view (WriteUint32 ops v) [C32 v]"
    and "writes view (WriteUint16 ops h) [C16 h]" and "writes view (WriteUint8 ops b) [C8 b]"
    and "writes view (WriteString ops s) [CStr s]"
  using assms by (simp_all add: parcel_fifo_def)

lemma reads_cell_bind:
  assumes "parcel_fifo ops view"
  shows "reads view (f v) ds y \<Longrightarrow> reads view (State_Monad.bind (ReadInt32 ops) f) (C32 v # ds) y"
    and "reads view (f v) ds y \<Longrightarrow> reads view (State_Monad.bind (ReadUint32 ops) f) (C32 v # ds) y"
    and "reads view (g h) ds y \<Longrightarrow> reads view (State_Monad.bind (ReadUint16 ops) g) (C16 h # ds) y"
    and "reads view (k b) ds y \<Longrightarrow> reads view (State_Monad.bind (ReadUint8 ops) k) (C8 b # ds) y"
    and "reads view (q s) ds y \<Longrightarrow> reads view (State_Monad.bind (ReadString ops) q) (CStr s # ds) y"
  using assms reads_bind [where cs = "[_]"] unfolding parcel_fifo_def by (metis append_Cons append_Nil)+

lemma min_loop_count: "min (length xs) (loop_count (size32 xs)) = loop_count (size32 xs)"
  by (simp add: loop_count_def size32_def unat_of_nat min_def le_trans [OF mod_less_eq_dividend])

subsection \<open>The contract of a marshallable class\<close>

locale parcelable =
  fixes marshal :: "'p parcel_ops \<Rightarrow> 'a \<Rightarrow> 'p \<Rightarrow> bool \<times> 'p"
    and unmarshal :: "'p parcel_ops \<Rightarrow> ('p, 'a) state"
    and wire :: "'a \<Rightarrow> cell list"
    and received :: "'a \<Rightarrow> 'a"
  assumes marshal_wire: "parcel_fifo ops view \<Longrightarrow> writes view (marshal ops x) (wire x)"
    and unmarshal_wire: "parcel_fifo ops view \<Longrightarrow> reads view (unmarshal ops) (wire x) (received x)"
begin

text \<open>The counted loops of the containing class write and read the objects one after the other.\<close>

lemma write_each_wire:
  "parcel_fifo ops view \<Longrightarrow> writes view (write_each (marshal ops) xs) (concat (map wire xs))"
  using marshal_wire [of ops view] by (induction xs) (simp_all add: writes_def)

lemma read_each_wire:
  "parcel_fifo ops view \<Longrightarrow>
     reads view (read_each (unmarshal ops) (length xs)) (concat (map wire xs)) (map received xs)"
proof (induction xs)
  case Nil
  show ?case by (simp add: reads_return)
next
  case (Cons x xs)
  from Cons show ?case
    by (auto intro: reads_bind [OF unmarshal_wire] reads_bind_last reads_return)
qed

lemma write_count_wire:
  "parcel_fifo ops view \<Longrightarrow> writes view (write_each (marshal ops) (take (loop_count (size32 xs)) xs))
     (concat (first_objects wire xs))"
  by (simp add: first_objects_def write_each_wire)

lemma read_count_wire:
  assumes "parcel_fifo ops view"
  shows "reads view (read_each (unmarshal ops) (loop_count (size32 xs)))
     (concat (first_objects wire xs)) (first_objects received xs)"
  using read_each_wire [OF assms, of "take (loop_count (size32 xs)) xs"]
  by (simp add: first_objects_def min_loop_count)

text \<open>Sending an object and receiving it, with what was in the parcel before read first.\<close>

lemma send_receive:
  assumes "parcel_fifo ops view" and "view p = []"
  shows "fst (marshal ops x p) \<and>
    fst (run_state (unmarshal ops) (snd (marshal ops x p))) = received x \<and>
    view (snd (run_state (unmarshal ops) (snd (marshal ops x p)))) = []"
  using marshal_wire [OF assms(1), of x] unmarshal_wire [OF assms(1), of x] assms(2)
  by (simp add: writes_def reads_def)

end

interpretation endpoint: parcelable marshal_endpoint unmarshal_endpoint wire_endpoint "\<lambda>e. e"
proof
  fix ops :: "'p parcel_ops" and view x
  assume f: "parcel_fifo ops view"
  show "writes view (marshal_endpoint ops x) (wire_endpoint x)"
    unfolding marshal_endpoint_def wire_endpoint_def
    using writes_seq [of view _ "[[C32 (ep_address x)], [C32 (ep_attributes x)],
      [C32 (ep_interval x)], [C32 (ep_maxPacketSize x)], [C8 (ep_interfaceId x)]]"] f
    by (simp add: parcel_fifo_writes [OF f])
  show "reads view (unmarshal_endpoint ops) (wire_endpoint x) x"
    unfolding unmarshal_endpoint_def wire_endpoint_def
    by (intro reads_cell_bind [OF f] reads_return) (simp add: new_endpoint_def)
qed

interpretation interface: parcelable marshal_interface unmarshal_interface wire_interface
    received_interface
proof
  fix ops :: "'p parcel_ops" and view x
  assume f: "parcel_fifo ops view"
  show "writes view (marshal_interface ops x) (wire_interface x)"
    unfolding marshal_interface_def wire_interface_def wire_list_def
    using writes_seq [of view _ "[[C32 (if_id x)], [C32 (if_protocol x)], [C32 (if_klass x)],
      [C32 (if_subClass x)], [C32 (if_alternateSetting x)], [CStr (if_name x)],
      [C8 (if_iInterface x)], [C32 (size32 (if_endpoints x))],
      concat (first_objects wire_endpoint (if_endpoints x))]"]
    by (simp add: parcel_fifo_writes [OF f] endpoint.write_count_wire [OF f])
  show "reads view (unmarshal_interface ops) (wire_interface x) (received_interface x)"
    unfolding unmarshal_interface_def wire_interface_def wire_list_def append_Cons append_Nil
    by (intro reads_cell_bind [OF f] reads_bind_last [OF endpoint.read_count_wire [OF f]]
        reads_return) (simp add: new_interface_def received_interface_def)
qed

interpretation config: parcelable marshal_config unmarshal_config wire_config received_config
proof
  fix ops :: "'p parcel_ops" and view x
  assume f: "parcel_fifo ops view"
  show "writes view (marshal_config ops x) (wire_config x)"
    unfolding marshal_config_def wire_config_def wire_list_def
    using writes_seq [of view _ "[[C32 (cf_id x)], [C32 (cf_attributes x)],
      [C32 (cf_maxPower x)], [C8 (cf_iConfiguration x)], [CStr (cf_name x)],
      [C32 (size32 (cf_interfaces x))],
      concat (first_objects wire_interface (cf_interfaces x))]"]
    by (simp add: parcel_fifo_writes [OF f] interface.write_count_wire [OF f])
  show "reads view (unmarshal_config ops) (wire_config x) (received_config x)"
    unfolding unmarshal_config_def wire_config_def wire_list_def append_Cons append_Nil
    by (intro reads_cell_bind [OF f] reads_bind_last [OF interface.read_count_wire [OF f]]
        reads_return) (simp add: new_config_def received_config_def)
qed

interpretation device: parcelable marshal_device unmarshal_device wire_device received_device
proof
  fix ops :: "'p parcel_ops" and view x
  assume f: "parcel_fifo ops view"
  show "writes view (marshal_device ops x) (wire_device x)"
    unfolding marshal_device_def wire_device_def wire_list_def
    using writes_seq [of view _ "[[C8 (dev_busNum x)], [C8 (dev_devAddr x)],
      [C32 (dev_vendorId x)], [C32 (dev_productId x)], [C32 (dev_baseClass x)],
      [C32 (dev_subClass x)], [C32 (dev_protocol x)], [C8 (dev_iManufacturer x)],
      [C8 (dev_iProduct x)], [C8 (dev_iSerialNumber x)], [C8 (dev_bMaxPacketSize0 x)],
      [C16 (dev_bcdUSB x)], [C16 (dev_bcdDevice x)], [CStr (dev_name x)],
      [CStr (dev_manufacturerName x)], [CStr (dev_productName x)], [CStr (dev_version x)],
      [CStr (dev_serial x)], [C32 (size32 (dev_configs x))],
      concat (first_objects wire_config (dev_configs x))]"]
    by (simp add: parcel_fifo_writes [OF f] config.write_count_wire [OF f])
  show "reads view (unmarshal_device ops) (wire_device x) (received_device x)"
    unfolding unmarshal_device_def wire_device_def wire_list_def append_Cons append_Nil
    by (intro reads_cell_bind [OF f] reads_bind_last [OF config.read_count_wire [OF f]]
        reads_return) (simp add: new_device_def received_device_def)
qed

lemma queue_parcel_fifo: "parcel_fifo queue_parcel (\<lambda>p. p)"
  by (simp add: parcel_fifo_def queue_parcel_def writes_def reads_def list_read_def)

text \<open>
  C20: a device sent through a parcel arrives as it was sent. Over any parcel that is a queue,
  \<^verbatim>\<open>UsbDevice::Marshalling\<close> succeeds and \<^verbatim>\<open>UsbDevice::Unmarshalling\<close> returns the
  device with all its configurations, interfaces and endpoints (up to 128 in each list), the
  unmarshalled members at their defaults, and leaves the parcel empty.
\<close>

theorem device_parcel_roundtrip:
  assumes "parcel_fifo ops view" and "view p = []"
  shows "fst (marshal_device ops d p) \<and>
    fst (run_state (unmarshal_device ops) (snd (marshal_device ops d p))) = received_device d \<and>
    view (snd (run_state (unmarshal_device ops) (snd (marshal_device ops d p)))) = []"
  using assms by (rule device.send_receive)

theorem device_parcel_roundtrip_witness:
  "\<exists>d. dev_configs d \<noteq> [] \<and>
     fst (run_state (unmarshal_device queue_parcel) (snd (marshal_device queue_parcel d []))) =
       received_device d"
  using device_parcel_roundtrip [OF queue_parcel_fifo, of "[]"
    "new_device\<lparr>dev_configs := [new_config\<lparr>cf_interfaces := [new_interface]\<rparr>]\<rparr>"]
  by (intro exI [of _ "new_device\<lparr>dev_configs := [new_config\<lparr>cf_interfaces := [new_interface]\<rparr>]\<rparr>"])
    simp

end
