(* ===== verification/Usb_Descriptor.thy ===== *)
theory Usb_Descriptor
  imports Usb_Data
begin

section \<open>Descriptor parser\<close>

text \<open>
  \<^verbatim>\<open>services/native/src/usb_descriptor_parser.cpp\<close>: the device descriptor, the walk over the
  concatenated configuration, interface and endpoint descriptors that the host manager uses,
  and the older per-object parsers of the same class. The bytes a device sends are untrusted,
  so a read outside the buffer is a value of the model (\<open>None\<close>, or \<open>OutOfBounds\<close> where a
  loop may also diverge), and that no such read happens is a theorem. The packed structures of
  \<^verbatim>\<open>usbd_type.h\<close> are records decoded from the bytes in little-endian order.
\<close>

subsection \<open>The packed structures\<close>

record UsbdDeviceDescriptor =
  dd_bLength :: u8
  dd_bDescriptorType :: u8
  dd_bcdUSB :: u16
  dd_bDeviceClass :: u8
  dd_bDeviceSubClass :: u8
  dd_bDeviceProtocol :: u8
  dd_bMaxPacketSize0 :: u8
  dd_idVendor :: u16
  dd_idProduct :: u16
  dd_bcdDevice :: u16
  dd_iManufacturer :: u8
  dd_iProduct :: u8
  dd_iSerialNumber :: u8
  dd_bNumConfigurations :: u8

record UsbdConfigDescriptor =
  cd_bLength :: u8
  cd_bDescriptorType :: u8
  cd_wTotalLength :: u16
  cd_bNumInterfaces :: u8
  cd_bConfigurationValue :: u8
  cd_iConfiguration :: u8
  cd_bmAttributes :: u8
  cd_bMaxPower :: u8

record UsbdInterfaceDescriptor =
  id_bLength :: u8
  id_bDescriptorType :: u8
  id_bInterfaceNumber :: u8
  id_bAlternateSetting :: u8
  id_bNumEndpoints :: u8
  id_bInterfaceClass :: u8
  id_bInterfaceSubClass :: u8
  id_bInterfaceProtocol :: u8
  id_iInterface :: u8

record UsbdEndpointDescriptor =
  ed_bLength :: u8
  ed_bDescriptorType :: u8
  ed_bEndpointAddress :: u8
  ed_bmAttributes :: u8
  ed_wMaxPacketSize :: u16
  ed_bInterval :: u8

definition DESCRIPTOR_TYPE_DEVICE :: u8 where "DESCRIPTOR_TYPE_DEVICE = 1"
definition DESCRIPTOR_TYPE_CONFIG :: u8 where "DESCRIPTOR_TYPE_CONFIG = 2"
definition DESCRIPTOR_TYPE_INTERFACE :: u8 where "DESCRIPTOR_TYPE_INTERFACE = 4"
definition DESCRIPTOR_TYPE_ENDPOINT :: u8 where "DESCRIPTOR_TYPE_ENDPOINT = 5"

lemmas descriptor_types [simp] = DESCRIPTOR_TYPE_DEVICE_def DESCRIPTOR_TYPE_CONFIG_def
  DESCRIPTOR_TYPE_INTERFACE_def DESCRIPTOR_TYPE_ENDPOINT_def

text \<open>Reading \<open>n\<close> bytes at an offset: \<open>None\<close> when they are not all inside the buffer.\<close>

definition read_bytes :: "u8 list \<Rightarrow> nat \<Rightarrow> nat \<Rightarrow> u8 list option" where
  "read_bytes buf off n = (if off + n \<le> length buf then Some (take n (drop off buf)) else None)"

definition le16 :: "u8 \<Rightarrow> u8 \<Rightarrow> u16" where
  "le16 lo hi = ucast lo OR push_bit 8 (ucast hi)"

fun decode_device :: "u8 list \<Rightarrow> UsbdDeviceDescriptor option" where
  "decode_device [b0, b1, b2, b3, b4, b5, b6, b7, b8, b9, b10, b11, b12, b13, b14, b15, b16, b17] =
     Some \<lparr>dd_bLength = b0, dd_bDescriptorType = b1, dd_bcdUSB = le16 b2 b3,
       dd_bDeviceClass = b4, dd_bDeviceSubClass = b5, dd_bDeviceProtocol = b6,
       dd_bMaxPacketSize0 = b7, dd_idVendor = le16 b8 b9, dd_idProduct = le16 b10 b11,
       dd_bcdDevice = le16 b12 b13, dd_iManufacturer = b14, dd_iProduct = b15,
       dd_iSerialNumber = b16, dd_bNumConfigurations = b17\<rparr>"
| "decode_device _ = None"

fun decode_config :: "u8 list \<Rightarrow> UsbdConfigDescriptor option" where
  "decode_config [b0, b1, b2, b3, b4, b5, b6, b7, b8] =
     Some \<lparr>cd_bLength = b0, cd_bDescriptorType = b1, cd_wTotalLength = le16 b2 b3,
       cd_bNumInterfaces = b4, cd_bConfigurationValue = b5, cd_iConfiguration = b6,
       cd_bmAttributes = b7, cd_bMaxPower = b8\<rparr>"
| "decode_config _ = None"

fun decode_interface :: "u8 list \<Rightarrow> UsbdInterfaceDescriptor option" where
  "decode_interface [b0, b1, b2, b3, b4, b5, b6, b7, b8] =
     Some \<lparr>id_bLength = b0, id_bDescriptorType = b1, id_bInterfaceNumber = b2,
       id_bAlternateSetting = b3, id_bNumEndpoints = b4, id_bInterfaceClass = b5,
       id_bInterfaceSubClass = b6, id_bInterfaceProtocol = b7, id_iInterface = b8\<rparr>"
| "decode_interface _ = None"

fun decode_endpoint :: "u8 list \<Rightarrow> UsbdEndpointDescriptor option" where
  "decode_endpoint [b0, b1, b2, b3, b4, b5, b6] =
     Some \<lparr>ed_bLength = b0, ed_bDescriptorType = b1, ed_bEndpointAddress = b2,
       ed_bmAttributes = b3, ed_wMaxPacketSize = le16 b4 b5, ed_bInterval = b6\<rparr>"
| "decode_endpoint _ = None"

definition sizeof_header :: nat where "sizeof_header = 2"
definition sizeof_device :: nat where "sizeof_device = 18"
definition sizeof_config :: nat where "sizeof_config = 9"
definition sizeof_interface :: nat where "sizeof_interface = 9"
definition sizeof_endpoint :: nat where "sizeof_endpoint = 7"
definition NORMAL_ENDPOINT_DESCRIPTOR :: nat where "NORMAL_ENDPOINT_DESCRIPTOR = 7"
definition AUDIO_ENDPOINT_DESCRIPTOR :: nat where "AUDIO_ENDPOINT_DESCRIPTOR = 9"

lemmas descriptor_sizes [simp] = sizeof_header_def sizeof_device_def sizeof_config_def
  sizeof_interface_def sizeof_endpoint_def NORMAL_ENDPOINT_DESCRIPTOR_def
  AUDIO_ENDPOINT_DESCRIPTOR_def

subsection \<open>The device descriptor\<close>

text \<open>
  \<open>buffer\<close> is \<open>None\<close> for the null pointer; otherwise it is the memory at the pointer and
  \<open>len\<close> is the length the caller passes.
\<close>

definition ParseDeviceDescriptor ::
  "u8 list option \<Rightarrow> nat \<Rightarrow> UsbDevice \<Rightarrow> (retcode \<times> UsbDevice) option" where
  "ParseDeviceDescriptor buffer len dev =
     (case buffer of None \<Rightarrow> Some (UEC_SERVICE_INVALID_VALUE, dev)
      | Some buf \<Rightarrow>
        if len = 0 then Some (UEC_SERVICE_INVALID_VALUE, dev)
        else if len < sizeof_device then Some (UEC_SERVICE_INVALID_VALUE, dev)
        else (case Option.bind (read_bytes buf 0 sizeof_device) decode_device of
            None \<Rightarrow> None
          | Some d \<Rightarrow>
              if unat (dd_bLength d) \<noteq> sizeof_device then Some (UEC_SERVICE_INVALID_VALUE, dev)
              else Some (UEC_OK, dev\<lparr>
                dev_vendorId := ucast (dd_idVendor d),
                dev_productId := ucast (dd_idProduct d),
                dev_baseClass := ucast (dd_bDeviceClass d),
                dev_subClass := ucast (dd_bDeviceSubClass d),
                dev_protocol := ucast (dd_bDeviceProtocol d),
                dev_descConfigCount := dd_bNumConfigurations d,
                dev_bMaxPacketSize0 := dd_bMaxPacketSize0 d,
                dev_bcdDevice := dd_bcdDevice d,
                dev_bcdUSB := dd_bcdUSB d,
                dev_iManufacturer := dd_iManufacturer d,
                dev_iProduct := dd_iProduct d,
                dev_iSerialNumber := dd_iSerialNumber d\<rparr>)))"

subsection \<open>The configuration descriptors\<close>

definition config_of :: "UsbdConfigDescriptor \<Rightarrow> USBConfig" where
  "config_of d = new_config\<lparr>cf_id := ucast (cd_bConfigurationValue d),
     cf_attributes := ucast (cd_bmAttributes d), cf_maxPower := ucast (cd_bMaxPower d),
     cf_iConfiguration := cd_iConfiguration d\<rparr>"

definition interface_of :: "UsbdInterfaceDescriptor \<Rightarrow> UsbInterface" where
  "interface_of d = new_interface\<lparr>if_id := ucast (id_bInterfaceNumber d),
     if_protocol := ucast (id_bInterfaceProtocol d),
     if_alternateSetting := ucast (id_bAlternateSetting d),
     if_klass := ucast (id_bInterfaceClass d), if_subClass := ucast (id_bInterfaceSubClass d),
     if_iInterface := id_iInterface d\<rparr>"

definition endpoint_of :: "UsbdEndpointDescriptor \<Rightarrow> USBEndpoint" where
  "endpoint_of d = new_endpoint\<lparr>ep_address := ucast (ed_bEndpointAddress d),
     ep_attributes := ucast (ed_bmAttributes d), ep_interval := ucast (ed_bInterval d),
     ep_maxPacketSize := ucast (ed_wMaxPacketSize d)\<rparr>"

definition AddConfig :: "UsbdConfigDescriptor \<Rightarrow> USBConfig list \<Rightarrow> retcode \<times> USBConfig list" where
  "AddConfig d configs = (UEC_OK, configs @ [config_of d])"

text \<open>Updating \<^verbatim>\<open>configs.back()\<close> and \<^verbatim>\<open>GetInterfaces().back()\<close> in place.\<close>

definition update_last :: "('a \<Rightarrow> 'a) \<Rightarrow> 'a list \<Rightarrow> 'a list" where
  "update_last f xs = (if xs = [] then [] else butlast xs @ [f (last xs)])"

definition AddInterface ::
  "UsbdInterfaceDescriptor \<Rightarrow> USBConfig list \<Rightarrow> retcode \<times> USBConfig list" where
  "AddInterface d configs =
     (if configs = [] then (UEC_SERVICE_INVALID_VALUE, configs)
      else (UEC_OK, update_last (cf_interfaces_update (\<lambda>is. is @ [interface_of d])) configs))"

definition AddEndpoint ::
  "UsbdEndpointDescriptor \<Rightarrow> USBConfig list \<Rightarrow> retcode \<times> USBConfig list" where
  "AddEndpoint d configs =
     (if configs = [] \<or> cf_interfaces (last configs) = [] then (UEC_SERVICE_INVALID_VALUE, configs)
      else let ep = (endpoint_of d)\<lparr>ep_interfaceId := ucast (if_id (last (cf_interfaces (last configs))))\<rparr>
           in (UEC_OK, update_last (cf_interfaces_update
                 (update_last (if_endpoints_update (\<lambda>es. es @ [ep])))) configs))"

text \<open>One turn of the \<^verbatim>\<open>switch\<close> on the descriptor type; \<open>None\<close> is a read outside the buffer.\<close>

definition parse_one :: "u8 list \<Rightarrow> nat \<Rightarrow> u8 \<Rightarrow> u8 \<Rightarrow> USBConfig list \<Rightarrow>
    (retcode \<times> USBConfig list) option" where
  "parse_one buf cursor bLength bDescriptorType configs =
     (if bDescriptorType = DESCRIPTOR_TYPE_CONFIG then
        if unat bLength \<noteq> sizeof_config then Some (UEC_SERVICE_INVALID_VALUE, configs)
        else map_option (\<lambda>d. AddConfig d configs)
               (Option.bind (read_bytes buf cursor sizeof_config) decode_config)
      else if bDescriptorType = DESCRIPTOR_TYPE_INTERFACE then
        if unat bLength \<noteq> sizeof_interface then Some (UEC_SERVICE_INVALID_VALUE, configs)
        else map_option (\<lambda>d. AddInterface d configs)
               (Option.bind (read_bytes buf cursor sizeof_interface) decode_interface)
      else if bDescriptorType = DESCRIPTOR_TYPE_ENDPOINT then
        if unat bLength \<noteq> NORMAL_ENDPOINT_DESCRIPTOR \<and> unat bLength \<noteq> AUDIO_ENDPOINT_DESCRIPTOR
        then Some (UEC_SERVICE_INVALID_VALUE, configs)
        else map_option (\<lambda>d. AddEndpoint d configs)
               (Option.bind (read_bytes buf cursor sizeof_endpoint) decode_endpoint)
      else Some (UEC_OK, configs))"

function parse_loop :: "u8 list \<Rightarrow> nat \<Rightarrow> nat \<Rightarrow> USBConfig list \<Rightarrow>
    (retcode \<times> USBConfig list) option" where
  "parse_loop buf len cursor configs =
     (if cursor < len then
        if len - cursor < sizeof_header then Some (UEC_OK, configs)
        else case read_bytes buf cursor sizeof_header of
            Some [bLength, bDescriptorType] \<Rightarrow>
              if unat bLength < sizeof_header \<or> len - cursor < unat bLength
              then Some (UEC_OK, configs)
              else (case parse_one buf cursor bLength bDescriptorType configs of
                  None \<Rightarrow> None
                | Some (ret, configs') \<Rightarrow>
                    if ret \<noteq> UEC_OK then Some (ret, configs')
                    else parse_loop buf len (cursor + unat bLength) configs')
          | _ \<Rightarrow> None
      else Some (UEC_OK, configs))"
  by pat_completeness auto
termination
  by (relation "measure (\<lambda>(buf, len, cursor, configs). len - cursor)") auto

declare parse_loop.simps [simp del]

text \<open>The length is the vector's size cut to 32 bits; the cursor never passes it.\<close>

definition ParseConfigDescriptors ::
  "u8 list \<Rightarrow> nat \<Rightarrow> USBConfig list \<Rightarrow> (retcode \<times> USBConfig list) option" where
  "ParseConfigDescriptors descriptor offset configs =
     parse_loop descriptor (length descriptor mod 2 ^ 32) offset configs"

subsection \<open>The stream of descriptors as an abstract specification\<close>

text \<open>
  A configuration block is a sequence of descriptors; the parser's contract is to add them one
  after the other and to skip what it does not know. An audio endpoint carries two more bytes,
  an unknown descriptor any body that fits its length byte.
\<close>

datatype descriptor =
    Config UsbdConfigDescriptor
  | Interface UsbdInterfaceDescriptor
  | Endpoint UsbdEndpointDescriptor "u8 list"
  | Unknown u8 "u8 list"

definition lo8 :: "u16 \<Rightarrow> u8" where "lo8 w = ucast w"
definition hi8 :: "u16 \<Rightarrow> u8" where "hi8 w = ucast (drop_bit 8 w)"

fun encode_descriptor :: "descriptor \<Rightarrow> u8 list" where
  "encode_descriptor (Config d) = [9, 2, lo8 (cd_wTotalLength d), hi8 (cd_wTotalLength d),
     cd_bNumInterfaces d, cd_bConfigurationValue d, cd_iConfiguration d, cd_bmAttributes d,
     cd_bMaxPower d]"
| "encode_descriptor (Interface d) = [9, 4, id_bInterfaceNumber d, id_bAlternateSetting d,
     id_bNumEndpoints d, id_bInterfaceClass d, id_bInterfaceSubClass d,
     id_bInterfaceProtocol d, id_iInterface d]"
| "encode_descriptor (Endpoint d extra) = [word_of_nat (7 + length extra), 5,
     ed_bEndpointAddress d, ed_bmAttributes d, lo8 (ed_wMaxPacketSize d),
     hi8 (ed_wMaxPacketSize d), ed_bInterval d] @ extra"
| "encode_descriptor (Unknown t body) = [word_of_nat (2 + length body), t] @ body"

fun descriptor_wf :: "descriptor \<Rightarrow> bool" where
  "descriptor_wf (Config d) = True"
| "descriptor_wf (Interface d) = True"
| "descriptor_wf (Endpoint d extra) = (length extra = 0 \<or> length extra = 2)"
| "descriptor_wf (Unknown t body) = (t \<notin> {2, 4, 5} \<and> length body \<le> 253)"

fun add_descriptor :: "descriptor \<Rightarrow> USBConfig list \<Rightarrow> retcode \<times> USBConfig list" where
  "add_descriptor (Config d) configs = AddConfig d configs"
| "add_descriptor (Interface d) configs = AddInterface d configs"
| "add_descriptor (Endpoint d extra) configs = AddEndpoint d configs"
| "add_descriptor (Unknown t body) configs = (UEC_OK, configs)"

fun add_descriptors :: "descriptor list \<Rightarrow> USBConfig list \<Rightarrow> retcode \<times> USBConfig list" where
  "add_descriptors [] configs = (UEC_OK, configs)"
| "add_descriptors (d # ds) configs =
     (case add_descriptor d configs of (ret, configs') \<Rightarrow>
        if ret \<noteq> UEC_OK then (ret, configs') else add_descriptors ds configs')"

definition encode_descriptors :: "descriptor list \<Rightarrow> u8 list" where
  "encode_descriptors ds = concat (map encode_descriptor ds)"

text \<open>The stream of a configuration tree whose members fit their descriptor fields.\<close>

definition endpoint_descriptor :: "USBEndpoint \<Rightarrow> descriptor" where
  "endpoint_descriptor e = Endpoint \<lparr>ed_bLength = 7, ed_bDescriptorType = 5,
     ed_bEndpointAddress = ucast (ep_address e), ed_bmAttributes = ucast (ep_attributes e),
     ed_wMaxPacketSize = ucast (ep_maxPacketSize e), ed_bInterval = ucast (ep_interval e)\<rparr> []"

definition interface_stream :: "UsbInterface \<Rightarrow> descriptor list" where
  "interface_stream i = Interface \<lparr>id_bLength = 9, id_bDescriptorType = 4,
     id_bInterfaceNumber = ucast (if_id i), id_bAlternateSetting = ucast (if_alternateSetting i),
     id_bNumEndpoints = word_of_nat (length (if_endpoints i)),
     id_bInterfaceClass = ucast (if_klass i), id_bInterfaceSubClass = ucast (if_subClass i),
     id_bInterfaceProtocol = ucast (if_protocol i), id_iInterface = if_iInterface i\<rparr>
     # map endpoint_descriptor (if_endpoints i)"

definition config_stream :: "u16 \<Rightarrow> USBConfig \<Rightarrow> descriptor list" where
  "config_stream wTotal c = Config \<lparr>cd_bLength = 9, cd_bDescriptorType = 2,
     cd_wTotalLength = wTotal, cd_bNumInterfaces = word_of_nat (length (cf_interfaces c)),
     cd_bConfigurationValue = ucast (cf_id c), cd_iConfiguration = cf_iConfiguration c,
     cd_bmAttributes = ucast (cf_attributes c), cd_bMaxPower = ucast (cf_maxPower c)\<rparr>
     # concat (map interface_stream (cf_interfaces c))"

definition endpoint_fits :: "UsbInterface \<Rightarrow> USBEndpoint \<Rightarrow> bool" where
  "endpoint_fits i e \<longleftrightarrow> ep_address e < 256 \<and> ep_attributes e < 256 \<and> ep_interval e < 256 \<and>
     ep_maxPacketSize e < 65536 \<and> ep_interfaceId e = ucast (if_id i)"

definition interface_fits :: "UsbInterface \<Rightarrow> bool" where
  "interface_fits i \<longleftrightarrow> if_id i < 256 \<and> if_protocol i < 256 \<and> if_klass i < 256 \<and>
     if_subClass i < 256 \<and> if_alternateSetting i < 256 \<and> if_name i = [] \<and> if_authorized i \<and>
     list_all (endpoint_fits i) (if_endpoints i)"

definition config_fits :: "USBConfig \<Rightarrow> bool" where
  "config_fits c \<longleftrightarrow> cf_id c < 256 \<and> cf_attributes c < 256 \<and> cf_maxPower c < 256 \<and>
     cf_name c = [] \<and> list_all interface_fits (cf_interfaces c)"

text \<open>Every endpoint carries the number of the interface it hangs under.\<close>

definition endpoints_owned :: "USBConfig list \<Rightarrow> bool" where
  "endpoints_owned configs \<longleftrightarrow> (\<forall>c \<in> set configs. \<forall>i \<in> set (cf_interfaces c).
     \<forall>e \<in> set (if_endpoints i). ep_interfaceId e = ucast (if_id i))"

text \<open>A mass-storage configuration, and its bytes.\<close>

definition sample_config :: USBConfig where
  "sample_config = new_config\<lparr>cf_id := 1, cf_attributes := 0xA0, cf_maxPower := 50,
     cf_iConfiguration := 3, cf_interfaces := [new_interface\<lparr>if_id := 2, if_protocol := 80,
       if_klass := 8, if_subClass := 6, if_alternateSetting := 0, if_iInterface := 0,
       if_endpoints := [new_endpoint\<lparr>ep_address := 0x81, ep_attributes := 2, ep_interval := 0,
         ep_maxPacketSize := 512, ep_interfaceId := 2\<rparr>]\<rparr>]\<rparr>"

definition sample_bytes :: "u8 list" where
  "sample_bytes = [9, 2, 25, 0, 1, 1, 3, 0xA0, 50, 9, 4, 2, 0, 1, 8, 6, 80, 0,
     7, 5, 0x81, 2, 0, 2, 0]"

subsection \<open>Reads inside the buffer\<close>

lemma read_bytes_Some:
  "off + n \<le> length buf \<Longrightarrow> read_bytes buf off n = Some (take n (drop off buf))"
  by (simp add: read_bytes_def)

lemma read_bytes_append [simp]:
  "n \<le> length bs \<Longrightarrow> read_bytes (pre @ bs @ post) (length pre) n = Some (take n bs)"
  by (simp add: read_bytes_def)

lemma decode_config_total: "length bs = 9 \<Longrightarrow> \<exists>d. decode_config bs = Some d"
  by (auto simp: numeral_eq_Suc length_Suc_conv)

lemma decode_interface_total: "length bs = 9 \<Longrightarrow> \<exists>d. decode_interface bs = Some d"
  by (auto simp: numeral_eq_Suc length_Suc_conv)

lemma decode_endpoint_total: "length bs = 7 \<Longrightarrow> \<exists>d. decode_endpoint bs = Some d"
  by (auto simp: numeral_eq_Suc length_Suc_conv)

lemma decode_device_total: "length bs = 18 \<Longrightarrow> \<exists>d. decode_device bs = Some d"
  by (auto simp: numeral_eq_Suc length_Suc_conv)

lemma decode_device_bLength: "decode_device bs = Some d \<Longrightarrow> dd_bLength d = bs ! 0"
  by (erule decode_device.elims) auto

lemma decode_header: "length bs = 2 \<Longrightarrow> \<exists>b t. bs = [b, t]"
  by (auto simp: numeral_eq_Suc length_Suc_conv)

lemma read_decode_total:
  assumes "off + n \<le> length buf" and "\<And>bs. length bs = n \<Longrightarrow> \<exists>d. decode bs = Some d"
  shows "\<exists>d. Option.bind (read_bytes buf off n) decode = Some d"
  using assms(1) assms(2) [of "take n (drop off buf)"] by (simp add: read_bytes_Some)

lemma read_header: "off + 2 \<le> length buf \<Longrightarrow> \<exists>b t. read_bytes buf off 2 = Some [b, t]"
  using decode_header [of "take 2 (drop off buf)"] by (simp add: read_bytes_Some)

lemma read_decode_totals:
  "off + 9 \<le> length buf \<Longrightarrow> \<exists>d. Option.bind (read_bytes buf off 9) decode_config = Some d"
  "off + 9 \<le> length buf \<Longrightarrow> \<exists>d. Option.bind (read_bytes buf off 9) decode_interface = Some d"
  "off + 7 \<le> length buf \<Longrightarrow> \<exists>d. Option.bind (read_bytes buf off 7) decode_endpoint = Some d"
  by (erule read_decode_total, erule decode_config_total decode_interface_total decode_endpoint_total)+

text \<open>A descriptor whose length byte fits the rest of the buffer is added without a stray read.\<close>

lemma parse_one_total:
  assumes "cursor + unat bLength \<le> length buf"
  shows "\<exists>ret configs'. parse_one buf cursor bLength t configs = Some (ret, configs') \<and>
    ret \<in> {UEC_OK, UEC_SERVICE_INVALID_VALUE}"
proof -
  consider (config) "t = 2" "unat bLength = 9" | (interface) "t = 4" "unat bLength = 9"
    | (endpoint) "t = 5" "unat bLength = 7 \<or> unat bLength = 9"
    | (other) "t = 2 \<longrightarrow> unat bLength \<noteq> 9" "t = 4 \<longrightarrow> unat bLength \<noteq> 9"
        "t = 5 \<longrightarrow> unat bLength \<noteq> 7 \<and> unat bLength \<noteq> 9"
    by blast
  then show ?thesis
  proof cases
    case config
    with read_decode_totals(1) [where off = cursor and buf = buf] assms show ?thesis
      by (auto simp: parse_one_def AddConfig_def)
  next
    case interface
    with read_decode_totals(2) [where off = cursor and buf = buf] assms show ?thesis
      by (cases "configs = []") (auto simp: parse_one_def AddInterface_def)
  next
    case endpoint
    with read_decode_totals(3) [where off = cursor and buf = buf] assms show ?thesis
      by (cases "configs = [] \<or> cf_interfaces (last configs) = []")
        (auto simp: parse_one_def AddEndpoint_def Let_def)
  next
    case other
    then show ?thesis by (simp add: parse_one_def)
  qed
qed

lemma parse_loop_total:
  "len \<le> length buf \<Longrightarrow> \<exists>ret configs'. parse_loop buf len cursor configs = Some (ret, configs') \<and>
     ret \<in> {UEC_OK, UEC_SERVICE_INVALID_VALUE}"
proof (induction buf len cursor configs rule: parse_loop.induct)
  case (1 buf len cursor configs)
  show ?case
  proof (cases "cursor < len \<and> 2 \<le> len - cursor")
    case False
    then show ?thesis by (auto simp: parse_loop.simps [of buf len cursor])
  next
    case True
    with "1.prems" have "cursor + 2 \<le> length buf" by linarith
    then obtain b t where h: "read_bytes buf cursor 2 = Some [b, t]"
      using read_header by blast
    show ?thesis
    proof (cases "unat b < 2 \<or> len - cursor < unat b")
      case True
      then show ?thesis using h by (auto simp: parse_loop.simps [of buf len cursor])
    next
      case False
      with True "1.prems" have "cursor + unat b \<le> length buf" by linarith
      from parse_one_total [OF this, of t configs] obtain ret configs'
        where p: "parse_one buf cursor b t configs = Some (ret, configs')"
          "ret \<in> {UEC_OK, UEC_SERVICE_INVALID_VALUE}" by blast
      show ?thesis
      proof (cases "ret = UEC_OK")
        case ok: True
        have "\<exists>ret cs. parse_loop buf len (cursor + unat b) configs' = Some (ret, cs) \<and>
            ret \<in> {UEC_OK, UEC_SERVICE_INVALID_VALUE}"
          using "1.IH" True False h p ok "1.prems" by simp
        then show ?thesis
          using True False h p ok by (simp add: parse_loop.simps [of buf len cursor])
      next
        case nok: False
        then show ?thesis
          using True False h p by (simp add: parse_loop.simps [of buf len cursor])
      qed
    qed
  qed
qed

subsection \<open>The parser follows the stream\<close>

lemma le16_lo8_hi8 [simp]: "le16 (lo8 w) (hi8 w) = w"
  by (rule bit_word_eqI) (auto simp: le16_def lo8_def hi8_def bit_simps not_less)

lemma encode_descriptor_header:
  assumes "descriptor_wf d"
  obtains b t r where "encode_descriptor d = b # t # r" and
    "unat b = length (encode_descriptor d)" and "2 \<le> length (encode_descriptor d)"
proof (cases d)
  case (Unknown t body)
  with assms have "unat (word_of_nat (2 + length body) :: u8) = 2 + length body"
    by (subst unat_of_nat) simp
  with Unknown that show thesis by simp
qed (use assms that in \<open>auto simp: length_Suc_conv\<close>)

lemma parse_one_encoded:
  assumes "descriptor_wf d" and "encode_descriptor d = b # t # r"
  shows "parse_one (pre @ encode_descriptor d @ post) (length pre) b t configs =
    Some (add_descriptor d configs)"
proof -
  note read = read_bytes_append [of _ "encode_descriptor d" pre post]
  show ?thesis
  proof (cases d)
    case (Config c)
    with assms read [of 9] show ?thesis
      by (auto simp: parse_one_def AddConfig_def config_of_def)
  next
    case (Interface i)
    with assms read [of 9] show ?thesis
      by (auto simp: parse_one_def AddInterface_def interface_of_def)
  next
    case (Endpoint e extra)
    with assms read [of 7] show ?thesis
      by (auto simp: parse_one_def AddEndpoint_def endpoint_of_def Let_def)
  next
    case (Unknown t body)
    with assms show ?thesis by (auto simp: parse_one_def)
  qed
qed

lemma parse_loop_step:
  assumes "descriptor_wf d" and "len = length (pre @ encode_descriptor d @ post)"
  shows "parse_loop (pre @ encode_descriptor d @ post) len (length pre) configs =
    (case add_descriptor d configs of (ret, configs') \<Rightarrow>
       if ret \<noteq> UEC_OK then Some (ret, configs')
       else parse_loop (pre @ encode_descriptor d @ post) len
              (length (pre @ encode_descriptor d)) configs')"
proof -
  obtain b t r where e: "encode_descriptor d = b # t # r"
    and l: "unat b = length (encode_descriptor d)" "2 \<le> length (encode_descriptor d)"
    using encode_descriptor_header [OF assms(1)] .
  have h: "read_bytes (pre @ encode_descriptor d @ post) (length pre) 2 = Some [b, t]"
    using read_bytes_append [of 2 "encode_descriptor d" pre post] e l(2) by simp
  have "\<not> unat b < 2" and "length pre < len" and "\<not> len - length pre < 2"
    and "\<not> len - length pre < unat b"
    using assms(2) l by auto
  then show ?thesis
    using h parse_one_encoded [OF assms(1) e, of pre post configs] l(1)
    by (subst parse_loop.simps) (simp split: prod.split)
qed

lemma parse_loop_encoded:
  assumes "list_all descriptor_wf ds" and "len = length (pre @ encode_descriptors ds)"
  shows "parse_loop (pre @ encode_descriptors ds) len (length pre) configs =
    Some (add_descriptors ds configs)"
  using assms
proof (induction ds arbitrary: pre configs)
  case Nil
  then show ?case by (simp add: encode_descriptors_def parse_loop.simps)
next
  case (Cons d ds)
  let ?pre = "pre @ encode_descriptor d"
  have e: "pre @ encode_descriptors (d # ds) = ?pre @ encode_descriptors ds"
    by (simp add: encode_descriptors_def)
  have ih: "parse_loop (?pre @ encode_descriptors ds) len (length ?pre) cs =
      Some (add_descriptors ds cs)" for cs
    using Cons.IH [of ?pre cs] Cons.prems by (simp add: encode_descriptors_def)
  show ?case
    using parse_loop_step [of d len pre "encode_descriptors ds" configs] Cons.prems ih
    unfolding e by (simp add: encode_descriptors_def split: prod.split)
qed

subsection \<open>Trees and their streams\<close>

lemma ucast8_inverse: "x < 256 \<Longrightarrow> ucast (ucast (x :: u32) :: u8) = x"
  by (simp add: word_unat_eq_iff unsigned_ucast_eq unsigned_take_bit_eq
      take_bit_nat_eq_self word_less_nat_alt)

lemma ucast16_inverse: "x < 65536 \<Longrightarrow> ucast (ucast (x :: u32) :: u16) = x"
  by (simp add: word_unat_eq_iff unsigned_ucast_eq unsigned_take_bit_eq
      take_bit_nat_eq_self word_less_nat_alt)

lemma update_last_snoc [simp]: "update_last f (xs @ [x]) = xs @ [f x]"
  by (simp add: update_last_def)

lemma add_descriptors_append:
  "add_descriptors (ds @ es) configs =
     (case add_descriptors ds configs of (ret, configs') \<Rightarrow>
        if ret \<noteq> UEC_OK then (ret, configs') else add_descriptors es configs')"
  by (induction ds arbitrary: configs) (auto split: prod.split)

lemma add_endpoints:
  "list_all (endpoint_fits i) es \<Longrightarrow>
   add_descriptors (map endpoint_descriptor es)
     (cs @ [c\<lparr>cf_interfaces := ifs @ [i\<lparr>if_endpoints := before\<rparr>]\<rparr>]) =
   (UEC_OK, cs @ [c\<lparr>cf_interfaces := ifs @ [i\<lparr>if_endpoints := before @ es\<rparr>]\<rparr>])"
proof (induction es arbitrary: before)
  case Nil
  then show ?case by simp
next
  case (Cons e es)
  from Cons.prems have e: "(endpoint_of \<lparr>ed_bLength = 7, ed_bDescriptorType = 5,
      ed_bEndpointAddress = ucast (ep_address e), ed_bmAttributes = ucast (ep_attributes e),
      ed_wMaxPacketSize = ucast (ep_maxPacketSize e), ed_bInterval = ucast (ep_interval e)\<rparr>)
      \<lparr>ep_interfaceId := ucast (if_id i)\<rparr> = e"
    by (simp add: endpoint_of_def new_endpoint_def endpoint_fits_def ucast8_inverse
        ucast16_inverse)
  show ?case
    using Cons.IH [of "before @ [e]"] Cons.prems
    by (simp add: endpoint_descriptor_def AddEndpoint_def Let_def e o_def)
qed

lemma add_interface:
  assumes "interface_fits i"
  shows "add_descriptors (interface_stream i) (cs @ [c]) =
    (UEC_OK, cs @ [c\<lparr>cf_interfaces := cf_interfaces c @ [i]\<rparr>])"
proof -
  have i: "interface_of \<lparr>id_bLength = 9, id_bDescriptorType = 4,
      id_bInterfaceNumber = ucast (if_id i), id_bAlternateSetting = ucast (if_alternateSetting i),
      id_bNumEndpoints = n, id_bInterfaceClass = ucast (if_klass i),
      id_bInterfaceSubClass = ucast (if_subClass i),
      id_bInterfaceProtocol = ucast (if_protocol i), id_iInterface = if_iInterface i\<rparr> =
      i\<lparr>if_endpoints := []\<rparr>" for n
    using assms by (simp add: interface_of_def new_interface_def interface_fits_def ucast8_inverse)
  have "list_all (endpoint_fits i) (if_endpoints i)"
    using assms by (simp add: interface_fits_def)
  from add_endpoints [OF this, where before = "[]" and ifs = "cf_interfaces c" and c = c and cs = cs]
  have "add_descriptors (map endpoint_descriptor (if_endpoints i))
      (cs @ [cf_interfaces_update (\<lambda>is. is @ [i\<lparr>if_endpoints := []\<rparr>]) c]) =
    (UEC_OK, cs @ [c\<lparr>cf_interfaces := cf_interfaces c @ [i]\<rparr>])"
    by (cases c) simp
  then show ?thesis by (simp add: interface_stream_def AddInterface_def i)
qed

lemma add_interfaces:
  "list_all interface_fits ifs \<Longrightarrow>
   add_descriptors (concat (map interface_stream ifs)) (cs @ [c]) =
   (UEC_OK, cs @ [c\<lparr>cf_interfaces := cf_interfaces c @ ifs\<rparr>])"
  by (induction ifs arbitrary: c) (simp_all add: add_descriptors_append add_interface)

lemma add_config:
  assumes "config_fits c"
  shows "add_descriptors (config_stream wTotal c) configs = (UEC_OK, configs @ [c])"
proof -
  have c: "config_of \<lparr>cd_bLength = 9, cd_bDescriptorType = 2, cd_wTotalLength = wTotal,
      cd_bNumInterfaces = n, cd_bConfigurationValue = ucast (cf_id c),
      cd_iConfiguration = cf_iConfiguration c, cd_bmAttributes = ucast (cf_attributes c),
      cd_bMaxPower = ucast (cf_maxPower c)\<rparr> = c\<lparr>cf_interfaces := []\<rparr>" for n
    using assms by (simp add: config_of_def new_config_def config_fits_def ucast8_inverse)
  have "list_all interface_fits (cf_interfaces c)"
    using assms by (simp add: config_fits_def)
  from add_interfaces [OF this, of configs "c\<lparr>cf_interfaces := []\<rparr>"] show ?thesis
    by (simp add: config_stream_def AddConfig_def c)
qed

lemma add_configs:
  "list_all config_fits cs \<Longrightarrow>
   add_descriptors (concat (map (config_stream wTotal) cs)) configs = (UEC_OK, configs @ cs)"
  by (induction cs arbitrary: configs) (simp_all add: add_descriptors_append add_config)

lemma config_stream_wf: "list_all descriptor_wf (concat (map (config_stream wTotal) cs))"
  by (auto simp: list_all_iff config_stream_def interface_stream_def endpoint_descriptor_def)

lemma parse_config_trees:
  assumes "list_all config_fits cs"
    and "length (pre @ encode_descriptors (concat (map (config_stream wTotal) cs))) < 2 ^ 32"
  shows "ParseConfigDescriptors (pre @ encode_descriptors (concat (map (config_stream wTotal) cs)))
    (length pre) configs = Some (UEC_OK, configs @ cs)"
  using assms add_configs [OF assms(1), of wTotal configs]
  by (simp add: ParseConfigDescriptors_def parse_loop_encoded [OF config_stream_wf])

lemma sample_config_fits: "config_fits sample_config"
  by (simp add: sample_config_def new_data_defs config_fits_def interface_fits_def
      endpoint_fits_def)

lemma sample_config_bytes: "encode_descriptors (config_stream 25 sample_config) = sample_bytes"
  by (simp add: sample_config_def new_data_defs encode_descriptors_def config_stream_def
      interface_stream_def endpoint_descriptor_def sample_bytes_def lo8_def hi8_def)

lemma parse_sample: "ParseConfigDescriptors sample_bytes 0 [] = Some (UEC_OK, [sample_config])"
  using parse_config_trees [of "[sample_config]" "[]" 25 "[]"]
  by (simp add: sample_config_fits sample_config_bytes, simp add: sample_bytes_def)

subsection \<open>What every run keeps\<close>

text \<open>A property of the configurations that the three additions keep is kept by the parser.\<close>

lemma parse_one_keeps:
  assumes "\<And>d cs. P cs \<Longrightarrow> P (snd (AddConfig d cs))"
    and "\<And>d cs. P cs \<Longrightarrow> P (snd (AddInterface d cs))"
    and "\<And>d cs. P cs \<Longrightarrow> P (snd (AddEndpoint d cs))"
    and "parse_one buf cursor b t configs = Some (ret, configs')" and "P configs"
  shows "P configs'"
  using assms(4,5) assms(1-3) [of configs]
  by (auto simp: parse_one_def split: if_splits) (metis snd_conv)+

lemma parse_loop_turn:
  assumes "parse_loop buf len cursor configs = Some r"
  obtains (stop) "r = (UEC_OK, configs)"
  | (error) b t where "parse_one buf cursor b t configs = Some r" and "fst r \<noteq> UEC_OK"
  | (step) b t configs' where "parse_one buf cursor b t configs = Some (UEC_OK, configs')"
      and "parse_loop buf len (cursor + unat b) configs' = Some r"
      and "len - (cursor + unat b) < len - cursor"
proof (cases "cursor < len \<and> 2 \<le> len - cursor")
  case False
  then have "parse_loop buf len cursor configs = Some (UEC_OK, configs)"
    by (subst parse_loop.simps) auto
  with assms stop show thesis by simp
next
  case True
  with assms obtain b t where h: "read_bytes buf cursor 2 = Some [b, t]"
    by (auto simp: parse_loop.simps [of buf len cursor] split: option.splits list.splits)
  show thesis
  proof (cases "unat b < 2 \<or> len - cursor < unat b")
    case True
    with assms h \<open>cursor < len \<and> 2 \<le> len - cursor\<close> show thesis
      by (auto simp: parse_loop.simps [of buf len cursor] intro: stop)
  next
    case False
    with True assms h obtain ret cs where p: "parse_one buf cursor b t configs = Some (ret, cs)"
      by (auto simp: parse_loop.simps [of buf len cursor] split: option.splits)
    show thesis
    proof (cases "ret = UEC_OK")
      case ok: True
      have "len - (cursor + unat b) < len - cursor" using True False by linarith
      with ok p assms h True False show thesis
        by (intro step [of b t cs]) (simp_all add: parse_loop.simps [of buf len cursor])
    next
      case nok: False
      with p assms h True False show thesis
        by (intro error [of b t]) (auto simp: parse_loop.simps [of buf len cursor])
    qed
  qed
qed

lemma parse_loop_keeps:
  assumes keeps: "\<And>d cs. P cs \<Longrightarrow> P (snd (AddConfig d cs))"
    "\<And>d cs. P cs \<Longrightarrow> P (snd (AddInterface d cs))"
    "\<And>d cs. P cs \<Longrightarrow> P (snd (AddEndpoint d cs))"
  shows "parse_loop buf len cursor configs = Some r \<Longrightarrow> P configs \<Longrightarrow> P (snd r)"
proof (induction "len - cursor" arbitrary: cursor configs rule: less_induct)
  case less
  note keep = parse_one_keeps [of P, OF keeps]
  from less.prems(1) show ?case
  proof (cases rule: parse_loop_turn)
    case stop
    with less.prems show ?thesis by simp
  next
    case (error b t)
    with less.prems(2) keep [of buf cursor b t configs "fst r" "snd r"] show ?thesis by simp
  next
    case (step b t configs')
    with less.prems(2) keep [of buf cursor b t configs] less.hyps show ?thesis by blast
  qed
qed

lemma endpoints_owned_append:
  "endpoints_owned (cs @ cs') \<longleftrightarrow> endpoints_owned cs \<and> endpoints_owned cs'"
  by (auto simp: endpoints_owned_def)

lemma Add_keeps_owned:
  assumes "endpoints_owned cs"
  shows "endpoints_owned (snd (AddConfig d cs))"
    and "endpoints_owned (snd (AddInterface d' cs))"
    and "endpoints_owned (snd (AddEndpoint d'' cs))"
proof -
  show "endpoints_owned (snd (AddConfig d cs))"
    using assms by (simp add: AddConfig_def endpoints_owned_append)
      (simp add: endpoints_owned_def config_of_def new_config_def)
  show "endpoints_owned (snd (AddInterface d' cs))"
    using assms by (cases cs rule: rev_cases)
      (auto simp: AddInterface_def endpoints_owned_append,
       auto simp: endpoints_owned_def interface_of_def new_interface_def)
  show "endpoints_owned (snd (AddEndpoint d'' cs))"
  proof (cases cs rule: rev_cases)
    case (snoc cs' c)
    then show ?thesis using assms
      by (cases "cf_interfaces c" rule: rev_cases)
        (auto simp: AddEndpoint_def Let_def endpoints_owned_append, auto simp: endpoints_owned_def)
  qed (use assms in \<open>simp add: AddEndpoint_def\<close>)
qed

subsection \<open>Properties\<close>

text \<open>
  C8: whatever bytes a device sends, \<^verbatim>\<open>ParseConfigDescriptors\<close> returns (it is a total
  function) and never reads outside the buffer; it answers \<^verbatim>\<open>UEC_OK\<close> or
  \<^verbatim>\<open>UEC_SERVICE_INVALID_VALUE\<close>.
\<close>

theorem ParseConfigDescriptors_memory_safe:
  "\<exists>ret configs'. ParseConfigDescriptors descriptor offset configs = Some (ret, configs') \<and>
     ret \<in> {UEC_OK, UEC_SERVICE_INVALID_VALUE}"
  unfolding ParseConfigDescriptors_def by (rule parse_loop_total) (rule mod_less_eq_dividend)

text \<open>
  C9: the parser refines the abstract specification: on the bytes of a sequence of descriptors
  after any prefix (the device descriptor), it adds exactly these descriptors in order, skips
  the unknown ones and stops at the first that cannot be placed.
\<close>

theorem ParseConfigDescriptors_refines:
  assumes "list_all descriptor_wf ds" and "length (pre @ encode_descriptors ds) < 2 ^ 32"
  shows "ParseConfigDescriptors (pre @ encode_descriptors ds) (length pre) configs =
    Some (add_descriptors ds configs)"
  using assms by (simp add: ParseConfigDescriptors_def parse_loop_encoded)

theorem ParseConfigDescriptors_refines_witness:
  "ParseConfigDescriptors ([0] @ encode_descriptors [Unknown 11 [0, 2], Config
      \<lparr>cd_bLength = 9, cd_bDescriptorType = 2, cd_wTotalLength = 9, cd_bNumInterfaces = 0,
       cd_bConfigurationValue = 1, cd_iConfiguration = 0, cd_bmAttributes = 0x80,
       cd_bMaxPower = 50\<rparr>]) 1 [] =
   Some (UEC_OK, [new_config\<lparr>cf_id := 1, cf_attributes := 0x80, cf_maxPower := 50,
     cf_iConfiguration := 0\<rparr>])"
  using ParseConfigDescriptors_refines [of "[Unknown 11 [0, 2], Config
      \<lparr>cd_bLength = 9, cd_bDescriptorType = 2, cd_wTotalLength = 9, cd_bNumInterfaces = 0,
       cd_bConfigurationValue = 1, cd_iConfiguration = 0, cd_bmAttributes = 0x80,
       cd_bMaxPower = 50\<rparr>]" "[0]" "[]"]
  by (simp add: encode_descriptors_def AddConfig_def config_of_def)

text \<open>
  C10: parsing the descriptors of a configuration tree gives the tree back, every field of
  every configuration, interface and endpoint, in order.
\<close>

theorem ParseConfigDescriptors_roundtrip:
  assumes "list_all config_fits cs"
    and "length (pre @ encode_descriptors (concat (map (config_stream wTotal) cs))) < 2 ^ 32"
  shows "ParseConfigDescriptors (pre @ encode_descriptors (concat (map (config_stream wTotal) cs)))
    (length pre) [] = Some (UEC_OK, cs)"
  using parse_config_trees [OF assms] by simp

theorem ParseConfigDescriptors_roundtrip_witness:
  "ParseConfigDescriptors sample_bytes 0 [] = Some (UEC_OK, [sample_config])"
proof -
  have "length sample_bytes < 2 ^ 32" by (simp add: sample_bytes_def)
  with ParseConfigDescriptors_roundtrip [of "[sample_config]" "[]" 25] show ?thesis
    by (simp add: sample_config_fits sample_config_bytes)
qed

text \<open>
  C37: every endpoint in the result carries the number of the interface it is listed under,
  whatever the bytes were and also when the parse ends with an error.
\<close>

theorem ParseConfigDescriptors_endpoints_owned:
  assumes "ParseConfigDescriptors descriptor offset configs = Some (ret, configs')"
    and "endpoints_owned configs"
  shows "endpoints_owned configs'"
  using parse_loop_keeps [of endpoints_owned, OF Add_keeps_owned] assms
  unfolding ParseConfigDescriptors_def by fastforce

theorem ParseConfigDescriptors_endpoints_owned_witness:
  "ParseConfigDescriptors sample_bytes 0 [] = Some (UEC_OK, [sample_config]) \<and>
     endpoints_owned [sample_config]"
  using ParseConfigDescriptors_endpoints_owned [OF parse_sample] parse_sample
  by (simp add: endpoints_owned_def)

text \<open>
  \<^verbatim>\<open>ParseDeviceDescriptor\<close> stays inside the buffer when the caller's length does; it
  succeeds exactly on a buffer of 18 bytes or more whose length byte is 18, and otherwise leaves
  the device as it was.
\<close>

theorem ParseDeviceDescriptor_safe:
  assumes "len \<le> length buf"
  shows "\<exists>ret dev'. ParseDeviceDescriptor (Some buf) len dev = Some (ret, dev') \<and>
    (ret = UEC_OK \<longleftrightarrow> 18 \<le> len \<and> buf ! 0 = 18) \<and>
    (ret \<noteq> UEC_OK \<longrightarrow> ret = UEC_SERVICE_INVALID_VALUE \<and> dev' = dev)"
proof (cases "18 \<le> len")
  case True
  with assms have l: "length (take 18 buf) = 18" by simp
  from decode_device_total [OF l] obtain d where d: "decode_device (take 18 buf) = Some d" by blast
  then have "dd_bLength d = buf ! 0" using decode_device_bLength by fastforce
  moreover have "unat (buf ! 0) = 18 \<longleftrightarrow> buf ! 0 = 18"
    using word_unat_eq_iff [of "buf ! 0" 18] by simp
  ultimately show ?thesis
    using True assms d by (simp add: ParseDeviceDescriptor_def read_bytes_Some)
next
  case False
  then show ?thesis by (auto simp: ParseDeviceDescriptor_def)
qed

theorem ParseDeviceDescriptor_safe_witness:
  "\<exists>ret dev'. ParseDeviceDescriptor (Some (18 # replicate 17 0)) 18 new_device = Some (ret, dev') \<and>
     ret = UEC_OK"
  using ParseDeviceDescriptor_safe [of 18 "18 # replicate 17 0" new_device] by auto

end
