(* ===== verification/Usb_Descriptor_Single.thy ===== *)
theory Usb_Descriptor_Single
  imports Usb_Descriptor
begin

section \<open>The per-object descriptor parsers\<close>

text \<open>
  \<^verbatim>\<open>ParseConfigDescriptor\<close>, \<^verbatim>\<open>ParseInterfaceDescriptor\<close> and
  \<^verbatim>\<open>ParseEndpointDescriptor\<close> of \<^verbatim>\<open>usb_descriptor_parser.cpp\<close>, the interface of the
  class beside \<^verbatim>\<open>ParseConfigDescriptors\<close>. Their loops advance by the length byte of a
  descriptor, which may be zero, so they are partial functions: \<open>None\<close> is a call that never
  returns. Cursor and length are 32-bit words with their wrap-around. The lemmas show what the
  length test of the loops makes of every input.
\<close>

subsection \<open>Operations\<close>

datatype 'a outcome = Returned retcode u32 'a | OutOfBounds

datatype scan = At u32 | ScanError u32 | ScanOutOfBounds

text \<open>
  The \<^verbatim>\<open>while\<close> loop both parsers open with: \<open>At c\<close> when it ends with the cursor at \<open>c\<close>,
  \<open>ScanError c\<close> when it returns \<^verbatim>\<open>UEC_SERVICE_INVALID_VALUE\<close> from inside.
\<close>

partial_function (option) skip_to :: "u8 \<Rightarrow> u8 list \<Rightarrow> u32 \<Rightarrow> u32 \<Rightarrow> scan option" where
  "skip_to ty buf len cursor =
     (if cursor < len then
        if len - cursor \<le> 2 then Some (ScanError cursor)
        else (case read_bytes buf (unat cursor) sizeof_header of
            Some [bLength, bDescriptorType] \<Rightarrow>
              if sizeof_header \<le> unat bLength then Some (ScanError cursor)
              else if bDescriptorType = ty then Some (At cursor)
              else skip_to ty buf len (cursor + ucast bLength)
          | _ \<Rightarrow> Some ScanOutOfBounds)
      else Some (At cursor))"

declare skip_to.simps [code]

definition ParseEndpointDescriptor ::
  "u8 list option \<Rightarrow> u32 \<Rightarrow> u32 \<Rightarrow> USBEndpoint \<Rightarrow> USBEndpoint outcome option" where
  "ParseEndpointDescriptor buffer len cursor ep =
     (case buffer of None \<Rightarrow> Some (Returned UEC_SERVICE_INVALID_VALUE cursor ep)
      | Some buf \<Rightarrow>
        if len = 0 then Some (Returned UEC_SERVICE_INVALID_VALUE cursor ep)
        else (case skip_to DESCRIPTOR_TYPE_ENDPOINT buf len cursor of
            None \<Rightarrow> None
          | Some ScanOutOfBounds \<Rightarrow> Some OutOfBounds
          | Some (ScanError c) \<Rightarrow> Some (Returned UEC_SERVICE_INVALID_VALUE c ep)
          | Some (At c) \<Rightarrow>
              if unat (len - c) < sizeof_interface
              then Some (Returned UEC_SERVICE_INVALID_VALUE c ep)
              else (case Option.bind (read_bytes buf (unat c) sizeof_endpoint) decode_endpoint of
                  None \<Rightarrow> Some OutOfBounds
                | Some d \<Rightarrow>
                    if unat (ed_bLength d) \<noteq> NORMAL_ENDPOINT_DESCRIPTOR \<and>
                       unat (ed_bLength d) \<noteq> AUDIO_ENDPOINT_DESCRIPTOR
                    then Some (Returned UEC_SERVICE_INVALID_VALUE c ep)
                    else Some (Returned UEC_OK (c + ucast (ed_bLength d))
                      (ep\<lparr>ep_address := ucast (ed_bEndpointAddress d),
                         ep_attributes := ucast (ed_bmAttributes d),
                         ep_interval := ucast (ed_bInterval d),
                         ep_maxPacketSize := ucast (ed_wMaxPacketSize d)\<rparr>)))))"

text \<open>The memory a callee sees behind \<^verbatim>\<open>buffer + cursor\<close>.\<close>

definition at_offset :: "u8 list \<Rightarrow> u32 \<Rightarrow> u8 list option" where
  "at_offset buf c = Some (drop (unat c) buf)"

text \<open>
  The loop over the announced endpoints: what \<^verbatim>\<open>ParseEndpointDescriptor\<close> returns is ignored,
  the endpoint is added with whatever was filled in.
\<close>

fun endpoint_loop :: "u8 list \<Rightarrow> u32 \<Rightarrow> u8 \<Rightarrow> nat \<Rightarrow> u32 \<Rightarrow> USBEndpoint list \<Rightarrow>
    USBEndpoint list outcome option" where
  "endpoint_loop buf len ifNumber 0 cursor eps = Some (Returned UEC_OK cursor eps)"
| "endpoint_loop buf len ifNumber (Suc n) cursor eps =
     (case ParseEndpointDescriptor (at_offset buf cursor) (len - cursor) 0 new_endpoint of
        None \<Rightarrow> None
      | Some OutOfBounds \<Rightarrow> Some OutOfBounds
      | Some (Returned ret epCursor ep) \<Rightarrow>
          endpoint_loop buf len ifNumber n (cursor + epCursor)
            (eps @ [ep\<lparr>ep_interfaceId := ifNumber\<rparr>]))"

definition ParseInterfaceDescriptor ::
  "u8 list option \<Rightarrow> u32 \<Rightarrow> u32 \<Rightarrow> UsbInterface \<Rightarrow> UsbInterface outcome option" where
  "ParseInterfaceDescriptor buffer len cursor intf =
     (case buffer of None \<Rightarrow> Some (Returned UEC_SERVICE_INVALID_VALUE cursor intf)
      | Some buf \<Rightarrow>
        if len = 0 then Some (Returned UEC_SERVICE_INVALID_VALUE cursor intf)
        else (case skip_to DESCRIPTOR_TYPE_INTERFACE buf len cursor of
            None \<Rightarrow> None
          | Some ScanOutOfBounds \<Rightarrow> Some OutOfBounds
          | Some (ScanError c) \<Rightarrow> Some (Returned UEC_SERVICE_INVALID_VALUE c intf)
          | Some (At c) \<Rightarrow>
              if unat (len - c) < sizeof_interface
              then Some (Returned UEC_SERVICE_INVALID_VALUE c intf)
              else (case Option.bind (read_bytes buf (unat c) sizeof_interface) decode_interface of
                  None \<Rightarrow> Some OutOfBounds
                | Some d \<Rightarrow>
                    if unat (id_bLength d) \<noteq> sizeof_interface
                    then Some (Returned UEC_SERVICE_INVALID_VALUE c intf)
                    else (case endpoint_loop buf len (id_bInterfaceNumber d)
                          (unat (id_bNumEndpoints d)) (c + ucast (id_bLength d)) [] of
                        None \<Rightarrow> None
                      | Some OutOfBounds \<Rightarrow> Some OutOfBounds
                      | Some (Returned ret c' eps) \<Rightarrow> Some (Returned UEC_OK c'
                          (intf\<lparr>if_id := ucast (id_bInterfaceNumber d),
                             if_protocol := ucast (id_bInterfaceProtocol d),
                             if_alternateSetting := ucast (id_bAlternateSetting d),
                             if_klass := ucast (id_bInterfaceClass d),
                             if_subClass := ucast (id_bInterfaceSubClass d),
                             if_iInterface := id_iInterface d,
                             if_endpoints := eps\<rparr>))))))"

text \<open>
  An interface with a new number is added; one with a known number replaces the first of that
  number when it has endpoints, and the counter is not advanced.
\<close>

fun replace_first :: "UsbInterface \<Rightarrow> UsbInterface list \<Rightarrow> UsbInterface list" where
  "replace_first i [] = []"
| "replace_first i (j # js) = (if if_id j = if_id i then i # js else j # replace_first i js)"

partial_function (option) interface_loop :: "u8 list \<Rightarrow> u32 \<Rightarrow> nat \<Rightarrow> nat \<Rightarrow> u32 \<Rightarrow>
    UsbInterface list \<Rightarrow> UsbInterface list outcome option" where
  "interface_loop buf len num i cursor interfaces =
     (if i < num \<and> cursor < len then
        (case ParseInterfaceDescriptor (at_offset buf cursor) (len - cursor) 0 new_interface of
           None \<Rightarrow> None
         | Some OutOfBounds \<Rightarrow> Some OutOfBounds
         | Some (Returned ret interfaceCursor intf) \<Rightarrow>
             if ret \<noteq> UEC_OK then Some (Returned UEC_SERVICE_INVALID_VALUE cursor interfaces)
             else if list_ex (\<lambda>j. if_id j = if_id intf) interfaces
             then interface_loop buf len num i (cursor + interfaceCursor)
                    (if if_endpoints intf \<noteq> [] then replace_first intf interfaces else interfaces)
             else interface_loop buf len num (Suc i) (cursor + interfaceCursor)
                    (interfaces @ [intf]))
      else Some (Returned UEC_OK cursor interfaces))"

definition ParseConfigDescriptor ::
  "u8 list option \<Rightarrow> u32 \<Rightarrow> u32 \<Rightarrow> USBConfig \<Rightarrow> USBConfig outcome option" where
  "ParseConfigDescriptor buffer len cursor config =
     (case buffer of None \<Rightarrow> Some (Returned UEC_SERVICE_INVALID_VALUE cursor config)
      | Some buf \<Rightarrow>
        if len = 0 then Some (Returned UEC_SERVICE_INVALID_VALUE cursor config)
        else (case Option.bind (read_bytes buf 0 sizeof_config) decode_config of
            None \<Rightarrow> Some OutOfBounds
          | Some d \<Rightarrow>
              if unat len < sizeof_config \<or> unat (cd_bLength d) \<noteq> sizeof_config
              then Some (Returned UEC_SERVICE_INVALID_VALUE cursor config)
              else let config' = config\<lparr>cf_id := ucast (cd_bConfigurationValue d),
                         cf_attributes := ucast (cd_bmAttributes d),
                         cf_maxPower := ucast (cd_bMaxPower d),
                         cf_iConfiguration := cd_iConfiguration d\<rparr>
                   in (case interface_loop buf len (unat (cd_bNumInterfaces d)) 0
                            (cursor + of_nat sizeof_config) [] of
                        None \<Rightarrow> None
                      | Some OutOfBounds \<Rightarrow> Some OutOfBounds
                      | Some (Returned ret c interfaces) \<Rightarrow>
                          if ret \<noteq> UEC_OK then Some (Returned ret c config')
                          else Some (Returned UEC_OK c (config'\<lparr>cf_interfaces := interfaces\<rparr>)))))"

subsection \<open>The header scan\<close>

text \<open>
  The loop rejects every descriptor whose length byte is two or more, so it ends with a
  descriptor in hand only when that descriptor's length byte is zero or one.
\<close>

lemma byte_less_2: "unat (b :: u8) < 2 \<Longrightarrow> b = 0 \<or> b = 1"
  by (simp add: word_unat_eq_iff) linarith

lemma skip_advance:
  fixes cursor len :: u32
  assumes "cursor < len" and "\<not> len - cursor \<le> 2" and "unat (b :: u8) < 2"
  shows "cursor + ucast b < len"
proof -
  have "cursor + 1 < len" using assms(1,2) by uint_arith
  with byte_less_2 [OF assms(3)] assms(1) show ?thesis by auto
qed

lemma skip_to_At:
  assumes "skip_to ty buf len cursor = Some (At c)" and "cursor < len"
  shows "c < len \<and> (\<exists>b. read_bytes buf (unat c) 2 = Some [b, ty] \<and> unat b < 2)"
proof -
  let ?P = "\<lambda>ty buf len cursor r. r = At c \<longrightarrow> cursor < len \<longrightarrow>
    c < len \<and> (\<exists>b. read_bytes buf (unat c) 2 = Some [b, ty] \<and> unat b < 2)"
  have "?P ty buf len cursor (At c)"
  proof (rule skip_to.raw_induct [where P = ?P, OF _ assms(1)], intro impI)
    fix rec ty buf len cursor r
    assume ih: "\<And>ty buf len cursor r. rec ty buf len cursor = Some r \<Longrightarrow> ?P ty buf len cursor r"
      and step: "(if cursor < len then
        if len - cursor \<le> 2 then Some (ScanError cursor)
        else (case read_bytes buf (unat cursor) sizeof_header of
            Some [bLength, bDescriptorType] \<Rightarrow>
              if sizeof_header \<le> unat bLength then Some (ScanError cursor)
              else if bDescriptorType = ty then Some (At cursor)
              else rec ty buf len (cursor + ucast bLength)
          | _ \<Rightarrow> Some ScanOutOfBounds)
        else Some (At cursor)) = Some r"
      and r: "r = At c" and lt: "cursor < len"
    then obtain b t where h: "read_bytes buf (unat cursor) 2 = Some [b, t]"
      and b: "\<not> len - cursor \<le> 2" "unat b < 2"
      and n: "t = ty \<and> c = cursor \<or> rec ty buf len (cursor + ucast b) = Some r"
      by (auto split: if_splits option.splits list.splits)
    from n show "c < len \<and> (\<exists>b. read_bytes buf (unat c) 2 = Some [b, ty] \<and> unat b < 2)"
      using h b lt ih skip_advance [OF lt b] r by blast
  qed
  with assms(2) show ?thesis by blast
qed

lemma read_decode_interface_bLength:
  assumes "Option.bind (read_bytes buf off 9) decode_interface = Some d"
    and "read_bytes buf off 2 = Some [b, t]"
  shows "id_bLength d = b"
proof -
  from assms(2) have "hd (drop off buf) = b" and "drop off buf \<noteq> []"
    by (auto simp: read_bytes_def split: if_splits) 
      (metis list.sel(1) take_eq_Nil2 hd_take zero_less_numeral list.distinct(1))+
  with assms(1) show ?thesis
    by (cases "drop off buf") (auto simp: read_bytes_def split: if_splits elim!: decode_interface.elims)
qed

text \<open>A descriptor of length zero and another type holds the loop for ever.\<close>

lemma skip_to_stuck:
  assumes "read_bytes buf (unat cursor) 2 = Some [0, t]" and "t \<noteq> ty"
    and "cursor < len" and "\<not> len - cursor \<le> 2"
  shows "skip_to ty buf len cursor = None"
proof (rule ccontr)
  let ?P = "\<lambda>ty' buf' len' cursor' r. (ty', buf', len', cursor') \<noteq> (ty, buf, len, cursor)"
  assume "skip_to ty buf len cursor \<noteq> None"
  then obtain r where "skip_to ty buf len cursor = Some r" by blast
  then have "?P ty buf len cursor r"
  proof (rule skip_to.raw_induct [where P = ?P, rotated])
    fix rec ty' buf' len' cursor' r
    assume "\<And>ty buf len cursor r. rec ty buf len cursor = Some r \<Longrightarrow> ?P ty buf len cursor r"
      and "(if cursor' < len' then
        if len' - cursor' \<le> 2 then Some (ScanError cursor')
        else (case read_bytes buf' (unat cursor') sizeof_header of
            Some [bLength, bDescriptorType] \<Rightarrow>
              if sizeof_header \<le> unat bLength then Some (ScanError cursor')
              else if bDescriptorType = ty' then Some (At cursor')
              else rec ty' buf' len' (cursor' + ucast bLength)
          | _ \<Rightarrow> Some ScanOutOfBounds)
        else Some (At cursor')) = Some r"
    with assms show "?P ty' buf' len' cursor' r" by fastforce
  qed
  then show False by simp
qed

lemma ParseInterfaceDescriptor_code:
  assumes "ParseInterfaceDescriptor buffer len 0 intf = Some (Returned ret c i)"
  shows "ret = UEC_SERVICE_INVALID_VALUE"
proof (cases "buffer = None \<or> len = 0")
  case True
  with assms show ?thesis by (auto simp: ParseInterfaceDescriptor_def split: option.splits)
next
  case False
  then obtain buf where buf: "buffer = Some buf" and len: "0 < len" "len \<noteq> 0"
    by (auto simp: word_neq_0_conv)
  show ?thesis
  proof (cases "skip_to 4 buf len 0")
    case None
    with assms buf len show ?thesis by (simp add: ParseInterfaceDescriptor_def)
  next
    case (Some s)
    show ?thesis
    proof (cases s)
      case (At k)
      with Some skip_to_At [of 4 buf len 0 k] len obtain b
        where h: "read_bytes buf (unat k) 2 = Some [b, 4]" and b: "unat b < 2" by auto
      have "id_bLength d = b"
        if "Option.bind (read_bytes buf (unat k) 9) decode_interface = Some d" for d
        using read_decode_interface_bLength [OF that h] .
      with assms buf len Some At b show ?thesis
        by (fastforce simp: ParseInterfaceDescriptor_def split: if_splits option.splits)
    qed (use assms buf len Some in \<open>auto simp: ParseInterfaceDescriptor_def\<close>)
  qed
qed

lemma interface_loop_ok:
  assumes "interface_loop buf len num i cursor interfaces = Some (Returned UEC_OK c ifs)"
  shows "ifs = interfaces"
  using assms
  by (subst (asm) interface_loop.simps)
    (auto dest: ParseInterfaceDescriptor_code split: if_splits option.splits outcome.splits)

subsection \<open>Properties\<close>

text \<open>
  The length test of the header scan is the wrong way round. Called with its cursor at the
  start, \<^verbatim>\<open>ParseInterfaceDescriptor\<close> rejects every buffer (or never returns), so that
  \<^verbatim>\<open>ParseConfigDescriptor\<close>, when it accepts a configuration, gives it no interface,
  however many the descriptor announces.
\<close>

theorem ParseConfigDescriptor_no_interfaces:
  assumes "ParseConfigDescriptor buffer len cursor config = Some (Returned UEC_OK c config')"
  shows "cf_interfaces config' = []"
  using assms interface_loop_ok
  by (fastforce simp: ParseConfigDescriptor_def Let_def
      split: option.splits if_splits outcome.splits)

theorem ParseConfigDescriptor_no_interfaces_witness:
  "ParseConfigDescriptor (Some [9, 2, 9, 0, 1, 1, 0, 0x80, 50]) 9 0 new_config =
     Some (Returned UEC_OK 9 (new_config\<lparr>cf_id := 1, cf_attributes := 0x80, cf_maxPower := 50,
       cf_iConfiguration := 0, cf_interfaces := []\<rparr>)) \<and>
   cf_interfaces (new_config\<lparr>cf_id := 1, cf_attributes := 0x80, cf_maxPower := 50,
       cf_iConfiguration := 0, cf_interfaces := []\<rparr>) = []"
proof -
  have "ParseConfigDescriptor (Some [9, 2, 9, 0, 1, 1, 0, 0x80, 50]) 9 0 new_config =
     Some (Returned UEC_OK 9 (new_config\<lparr>cf_id := 1, cf_attributes := 0x80, cf_maxPower := 50,
       cf_iConfiguration := 0, cf_interfaces := []\<rparr>))"
    by (simp add: ParseConfigDescriptor_def read_bytes_def interface_loop.simps)
  with ParseConfigDescriptor_no_interfaces [OF this] show ?thesis by simp
qed

text \<open>
  The two ways these parsers go wrong on short or hostile buffers. A buffer of fewer than
  nine bytes is read beyond its end before its length is looked at, and a first descriptor of
  length zero that is no interface makes \<^verbatim>\<open>ParseInterfaceDescriptor\<close> loop for ever.
\<close>

theorem single_parsers_unsafe:
  "(length buf < 9 \<and> len \<noteq> 0 \<longrightarrow>
      ParseConfigDescriptor (Some buf) len cursor config = Some OutOfBounds) \<and>
   (t \<noteq> 4 \<and> 2 < len \<longrightarrow>
      ParseInterfaceDescriptor (Some (0 # t # rest)) len 0 intf = None)"
proof -
  have "\<not> len - 0 \<le> 2" and "0 < len" if "2 < len"
    using that order.strict_trans1 [OF word_zero_le that] by simp_all
  then show ?thesis
    using skip_to_stuck [of "0 # t # rest" 0 t 4 len]
    by (auto simp: ParseConfigDescriptor_def ParseInterfaceDescriptor_def read_bytes_def)
qed

theorem single_parsers_unsafe_witness:
  "ParseConfigDescriptor (Some [9]) 1 0 new_config = Some OutOfBounds \<and>
   ParseInterfaceDescriptor (Some [0, 5, 0]) 3 0 new_interface = None"
  using single_parsers_unsafe [of "[9]" 1 0 new_config] single_parsers_unsafe [of _ 3 _ _ 5 "[0]"]
  by simp

end
