(* ===== verification/Usb_Caller.thy ===== *)
theory Usb_Caller
  imports Usb_Prelude
begin

section \<open>The calling process\<close>

text \<open>
  What the service asks of the process that called it: the token and user of \<^verbatim>\<open>IPCSkeleton\<close>, and
  what \<^verbatim>\<open>AccessTokenKit\<close> tells of the token (the bundle of an application's token is asked of the
  environment of the right manager). The two questions of
  \<^verbatim>\<open>services/native/src/usb_right_manager.cpp\<close> that depend on nothing else are defined here.
\<close>

record caller =
  call_token :: u32
  call_systemApp :: bool
  call_native :: bool
  call_denied :: bool
  call_uid :: int
  call_apiVersion :: int

definition IsSystemAppOrSa :: "caller \<Rightarrow> bool" where
  "IsSystemAppOrSa c \<longleftrightarrow> call_systemApp c \<or> call_native c"

definition VerifyPermission :: "caller \<Rightarrow> bool" where
  "VerifyPermission c \<longleftrightarrow> \<not> call_denied c"

end
