(* ===== verification/Host_Driver.thy ===== *)
theory Host_Driver
  imports Usb_Descriptor Usb_Caller
begin

section \<open>Host manager: the driver and the description of a device\<close>

text \<open>
  The part of \<^verbatim>\<open>services/native/src/usb_host_manager.cpp\<close> that keeps no list of devices: the
  operations that hand a request to the host driver, the transfers, and the reading of a device's
  descriptors and strings. It is the build with \<^verbatim>\<open>USB_MANAGER_PASS_THROUGH\<close>, the only one in
  which the file compiles. The driver is the record \<open>host_hdi\<close>, missing when it could not be
  obtained; the file system, \<^verbatim>\<open>iconv\<close> and the waiting are the record \<open>host_lib\<close>.
\<close>

type_synonym UsbDev = "u8 \<times> u8"
type_synonym UsbPipe = "u8 \<times> u8"

record UsbCtrlTransfer =
  ct_requestType :: u32
  ct_requestCmd :: u32
  ct_value :: u32
  ct_index :: u32
  ct_timeout :: u32

record UsbCtrlTransferParams = UsbCtrlTransfer +
  ct_length :: u32

record 'w host_control =
  hh_OpenDevice :: "UsbDev \<Rightarrow> 'w \<Rightarrow> int \<times> 'w"
  hh_CloseDevice :: "UsbDev \<Rightarrow> 'w \<Rightarrow> int \<times> 'w"
  hh_ResetDevice :: "UsbDev \<Rightarrow> 'w \<Rightarrow> int \<times> 'w"
  hh_ClaimInterface :: "UsbDev \<Rightarrow> u8 \<Rightarrow> u8 \<Rightarrow> 'w \<Rightarrow> int \<times> 'w"
  hh_SetInterface :: "UsbDev \<Rightarrow> u8 \<Rightarrow> u8 \<Rightarrow> 'w \<Rightarrow> int \<times> 'w"
  hh_ReleaseInterface :: "UsbDev \<Rightarrow> u8 \<Rightarrow> 'w \<Rightarrow> int \<times> 'w"
  hh_SetConfig :: "UsbDev \<Rightarrow> u8 \<Rightarrow> 'w \<Rightarrow> int \<times> 'w"
  hh_GetConfig :: "UsbDev \<Rightarrow> 'w \<Rightarrow> int \<times> u8 \<times> 'w"
  hh_ManageInterface :: "UsbDev \<Rightarrow> u8 \<Rightarrow> bool \<Rightarrow> 'w \<Rightarrow> int \<times> 'w"
  hh_ClearHalt :: "UsbDev \<Rightarrow> UsbPipe \<Rightarrow> 'w \<Rightarrow> int \<times> 'w"
  hh_GetRawDescriptor :: "UsbDev \<Rightarrow> 'w \<Rightarrow> int \<times> u8 list \<times> 'w"
  hh_GetStringDescriptor :: "UsbDev \<Rightarrow> u8 \<Rightarrow> 'w \<Rightarrow> int \<times> u8 list \<times> 'w"
  hh_GetDeviceFileDescriptor :: "UsbDev \<Rightarrow> 'w \<Rightarrow> int \<times> int \<times> 'w"
  hh_GetDeviceSpeed :: "UsbDev \<Rightarrow> 'w \<Rightarrow> int \<times> u8 \<times> 'w"
  hh_GetInterfaceActiveStatus :: "UsbDev \<Rightarrow> u8 \<Rightarrow> 'w \<Rightarrow> int \<times> bool \<times> 'w"

record ('w, 'info, 'cb, 'mem) host_hdi = "'w host_control" +
  hh_BulkTransferRead :: "UsbDev \<Rightarrow> UsbPipe \<Rightarrow> int \<Rightarrow> u8 list \<Rightarrow> 'w \<Rightarrow> int \<times> u8 list \<times> 'w"
  hh_BulkTransferReadwithLength :: "UsbDev \<Rightarrow> UsbPipe \<Rightarrow> int \<Rightarrow> int \<Rightarrow> u8 list \<Rightarrow> 'w \<Rightarrow> int \<times> u8 list \<times> 'w"
  hh_BulkTransferWrite :: "UsbDev \<Rightarrow> UsbPipe \<Rightarrow> int \<Rightarrow> u8 list \<Rightarrow> 'w \<Rightarrow> int \<times> 'w"
  hh_ControlTransferWrite :: "UsbDev \<Rightarrow> UsbCtrlTransfer \<Rightarrow> u8 list \<Rightarrow> 'w \<Rightarrow> int \<times> 'w"
  hh_ControlTransferRead :: "UsbDev \<Rightarrow> UsbCtrlTransfer \<Rightarrow> u8 list \<Rightarrow> 'w \<Rightarrow> int \<times> u8 list \<times> 'w"
  hh_ControlTransferReadwithLength :: "UsbDev \<Rightarrow> UsbCtrlTransferParams \<Rightarrow> u8 list \<Rightarrow> 'w \<Rightarrow> int \<times> u8 list \<times> 'w"
  hh_RequestQueue :: "UsbDev \<Rightarrow> UsbPipe \<Rightarrow> u8 list \<Rightarrow> u8 list \<Rightarrow> 'w \<Rightarrow> int \<times> 'w"
  hh_RequestWait :: "UsbDev \<Rightarrow> int \<Rightarrow> 'w \<Rightarrow> int \<times> u8 list \<times> u8 list \<times> 'w"
  hh_RequestCancel :: "UsbDev \<Rightarrow> UsbPipe \<Rightarrow> 'w \<Rightarrow> int \<times> 'w"
  hh_UsbCancelTransfer :: "UsbDev \<Rightarrow> int \<Rightarrow> 'w \<Rightarrow> int \<times> 'w"
  hh_UsbSubmitTransfer :: "UsbDev \<Rightarrow> 'info \<Rightarrow> 'cb \<Rightarrow> 'mem \<Rightarrow> 'w \<Rightarrow> int \<times> 'w"
  hh_RegBulkCallback :: "UsbDev \<Rightarrow> UsbPipe \<Rightarrow> 'cb \<Rightarrow> 'w \<Rightarrow> int \<times> 'w"
  hh_UnRegBulkCallback :: "UsbDev \<Rightarrow> UsbPipe \<Rightarrow> 'w \<Rightarrow> int \<times> 'w"
  hh_BulkRead :: "UsbDev \<Rightarrow> UsbPipe \<Rightarrow> 'mem \<Rightarrow> 'w \<Rightarrow> int \<times> 'w"
  hh_BulkWrite :: "UsbDev \<Rightarrow> UsbPipe \<Rightarrow> 'mem \<Rightarrow> 'w \<Rightarrow> int \<times> 'w"
  hh_BulkCancel :: "UsbDev \<Rightarrow> UsbPipe \<Rightarrow> 'w \<Rightarrow> int \<times> 'w"

text \<open>
  \<open>hl_access path rw\<close> is \<^verbatim>\<open>access\<close>, for existence or for reading and writing; \<open>hl_sleep\<close> is what
  happens while the thread waits; \<open>hl_iconv\<close> converts from UTF-16LE to UTF-8; \<open>hl_char_signed\<close> tells
  whether the compiler's \<^verbatim>\<open>char\<close> is signed; the two death recipient calls are those of the callback
  object.
\<close>

record ('w, 'cb) host_lib =
  hl_access :: "string \<Rightarrow> bool \<Rightarrow> 'w \<Rightarrow> bool"
  hl_sleep :: "'w \<Rightarrow> 'w"
  hl_iconv :: "u8 list \<Rightarrow> string option"
  hl_char_signed :: bool
  hl_AddDeathRecipient :: "'cb \<Rightarrow> 'w \<Rightarrow> bool \<times> 'w"
  hl_RemoveDeathRecipient :: "'cb \<Rightarrow> 'w \<Rightarrow> 'w"

subsection \<open>Requests handed to the driver\<close>

text \<open>The frame the operations share: without a driver nothing is asked.\<close>

definition with_hdi :: "('w, 'i, 'c, 'm) host_hdi option \<Rightarrow> (('w, 'i, 'c, 'm) host_hdi \<Rightarrow> 'w \<Rightarrow> int \<times> 'w) \<Rightarrow>
    'w \<Rightarrow> retcode \<times> 'w" where
  "with_hdi hdi f w = (case hdi of None \<Rightarrow> (UEC_SERVICE_INVALID_VALUE, w)
     | Some h \<Rightarrow> (case f h w of (ret, w') \<Rightarrow> (ret_of_int ret, w')))"

text \<open>The same frame for a request with a result; \<open>old\<close> is what the caller's variable held.\<close>

definition with_hdi_out :: "('w, 'i, 'c, 'm) host_hdi option \<Rightarrow> 'a \<Rightarrow>
    (('w, 'i, 'c, 'm) host_hdi \<Rightarrow> 'w \<Rightarrow> int \<times> 'a \<times> 'w) \<Rightarrow> 'w \<Rightarrow> retcode \<times> 'a \<times> 'w" where
  "with_hdi_out hdi old f w = (case hdi of None \<Rightarrow> (UEC_SERVICE_INVALID_VALUE, old, w)
     | Some h \<Rightarrow> (case f h w of (ret, x, w') \<Rightarrow> (ret_of_int ret, x, w')))"

definition OpenDevice :: "('w, 'i, 'c, 'm) host_hdi option \<Rightarrow> u8 \<Rightarrow> u8 \<Rightarrow> 'w \<Rightarrow> retcode \<times> 'w" where
  "OpenDevice hdi busNum devAddr = with_hdi hdi (\<lambda>h. hh_OpenDevice h (busNum, devAddr))"

definition Close :: "('w, 'i, 'c, 'm) host_hdi option \<Rightarrow> u8 \<Rightarrow> u8 \<Rightarrow> 'w \<Rightarrow> retcode \<times> 'w" where
  "Close hdi busNum devAddr = with_hdi hdi (\<lambda>h. hh_CloseDevice h (busNum, devAddr))"

definition ResetDevice :: "('w, 'i, 'c, 'm) host_hdi option \<Rightarrow> u8 \<Rightarrow> u8 \<Rightarrow> 'w \<Rightarrow> retcode \<times> 'w" where
  "ResetDevice hdi busNum devAddr = with_hdi hdi (\<lambda>h. hh_ResetDevice h (busNum, devAddr))"

definition ClaimInterface :: "('w, 'i, 'c, 'm) host_hdi option \<Rightarrow> u8 \<Rightarrow> u8 \<Rightarrow> u8 \<Rightarrow> u8 \<Rightarrow> 'w \<Rightarrow> retcode \<times> 'w" where
  "ClaimInterface hdi busNum devAddr interfaceid force =
     with_hdi hdi (\<lambda>h. hh_ClaimInterface h (busNum, devAddr) interfaceid force)"

definition SetInterface :: "('w, 'i, 'c, 'm) host_hdi option \<Rightarrow> u8 \<Rightarrow> u8 \<Rightarrow> u8 \<Rightarrow> u8 \<Rightarrow> 'w \<Rightarrow> retcode \<times> 'w" where
  "SetInterface hdi busNum devAddr interfaceid altIndex =
     with_hdi hdi (\<lambda>h. hh_SetInterface h (busNum, devAddr) interfaceid altIndex)"

definition ReleaseInterface :: "('w, 'i, 'c, 'm) host_hdi option \<Rightarrow> u8 \<Rightarrow> u8 \<Rightarrow> u8 \<Rightarrow> 'w \<Rightarrow> retcode \<times> 'w" where
  "ReleaseInterface hdi busNum devAddr interface =
     with_hdi hdi (\<lambda>h. hh_ReleaseInterface h (busNum, devAddr) interface)"

definition SetActiveConfig :: "('w, 'i, 'c, 'm) host_hdi option \<Rightarrow> u8 \<Rightarrow> u8 \<Rightarrow> u8 \<Rightarrow> 'w \<Rightarrow> retcode \<times> 'w" where
  "SetActiveConfig hdi busNum devAddr configIndex =
     with_hdi hdi (\<lambda>h. hh_SetConfig h (busNum, devAddr) configIndex)"

definition ManageInterface :: "('w, 'i, 'c, 'm) host_hdi option \<Rightarrow> UsbDev \<Rightarrow> u8 \<Rightarrow> bool \<Rightarrow> 'w \<Rightarrow> retcode \<times> 'w" where
  "ManageInterface hdi dev interfaceId disable = with_hdi hdi (\<lambda>h. hh_ManageInterface h dev interfaceId disable)"

definition UsbAttachKernelDriver :: "('w, 'i, 'c, 'm) host_hdi option \<Rightarrow> u8 \<Rightarrow> u8 \<Rightarrow> u8 \<Rightarrow> 'w \<Rightarrow> retcode \<times> 'w" where
  "UsbAttachKernelDriver hdi busNum devAddr interfaceid =
     with_hdi hdi (\<lambda>h. hh_ManageInterface h (busNum, devAddr) interfaceid False)"

definition UsbDetachKernelDriver :: "('w, 'i, 'c, 'm) host_hdi option \<Rightarrow> u8 \<Rightarrow> u8 \<Rightarrow> u8 \<Rightarrow> 'w \<Rightarrow> retcode \<times> 'w" where
  "UsbDetachKernelDriver hdi busNum devAddr interfaceid =
     with_hdi hdi (\<lambda>h. hh_ManageInterface h (busNum, devAddr) interfaceid True)"

definition ClearHalt :: "('w, 'i, 'c, 'm) host_hdi option \<Rightarrow> u8 \<Rightarrow> u8 \<Rightarrow> u8 \<Rightarrow> u8 \<Rightarrow> 'w \<Rightarrow> retcode \<times> 'w" where
  "ClearHalt hdi busNum devAddr interfaceId endpointId =
     with_hdi hdi (\<lambda>h. hh_ClearHalt h (busNum, devAddr) (interfaceId, endpointId))"

definition GetActiveConfig :: "('w, 'i, 'c, 'm) host_hdi option \<Rightarrow> u8 \<Rightarrow> u8 \<Rightarrow> u8 \<Rightarrow> 'w \<Rightarrow> retcode \<times> u8 \<times> 'w" where
  "GetActiveConfig hdi busNum devAddr configIndex =
     with_hdi_out hdi configIndex (\<lambda>h. hh_GetConfig h (busNum, devAddr))"

definition GetRawDescriptor :: "('w, 'i, 'c, 'm) host_hdi option \<Rightarrow> u8 \<Rightarrow> u8 \<Rightarrow> u8 list \<Rightarrow> 'w \<Rightarrow>
    retcode \<times> u8 list \<times> 'w" where
  "GetRawDescriptor hdi busNum devAddr bufferData =
     with_hdi_out hdi bufferData (\<lambda>h. hh_GetRawDescriptor h (busNum, devAddr))"

definition GetFileDescriptor :: "('w, 'i, 'c, 'm) host_hdi option \<Rightarrow> u8 \<Rightarrow> u8 \<Rightarrow> int \<Rightarrow> 'w \<Rightarrow> retcode \<times> int \<times> 'w" where
  "GetFileDescriptor hdi busNum devAddr fd =
     with_hdi_out hdi fd (\<lambda>h. hh_GetDeviceFileDescriptor h (busNum, devAddr))"

definition GetDeviceSpeed :: "('w, 'i, 'c, 'm) host_hdi option \<Rightarrow> u8 \<Rightarrow> u8 \<Rightarrow> u8 \<Rightarrow> 'w \<Rightarrow> retcode \<times> u8 \<times> 'w" where
  "GetDeviceSpeed hdi busNum devAddr speed =
     with_hdi_out hdi speed (\<lambda>h. hh_GetDeviceSpeed h (busNum, devAddr))"

definition GetInterfaceActiveStatus :: "('w, 'i, 'c, 'm) host_hdi option \<Rightarrow> u8 \<Rightarrow> u8 \<Rightarrow> u8 \<Rightarrow> bool \<Rightarrow> 'w \<Rightarrow>
    retcode \<times> bool \<times> 'w" where
  "GetInterfaceActiveStatus hdi busNum devAddr interfaceid unactivated =
     with_hdi_out hdi unactivated (\<lambda>h. hh_GetInterfaceActiveStatus h (busNum, devAddr) interfaceid)"

subsection \<open>Transfers\<close>

definition BulkTransferRead :: "('w, 'i, 'c, 'm) host_hdi option \<Rightarrow> UsbDev \<Rightarrow> UsbPipe \<Rightarrow> u8 list \<Rightarrow> int \<Rightarrow> 'w \<Rightarrow>
    retcode \<times> u8 list \<times> 'w" where
  "BulkTransferRead hdi dev pipe bufferData timeOut =
     with_hdi_out hdi bufferData (\<lambda>h. hh_BulkTransferRead h dev pipe timeOut bufferData)"

definition BulkTransferReadwithLength :: "('w, 'i, 'c, 'm) host_hdi option \<Rightarrow> UsbDev \<Rightarrow> UsbPipe \<Rightarrow> int \<Rightarrow> u8 list \<Rightarrow>
    int \<Rightarrow> 'w \<Rightarrow> retcode \<times> u8 list \<times> 'w" where
  "BulkTransferReadwithLength hdi dev pipe len bufferData timeOut =
     with_hdi_out hdi bufferData (\<lambda>h. hh_BulkTransferReadwithLength h dev pipe timeOut len bufferData)"

definition BulkTransferWrite :: "('w, 'i, 'c, 'm) host_hdi option \<Rightarrow> UsbDev \<Rightarrow> UsbPipe \<Rightarrow> u8 list \<Rightarrow> int \<Rightarrow> 'w \<Rightarrow>
    retcode \<times> 'w" where
  "BulkTransferWrite hdi dev pipe bufferData timeOut =
     with_hdi hdi (\<lambda>h. hh_BulkTransferWrite h dev pipe timeOut bufferData)"

definition USB_ENDPOINT_DIR_MASK :: u32 where "USB_ENDPOINT_DIR_MASK = 0x80"
definition USB_ENDPOINT_DIR_OUT :: u32 where "USB_ENDPOINT_DIR_OUT = 0"

text \<open>A write leaves the caller's buffer; a read empties it first.\<close>

definition ControlTransfer :: "('w, 'i, 'c, 'm) host_hdi option \<Rightarrow> UsbDev \<Rightarrow> UsbCtrlTransfer \<Rightarrow> u8 list \<Rightarrow> 'w \<Rightarrow>
    retcode \<times> u8 list \<times> 'w" where
  "ControlTransfer hdi dev ctrl bufferData = with_hdi_out hdi bufferData (\<lambda>h w.
     if ct_requestType ctrl AND USB_ENDPOINT_DIR_MASK = USB_ENDPOINT_DIR_OUT
     then (case hh_ControlTransferWrite h dev ctrl bufferData w of (ret, w') \<Rightarrow> (ret, bufferData, w'))
     else hh_ControlTransferRead h dev ctrl [] w)"

definition UsbControlTransfer :: "('w, 'i, 'c, 'm) host_hdi option \<Rightarrow> UsbDev \<Rightarrow> UsbCtrlTransferParams \<Rightarrow> u8 list \<Rightarrow>
    'w \<Rightarrow> retcode \<times> u8 list \<times> 'w" where
  "UsbControlTransfer hdi dev ctrlParams bufferData = with_hdi_out hdi bufferData (\<lambda>h w.
     if ct_requestType ctrlParams AND USB_ENDPOINT_DIR_MASK = USB_ENDPOINT_DIR_OUT
     then (case hh_ControlTransferWrite h dev (UsbCtrlTransfer.truncate ctrlParams) bufferData w of
        (ret, w') \<Rightarrow> (ret, bufferData, w'))
     else hh_ControlTransferReadwithLength h dev ctrlParams [] w)"

definition RequestQueue :: "('w, 'i, 'c, 'm) host_hdi option \<Rightarrow> UsbDev \<Rightarrow> UsbPipe \<Rightarrow> u8 list \<Rightarrow> u8 list \<Rightarrow> 'w \<Rightarrow>
    retcode \<times> 'w" where
  "RequestQueue hdi dev pipe clientData bufferData =
     with_hdi hdi (\<lambda>h. hh_RequestQueue h dev pipe clientData bufferData)"

definition RequestWait :: "('w, 'i, 'c, 'm) host_hdi option \<Rightarrow> UsbDev \<Rightarrow> int \<Rightarrow> u8 list \<Rightarrow> u8 list \<Rightarrow> 'w \<Rightarrow>
    retcode \<times> (u8 list \<times> u8 list) \<times> 'w" where
  "RequestWait hdi dev timeOut clientData bufferData = with_hdi_out hdi (clientData, bufferData) (\<lambda>h w.
     case hh_RequestWait h dev timeOut w of (ret, c, b, w') \<Rightarrow> (ret, (c, b), w'))"

definition RequestCancel :: "('w, 'i, 'c, 'm) host_hdi option \<Rightarrow> u8 \<Rightarrow> u8 \<Rightarrow> u8 \<Rightarrow> u8 \<Rightarrow> 'w \<Rightarrow> retcode \<times> 'w" where
  "RequestCancel hdi busNum devAddr interfaceId endpointId =
     with_hdi hdi (\<lambda>h. hh_RequestCancel h (busNum, devAddr) (interfaceId, endpointId))"

definition UsbCancelTransfer :: "('w, 'i, 'c, 'm) host_hdi option \<Rightarrow> UsbDev \<Rightarrow> int \<Rightarrow> 'w \<Rightarrow> retcode \<times> 'w" where
  "UsbCancelTransfer hdi devInfo endpoint = with_hdi hdi (\<lambda>h. hh_UsbCancelTransfer h devInfo endpoint)"

text \<open>
  A submitted transfer watches its client: the death recipient is added first and removed when the
  driver refuses; when the client dies the transfer is cancelled and the device closed.
\<close>

definition UsbSubmitTransfer :: "('w, 'i, 'c, 'm) host_hdi option \<Rightarrow> ('w, 'c) host_lib \<Rightarrow> UsbDev \<Rightarrow> 'i \<Rightarrow> 'c \<Rightarrow> 'm \<Rightarrow>
    'w \<Rightarrow> retcode \<times> 'w" where
  "UsbSubmitTransfer hdi lib devInfo info cb ashmem w = (case hdi of None \<Rightarrow> (UEC_SERVICE_INVALID_VALUE, w)
     | Some h \<Rightarrow> (case hl_AddDeathRecipient lib cb w of (ok, w1) \<Rightarrow>
         if \<not> ok then (UEC_SERVICE_INVALID_VALUE, w1)
         else (case hh_UsbSubmitTransfer h devInfo info cb ashmem w1 of (ret, w2) \<Rightarrow>
           if ret \<noteq> 0 then (ret_of_int ret, hl_RemoveDeathRecipient lib cb w2) else (UEC_OK, w2))))"

definition OnRemoteDied :: "('w, 'i, 'c, 'm) host_hdi option \<Rightarrow> UsbDev \<Rightarrow> int \<Rightarrow> 'w \<Rightarrow> 'w" where
  "OnRemoteDied hdi devInfo endpoint w = (case UsbCancelTransfer hdi devInfo endpoint w of (ret, w1) \<Rightarrow>
     if ret = UEC_OK then snd (Close hdi (fst devInfo) (snd devInfo) w1) else w1)"

text \<open>
  The bulk callback: the first callback registered is kept and used for every later registration,
  until one registration is undone. It is made before the driver is looked at.
\<close>

definition RegBulkCallback :: "('w, 'i, 'c, 'm) host_hdi option \<Rightarrow> UsbDev \<Rightarrow> UsbPipe \<Rightarrow> 'c option \<Rightarrow> 'c option \<Rightarrow> 'w \<Rightarrow>
    retcode \<times> 'c option \<times> 'w" where
  "RegBulkCallback hdi devInfo pipe cb usbHostHdiCb w =
     (case cb of None \<Rightarrow> (UEC_SERVICE_INVALID_VALUE, usbHostHdiCb, w)
      | Some c \<Rightarrow> let c' = (case usbHostHdiCb of None \<Rightarrow> c | Some old \<Rightarrow> old) in
          (case with_hdi hdi (\<lambda>h. hh_RegBulkCallback h devInfo pipe c') w of (ret, w') \<Rightarrow> (ret, Some c', w')))"

definition UnRegBulkCallback :: "('w, 'i, 'c, 'm) host_hdi option \<Rightarrow> UsbDev \<Rightarrow> UsbPipe \<Rightarrow> 'c option \<Rightarrow> 'w \<Rightarrow>
    retcode \<times> 'c option \<times> 'w" where
  "UnRegBulkCallback hdi devInfo pipe usbHostHdiCb w =
     (case hdi of None \<Rightarrow> (UEC_SERVICE_INVALID_VALUE, usbHostHdiCb, w)
      | Some h \<Rightarrow> (case hh_UnRegBulkCallback h devInfo pipe w of (ret, w') \<Rightarrow> (ret_of_int ret, None, w')))"

definition BulkRead :: "('w, 'i, 'c, 'm) host_hdi option \<Rightarrow> UsbDev \<Rightarrow> UsbPipe \<Rightarrow> 'm option \<Rightarrow> 'w \<Rightarrow> retcode \<times> 'w" where
  "BulkRead hdi devInfo pipe ashmem w = (case ashmem of None \<Rightarrow> (UEC_SERVICE_INVALID_VALUE, w)
     | Some m \<Rightarrow> with_hdi hdi (\<lambda>h. hh_BulkRead h devInfo pipe m) w)"

definition BulkWrite :: "('w, 'i, 'c, 'm) host_hdi option \<Rightarrow> UsbDev \<Rightarrow> UsbPipe \<Rightarrow> 'm option \<Rightarrow> 'w \<Rightarrow> retcode \<times> 'w" where
  "BulkWrite hdi devInfo pipe ashmem w = (case ashmem of None \<Rightarrow> (UEC_SERVICE_INVALID_VALUE, w)
     | Some m \<Rightarrow> with_hdi hdi (\<lambda>h. hh_BulkWrite h devInfo pipe m) w)"

definition BulkCancel :: "('w, 'i, 'c, 'm) host_hdi option \<Rightarrow> UsbDev \<Rightarrow> UsbPipe \<Rightarrow> 'w \<Rightarrow> retcode \<times> 'w" where
  "BulkCancel hdi devInfo pipe = with_hdi hdi (\<lambda>h. hh_BulkCancel h devInfo pipe)"

end
