(* ===== verification/Host_Description.thy ===== *)
theory Host_Description
  imports Host_Driver
begin

section \<open>Host manager: reading a device\<close>

text \<open>
  \<^verbatim>\<open>GetDeviceInfo\<close> of \<^verbatim>\<open>services/native/src/usb_host_manager.cpp\<close> and what it calls: waiting for
  the device node, opening the device, parsing its raw descriptors with the parser of
  \<open>Usb_Descriptor\<close> and reading its strings. A result \<open>None\<close> is a read outside of a buffer, as in
  the parser.
\<close>

subsection \<open>The device node\<close>

definition USB_DEV_FS_PATH :: string where "USB_DEV_FS_PATH = ''/dev/bus/usb''"
definition RETRY_NUM :: nat where "RETRY_NUM = 10"

text \<open>\<^verbatim>\<open>%03u\<close>\<close>

definition pad3 :: "u8 \<Rightarrow> string" where
  "pad3 n = (let s = nat_to_string (unat n) in replicate (3 - length s) (CHR ''0'') @ s)"

definition dev_path :: "u8 \<Rightarrow> u8 \<Rightarrow> string" where
  "dev_path busNum devAddr = USB_DEV_FS_PATH @ ''/'' @ pad3 busNum @ ''/'' @ pad3 devAddr"

definition CheckDevPathIsExist :: "('w, 'c) host_lib \<Rightarrow> u8 \<Rightarrow> u8 \<Rightarrow> 'w \<Rightarrow> retcode" where
  "CheckDevPathIsExist lib busNum devAddr w =
     (if \<not> hl_access lib (dev_path busNum devAddr) False w then UEC_SERVICE_INNER_ERR
      else if \<not> hl_access lib (dev_path busNum devAddr) True w then UEC_SERVICE_INNER_ERR
      else UEC_OK)"

text \<open>The loop that waits for the node, at most so many times.\<close>

fun await_path :: "('w, 'c) host_lib \<Rightarrow> u8 \<Rightarrow> u8 \<Rightarrow> nat \<Rightarrow> 'w \<Rightarrow> 'w" where
  "await_path lib busNum devAddr 0 w = w"
| "await_path lib busNum devAddr (Suc i) w =
     (if CheckDevPathIsExist lib busNum devAddr w = UEC_OK then w
      else await_path lib busNum devAddr i (hl_sleep lib w))"

subsection \<open>Strings\<close>

definition HALF :: nat where "HALF = 2"
definition DESCRIPTOR_TYPE_STRING :: u8 where "DESCRIPTOR_TYPE_STRING = 3"

text \<open>With a signed \<^verbatim>\<open>char\<close> no byte compares equal to \<^verbatim>\<open>0xFF\<close> and the byte order mark is kept.\<close>

definition has_bom :: "('w, 'c) host_lib \<Rightarrow> u8 list \<Rightarrow> bool" where
  "has_bom lib bytes \<longleftrightarrow> \<not> hl_char_signed lib \<and> take 2 bytes = [0xFF, 0xFE]"

definition Utf16leToUtf8 :: "('w, 'c) host_lib \<Rightarrow> u8 list \<Rightarrow> string" where
  "Utf16leToUtf8 lib bytes =
     (if length bytes mod HALF \<noteq> 0 then '' ''
      else let rest = (if has_bom lib bytes then drop 2 bytes else bytes) in
        if rest = [] then '' ''
        else (case hl_iconv lib rest of None \<Rightarrow> '' ''
          | Some str \<Rightarrow> takeWhile (\<lambda>c. c \<noteq> char_of (0 :: nat)) str))"

definition GetDevStringValFromIdx :: "('w, 'i, 'c, 'm) host_hdi option \<Rightarrow> ('w, 'c) host_lib \<Rightarrow> u8 \<Rightarrow> u8 \<Rightarrow> u8 \<Rightarrow> 'w \<Rightarrow>
    string \<times> 'w" where
  "GetDevStringValFromIdx hdi lib busNum devAddr idx w =
     (if idx = 0 then ('' '', w)
      else (case hdi of None \<Rightarrow> ('' '', w)
        | Some h \<Rightarrow> (case hh_GetStringDescriptor h (busNum, devAddr) idx w of (ret, strV, w1) \<Rightarrow>
            if ret \<noteq> 0 then ('' '', w1)
            else if length strV < 2 \<or> strV ! 1 \<noteq> DESCRIPTOR_TYPE_STRING then ('' '', w1)
            else (Utf16leToUtf8 lib (drop 2 strV), w1))))"

definition hex_upper :: "nat \<Rightarrow> char" where
  "hex_upper d = (if d < 10 then char_of (48 + d) else char_of (55 + d))"

definition BcdToString :: "u16 \<Rightarrow> string" where
  "BcdToString bcdUsb = map (\<lambda>k. hex_upper (unat bcdUsb div 16 ^ k mod 16)) [3, 2, 1, 0]"

text \<open>A loop that changes the elements of a list one after the other.\<close>

fun update_each :: "('a \<Rightarrow> 'w \<Rightarrow> 'a \<times> 'w) \<Rightarrow> 'a list \<Rightarrow> 'w \<Rightarrow> 'a list \<times> 'w" where
  "update_each f [] w = ([], w)"
| "update_each f (x # xs) w = (case f x w of (y, w1) \<Rightarrow> case update_each f xs w1 of (ys, w2) \<Rightarrow> (y # ys, w2))"

definition name_interface :: "(u8 \<Rightarrow> 'w \<Rightarrow> string \<times> 'w) \<Rightarrow> UsbInterface \<Rightarrow> 'w \<Rightarrow> UsbInterface \<times> 'w" where
  "name_interface str i w = (case str (if_iInterface i) w of (s, w1) \<Rightarrow> (i\<lparr>if_name := s\<rparr>, w1))"

definition name_config :: "(u8 \<Rightarrow> 'w \<Rightarrow> string \<times> 'w) \<Rightarrow> USBConfig \<Rightarrow> 'w \<Rightarrow> USBConfig \<times> 'w" where
  "name_config str c w = (case str (cf_iConfiguration c) w of (s, w1) \<Rightarrow>
     case update_each (name_interface str) (cf_interfaces c) w1 of (ifs, w2) \<Rightarrow>
       (c\<lparr>cf_name := s, cf_interfaces := ifs\<rparr>, w2))"

definition FillDevStrings :: "('w, 'i, 'c, 'm) host_hdi option \<Rightarrow> ('w, 'c) host_lib \<Rightarrow> UsbDevice \<Rightarrow> 'w \<Rightarrow>
    retcode \<times> UsbDevice \<times> 'w" where
  "FillDevStrings hdi lib dev w =
     (let str = GetDevStringValFromIdx hdi lib (dev_busNum dev) (dev_devAddr dev) in
      case str (dev_iManufacturer dev) w of (manufacturer, w1) \<Rightarrow>
      case str (dev_iProduct dev) w1 of (product, w2) \<Rightarrow>
      case str (dev_iSerialNumber dev) w2 of (serial, w3) \<Rightarrow>
      case update_each (name_config str) (dev_configs dev) w3 of (configs, w4) \<Rightarrow>
        (UEC_OK, dev\<lparr>dev_version := BcdToString (dev_bcdUSB dev), dev_manufacturerName := manufacturer,
           dev_productName := product, dev_serial := serial, dev_configs := configs\<rparr>, w4))"

subsection \<open>The device\<close>

definition device_name :: "u8 \<Rightarrow> u8 \<Rightarrow> string" where
  "device_name busNum devAddr = nat_to_string (unat busNum) @ ''-'' @ nat_to_string (unat devAddr)"

definition CURSOR_INIT :: nat where "CURSOR_INIT = 18"

definition GetDeviceInfoDescriptor :: "('w, 'i, 'c, 'm) host_hdi option \<Rightarrow> UsbDev \<Rightarrow> UsbDevice \<Rightarrow> 'w \<Rightarrow>
    (retcode \<times> u8 list \<times> UsbDevice \<times> 'w) option" where
  "GetDeviceInfoDescriptor hdi uDev dev w =
     (case GetRawDescriptor hdi (fst uDev) (snd uDev) [] w of (ret, descriptor, w1) \<Rightarrow>
        if ret \<noteq> UEC_OK then Some (ret, descriptor, dev, w1)
        else let len = length descriptor mod 2 ^ 32 in
          if descriptor = [] \<or> len = 0 then Some (UEC_SERVICE_INVALID_VALUE, descriptor, dev, w1)
          else let dev1 = dev\<lparr>dev_busNum := fst uDev, dev_devAddr := snd uDev,
                 dev_name := device_name (fst uDev) (snd uDev)\<rparr>
            in case ParseDeviceDescriptor (Some descriptor) len dev1 of None \<Rightarrow> None
               | Some (ret, dev2) \<Rightarrow> Some (ret, descriptor, dev2, w1))"

definition GetConfigDescriptor :: "('w, 'i, 'c, 'm) host_hdi option \<Rightarrow> ('w, 'c) host_lib \<Rightarrow> UsbDevice \<Rightarrow> u8 list \<Rightarrow>
    'w \<Rightarrow> (retcode \<times> UsbDevice \<times> 'w) option" where
  "GetConfigDescriptor hdi lib dev descriptor w =
     (case ParseConfigDescriptors descriptor CURSOR_INIT [] of None \<Rightarrow> None
      | Some (ret, configs) \<Rightarrow>
          if ret \<noteq> UEC_OK then Some (ret, dev, w)
          else Some (FillDevStrings hdi lib (dev\<lparr>dev_configs := configs\<rparr>) w))"

text \<open>
  The device is closed on every path after it was opened; an error of closing hides the result of
  reading.
\<close>

definition GetDeviceInfo :: "('w, 'i, 'c, 'm) host_hdi option \<Rightarrow> ('w, 'c) host_lib \<Rightarrow> u8 \<Rightarrow> u8 \<Rightarrow> UsbDevice \<Rightarrow> 'w \<Rightarrow>
    (retcode \<times> UsbDevice \<times> 'w) option" where
  "GetDeviceInfo hdi lib busNum devAddr dev w =
     (case OpenDevice hdi busNum devAddr (await_path lib busNum devAddr RETRY_NUM w) of (ret, w1) \<Rightarrow>
        if ret \<noteq> UEC_OK then Some (ret, dev, w1)
        else (case GetDeviceInfoDescriptor hdi (busNum, devAddr) dev w1 of None \<Rightarrow> None
          | Some (ret, descriptor, dev1, w2) \<Rightarrow>
              if ret \<noteq> UEC_OK
              then (case Close hdi busNum devAddr w2 of (res, w3) \<Rightarrow>
                if res \<noteq> UEC_OK then Some (res, dev1, w3) else Some (ret, dev1, w3))
              else (case GetConfigDescriptor hdi lib dev1 descriptor w2 of None \<Rightarrow> None
                | Some (res, dev2, w3) \<Rightarrow> (case Close hdi busNum devAddr w3 of (ret, w4) \<Rightarrow>
                    if ret \<noteq> UEC_OK then Some (ret, dev2, w4) else Some (res, dev2, w4)))))"


subsection \<open>No read outside of a buffer\<close>

lemma ParseDeviceDescriptor_total:
  assumes "len \<le> length buf"
  shows "ParseDeviceDescriptor (Some buf) len dev \<noteq> None"
proof -
  have "18 \<le> len \<Longrightarrow> \<exists>d. decode_device (take 18 buf) = Some d"
    using assms by (intro decode_device_total) simp
  with assms show ?thesis by (auto simp: ParseDeviceDescriptor_def read_bytes_Some)
qed

lemma GetDeviceInfoDescriptor_total: "GetDeviceInfoDescriptor hdi uDev dev w \<noteq> None"
proof -
  obtain ret ds w1 where g: "GetRawDescriptor hdi (fst uDev) (snd uDev) [] w = (ret, ds, w1)"
    by (cases "GetRawDescriptor hdi (fst uDev) (snd uDev) [] w") auto
  show ?thesis
    using ParseDeviceDescriptor_total [OF mod_less_eq_dividend, of ds "2 ^ 32"]
    by (simp add: GetDeviceInfoDescriptor_def g Let_def del: not_None_eq split: option.split)
qed

lemma GetConfigDescriptor_total: "GetConfigDescriptor hdi lib dev ds w \<noteq> None"
proof -
  have "ParseConfigDescriptors ds CURSOR_INIT [] \<noteq> None"
    using parse_loop_total [of "length ds mod 2 ^ 32" ds CURSOR_INIT "[]"]
    by (auto simp: ParseConfigDescriptors_def)
  then show ?thesis by (simp add: GetConfigDescriptor_def del: not_None_eq split: option.split)
qed

subsection \<open>Naming keeps the tree\<close>

definition unnamed_interface :: "UsbInterface \<Rightarrow> UsbInterface" where
  "unnamed_interface i = i\<lparr>if_name := []\<rparr>"

definition unnamed_config :: "USBConfig \<Rightarrow> USBConfig" where
  "unnamed_config c = c\<lparr>cf_name := [], cf_interfaces := map unnamed_interface (cf_interfaces c)\<rparr>"

lemma map_update_each:
  assumes "\<And>x w. g (fst (f x w)) = g x"
  shows "map g (fst (update_each f xs w)) = map g xs"
  using assms by (induction xs arbitrary: w) (simp_all add: case_prod_beta)

lemma name_config_unnamed: "unnamed_config (fst (name_config str c w)) = unnamed_config c"
proof -
  have "map unnamed_interface (fst (update_each (name_interface str) xs w)) = map unnamed_interface xs" for xs w
    by (rule map_update_each) (simp add: name_interface_def unnamed_interface_def case_prod_beta)
  then show ?thesis by (simp add: name_config_def unnamed_config_def case_prod_beta)
qed

lemma FillDevStrings_keeps:
  obtains dev' w' where "FillDevStrings hdi lib dev w = (UEC_OK, dev', w')"
    "map unnamed_config (dev_configs dev') = map unnamed_config (dev_configs dev)"
    "dev_busNum dev' = dev_busNum dev" "dev_devAddr dev' = dev_devAddr dev" "dev_name dev' = dev_name dev"
    "dev_vendorId dev' = dev_vendorId dev" "dev_productId dev' = dev_productId dev"
    "dev_baseClass dev' = dev_baseClass dev" "dev_version dev' = BcdToString (dev_bcdUSB dev)"
  by (simp add: FillDevStrings_def Let_def case_prod_beta map_update_each name_config_unnamed)

lemma config_fits_unnamed: "config_fits c \<Longrightarrow> unnamed_config c = c"
proof -
  assume c: "config_fits c"
  then have "map unnamed_interface (cf_interfaces c) = cf_interfaces c"
    by (intro map_idI) (simp add: config_fits_def list_all_iff interface_fits_def unnamed_interface_def)
  with c show ?thesis by (simp add: unnamed_config_def config_fits_def)
qed

subsection \<open>Properties\<close>

text \<open>
  C16: reading a device never leaves it open and never reads outside of the bytes it sent. Whatever
  the driver answers, \<^verbatim>\<open>GetDeviceInfo\<close> returns; when the device could be opened, the last thing it
  does is to close it, and when it could not, the error is returned and the caller's device is as
  it was.
\<close>

theorem GetDeviceInfo_closes:
  "\<exists>ret dev' w'. GetDeviceInfo hdi lib busNum devAddr dev w = Some (ret, dev', w') \<and>
     (case OpenDevice hdi busNum devAddr (await_path lib busNum devAddr RETRY_NUM w) of (opened, w1) \<Rightarrow>
        if opened = UEC_OK then (\<exists>w''. w' = snd (Close hdi busNum devAddr w''))
        else ret = opened \<and> dev' = dev \<and> w' = w1)"
proof -
  obtain opened w1 where o: "OpenDevice hdi busNum devAddr (await_path lib busNum devAddr RETRY_NUM w) = (opened, w1)"
    by (cases "OpenDevice hdi busNum devAddr (await_path lib busNum devAddr RETRY_NUM w)")
  obtain ret ds dev1 w2 where d: "GetDeviceInfoDescriptor hdi (busNum, devAddr) dev w1 = Some (ret, ds, dev1, w2)"
    using GetDeviceInfoDescriptor_total [of hdi "(busNum, devAddr)" dev w1] by auto
  obtain res dev2 w3 where c: "GetConfigDescriptor hdi lib dev1 ds w2 = Some (res, dev2, w3)"
    using GetConfigDescriptor_total [of hdi lib dev1 ds w2] by auto
  have "ret \<noteq> UEC_OK \<Longrightarrow> opened = UEC_OK \<Longrightarrow> \<exists>r. GetDeviceInfo hdi lib busNum devAddr dev w =
      Some (r, dev1, snd (Close hdi busNum devAddr w2))"
    by (simp add: GetDeviceInfo_def o d case_prod_beta)
  moreover have "ret = UEC_OK \<Longrightarrow> opened = UEC_OK \<Longrightarrow> \<exists>r. GetDeviceInfo hdi lib busNum devAddr dev w =
      Some (r, dev2, snd (Close hdi busNum devAddr w3))"
    by (simp add: GetDeviceInfo_def o d c case_prod_beta)
  moreover have "opened \<noteq> UEC_OK \<Longrightarrow> GetDeviceInfo hdi lib busNum devAddr dev w = Some (opened, dev, w1)"
    by (simp add: GetDeviceInfo_def o)
  ultimately show ?thesis unfolding o by (cases "opened = UEC_OK"; cases "ret = UEC_OK") auto
qed

text \<open>What a driver that works promises of a device that sends these bytes.\<close>

definition serves :: "('w, 'i, 'c, 'm) host_hdi \<Rightarrow> UsbDev \<Rightarrow> u8 list \<Rightarrow> bool" where
  "serves h dev bytes \<longleftrightarrow> (\<forall>w. fst (hh_OpenDevice h dev w) = 0 \<and> fst (hh_CloseDevice h dev w) = 0 \<and>
     fst (hh_GetRawDescriptor h dev w) = 0 \<and> fst (snd (hh_GetRawDescriptor h dev w)) = bytes)"

lemma GetDeviceInfo_reads:
  assumes "serves h (busNum, devAddr) (pre @ encode_descriptors (concat (map (config_stream wTotal) cs)))"
    and "length pre = 18" and "decode_device pre = Some dd" and "dd_bLength dd = 18"
    and "list_all config_fits cs"
    and "length (pre @ encode_descriptors (concat (map (config_stream wTotal) cs))) < 2 ^ 32"
  shows "\<exists>dev' w'. GetDeviceInfo (Some h) lib busNum devAddr dev w = Some (UEC_OK, dev', w') \<and>
    dev_busNum dev' = busNum \<and> dev_devAddr dev' = devAddr \<and> dev_name dev' = device_name busNum devAddr \<and>
    dev_vendorId dev' = ucast (dd_idVendor dd) \<and> dev_productId dev' = ucast (dd_idProduct dd) \<and>
    dev_baseClass dev' = ucast (dd_bDeviceClass dd) \<and> dev_version dev' = BcdToString (dd_bcdUSB dd) \<and>
    map unnamed_config (dev_configs dev') = cs"
proof -
  let ?bytes = "pre @ encode_descriptors (concat (map (config_stream wTotal) cs))"
  obtain w1 where o: "OpenDevice (Some h) busNum devAddr (await_path lib busNum devAddr RETRY_NUM w) = (UEC_OK, w1)"
    using assms(1) by (simp add: OpenDevice_def with_hdi_def serves_def case_prod_beta ret_of_int_def)
  obtain w2 where r: "GetRawDescriptor (Some h) busNum devAddr [] w1 = (UEC_OK, ?bytes, w2)"
    using assms(1) by (cases "hh_GetRawDescriptor h (busNum, devAddr) w1")
      (simp add: GetRawDescriptor_def with_hdi_out_def serves_def ret_of_int_def, metis fst_conv snd_conv)
  have c: "fst (Close (Some h) busNum devAddr w) = UEC_OK" for w
    using assms(1) by (simp add: Close_def with_hdi_def serves_def case_prod_beta)
  define dev1 where "dev1 = snd (the (ParseDeviceDescriptor (Some pre) 18 (dev\<lparr>dev_busNum := busNum,
      dev_devAddr := devAddr, dev_name := device_name busNum devAddr\<rparr>)))"
  have d: "GetDeviceInfoDescriptor (Some h) (busNum, devAddr) dev w1 = Some (UEC_OK, ?bytes, dev1, w2)"
    using assms(2-4,6) r by (auto simp: GetDeviceInfoDescriptor_def dev1_def Let_def ParseDeviceDescriptor_def read_bytes_def)
  have p: "ParseConfigDescriptors ?bytes CURSOR_INIT [] = Some (UEC_OK, cs)"
    using parse_config_trees [OF assms(5,6)] assms(2) by (simp add: CURSOR_INIT_def)
  have u: "map unnamed_config cs = cs"
    using assms(5) by (simp add: map_idI list_all_iff config_fits_unnamed)
  obtain dev2 w3 where f: "FillDevStrings (Some h) lib (dev1\<lparr>dev_configs := cs\<rparr>) w2 = (UEC_OK, dev2, w3)"
    and k: "map unnamed_config (dev_configs dev2) = cs" "dev_busNum dev2 = dev_busNum dev1"
      "dev_devAddr dev2 = dev_devAddr dev1" "dev_name dev2 = dev_name dev1" "dev_vendorId dev2 = dev_vendorId dev1"
      "dev_productId dev2 = dev_productId dev1" "dev_baseClass dev2 = dev_baseClass dev1"
      "dev_version dev2 = BcdToString (dev_bcdUSB dev1)"
    by (rule FillDevStrings_keeps [of "Some h" lib "dev1\<lparr>dev_configs := cs\<rparr>" w2]) (simp add: u)
  have "GetDeviceInfo (Some h) lib busNum devAddr dev w = Some (UEC_OK, dev2, snd (Close (Some h) busNum devAddr w3))"
    using c [of w3] by (simp add: GetDeviceInfo_def o d GetConfigDescriptor_def p f case_prod_beta)
  with k assms(2-4) show ?thesis
    by (simp add: dev1_def ParseDeviceDescriptor_def read_bytes_def)
qed

text \<open>
  C17: a device is described as it describes itself. When the bytes are an 18-byte device descriptor
  followed by the descriptors of a list of configurations, \<^verbatim>\<open>GetDeviceInfo\<close> succeeds and returns the
  device's address and name, its vendor, product and class, the version in hexadecimal, and the
  configurations with all their interfaces and endpoints; only the names are added.
\<close>

theorem GetDeviceInfo_describes:
  assumes "serves h (busNum, devAddr) (pre @ encode_descriptors (concat (map (config_stream wTotal) cs)))"
    and "length pre = 18" and "decode_device pre = Some dd" and "dd_bLength dd = 18"
    and "list_all config_fits cs"
    and "length (pre @ encode_descriptors (concat (map (config_stream wTotal) cs))) < 2 ^ 32"
  shows "\<exists>dev' w'. GetDeviceInfo (Some h) lib busNum devAddr dev w = Some (UEC_OK, dev', w') \<and>
    dev_busNum dev' = busNum \<and> dev_devAddr dev' = devAddr \<and> dev_name dev' = device_name busNum devAddr \<and>
    dev_vendorId dev' = ucast (dd_idVendor dd) \<and> dev_productId dev' = ucast (dd_idProduct dd) \<and>
    dev_baseClass dev' = ucast (dd_bDeviceClass dd) \<and> dev_version dev' = BcdToString (dd_bcdUSB dd) \<and>
    map unnamed_config (dev_configs dev') = cs"
  by (rule GetDeviceInfo_reads [OF assms])

subsection \<open>A driver that works\<close>

definition quiet_host :: "u8 list \<Rightarrow> ('w, 'i, 'c, 'm) host_hdi" where
  "quiet_host bytes = \<lparr>hh_OpenDevice = (\<lambda>d w. (0, w)), hh_CloseDevice = (\<lambda>d w. (0, w)),
     hh_ResetDevice = (\<lambda>d w. (0, w)), hh_ClaimInterface = (\<lambda>d i f w. (0, w)),
     hh_SetInterface = (\<lambda>d i a w. (0, w)), hh_ReleaseInterface = (\<lambda>d i w. (0, w)),
     hh_SetConfig = (\<lambda>d c w. (0, w)), hh_GetConfig = (\<lambda>d w. (0, 1, w)),
     hh_ManageInterface = (\<lambda>d i b w. (0, w)), hh_ClearHalt = (\<lambda>d p w. (0, w)),
     hh_GetRawDescriptor = (\<lambda>d w. (0, bytes, w)), hh_GetStringDescriptor = (\<lambda>d i w. (0, [4, 3, 65, 0], w)),
     hh_GetDeviceFileDescriptor = (\<lambda>d w. (0, 3, w)), hh_GetDeviceSpeed = (\<lambda>d w. (0, 3, w)),
     hh_GetInterfaceActiveStatus = (\<lambda>d i w. (0, False, w)),
     hh_BulkTransferRead = (\<lambda>d p t b w. (0, b, w)), hh_BulkTransferReadwithLength = (\<lambda>d p t l b w. (0, b, w)),
     hh_BulkTransferWrite = (\<lambda>d p t b w. (0, w)), hh_ControlTransferWrite = (\<lambda>d c b w. (0, w)),
     hh_ControlTransferRead = (\<lambda>d c b w. (0, b, w)), hh_ControlTransferReadwithLength = (\<lambda>d c b w. (0, b, w)),
     hh_RequestQueue = (\<lambda>d p c b w. (0, w)), hh_RequestWait = (\<lambda>d t w. (0, [], [], w)),
     hh_RequestCancel = (\<lambda>d p w. (0, w)), hh_UsbCancelTransfer = (\<lambda>d e w. (0, w)),
     hh_UsbSubmitTransfer = (\<lambda>d i c m w. (0, w)), hh_RegBulkCallback = (\<lambda>d p c w. (0, w)),
     hh_UnRegBulkCallback = (\<lambda>d p w. (0, w)), hh_BulkRead = (\<lambda>d p m w. (0, w)),
     hh_BulkWrite = (\<lambda>d p m w. (0, w)), hh_BulkCancel = (\<lambda>d p w. (0, w))\<rparr>"

lemma quiet_host_serves: "serves (quiet_host bytes) dev bytes"
  by (simp add: serves_def quiet_host_def)

definition sample_lib :: "('w, 'c) host_lib" where
  "sample_lib = \<lparr>hl_access = (\<lambda>p rw w. True), hl_sleep = (\<lambda>w. w),
     hl_iconv = (\<lambda>bs. Some (map (\<lambda>b. char_of (unat b)) bs)), hl_char_signed = False,
     hl_AddDeathRecipient = (\<lambda>c w. (True, w)), hl_RemoveDeathRecipient = (\<lambda>c w. w)\<rparr>"

definition sample_device_bytes :: "u8 list" where
  "sample_device_bytes = [18, 1, 0, 2, 8, 0, 0, 64, 0x34, 0x12, 0x78, 0x56, 0, 1, 1, 2, 3, 1]"

lemma GetDeviceInfo_describes_witness:
  "\<exists>dev' w'. GetDeviceInfo (Some (quiet_host (sample_device_bytes @ sample_bytes) :: (unit, unit, unit, unit) host_hdi))
      sample_lib 1 2 new_device () = Some (UEC_OK, dev', w') \<and> dev_name dev' = device_name 1 2 \<and>
     dev_vendorId dev' = 0x1234 \<and> map unnamed_config (dev_configs dev') = [sample_config]"
proof -
  have b: "encode_descriptors (concat (map (config_stream 25) [sample_config])) = sample_bytes"
    by (simp add: sample_config_bytes)
  have l: "length (sample_device_bytes @ sample_bytes) < 2 ^ 32"
    by (simp add: sample_device_bytes_def sample_bytes_def)
  obtain dd where d: "decode_device sample_device_bytes = Some dd" "dd_bLength dd = 18" "dd_idVendor dd = 0x1234"
    by (simp add: sample_device_bytes_def le16_def)
  show ?thesis
    using GetDeviceInfo_describes [of "quiet_host (sample_device_bytes @ sample_bytes) :: (unit, unit, unit, unit) host_hdi"
        1 2 sample_device_bytes 25 "[sample_config]" dd sample_lib new_device "()", unfolded b,
        OF quiet_host_serves _ d(1,2) _ l] d(3)
    by (fastforce simp: sample_config_fits sample_device_bytes_def)
qed

end
