(* ===== verification/Usb_Interface_Type.thy ===== *)
theory Usb_Interface_Type
  imports Usb_Data
begin

section \<open>Interface types\<close>

text \<open>
  \<^verbatim>\<open>interfaces/innerkits/native/include/usb_interface_type.h\<close>: the types of devices and of
  interfaces that a policy names, with their class, subclass and protocol, where -1 stands for any.
  The order of the entries is that of the source; the containers are unordered maps, so the
  code that goes through them takes the order from its environment. The numbered enumerators
  (\<^verbatim>\<open>TYPE_DIAGNOSTIC_1\<close> and so on) are constructors with the number as argument.
\<close>

datatype (plugins only: code) InterfaceType =
    TYPE_INTERFACE | TYPE_STORAGE | TYPE_AUDIO | TYPE_HID | TYPE_PHYSICAL | TYPE_IMAGE | TYPE_PRINTER |
    TYPE_COMMUNICATION | TYPE_FULL_SPEED_HUB | TYPE_FULL_SPEED_HUB_S | TYPE_FULL_SPEED_HUB_M |
    TYPE_CDC_DATA | TYPE_SMART_CARD | TYPE_CONTENT_SECURTIY | TYPE_VIDEO | TYPE_PERSONAL_HEALTHCARE |
    TYPE_AVCONTROL | TYPE_AVV_STREAMING | TYPE_AVA_STREAMING | TYPE_BILLBOARD | TYPE_TYPEC_BRIDGE |
    TYPE_BDP | TYPE_MCTP_MANA_1 | TYPE_MCTP_MANA_2 | TYPE_MCTP_HOST_1 | TYPE_MCTP_HOST_2 | TYPE_I3C |
    TYPE_DIAGNOSTIC nat | TYPE_WIRLESS_CONTROLLER nat | TYPE_MISCELLANEOUS nat |
    TYPE_APPLICATION_SPE nat | TYPE_VENDOR_SPECIFIC

record UsbDeviceType =
  dt_baseClass :: i32
  dt_subClass :: i32
  dt_protocol :: i32
  dt_isDeviceType :: bool

record UsbDeviceId =
  di_productId :: i32
  di_vendorId :: i32

definition new_device_type :: UsbDeviceType where
  "new_device_type = \<lparr>dt_baseClass = 0, dt_subClass = 0, dt_protocol = 0, dt_isDeviceType = False\<rparr>"

type_synonym type_map = "(InterfaceType \<times> i32 \<times> i32 \<times> i32) list"

definition d_typeMap :: type_map where
  "d_typeMap = [
     (TYPE_INTERFACE, (0, 0, 0)), (TYPE_COMMUNICATION, (2, - 1, - 1)), (TYPE_FULL_SPEED_HUB, (9, 0, 0)),
     (TYPE_FULL_SPEED_HUB_S, (9, 0, 1)), (TYPE_FULL_SPEED_HUB_M, (9, 0, 2)), (TYPE_BILLBOARD, (17, 0, 0)),
     (TYPE_DIAGNOSTIC 1, (220, 1, 1)), (TYPE_DIAGNOSTIC 2, (220, 2, 0)), (TYPE_DIAGNOSTIC 3, (220, 2, 1)),
     (TYPE_DIAGNOSTIC 4, (220, 3, 0)), (TYPE_DIAGNOSTIC 5, (220, 3, 1)), (TYPE_DIAGNOSTIC 6, (220, 4, 0)),
     (TYPE_DIAGNOSTIC 7, (220, 4, 1)), (TYPE_DIAGNOSTIC 8, (220, 5, 0)), (TYPE_DIAGNOSTIC 9, (220, 5, 1)),
     (TYPE_DIAGNOSTIC 10, (220, 6, 0)), (TYPE_DIAGNOSTIC 11, (220, 6, 1)),
     (TYPE_DIAGNOSTIC 12, (220, 7, 0)), (TYPE_DIAGNOSTIC 13, (220, 7, 1)),
     (TYPE_DIAGNOSTIC 14, (220, 8, 0)), (TYPE_MISCELLANEOUS 1, (239, 1, 1)),
     (TYPE_MISCELLANEOUS 2, (239, 1, 2)), (TYPE_MISCELLANEOUS 3, (239, 2, 1)),
     (TYPE_MISCELLANEOUS 4, (239, 2, 2)), (TYPE_VENDOR_SPECIFIC, (255, - 1, - 1))]"

definition g_typeMap :: type_map where
  "g_typeMap = [
     (TYPE_AUDIO, (1, - 1, - 1)), (TYPE_COMMUNICATION, (2, - 1, - 1)), (TYPE_HID, (3, - 1, - 1)),
     (TYPE_PHYSICAL, (5, - 1, - 1)), (TYPE_IMAGE, (6, 1, 1)), (TYPE_PRINTER, (7, - 1, - 1)),
     (TYPE_STORAGE, (8, - 1, - 1)), (TYPE_CDC_DATA, (10, - 1, - 1)), (TYPE_SMART_CARD, (11, - 1, - 1)),
     (TYPE_CONTENT_SECURTIY, (13, 0, 0)), (TYPE_VIDEO, (14, - 1, - 1)),
     (TYPE_PERSONAL_HEALTHCARE, (15, - 1, - 1)), (TYPE_AVCONTROL, (16, 1, 0)),
     (TYPE_AVV_STREAMING, (16, 2, 0)), (TYPE_AVA_STREAMING, (16, 3, 0)), (TYPE_TYPEC_BRIDGE, (18, 0, 0)),
     (TYPE_BDP, (19, 0, 0)), (TYPE_MCTP_MANA_1, (20, 0, 1)), (TYPE_MCTP_MANA_2, (20, 0, 2)),
     (TYPE_MCTP_HOST_1, (20, 1, 1)), (TYPE_MCTP_HOST_2, (20, 1, 2)), (TYPE_I3C, (60, 0, 0)),
     (TYPE_DIAGNOSTIC 1, (220, 1, 1)), (TYPE_DIAGNOSTIC 2, (220, 2, 0)), (TYPE_DIAGNOSTIC 3, (220, 2, 1)),
     (TYPE_DIAGNOSTIC 4, (220, 3, 0)), (TYPE_DIAGNOSTIC 5, (220, 3, 1)), (TYPE_DIAGNOSTIC 6, (220, 4, 0)),
     (TYPE_DIAGNOSTIC 7, (220, 4, 1)), (TYPE_DIAGNOSTIC 8, (220, 5, 0)), (TYPE_DIAGNOSTIC 9, (220, 5, 1)),
     (TYPE_DIAGNOSTIC 10, (220, 6, 0)), (TYPE_DIAGNOSTIC 11, (220, 6, 1)),
     (TYPE_DIAGNOSTIC 12, (220, 7, 0)), (TYPE_DIAGNOSTIC 13, (220, 7, 1)),
     (TYPE_DIAGNOSTIC 14, (220, 8, 0)), (TYPE_WIRLESS_CONTROLLER 1, (224, 1, 1)),
     (TYPE_WIRLESS_CONTROLLER 2, (224, 1, 2)), (TYPE_WIRLESS_CONTROLLER 3, (224, 1, 3)),
     (TYPE_WIRLESS_CONTROLLER 4, (224, 1, 4)), (TYPE_WIRLESS_CONTROLLER 5, (224, 2, 1)),
     (TYPE_WIRLESS_CONTROLLER 6, (224, 2, 2)), (TYPE_WIRLESS_CONTROLLER 7, (224, 2, 3)),
     (TYPE_MISCELLANEOUS 1, (239, 1, 1)), (TYPE_MISCELLANEOUS 2, (239, 1, 2)),
     (TYPE_MISCELLANEOUS 5, (239, 3, 1)), (TYPE_MISCELLANEOUS 6, (239, 4, 1)),
     (TYPE_MISCELLANEOUS 7, (239, 4, 2)), (TYPE_MISCELLANEOUS 8, (239, 4, 3)),
     (TYPE_MISCELLANEOUS 9, (239, 4, 4)), (TYPE_MISCELLANEOUS 10, (239, 4, 5)),
     (TYPE_MISCELLANEOUS 11, (239, 4, 6)), (TYPE_MISCELLANEOUS 12, (239, 4, 7)),
     (TYPE_MISCELLANEOUS 13, (239, 5, 0)), (TYPE_MISCELLANEOUS 14, (239, 5, 1)),
     (TYPE_MISCELLANEOUS 15, (239, 5, 2)), (TYPE_MISCELLANEOUS 16, (239, 6, 1)),
     (TYPE_MISCELLANEOUS 17, (239, 6, 2)), (TYPE_MISCELLANEOUS 18, (239, 7, 1)),
     (TYPE_MISCELLANEOUS 19, (239, 7, 2)), (TYPE_APPLICATION_SPE 1, (254, 1, 1)),
     (TYPE_APPLICATION_SPE 2, (254, 2, 0)), (TYPE_APPLICATION_SPE 3, (254, 3, 0)),
     (TYPE_APPLICATION_SPE 4, (254, 3, 1)), (TYPE_VENDOR_SPECIFIC, (255, - 1, - 1))]"

end
