(* ===== verification/Serial_Manager.thy ===== *)
theory Serial_Manager
  imports Usb_Prelude
begin

section \<open>Serial manager\<close>

text \<open>
  \<^verbatim>\<open>services/native/src/serial_manager.cpp\<close>: the serial ports an application has open
  (\<^verbatim>\<open>portTokenMap_\<close>, the access token of the opener), the ports seen at the last listing
  and the ports already read or written since they were opened. The driver \<^verbatim>\<open>ISerialInterface\<close>
  is the record \<open>serial_hdi\<close> over an abstract world \<open>'w\<close>, \<open>None\<close> when the service has no
  driver; ports and attributes are the driver's types \<open>'port\<close> and \<open>'attr\<close>. The security
  reports are a list, in the order they are sent. The interface \<open>owner_guarded\<close> is the contract
  of the operations on an open port: only the opener gets through.
\<close>

subsection \<open>State and driver\<close>

record ('w, 'port, 'attr) serial_hdi =
  hdi_SerialOpen :: "int \<Rightarrow> 'w \<Rightarrow> int \<times> 'w"
  hdi_SerialClose :: "int \<Rightarrow> 'w \<Rightarrow> int \<times> 'w"
  hdi_SerialRead :: "int \<Rightarrow> u32 \<Rightarrow> u32 \<Rightarrow> 'w \<Rightarrow> int \<times> u8 list \<times> 'w"
  hdi_SerialWrite :: "int \<Rightarrow> u8 list \<Rightarrow> u32 \<Rightarrow> u32 \<Rightarrow> 'w \<Rightarrow> int \<times> 'w"
  hdi_SerialGetAttribute :: "int \<Rightarrow> 'w \<Rightarrow> int \<times> 'attr \<times> 'w"
  hdi_SerialSetAttribute :: "int \<Rightarrow> 'attr \<Rightarrow> 'w \<Rightarrow> int \<times> 'w"
  hdi_SerialGetPortList :: "'w \<Rightarrow> int \<times> 'port list \<times> 'w"
  hdi_portId :: "'port \<Rightarrow> int"

datatype serial_operation = SERIAL_OPEN | SERIAL_CLOSE | SERIAL_READ | SERIAL_WRITE

record 'port serial_manager =
  portTokenMap :: "(int, u32) omap"
  serialPortMap :: "(int, 'port) omap"
  portsHasBeenRead :: "int set"
  portsHasBeenWritten :: "int set"
  security_reports :: "(serial_operation \<times> int) list"

definition new_serial_manager :: "'port serial_manager" where
  "new_serial_manager = \<lparr>portTokenMap = [], serialPortMap = [], portsHasBeenRead = {},
     portsHasBeenWritten = {}, security_reports = []\<rparr>"

definition ERR_CODE_IOEXCEPTION :: int where "ERR_CODE_IOEXCEPTION = - 1"
definition ERR_CODE_DEVICENOTOPEN :: int where "ERR_CODE_DEVICENOTOPEN = - 6"
definition ERR_CODE_TIMEOUT :: int where "ERR_CODE_TIMEOUT = - 7"
definition ERR_CODE_ERROR_OVERFLOW :: int where "ERR_CODE_ERROR_OVERFLOW = - 8"

lemmas serial_codes [simp] = ERR_CODE_IOEXCEPTION_def ERR_CODE_DEVICENOTOPEN_def
  ERR_CODE_TIMEOUT_def ERR_CODE_ERROR_OVERFLOW_def

definition ErrorCodeWrap :: "int \<Rightarrow> retcode" where
  "ErrorCodeWrap errorCode =
     (if errorCode = ERR_CODE_IOEXCEPTION \<or> errorCode = ERR_CODE_ERROR_OVERFLOW
      then UEC_SERIAL_IO_EXCEPTION
      else if errorCode = ERR_CODE_DEVICENOTOPEN then UEC_SERIAL_DEVICENOTOPEN
      else if errorCode = ERR_CODE_TIMEOUT then UEC_INTERFACE_TIMED_OUT
      else UEC_SERIAL_OTHER_ERROR)"

subsection \<open>Operations\<close>

definition ReportSerialOperationSecurityInfo ::
  "int \<Rightarrow> serial_operation \<Rightarrow> 'port serial_manager \<Rightarrow> 'port serial_manager" where
  "ReportSerialOperationSecurityInfo portId op sm =
     sm\<lparr>security_reports := security_reports sm @ [(op, portId)]\<rparr>"

definition CheckTokenIdValidity :: "u32 \<Rightarrow> int \<Rightarrow> 'port serial_manager \<Rightarrow> bool" where
  "CheckTokenIdValidity token portId sm =
     (case map_of (portTokenMap sm) portId of None \<Rightarrow> False | Some t \<Rightarrow> token = t)"

definition CheckPortAndTokenId ::
  "('w, 'port, 'attr) serial_hdi option \<Rightarrow> u32 \<Rightarrow> int \<Rightarrow> 'port serial_manager \<Rightarrow> retcode" where
  "CheckPortAndTokenId hdi token portId sm =
     (if hdi = None then UEC_SERVICE_INVALID_VALUE
      else if \<not> CheckTokenIdValidity token portId sm then UEC_SERIAL_PORT_NOT_OPEN
      else UEC_OK)"

definition SerialOpen :: "('w, 'port, 'attr) serial_hdi option \<Rightarrow> u32 \<Rightarrow> int \<Rightarrow>
    'port serial_manager \<Rightarrow> 'w \<Rightarrow> retcode \<times> 'port serial_manager \<times> 'w" where
  "SerialOpen hdi token portId sm w =
     (case hdi of None \<Rightarrow> (UEC_SERVICE_INVALID_VALUE, sm, w)
      | Some h \<Rightarrow>
        if map_of (portTokenMap sm) portId \<noteq> None then (UEC_SERIAL_PORT_REPEAT_OPEN, sm, w)
        else (case hdi_SerialOpen h portId w of (ret, w') \<Rightarrow>
          if ret \<noteq> 0 then (ErrorCodeWrap ret, sm, w')
          else (UEC_OK,
                (ReportSerialOperationSecurityInfo portId SERIAL_OPEN sm)
                  \<lparr>portTokenMap := omap_put portId token (portTokenMap sm)\<rparr>, w')))"

text \<open>The guard and the driver call that the operations on an open port share.\<close>

definition with_port :: "('w, 'port, 'attr) serial_hdi option \<Rightarrow> u32 \<Rightarrow> int \<Rightarrow>
    (('w, 'port, 'attr) serial_hdi \<Rightarrow> retcode \<times> 'port serial_manager \<times> 'w) \<Rightarrow>
    'port serial_manager \<Rightarrow> 'w \<Rightarrow> retcode \<times> 'port serial_manager \<times> 'w" where
  "with_port hdi token portId act sm w =
     (case hdi of None \<Rightarrow> (UEC_SERVICE_INVALID_VALUE, sm, w)
      | Some h \<Rightarrow> (let ret = CheckPortAndTokenId hdi token portId sm in
          if ret \<noteq> UEC_OK then (ret, sm, w) else act h))"

definition ResetFirstRead :: "int \<Rightarrow> 'port serial_manager \<Rightarrow> 'port serial_manager" where
  "ResetFirstRead portId sm = sm\<lparr>portsHasBeenRead := portsHasBeenRead sm - {portId}\<rparr>"

definition ResetFirstWrite :: "int \<Rightarrow> 'port serial_manager \<Rightarrow> 'port serial_manager" where
  "ResetFirstWrite portId sm = sm\<lparr>portsHasBeenWritten := portsHasBeenWritten sm - {portId}\<rparr>"

definition QueryAndRecordFirstRead ::
  "int \<Rightarrow> 'port serial_manager \<Rightarrow> bool \<times> 'port serial_manager" where
  "QueryAndRecordFirstRead portId sm =
     (portId \<notin> portsHasBeenRead sm, sm\<lparr>portsHasBeenRead := insert portId (portsHasBeenRead sm)\<rparr>)"

definition QueryAndRecordFirstWrite ::
  "int \<Rightarrow> 'port serial_manager \<Rightarrow> bool \<times> 'port serial_manager" where
  "QueryAndRecordFirstWrite portId sm =
     (portId \<notin> portsHasBeenWritten sm,
      sm\<lparr>portsHasBeenWritten := insert portId (portsHasBeenWritten sm)\<rparr>)"

definition SerialClose :: "('w, 'port, 'attr) serial_hdi option \<Rightarrow> u32 \<Rightarrow> int \<Rightarrow>
    'port serial_manager \<Rightarrow> 'w \<Rightarrow> retcode \<times> 'port serial_manager \<times> 'w" where
  "SerialClose hdi token portId sm w = with_port hdi token portId (\<lambda>h.
     (case hdi_SerialClose h portId w of (ret, w') \<Rightarrow>
        if ret \<noteq> 0 then (ErrorCodeWrap ret, sm, w')
        else let sm1 = ReportSerialOperationSecurityInfo portId SERIAL_CLOSE sm;
                 sm2 = ResetFirstWrite portId (ResetFirstRead portId sm1)
             in (UEC_OK, sm2\<lparr>portTokenMap := omap_erase portId (portTokenMap sm2)\<rparr>, w'))) sm w"

text \<open>Read and write return the data and \<^verbatim>\<open>actualSize\<close> with the code.\<close>

definition SerialRead :: "('w, 'port, 'attr) serial_hdi option \<Rightarrow> u32 \<Rightarrow> int \<Rightarrow> u32 \<Rightarrow> u32 \<Rightarrow>
    'port serial_manager \<Rightarrow> 'w \<Rightarrow> retcode \<times> (u8 list \<times> u32 option) \<times> 'port serial_manager \<times> 'w"
where
  "SerialRead hdi token portId sz timeout sm w =
     (case hdi of None \<Rightarrow> (UEC_SERVICE_INVALID_VALUE, ([], None), sm, w)
      | Some h \<Rightarrow> (let ret = CheckPortAndTokenId hdi token portId sm in
          if ret \<noteq> UEC_OK then (ret, ([], None), sm, w)
          else (case hdi_SerialRead h portId sz timeout w of (n, data, w') \<Rightarrow>
            if n < 0 then (ErrorCodeWrap n, (data, None), sm, w')
            else (case QueryAndRecordFirstRead portId sm of (first, sm1) \<Rightarrow>
              (UEC_OK, (data, Some (word_of_int n)),
               if first then ReportSerialOperationSecurityInfo portId SERIAL_READ sm1 else sm1,
               w')))))"

definition SerialWrite :: "('w, 'port, 'attr) serial_hdi option \<Rightarrow> u32 \<Rightarrow> int \<Rightarrow> u8 list \<Rightarrow> u32 \<Rightarrow>
    u32 \<Rightarrow> 'port serial_manager \<Rightarrow> 'w \<Rightarrow> retcode \<times> u32 option \<times> 'port serial_manager \<times> 'w" where
  "SerialWrite hdi token portId data sz timeout sm w =
     (case hdi of None \<Rightarrow> (UEC_SERVICE_INVALID_VALUE, None, sm, w)
      | Some h \<Rightarrow> (let ret = CheckPortAndTokenId hdi token portId sm in
          if ret \<noteq> UEC_OK then (ret, None, sm, w)
          else (case hdi_SerialWrite h portId data sz timeout w of (n, w') \<Rightarrow>
            if n < 0 then (ErrorCodeWrap n, None, sm, w')
            else (case QueryAndRecordFirstWrite portId sm of (first, sm1) \<Rightarrow>
              (UEC_OK, Some (word_of_int n),
               if first then ReportSerialOperationSecurityInfo portId SERIAL_WRITE sm1 else sm1,
               w')))))"

definition SerialGetAttribute :: "('w, 'port, 'attr) serial_hdi option \<Rightarrow> u32 \<Rightarrow> int \<Rightarrow>
    'port serial_manager \<Rightarrow> 'w \<Rightarrow> retcode \<times> 'attr option \<times> 'port serial_manager \<times> 'w" where
  "SerialGetAttribute hdi token portId sm w =
     (case hdi of None \<Rightarrow> (UEC_SERVICE_INVALID_VALUE, None, sm, w)
      | Some h \<Rightarrow> (let ret = CheckPortAndTokenId hdi token portId sm in
          if ret \<noteq> UEC_OK then (ret, None, sm, w)
          else (case hdi_SerialGetAttribute h portId w of (ret, attribute, w') \<Rightarrow>
            if ret \<noteq> 0 then (ErrorCodeWrap ret, Some attribute, sm, w')
            else (UEC_OK, Some attribute, sm, w'))))"

definition SerialSetAttribute :: "('w, 'port, 'attr) serial_hdi option \<Rightarrow> u32 \<Rightarrow> int \<Rightarrow> 'attr \<Rightarrow>
    'port serial_manager \<Rightarrow> 'w \<Rightarrow> retcode \<times> 'port serial_manager \<times> 'w" where
  "SerialSetAttribute hdi token portId attribute sm w = with_port hdi token portId (\<lambda>h.
     (case hdi_SerialSetAttribute h portId attribute w of (ret, w') \<Rightarrow>
        if ret \<noteq> 0 then (ErrorCodeWrap ret, sm, w') else (UEC_OK, sm, w'))) sm w"

definition UpdateSerialPortMap :: "('port \<Rightarrow> int) \<Rightarrow> 'port list \<Rightarrow>
    'port serial_manager \<Rightarrow> 'port serial_manager" where
  "UpdateSerialPortMap portId_of ports sm =
     sm\<lparr>serialPortMap := foldl (\<lambda>m (k, v). omap_put k v m) (serialPortMap sm)
        (map (\<lambda>p. (portId_of p, p)) ports)\<rparr>"

definition SerialGetPortList :: "('w, 'port, 'attr) serial_hdi option \<Rightarrow>
    'port serial_manager \<Rightarrow> 'w \<Rightarrow> retcode \<times> 'port list \<times> 'port serial_manager \<times> 'w" where
  "SerialGetPortList hdi sm w =
     (case hdi of None \<Rightarrow> (UEC_SERVICE_INVALID_VALUE, [], sm, w)
      | Some h \<Rightarrow> (case hdi_SerialGetPortList h w of (ret, ports, w') \<Rightarrow>
          if ret \<noteq> 0 then (ret_of_int ret, ports, sm, w')
          else (UEC_OK, ports, UpdateSerialPortMap (hdi_portId h) ports sm, w')))"

definition IsPortIdExist :: "int \<Rightarrow> 'port serial_manager \<Rightarrow> bool" where
  "IsPortIdExist portId sm \<longleftrightarrow> map_of (serialPortMap sm) portId \<noteq> None"

definition GetSerialPort :: "int \<Rightarrow> 'port serial_manager \<Rightarrow> 'port option" where
  "GetSerialPort portId sm = map_of (serialPortMap sm) portId"

definition FreeTokenId :: "('w, 'port, 'attr) serial_hdi option \<Rightarrow> int \<Rightarrow> u32 \<Rightarrow>
    'port serial_manager \<Rightarrow> 'w \<Rightarrow> 'port serial_manager \<times> 'w" where
  "FreeTokenId hdi portId tokenId sm w =
     (if map_of (portTokenMap sm) portId \<noteq> Some tokenId then (sm, w)
      else (sm\<lparr>portTokenMap := omap_erase portId (portTokenMap sm)\<rparr>,
            case hdi of None \<Rightarrow> w | Some h \<Rightarrow> snd (hdi_SerialClose h portId w)))"

text \<open>
  The dump of a port's attributes: a port that is not open is opened, read and closed again.
  The result is the printed attribute, \<open>Inr False\<close> for a port that cannot be opened; \<open>None\<close> is
  the exception of \<^verbatim>\<open>std::stoi\<close> on a number beyond 32 bits.
\<close>

definition is_number :: "string \<Rightarrow> bool" where
  "is_number s \<longleftrightarrow> s \<noteq> [] \<and> list_all is_digit s"

definition CheckDataAndProcessPortId :: "('w, 'port, 'attr) serial_hdi option \<Rightarrow> u32 \<Rightarrow> string \<Rightarrow>
    'attr option \<Rightarrow> 'port serial_manager \<Rightarrow> 'w \<Rightarrow>
    (bool \<times> (int \<times> 'attr option) option \<times> 'port serial_manager \<times> 'w) option" where
  "CheckDataAndProcessPortId hdi token arg attribute sm w =
     (if \<not> is_number arg then Some (False, None, sm, w)
      else if 2 ^ 31 \<le> dec_value arg then None
      else let portId = int (dec_value arg) in
        (case SerialGetAttribute hdi token portId sm w of (ret, a, sm1, w1) \<Rightarrow>
          let a1 = (case a of None \<Rightarrow> attribute | Some _ \<Rightarrow> a) in
          if ret = UEC_OK then Some (True, Some (portId, a1), sm1, w1)
          else (case SerialOpen hdi token portId sm1 w1 of (ret2, sm2, w2) \<Rightarrow>
            if ret2 \<noteq> UEC_OK then Some (False, None, sm2, w2)
            else (case SerialGetAttribute hdi token portId sm2 w2 of (ret3, a3, sm3, w3) \<Rightarrow>
              (case SerialClose hdi token portId sm3 w3 of (ret4, sm4, w4) \<Rightarrow>
                 Some (True, Some (portId, case a3 of None \<Rightarrow> a1 | Some _ \<Rightarrow> a3), sm4, w4))))))"

text \<open>A call of one application on one port, and a sequence of them.\<close>

datatype 'attr serial_call = Open | Close | Read u32 u32 | Write "u8 list" u32 u32
  | GetAttribute | SetAttribute 'attr | GetPortList | Free u32

definition drop_out :: "retcode \<times> 'a \<times> 'b \<times> 'c \<Rightarrow> retcode \<times> 'b \<times> 'c" where
  "drop_out r = (case r of (ret, out, sm, w) \<Rightarrow> (ret, sm, w))"

fun serial_exec :: "('w, 'port, 'attr) serial_hdi option \<Rightarrow> u32 \<Rightarrow> int \<Rightarrow> 'attr serial_call \<Rightarrow>
    'port serial_manager \<Rightarrow> 'w \<Rightarrow> retcode \<times> 'port serial_manager \<times> 'w" where
  "serial_exec hdi token portId Open sm w = SerialOpen hdi token portId sm w"
| "serial_exec hdi token portId Close sm w = SerialClose hdi token portId sm w"
| "serial_exec hdi token portId (Read sz t) sm w =
     drop_out (SerialRead hdi token portId sz t sm w)"
| "serial_exec hdi token portId (Write data sz t) sm w =
     drop_out (SerialWrite hdi token portId data sz t sm w)"
| "serial_exec hdi token portId GetAttribute sm w =
     drop_out (SerialGetAttribute hdi token portId sm w)"
| "serial_exec hdi token portId (SetAttribute a) sm w = SerialSetAttribute hdi token portId a sm w"
| "serial_exec hdi token portId GetPortList sm w = drop_out (SerialGetPortList hdi sm w)"
| "serial_exec hdi token portId (Free tokenId) sm w =
     (UEC_OK, FreeTokenId hdi portId tokenId sm w)"

fun serial_run :: "('w, 'port, 'attr) serial_hdi option \<Rightarrow> (u32 \<times> int \<times> 'attr serial_call) list \<Rightarrow>
    'port serial_manager \<Rightarrow> 'w \<Rightarrow> 'port serial_manager \<times> 'w" where
  "serial_run hdi [] sm w = (sm, w)"
| "serial_run hdi ((token, portId, c) # cs) sm w =
     (case serial_exec hdi token portId c sm w of (ret, sm', w') \<Rightarrow> serial_run hdi cs sm' w')"

text \<open>A driver that accepts every call: it returns one byte on a read.\<close>

definition sample_serial :: "(unit, int, unit) serial_hdi" where
  "sample_serial = \<lparr>hdi_SerialOpen = (\<lambda>p w. (0, w)), hdi_SerialClose = (\<lambda>p w. (0, w)),
     hdi_SerialRead = (\<lambda>p n t w. (1, [7], w)), hdi_SerialWrite = (\<lambda>p d n t w. (1, w)),
     hdi_SerialGetAttribute = (\<lambda>p w. (0, (), w)), hdi_SerialSetAttribute = (\<lambda>p a w. (0, w)),
     hdi_SerialGetPortList = (\<lambda>w. (0, [], w)), hdi_portId = (\<lambda>p. p)\<rparr>"

subsection \<open>The contract of an operation on an open port\<close>

lemmas serial_helper_defs = CheckPortAndTokenId_def CheckTokenIdValidity_def with_port_def
  ReportSerialOperationSecurityInfo_def ResetFirstRead_def ResetFirstWrite_def
  QueryAndRecordFirstRead_def QueryAndRecordFirstWrite_def drop_out_def Let_def

lemma ErrorCodeWrap_not_OK [simp]: "ErrorCodeWrap n \<noteq> UEC_OK"
  by (simp add: ErrorCodeWrap_def)

locale owner_guarded =
  fixes op :: "u32 \<Rightarrow> int \<Rightarrow> 'port serial_manager \<Rightarrow> 'w \<Rightarrow> retcode \<times> 'port serial_manager \<times> 'w"
  assumes denied: "map_of (portTokenMap sm) p \<noteq> Some t \<Longrightarrow>
        \<exists>ret \<in> {UEC_SERVICE_INVALID_VALUE, UEC_SERIAL_PORT_NOT_OPEN}. op t p sm w = (ret, sm, w)"
    and tokens: "portTokenMap (fst (snd (op t p sm w))) \<in>
        {portTokenMap sm, omap_erase p (portTokenMap sm)}"
begin

lemma keeps_ok:
  "omap_ok (portTokenMap sm) \<Longrightarrow> omap_ok (portTokenMap (fst (snd (op t p sm w))))"
  using tokens [of t p sm w] by (auto simp: omap.ok_erase)

lemma owner_stable:
  assumes "omap_ok (portTokenMap sm)" and "map_of (portTokenMap sm) q = Some a" and "t \<noteq> a"
  shows "map_of (portTokenMap (fst (snd (op t p sm w)))) q = Some a"
proof (cases "p = q")
  case True
  with assms denied [of sm p t w] show ?thesis by auto
next
  case False
  with assms tokens [of t p sm w] show ?thesis by (auto simp: omap.find_erase)
qed

end

interpretation close_op: owner_guarded "SerialClose hdi" for hdi
  by unfold_locales
    (auto simp: SerialClose_def serial_helper_defs split: option.splits prod.splits if_splits)

interpretation read_op: owner_guarded "\<lambda>t p sm w. drop_out (SerialRead hdi t p sz timeout sm w)"
  for hdi sz timeout
  by unfold_locales
    (auto simp: SerialRead_def serial_helper_defs split: option.splits prod.splits if_splits)

interpretation write_op: owner_guarded "\<lambda>t p sm w. drop_out (SerialWrite hdi t p data sz timeout sm w)"
  for hdi data sz timeout
  by unfold_locales
    (auto simp: SerialWrite_def serial_helper_defs split: option.splits prod.splits if_splits)

interpretation get_attribute_op: owner_guarded "\<lambda>t p sm w. drop_out (SerialGetAttribute hdi t p sm w)"
  for hdi
  by unfold_locales
    (auto simp: SerialGetAttribute_def serial_helper_defs split: option.splits prod.splits if_splits)

interpretation set_attribute_op: owner_guarded "\<lambda>t p sm w. SerialSetAttribute hdi t p a sm w"
  for hdi a
  by unfold_locales
    (auto simp: SerialSetAttribute_def serial_helper_defs split: option.splits prod.splits if_splits)

subsection \<open>Sequences of calls\<close>

lemma open_tokens:
  assumes "SerialOpen hdi t p sm w = (ret, sm', w')" and "omap_ok (portTokenMap sm)"
  shows "omap_ok (portTokenMap sm')"
    and "map_of (portTokenMap sm) q = Some a \<Longrightarrow> map_of (portTokenMap sm') q = Some a"
  using assms by (auto simp: SerialOpen_def serial_helper_defs omap.ok_put omap.find_put
      split: option.splits prod.splits if_splits)

lemma free_tokens:
  assumes "omap_ok (portTokenMap sm)"
  shows "omap_ok (portTokenMap (fst (FreeTokenId hdi p b sm w)))"
    and "map_of (portTokenMap sm) q = Some a \<Longrightarrow> p \<noteq> q \<or> b \<noteq> a \<Longrightarrow>
      map_of (portTokenMap (fst (FreeTokenId hdi p b sm w))) q = Some a"
  using assms by (auto simp: FreeTokenId_def omap.ok_erase omap.find_erase)

lemma list_tokens [simp]:
  "portTokenMap (fst (snd (drop_out (SerialGetPortList hdi sm w)))) = portTokenMap sm"
  by (simp add: SerialGetPortList_def UpdateSerialPortMap_def drop_out_def
      split: option.split prod.split)

text \<open>A call of another application leaves the owner of a port as it is.\<close>

lemma serial_exec_owner:
  assumes "omap_ok (portTokenMap sm)" and "map_of (portTokenMap sm) q = Some a"
    and "t \<noteq> a" and "p = q \<Longrightarrow> c \<noteq> Free a"
    and "serial_exec hdi t p c sm w = (ret, sm', w')"
  shows "omap_ok (portTokenMap sm')" and "map_of (portTokenMap sm') q = Some a"
proof -
  have sm': "sm' = fst (snd (serial_exec hdi t p c sm w))" using assms(5) by simp
  have "omap_ok (portTokenMap sm') \<and> map_of (portTokenMap sm') q = Some a"
  proof (cases c)
    case Open
    with assms open_tokens [of hdi t p sm w] show ?thesis by simp
  next
    case (Free b)
    with assms free_tokens(1) [of sm hdi p b w] free_tokens(2) [of sm q a p b hdi w]
    show ?thesis by auto
  qed (use assms(1-3) in \<open>simp_all add: sm' close_op.keeps_ok close_op.owner_stable
      read_op.keeps_ok read_op.owner_stable write_op.keeps_ok write_op.owner_stable
      get_attribute_op.keeps_ok get_attribute_op.owner_stable
      set_attribute_op.keeps_ok set_attribute_op.owner_stable\<close>)
  then show "omap_ok (portTokenMap sm')" and "map_of (portTokenMap sm') q = Some a" by auto
qed

lemma serial_run_owner:
  "omap_ok (portTokenMap sm) \<Longrightarrow> map_of (portTokenMap sm) q = Some a \<Longrightarrow>
   \<forall>(t, p, c) \<in> set calls. t \<noteq> a \<and> (p = q \<longrightarrow> c \<noteq> Free a) \<Longrightarrow>
   map_of (portTokenMap (fst (serial_run hdi calls sm w))) q = Some a"
proof (induction calls arbitrary: sm w)
  case Nil
  then show ?case by simp
next
  case (Cons x calls)
  obtain t p c where x: "x = (t, p, c)" by (cases x)
  obtain ret sm' w' where e: "serial_exec hdi t p c sm w = (ret, sm', w')"
    by (cases "serial_exec hdi t p c sm w")
  have "omap_ok (portTokenMap sm')" "map_of (portTokenMap sm') q = Some a"
    using serial_exec_owner [OF Cons.prems(1,2) _ _ e] Cons.prems(3) by (auto simp: x)
  with Cons.IH [of sm' w'] Cons.prems(3) show ?case by (simp add: x e)
qed

subsection \<open>Properties\<close>

text \<open>
  C28: an open serial port belongs to the application that opened it. Whatever sequence of
  opens, closes, reads, writes, attribute calls and listings other applications issue, on this
  port and on others, the port stays with its opener, as long as the service does not free the
  opener's token.
\<close>

theorem serial_port_exclusive:
  assumes "omap_ok (portTokenMap sm)" and "map_of (portTokenMap sm) q = Some a"
    and "\<forall>(t, p, c) \<in> set calls. t \<noteq> a \<and> (p = q \<longrightarrow> c \<noteq> Free a)"
  shows "map_of (portTokenMap (fst (serial_run hdi calls sm w))) q = Some a"
  using assms by (rule serial_run_owner)

theorem serial_port_exclusive_witness:
  "map_of (portTokenMap (fst (serial_run (Some sample_serial)
     [(8, 3, Close), (8, 3, Open), (9, 4, Open), (9, 3, Read 10 0)]
     (new_serial_manager\<lparr>portTokenMap := [(3, 7)]\<rparr>) ()))) 3 = Some 7"
  by (rule serial_port_exclusive) (simp_all add: new_serial_manager_def)

text \<open>
  A call on a port that the caller has not opened is refused before the driver is reached:
  read, write, close, and both attribute calls return an error and change neither the manager nor
  the driver's world.
\<close>

theorem serial_foreign_calls_refused:
  assumes "map_of (portTokenMap sm) p \<noteq> Some t"
    and "c \<in> {Close, Read n k, Write d n k, GetAttribute, SetAttribute x}"
  shows "\<exists>ret \<in> {UEC_SERVICE_INVALID_VALUE, UEC_SERIAL_PORT_NOT_OPEN}.
    serial_exec hdi t p c sm w = (ret, sm, w)"
  using assms(2) close_op.denied [OF assms(1), of hdi w]
    read_op.denied [OF assms(1), where hdi = hdi and w = w and sz = n and timeout = k]
    write_op.denied [OF assms(1), where hdi = hdi and w = w and data = d and sz = n and timeout = k]
    get_attribute_op.denied [OF assms(1), of hdi w]
    set_attribute_op.denied [OF assms(1), where hdi = hdi and w = w and a = x] by auto

theorem serial_foreign_calls_refused_witness:
  "\<exists>ret \<in> {UEC_SERVICE_INVALID_VALUE, UEC_SERIAL_PORT_NOT_OPEN}.
    serial_exec (Some sample_serial) 8 3 (Read 10 0) (new_serial_manager\<lparr>portTokenMap := [(3, 7)]\<rparr>) ()
      = (ret, new_serial_manager\<lparr>portTokenMap := [(3, 7)]\<rparr>, ())"
  by (rule serial_foreign_calls_refused [where n = 10 and k = 0 and d = "[]" and x = "()"])
    (simp_all add: new_serial_manager_def)

text \<open>
  A session of a port. After a successful open by \<open>t\<close>, a second open by anyone is refused
  with \<^verbatim>\<open>UEC_SERIAL_PORT_REPEAT_OPEN\<close> without touching the driver, and once \<open>t\<close> has
  closed the port the token map is again what it was before and the port's first-read and
  first-write marks are cleared.
\<close>

theorem serial_session:
  assumes "omap_ok (portTokenMap sm)"
    and "SerialOpen hdi t p sm w = (UEC_OK, sm1, w1)"
  shows "SerialOpen hdi u p sm1 w2 = (UEC_SERIAL_PORT_REPEAT_OPEN, sm1, w2) \<and>
    (\<forall>sm3 w3. SerialClose hdi t p sm1 w1 = (UEC_OK, sm3, w3) \<longrightarrow>
       map_of (portTokenMap sm3) = map_of (portTokenMap sm) \<and>
       p \<notin> portsHasBeenRead sm3 \<and> p \<notin> portsHasBeenWritten sm3)"
proof -
  from assms obtain h where h: "hdi = Some h" and new: "map_of (portTokenMap sm) p = None"
    and sm1: "portTokenMap sm1 = omap_put p t (portTokenMap sm)"
    by (auto simp: SerialOpen_def split: option.splits prod.splits if_splits)
  have "map_of (portTokenMap sm1) = (map_of (portTokenMap sm))(p \<mapsto> t)"
    using assms(1) sm1 by (simp add: omap.find_put)
  moreover have "omap_ok (portTokenMap sm1)" using assms(1) sm1 by (simp add: omap.ok_put)
  ultimately show ?thesis
    using h new by (auto simp: SerialOpen_def SerialClose_def serial_helper_defs omap.find_erase
        fun_eq_iff split: prod.splits if_splits)
qed

theorem serial_session_witness:
  "SerialOpen (Some sample_serial) 9 3
      (new_serial_manager\<lparr>security_reports := [(SERIAL_OPEN, 3)], portTokenMap := [(3, 7)]\<rparr>) () =
   (UEC_SERIAL_PORT_REPEAT_OPEN,
      new_serial_manager\<lparr>security_reports := [(SERIAL_OPEN, 3)], portTokenMap := [(3, 7)]\<rparr>, ())"
  using serial_session [of new_serial_manager "Some sample_serial" 7 3 "()"
      "new_serial_manager\<lparr>security_reports := [(SERIAL_OPEN, 3)], portTokenMap := [(3, 7)]\<rparr>" "()" 9]
  by (simp add: new_serial_manager_def SerialOpen_def sample_serial_def serial_helper_defs)

text \<open>
  The first read of a session is reported once, but only when the previous session was
  closed by its application. When the service frees the token of an application that died
  (\<^verbatim>\<open>FreeTokenId\<close>), the first-read mark of the port stays, so that the next application
  that opens the port and reads from it is not reported.
\<close>

theorem serial_freed_port_read_unreported:
  assumes "p \<in> portsHasBeenRead sm"
    and "FreeTokenId hdi p t sm w = (sm1, w1)"
    and "SerialOpen hdi u p sm1 w1 = (UEC_OK, sm2, w2)"
    and "SerialRead hdi u p n k sm2 w2 = (UEC_OK, out, sm3, w3)"
  shows "security_reports sm3 = security_reports sm @ [(SERIAL_OPEN, p)]"
proof -
  have "p \<in> portsHasBeenRead sm1" and r1: "security_reports sm1 = security_reports sm"
    using assms(1,2) by (auto simp: FreeTokenId_def split: if_splits)
  then have "p \<in> portsHasBeenRead sm2"
    and "security_reports sm2 = security_reports sm @ [(SERIAL_OPEN, p)]"
    using assms(3) by (auto simp: SerialOpen_def serial_helper_defs
        split: option.splits prod.splits if_splits)
  then show ?thesis
    using assms(4) by (auto simp: SerialRead_def serial_helper_defs
        split: option.splits prod.splits if_splits)
qed

theorem serial_freed_port_read_unreported_witness:
  "\<exists>sm1 sm2 sm3 out.
     FreeTokenId (Some sample_serial) 3 7
       (new_serial_manager\<lparr>portTokenMap := [(3, 7)], portsHasBeenRead := {3}\<rparr>) () = (sm1, ()) \<and>
     SerialOpen (Some sample_serial) 9 3 sm1 () = (UEC_OK, sm2, ()) \<and>
     SerialRead (Some sample_serial) 9 3 10 0 sm2 () = (UEC_OK, out, sm3, ()) \<and>
     security_reports sm3 = [(SERIAL_OPEN, 3)]"
proof -
  let ?sm = "new_serial_manager\<lparr>portTokenMap := [(3, 7)], portsHasBeenRead := {3}\<rparr>"
  let ?sm1 = "new_serial_manager\<lparr>portTokenMap := [], portsHasBeenRead := {3}\<rparr>"
  let ?sm2 = "new_serial_manager\<lparr>portTokenMap := [(3, 9)], portsHasBeenRead := {3},
    security_reports := [(SERIAL_OPEN, 3)]\<rparr>"
  have a: "FreeTokenId (Some sample_serial) 3 7 ?sm () = (?sm1, ())"
    by (simp add: FreeTokenId_def new_serial_manager_def sample_serial_def)
  have b: "SerialOpen (Some sample_serial) 9 3 ?sm1 () = (UEC_OK, ?sm2, ())"
    by (simp add: SerialOpen_def new_serial_manager_def sample_serial_def serial_helper_defs)
  have c: "SerialRead (Some sample_serial) 9 3 10 0 ?sm2 () = (UEC_OK, ([7], Some 1), ?sm2, ())"
    by (simp add: SerialRead_def new_serial_manager_def sample_serial_def serial_helper_defs)
  show ?thesis
    using serial_freed_port_read_unreported [OF _ a b c] a b c
    by (intro exI [of _ ?sm1] exI [of _ ?sm2] exI [of _ "([7], Some 1)"])
      (simp add: new_serial_manager_def)
qed

end
