(* ===== verification/Host_Manager.thy ===== *)
theory Host_Manager
  imports Host_Description Usb_Interface_Type Serial_Manager
begin

section \<open>Host manager: the attached devices and the device policy\<close>

text \<open>
  The rest of \<^verbatim>\<open>services/native/src/usb_host_manager.cpp\<close>: the map of attached devices, what is
  announced of them, and the policies of the enterprise device manager (EDM) that enable and disable
  devices, interfaces and serial adapters. The system calls are the record \<open>host_env\<close>, and
  \<open>host_context\<close> collects it with the two drivers. Everything sent to the outside (broadcasts,
  notifications, system events) is appended to the trace \<open>host_trace\<close>.
\<close>

subsection \<open>Environment and state\<close>

text \<open>
  \<open>he_SendRequest\<close> sends a policy query to EDM and returns the code of the call and the integers
  of the reply; \<open>he_ReadBool\<close> is how the reply's integer is read as a boolean; \<open>he_iterate\<close> is the
  order in which an unordered map is gone through; \<open>he_now\<close> is the steady clock in milliseconds.
\<close>

record 'w host_env =
  he_GetParameter :: "string \<Rightarrow> string \<Rightarrow> 'w \<Rightarrow> string"
  he_SystemAbilityManager :: "'w \<Rightarrow> bool"
  he_CheckSystemAbility :: "'w \<Rightarrow> bool"
  he_LoadSystemAbility :: "'w \<Rightarrow> 'w"
  he_SendRequest :: "u32 \<Rightarrow> 'w \<Rightarrow> int \<times> int list \<times> 'w"
  he_ReadBool :: "int \<Rightarrow> bool"
  he_iterate :: "type_map \<Rightarrow> type_map"
  he_now :: "'w \<Rightarrow> int"
  he_json :: "UsbDevice \<Rightarrow> string"

record 'w device_hdi =
  hd_UsbDeviceAuthorize :: "u8 \<Rightarrow> u8 \<Rightarrow> bool \<Rightarrow> 'w \<Rightarrow> int \<times> 'w"
  hd_UsbInterfaceAuthorize :: "UsbDev \<Rightarrow> u8 \<Rightarrow> u8 \<Rightarrow> bool \<Rightarrow> 'w \<Rightarrow> int \<times> 'w"

record ('w, 'i, 'c, 'm) host_context =
  usbHostInterface :: "('w, 'i, 'c, 'm) host_hdi option"
  usbDeviceInterface :: "'w device_hdi option"
  host_library :: "('w, 'c) host_lib"
  host_environment :: "'w host_env"

record SerialPort =
  sp_portId :: int
  sp_busNum :: u8
  sp_devAddr :: u8
  sp_vid :: int
  sp_pid :: int
  sp_serialNum :: string

text \<open>
  \<open>Announced attached dev system_only\<close> is the common event of the device; \<open>PlugReport\<close> carries the
  description of the device class, the one of the interfaces and the end of the serial number.
\<close>

datatype host_effect =
    Announced bool UsbDevice bool
  | SendNotification notifier
  | CancelNotification
  | PlugReport bool string string string
  | PolicyReport string i32 i32 i32 i32 i32

record 'c host_manager =
  devices :: "(string, UsbDevice) omap"
  serialDevices :: "UsbDev list"
  usbHostHdiCb :: "'c option"
  host_trace :: "host_effect list"

definition new_host_manager :: "'c host_manager" where
  "new_host_manager = \<lparr>devices = [], serialDevices = [], usbHostHdiCb = None, host_trace = []\<rparr>"

definition emit :: "host_effect list \<Rightarrow> 'c host_manager \<Rightarrow> 'c host_manager" where
  "emit es hm = hm\<lparr>host_trace := host_trace hm @ es\<rparr>"

definition set_device :: "string \<Rightarrow> UsbDevice \<Rightarrow> 'c host_manager \<Rightarrow> 'c host_manager" where
  "set_device name dev hm = hm\<lparr>devices := omap_put name dev (devices hm)\<rparr>"

definition BASE_CLASS_AUDIO :: i32 where "BASE_CLASS_AUDIO = 1"
definition BASE_CLASS_HUB :: i32 where "BASE_CLASS_HUB = 9"
definition RANDOM_VALUE_INDICATE :: i32 where "RANDOM_VALUE_INDICATE = - 1"
definition STORAGE_BASE_CLASS :: i32 where "STORAGE_BASE_CLASS = 8"

subsection \<open>What is announced\<close>

definition deviceUsageMap :: "(i32 \<times> u8 \<times> string) list" where
  "deviceUsageMap = [
     (0x00, 2, ''Use class information in the Interface Descriptors''), (0x01, 2, ''Audio''),
     (0x02, 3, ''Communications and CDC Control''), (0x03, 2, ''HID(Human Interface Device)''),
     (0x05, 2, ''Physical''), (0x06, 2, ''Image''), (0x07, 2, ''Printer''), (0x08, 2, ''Mass Storage''),
     (0x09, 1, ''Hub''), (0x0a, 2, ''CDC-Data''), (0x0b, 2, ''Smart Card''), (0x0d, 2, ''Content Security''),
     (0x0e, 2, ''Video''), (0x0f, 2, ''Personal Healthcare''), (0x10, 2, ''Audio/Video Device''),
     (0x11, 1, ''Billboard Device Class''), (0x12, 2, ''USB Type-C Bridge Class'')]"

definition interfaceUsageMap :: "((i32 \<times> i32 \<times> i32) \<times> string) list" where
  "interfaceUsageMap = [((3, 1, 1), ''KeyBoard''), ((3, 1, 2), ''Mouse/Table/Touch screen'')]"

definition GetDeviceDescription :: "i32 \<Rightarrow> string \<times> u8" where
  "GetDeviceDescription baseClass = (case map_of deviceUsageMap baseClass of
       Some (usage, description) \<Rightarrow> (description, usage) | None \<Rightarrow> (''NA'', 1))"

text \<open>\<^verbatim>\<open>std::hex\<close> with a width of two filled with zeros; a wider number is printed in full.\<close>

fun hex_string :: "nat \<Rightarrow> string" where
  "hex_string n = (let d = (if n mod 16 < 10 then char_of (48 + n mod 16) else char_of (87 + n mod 16))
     in if n < 16 then [d] else hex_string (n div 16) @ [d])"

declare hex_string.simps [simp del]

definition hex2 :: "i32 \<Rightarrow> string" where
  "hex2 v = (let s = hex_string (unat v) in if length s < 2 then CHR ''0'' # s else s)"

definition ConcatenateToDescription :: "i32 \<times> i32 \<times> i32 \<Rightarrow> string \<Rightarrow> string" where
  "ConcatenateToDescription t str = (case t of (c, s, p) \<Rightarrow> hex2 c @ ''_'' @ hex2 s @ ''_'' @ hex2 p @ '','' @ str)"

definition GetInterfaceUsageDescription :: "i32 \<times> i32 \<times> i32 \<Rightarrow> string" where
  "GetInterfaceUsageDescription t = (case map_of interfaceUsageMap t of Some s \<Rightarrow> s | None \<Rightarrow> ''NA'')"

text \<open>Every interface but the first of the first configuration is preceded by a semicolon.\<close>

fun describe_interfaces :: "bool \<Rightarrow> UsbInterface list \<Rightarrow> string \<times> i32 \<Rightarrow> string \<times> i32" where
  "describe_interfaces very_first [] acc = acc"
| "describe_interfaces very_first (i # ifs) (description, baseClass) =
     (let t = (if_klass i, if_subClass i, if_protocol i) in
      describe_interfaces False ifs ((if very_first then description else description @ '';'') @
        ConcatenateToDescription t (GetInterfaceUsageDescription t), if_klass i))"

fun describe_configs :: "bool \<Rightarrow> USBConfig list \<Rightarrow> string \<times> i32 \<Rightarrow> string \<times> i32" where
  "describe_configs very_first [] acc = acc"
| "describe_configs very_first (c # cs) acc =
     describe_configs False cs (describe_interfaces very_first (cf_interfaces c) acc)"

definition GetInterfaceDescription :: "UsbDevice \<Rightarrow> string \<times> i32 \<Rightarrow> string \<times> i32" where
  "GetInterfaceDescription dev acc = describe_configs True (dev_configs dev) acc"

definition DES_USAGE_IN_INTERFACE :: u8 where "DES_USAGE_IN_INTERFACE = 2"
definition USAGE_IN_INTERFACE_CLASS :: i32 where "USAGE_IN_INTERFACE_CLASS = 0"
definition LAST_FIVE :: nat where "LAST_FIVE = 5"

definition ReportHostPlugSysEvent :: "bool \<Rightarrow> UsbDevice \<Rightarrow> 'c host_manager \<Rightarrow> 'c host_manager" where
  "ReportHostPlugSysEvent attached dev hm =
     (case GetDeviceDescription (dev_baseClass dev) of (deviceUsageDes, deviceUsage) \<Rightarrow>
        let (extUsageDes, intfBaseClass) = (if deviceUsage AND DES_USAGE_IN_INTERFACE \<noteq> 0
              then GetInterfaceDescription dev ([], 0) else ([], 0));
            deviceUsageDes' = (if dev_baseClass dev = USAGE_IN_INTERFACE_CLASS
              then fst (GetDeviceDescription intfBaseClass) else deviceUsageDes);
            snNum = (if LAST_FIVE < length (dev_serial dev)
              then drop (length (dev_serial dev) - LAST_FIVE) (dev_serial dev) else [])
        in emit [PlugReport attached deviceUsageDes' extUsageDes snNum] hm)"

definition IsAudioDevice :: "UsbDevice \<Rightarrow> bool" where
  "IsAudioDevice dev \<longleftrightarrow>
     list_ex (\<lambda>c. list_ex (\<lambda>i. if_klass i = BASE_CLASS_AUDIO) (cf_interfaces c)) (dev_configs dev)"

definition PublishCommonEvent :: "bool \<Rightarrow> UsbDevice \<Rightarrow> 'c host_manager \<Rightarrow> 'c host_manager" where
  "PublishCommonEvent attached dev hm =
     (let hub = (dev_baseClass dev = BASE_CLASS_HUB);
          hm1 = (if \<not> hub \<and> \<not> IsAudioDevice dev
            then emit [if attached then SendNotification USB_FUNC_REVERSE_CHARGE else CancelNotification] hm else hm)
      in emit [Announced attached dev hub] (ReportHostPlugSysEvent attached dev hm1))"

definition ReportManageDeviceInfo :: "string \<Rightarrow> UsbDevice \<Rightarrow> UsbInterface option \<Rightarrow> 'c host_manager \<Rightarrow>
    'c host_manager" where
  "ReportManageDeviceInfo operationType device interface hm =
     (case interface of
        Some i \<Rightarrow> emit [PolicyReport operationType (dev_vendorId device) (dev_productId device)
          (if_klass i) (if_subClass i) (if_protocol i)] hm
      | None \<Rightarrow> emit [PolicyReport operationType (dev_vendorId device) (dev_productId device)
          (dev_baseClass device) (dev_subClass device) (dev_protocol device)] hm)"

subsection \<open>The devices as clients see them\<close>

definition GetDevices :: "caller \<Rightarrow> 'c host_manager \<Rightarrow> UsbDevice list" where
  "GetDevices c hm = (let isSystemAppOrSa = IsSystemAppOrSa c in
     map (\<lambda>dev. if isSystemAppOrSa then dev else dev\<lparr>dev_serial := []\<rparr>)
       (filter (\<lambda>dev. \<not> (dev_baseClass dev = BASE_CLASS_HUB \<and> \<not> isSystemAppOrSa \<or> dev_authorizeStatus dev \<noteq> ENABLED))
          (map snd (devices hm))))"

definition GetTargetDevice :: "u8 \<Rightarrow> u8 \<Rightarrow> 'c host_manager \<Rightarrow> UsbDevice option" where
  "GetTargetDevice busNum devAddr hm =
     find (\<lambda>dev. dev_busNum dev = busNum \<and> dev_devAddr dev = devAddr) (map snd (devices hm))"

definition GetEndpointFromId :: "UsbDevice \<Rightarrow> u32 \<Rightarrow> USBEndpoint option" where
  "GetEndpointFromId dev endpointId =
     find (\<lambda>ep. ep_address ep = endpointId)
       (concat (map (\<lambda>c. concat (map if_endpoints (cf_interfaces c))) (dev_configs dev)))"

definition GetProductName :: "string \<Rightarrow> 'c host_manager \<Rightarrow> string option" where
  "GetProductName deviceName hm = map_option dev_productName (map_of (devices hm) deviceName)"

definition host_Dump :: "'w host_env \<Rightarrow> string \<Rightarrow> 'c host_manager \<Rightarrow> bool \<times> string list" where
  "host_Dump env args hm =
     (if args \<noteq> ''-a'' then (False, [''args is not -a'' @ [CHR 0x0A]])
      else (True, (''Usb Host all device list info:'' @ [CHR 0x0A]) #
        map (\<lambda>(name, dev). ''usb host list info: '' @ he_json env dev @ [CHR 0x0A]) (devices hm)))"

subsection \<open>Enabling and disabling\<close>

definition IsEdmEnabled :: "'w host_env \<Rightarrow> 'w \<Rightarrow> bool" where
  "IsEdmEnabled env w \<longleftrightarrow> he_GetParameter env ''persist.edm.enterprise_config_enable'' ''false'' w = ''true''"

definition IsUsbSerialDisable :: "'w host_env \<Rightarrow> 'w \<Rightarrow> bool" where
  "IsUsbSerialDisable env w \<longleftrightarrow>
     IsEdmEnabled env w \<and> he_GetParameter env ''persist.edm.usb_serial_disable'' ''0'' w = ''1''"

definition IsUsbSerialDevice :: "UsbDevice \<Rightarrow> 'c host_manager \<Rightarrow> bool" where
  "IsUsbSerialDevice dev hm \<longleftrightarrow> (dev_busNum dev, dev_devAddr dev) \<in> set (serialDevices hm)"

text \<open>
  The switch of one device. A device that has just arrived is switched without an announcement:
  \<^verbatim>\<open>AddDevice\<close> announces it when it is still enabled.
\<close>

definition UsbDeviceAuthorize :: "('w, 'i, 'c, 'm) host_context \<Rightarrow> u8 \<Rightarrow> u8 \<Rightarrow> bool \<Rightarrow> string \<Rightarrow>
    'c host_manager \<Rightarrow> 'w \<Rightarrow> retcode \<times> 'c host_manager \<times> 'w" where
  "UsbDeviceAuthorize x busNum devAddr authorized operationType hm w =
     (case usbDeviceInterface x of None \<Rightarrow> (UEC_SERVICE_INVALID_VALUE, hm, w)
      | Some di \<Rightarrow> let name = device_name busNum devAddr in
        (case map_of (devices hm) name of None \<Rightarrow> (UEC_SERVICE_INVALID_VALUE, hm, w)
         | Some dev \<Rightarrow>
            if authorized \<and> dev_authorizeStatus dev \<noteq> DISABLED \<or> \<not> authorized \<and> dev_authorizeStatus dev = DISABLED
            then (UEC_OK, hm, w)
            else (case hd_UsbDeviceAuthorize di busNum devAddr authorized w of (ret, w1) \<Rightarrow>
              if ret \<noteq> 0 then (ret_of_int ret, hm, w1)
              else let hm1 = (if \<not> authorized then ReportManageDeviceInfo operationType dev None hm else hm);
                       hm2 = (if dev_authorizeStatus dev \<noteq> NEW_ARRIVED then PublishCommonEvent authorized dev hm1 else hm1)
                in (UEC_OK, set_device name (dev\<lparr>dev_authorizeStatus := if authorized then ENABLED else DISABLED\<rparr>) hm2,
                    hl_sleep (host_library x) w1))))"

definition UsbInterfaceAuthorize :: "('w, 'i, 'c, 'm) host_context \<Rightarrow> UsbDev \<Rightarrow> u8 \<Rightarrow> u8 \<Rightarrow> bool \<Rightarrow> 'w \<Rightarrow>
    retcode \<times> 'w" where
  "UsbInterfaceAuthorize x dev configId interfaceId authorized w =
     (case usbDeviceInterface x of None \<Rightarrow> (UEC_SERVICE_INVALID_VALUE, w)
      | Some di \<Rightarrow> (case hd_UsbInterfaceAuthorize di dev configId interfaceId authorized w of (ret, w1) \<Rightarrow>
          case (if ret = 0 \<and> authorized then ManageInterface (usbHostInterface x) dev interfaceId (\<not> authorized) w1
                else (ret_of_int ret, w1)) of (ret', w2) \<Rightarrow> (ret', hl_sleep (host_library x) w2)))"

text \<open>A loop over the device map; the loops change the devices but never the keys.\<close>

fun each_device :: "(UsbDevice \<Rightarrow> 'c host_manager \<times> 'w \<Rightarrow> 'c host_manager \<times> 'w) \<Rightarrow> string list \<Rightarrow>
    'c host_manager \<times> 'w \<Rightarrow> 'c host_manager \<times> 'w" where
  "each_device f [] s = s"
| "each_device f (name # names) s =
     each_device f names (case map_of (devices (fst s)) name of None \<Rightarrow> s | Some dev \<Rightarrow> f dev s)"

definition names_of :: "'c host_manager \<Rightarrow> string list" where
  "names_of hm = map fst (devices hm)"

end
