(* ===== verification/Host_Policy.thy ===== *)
theory Host_Policy
  imports Host_Manager
begin

section \<open>Host manager: policies, arrival and removal\<close>

text \<open>
  How \<^verbatim>\<open>services/native/src/usb_host_manager.cpp\<close> applies the policies of EDM to the devices,
  asks EDM for them, and what it does when a device arrives or leaves.
\<close>

subsection \<open>Applying a policy\<close>

text \<open>The interfaces of the active configuration are enabled with the device.\<close>

definition enable_interface :: "('w, 'i, 'c, 'm) host_context \<Rightarrow> UsbDev \<Rightarrow> USBConfig \<Rightarrow> UsbInterface \<Rightarrow> 'w \<Rightarrow>
    UsbInterface \<times> 'w" where
  "enable_interface x dev config i w =
     (i\<lparr>if_authorized := True\<rparr>, snd (UsbInterfaceAuthorize x dev (ucast (cf_id config)) (ucast (if_id i)) True w))"

definition set_interfaces :: "nat \<Rightarrow> UsbInterface list \<Rightarrow> UsbDevice \<Rightarrow> UsbDevice" where
  "set_interfaces index ifs dev =
     dev\<lparr>dev_configs := (dev_configs dev)[index := (dev_configs dev ! index)\<lparr>cf_interfaces := ifs\<rparr>]\<rparr>"

definition update_device :: "string \<Rightarrow> (UsbDevice \<Rightarrow> UsbDevice) \<Rightarrow> 'c host_manager \<Rightarrow> 'c host_manager" where
  "update_device name f hm = (case map_of (devices hm) name of None \<Rightarrow> hm | Some dev \<Rightarrow> set_device name (f dev) hm)"

definition enable_interfaces :: "('w, 'i, 'c, 'm) host_context \<Rightarrow> UsbDevice \<Rightarrow> 'c host_manager \<Rightarrow> 'w \<Rightarrow>
    'c host_manager \<times> 'w" where
  "enable_interfaces x dev hm w =
     (let b = dev_busNum dev; d = dev_devAddr dev; h = usbHostInterface x in
      case OpenDevice h b d w of (ret, w1) \<Rightarrow>
        if ret \<noteq> UEC_OK then (hm, w1)
        else (case GetActiveConfig h b d 0 w1 of (ret, configIndex, w2) \<Rightarrow>
          if ret \<noteq> UEC_OK \<or> configIndex < 1 then (hm, snd (Host_Driver.Close h b d w2))
          else let index = unat (configIndex - 1) in
            if length (dev_configs dev) \<le> index then (hm, snd (Host_Driver.Close h b d w2))
            else let config = dev_configs dev ! index in
              (case update_each (enable_interface x (b, d) config) (cf_interfaces config) w2 of (ifs, w3) \<Rightarrow>
                (update_device (device_name b d) (set_interfaces index ifs) hm, snd (Host_Driver.Close h b d w3)))))"

definition global_one :: "('w, 'i, 'c, 'm) host_context \<Rightarrow> bool \<Rightarrow> UsbDevice \<Rightarrow> 'c host_manager \<times> 'w \<Rightarrow>
    'c host_manager \<times> 'w" where
  "global_one x disable dev s = (case s of (hm, w) \<Rightarrow>
     if disable \<and> dev_baseClass dev \<noteq> BASE_CLASS_HUB \<or>
        IsUsbSerialDisable (host_environment x) w \<and> IsUsbSerialDevice dev hm then (hm, w)
     else (case UsbDeviceAuthorize x (dev_busNum dev) (dev_devAddr dev) (\<not> disable) ''GlobalType'' hm w of (ret, hm1, w1) \<Rightarrow>
       if disable then (hm1, w1) else enable_interfaces x dev hm1 w1))"

definition ManageGlobalInterfaceImpl :: "('w, 'i, 'c, 'm) host_context \<Rightarrow> bool \<Rightarrow> 'c host_manager \<Rightarrow> 'w \<Rightarrow>
    retcode \<times> 'c host_manager \<times> 'w" where
  "ManageGlobalInterfaceImpl x disable hm w = (UEC_OK, each_device (global_one x disable) (names_of hm) (hm, w))"

text \<open>The loop over the devices of one vendor and product; a device that cannot be opened ends it.\<close>

fun manage_matching :: "('w, 'i, 'c, 'm) host_context \<Rightarrow> i32 \<Rightarrow> i32 \<Rightarrow> bool \<Rightarrow> string list \<Rightarrow>
    'c host_manager \<Rightarrow> 'w \<Rightarrow> retcode \<times> 'c host_manager \<times> 'w" where
  "manage_matching x vendorId productId disable [] hm w = (UEC_OK, hm, w)"
| "manage_matching x vendorId productId disable (name # names) hm w =
     (case map_of (devices hm) name of None \<Rightarrow> manage_matching x vendorId productId disable names hm w
      | Some dev \<Rightarrow>
         if dev_baseClass dev = BASE_CLASS_HUB \<or> \<not> (dev_vendorId dev = vendorId \<and> dev_productId dev = productId)
         then manage_matching x vendorId productId disable names hm w
         else (case OpenDevice (usbHostInterface x) (dev_busNum dev) (dev_devAddr dev) w of (ret, w1) \<Rightarrow>
           if ret \<noteq> UEC_OK then (ret, hm, w1)
           else (case UsbDeviceAuthorize x (dev_busNum dev) (dev_devAddr dev) (\<not> disable) ''DeviceType'' hm w1 of
             (ret, hm1, w2) \<Rightarrow> manage_matching x vendorId productId disable names hm1
                (snd (Host_Driver.Close (usbHostInterface x) (dev_busNum dev) (dev_devAddr dev) w2)))))"

definition ManageDeviceImpl :: "('w, 'i, 'c, 'm) host_context \<Rightarrow> i32 \<Rightarrow> i32 \<Rightarrow> bool \<Rightarrow> 'c host_manager \<Rightarrow> 'w \<Rightarrow>
    retcode \<times> 'c host_manager \<times> 'w" where
  "ManageDeviceImpl x vendorId productId disable hm w =
     manage_matching x vendorId productId disable (names_of hm) hm w"

definition trusted :: "UsbDeviceId list \<Rightarrow> UsbDevice \<Rightarrow> bool" where
  "trusted trustList dev \<longleftrightarrow>
     list_ex (\<lambda>i. dev_productId dev = di_productId i \<and> dev_vendorId dev = di_vendorId i) trustList"

text \<open>The result of the last device is the result of the loop.\<close>

fun policy_loop :: "('w, 'i, 'c, 'm) host_context \<Rightarrow> UsbDeviceId list \<Rightarrow> string list \<Rightarrow> retcode \<Rightarrow>
    'c host_manager \<Rightarrow> 'w \<Rightarrow> retcode \<times> 'c host_manager \<times> 'w" where
  "policy_loop x trustList [] ret hm w = (ret, hm, w)"
| "policy_loop x trustList (name # names) ret hm w =
     (case map_of (devices hm) name of None \<Rightarrow> policy_loop x trustList names ret hm w
      | Some dev \<Rightarrow>
         (case ManageDeviceImpl x (dev_vendorId dev) (dev_productId dev) (\<not> (trusted trustList dev \<or> trustList = [])) hm w of
           (ret', hm1, w1) \<Rightarrow> policy_loop x trustList names ret' hm1 (hl_sleep (host_library x) w1)))"

definition ExecuteManageDevicePolicy :: "('w, 'i, 'c, 'm) host_context \<Rightarrow> UsbDeviceId list \<Rightarrow> 'c host_manager \<Rightarrow>
    'w \<Rightarrow> retcode \<times> 'c host_manager \<times> 'w" where
  "ExecuteManageDevicePolicy x trustList hm w =
     (case policy_loop x trustList (names_of hm) UEC_OK hm w of (ret, hm1, w1) \<Rightarrow>
        (if ret \<noteq> UEC_OK then UEC_SERVICE_EXECUTE_POLICY_FAILED else UEC_OK, hm1, w1))"

subsection \<open>Types of devices and interfaces\<close>

definition type_matches :: "i32 \<times> i32 \<times> i32 \<Rightarrow> i32 \<Rightarrow> i32 \<Rightarrow> i32 \<Rightarrow> bool" where
  "type_matches v baseClass subClass protocol \<longleftrightarrow> (case v of (b, s, p) \<Rightarrow>
     b = baseClass \<and> (s = RANDOM_VALUE_INDICATE \<or> s = subClass) \<and> (p = RANDOM_VALUE_INDICATE \<or> p = protocol))"

definition FindMatchingTypes :: "type_map \<Rightarrow> bool \<Rightarrow> UsbDeviceType list \<Rightarrow> InterfaceType list" where
  "FindMatchingTypes m isDev disableType = concat (map (\<lambda>dev.
     if dt_isDeviceType dev \<noteq> isDev then []
     else (case find (\<lambda>(t, v). type_matches v (dt_baseClass dev) (dt_subClass dev) (dt_protocol dev)) m of
        None \<Rightarrow> [] | Some (t, v) \<Rightarrow> [t])) disableType)"

definition switch_interface :: "('w, 'i, 'c, 'm) host_context \<Rightarrow> i32 \<times> i32 \<times> i32 \<Rightarrow> bool \<Rightarrow> UsbDevice \<Rightarrow> USBConfig \<Rightarrow>
    UsbInterface \<Rightarrow> 'c host_manager \<times> 'w \<Rightarrow> UsbInterface \<times> 'c host_manager \<times> 'w" where
  "switch_interface x v disable dev config i s = (case s of (hm, w) \<Rightarrow>
     if type_matches v (if_klass i) (if_subClass i) (if_protocol i) then
       (case UsbInterfaceAuthorize x (dev_busNum dev, dev_devAddr dev) (ucast (cf_id config)) (ucast (if_id i)) (\<not> disable) w of
          (ret, w1) \<Rightarrow> (i\<lparr>if_authorized := \<not> disable\<rparr>,
            if disable \<and> if_authorized i \<and> ret = UEC_OK
            then ReportManageDeviceInfo ''InterfaceType'' dev (Some i) hm else hm, w1))
     else (i, hm, w))"

definition interface_type_one :: "('w, 'i, 'c, 'm) host_context \<Rightarrow> i32 \<times> i32 \<times> i32 \<Rightarrow> bool \<Rightarrow> UsbDevice \<Rightarrow>
    'c host_manager \<times> 'w \<Rightarrow> 'c host_manager \<times> 'w" where
  "interface_type_one x v disable dev s = (case s of (hm, w) \<Rightarrow>
     let b = dev_busNum dev; d = dev_devAddr dev in
     if dev_baseClass dev = BASE_CLASS_HUB \<or> dev_authorizeStatus dev = DISABLED then (hm, w)
     else (case GetActiveConfig (usbHostInterface x) b d 0 w of (ret, configIndex, w1) \<Rightarrow>
       if ret \<noteq> UEC_OK then (hm, w1)
       else let index = unat (configIndex - 1) in
         if length (dev_configs dev) \<le> index then (hm, w1)
         else let config = dev_configs dev ! index in
           (case update_each (switch_interface x v disable dev config) (cf_interfaces config) (hm, w1) of (ifs, hm1, w2) \<Rightarrow>
              (update_device (device_name b d) (set_interfaces index ifs) hm1, w2))))"

definition ManageInterfaceTypeImpl :: "('w, 'i, 'c, 'm) host_context \<Rightarrow> InterfaceType \<Rightarrow> bool \<Rightarrow> 'c host_manager \<Rightarrow>
    'w \<Rightarrow> retcode \<times> 'c host_manager \<times> 'w" where
  "ManageInterfaceTypeImpl x interfaceType disable hm w =
     (case map_of g_typeMap interfaceType of None \<Rightarrow> (UEC_SERVICE_INVALID_VALUE, hm, w)
      | Some v \<Rightarrow> (UEC_OK, each_device (interface_type_one x v disable) (names_of hm) (hm, w)))"

definition device_type_one :: "('w, 'i, 'c, 'm) host_context \<Rightarrow> i32 \<times> i32 \<times> i32 \<Rightarrow> bool \<Rightarrow> UsbDevice \<Rightarrow>
    'c host_manager \<times> 'w \<Rightarrow> 'c host_manager \<times> 'w" where
  "device_type_one x v disable dev s = (case s of (hm, w) \<Rightarrow>
     let b = dev_busNum dev; d = dev_devAddr dev; h = usbHostInterface x in
     if IsUsbSerialDisable (host_environment x) w \<and> IsUsbSerialDevice dev hm then (hm, w)
     else if type_matches v (dev_baseClass dev) (dev_subClass dev) (dev_protocol dev) then
       (case OpenDevice h b d w of (ret, w1) \<Rightarrow>
          if ret \<noteq> UEC_OK then (hm, w1)
          else (case UsbDeviceAuthorize x b d (\<not> disable) ''InterfaceType'' hm w1 of (ret, hm1, w2) \<Rightarrow>
            (hm1, snd (Host_Driver.Close h b d w2))))
     else (hm, w))"

definition ManageDeviceTypeImpl :: "('w, 'i, 'c, 'm) host_context \<Rightarrow> InterfaceType \<Rightarrow> bool \<Rightarrow> 'c host_manager \<Rightarrow>
    'w \<Rightarrow> retcode \<times> 'c host_manager \<times> 'w" where
  "ManageDeviceTypeImpl x interfaceType disable hm w =
     (case map_of d_typeMap interfaceType of None \<Rightarrow> (UEC_SERVICE_INVALID_VALUE, hm, w)
      | Some v \<Rightarrow> (UEC_OK, each_device (device_type_one x v disable) (names_of hm) (hm, w)))"

text \<open>Every type of the map is switched: a listed one as asked, every other one the opposite way.\<close>

fun switch_types :: "('w, 'i, 'c, 'm) host_context \<Rightarrow> InterfaceType list \<Rightarrow> bool \<Rightarrow> bool \<Rightarrow> type_map \<Rightarrow>
    'c host_manager \<times> 'w \<Rightarrow> 'c host_manager \<times> 'w" where
  "switch_types x interfaceTypes disable isDev [] s = s"
| "switch_types x interfaceTypes disable isDev ((t, v) # m) s =
     (let execDisable = (if t \<in> set interfaceTypes then disable else \<not> disable) in
      switch_types x interfaceTypes disable isDev m
        (case s of (hm, w) \<Rightarrow> snd (if isDev then ManageDeviceTypeImpl x t execDisable hm w
           else ManageInterfaceTypeImpl x t execDisable hm w)))"

definition ExecuteManageDeviceType :: "('w, 'i, 'c, 'm) host_context \<Rightarrow> UsbDeviceType list \<Rightarrow> bool \<Rightarrow> type_map \<Rightarrow> bool \<Rightarrow>
    'c host_manager \<times> 'w \<Rightarrow> 'c host_manager \<times> 'w" where
  "ExecuteManageDeviceType x disableType disable m isDev s =
     (let m' = he_iterate (host_environment x) m in
      switch_types x (FindMatchingTypes m' isDev disableType) disable isDev m' s)"

definition ExecuteManageInterfaceType :: "('w, 'i, 'c, 'm) host_context \<Rightarrow> UsbDeviceType list \<Rightarrow> bool \<Rightarrow>
    'c host_manager \<Rightarrow> 'w \<Rightarrow> retcode \<times> 'c host_manager \<times> 'w" where
  "ExecuteManageInterfaceType x disableType disable hm w =
     (let h = usbHostInterface x;
          each = (\<lambda>f s. each_device (\<lambda>dev (hm, w). (hm, snd (f (dev_busNum dev) (dev_devAddr dev) w))) (names_of (fst s)) s);
          s1 = each (OpenDevice h) (hm, w);
          s2 = ExecuteManageDeviceType x disableType disable d_typeMap True s1;
          s3 = ExecuteManageDeviceType x disableType disable g_typeMap False s2
      in (UEC_OK, each (Host_Driver.Close h) s3))"

subsection \<open>Asking EDM\<close>

definition EMD_MASK_CODE :: nat where "EMD_MASK_CODE = 20"
definition DISABLE_USB :: u32 where "DISABLE_USB = 1043"
definition ALLOWED_USB_DEVICES :: u32 where "ALLOWED_USB_DEVICES = 1044"
definition USB_STORAGE_DEVICE_ACCESS_POLICY :: u32 where "USB_STORAGE_DEVICE_ACCESS_POLICY = 1026"
definition USB_DEVICE_ACCESS_POLICY :: u32 where "USB_DEVICE_ACCESS_POLICY = 1059"
definition TRUSTLIST_POLICY_MAX_DEVICES :: int where "TRUSTLIST_POLICY_MAX_DEVICES = 1000"
definition EDM_SA_TIME_OUT_CODE :: int where "EDM_SA_TIME_OUT_CODE = 9200007"
definition EDM_SA_MAX_TIME_OUT :: int where "EDM_SA_MAX_TIME_OUT = 5000"
definition GET_EDM_STORAGE_DISABLE_TYPE :: int where "GET_EDM_STORAGE_DISABLE_TYPE = 2"

record edm_policy =
  isGlobalDisabled :: bool
  disableTypes :: "UsbDeviceType list"
  trustUsbDeviceIds :: "UsbDeviceId list"

text \<open>A query succeeds when it was sent and the reply starts with a zero; the rest is the answer.\<close>

definition query_policy :: "'w host_env \<Rightarrow> u32 \<Rightarrow> 'w \<Rightarrow> int list option \<times> 'w" where
  "query_policy env policy w =
     (case he_SendRequest env (push_bit EMD_MASK_CODE 1 OR policy) w of (sendRet, reply, w1) \<Rightarrow>
        (case reply of [] \<Rightarrow> None | ret # r \<Rightarrow> if ret \<noteq> 0 \<or> sendRet \<noteq> 0 then None else Some r, w1))"

text \<open>An integer that is missing is read as zero.\<close>

fun read_int :: "int list \<Rightarrow> int \<times> int list" where
  "read_int [] = (0, [])"
| "read_int (v # r) = (v, r)"

definition GetEdmGlobalPolicy :: "'w host_env \<Rightarrow> edm_policy \<Rightarrow> 'w \<Rightarrow> retcode \<times> edm_policy \<times> 'w" where
  "GetEdmGlobalPolicy env pol w = (case query_policy env DISABLE_USB w of
       (None, w1) \<Rightarrow> (UEC_SERVICE_EDM_SEND_REQUEST_FAILED, pol, w1)
     | (Some [], w1) \<Rightarrow> (UEC_OK, pol, w1)
     | (Some (v # r), w1) \<Rightarrow> (UEC_OK, pol\<lparr>isGlobalDisabled := he_ReadBool env v\<rparr>, w1))"

definition GetEdmStroageTypePolicy :: "'w host_env \<Rightarrow> edm_policy \<Rightarrow> 'w \<Rightarrow> retcode \<times> edm_policy \<times> 'w" where
  "GetEdmStroageTypePolicy env pol w = (case query_policy env USB_STORAGE_DEVICE_ACCESS_POLICY w of
       (None, w1) \<Rightarrow> (UEC_SERVICE_EDM_SEND_REQUEST_FAILED, pol, w1)
     | (Some r, w1) \<Rightarrow>
         if fst (read_int r) = GET_EDM_STORAGE_DISABLE_TYPE
         then (UEC_OK, pol\<lparr>disableTypes := disableTypes pol @ [new_device_type\<lparr>dt_baseClass := STORAGE_BASE_CLASS\<rparr>]\<rparr>, w1)
         else (UEC_OK, pol, w1))"

fun read_types :: "'w host_env \<Rightarrow> nat \<Rightarrow> int list \<Rightarrow> UsbDeviceType list" where
  "read_types env 0 r = []"
| "read_types env (Suc n) r =
     (case read_int r of (b, r1) \<Rightarrow> case read_int r1 of (s, r2) \<Rightarrow> case read_int r2 of (p, r3) \<Rightarrow> case read_int r3 of (d, r4) \<Rightarrow>
        \<lparr>dt_baseClass = word_of_int b, dt_subClass = word_of_int s, dt_protocol = word_of_int p,
         dt_isDeviceType = (r3 \<noteq> [] \<and> he_ReadBool env d)\<rparr> # read_types env n r4)"

fun read_ids :: "nat \<Rightarrow> int list \<Rightarrow> UsbDeviceId list" where
  "read_ids 0 r = []"
| "read_ids (Suc n) r = (case read_int r of (v, r1) \<Rightarrow> case read_int r1 of (p, r2) \<Rightarrow>
     \<lparr>di_productId = word_of_int p, di_vendorId = word_of_int v\<rparr> # read_ids n r2)"

definition GetEdmTypePolicy :: "'w host_env \<Rightarrow> edm_policy \<Rightarrow> 'w \<Rightarrow> retcode \<times> edm_policy \<times> 'w" where
  "GetEdmTypePolicy env pol w = (case query_policy env USB_DEVICE_ACCESS_POLICY w of
       (None, w1) \<Rightarrow> (UEC_SERVICE_EDM_SEND_REQUEST_FAILED, pol, w1)
     | (Some r, w1) \<Rightarrow> (case read_int r of (sz, r1) \<Rightarrow>
         if sz < 0 \<or> TRUSTLIST_POLICY_MAX_DEVICES < sz then (UEC_SERVICE_EDM_DEVICE_SIZE_EXCEED, pol, w1)
         else (UEC_OK, pol\<lparr>disableTypes := disableTypes pol @ read_types env (nat sz) r1\<rparr>, w1)))"

definition GetEdmTrustListPolicy :: "'w host_env \<Rightarrow> edm_policy \<Rightarrow> 'w \<Rightarrow> retcode \<times> edm_policy \<times> 'w" where
  "GetEdmTrustListPolicy env pol w = (case query_policy env ALLOWED_USB_DEVICES w of
       (None, w1) \<Rightarrow> (UEC_SERVICE_EDM_SEND_REQUEST_FAILED, pol, w1)
     | (Some r, w1) \<Rightarrow> (case read_int r of (sz, r1) \<Rightarrow>
         if sz < 0 \<or> TRUSTLIST_POLICY_MAX_DEVICES < sz then (UEC_SERVICE_EDM_DEVICE_SIZE_EXCEED, pol, w1)
         else (UEC_OK, pol\<lparr>trustUsbDeviceIds := trustUsbDeviceIds pol @ read_ids (nat sz) r1\<rparr>, w1)))"

text \<open>The queries one after the other, up to the first that fails.\<close>

fun query_all :: "(edm_policy \<Rightarrow> 'w \<Rightarrow> retcode \<times> edm_policy \<times> 'w) list \<Rightarrow> edm_policy \<Rightarrow> 'w \<Rightarrow>
    retcode \<times> edm_policy \<times> 'w" where
  "query_all [] pol w = (UEC_OK, pol, w)"
| "query_all (q # qs) pol w = (case q pol w of (ret, pol1, w1) \<Rightarrow>
     if ret \<noteq> UEC_OK then (ret, pol1, w1) else query_all qs pol1 w1)"

definition LoadEdmService :: "'w host_env \<Rightarrow> 'w \<Rightarrow> 'w" where
  "LoadEdmService env w = (if \<not> he_SystemAbilityManager env w then w else he_LoadSystemAbility env w)"

definition GetEdmPolicy :: "'w host_env \<Rightarrow> edm_policy \<Rightarrow> 'w \<Rightarrow> retcode \<times> edm_policy \<times> 'w" where
  "GetEdmPolicy env pol w =
     (if \<not> he_SystemAbilityManager env w then (UEC_SERVICE_GET_SYSTEM_ABILITY_MANAGER_FAILED, pol, w)
      else if \<not> he_CheckSystemAbility env w then (UEC_SERVICE_GET_EDM_SERVICE_FAILED, pol, LoadEdmService env w)
      else query_all [GetEdmGlobalPolicy env, GetEdmStroageTypePolicy env, GetEdmTypePolicy env,
        GetEdmTrustListPolicy env] pol w)"

text \<open>
  The loop that asks again while EDM answers with its time-out code. None of the queries passes such
  a code on, which is why the loop ends: the recursive call is never made.
\<close>

lemma query_codes:
  "fst (GetEdmGlobalPolicy env pol w) \<noteq> Code n" "fst (GetEdmStroageTypePolicy env pol w) \<noteq> Code n"
  "fst (GetEdmTypePolicy env pol w) \<noteq> Code n" "fst (GetEdmTrustListPolicy env pol w) \<noteq> Code n"
  by (simp_all add: GetEdmGlobalPolicy_def GetEdmStroageTypePolicy_def GetEdmTypePolicy_def
      GetEdmTrustListPolicy_def split: prod.split option.split list.split)

lemma query_all_codes:
  "(\<And>q pol w. q \<in> set qs \<Longrightarrow> fst (q pol w) \<noteq> Code n) \<Longrightarrow> fst (query_all qs pol w) \<noteq> Code n"
proof (induction qs arbitrary: pol w)
  case (Cons q qs)
  then have "fst (q pol w) \<noteq> Code n" and "fst (query_all qs pol w) \<noteq> Code n" for pol w by simp_all
  then show ?case by (simp add: case_prod_beta)
qed simp

lemma GetEdmPolicy_codes: "fst (GetEdmPolicy env pol w) \<noteq> Code n"
proof -
  have "fst (query_all [GetEdmGlobalPolicy env, GetEdmStroageTypePolicy env, GetEdmTypePolicy env,
      GetEdmTrustListPolicy env] pol w) \<noteq> Code n"
    by (rule query_all_codes) (auto simp: query_codes simp del: prod.collapse)
  then show ?thesis by (simp add: GetEdmPolicy_def del: query_all.simps)
qed

function edm_loop :: "'w host_env \<Rightarrow> ('w \<Rightarrow> 'w) \<Rightarrow> int \<Rightarrow> edm_policy \<Rightarrow> 'w \<Rightarrow> retcode \<times> edm_policy \<times> 'w" where
  "edm_loop env sleep startTime pol w =
     (case GetEdmPolicy env pol w of (ret, pol1, w1) \<Rightarrow>
        if ret = UEC_OK then (UEC_OK, pol1, w1)
        else if ret = Code EDM_SA_TIME_OUT_CODE then
          (if EDM_SA_MAX_TIME_OUT \<le> he_now env w1 - startTime then (UEC_SERVICE_EDM_SA_TIME_OUT_FAILED, pol1, w1)
           else edm_loop env sleep startTime pol1 (sleep w1))
        else (UEC_SERVICE_PREPARE_EDM_SA_FAILED, pol1, w1))"
  by pat_completeness auto

termination
  by (relation "{}") (simp, metis GetEdmPolicy_codes fst_conv)

declare edm_loop.simps [simp del]

definition GetUsbPolicy :: "('w, 'i, 'c, 'm) host_context \<Rightarrow> 'w \<Rightarrow> retcode \<times> edm_policy \<times> 'w" where
  "GetUsbPolicy x w = edm_loop (host_environment x) (hl_sleep (host_library x)) (he_now (host_environment x) w)
     \<lparr>isGlobalDisabled = False, disableTypes = [], trustUsbDeviceIds = []\<rparr> w"

subsection \<open>The strategy\<close>

fun authorize_all :: "('w, 'i, 'c, 'm) host_context \<Rightarrow> bool \<Rightarrow> UsbDev list \<Rightarrow> 'c host_manager \<times> 'w \<Rightarrow>
    'c host_manager \<times> 'w" where
  "authorize_all x disable [] s = s"
| "authorize_all x disable ((b, d) # ds) s = authorize_all x disable ds
     (case s of (hm, w) \<Rightarrow> snd (UsbDeviceAuthorize x b d (\<not> disable) ''UsbSerialType'' hm w))"

definition apply_policy :: "('w, 'i, 'c, 'm) host_context \<Rightarrow> edm_policy \<Rightarrow> 'c host_manager \<Rightarrow> 'w \<Rightarrow>
    'c host_manager \<times> 'w" where
  "apply_policy x pol hm w =
     (if isGlobalDisabled pol then snd (ManageGlobalInterfaceImpl x True hm w)
      else (case (if IsUsbSerialDisable (host_environment x) w
              then authorize_all x True (serialDevices hm) (hm, w) else (hm, w)) of (hm1, w1) \<Rightarrow>
        if disableTypes pol \<noteq> [] then snd (ExecuteManageInterfaceType x (disableTypes pol) True hm1 w1)
        else if trustUsbDeviceIds pol = [] then (hm1, w1)
        else snd (ExecuteManageDevicePolicy x (trustUsbDeviceIds pol) hm1 w1)))"

definition ExecuteStrategy :: "('w, 'i, 'c, 'm) host_context \<Rightarrow> 'c host_manager \<Rightarrow> 'w \<Rightarrow> 'c host_manager \<times> 'w" where
  "ExecuteStrategy x hm w =
     (if \<not> IsEdmEnabled (host_environment x) w then (hm, w)
      else (case GetUsbPolicy x w of (ret, pol, w1) \<Rightarrow>
        if ret = UEC_SERVICE_EDM_SA_TIME_OUT_FAILED \<or> ret = UEC_SERVICE_PREPARE_EDM_SA_FAILED then (hm, w1)
        else apply_policy x pol hm w1))"

definition ManageUsbSerialDevice :: "('w, 'i, 'c, 'm) host_context \<Rightarrow> bool \<Rightarrow> 'c host_manager \<Rightarrow> 'w \<Rightarrow>
    retcode \<times> 'c host_manager \<times> 'w" where
  "ManageUsbSerialDevice x disable hm w =
     (case authorize_all x disable (serialDevices hm) (hm, w) of (hm1, w1) \<Rightarrow>
        (UEC_OK, if \<not> disable then ExecuteStrategy x hm1 w1 else (hm1, w1)))"

definition ManageGlobalInterface :: "('w, 'i, 'c, 'm) host_context \<Rightarrow> bool \<Rightarrow> 'c host_manager \<Rightarrow> 'w \<Rightarrow>
    retcode \<times> 'c host_manager \<times> 'w" where
  "ManageGlobalInterface = ManageGlobalInterfaceImpl"

definition ManageDevice :: "('w, 'i, 'c, 'm) host_context \<Rightarrow> i32 \<Rightarrow> i32 \<Rightarrow> bool \<Rightarrow> 'c host_manager \<Rightarrow> 'w \<Rightarrow>
    retcode \<times> 'c host_manager \<times> 'w" where
  "ManageDevice = ManageDeviceImpl"

definition ManageDevicePolicy :: "('w, 'i, 'c, 'm) host_context \<Rightarrow> UsbDeviceId list \<Rightarrow> 'c host_manager \<Rightarrow> 'w \<Rightarrow>
    retcode \<times> 'c host_manager \<times> 'w" where
  "ManageDevicePolicy = ExecuteManageDevicePolicy"

definition ManageInterfaceType :: "('w, 'i, 'c, 'm) host_context \<Rightarrow> UsbDeviceType list \<Rightarrow> bool \<Rightarrow> 'c host_manager \<Rightarrow>
    'w \<Rightarrow> retcode \<times> 'c host_manager \<times> 'w" where
  "ManageInterfaceType = ExecuteManageInterfaceType"

subsection \<open>Arrival and removal\<close>

definition AddUsbSerialDevice :: "('w, SerialPort, 'attr) serial_hdi option \<Rightarrow> UsbDevice \<Rightarrow>
    SerialPort serial_manager option \<Rightarrow> 'c host_manager \<Rightarrow> 'w \<Rightarrow>
    SerialPort serial_manager option \<times> 'c host_manager \<times> 'w" where
  "AddUsbSerialDevice shdi dev sm hm w =
     (case sm of None \<Rightarrow> (None, hm, w)
      | Some m \<Rightarrow> (case SerialGetPortList shdi m w of (ret, serialList, m1, w1) \<Rightarrow>
          if ret \<noteq> UEC_OK then (Some m1, hm, w1)
          else if list_ex (\<lambda>p. sp_busNum p = dev_busNum dev \<and> sp_devAddr p = dev_devAddr dev) serialList \<and>
            (dev_busNum dev, dev_devAddr dev) \<notin> set (serialDevices hm)
          then (Some m1, hm\<lparr>serialDevices := serialDevices hm @ [(dev_busNum dev, dev_devAddr dev)]\<rparr>, w1)
          else (Some m1, hm, w1)))"

text \<open>After the strategy: the device is announced unless it was disabled or has gone.\<close>

definition announce :: "string \<Rightarrow> 'c host_manager \<Rightarrow> bool \<times> 'c host_manager" where
  "announce name hm = (case map_of (devices hm) name of None \<Rightarrow> (False, hm)
     | Some dev \<Rightarrow> if dev_authorizeStatus dev = DISABLED then (True, hm)
         else let dev' = dev\<lparr>dev_authorizeStatus := ENABLED\<rparr>
           in (True, PublishCommonEvent True dev' (set_device name dev' hm)))"

definition AddDevice :: "('w, 'i, 'c, 'm) host_context \<Rightarrow> ('w, SerialPort, 'attr) serial_hdi option \<Rightarrow> UsbDevice option \<Rightarrow>
    SerialPort serial_manager option \<Rightarrow> 'c host_manager \<Rightarrow> 'w \<Rightarrow>
    bool \<times> SerialPort serial_manager option \<times> 'c host_manager \<times> 'w" where
  "AddDevice x shdi dev sm hm w =
     (case dev of None \<Rightarrow> (False, sm, hm, w)
      | Some d \<Rightarrow>
         let name = device_name (dev_busNum d) (dev_devAddr d);
             d1 = d\<lparr>dev_authorizeStatus := NEW_ARRIVED\<rparr>;
             hm1 = hm\<lparr>devices := omap_insert name d1 (omap_erase name (devices hm))\<rparr>
         in (case AddUsbSerialDevice shdi d1 sm hm1 w of (sm1, hm2, w1) \<Rightarrow>
             case ExecuteStrategy x hm2 w1 of (hm3, w2) \<Rightarrow>
             case announce name hm3 of (ok, hm4) \<Rightarrow> (ok, sm1, hm4, w2)))"

definition DelDevice :: "u8 \<Rightarrow> u8 \<Rightarrow> 'c host_manager \<Rightarrow> bool \<times> 'c host_manager" where
  "DelDevice busNum devNum hm =
     (let name = device_name busNum devNum in
      case map_of (devices hm) name of None \<Rightarrow> (False, hm)
      | Some dev \<Rightarrow>
         let hm1 = (if dev_authorizeStatus dev = ENABLED then PublishCommonEvent False dev hm else hm)
         in (True, hm1\<lparr>serialDevices := remove1 (dev_busNum dev, dev_devAddr dev) (serialDevices hm1),
              devices := omap_erase name (devices hm1)\<rparr>))"

end
