(* ===== verification/Host_Invariant.thy ===== *)
theory Host_Invariant
  imports Host_Policy
begin

section \<open>Host manager: invariants and properties\<close>

text \<open>
  What the host manager keeps in step: the keys of the device map are the names of the devices, and
  a device is enabled exactly when the last thing announced of its name is that it was attached; under a
  name that a device has taken over from one that was not removed, an enabled device is announced, but the
  announcement may outlive it. The interface \<open>policy_operation\<close> is the contract of everything that applies a policy: it keeps the
  invariant, adds and removes no device and changes nothing of a device but its switch and its
  interfaces. Every policy operation is an interpretation of it.
\<close>

subsection \<open>The invariant\<close>

abbreviation name_of :: "UsbDevice \<Rightarrow> string" where
  "name_of dev \<equiv> device_name (dev_busNum dev) (dev_devAddr dev)"

definition visible :: "string \<Rightarrow> host_effect list \<Rightarrow> bool" where
  "visible name = foldl (\<lambda>v e. case e of Announced attached dev sys \<Rightarrow> if name_of dev = name then attached else v | _ \<Rightarrow> v) False"

definition enabled :: "string \<Rightarrow> 'c host_manager \<Rightarrow> bool" where
  "enabled name hm = (case map_of (devices hm) name of None \<Rightarrow> False | Some dev \<Rightarrow> dev_authorizeStatus dev = ENABLED)"

definition keyed :: "'c host_manager \<Rightarrow> bool" where
  "keyed hm \<longleftrightarrow> omap_ok (devices hm) \<and> (\<forall>(name, dev) \<in> set (devices hm). name_of dev = name)"

text \<open>\<open>R\<close> are the names under which an announcement may have outlived its device.\<close>

definition announced :: "string set \<Rightarrow> 'c host_manager \<Rightarrow> bool" where
  "announced R hm \<longleftrightarrow> keyed hm \<and> (\<forall>name. (enabled name hm \<longrightarrow> visible name (host_trace hm)) \<and>
     (name \<notin> R \<longrightarrow> visible name (host_trace hm) = enabled name hm))"

text \<open>What identifies a device: all but its switch and its configurations.\<close>

definition ident :: "UsbDevice \<Rightarrow> UsbDevice" where
  "ident dev = dev\<lparr>dev_authorizeStatus := ENABLED, dev_configs := []\<rparr>"

definition idents :: "'c host_manager \<Rightarrow> (string \<times> UsbDevice) list" where
  "idents hm = map (\<lambda>(name, dev). (name, ident dev)) (devices hm)"

definition evolves :: "'c host_manager \<Rightarrow> 'c host_manager \<Rightarrow> bool" where
  "evolves hm hm' \<longleftrightarrow> (\<forall>R. announced R hm \<longrightarrow>
     announced R hm' \<and> idents hm' = idents hm \<and> serialDevices hm' = serialDevices hm)"

lemma announced_keyed: "announced R hm \<Longrightarrow> keyed hm"
  by (simp add: announced_def)

lemma announced_all: "announced R hm \<Longrightarrow> announced UNIV hm"
  by (simp add: announced_def)

lemma evolves_keyed: "(keyed hm \<Longrightarrow> evolves hm hm') \<Longrightarrow> evolves hm hm'"
  unfolding evolves_def by (blast dest: announced_keyed)

lemma evolves_refl [simp]: "evolves hm hm"
  by (simp add: evolves_def)

lemma evolves_trans: "evolves hm hm1 \<Longrightarrow> evolves hm1 hm2 \<Longrightarrow> evolves hm hm2"
  unfolding evolves_def by metis

lemma idents_map_of: "map_of (idents hm) name = map_option ident (map_of (devices hm) name)"
  by (simp add: idents_def map_of_map)

lemma idents_names: "names_of hm = map fst (idents hm)"
  by (simp add: idents_def names_of_def case_prod_beta)

lemma ident_fields:
  assumes "ident d' = ident d"
  shows "dev_busNum d' = dev_busNum d" "dev_devAddr d' = dev_devAddr d" "dev_baseClass d' = dev_baseClass d"
    "dev_vendorId d' = dev_vendorId d" "dev_productId d' = dev_productId d"
  using arg_cong [OF assms, of dev_busNum] arg_cong [OF assms, of dev_devAddr] arg_cong [OF assms, of dev_baseClass]
    arg_cong [OF assms, of dev_vendorId] arg_cong [OF assms, of dev_productId]
  by (simp_all add: ident_def)

lemma visible_append [simp]:
  "visible name (tr @ [e]) = (case e of Announced a dev sys \<Rightarrow> if name_of dev = name then a else visible name tr
     | _ \<Rightarrow> visible name tr)"
  by (cases e) (simp_all add: visible_def)

subsection \<open>Changing a device\<close>

lemma omap_put_map:
  "omap_ok m \<Longrightarrow> map_of m k = Some v0 \<Longrightarrow> f v = f v0 \<Longrightarrow>
     map (\<lambda>(k, v). (k, f v)) (omap_put k v m) = map (\<lambda>(k, v). (k, f v)) m"
  by (induction k v m rule: omap_put.induct) (auto split: if_splits dest!: map_of_SomeD)

lemma keyedD: "keyed hm \<Longrightarrow> map_of (devices hm) name = Some dev \<Longrightarrow> name_of dev = name"
  by (auto simp: keyed_def dest!: map_of_SomeD)

lemma set_device_devices [simp]:
  "keyed hm \<Longrightarrow> map_of (devices (set_device name dev hm)) = (map_of (devices hm))(name \<mapsto> dev)"
  by (simp add: set_device_def keyed_def omap_find_put)

lemma set_device_fields [simp]:
  "host_trace (set_device name dev hm) = host_trace hm" "serialDevices (set_device name dev hm) = serialDevices hm"
  by (simp_all add: set_device_def)

lemma emit_fields [simp]:
  "devices (emit es hm) = devices hm" "serialDevices (emit es hm) = serialDevices hm"
  "host_trace (emit es hm) = host_trace hm @ es"
  by (simp_all add: emit_def)

lemma set_device_keyed:
  assumes "keyed hm" and "name_of dev = name"
  shows "keyed (set_device name dev hm)"
  using assms omap_put_subset [of name dev "devices hm"]
  by (auto simp: keyed_def set_device_def omap_ok_put)

lemma set_device_idents:
  assumes "keyed hm" and "map_of (devices hm) name = Some d0" and "ident dev = ident d0"
  shows "idents (set_device name dev hm) = idents hm"
  using assms omap_put_map [of "devices hm" name d0 ident dev] by (simp add: idents_def set_device_def keyed_def)

lemma ReportManageDeviceInfo_fields [simp]:
  "devices (ReportManageDeviceInfo op dev i hm) = devices hm"
  "serialDevices (ReportManageDeviceInfo op dev i hm) = serialDevices hm"
  "visible name (host_trace (ReportManageDeviceInfo op dev i hm)) = visible name (host_trace hm)"
  by (simp_all add: ReportManageDeviceInfo_def split: option.split)

lemma ReportHostPlugSysEvent_fields [simp]:
  "devices (ReportHostPlugSysEvent a dev hm) = devices hm"
  "serialDevices (ReportHostPlugSysEvent a dev hm) = serialDevices hm"
  "visible name (host_trace (ReportHostPlugSysEvent a dev hm)) = visible name (host_trace hm)"
  by (simp_all add: ReportHostPlugSysEvent_def Let_def split: prod.split)

lemma PublishCommonEvent_fields [simp]:
  "devices (PublishCommonEvent a dev hm) = devices hm"
  "serialDevices (PublishCommonEvent a dev hm) = serialDevices hm"
  "visible name (host_trace (PublishCommonEvent a dev hm)) = (if name_of dev = name then a else visible name (host_trace hm))"
  by (simp_all add: PublishCommonEvent_def Let_def split: if_split)

lemma same_devices:
  assumes "devices hm' = devices hm"
  shows "keyed hm' = keyed hm" "enabled name hm' = enabled name hm" "idents hm' = idents hm"
  using assms by (simp_all add: keyed_def enabled_def idents_def)

text \<open>A device switched or renewed in place, with the announcement that goes with the switch.\<close>

lemma evolves_set_device:
  assumes "map_of (devices hm) name = Some d0" and "ident dev = ident d0" and "devices hm1 = devices hm"
    and "serialDevices hm1 = serialDevices hm"
    and "\<And>R. announced R hm \<Longrightarrow> (dev_authorizeStatus dev = ENABLED \<longrightarrow> visible name (host_trace hm1)) \<and>
      (name \<notin> R \<longrightarrow> visible name (host_trace hm1) = (dev_authorizeStatus dev = ENABLED))"
    and "\<And>n. n \<noteq> name \<Longrightarrow> visible n (host_trace hm1) = visible n (host_trace hm)"
  shows "evolves hm (set_device name dev hm1)"
  unfolding evolves_def
proof (intro allI impI)
  fix R assume a: "announced R hm"
  then have k: "keyed hm" and k1: "keyed hm1"
    using same_devices(1) [OF assms(3)] by (simp_all add: announced_def)
  have "name_of dev = name" using ident_fields [OF assms(2)] keyedD [OF k assms(1)] by simp
  from set_device_keyed [OF k1 this] have "keyed (set_device name dev hm1)" .
  moreover have "(enabled n (set_device name dev hm1) \<longrightarrow> visible n (host_trace hm1)) \<and>
      (n \<notin> R \<longrightarrow> visible n (host_trace hm1) = enabled n (set_device name dev hm1))" for n
    using assms(3) assms(5) [OF a] assms(6) a k1 by (cases "n = name") (auto simp: enabled_def announced_def)
  moreover have "idents (set_device name dev hm1) = idents hm"
    using set_device_idents [OF k1 _ assms(2), of name] assms(1) unfolding assms(3) same_devices(3) [OF assms(3)] by blast
  ultimately show "announced R (set_device name dev hm1) \<and> idents (set_device name dev hm1) = idents hm \<and>
      serialDevices (set_device name dev hm1) = serialDevices hm"
    using assms(4) by (simp add: announced_def)
qed

subsection \<open>The contract of a policy operation\<close>

locale policy_operation =
  fixes f :: "'c host_manager \<times> 'w \<Rightarrow> 'c host_manager \<times> 'w"
  assumes evolve: "evolves (fst s) (fst (f s))"
begin

lemma keeps_announced: "announced R (fst s) \<Longrightarrow> announced R (fst (f s))"
  using evolve [of s] by (simp add: evolves_def)

lemma keeps_device:
  assumes "announced R (fst s)" and "map_of (devices (fst s)) name = Some dev"
  obtains dev' where "map_of (devices (fst (f s))) name = Some dev'" "ident dev' = ident dev"
proof -
  have "map_of (idents (fst (f s))) name = Some (ident dev)"
    using evolve [of s] assms by (auto simp: evolves_def idents_map_of)
  then show ?thesis using that by (auto simp: idents_map_of)
qed

lemma keeps_idents: "announced R (fst s) \<Longrightarrow> idents (fst (f s)) = idents (fst s)"
  using evolve [of s] by (auto simp: evolves_def)

lemma keeps_names: "announced R (fst s) \<Longrightarrow> names_of (fst (f s)) = names_of (fst s)"
  by (simp add: keeps_idents idents_names)

end

lemma policy_operation_skip: "policy_operation (\<lambda>s. (fst s, g s))"
  by unfold_locales simp

lemma policy_operation_comp:
  assumes "policy_operation f" and "policy_operation g"
  shows "policy_operation (\<lambda>s. g (f s))"
  using evolves_trans [OF policy_operation.evolve [OF assms(1)] policy_operation.evolve [OF assms(2)]]
  by unfold_locales

lemma policy_operation_each:
  assumes "\<And>dev. policy_operation (f dev)"
  shows "policy_operation (each_device f names)"
proof
  show "evolves (fst s) (fst (each_device f names s))" for s
  proof (induction names arbitrary: s)
    case (Cons name names)
    have "evolves (fst s) (fst (case map_of (devices (fst s)) name of None \<Rightarrow> s | Some dev \<Rightarrow> f dev s))"
      using policy_operation.evolve [OF assms] by (simp split: option.split)
    from evolves_trans [OF this Cons.IH] show ?case by simp
  qed simp
qed

text \<open>The switch of a device.\<close>

lemma UsbDeviceAuthorize_evolves: "evolves hm (fst (snd (UsbDeviceAuthorize x b d authorized op hm w)))"
proof (cases "usbDeviceInterface x")
  case (Some di)
  show ?thesis
  proof (cases "map_of (devices hm) (device_name b d)")
    case None
    with Some show ?thesis by (simp add: UsbDeviceAuthorize_def)
  next
    case (Some dev)
    obtain ret w1 where r: "hd_UsbDeviceAuthorize di b d authorized w = (ret, w1)"
      by (cases "hd_UsbDeviceAuthorize di b d authorized w")
    let ?hm1 = "if \<not> authorized then ReportManageDeviceInfo op dev None hm else hm"
    let ?hm2 = "if dev_authorizeStatus dev \<noteq> NEW_ARRIVED then PublishCommonEvent authorized dev ?hm1 else ?hm1"
    let ?dev = "dev\<lparr>dev_authorizeStatus := if authorized then ENABLED else DISABLED\<rparr>"
    let ?go = "\<not> (authorized \<and> dev_authorizeStatus dev \<noteq> DISABLED \<or> \<not> authorized \<and> dev_authorizeStatus dev = DISABLED)"
    have n: "keyed hm \<Longrightarrow> name_of dev = device_name b d" by (rule keyedD [OF _ Some])
    have "?go \<Longrightarrow> announced R hm \<Longrightarrow>
        (dev_authorizeStatus ?dev = ENABLED \<longrightarrow> visible (device_name b d) (host_trace ?hm2)) \<and>
        (device_name b d \<notin> R \<longrightarrow> visible (device_name b d) (host_trace ?hm2) = (dev_authorizeStatus ?dev = ENABLED))" for R
      using n Some by (cases "dev_authorizeStatus dev") (auto simp: announced_def enabled_def)
    moreover have "keyed hm \<Longrightarrow> k \<noteq> device_name b d \<Longrightarrow> visible k (host_trace ?hm2) = visible k (host_trace hm)" for k
      using n by auto
    ultimately have "?go \<Longrightarrow> keyed hm \<Longrightarrow> evolves hm (set_device (device_name b d) ?dev ?hm2)"
      by (intro evolves_set_device [OF Some]) (simp_all add: ident_def)
    then have "?go \<Longrightarrow> evolves hm (set_device (device_name b d) ?dev ?hm2)" by (blast intro: evolves_keyed)
    with \<open>usbDeviceInterface x = Some di\<close> Some r show ?thesis
      by (simp add: UsbDeviceAuthorize_def Let_def del: if_not_P)
  qed
qed (simp add: UsbDeviceAuthorize_def)

interpretation authorize: policy_operation "\<lambda>s. snd (UsbDeviceAuthorize x b d authorized op (fst s) (snd s))"
  by unfold_locales (rule UsbDeviceAuthorize_evolves)

text \<open>The interfaces of a device.\<close>

lemma update_device_evolves:
  assumes "\<And>dev. ident (f dev) = ident dev" and "\<And>dev. dev_authorizeStatus (f dev) = dev_authorizeStatus dev"
  shows "evolves hm (update_device name f hm)"
proof (cases "map_of (devices hm) name")
  case (Some dev)
  have "evolves hm (set_device name (f dev) hm)"
    using Some assms by (intro evolves_set_device [OF Some]) (auto simp: announced_def enabled_def)
  with Some show ?thesis by (simp add: update_device_def)
qed (simp add: update_device_def)

lemma set_interfaces_ident [simp]:
  "ident (set_interfaces k ifs dev) = ident dev" "dev_authorizeStatus (set_interfaces k ifs dev) = dev_authorizeStatus dev"
  by (simp_all add: set_interfaces_def ident_def)

lemma enable_interfaces_evolves: "evolves hm (fst (enable_interfaces x dev hm w))"
  by (simp add: enable_interfaces_def Let_def update_device_evolves split: prod.split)

lemma switch_interface_evolves: "evolves (fst s) (fst (snd (switch_interface x v disable dev config i s)))"
proof -
  have "announced R (ReportManageDeviceInfo op d j hm) = announced R hm"
    and "idents (ReportManageDeviceInfo op d j hm) = idents hm" for R op d j and hm :: "'a host_manager"
    by (simp_all add: announced_def keyed_def enabled_def idents_def)
  then show ?thesis by (simp add: switch_interface_def evolves_def split: prod.split)
qed

lemma update_each_evolves:
  assumes "\<And>i s. evolves (fst s) (fst (snd (f i s)))"
  shows "evolves (fst s) (fst (snd (update_each f xs s)))"
proof (induction xs arbitrary: s)
  case (Cons i xs)
  from evolves_trans [OF assms Cons.IH] show ?case by (simp add: case_prod_beta)
qed simp

interpretation interface_type: policy_operation "interface_type_one x v disable dev"
proof
  fix s :: "'c host_manager \<times> 'a"
  obtain hm w where s: "s = (hm, w)" by (cases s)
  have "evolves hm (update_device n (set_interfaces k ifs) hm1)"
    if "update_each (switch_interface x v disable dev config) xs (hm, w1) = (js, hm1, w2)" for n k ifs config xs w1 js hm1 w2
  proof (rule evolves_trans [OF _ update_device_evolves])
    show "evolves hm hm1"
      using update_each_evolves [of "switch_interface x v disable dev config" "(hm, w1)" xs, OF switch_interface_evolves] that
      by simp
  qed simp_all
  then show "evolves (fst s) (fst (interface_type_one x v disable dev s))"
    by (simp add: interface_type_one_def s Let_def split: prod.split)
qed

lemma device_switch_evolves:
  "UsbDeviceAuthorize x b d a op hm w = (ret, hm1, w1) \<Longrightarrow> evolves hm hm1"
  using UsbDeviceAuthorize_evolves [of hm x b d a op w] by simp

lemma global_one_evolves: "evolves (fst s) (fst (global_one x disable dev s))"
  by (auto simp: global_one_def dest: device_switch_evolves
      intro: evolves_trans [OF _ enable_interfaces_evolves] split: prod.split)

lemma device_type_one_evolves: "evolves (fst s) (fst (device_type_one x v disable dev s))"
  by (auto simp: device_type_one_def Let_def dest: device_switch_evolves split: prod.split)

interpretation global_switch: policy_operation "global_one x disable dev" for x disable dev
  by unfold_locales (rule global_one_evolves)

interpretation device_type: policy_operation "device_type_one x v disable dev" for x v disable dev
  by unfold_locales (rule device_type_one_evolves)

text \<open>The policies themselves, on the pair of the manager and the world.\<close>

interpretation global_policy: policy_operation "\<lambda>s. snd (ManageGlobalInterfaceImpl x disable (fst s) (snd s))"
  for x disable
  using policy_operation.evolve [OF policy_operation_each [where f = "global_one x disable",
      OF global_switch.policy_operation_axioms]]
  by unfold_locales (simp add: ManageGlobalInterfaceImpl_def)

lemma manage_matching_evolves: "evolves hm (fst (snd (manage_matching x vid pid disable names hm w)))"
proof (induction names arbitrary: hm w)
  case (Cons name names)
  have "UsbDeviceAuthorize x b d a op hm w = (ret, hm1, w1) \<Longrightarrow>
      evolves hm (fst (snd (manage_matching x vid pid disable names hm1 w')))" for b d a op hm w ret hm1 w1 w'
    using evolves_trans [OF device_switch_evolves Cons.IH] .
  with Cons.IH show ?case by (auto split: prod.split option.split)
qed simp

interpretation device_policy: policy_operation "\<lambda>s. snd (ManageDeviceImpl x vid pid disable (fst s) (snd s))"
  for x vid pid disable
  by unfold_locales (simp add: ManageDeviceImpl_def manage_matching_evolves)

lemma policy_loop_evolves: "evolves hm (fst (snd (policy_loop x trustList names ret hm w)))"
proof (induction names arbitrary: ret hm w)
  case (Cons name names)
  have "ManageDeviceImpl x vid pid disable hm w = (r, hm1, w1) \<Longrightarrow> evolves hm hm1" for vid pid disable r hm1 w1
    using device_policy.evolve [of "(hm, w)" x vid pid disable] by simp
  then show ?case by (auto intro: evolves_trans [OF _ Cons.IH] Cons.IH split: prod.split option.split)
qed simp

interpretation trust_policy: policy_operation "\<lambda>s. snd (ExecuteManageDevicePolicy x trustList (fst s) (snd s))"
  for x trustList
  using policy_loop_evolves by unfold_locales (simp add: ExecuteManageDevicePolicy_def case_prod_beta)

lemma type_impl_evolves:
  "evolves hm (fst (snd (ManageDeviceTypeImpl x t e hm w)))" "evolves hm (fst (snd (ManageInterfaceTypeImpl x t e hm w)))"
proof -
  have "evolves hm (fst (each_device (device_type_one x v e) ns (hm, w)))"
    and "evolves hm (fst (each_device (interface_type_one x v e) ns (hm, w)))" for v ns
    using policy_operation.evolve [OF policy_operation_each [where f = "device_type_one x v e",
          OF device_type.policy_operation_axioms], of "(hm, w)"]
      policy_operation.evolve [OF policy_operation_each [where f = "interface_type_one x v e",
          OF interface_type.policy_operation_axioms], of "(hm, w)"] by simp_all
  then show "evolves hm (fst (snd (ManageDeviceTypeImpl x t e hm w)))"
    and "evolves hm (fst (snd (ManageInterfaceTypeImpl x t e hm w)))"
    by (simp_all add: ManageDeviceTypeImpl_def ManageInterfaceTypeImpl_def split: option.split)
qed

lemma switch_types_evolves: "evolves (fst s) (fst (switch_types x ts disable isDev m s))"
proof (induction m arbitrary: s)
  case (Cons tv m)
  have "evolves (fst s) (fst (case s of (hm, w) \<Rightarrow>
      snd (if isDev then ManageDeviceTypeImpl x t e hm w else ManageInterfaceTypeImpl x t e hm w)))" for t e
    by (simp add: type_impl_evolves split: prod.split)
  from evolves_trans [OF this Cons.IH] show ?case by (cases tv) (simp add: Let_def)
qed simp

lemma each_driver_evolves: "evolves (fst s) (fst (each_device (\<lambda>dev (hm, w). (hm, g dev w)) names s))"
  by (rule policy_operation.evolve [OF policy_operation_each]) (unfold_locales, simp add: case_prod_beta)

lemma ExecuteManageInterfaceType_evolves:
  "evolves hm (fst (snd (ExecuteManageInterfaceType x disableType disable hm w)))"
  unfolding ExecuteManageInterfaceType_def Let_def ExecuteManageDeviceType_def snd_conv
  using evolves_trans [OF evolves_trans [OF evolves_trans [OF each_driver_evolves switch_types_evolves] switch_types_evolves]
      each_driver_evolves, of "(hm, w)"] by simp

interpretation type_policy: policy_operation "\<lambda>s. snd (ExecuteManageInterfaceType x disableType disable (fst s) (snd s))"
  for x disableType disable
  by unfold_locales (rule ExecuteManageInterfaceType_evolves)

lemma authorize_all_evolves: "evolves (fst s) (fst (authorize_all x disable ds s))"
proof (induction ds arbitrary: s)
  case (Cons d ds)
  from evolves_trans [OF authorize.evolve Cons.IH] show ?case by (cases d) (simp add: case_prod_beta)
qed simp

interpretation serial_policy: policy_operation "authorize_all x disable ds" for x disable ds
  by unfold_locales (rule authorize_all_evolves)

lemma apply_policy_evolves: "evolves hm (fst (apply_policy x pol hm w))"
proof -
  have g: "evolves hm (fst (snd (ManageGlobalInterfaceImpl x True hm w)))"
    using global_policy.evolve [of "(hm, w)" x True] by simp
  have s: "authorize_all x True ds (hm, w) = (hm1, w1) \<Longrightarrow> evolves hm hm1" for ds hm1 w1
    using authorize_all_evolves [of "(hm, w)" x True ds] by simp
  have t: "evolves hm1 (fst (snd (ExecuteManageDevicePolicy x ids hm1 w1)))" for ids hm1 w1
    using trust_policy.evolve [of "(hm1, w1)" x ids] by simp
  show ?thesis
    by (auto simp: apply_policy_def g dest!: s intro: t ExecuteManageInterfaceType_evolves
        evolves_trans [OF _ ExecuteManageInterfaceType_evolves] evolves_trans [OF _ t] split: prod.split)
qed

interpretation strategy: policy_operation "\<lambda>s. ExecuteStrategy x (fst s) (snd s)" for x
  by unfold_locales (simp add: ExecuteStrategy_def apply_policy_evolves split: prod.split)

interpretation serial_switch: policy_operation "\<lambda>s. snd (ManageUsbSerialDevice x disable (fst s) (snd s))" for x disable
proof
  show "evolves (fst s) (fst (snd (ManageUsbSerialDevice x disable (fst s) (snd s))))" for s
    using evolves_trans [OF authorize_all_evolves [of s x disable "serialDevices (fst s)"] strategy.evolve [of _ x]]
      authorize_all_evolves [of s x disable "serialDevices (fst s)"]
    by (cases disable) (simp_all add: ManageUsbSerialDevice_def case_prod_beta)
qed

subsection \<open>Arrival and removal\<close>

lemma erase_evolves_keyed:
  assumes "keyed hm" shows "keyed (hm\<lparr>devices := omap_erase name (devices hm), serialDevices := ds\<rparr>)"
  using assms omap_erase_subset [of name "devices hm"] by (auto simp: keyed_def omap_ok_erase)

lemma DelDevice_announced:
  assumes "announced R hm"
  shows "announced R (snd (DelDevice b d hm))"
proof (cases "map_of (devices hm) (device_name b d)")
  case (Some dev)
  have k: "keyed hm" using assms by (simp add: announced_def)
  have n: "name_of dev = device_name b d" by (rule keyedD [OF k Some])
  let ?hm1 = "if dev_authorizeStatus dev = ENABLED then PublishCommonEvent False dev hm else hm"
  let ?hm2 = "?hm1\<lparr>serialDevices := remove1 (dev_busNum dev, dev_devAddr dev) (serialDevices ?hm1),
      devices := omap_erase (device_name b d) (devices ?hm1)\<rparr>"
  have "keyed ?hm2"
    using erase_evolves_keyed [OF k] by (simp add: keyed_def)
  moreover have "(enabled m ?hm2 \<longrightarrow> visible m (host_trace ?hm2)) \<and> (m \<notin> R \<longrightarrow> visible m (host_trace ?hm2) = enabled m ?hm2)" for m
    using assms Some n k by (auto simp: announced_def enabled_def keyed_def omap_find_erase)
  ultimately show ?thesis using Some by (simp add: DelDevice_def Let_def announced_def)
qed (use assms in \<open>simp add: DelDevice_def\<close>)

lemma AddUsbSerialDevice_fields [simp]:
  "devices (fst (snd (AddUsbSerialDevice shdi dev sm hm w))) = devices hm"
  "host_trace (fst (snd (AddUsbSerialDevice shdi dev sm hm w))) = host_trace hm"
  by (simp_all add: AddUsbSerialDevice_def split: option.split prod.split)

lemma announce_announced:
  assumes "announced R hm"
  shows "announced R (snd (announce name hm))"
proof (cases "map_of (devices hm) name")
  case (Some dev)
  have k: "keyed hm" using assms by (simp add: announced_def)
  have n: "name_of dev = name" by (rule keyedD [OF k Some])
  let ?dev = "dev\<lparr>dev_authorizeStatus := ENABLED\<rparr>"
  have k1: "keyed (set_device name ?dev hm)" by (rule set_device_keyed [OF k]) (simp add: n)
  then have "announced R (PublishCommonEvent True ?dev (set_device name ?dev hm))"
    using assms k n same_devices [OF PublishCommonEvent_fields(1) [of True ?dev "set_device name ?dev hm"]]
    by (auto simp: announced_def enabled_def)
  with Some assms show ?thesis by (simp add: announce_def Let_def)
qed (use assms in \<open>simp add: announce_def\<close>)

lemma announce_idents:
  assumes "keyed hm"
  shows "idents (snd (announce name hm)) = idents hm"
proof (cases "map_of (devices hm) name")
  case (Some dev)
  let ?dev = "dev\<lparr>dev_authorizeStatus := ENABLED\<rparr>"
  have "idents (set_device name ?dev hm) = idents hm" by (rule set_device_idents [OF assms Some]) (simp add: ident_def)
  then show ?thesis using Some same_devices(3) [OF PublishCommonEvent_fields(1) [of True ?dev "set_device name ?dev hm"]]
    by (simp add: announce_def Let_def)
qed (simp add: announce_def)

text \<open>A device arrives, under a free name or in the place of another one.\<close>

definition taken :: "string \<Rightarrow> 'c host_manager \<Rightarrow> string set" where
  "taken name hm = (if map_of (devices hm) name = None then {} else {name})"

lemma arrival_announced:
  assumes "announced R hm"
  shows "announced (taken (name_of d) hm \<union> R) (hm\<lparr>devices := omap_insert (name_of d) (d\<lparr>dev_authorizeStatus := NEW_ARRIVED\<rparr>)
    (omap_erase (name_of d) (devices hm))\<rparr>)" (is "announced _ ?hm1")
proof -
  have k: "omap_ok (devices hm)" and key: "\<forall>(n, dev) \<in> set (devices hm). name_of dev = n"
    using assms(1) by (auto simp: announced_def keyed_def)
  have e: "omap_ok (omap_erase (name_of d) (devices hm))" by (rule omap_ok_erase [OF k])
  let ?d1 = "d\<lparr>dev_authorizeStatus := NEW_ARRIVED\<rparr>"
  have "set (omap_insert (name_of d) ?d1 (omap_erase (name_of d) (devices hm))) \<subseteq> insert (name_of d, ?d1) (set (devices hm))"
    using omap_insert_subset [of "name_of d" ?d1 "omap_erase (name_of d) (devices hm)"]
      omap_erase_subset [of "name_of d" "devices hm"] by blast
  moreover have "\<forall>(n, dev) \<in> insert (name_of d, ?d1) (set (devices hm)). name_of dev = n" using key by simp
  ultimately have "keyed ?hm1" using e by (auto simp: keyed_def omap_ok_insert dest!: subsetD)
  moreover have "(enabled n ?hm1 \<longrightarrow> visible n (host_trace hm)) \<and>
      (n \<notin> taken (name_of d) hm \<union> R \<longrightarrow> visible n (host_trace hm) = enabled n ?hm1)" for n
    using assms e k by (auto simp: announced_def enabled_def taken_def omap_find_insert omap_find_erase split: if_splits)
  ultimately show ?thesis by (simp add: announced_def)
qed

lemma AddDevice_announced:
  assumes "announced R hm"
  shows "announced (taken (name_of d) hm \<union> R) (fst (snd (snd (AddDevice x shdi (Some d) sm hm w))))" (is ?A)
    and "map_of (idents (fst (snd (snd (AddDevice x shdi (Some d) sm hm w))))) = (map_of (idents hm))(name_of d \<mapsto> ident d)" (is ?I)
proof -
  let ?d1 = "d\<lparr>dev_authorizeStatus := NEW_ARRIVED\<rparr>" and ?R = "taken (name_of d) hm \<union> R"
  let ?hm1 = "hm\<lparr>devices := omap_insert (name_of d) ?d1 (omap_erase (name_of d) (devices hm))\<rparr>"
  obtain sm1 hm2 w1 where a: "AddUsbSerialDevice shdi ?d1 sm ?hm1 w = (sm1, hm2, w1)"
    by (cases "AddUsbSerialDevice shdi ?d1 sm ?hm1 w")
  have f: "devices hm2 = devices ?hm1" "host_trace hm2 = host_trace ?hm1"
    using AddUsbSerialDevice_fields [of shdi ?d1 sm ?hm1 w] by (simp_all add: a)
  then have n2: "announced ?R hm2"
    using arrival_announced [OF assms, of d] same_devices [of hm2 ?hm1] by (simp add: announced_def)
  define hm3 where "hm3 = fst (ExecuteStrategy x hm2 w1)"
  have n3: "announced ?R hm3" and i3: "idents hm3 = idents hm2"
    using strategy.keeps_announced [of ?R "(hm2, w1)" x] strategy.keeps_idents [of ?R "(hm2, w1)" x] n2 by (simp_all add: hm3_def)
  have r: "fst (snd (snd (AddDevice x shdi (Some d) sm hm w))) = snd (announce (name_of d) hm3)"
    by (simp add: AddDevice_def Let_def a case_prod_beta hm3_def)
  show ?A unfolding r by (rule announce_announced [OF n3])
  have k: "omap_ok (devices hm)" using assms by (simp add: announced_def keyed_def)
  have "map_of (idents hm2) = (map_of (idents hm))(name_of d \<mapsto> ident d)"
    using omap_ok_erase [OF k] k
    by (auto simp: idents_map_of f(1) fun_eq_iff omap_find_insert omap_find_erase ident_def)
  then show ?I unfolding r announce_idents [OF announced_keyed [OF n3]] i3 .
qed

lemma DelDevice_idents:
  assumes "keyed hm"
  shows "map_of (idents (snd (DelDevice b d hm))) = (map_of (idents hm))(device_name b d := None)"
  using assms by (auto simp: DelDevice_def Let_def idents_map_of fun_eq_iff keyed_def omap_find_erase split: option.split)

subsection \<open>The effect of a trust list\<close>

text \<open>What is asked of the drivers for a policy to take effect.\<close>

definition reliable_host :: "('w, 'i, 'c, 'm) host_context \<Rightarrow> bool" where
  "reliable_host x \<longleftrightarrow> (\<exists>h di. usbHostInterface x = Some h \<and> usbDeviceInterface x = Some di \<and>
     (\<forall>d w. fst (hh_OpenDevice h d w) = 0) \<and> (\<forall>b d a w. fst (hd_UsbDeviceAuthorize di b d a w) = 0))"

definition switched_on :: "string \<Rightarrow> 'c host_manager \<Rightarrow> bool" where
  "switched_on name hm \<longleftrightarrow> (case map_of (devices hm) name of None \<Rightarrow> False | Some dev \<Rightarrow> dev_authorizeStatus dev \<noteq> DISABLED)"

definition is_model :: "i32 \<Rightarrow> i32 \<Rightarrow> UsbDevice \<Rightarrow> bool" where
  "is_model vid pid dev \<longleftrightarrow> dev_baseClass dev \<noteq> BASE_CLASS_HUB \<and> dev_vendorId dev = vid \<and> dev_productId dev = pid"

lemma is_model_ident: "ident d' = ident d \<Longrightarrow> is_model vid pid d' = is_model vid pid d"
  by (simp add: is_model_def ident_fields [of d' d])

lemma UsbDeviceAuthorize_switches:
  fixes x :: "('w, 'i, 'c, 'm) host_context"
  assumes "reliable_host x" and "announced R hm" and "map_of (devices hm) (device_name b d) = Some dev"
  shows "switched_on k (fst (snd (UsbDeviceAuthorize x b d a op hm w))) =
    (if k = device_name b d then a else switched_on k hm)"
proof -
  obtain di where di: "usbDeviceInterface x = Some di" and ok: "\<And>w. fst (hd_UsbDeviceAuthorize di b d a w) = 0"
    using assms(1) by (auto simp: reliable_host_def)
  have k: "keyed hm'" if "devices hm' = devices hm" for hm' :: "'c host_manager"
    using assms(2) same_devices [OF that] by (simp add: announced_def)
  have s: "switched_on j (set_device n dev' hm') = (if j = n then dev_authorizeStatus dev' \<noteq> DISABLED else switched_on j hm)"
    if "devices hm' = devices hm" for j n dev' and hm' :: "'c host_manager"
    using k [OF that] that by (simp add: switched_on_def)
  have "switched_on (device_name b d) hm = (dev_authorizeStatus dev \<noteq> DISABLED)"
    using assms(3) by (simp add: switched_on_def)
  moreover obtain w1 where "hd_UsbDeviceAuthorize di b d a w = (0, w1)"
    using ok [of w] by (cases "hd_UsbDeviceAuthorize di b d a w") simp
  ultimately show ?thesis
    by (cases a) (auto simp: UsbDeviceAuthorize_def di assms(3) Let_def s)
qed

text \<open>The devices of the list that are of the model are switched, the others are not.\<close>

lemma manage_matching_switches:
  assumes "reliable_host x"
  shows "announced R hm \<Longrightarrow> map_of (devices hm) k = Some dev \<Longrightarrow>
    fst (manage_matching x vid pid disable names hm w) = UEC_OK \<and>
    switched_on k (fst (snd (manage_matching x vid pid disable names hm w))) =
      (if k \<in> set names \<and> is_model vid pid dev then \<not> disable else switched_on k hm)"
proof (induction names arbitrary: hm w dev)
  case (Cons name names)
  show ?case
  proof (cases "\<exists>dn. map_of (devices hm) name = Some dn \<and> is_model vid pid dn")
    case False
    then have "manage_matching x vid pid disable (name # names) hm w = manage_matching x vid pid disable names hm w"
      by (auto simp: is_model_def split: option.split)
    with Cons.IH [OF Cons.prems] False Cons.prems(2) show ?thesis by auto
  next
    case True
    then obtain dn where dn: "map_of (devices hm) name = Some dn" and m: "is_model vid pid dn" by blast
    have n: "name_of dn = name" using keyedD [OF _ dn] Cons.prems(1) by (simp add: announced_def)
    obtain h where h: "usbHostInterface x = Some h" and o: "\<And>d w. fst (hh_OpenDevice h d w) = 0"
      using assms by (auto simp: reliable_host_def)
    obtain w1 where op: "OpenDevice (usbHostInterface x) (dev_busNum dn) (dev_devAddr dn) w = (UEC_OK, w1)"
      using o [of "(dev_busNum dn, dev_devAddr dn)" w]
      by (cases "hh_OpenDevice h (dev_busNum dn, dev_devAddr dn) w") (auto simp: OpenDevice_def with_hdi_def h ret_of_int_def)
    obtain ret hm1 w2 where a: "UsbDeviceAuthorize x (dev_busNum dn) (dev_devAddr dn) (\<not> disable) ''DeviceType'' hm w1 =
        (ret, hm1, w2)" by (cases "UsbDeviceAuthorize x (dev_busNum dn) (dev_devAddr dn) (\<not> disable) ''DeviceType'' hm w1")
    have "map_of (devices hm) (name_of dn) = Some dn" using dn n by simp
    note sw = UsbDeviceAuthorize_switches [OF assms Cons.prems(1) this, of k "\<not> disable" "''DeviceType''" w1, unfolded a]
    have e: "evolves hm hm1" by (rule device_switch_evolves [OF a])
    then have an: "announced R hm1" and i: "idents hm1 = idents hm" using Cons.prems(1) by (auto simp: evolves_def)
    obtain dev1 where d1: "map_of (devices hm1) k = Some dev1" "ident dev1 = ident dev"
      using arg_cong [OF i, of "\<lambda>m. map_of m k"] Cons.prems(2) by (auto simp: idents_map_of)
    have "manage_matching x vid pid disable (name # names) hm w = manage_matching x vid pid disable names hm1
        (snd (Host_Driver.Close (usbHostInterface x) (dev_busNum dn) (dev_devAddr dn) w2))"
      using m by (simp add: dn is_model_def op a)
    with Cons.IH [OF an d1(1)] sw n dn m Cons.prems(2) is_model_ident [OF d1(2)] show ?thesis by auto
  qed
qed simp

lemma policy_loop_switches:
  assumes "reliable_host x"
  shows "announced R hm \<Longrightarrow> map_of (devices hm) k = Some dev \<Longrightarrow> k \<in> set (names_of hm) \<Longrightarrow>
    dev_baseClass dev \<noteq> BASE_CLASS_HUB \<Longrightarrow>
    switched_on k (fst (snd (policy_loop x trustList names ret hm w))) =
      (if k \<in> set names \<or> (\<exists>n dn. n \<in> set names \<and> map_of (idents hm) n = Some dn \<and>
           dev_vendorId dn = dev_vendorId dev \<and> dev_productId dn = dev_productId dev)
       then trusted trustList dev \<or> trustList = [] else switched_on k hm)"
proof (induction names arbitrary: ret hm w dev)
  case (Cons name names)
  show ?case
  proof (cases "map_of (devices hm) name")
    case None
    then have "k \<noteq> name" and "map_of (idents hm) name = None" using Cons.prems(2) by (auto simp: idents_map_of)
    with Cons.IH [OF Cons.prems, of ret w] None show ?thesis by auto
  next
    case (Some dn)
    let ?off = "\<not> (trusted trustList dn \<or> trustList = [])"
    obtain r hm1 w1 where m: "ManageDeviceImpl x (dev_vendorId dn) (dev_productId dn) ?off hm w = (r, hm1, w1)"
      by (cases "ManageDeviceImpl x (dev_vendorId dn) (dev_productId dn) ?off hm w")
    have sw: "switched_on k hm1 = (if is_model (dev_vendorId dn) (dev_productId dn) dev then \<not> ?off else switched_on k hm)"
      using manage_matching_switches [OF assms Cons.prems(1,2), of "dev_vendorId dn" "dev_productId dn" ?off "names_of hm" w]
        m Cons.prems(3) by (simp add: ManageDeviceImpl_def)
    have "evolves hm hm1"
      using device_policy.evolve [of "(hm, w)" x "dev_vendorId dn" "dev_productId dn" ?off]
      unfolding fst_conv snd_conv m .
    then have an: "announced R hm1" and i: "idents hm1 = idents hm" using Cons.prems(1) by (auto simp: evolves_def)
    obtain dev1 where d1: "map_of (devices hm1) k = Some dev1" "ident dev1 = ident dev"
      using arg_cong [OF i, of "\<lambda>m. map_of m k"] Cons.prems(2) by (auto simp: idents_map_of)
    note f = ident_fields [OF d1(2)]
    have t: "trusted trustList dev1 = trusted trustList dev" using f by (simp add: trusted_def)
    have same: "is_model (dev_vendorId dn) (dev_productId dn) dev \<Longrightarrow> trusted trustList dn = trusted trustList dev"
      by (simp add: is_model_def trusted_def)
    have kn: "k = name \<Longrightarrow> is_model (dev_vendorId dn) (dev_productId dn) dev"
      using Some Cons.prems(2,4) by (simp add: is_model_def)
    have mod: "is_model (dev_vendorId dn) (dev_productId dn) dev \<longleftrightarrow>
        (\<exists>d. map_of (idents hm) name = Some d \<and> dev_vendorId d = dev_vendorId dev \<and> dev_productId d = dev_productId dev)"
      using Some Cons.prems(4) by (auto simp: is_model_def idents_map_of ident_def)
    have nm: "k \<in> set (names_of hm1)" using Cons.prems(3) i by (simp add: idents_names)
    have step: "policy_loop x trustList (name # names) ret hm w = policy_loop x trustList names r hm1 (hl_sleep (host_library x) w1)"
      using m by (simp add: Some)
    show ?thesis
      unfolding step Cons.IH [OF an d1(1) nm, of r "hl_sleep (host_library x) w1", unfolded f, OF Cons.prems(4)] t i sw
      using same kn mod by (cases "is_model (dev_vendorId dn) (dev_productId dn) dev") auto
  qed
qed simp

subsection \<open>Reachable states\<close>

text \<open>
  The history of the bus, as the service is told of it, with the newest event first: the devices that
  arrived and the names that were removed. \<open>occupants\<close> are the devices that have arrived under a name
  since it was last free, the newest first; a name is taken over when a device arrives under it before
  the removal of another one.
\<close>

datatype bus_event = Arrived string UsbDevice | Left string

primrec occupants :: "string \<Rightarrow> bus_event list \<Rightarrow> UsbDevice list" where
  "occupants name [] = []"
| "occupants name (e # h) = (case e of
     Arrived n dev \<Rightarrow> if n = name then dev # occupants name h else occupants name h
   | Left n \<Rightarrow> if n = name then [] else occupants name h)"

primrec taken_over :: "string \<Rightarrow> bus_event list \<Rightarrow> bool" where
  "taken_over name [] = False"
| "taken_over name (e # h) = (taken_over name h \<or>
     (case e of Arrived n dev \<Rightarrow> n = name \<and> occupants name h \<noteq> [] | Left n \<Rightarrow> False))"

text \<open>The identification of the newest occupant.\<close>

definition newest :: "string \<Rightarrow> bus_event list \<Rightarrow> UsbDevice option" where
  "newest name h = (case occupants name h of [] \<Rightarrow> None | dev # _ \<Rightarrow> Some (ident dev))"

lemma newest_simps [simp]:
  "newest name [] = None"
  "newest name (Arrived n dev # h) = (if n = name then Some (ident dev) else newest name h)"
  "newest name (Left n # h) = (if n = name then None else newest name h)"
  by (simp_all add: newest_def)

lemma newest_None [simp]: "newest name h = None \<longleftrightarrow> occupants name h = []"
  by (simp add: newest_def split: list.split)

text \<open>
  What happens to the manager: devices arrive, under whatever name, devices leave, policies are applied
  by administrators and when EDM has been loaded, and the world changes. A step is labelled with what it
  adds to the history.
\<close>

inductive host_step :: "('w, 'i, 'c, 'm) host_context \<Rightarrow> ('w, SerialPort, 'attr) serial_hdi option \<Rightarrow>
    'c host_manager \<times> SerialPort serial_manager option \<times> 'w \<Rightarrow> bus_event list \<Rightarrow>
    'c host_manager \<times> SerialPort serial_manager option \<times> 'w \<Rightarrow> bool" for x shdi where
  arrives: "AddDevice x shdi (Some d) sm hm w = (ok, sm', hm', w') \<Longrightarrow>
    host_step x shdi (hm, sm, w) [Arrived (name_of d) d] (hm', sm', w')"
| leaves: "DelDevice b d hm = (ok, hm') \<Longrightarrow> host_step x shdi (hm, sm, w) [Left (device_name b d)] (hm', sm, w)"
| global: "ManageGlobalInterface x disable hm w = (ret, hm', w') \<Longrightarrow> host_step x shdi (hm, sm, w) [] (hm', sm, w')"
| device: "ManageDevice x vid pid disable hm w = (ret, hm', w') \<Longrightarrow> host_step x shdi (hm, sm, w) [] (hm', sm, w')"
| trust: "ManageDevicePolicy x trustList hm w = (ret, hm', w') \<Longrightarrow> host_step x shdi (hm, sm, w) [] (hm', sm, w')"
| types: "ManageInterfaceType x disableType disable hm w = (ret, hm', w') \<Longrightarrow> host_step x shdi (hm, sm, w) [] (hm', sm, w')"
| serial: "ManageUsbSerialDevice x disable hm w = (ret, hm', w') \<Longrightarrow> host_step x shdi (hm, sm, w) [] (hm', sm, w')"
| strategy: "ExecuteStrategy x hm w = (hm', w') \<Longrightarrow> host_step x shdi (hm, sm, w) [] (hm', sm, w')"
| world: "host_step x shdi (hm, sm, w) [] (hm, sm', w')"

inductive host_reachable :: "('w, 'i, 'c, 'm) host_context \<Rightarrow> ('w, SerialPort, 'attr) serial_hdi option \<Rightarrow> bus_event list \<Rightarrow>
    'c host_manager \<times> SerialPort serial_manager option \<times> 'w \<Rightarrow> bool" for x shdi where
  start: "host_reachable x shdi [] (new_host_manager, sm, w)"
| step: "host_reachable x shdi h s \<Longrightarrow> host_step x shdi s es s' \<Longrightarrow> host_reachable x shdi (es @ h) s'"

text \<open>What the manager has of a history: the newest occupant of each name.\<close>

definition follows :: "bus_event list \<Rightarrow> 'c host_manager \<Rightarrow> bool" where
  "follows h hm \<longleftrightarrow> announced {name. taken_over name h} hm \<and> (\<forall>name. map_of (idents hm) name = newest name h)"

lemma follows_evolves: "follows h hm \<Longrightarrow> evolves hm hm' \<Longrightarrow> follows h hm'"
  by (auto simp: follows_def evolves_def)

lemma follows_start [simp]: "follows [] new_host_manager"
  by (simp add: follows_def announced_def keyed_def new_host_manager_def visible_def enabled_def idents_def)

lemma AddDevice_follows:
  assumes "follows h hm"
  shows "follows (Arrived (name_of d) d # h) (fst (snd (snd (AddDevice x shdi (Some d) sm hm w))))"
proof -
  have "map_option ident (map_of (devices hm) (name_of d)) = newest (name_of d) h"
    using assms by (simp only: follows_def flip: idents_map_of)
  then have "map_of (devices hm) (name_of d) = None \<longleftrightarrow> occupants (name_of d) h = []"
    using newest_None [of "name_of d" h] by (metis option.map_disc_iff)
  then have "taken (name_of d) hm \<union> {name. taken_over name h} = {name. taken_over name (Arrived (name_of d) d # h)}"
    by (auto simp: taken_def)
  with AddDevice_announced(1) [of "{name. taken_over name h}" hm d x shdi sm w]
    AddDevice_announced(2) [of "{name. taken_over name h}" hm x shdi d sm w] assms show ?thesis
    by (auto simp: follows_def simp del: taken_over.simps)
qed

lemma DelDevice_follows:
  assumes "follows h hm"
  shows "follows (Left (device_name b d) # h) (snd (DelDevice b d hm))"
  using assms DelDevice_announced [of _ hm b d] DelDevice_idents [OF announced_keyed, of _ hm b d]
  by (auto simp: follows_def)

lemma policies_evolve:
  "evolves hm (fst (snd (ManageGlobalInterface x disable hm w)))"
  "evolves hm (fst (snd (ManageDevice x vid pid disable hm w)))"
  "evolves hm (fst (snd (ManageDevicePolicy x ids hm w)))"
  "evolves hm (fst (snd (ManageInterfaceType x ts disable hm w)))"
  "evolves hm (fst (snd (ManageUsbSerialDevice x disable hm w)))"
  "evolves hm (fst (ExecuteStrategy x hm w))"
  using global_policy.evolve [of "(hm, w)" x disable] device_policy.evolve [of "(hm, w)" x vid pid disable]
    trust_policy.evolve [of "(hm, w)" x ids] type_policy.evolve [of "(hm, w)" x ts disable]
    serial_switch.evolve [of "(hm, w)" x disable] strategy.evolve [of "(hm, w)" x]
  by (simp_all add: ManageGlobalInterface_def ManageDevice_def ManageDevicePolicy_def ManageInterfaceType_def)

lemma host_step_follows: "host_step x shdi s es s' \<Longrightarrow> follows h (fst s) \<Longrightarrow> follows (es @ h) (fst s')"
proof (induction rule: host_step.induct)
  case (arrives d sm hm w ok sm' hm' w')
  then show ?case using AddDevice_follows [of h hm d x shdi sm w] by simp
next
  case (leaves b d hm ok hm' sm w)
  then show ?case using DelDevice_follows [of h hm b d] by simp
next
  case (global disable hm w ret hm' w' sm)
  then show ?case using follows_evolves [OF _ policies_evolve(1) [of hm x disable w]] by simp
next
  case (device vid pid disable hm w ret hm' w' sm)
  then show ?case using follows_evolves [OF _ policies_evolve(2) [of hm x vid pid disable w]] by simp
next
  case (trust trustList hm w ret hm' w' sm)
  then show ?case using follows_evolves [OF _ policies_evolve(3) [of hm x trustList w]] by simp
next
  case (types disableType disable hm w ret hm' w' sm)
  then show ?case using follows_evolves [OF _ policies_evolve(4) [of hm x disableType disable w]] by simp
next
  case (serial disable hm w ret hm' w' sm)
  then show ?case using follows_evolves [OF _ policies_evolve(5) [of hm x disable w]] by simp
next
  case (strategy hm w hm' w' sm)
  then show ?case using follows_evolves [OF _ policies_evolve(6) [of hm x w]] by simp
qed simp

lemma host_reachable_follows: "host_reachable x shdi h s \<Longrightarrow> follows h (fst s)"
  by (induction rule: host_reachable.induct) (simp_all add: host_step_follows)

subsection \<open>Properties\<close>

text \<open>
  C11: what applications can list and what they were told. In every reachable state, with any history of
  arrivals, removals and policies, every device that \<^verbatim>\<open>GetDevices\<close> returns is the one that arrived last
  under its name, and the last announcement of the name was that it is attached. To a system caller all
  names whose last announcement was that they are attached are listed, except for names under which a device
  took the place of another one that was not removed. An ordinary application gets no hubs, and no serial
  numbers.
\<close>

theorem listed_devices_announced:
  assumes "host_reachable x shdi h (hm, sm, w)"
  shows "(\<forall>dev \<in> set (GetDevices c hm). visible (name_of dev) (host_trace hm) \<and>
      (\<exists>d older. occupants (name_of dev) h = d # older \<and> dev_vendorId dev = dev_vendorId d \<and> dev_productId dev = dev_productId d)) \<and>
    (IsSystemAppOrSa c \<longrightarrow> (\<forall>name. visible name (host_trace hm) \<longrightarrow> name \<in> name_of ` set (GetDevices c hm) \<or> taken_over name h)) \<and>
    (\<not> IsSystemAppOrSa c \<longrightarrow> (\<forall>dev \<in> set (GetDevices c hm). dev_baseClass dev \<noteq> BASE_CLASS_HUB \<and> dev_serial dev = []))"
proof -
  have a: "announced {name. taken_over name h} hm" and i: "map_of (idents hm) name = newest name h" for name
    using host_reachable_follows [OF assms] by (simp_all add: follows_def)
  have k: "keyed hm" using a by (rule announced_keyed)
  have d: "distinct (map fst (devices hm))" using k by (simp add: keyed_def omap_ok_def)
  have e: "enabled (name_of dev) hm = (dev_authorizeStatus dev = ENABLED)" if "(n, dev) \<in> set (devices hm)" for n dev
    using map_of_is_SomeI [OF d that] k that by (auto simp: enabled_def keyed_def)
  have l: "\<exists>d older. occupants (name_of dev) h = d # older \<and> dev_vendorId dev = dev_vendorId d \<and> dev_productId dev = dev_productId d"
    if m: "(n, dev) \<in> set (devices hm)" for n dev
  proof -
    have "name_of dev = n" using k m by (auto simp: keyed_def)
    moreover have "newest n h = Some (ident dev)" using i [of n] map_of_is_SomeI [OF d m] by (simp add: idents_map_of)
    then obtain o1 older where "occupants n h = o1 # older" "ident dev = ident o1"
      by (auto simp: newest_def split: list.splits)
    ultimately show ?thesis using ident_fields [of dev o1] by auto
  qed
  have "enabled n hm \<Longrightarrow> \<exists>dev. (n, dev) \<in> set (devices hm) \<and> name_of dev = n \<and> dev_authorizeStatus dev = ENABLED" for n
    using keyedD [OF k] by (auto simp: enabled_def dest: map_of_SomeD split: option.splits)
  then have n: "enabled n hm \<Longrightarrow> n \<in> name_of ` {dev \<in> snd ` set (devices hm). dev_authorizeStatus dev = ENABLED}" for n
    by (force simp: image_def)
  have v: "visible n (host_trace hm) \<Longrightarrow> enabled n hm \<or> taken_over n h" "enabled n hm \<Longrightarrow> visible n (host_trace hm)" for n
    using a by (auto simp: announced_def)
  show ?thesis
  proof (cases "IsSystemAppOrSa c")
    case True
    have "visible n (host_trace hm) \<Longrightarrow> \<not> taken_over n h \<Longrightarrow>
        n \<in> name_of ` {dev \<in> snd ` set (devices hm). dev_authorizeStatus dev = ENABLED}" for n
      using n v(1) by blast
    with True show ?thesis using e l v(2) by (auto simp: GetDevices_def)
  next
    case False
    then show ?thesis using e l v by (auto simp: GetDevices_def)
  qed
qed

lemma trusted_iff:
  "trusted trustList dev \<longleftrightarrow> \<lparr>di_productId = dev_productId dev, di_vendorId = dev_vendorId dev\<rparr> \<in> set trustList"
proof -
  have "dev_productId dev = di_productId i \<and> dev_vendorId dev = di_vendorId i \<longleftrightarrow>
      \<lparr>di_productId = dev_productId dev, di_vendorId = dev_vendorId dev\<rparr> = i" for i
    by (cases i) simp
  then show ?thesis by (auto simp: trusted_def list_ex_iff)
qed

text \<open>
  C12: a trust list does what it says. With drivers that answer, after \<^verbatim>\<open>ManageDevicePolicy\<close> every
  device that is not a hub is switched on exactly when its vendor and product are on the list, or
  the list is empty; no device was added or removed.
\<close>

theorem trust_list_enforced:
  assumes "host_reachable x shdi h (hm, sm, w)" and "reliable_host x"
    and "map_of (devices hm) name = Some dev" and "dev_baseClass dev \<noteq> BASE_CLASS_HUB"
  shows "switched_on name (fst (snd (ManageDevicePolicy x trustList hm w))) =
      (\<lparr>di_productId = dev_productId dev, di_vendorId = dev_vendorId dev\<rparr> \<in> set trustList \<or> trustList = []) \<and>
    names_of (fst (snd (ManageDevicePolicy x trustList hm w))) = names_of hm"
proof -
  have a: "announced {n. taken_over n h} hm" using host_reachable_follows [OF assms(1)] by (simp add: follows_def)
  have "name \<in> set (names_of hm)" using assms(3) by (force simp: names_of_def dest: map_of_SomeD)
  with policy_loop_switches [OF assms(2) a assms(3) _ assms(4), of trustList "names_of hm" UEC_OK w]
    trust_policy.keeps_names [of _ "(hm, w)" x trustList] a show ?thesis
    by (simp add: ManageDevicePolicy_def ExecuteManageDevicePolicy_def case_prod_beta trusted_iff)
qed

text \<open>
  The loop of \<^verbatim>\<open>GetUsbPolicy\<close> is a single attempt. \<^verbatim>\<open>GetEdmPolicy\<close> never passes EDM's time-out
  code on, so the policy is asked for once: on success it is returned and the strategy applies it, on
  any failure the caller gets \<^verbatim>\<open>UEC_SERVICE_PREPARE_EDM_SA_FAILED\<close> and no device is switched.
\<close>

theorem GetUsbPolicy_single_attempt:
  "(case GetEdmPolicy (host_environment x) \<lparr>isGlobalDisabled = False, disableTypes = [], trustUsbDeviceIds = []\<rparr> w of
     (ret, pol, w1) \<Rightarrow>
       GetUsbPolicy x w = (if ret = UEC_OK then UEC_OK else UEC_SERVICE_PREPARE_EDM_SA_FAILED, pol, w1) \<and>
       ExecuteStrategy x hm w = (if IsEdmEnabled (host_environment x) w
         then if ret = UEC_OK then apply_policy x pol hm w1 else (hm, w1) else (hm, w)))"
proof -
  let ?p = "\<lparr>isGlobalDisabled = False, disableTypes = [], trustUsbDeviceIds = []\<rparr>"
  obtain ret pol w1 where g: "GetEdmPolicy (host_environment x) ?p w = (ret, pol, w1)"
    by (cases "GetEdmPolicy (host_environment x) ?p w")
  with GetEdmPolicy_codes [of "host_environment x" ?p w EDM_SA_TIME_OUT_CODE] have "ret \<noteq> Code EDM_SA_TIME_OUT_CODE" by simp
  with g have "GetUsbPolicy x w = (if ret = UEC_OK then UEC_OK else UEC_SERVICE_PREPARE_EDM_SA_FAILED, pol, w1)"
    unfolding GetUsbPolicy_def by (subst edm_loop.simps) simp
  with g show ?thesis by (simp add: ExecuteStrategy_def)
qed

subsection \<open>A small world\<close>

text \<open>The world tells whether EDM is active; its policy disables everything.\<close>

definition sample_host_env :: "bool host_env" where
  "sample_host_env = \<lparr>he_GetParameter = (\<lambda>p d w. if w then ''true'' else ''false''), he_SystemAbilityManager = (\<lambda>w. True),
     he_CheckSystemAbility = (\<lambda>w. True), he_LoadSystemAbility = (\<lambda>w. w), he_SendRequest = (\<lambda>c w. (0, [0, 1], w)),
     he_ReadBool = (\<lambda>v. v \<noteq> 0), he_iterate = (\<lambda>m. m), he_now = (\<lambda>w. 0), he_json = (\<lambda>d. [])\<rparr>"

definition sample_context :: "(bool, unit, unit, unit) host_context" where
  "sample_context = \<lparr>usbHostInterface = Some (quiet_host []),
     usbDeviceInterface = Some \<lparr>hd_UsbDeviceAuthorize = (\<lambda>b d a w. (0, w)), hd_UsbInterfaceAuthorize = (\<lambda>d c i a w. (0, w))\<rparr>,
     host_library = sample_lib, host_environment = sample_host_env\<rparr>"

definition sample_device :: UsbDevice where
  "sample_device = new_device\<lparr>dev_busNum := 1, dev_devAddr := 2, dev_vendorId := 0x1234, dev_productId := 0x5678,
     dev_baseClass := 8, dev_serial := ''abc''\<rparr>"

definition sample_arrival :: "unit host_manager" where
  "sample_arrival = fst (snd (snd (AddDevice sample_context (None :: (bool, SerialPort, unit) serial_hdi option)
     (Some sample_device) None new_host_manager False)))"

lemma sample_reliable: "reliable_host sample_context"
  by (simp add: reliable_host_def sample_context_def quiet_host_def)

lemma sample_arrival_devices:
  "devices sample_arrival = [(name_of sample_device, sample_device\<lparr>dev_authorizeStatus := ENABLED\<rparr>)]"
  by (simp add: sample_arrival_def AddDevice_def AddUsbSerialDevice_def ExecuteStrategy_def IsEdmEnabled_def
      sample_context_def sample_host_env_def new_host_manager_def announce_def Let_def set_device_def)

abbreviation no_serial :: "(bool, SerialPort, unit) serial_hdi option" where "no_serial \<equiv> None"

lemma sample_arrival_reachable:
  "host_reachable sample_context no_serial [Arrived (name_of sample_device) sample_device] (sample_arrival, None, False)"
proof -
  obtain ok sm hm w where a: "AddDevice sample_context no_serial (Some sample_device) None new_host_manager False = (ok, sm, hm, w)"
    by (cases "AddDevice sample_context no_serial (Some sample_device) None new_host_manager False")
  from host_reachable.step [OF host_reachable.step [OF host_reachable.start host_step.arrives [OF a]] host_step.world]
  show ?thesis by (simp add: sample_arrival_def a)
qed

definition sample_caller :: "bool \<Rightarrow> caller" where
  "sample_caller sys = \<lparr>call_token = 7, call_systemApp = sys, call_native = False, call_denied = False, call_uid = 20010,
     call_apiVersion = 18\<rparr>"

lemma listed_devices_announced_witness:
  "name_of ` set (GetDevices (sample_caller True) sample_arrival) = {name. visible name (host_trace sample_arrival)} \<and>
   visible (name_of sample_device) (host_trace sample_arrival)"
  using listed_devices_announced [OF sample_arrival_reachable, of "sample_caller True"]
    listed_devices_announced [OF sample_arrival_reachable, of "sample_caller False"]
  by (auto simp: IsSystemAppOrSa_def sample_caller_def GetDevices_def sample_arrival_devices sample_device_def
      BASE_CLASS_HUB_def)

lemma trust_list_enforced_witness:
  "\<not> switched_on (name_of sample_device) (fst (snd (ManageDevicePolicy sample_context
     [\<lparr>di_productId = 1, di_vendorId = 2\<rparr>] sample_arrival False)))"
proof -
  have "map_of (devices sample_arrival) (name_of sample_device) = Some (sample_device\<lparr>dev_authorizeStatus := ENABLED\<rparr>)"
    by (simp add: sample_arrival_devices)
  from trust_list_enforced [OF sample_arrival_reachable sample_reliable this, of "[\<lparr>di_productId = 1, di_vendorId = 2\<rparr>]"]
  show ?thesis by (simp add: sample_device_def BASE_CLASS_HUB_def)
qed

text \<open>
  A device that replaces an enabled one of the same name takes over its announcement. When it
  is disabled by the policy on arrival, nothing is announced: applications were told that the name
  is attached, and cannot list it. The example is a hub that is added again while EDM disables all
  USB devices.
\<close>

theorem replaced_device_stays_announced:
  "let add = (\<lambda>hm w. fst (snd (snd (AddDevice sample_context (None :: (bool, SerialPort, unit) serial_hdi option)
         (Some (sample_device\<lparr>dev_baseClass := BASE_CLASS_HUB\<rparr>)) None hm w))));
       hm = add (add new_host_manager False) True
   in visible (name_of sample_device) (host_trace hm) \<and> GetDevices (sample_caller True) hm = []"
  by (simp add: AddDevice_def AddUsbSerialDevice_def ExecuteStrategy_def IsEdmEnabled_def sample_context_def
      sample_host_env_def new_host_manager_def announce_def Let_def set_device_def GetUsbPolicy_def edm_loop.simps
      GetEdmPolicy_def GetEdmGlobalPolicy_def GetEdmStroageTypePolicy_def GetEdmTypePolicy_def GetEdmTrustListPolicy_def
      query_policy_def GET_EDM_STORAGE_DISABLE_TYPE_def TRUSTLIST_POLICY_MAX_DEVICES_def apply_policy_def
      ManageGlobalInterfaceImpl_def names_of_def global_one_def IsUsbSerialDisable_def UsbDeviceAuthorize_def
      sample_device_def GetDevices_def)

end
