(* ===== verification/Right_Database.thy ===== *)
theory Right_Database
  imports Usb_Prelude
begin

section \<open>Right database\<close>

text \<open>
  \<^verbatim>\<open>services/native/src/usb_right_database.cpp\<close>: the thin layer over the relational store
  that keeps the granted rights. The store \<^verbatim>\<open>NativeRdb::RdbStore\<close> is of another
  repository: it is the record \<open>rdb_store\<close> of the calls the layer makes, over an abstract world,
  and a result set is the record of what can be read from it. What the layer above relies on is
  stated once, as \<open>rdb_law\<close>: transactions restore the table, and the SQL conditions select the
  rows they describe (the conditions are evaluated from their text).
\<close>

subsection \<open>Values, rows and result sets\<close>

datatype sql_value = VInt int | VText string

type_synonym values_bucket = "(string \<times> sql_value) list"

datatype predicate = EqualTo string string | In string "string list" | Distinct

record result_set =
  rs_GetRowCount :: "int option"
  rs_GetColumnCount :: "int option"
  rs_GetAllColumnNames :: "string list option"
  rs_GoToRow :: "int \<Rightarrow> bool"
  rs_IsEnded :: "int \<Rightarrow> bool"
  rs_GetInt :: "int \<Rightarrow> int \<Rightarrow> int option"
  rs_GetLong :: "int \<Rightarrow> int \<Rightarrow> int option"
  rs_GetString :: "int \<Rightarrow> int \<Rightarrow> string option"

text \<open>The calls of the store: the first component is \<^verbatim>\<open>E_OK\<close> (zero) or an error.\<close>

record 'w rdb_store =
  rdb_BeginTransaction :: "'w \<Rightarrow> int \<times> 'w"
  rdb_Commit :: "'w \<Rightarrow> int \<times> 'w"
  rdb_RollBack :: "'w \<Rightarrow> int \<times> 'w"
  rdb_Insert :: "values_bucket \<Rightarrow> 'w \<Rightarrow> int \<times> int \<times> 'w"
  rdb_Update :: "values_bucket \<Rightarrow> string \<Rightarrow> string list \<Rightarrow> 'w \<Rightarrow> int \<times> int \<times> 'w"
  rdb_UpdatePredicates :: "values_bucket \<Rightarrow> predicate list \<Rightarrow> 'w \<Rightarrow> int \<times> int \<times> 'w"
  rdb_Delete :: "string \<Rightarrow> string list \<Rightarrow> 'w \<Rightarrow> int \<times> int \<times> 'w"
  rdb_DeletePredicates :: "predicate list \<Rightarrow> 'w \<Rightarrow> int \<times> int \<times> 'w"
  rdb_ExecuteSql :: "string \<Rightarrow> string list \<Rightarrow> 'w \<Rightarrow> int \<times> 'w"
  rdb_QuerySql :: "string \<Rightarrow> 'w \<Rightarrow> result_set option \<times> 'w"
  rdb_Query :: "predicate list \<Rightarrow> string list \<Rightarrow> 'w \<Rightarrow> result_set option \<times> 'w"

text \<open>\<open>store\<close> is \<open>None\<close> when \<^verbatim>\<open>store_\<close> is null.\<close>

type_synonym 'w database = "'w rdb_store option"

subsection \<open>Operations\<close>

definition code_of :: "int \<Rightarrow> int" where
  "code_of ret = (if ret \<noteq> 0 then USB_RIGHT_RDB_EXECUTE_FAILTURE else USB_RIGHT_OK)"

definition BeginTransaction :: "'w database \<Rightarrow> 'w \<Rightarrow> int \<times> 'w" where
  "BeginTransaction db w = (case db of None \<Rightarrow> (USB_RIGHT_RDB_NO_INIT, w)
     | Some st \<Rightarrow> (case rdb_BeginTransaction st w of (ret, w') \<Rightarrow> (code_of ret, w')))"

definition Commit :: "'w database \<Rightarrow> 'w \<Rightarrow> int \<times> 'w" where
  "Commit db w = (case db of None \<Rightarrow> (USB_RIGHT_RDB_NO_INIT, w)
     | Some st \<Rightarrow> (case rdb_Commit st w of (ret, w') \<Rightarrow> (code_of ret, w')))"

definition RollBack :: "'w database \<Rightarrow> 'w \<Rightarrow> int \<times> 'w" where
  "RollBack db w = (case db of None \<Rightarrow> (USB_RIGHT_RDB_NO_INIT, w)
     | Some st \<Rightarrow> (case rdb_RollBack st w of (ret, w') \<Rightarrow> (code_of ret, w')))"

definition Insert :: "'w database \<Rightarrow> values_bucket \<Rightarrow> 'w \<Rightarrow> int \<times> 'w" where
  "Insert db values w = (case db of None \<Rightarrow> (USB_RIGHT_RDB_NO_INIT, w)
     | Some st \<Rightarrow> (case rdb_Insert st values w of (ret, outRowId, w') \<Rightarrow>
         (if ret \<noteq> 0 then USB_RIGHT_RDB_EXECUTE_FAILTURE else outRowId, w')))"

definition UpdatePredicates :: "'w database \<Rightarrow> values_bucket \<Rightarrow> predicate list \<Rightarrow> 'w \<Rightarrow> int \<times> int \<times> 'w" where
  "UpdatePredicates db values predicates w = (case db of None \<Rightarrow> (USB_RIGHT_RDB_NO_INIT, 0, w)
     | Some st \<Rightarrow> (case rdb_UpdatePredicates st values predicates w of (ret, changedRows, w') \<Rightarrow>
         (code_of ret, changedRows, w')))"

definition Update :: "'w database \<Rightarrow> values_bucket \<Rightarrow> string \<Rightarrow> string list \<Rightarrow> 'w \<Rightarrow> int \<times> int \<times> 'w" where
  "Update db values whereClause whereArgs w = (case db of None \<Rightarrow> (USB_RIGHT_RDB_NO_INIT, 0, w)
     | Some st \<Rightarrow> (case rdb_Update st values whereClause whereArgs w of (ret, changedRows, w') \<Rightarrow>
         (code_of ret, changedRows, w')))"

definition DeletePredicates :: "'w database \<Rightarrow> predicate list \<Rightarrow> 'w \<Rightarrow> int \<times> 'w" where
  "DeletePredicates db predicates w = (case db of None \<Rightarrow> (USB_RIGHT_RDB_NO_INIT, w)
     | Some st \<Rightarrow> (case rdb_DeletePredicates st predicates w of (ret, deleteRow, w') \<Rightarrow>
         (code_of ret, w')))"

definition Delete :: "'w database \<Rightarrow> string \<Rightarrow> string list \<Rightarrow> 'w \<Rightarrow> int \<times> int \<times> 'w" where
  "Delete db whereClause whereArgs w = (case db of None \<Rightarrow> (USB_RIGHT_RDB_NO_INIT, 0, w)
     | Some st \<Rightarrow> (case rdb_Delete st whereClause whereArgs w of (ret, changedRows, w') \<Rightarrow>
         (code_of ret, changedRows, w')))"

definition ExecuteSql :: "'w database \<Rightarrow> string \<Rightarrow> string list \<Rightarrow> 'w \<Rightarrow> int \<times> 'w" where
  "ExecuteSql db sql bindArgs w = (case db of None \<Rightarrow> (USB_RIGHT_RDB_NO_INIT, w)
     | Some st \<Rightarrow> (case rdb_ExecuteSql st sql bindArgs w of (ret, w') \<Rightarrow> (code_of ret, w')))"

text \<open>The arguments of the selection are not passed on.\<close>

definition QuerySql :: "'w database \<Rightarrow> string \<Rightarrow> string list \<Rightarrow> 'w \<Rightarrow> result_set option \<times> 'w" where
  "QuerySql db sql selectionArgs w = (case db of None \<Rightarrow> (None, w) | Some st \<Rightarrow> rdb_QuerySql st sql w)"

definition Query :: "'w database \<Rightarrow> predicate list \<Rightarrow> string list \<Rightarrow> 'w \<Rightarrow> result_set option \<times> 'w" where
  "Query db predicates columns w = (case db of None \<Rightarrow> (None, w)
     | Some st \<Rightarrow> rdb_Query st predicates columns w)"

definition CREATE_USB_RIGHT_TABLE :: string where
  "CREATE_USB_RIGHT_TABLE = ''CREATE TABLE IF NOT EXISTS [usbRightInfoTable]('' @
     ''[id] INTEGER PRIMARY KEY AUTOINCREMENT, '' @ ''[uid] INTEGER, '' @
     ''[installTime] INTEGER, '' @ ''[updateTime] INTEGER, '' @ ''[requestTime] INTEGER, '' @
     ''[validPeriod] INTEGER, '' @ ''[deviceName] TEXT,'' @ ''[bundleName] TEXT,'' @
     ''[tokenId] TEXT);''"

definition SQL_ADD_TOKEN_ID :: string where
  "SQL_ADD_TOKEN_ID = ''ALTER TABLE usbRightInfoTable ADD COLUMN tokenId TEXT DEFAULT '' @
     [char_of (39 :: nat), char_of (39 :: nat)]"

definition OnCreate :: "'w rdb_store \<Rightarrow> 'w \<Rightarrow> int \<times> 'w" where
  "OnCreate st w = (case rdb_ExecuteSql st CREATE_USB_RIGHT_TABLE [] w of (ret, w') \<Rightarrow> (code_of ret, w'))"

definition OnUpgrade :: "'w rdb_store \<Rightarrow> int \<Rightarrow> int \<Rightarrow> 'w \<Rightarrow> int \<times> 'w" where
  "OnUpgrade st oldVersion newVersion w =
     (if newVersion \<le> oldVersion then (USB_RIGHT_OK, w)
      else (case rdb_ExecuteSql st SQL_ADD_TOKEN_ID [] w of (ret, w') \<Rightarrow> (USB_RIGHT_OK, w')))"

definition OnDowngrade :: "'w rdb_store \<Rightarrow> int \<Rightarrow> int \<Rightarrow> 'w \<Rightarrow> int \<times> 'w" where
  "OnDowngrade st oldVersion newVersion w = (USB_RIGHT_OK, w)"

lemmas database_defs = BeginTransaction_def Commit_def RollBack_def Insert_def Update_def
  Delete_def DeletePredicates_def Query_def code_of_def

subsection \<open>The documented behaviour of the store\<close>

text \<open>A row of the table; a missing \<^verbatim>\<open>tokenId\<close> is NULL.\<close>

record right_row =
  row_id :: int
  row_uid :: int
  row_installTime :: int
  row_updateTime :: int
  row_requestTime :: int
  row_validPeriod :: int
  row_deviceName :: string
  row_bundleName :: string
  row_tokenId :: "string option"

definition all_columns :: "string list" where
  "all_columns = [''id'', ''uid'', ''installTime'', ''updateTime'', ''requestTime'',
     ''validPeriod'', ''deviceName'', ''bundleName'', ''tokenId'']"

definition column :: "right_row \<Rightarrow> string \<Rightarrow> sql_value option" where
  "column r c =
     (if c = ''id'' then Some (VInt (row_id r))
      else if c = ''uid'' then Some (VInt (row_uid r))
      else if c = ''installTime'' then Some (VInt (row_installTime r))
      else if c = ''updateTime'' then Some (VInt (row_updateTime r))
      else if c = ''requestTime'' then Some (VInt (row_requestTime r))
      else if c = ''validPeriod'' then Some (VInt (row_validPeriod r))
      else if c = ''deviceName'' then Some (VText (row_deviceName r))
      else if c = ''bundleName'' then Some (VText (row_bundleName r))
      else if c = ''tokenId'' then map_option VText (row_tokenId r)
      else None)"

fun assign :: "values_bucket \<Rightarrow> right_row \<Rightarrow> right_row" where
  "assign [] r = r"
| "assign ((c, VInt i) # vs) r = assign vs
     (if c = ''uid'' then r\<lparr>row_uid := i\<rparr>
      else if c = ''installTime'' then r\<lparr>row_installTime := i\<rparr>
      else if c = ''updateTime'' then r\<lparr>row_updateTime := i\<rparr>
      else if c = ''requestTime'' then r\<lparr>row_requestTime := i\<rparr>
      else if c = ''validPeriod'' then r\<lparr>row_validPeriod := i\<rparr> else r)"
| "assign ((c, VText s) # vs) r = assign vs
     (if c = ''deviceName'' then r\<lparr>row_deviceName := s\<rparr>
      else if c = ''bundleName'' then r\<lparr>row_bundleName := s\<rparr>
      else if c = ''tokenId'' then r\<lparr>row_tokenId := Some s\<rparr> else r)"

definition empty_row :: "int \<Rightarrow> right_row" where
  "empty_row i = \<lparr>row_id = i, row_uid = 0, row_installTime = 0, row_updateTime = 0,
     row_requestTime = 0, row_validPeriod = 0, row_deviceName = [], row_bundleName = [],
     row_tokenId = None\<rparr>"

definition parse_int :: "string \<Rightarrow> int option" where
  "parse_int s = (case s of [] \<Rightarrow> None
     | c # d \<Rightarrow> if c = CHR ''-'' then (if d \<noteq> [] \<and> list_all is_digit d then Some (- int (dec_value d)) else None)
                else if list_all is_digit s then Some (int (dec_value s)) else None)"

text \<open>An argument bound as text is compared as a number with a column of type INTEGER.\<close>

definition sql_eq :: "right_row \<Rightarrow> string \<Rightarrow> string \<Rightarrow> bool" where
  "sql_eq r c a = (case column r c of Some (VInt i) \<Rightarrow> parse_int a = Some i
     | Some (VText s) \<Rightarrow> a = s | None \<Rightarrow> False)"

definition sql_less :: "right_row \<Rightarrow> string \<Rightarrow> string \<Rightarrow> bool" where
  "sql_less r c a = (case column r c of
       Some (VInt i) \<Rightarrow> (case parse_int a of Some j \<Rightarrow> i < j | None \<Rightarrow> False)
     | Some (VText s) \<Rightarrow> s < a | None \<Rightarrow> False)"

fun words_of :: "string \<Rightarrow> string \<Rightarrow> string list" where
  "words_of acc [] = (if acc = [] then [] else [acc])"
| "words_of acc (c # s) = (if c = CHR '' '' then acc # words_of [] s else words_of (acc @ [c]) s)"

text \<open>
  A condition of terms joined by \<^verbatim>\<open>AND\<close>: equality, less-than, and exclusion of two values,
  with the placeholders filled by the arguments in order.
\<close>

function where_holds :: "string list \<Rightarrow> string list \<Rightarrow> right_row \<Rightarrow> bool" where
  "where_holds ws args r =
     (case ws of [] \<Rightarrow> args = []
      | c # rest \<Rightarrow>
        if c = ''AND'' then where_holds rest args r
        else if take 2 rest = [''='', ''?''] then
          (case args of [] \<Rightarrow> False | a # args' \<Rightarrow> sql_eq r c a \<and> where_holds (drop 2 rest) args' r)
        else if take 2 rest = [''<'', ''?''] then
          (case args of [] \<Rightarrow> False | a # args' \<Rightarrow> sql_less r c a \<and> where_holds (drop 2 rest) args' r)
        else if take 4 rest = [''NOT'', ''IN'', ''(?,'', ''?)''] then
          (case args of a # b # args' \<Rightarrow> column r c \<noteq> None \<and> \<not> sql_eq r c a \<and> \<not> sql_eq r c b \<and>
             where_holds (drop 4 rest) args' r | _ \<Rightarrow> False)
        else False)"
  by pat_completeness auto
termination
  by (relation "measure (\<lambda>(ws, args, r). length ws)") auto

declare where_holds.simps [simp del]

definition clause_holds :: "string \<Rightarrow> string list \<Rightarrow> right_row \<Rightarrow> bool" where
  "clause_holds clause args r = where_holds (words_of [] clause) args r"

fun predicate_holds :: "right_row \<Rightarrow> predicate \<Rightarrow> bool" where
  "predicate_holds r (EqualTo c a) = sql_eq r c a"
| "predicate_holds r (In c as) = list_ex (sql_eq r c) as"
| "predicate_holds r Distinct = True"

definition tuple :: "string list \<Rightarrow> right_row \<Rightarrow> sql_value option list" where
  "tuple columns r = map (column r) (if columns = [] then all_columns else columns)"

definition selection :: "predicate list \<Rightarrow> string list \<Rightarrow> right_row list \<Rightarrow> sql_value option list list" where
  "selection preds columns rows =
     (let ts = map (tuple columns) (filter (\<lambda>r. list_all (predicate_holds r) preds) rows)
      in if list_ex (\<lambda>p. p = Distinct) preds then remdups ts else ts)"

definition int32_of :: "int \<Rightarrow> int" where
  "int32_of n = sint (word_of_int n :: 32 word)"

definition represents :: "result_set \<Rightarrow> string list \<Rightarrow> sql_value option list list \<Rightarrow> bool" where
  "represents rs columns ts \<longleftrightarrow>
     rs_GetRowCount rs = Some (int (length ts)) \<and>
     rs_GetColumnCount rs = Some (int (length columns)) \<and>
     rs_GetAllColumnNames rs = Some columns \<and>
     (\<forall>i < length ts. rs_GoToRow rs (int i) \<and> \<not> rs_IsEnded rs (int i)) \<and>
     (\<forall>i < length ts. \<forall>j < length columns.
        rs_GetInt rs (int i) (int j) = (case ts ! i ! j of Some (VInt n) \<Rightarrow> Some (int32_of n) | _ \<Rightarrow> None) \<and>
        rs_GetLong rs (int i) (int j) = (case ts ! i ! j of Some (VInt n) \<Rightarrow> Some n | _ \<Rightarrow> None) \<and>
        rs_GetString rs (int i) (int j) =
          (case ts ! i ! j of Some (VText s) \<Rightarrow> Some s | Some (VInt n) \<Rightarrow> Some (to_string n) | None \<Rightarrow> None))"

text \<open>
  \<open>table w\<close> is the table as the connection sees it, \<open>saved w\<close> the table at the start of the open
  transaction. A call that returns an error has changed nothing; a rollback inside a transaction
  restores the table.
\<close>

record 'w rdb_view =
  table :: "'w \<Rightarrow> right_row list"
  saved :: "'w \<Rightarrow> right_row list option"

definition unchanged :: "'w rdb_view \<Rightarrow> 'w \<Rightarrow> 'w \<Rightarrow> bool" where
  "unchanged v w w' \<longleftrightarrow> table v w' = table v w \<and> saved v w' = saved v w"

definition rdb_query_law :: "'w rdb_store \<Rightarrow> 'w rdb_view \<Rightarrow> bool" where
  "rdb_query_law st v \<longleftrightarrow>
     (\<forall>w preds columns rs w'. rdb_Query st preds columns w = (rs, w') \<longrightarrow>
        unchanged v w w' \<and>
        (\<forall>s. rs = Some s \<longrightarrow>
           represents s (if columns = [] then all_columns else columns) (selection preds columns (table v w))))"

definition rdb_law :: "'w rdb_store \<Rightarrow> 'w rdb_view \<Rightarrow> bool" where
  "rdb_law st v \<longleftrightarrow>
     (\<forall>w ret w'. rdb_BeginTransaction st w = (ret, w') \<longrightarrow>
        (if ret = 0 then table v w' = table v w \<and> saved v w' = Some (table v w) else unchanged v w w')) \<and>
     (\<forall>w ret w'. rdb_Commit st w = (ret, w') \<longrightarrow>
        (if ret = 0 then table v w' = table v w \<and> saved v w' = None else unchanged v w w')) \<and>
     (\<forall>w ret w' t. rdb_RollBack st w = (ret, w') \<longrightarrow> saved v w = Some t \<longrightarrow>
        table v w' = t \<and> saved v w' = None) \<and>
     (\<forall>w values ret i w'. rdb_Insert st values w = (ret, i, w') \<longrightarrow>
        (if ret = 0 then 0 < i \<and> table v w' = table v w @ [assign values (empty_row i)] \<and> saved v w' = saved v w
         else unchanged v w w')) \<and>
     (\<forall>w values clause args ret n w'. rdb_Update st values clause args w = (ret, n, w') \<longrightarrow>
        (if ret = 0 then n = int (length (filter (clause_holds clause args) (table v w))) \<and>
           table v w' = map (\<lambda>r. if clause_holds clause args r then assign values r else r) (table v w) \<and>
           saved v w' = saved v w
         else unchanged v w w')) \<and>
     (\<forall>w clause args ret n w'. rdb_Delete st clause args w = (ret, n, w') \<longrightarrow>
        (if ret = 0 then n = int (length (filter (clause_holds clause args) (table v w))) \<and>
           table v w' = filter (\<lambda>r. \<not> clause_holds clause args r) (table v w) \<and> saved v w' = saved v w
         else unchanged v w w')) \<and>
     (\<forall>w preds ret n w'. rdb_DeletePredicates st preds w = (ret, n, w') \<longrightarrow>
        (if ret = 0 then table v w' = filter (\<lambda>r. \<not> list_all (predicate_holds r) preds) (table v w) \<and>
           saved v w' = saved v w
         else unchanged v w w')) \<and>
     rdb_query_law st v"

end
