(* ===== verification/Right_DbHelper.thy ===== *)
theory Right_DbHelper
  imports Right_Database
begin

section \<open>Right records\<close>

text \<open>
  \<^verbatim>\<open>services/native/src/usb_right_db_helper.cpp\<close>: the records of granted rights, one per
  user, device, application and access token, with the transactions around every query and
  change, and the decision whether a record has expired. Times are \<^verbatim>\<open>uint64_t\<close> in the
  code and signed 64-bit integers in the table, so they are 64-bit words here and converted where
  the code converts them. The interface \<open>record_change\<close> is the contract of the operations that
  change the table: all or nothing.
\<close>

subsection \<open>State\<close>

record UsbRightAppInfo =
  info_primaryKeyId :: u32
  info_uid :: int
  info_installTime :: u64
  info_updateTime :: u64
  info_requestTime :: u64
  info_validPeriod :: u64

record UsbRightTableInfo =
  rowCount :: int
  columnCount :: int
  primaryKeyIndex :: int
  uidIndex :: int
  installTimeIndex :: int
  updateTimeIndex :: int
  requestTimeIndex :: int
  validPeriodIndex :: int
  deviceNameIndex :: int
  bundleNameIndex :: int

text \<open>
  \<open>rightDatabase\<close> is \<open>None\<close> when the pointer is null; \<open>fresh_table\<close> is what the uninitialised
  local \<^verbatim>\<open>UsbRightTableInfo\<close> happens to hold.
\<close>

record 'w right_helper =
  rightDatabase :: "'w database option"
  fresh_table :: UsbRightTableInfo

definition USB_RIGHT_VALID_PERIOD_MIN :: int where "USB_RIGHT_VALID_PERIOD_MIN = 0"
definition USB_RIGHT_VALID_PERIOD_MAX :: int where "USB_RIGHT_VALID_PERIOD_MAX = 0xFFFFFFFF"
definition USB_RIGHT_VALID_PERIOD_SET :: u64 where "USB_RIGHT_VALID_PERIOD_SET = 0x0FFFFFFF"

lemmas valid_periods = USB_RIGHT_VALID_PERIOD_MIN_def USB_RIGHT_VALID_PERIOD_MAX_def
  USB_RIGHT_VALID_PERIOD_SET_def

subsection \<open>Expiry of a record\<close>

definition IsRecordExpired :: "UsbRightAppInfo \<Rightarrow> u64 \<Rightarrow> bool" where
  "IsRecordExpired info expiredTime =
     (if expiredTime < info_requestTime info then True
      else if info_validPeriod info = word_of_int USB_RIGHT_VALID_PERIOD_MIN then False
      else if info_validPeriod info = word_of_int USB_RIGHT_VALID_PERIOD_MAX then False
      else if expiredTime - info_requestTime info < info_validPeriod info then False
      else if info_updateTime info < info_installTime info \<or> info_requestTime info < info_installTime info
      then True
      else True)"

subsection \<open>Reading result sets\<close>

fun table_indices :: "string list \<Rightarrow> int \<Rightarrow> UsbRightTableInfo \<Rightarrow> UsbRightTableInfo" where
  "table_indices [] i t = t"
| "table_indices (c # cs) i t = table_indices cs (i + 1)
     (if c = ''id'' then t\<lparr>primaryKeyIndex := i\<rparr>
      else if c = ''uid'' then t\<lparr>uidIndex := i\<rparr>
      else if c = ''installTime'' then t\<lparr>installTimeIndex := i\<rparr>
      else if c = ''updateTime'' then t\<lparr>updateTimeIndex := i\<rparr>
      else if c = ''requestTime'' then t\<lparr>requestTimeIndex := i\<rparr>
      else if c = ''validPeriod'' then t\<lparr>validPeriodIndex := i\<rparr>
      else if c = ''bundleName'' then t\<lparr>bundleNameIndex := i\<rparr>
      else if c = ''deviceName'' then t\<lparr>deviceNameIndex := i\<rparr> else t)"

definition GetResultSetTableInfo ::
  "result_set option \<Rightarrow> UsbRightTableInfo \<Rightarrow> int \<times> UsbRightTableInfo" where
  "GetResultSetTableInfo resultSet t =
     (case resultSet of None \<Rightarrow> (USB_RIGHT_RDB_EXECUTE_FAILTURE, t)
      | Some rs \<Rightarrow>
        (case (rs_GetRowCount rs, rs_GetColumnCount rs, rs_GetAllColumnNames rs) of
           (Some rows, Some columns, Some names) \<Rightarrow>
             (USB_RIGHT_OK, (table_indices names 0 t)\<lparr>rowCount := rows, columnCount := columns\<rparr>)
         | _ \<Rightarrow> (USB_RIGHT_RDB_EXECUTE_FAILTURE, t)))"

definition read_info :: "result_set \<Rightarrow> UsbRightTableInfo \<Rightarrow> int \<Rightarrow> UsbRightAppInfo option" where
  "read_info rs t i =
     (case rs_GetInt rs i (primaryKeyIndex t) of None \<Rightarrow> None | Some key \<Rightarrow>
      (case rs_GetInt rs i (uidIndex t) of None \<Rightarrow> None | Some uid \<Rightarrow>
      (case rs_GetLong rs i (installTimeIndex t) of None \<Rightarrow> None | Some inst \<Rightarrow>
      (case rs_GetLong rs i (updateTimeIndex t) of None \<Rightarrow> None | Some updt \<Rightarrow>
      (case rs_GetLong rs i (requestTimeIndex t) of None \<Rightarrow> None | Some rqst \<Rightarrow>
      (case rs_GetLong rs i (validPeriodIndex t) of None \<Rightarrow> None | Some vald \<Rightarrow>
         Some \<lparr>info_primaryKeyId = word_of_int key, info_uid = uid,
           info_installTime = word_of_int inst, info_updateTime = word_of_int updt,
           info_requestTime = word_of_int rqst, info_validPeriod = word_of_int vald\<rparr>))))))"

text \<open>The loop over the rows; \<open>n\<close> is the number of rows left.\<close>

fun read_rows :: "result_set \<Rightarrow> UsbRightTableInfo \<Rightarrow> int \<Rightarrow> nat \<Rightarrow> bool \<Rightarrow> UsbRightAppInfo list \<Rightarrow>
    UsbRightAppInfo list" where
  "read_rows rs t i 0 endFlag infos = infos"
| "read_rows rs t i (Suc n) endFlag infos =
     (if endFlag \<or> \<not> rs_GoToRow rs i then infos
      else read_rows rs t (i + 1) n (rs_IsEnded rs i)
             (case read_info rs t i of Some info \<Rightarrow> infos @ [info] | None \<Rightarrow> infos))"

definition GetResultRightRecordEx ::
  "result_set option \<Rightarrow> UsbRightTableInfo \<Rightarrow> int \<times> UsbRightAppInfo list" where
  "GetResultRightRecordEx resultSet fresh =
     (case GetResultSetTableInfo resultSet fresh of (ret, t) \<Rightarrow>
        if ret < USB_RIGHT_OK then (ret, [])
        else (case resultSet of None \<Rightarrow> (ret, [])
          | Some rs \<Rightarrow> let infos = read_rows rs t 0 (nat (rowCount t)) False []
                     in (int (length infos), infos)))"

subsection \<open>Queries\<close>

text \<open>The transaction around every query: \<open>Inl\<close> is the error it returns.\<close>

definition query_in_transaction :: "'w database \<Rightarrow> predicate list \<Rightarrow> string list \<Rightarrow> 'w \<Rightarrow>
    (int + result_set) \<times> 'w" where
  "query_in_transaction db preds columns w =
     (case BeginTransaction db w of (ret, w1) \<Rightarrow>
        if ret < USB_RIGHT_OK then (Inl ret, w1)
        else (case Query db preds columns w1 of (resultSet, w2) \<Rightarrow>
          (case resultSet of None \<Rightarrow> (Inl USB_RIGHT_RDB_EXECUTE_FAILTURE, snd (RollBack db w2))
           | Some rs \<Rightarrow> (case Commit db w2 of (ret, w3) \<Rightarrow>
               if ret < USB_RIGHT_OK then (Inl ret, snd (RollBack db w3)) else (Inr rs, w3)))))"

definition QueryAndGetResult :: "'w right_helper \<Rightarrow> predicate list \<Rightarrow> string list \<Rightarrow> 'w \<Rightarrow>
    int \<times> UsbRightAppInfo list \<times> 'w" where
  "QueryAndGetResult h preds columns w =
     (case rightDatabase h of None \<Rightarrow> (USB_RIGHT_RDB_EXECUTE_FAILTURE, [], w)
      | Some db \<Rightarrow> (case query_in_transaction db preds columns w of
           (Inl e, w') \<Rightarrow> (e, [], w')
         | (Inr rs, w') \<Rightarrow> (case GetResultRightRecordEx (Some rs) (fresh_table h) of
             (n, infos) \<Rightarrow> (n, infos, w'))))"

definition record_key :: "int \<Rightarrow> string \<Rightarrow> string \<Rightarrow> string \<Rightarrow> predicate list" where
  "record_key uid deviceName bundleName tokenId =
     [EqualTo ''uid'' (to_string uid), EqualTo ''deviceName'' deviceName,
      EqualTo ''bundleName'' bundleName, EqualTo ''tokenId'' tokenId]"

definition QueryRightRecord :: "'w right_helper \<Rightarrow> int \<Rightarrow> string \<Rightarrow> string \<Rightarrow> string \<Rightarrow> 'w \<Rightarrow>
    int \<times> UsbRightAppInfo list \<times> 'w" where
  "QueryRightRecord h uid deviceName bundleName tokenId w =
     QueryAndGetResult h (record_key uid deviceName bundleName tokenId) [] w"

definition QueryUserRightRecord :: "'w right_helper \<Rightarrow> int \<Rightarrow> 'w \<Rightarrow> int \<times> UsbRightAppInfo list \<times> 'w" where
  "QueryUserRightRecord h uid w = QueryAndGetResult h [EqualTo ''uid'' (to_string uid)] [] w"

definition QueryDeviceRightRecord :: "'w right_helper \<Rightarrow> int \<Rightarrow> string \<Rightarrow> 'w \<Rightarrow>
    int \<times> UsbRightAppInfo list \<times> 'w" where
  "QueryDeviceRightRecord h uid deviceName w = QueryAndGetResult h
     [EqualTo ''uid'' (to_string uid), EqualTo ''deviceName'' deviceName] [] w"

definition QueryAppRightRecord :: "'w right_helper \<Rightarrow> int \<Rightarrow> string \<Rightarrow> 'w \<Rightarrow>
    int \<times> UsbRightAppInfo list \<times> 'w" where
  "QueryAppRightRecord h uid bundleName w = QueryAndGetResult h
     [EqualTo ''uid'' (to_string uid), EqualTo ''bundleName'' bundleName] [] w"

text \<open>The loop over one column; a row that cannot be reached ends it with an error.\<close>

fun read_column :: "result_set \<Rightarrow> int \<Rightarrow> int \<Rightarrow> nat \<Rightarrow> bool \<Rightarrow> string list \<Rightarrow> string list option" where
  "read_column rs j i 0 endFlag values = Some values"
| "read_column rs j i (Suc n) endFlag values =
     (if endFlag then Some values
      else if \<not> rs_GoToRow rs i then None
      else read_column rs j (i + 1) n (rs_IsEnded rs i)
             (case rs_GetString rs i j of Some s \<Rightarrow> values @ [s] | None \<Rightarrow> values))"

fun column_index :: "string \<Rightarrow> string list \<Rightarrow> int \<Rightarrow> int option" where
  "column_index c [] i = None"
| "column_index c (d # ds) i = (if c = d then Some i else column_index c ds (i + 1))"

definition GetColumnIndex :: "result_set \<Rightarrow> string \<Rightarrow> int option" where
  "GetColumnIndex rs c = (case rs_GetAllColumnNames rs of None \<Rightarrow> None | Some names \<Rightarrow> column_index c names 0)"

definition QueryAndGetResultColumnValues :: "'w right_helper \<Rightarrow> predicate list \<Rightarrow> string list \<Rightarrow>
    string \<Rightarrow> 'w \<Rightarrow> int \<times> string list \<times> 'w" where
  "QueryAndGetResultColumnValues h preds columns columnName w =
     (case rightDatabase h of None \<Rightarrow> (USB_RIGHT_RDB_EXECUTE_FAILTURE, [], w)
      | Some db \<Rightarrow> (case query_in_transaction db preds columns w of
           (Inl e, w') \<Rightarrow> (e, [], w')
         | (Inr rs, w') \<Rightarrow>
             (case (rs_GetRowCount rs, GetColumnIndex rs columnName) of
                (Some rows, Some j) \<Rightarrow>
                  (case read_column rs j 0 (nat rows) False [] of
                     Some values \<Rightarrow> (int (length values), values, w')
                   | None \<Rightarrow> (USB_RIGHT_RDB_EXECUTE_FAILTURE, [], w'))
              | _ \<Rightarrow> (USB_RIGHT_RDB_EXECUTE_FAILTURE, [], w'))))"

definition QueryRightRecordUids :: "'w right_helper \<Rightarrow> 'w \<Rightarrow> int \<times> string list \<times> 'w" where
  "QueryRightRecordUids h w = QueryAndGetResultColumnValues h [Distinct] [''uid''] ''uid'' w"

definition QueryRightRecordApps :: "'w right_helper \<Rightarrow> int \<Rightarrow> 'w \<Rightarrow> int \<times> string list \<times> 'w" where
  "QueryRightRecordApps h uid w = QueryAndGetResultColumnValues h
     [EqualTo ''uid'' (to_string uid), Distinct] [''bundleName''] ''bundleName'' w"

definition QueryRightRecordCount :: "'w right_helper \<Rightarrow> 'w \<Rightarrow> int \<times> 'w" where
  "QueryRightRecordCount h w =
     (case rightDatabase h of None \<Rightarrow> (USB_RIGHT_RDB_EXECUTE_FAILTURE, w)
      | Some db \<Rightarrow> (case query_in_transaction db [] [] w of
           (Inl e, w') \<Rightarrow> (e, w')
         | (Inr rs, w') \<Rightarrow> (case rs_GetRowCount rs of None \<Rightarrow> (USB_RIGHT_RDB_EXECUTE_FAILTURE, w')
             | Some n \<Rightarrow> (n, w'))))"

definition IsRecordExpiredQuery :: "'w right_helper \<Rightarrow> int \<Rightarrow> string \<Rightarrow> string \<Rightarrow> string \<Rightarrow> u64 \<Rightarrow> 'w \<Rightarrow>
    bool \<times> 'w" where
  "IsRecordExpiredQuery h uid deviceName bundleName tokenId expiredTime w =
     (case QueryRightRecord h uid deviceName bundleName tokenId w of (ret, infos, w') \<Rightarrow>
        if ret \<le> 0 then (True, w')
        else (list_all (\<lambda>info. IsRecordExpired info expiredTime) infos, w'))"

subsection \<open>Changes\<close>

definition right_values :: "UsbRightAppInfo \<Rightarrow> string \<Rightarrow> string \<Rightarrow> values_bucket" where
  "right_values info deviceName bundleName =
     [(''uid'', VInt (info_uid info)),
      (''installTime'', VInt (sint (info_installTime info))),
      (''updateTime'', VInt (sint (info_updateTime info))),
      (''requestTime'', VInt (sint (info_requestTime info))),
      (''validPeriod'', VInt (sint (info_validPeriod info))),
      (''deviceName'', VText deviceName), (''bundleName'', VText bundleName)]"

definition AddRightRecord :: "'w right_helper \<Rightarrow> string \<Rightarrow> string \<Rightarrow> UsbRightAppInfo \<Rightarrow> 'w \<Rightarrow> int \<times> 'w" where
  "AddRightRecord h deviceName bundleName info w =
     (case rightDatabase h of None \<Rightarrow> (USB_RIGHT_RDB_EXECUTE_FAILTURE, w)
      | Some db \<Rightarrow>
        (case BeginTransaction db w of (ret, w1) \<Rightarrow>
          if ret < USB_RIGHT_OK then (ret, w1)
          else (case Insert db (right_values info deviceName bundleName) w1 of (rowId, w2) \<Rightarrow>
            let ret = int32_of rowId in
            if ret < USB_RIGHT_OK then (ret, snd (RollBack db w2))
            else (case Commit db w2 of (ret, w3) \<Rightarrow>
              if ret < USB_RIGHT_OK then (ret, snd (RollBack db w3)) else (ret, w3)))))"

definition UpdateRightRecord :: "'w right_helper \<Rightarrow> int \<Rightarrow> string \<Rightarrow> string \<Rightarrow> UsbRightAppInfo \<Rightarrow> 'w \<Rightarrow>
    int \<times> 'w" where
  "UpdateRightRecord h uid deviceName bundleName info w =
     (case rightDatabase h of None \<Rightarrow> (USB_RIGHT_RDB_EXECUTE_FAILTURE, w)
      | Some db \<Rightarrow>
        (case BeginTransaction db w of (ret, w1) \<Rightarrow>
          if ret < USB_RIGHT_OK then (ret, w1)
          else (case Update db (right_values info deviceName bundleName)
                  ''uid = ? AND deviceName = ? AND bundleName = ?''
                  [to_string (info_uid info), deviceName, bundleName] w1 of (ret, changedRows, w2) \<Rightarrow>
            if ret < USB_RIGHT_OK then (ret, snd (RollBack db w2))
            else (case Commit db w2 of (ret, w3) \<Rightarrow>
              if ret < USB_RIGHT_OK then (ret, snd (RollBack db w3)) else (ret, w3)))))"

definition DeleteAndNoOtherOperation :: "'w right_helper \<Rightarrow> string \<Rightarrow> string list \<Rightarrow> 'w \<Rightarrow> int \<times> 'w" where
  "DeleteAndNoOtherOperation h whereClause whereArgs w =
     (case rightDatabase h of None \<Rightarrow> (USB_RIGHT_RDB_EXECUTE_FAILTURE, w)
      | Some db \<Rightarrow>
        (case BeginTransaction db w of (ret, w1) \<Rightarrow>
          if ret < USB_RIGHT_OK then (ret, w1)
          else (case Delete db whereClause whereArgs w1 of (ret, changedRows, w2) \<Rightarrow>
            if ret < USB_RIGHT_OK then (ret, snd (RollBack db w2))
            else (case Commit db w2 of (ret, w3) \<Rightarrow>
              let w4 = (if ret < USB_RIGHT_OK then snd (RollBack db w3) else w3) in
              if changedRows \<le> 0 then (USB_RIGHT_RDB_EMPTY, w4) else (ret, w4)))))"

definition DeleteAndNoOtherOperationPredicates :: "'w right_helper \<Rightarrow> predicate list \<Rightarrow> 'w \<Rightarrow> int \<times> 'w" where
  "DeleteAndNoOtherOperationPredicates h preds w =
     (case rightDatabase h of None \<Rightarrow> (USB_RIGHT_RDB_EXECUTE_FAILTURE, w)
      | Some db \<Rightarrow>
        (case BeginTransaction db w of (ret, w1) \<Rightarrow>
          if ret < USB_RIGHT_OK then (ret, w1)
          else (case DeletePredicates db preds w1 of (ret, w2) \<Rightarrow>
            if ret < USB_RIGHT_OK then (ret, snd (RollBack db w2))
            else (case Commit db w2 of (ret, w3) \<Rightarrow>
              if ret < USB_RIGHT_OK then (ret, snd (RollBack db w3)) else (ret, w3)))))"

definition DeleteRightRecord :: "'w right_helper \<Rightarrow> int \<Rightarrow> string \<Rightarrow> string \<Rightarrow> string \<Rightarrow> 'w \<Rightarrow> int \<times> 'w" where
  "DeleteRightRecord h uid deviceName bundleName tokenId w = DeleteAndNoOtherOperation h
     ''uid = ? AND deviceName = ? AND bundleName = ? AND tokenId = ?''
     [to_string uid, deviceName, bundleName, tokenId] w"

definition DeleteDeviceRightRecord :: "'w right_helper \<Rightarrow> int \<Rightarrow> string \<Rightarrow> 'w \<Rightarrow> int \<times> 'w" where
  "DeleteDeviceRightRecord h uid deviceName w = DeleteAndNoOtherOperation h
     ''uid = ? AND deviceName = ?'' [to_string uid, deviceName] w"

definition DeleteAppRightRecord :: "'w right_helper \<Rightarrow> int \<Rightarrow> string \<Rightarrow> 'w \<Rightarrow> int \<times> 'w" where
  "DeleteAppRightRecord h uid bundleName w = DeleteAndNoOtherOperation h
     ''uid = ? AND bundleName = ?'' [to_string uid, bundleName] w"

definition DeleteAppsRightRecord :: "'w right_helper \<Rightarrow> int \<Rightarrow> string list \<Rightarrow> 'w \<Rightarrow> int \<times> 'w" where
  "DeleteAppsRightRecord h uid bundleNames w = DeleteAndNoOtherOperationPredicates h
     [EqualTo ''uid'' (to_string uid), In ''bundleName'' bundleNames] w"

definition DeleteUidRightRecord :: "'w right_helper \<Rightarrow> int \<Rightarrow> 'w \<Rightarrow> int \<times> 'w" where
  "DeleteUidRightRecord h uid w = DeleteAndNoOtherOperation h ''uid = ?'' [to_string uid] w"

definition relative_expired :: "u64 \<Rightarrow> u64" where
  "relative_expired expiredTime =
     (if expiredTime \<le> USB_RIGHT_VALID_PERIOD_SET then 0 else expiredTime - USB_RIGHT_VALID_PERIOD_SET)"

definition DeleteNormalExpiredRightRecord :: "'w right_helper \<Rightarrow> int \<Rightarrow> u64 \<Rightarrow> 'w \<Rightarrow> int \<times> 'w" where
  "DeleteNormalExpiredRightRecord h uid expiredTime w = DeleteAndNoOtherOperation h
     ''uid = ? AND requestTime < ? AND validPeriod NOT IN (?, ?)''
     [to_string uid, to_string (uint (relative_expired expiredTime)),
      to_string USB_RIGHT_VALID_PERIOD_MIN, to_string USB_RIGHT_VALID_PERIOD_MAX] w"

definition DeleteValidPeriodRightRecord :: "'w right_helper \<Rightarrow> int \<Rightarrow> string \<Rightarrow> 'w \<Rightarrow> int \<times> 'w" where
  "DeleteValidPeriodRightRecord h validPeriod deviceName w = DeleteAndNoOtherOperation h
     ''validPeriod = ? AND deviceName = ?'' [to_string validPeriod, deviceName] w"

definition CheckIfNeedUpdateEx :: "'w database \<Rightarrow> int \<Rightarrow> string \<Rightarrow> string \<Rightarrow> string \<Rightarrow> 'w \<Rightarrow>
    int \<times> bool \<times> 'w" where
  "CheckIfNeedUpdateEx db uid deviceName bundleName tokenId w =
     (case Query db (record_key uid deviceName bundleName tokenId) [] w of (resultSet, w1) \<Rightarrow>
        (case resultSet of None \<Rightarrow> (USB_RIGHT_RDB_EXECUTE_FAILTURE, False, snd (RollBack db w1))
         | Some rs \<Rightarrow> (case rs_GetRowCount rs of
             None \<Rightarrow> (USB_RIGHT_RDB_EXECUTE_FAILTURE, False, snd (RollBack db w1))
           | Some n \<Rightarrow> (USB_RIGHT_OK, 0 < n, w1))))"

definition AddOrUpdateRightRecordEx :: "'w database \<Rightarrow> bool \<Rightarrow> string \<Rightarrow> string \<Rightarrow> string \<Rightarrow>
    UsbRightAppInfo \<Rightarrow> 'w \<Rightarrow> int \<times> 'w" where
  "AddOrUpdateRightRecordEx db isUpdate deviceName bundleName tokenId info w =
     (let values = right_values info deviceName bundleName @ [(''tokenId'', VText tokenId)];
          (ret, w1) = (if isUpdate then
              (case Update db values ''uid = ? AND deviceName = ? AND bundleName = ? AND tokenId = ?''
                 [to_string (info_uid info), deviceName, bundleName, tokenId] w of
                 (ret, changedRows, w1) \<Rightarrow> (ret, w1))
            else (case Insert db values w of (rowId, w1) \<Rightarrow> (int32_of rowId, w1)))
      in if ret < USB_RIGHT_OK then (ret, snd (RollBack db w1)) else (ret, w1))"

definition AddOrUpdateRightRecord :: "'w right_helper \<Rightarrow> int \<Rightarrow> string \<Rightarrow> string \<Rightarrow> string \<Rightarrow>
    UsbRightAppInfo \<Rightarrow> 'w \<Rightarrow> int \<times> 'w" where
  "AddOrUpdateRightRecord h uid deviceName bundleName tokenId info w =
     (case rightDatabase h of None \<Rightarrow> (USB_RIGHT_RDB_EXECUTE_FAILTURE, w)
      | Some db \<Rightarrow>
        (case BeginTransaction db w of (ret, w1) \<Rightarrow>
          if ret < USB_RIGHT_OK then (ret, w1)
          else (case CheckIfNeedUpdateEx db uid deviceName bundleName tokenId w1 of (ret, isUpdate, w2) \<Rightarrow>
            if ret < USB_RIGHT_OK then (ret, w2)
            else (case AddOrUpdateRightRecordEx db isUpdate deviceName bundleName tokenId info w2 of
              (ret, w3) \<Rightarrow>
                if ret < USB_RIGHT_OK then (ret, w3)
                else (case Commit db w3 of (ret, w4) \<Rightarrow>
                  if ret < USB_RIGHT_OK then (ret, snd (RollBack db w4)) else (ret, w4))))))"

subsection \<open>What the conditions select\<close>

lemma parse_int_to_string [simp]: "parse_int (to_string i) = Some i"
proof (cases "i < 0")
  case True
  then show ?thesis
    by (simp add: parse_int_def to_string_def list_all_iff nat_to_string_digits)
next
  case False
  obtain c d where n: "nat_to_string (nat i) = c # d" by (cases "nat_to_string (nat i)") auto
  then have "c \<noteq> CHR ''-''" using dash_not_in_nat_to_string [of "nat i"] by auto
  moreover have "list_all is_digit (c # d)" using nat_to_string_digits [of _ "nat i"] n by (auto simp: list_all_iff)
  moreover have "dec_value (c # d) = nat i" using dec_value_nat_to_string [of "nat i"] n by simp
  ultimately show ?thesis using False n by (simp add: parse_int_def to_string_def)
qed

lemma sql_eq_columns [simp]:
  "sql_eq r ''uid'' (to_string i) \<longleftrightarrow> row_uid r = i"
  "sql_eq r ''validPeriod'' (to_string i) \<longleftrightarrow> row_validPeriod r = i"
  "sql_eq r ''deviceName'' s \<longleftrightarrow> row_deviceName r = s"
  "sql_eq r ''bundleName'' s \<longleftrightarrow> row_bundleName r = s"
  "sql_eq r ''tokenId'' s \<longleftrightarrow> row_tokenId r = Some s"
  by (auto simp: sql_eq_def column_def split: option.splits)

lemma sql_less_requestTime [simp]: "sql_less r ''requestTime'' (to_string i) \<longleftrightarrow> row_requestTime r < i"
  by (simp add: sql_less_def column_def)

lemma column_validPeriod [simp]: "column r ''validPeriod'' \<noteq> None"
  by (simp add: column_def)

lemma clause_record:
  "clause_holds ''uid = ? AND deviceName = ? AND bundleName = ? AND tokenId = ?''
     [to_string uid, dev, app, tok] r \<longleftrightarrow>
   row_uid r = uid \<and> row_deviceName r = dev \<and> row_bundleName r = app \<and> row_tokenId r = Some tok"
  by (simp add: clause_holds_def where_holds.simps)

lemma clause_uid: "clause_holds ''uid = ?'' [to_string uid] r \<longleftrightarrow> row_uid r = uid"
  by (simp add: clause_holds_def where_holds.simps)

lemma clause_app:
  "clause_holds ''uid = ? AND bundleName = ?'' [to_string uid, app] r \<longleftrightarrow>
   row_uid r = uid \<and> row_bundleName r = app"
  by (simp add: clause_holds_def where_holds.simps)

lemma clause_period:
  "clause_holds ''validPeriod = ? AND deviceName = ?'' [to_string p, dev] r \<longleftrightarrow>
   row_validPeriod r = p \<and> row_deviceName r = dev"
  by (simp add: clause_holds_def where_holds.simps)

lemma clause_expired:
  "clause_holds ''uid = ? AND requestTime < ? AND validPeriod NOT IN (?, ?)''
     [to_string uid, to_string t, to_string a, to_string b] r \<longleftrightarrow>
   row_uid r = uid \<and> row_requestTime r < t \<and> row_validPeriod r \<noteq> a \<and> row_validPeriod r \<noteq> b"
  by (simp add: clause_holds_def where_holds.simps)

lemma record_key_holds:
  "list_all (predicate_holds r) (record_key uid dev app tok) \<longleftrightarrow>
   row_uid r = uid \<and> row_deviceName r = dev \<and> row_bundleName r = app \<and> row_tokenId r = Some tok"
  by (simp add: record_key_def)

subsection \<open>The store's steps\<close>

lemma law_begin:
  "rdb_law st v \<Longrightarrow> rdb_BeginTransaction st w = (ret, w') \<Longrightarrow>
     if ret = 0 then table v w' = table v w \<and> saved v w' = Some (table v w) else unchanged v w w'"
  unfolding rdb_law_def by (elim conjE) blast

lemma law_commit:
  "rdb_law st v \<Longrightarrow> rdb_Commit st w = (ret, w') \<Longrightarrow>
     if ret = 0 then table v w' = table v w \<and> saved v w' = None else unchanged v w w'"
  unfolding rdb_law_def by (elim conjE) blast

lemma law_rollback:
  "rdb_law st v \<Longrightarrow> rdb_RollBack st w = (ret, w') \<Longrightarrow> saved v w = Some t \<Longrightarrow>
     table v w' = t \<and> saved v w' = None"
  unfolding rdb_law_def by (elim conjE) blast

lemma law_insert:
  "rdb_law st v \<Longrightarrow> rdb_Insert st vs w = (ret, i, w') \<Longrightarrow>
     if ret = 0 then 0 < i \<and> table v w' = table v w @ [assign vs (empty_row i)] \<and> saved v w' = saved v w
     else unchanged v w w'"
  unfolding rdb_law_def by (elim conjE) blast

lemma law_update:
  "rdb_law st v \<Longrightarrow> rdb_Update st vs clause args w = (ret, n, w') \<Longrightarrow>
     if ret = 0 then n = int (length (filter (clause_holds clause args) (table v w))) \<and>
       table v w' = map (\<lambda>r. if clause_holds clause args r then assign vs r else r) (table v w) \<and>
       saved v w' = saved v w
     else unchanged v w w'"
  unfolding rdb_law_def by (elim conjE) meson

lemma law_delete:
  "rdb_law st v \<Longrightarrow> rdb_Delete st clause args w = (ret, n, w') \<Longrightarrow>
     if ret = 0 then n = int (length (filter (clause_holds clause args) (table v w))) \<and>
       table v w' = filter (\<lambda>r. \<not> clause_holds clause args r) (table v w) \<and> saved v w' = saved v w
     else unchanged v w w'"
  unfolding rdb_law_def by (elim conjE) meson

lemma law_delete_predicates:
  "rdb_law st v \<Longrightarrow> rdb_DeletePredicates st preds w = (ret, n, w') \<Longrightarrow>
     if ret = 0 then table v w' = filter (\<lambda>r. \<not> list_all (predicate_holds r) preds) (table v w) \<and>
       saved v w' = saved v w
     else unchanged v w w'"
  unfolding rdb_law_def by (elim conjE) meson

lemma law_query:
  "rdb_law st v \<Longrightarrow> rdb_Query st preds columns w = (rs, w') \<Longrightarrow>
     unchanged v w w' \<and> (\<forall>s. rs = Some s \<longrightarrow>
       represents s (if columns = [] then all_columns else columns) (selection preds columns (table v w)))"
  unfolding rdb_law_def rdb_query_law_def by blast

text \<open>A transaction that was begun ends closed: committed with its change, or rolled back.\<close>

lemma begin_step:
  assumes "rdb_law st v" and "BeginTransaction (Some st) w = (ret, w')"
  shows "ret = 0 \<and> table v w' = table v w \<and> saved v w' = Some (table v w) \<or>
    ret < 0 \<and> unchanged v w w'"
  using assms law_begin [of st v w] by (auto simp: database_defs split: prod.splits if_splits)

lemma rollback_step:
  assumes "rdb_law st v" and "saved v w = Some t"
  shows "table v (snd (RollBack (Some st) w)) = t \<and> saved v (snd (RollBack (Some st) w)) = None"
  using assms law_rollback [of st v w] by (auto simp: database_defs split: prod.splits)

lemma commit_step:
  assumes "rdb_law st v" and "Commit (Some st) w = (ret, w')"
  shows "ret = 0 \<and> table v w' = table v w \<and> saved v w' = None \<or> ret < 0 \<and> unchanged v w w'"
  using assms law_commit [of st v w] by (auto simp: database_defs split: prod.splits if_splits)

subsection \<open>The contract of a change\<close>

locale record_change =
  fixes op :: "'w right_helper \<Rightarrow> 'w \<Rightarrow> int \<times> 'w"
    and effect :: "right_row list \<Rightarrow> right_row list \<Rightarrow> bool"
  assumes atomic: "rdb_law st v \<Longrightarrow> rightDatabase h = Some (Some st) \<Longrightarrow> saved v w = None \<Longrightarrow>
      op h w = (ret, w') \<Longrightarrow>
      saved v w' = None \<and>
      (0 \<le> ret \<and> effect (table v w) (table v w') \<or> ret < 0 \<and> table v w' = table v w)"
begin

lemma closes: "rdb_law st v \<Longrightarrow> rightDatabase h = Some (Some st) \<Longrightarrow> saved v w = None \<Longrightarrow>
    saved v (snd (op h w)) = None"
  using atomic [of st v h w "fst (op h w)" "snd (op h w)"] by simp

text \<open>A property of the table that the change itself keeps survives the operation.\<close>

lemma keeps:
  assumes "rdb_law st v" and "rightDatabase h = Some (Some st)" and "saved v w = None"
    and "P (table v w)" and "\<And>t t'. effect t t' \<Longrightarrow> P t \<Longrightarrow> P t'"
  shows "P (table v (snd (op h w)))"
  using atomic [OF assms(1-3), of "fst (op h w)" "snd (op h w)"] assms(4,5) by auto

end

lemma commit_or_rollback:
  assumes "rdb_law st v" and "saved v w = Some t" and "Commit (Some st) w = (ret, w')"
    and "(if ret < 0 then (ret, snd (RollBack (Some st) w')) else (ret, w')) = (ret', w'')"
  shows "saved v w'' = None \<and> (ret' = 0 \<and> table v w'' = table v w \<or> ret' < 0 \<and> table v w'' = t)"
  using commit_step [OF assms(1,3)] rollback_step [OF assms(1), of w' t] assms(2,4)
  by (auto simp: unchanged_def split: if_splits)

lemma unchanged_saved: "unchanged v w w' \<Longrightarrow> saved v w = x \<Longrightarrow> saved v w' = x"
  by (simp add: unchanged_def)

text \<open>The shape that all changes share: begin, one statement, commit; any error rolls back.\<close>

lemma statement_in_transaction:
  assumes law: "rdb_law st v" and w: "saved v w = None"
    and b: "BeginTransaction (Some st) w = (r1, w1)"
    and stmt: "r1 = 0 \<Longrightarrow> saved v w1 = Some (table v w) \<Longrightarrow> table v w1 = table v w \<Longrightarrow>
      saved v w2 = Some (table v w) \<and> (0 \<le> r2 \<longrightarrow> E (table v w) (table v w2))"
    and c: "Commit (Some st) w2 = (r3, w3)"
    and res: "(if r1 < 0 then (r1, w1)
      else if r2 < 0 then (r2, snd (RollBack (Some st) w2))
      else if r3 < 0 then (r3, snd (RollBack (Some st) w3)) else (r3, w3)) = (ret, w')"
  shows "saved v w' = None \<and> (0 \<le> ret \<and> E (table v w) (table v w') \<or> ret < 0 \<and> table v w' = table v w)"
proof (cases "r1 < 0")
  case True
  with begin_step [OF law b] w res show ?thesis by (auto simp: unchanged_def)
next
  case False
  with begin_step [OF law b] have b1: "r1 = 0" "saved v w1 = Some (table v w)" "table v w1 = table v w"
    by auto
  note s = stmt [OF b1]
  show ?thesis
  proof (cases "r2 < 0")
    case True
    with False res rollback_step [OF law, of w2] s show ?thesis by auto
  next
    case r2: False
    with False res commit_or_rollback [OF law _ c, of "table v w" ret w'] s show ?thesis by auto
  qed
qed

definition delete_effect :: "(right_row \<Rightarrow> bool) \<Rightarrow> right_row list \<Rightarrow> right_row list \<Rightarrow> bool" where
  "delete_effect P t t' \<longleftrightarrow> t' = filter (\<lambda>r. \<not> P r) t"

interpretation delete_where: record_change "\<lambda>h. DeleteAndNoOtherOperation h clause args"
  "delete_effect (clause_holds clause args)" for clause args
proof
  fix st :: "'w rdb_store" and v h w ret w'
  assume law: "rdb_law st v" and h: "rightDatabase h = Some (Some st)" and w: "saved v w = None"
    and run: "DeleteAndNoOtherOperation h clause args w = (ret, w')"
  let ?E = "delete_effect (clause_holds clause args)"
  obtain r1 w1 where b: "BeginTransaction (Some st) w = (r1, w1)" by (metis surj_pair)
  obtain r2 n w2 where d: "Delete (Some st) clause args w1 = (r2, n, w2)" by (metis surj_pair)
  obtain r3 w3 where c: "Commit (Some st) w2 = (r3, w3)" by (metis surj_pair)
  have stmt: "saved v w2 = Some (table v w) \<and> (0 \<le> r2 \<longrightarrow> ?E (table v w) (table v w2) \<and>
      n = int (length (filter (clause_holds clause args) (table v w))))"
    if "saved v w1 = Some (table v w)" "table v w1 = table v w"
    using that d law_delete [OF law, of clause args w1]
    by (auto simp: database_defs unchanged_def delete_effect_def split: prod.splits if_splits)
  obtain rr ww where x: "(if r1 < 0 then (r1, w1)
      else if r2 < 0 then (r2, snd (RollBack (Some st) w2))
      else if r3 < 0 then (r3, snd (RollBack (Some st) w3)) else (r3, w3)) = (rr, ww)" by (metis surj_pair)
  have t: "saved v ww = None \<and> (0 \<le> rr \<and> ?E (table v w) (table v ww) \<or> rr < 0 \<and> table v ww = table v w)"
    by (rule statement_in_transaction [OF law w b _ c x]) (use stmt in blast)
  show "saved v w' = None \<and> (0 \<le> ret \<and> ?E (table v w) (table v w') \<or> ret < 0 \<and> table v w' = table v w)"
  proof (cases "r1 < 0 \<or> r2 < 0 \<or> 0 < n")
    case True
    then have "ret = rr \<and> w' = ww"
      using run h b d c x by (auto simp: DeleteAndNoOtherOperation_def Let_def split: if_splits)
    with t show ?thesis by simp
  next
    case False
    then have "ret = - 4 \<and> w' = ww"
      using run h b d c x by (auto simp: DeleteAndNoOtherOperation_def Let_def split: if_splits)
    moreover have "?E (table v w) (table v ww) \<Longrightarrow> table v ww = table v w"
    proof -
      assume e: "?E (table v w) (table v ww)"
      from False begin_step [OF law b] have "saved v w1 = Some (table v w)" "table v w1 = table v w" by auto
      with stmt False have "filter (clause_holds clause args) (table v w) = []" by auto
      with e show ?thesis by (simp add: delete_effect_def filter_empty_conv filter_id_conv)
    qed
    ultimately show ?thesis using t by auto
  qed
qed


interpretation delete_matching: record_change "\<lambda>h. DeleteAndNoOtherOperationPredicates h preds"
  "delete_effect (\<lambda>r. list_all (predicate_holds r) preds)" for preds
proof
  fix st :: "'w rdb_store" and v h w ret w'
  assume law: "rdb_law st v" and h: "rightDatabase h = Some (Some st)" and w: "saved v w = None"
    and run: "DeleteAndNoOtherOperationPredicates h preds w = (ret, w')"
  let ?E = "delete_effect (\<lambda>r. list_all (predicate_holds r) preds)"
  obtain r1 w1 where b: "BeginTransaction (Some st) w = (r1, w1)" by (metis surj_pair)
  obtain r2 w2 where d: "DeletePredicates (Some st) preds w1 = (r2, w2)" by (metis surj_pair)
  obtain r3 w3 where c: "Commit (Some st) w2 = (r3, w3)" by (metis surj_pair)
  have stmt: "saved v w2 = Some (table v w) \<and> (0 \<le> r2 \<longrightarrow> ?E (table v w) (table v w2))"
    if "saved v w1 = Some (table v w)" "table v w1 = table v w"
    using that d law_delete_predicates [OF law, of preds w1]
    by (auto simp: database_defs unchanged_def delete_effect_def split: prod.splits if_splits)
  have res: "(if r1 < 0 then (r1, w1)
      else if r2 < 0 then (r2, snd (RollBack (Some st) w2))
      else if r3 < 0 then (r3, snd (RollBack (Some st) w3)) else (r3, w3)) = (ret, w')"
    using run h b d c by (auto simp: DeleteAndNoOtherOperationPredicates_def USB_RIGHT_OK_def split: if_splits)
  show "saved v w' = None \<and> (0 \<le> ret \<and> ?E (table v w) (table v w') \<or> ret < 0 \<and> table v w' = table v w)"
    by (rule statement_in_transaction [OF law w b _ c res]) (use stmt in blast)
qed

text \<open>Adding a record replaces the values of the records with its key, or appends one.\<close>

definition has_key :: "int \<Rightarrow> string \<Rightarrow> string \<Rightarrow> string \<Rightarrow> right_row \<Rightarrow> bool" where
  "has_key uid dev app tok r \<longleftrightarrow>
     row_uid r = uid \<and> row_deviceName r = dev \<and> row_bundleName r = app \<and> row_tokenId r = Some tok"

definition put_values :: "UsbRightAppInfo \<Rightarrow> string \<Rightarrow> string \<Rightarrow> string \<Rightarrow> right_row \<Rightarrow> right_row" where
  "put_values info dev app tok r = r\<lparr>row_uid := info_uid info, row_installTime := sint (info_installTime info),
     row_updateTime := sint (info_updateTime info), row_requestTime := sint (info_requestTime info),
     row_validPeriod := sint (info_validPeriod info), row_deviceName := dev, row_bundleName := app,
     row_tokenId := Some tok\<rparr>"

definition put_effect :: "string \<Rightarrow> string \<Rightarrow> string \<Rightarrow> UsbRightAppInfo \<Rightarrow> right_row list \<Rightarrow>
    right_row list \<Rightarrow> bool" where
  "put_effect dev app tok info t t' \<longleftrightarrow>
     (if list_ex (has_key (info_uid info) dev app tok) t
      then t' = map (\<lambda>r. if has_key (info_uid info) dev app tok r then put_values info dev app tok r else r) t
      else \<exists>i. t' = t @ [put_values info dev app tok (empty_row i)])"

lemma assign_right_values:
  "assign (right_values info dev app @ [(''tokenId'', VText tok)]) r = put_values info dev app tok r"
  by (simp add: right_values_def put_values_def)

lemma has_key_clause [simp]:
  "clause_holds ''uid = ? AND deviceName = ? AND bundleName = ? AND tokenId = ?''
     [to_string uid, dev, app, tok] = has_key uid dev app tok"
  by (simp add: fun_eq_iff clause_record has_key_def)

lemma has_key_predicates: "list_all (predicate_holds r) (record_key uid dev app tok) \<longleftrightarrow> has_key uid dev app tok r"
  by (simp add: record_key_holds has_key_def)

lemma record_key_not_distinct [simp]: "\<not> list_ex (\<lambda>p. p = Distinct) (record_key uid dev app tok)"
  by (simp add: record_key_def)

lemma has_key_put [simp]: "has_key uid dev app tok (put_values info dev app tok r) \<longleftrightarrow> info_uid info = uid"
  by (simp add: has_key_def put_values_def)


lemma int32_of_code [simp]: "int32_of (- 2) = - 2"
  by (simp add: int32_of_def)

lemma insert_step:
  assumes "rdb_law st v" and "Insert (Some st) vs w = (rowId, w')"
  shows "saved v w' = saved v w \<and>
    (0 \<le> int32_of rowId \<longrightarrow> (\<exists>i. table v w' = table v w @ [assign vs (empty_row i)]))"
  using assms law_insert [OF assms(1), of vs w]
  by (auto simp: database_defs unchanged_def USB_RIGHT_RDB_EXECUTE_FAILTURE_def split: prod.splits if_splits)

lemma update_step:
  assumes "rdb_law st v" and "Update (Some st) vs clause args w = (ret, n, w')"
  shows "saved v w' = saved v w \<and>
    (0 \<le> ret \<longrightarrow> table v w' = map (\<lambda>r. if clause_holds clause args r then assign vs r else r) (table v w))"
  using assms law_update [OF assms(1), of vs clause args w]
  by (auto simp: database_defs unchanged_def USB_RIGHT_RDB_EXECUTE_FAILTURE_def split: prod.splits if_splits)

lemma CheckIfNeedUpdateEx_step:
  assumes law: "rdb_law st v" and s: "saved v w = Some t"
    and c: "CheckIfNeedUpdateEx (Some st) uid dev app tok w = (ret, isUpdate, w')"
  shows "ret < 0 \<and> saved v w' = None \<and> table v w' = t \<or>
    ret = 0 \<and> unchanged v w w' \<and> isUpdate = list_ex (has_key uid dev app tok) (table v w)"
proof -
  obtain rs w1 where q: "rdb_Query st (record_key uid dev app tok) [] w = (rs, w1)" by (metis surj_pair)
  note l = law_query [OF law q]
  have rb: "table v (snd (RollBack (Some st) w1)) = t \<and> saved v (snd (RollBack (Some st) w1)) = None"
    using l s by (intro rollback_step [OF law]) (simp add: unchanged_def)
  show ?thesis
  proof (cases rs)
    case None
    with c q rb show ?thesis
      by (auto simp: CheckIfNeedUpdateEx_def Query_def USB_RIGHT_RDB_EXECUTE_FAILTURE_def)
  next
    case (Some r)
    let ?n = "length (filter (has_key uid dev app tok) (table v w))"
    from l Some have "rs_GetRowCount r = Some (int ?n)"
      by (simp add: represents_def selection_def has_key_predicates)
    moreover have "0 < ?n \<longleftrightarrow> list_ex (has_key uid dev app tok) (table v w)"
      by (auto simp: list_ex_iff filter_empty_conv)
    ultimately show ?thesis using c q l Some
      by (auto simp: CheckIfNeedUpdateEx_def Query_def USB_RIGHT_OK_def)
  qed
qed

lemma AddOrUpdateRightRecordEx_step:
  assumes law: "rdb_law st v" and s: "saved v w = Some t"
    and upd: "isUpdate = list_ex (has_key (info_uid info) dev app tok) (table v w)"
    and c: "AddOrUpdateRightRecordEx (Some st) isUpdate dev app tok info w = (ret, w')"
  shows "ret < 0 \<and> saved v w' = None \<and> table v w' = t \<or>
    0 \<le> ret \<and> saved v w' = Some t \<and> put_effect dev app tok info (table v w) (table v w')"
proof -
  let ?vs = "right_values info dev app @ [(''tokenId'', VText tok)]"
  let ?cl = "''uid = ? AND deviceName = ? AND bundleName = ? AND tokenId = ?''"
  let ?args = "[to_string (info_uid info), dev, app, tok]"
  obtain ret1 w1 where stmt: "(if isUpdate then
              (case Update (Some st) ?vs ?cl ?args w of (ret, changedRows, w1) \<Rightarrow> (ret, w1))
            else (case Insert (Some st) ?vs w of (rowId, w1) \<Rightarrow> (int32_of rowId, w1))) = (ret1, w1)"
    by (metis surj_pair)
  have e: "saved v w1 = Some t \<and> (0 \<le> ret1 \<longrightarrow> put_effect dev app tok info (table v w) (table v w1))"
  proof (cases isUpdate)
    case True
    with stmt update_step [OF law, of ?vs ?cl ?args w] s upd show ?thesis
      by (auto simp: put_effect_def assign_right_values split: prod.splits)
  next
    case False
    with stmt insert_step [OF law, of ?vs w] s upd show ?thesis
      by (auto simp: put_effect_def assign_right_values split: prod.splits)
  qed
  have r: "(ret, w') = (if ret1 < 0 then (ret1, snd (RollBack (Some st) w1)) else (ret1, w1))"
    using c unfolding AddOrUpdateRightRecordEx_def Let_def stmt by (simp add: USB_RIGHT_OK_def)
  show ?thesis
    using r e rollback_step [OF law, of w1 t] by (auto split: if_splits)
qed

interpretation add_record: record_change "\<lambda>h. AddOrUpdateRightRecord h (info_uid info) dev app tok info"
  "put_effect dev app tok info" for info dev app tok
proof
  fix st :: "'w rdb_store" and v h w ret w'
  assume law: "rdb_law st v" and h: "rightDatabase h = Some (Some st)" and w: "saved v w = None"
    and run: "AddOrUpdateRightRecord h (info_uid info) dev app tok info w = (ret, w')"
  obtain r1 w1 where b: "BeginTransaction (Some st) w = (r1, w1)" by (metis surj_pair)
  obtain r2 upd w2 where q: "CheckIfNeedUpdateEx (Some st) (info_uid info) dev app tok w1 = (r2, upd, w2)"
    by (metis surj_pair)
  obtain r3 w3 where x: "AddOrUpdateRightRecordEx (Some st) upd dev app tok info w2 = (r3, w3)"
    by (metis surj_pair)
  obtain r4 w4 where c: "Commit (Some st) w3 = (r4, w4)" by (metis surj_pair)
  note run' = run [unfolded AddOrUpdateRightRecord_def h option.case b prod.case q x c USB_RIGHT_OK_def]
  show "saved v w' = None \<and> (0 \<le> ret \<and> put_effect dev app tok info (table v w) (table v w') \<or>
    ret < 0 \<and> table v w' = table v w)"
  proof (cases "r1 < 0")
    case True
    with begin_step [OF law b] w run' show ?thesis by (auto simp: unchanged_def)
  next
    case False
    with begin_step [OF law b] have b1: "saved v w1 = Some (table v w)" "table v w1 = table v w" by auto
    note q1 = CheckIfNeedUpdateEx_step [OF law b1(1) q]
    show ?thesis
    proof (cases "r2 < 0")
      case True
      with q1 False run' show ?thesis by auto
    next
      case r2: False
      with q1 b1 have q2: "saved v w2 = Some (table v w)" "table v w2 = table v w"
        "upd = list_ex (has_key (info_uid info) dev app tok) (table v w2)" by (auto simp: unchanged_def)
      note x1 = AddOrUpdateRightRecordEx_step [OF law q2(1) q2(3) x]
      show ?thesis
      proof (cases "r3 < 0")
        case True
        with x1 False r2 run' show ?thesis by auto
      next
        case r3: False
        then have "(if r4 < 0 then (r4, snd (RollBack (Some st) w4)) else (r4, w4)) = (ret, w')"
          using run' False r2 by simp
        with x1 r3 q2 commit_or_rollback [OF law _ c, of "table v w" ret w'] show ?thesis by auto
      qed
    qed
  qed
qed


subsection \<open>What a query returns\<close>

definition info_of_row :: "right_row \<Rightarrow> UsbRightAppInfo" where
  "info_of_row r = \<lparr>info_primaryKeyId = word_of_int (int32_of (row_id r)), info_uid = int32_of (row_uid r),
     info_installTime = word_of_int (row_installTime r), info_updateTime = word_of_int (row_updateTime r),
     info_requestTime = word_of_int (row_requestTime r), info_validPeriod = word_of_int (row_validPeriod r)\<rparr>"

lemma query_step:
  assumes law: "rdb_law st v" and w: "saved v w = None"
    and run: "query_in_transaction (Some st) preds columns w = (res, w')"
  shows "saved v w' = None \<and> table v w' = table v w \<and>
    (case res of Inl e \<Rightarrow> e < 0
     | Inr rs \<Rightarrow> represents rs (if columns = [] then all_columns else columns) (selection preds columns (table v w)))"
proof -
  obtain r1 w1 where b: "BeginTransaction (Some st) w = (r1, w1)" by (metis surj_pair)
  obtain rs w2 where q: "rdb_Query st preds columns w1 = (rs, w2)" by (metis surj_pair)
  obtain r3 w3 where c: "Commit (Some st) w2 = (r3, w3)" by (metis surj_pair)
  have q': "Query (Some st) preds columns w1 = (rs, w2)" by (simp add: Query_def q)
  note run' = run [unfolded query_in_transaction_def b prod.case q' USB_RIGHT_OK_def]
  show ?thesis
  proof (cases "r1 < 0")
    case True
    with begin_step [OF law b] w run' show ?thesis by (auto simp: unchanged_def)
  next
    case False
    with begin_step [OF law b] law_query [OF law q]
    have s: "saved v w2 = Some (table v w)" "table v w2 = table v w" "table v w1 = table v w"
      by (auto simp: unchanged_def)
    show ?thesis
    proof (cases rs)
      case None
      with run' False s rollback_step [OF law s(1)] show ?thesis
        by (auto simp: USB_RIGHT_RDB_EXECUTE_FAILTURE_def)
    next
      case (Some x)
      have res: "(res, w') = (if r3 < 0 then (Inl r3, snd (RollBack (Some st) w3)) else (Inr x, w3))"
        using run' False Some c by simp
      obtain ret'' where e: "(if r3 < 0 then (r3, snd (RollBack (Some st) w3)) else (r3, w3)) = (ret'', w')"
        using res by (auto split: if_splits)
      with commit_or_rollback [OF law s(1) c e] law_query [OF law q] Some s res show ?thesis
        by (auto split: if_splits)
    qed
  qed
qed

lemma all_columns_length [simp]: "length all_columns = 9"
  by (simp add: all_columns_def)

lemma table_indices_all:
  "table_indices all_columns 0 t = t\<lparr>primaryKeyIndex := 0, uidIndex := 1, installTimeIndex := 2,
     updateTimeIndex := 3, requestTimeIndex := 4, validPeriodIndex := 5, deviceNameIndex := 6,
     bundleNameIndex := 7\<rparr>"
  by (simp add: all_columns_def)

lemma represents_cells:
  assumes "represents rs all_columns (map (tuple []) rows)" and "i < length rows" and "j < 9"
  shows "rs_GetInt rs (int i) (int j) =
      (case column (rows ! i) (all_columns ! j) of Some (VInt n) \<Rightarrow> Some (int32_of n) | _ \<Rightarrow> None)"
    and "rs_GetLong rs (int i) (int j) =
      (case column (rows ! i) (all_columns ! j) of Some (VInt n) \<Rightarrow> Some n | _ \<Rightarrow> None)"
  using assms unfolding represents_def by (simp_all add: tuple_def)

lemma read_info_row:
  assumes "represents rs all_columns (map (tuple []) rows)" and "i < length rows"
    and "primaryKeyIndex t = 0" "uidIndex t = 1" "installTimeIndex t = 2" "updateTimeIndex t = 3"
    "requestTimeIndex t = 4" "validPeriodIndex t = 5"
  shows "read_info rs t (int i) = Some (info_of_row (rows ! i))"
  using represents_cells [OF assms(1,2), of 0] represents_cells [OF assms(1,2), of 1]
    represents_cells [OF assms(1,2), of 2] represents_cells [OF assms(1,2), of 3]
    represents_cells [OF assms(1,2), of 4] represents_cells [OF assms(1,2), of 5] assms(3-)
  by (simp add: read_info_def info_of_row_def all_columns_def column_def)

lemma read_rows_from:
  assumes rep: "represents rs all_columns (map (tuple []) rows)"
    and info: "\<And>i. i < length rows \<Longrightarrow> read_info rs t (int i) = Some (info_of_row (rows ! i))"
  shows "i + n = length rows \<Longrightarrow>
    read_rows rs t (int i) n False infos = infos @ map info_of_row (drop i rows)"
proof (induction n arbitrary: i infos)
  case 0
  then show ?case by simp
next
  case (Suc n)
  then have i: "i < length rows" by simp
  then have "rs_GoToRow rs (int i)" "\<not> rs_IsEnded rs (int i)" using rep by (auto simp: represents_def)
  moreover have "drop i rows = rows ! i # drop (Suc i) rows" using i by (simp add: Cons_nth_drop_Suc)
  moreover have "read_rows rs t (int (Suc i)) n False (infos @ [info_of_row (rows ! i)]) =
      (infos @ [info_of_row (rows ! i)]) @ map info_of_row (drop (Suc i) rows)"
    using Suc.prems by (intro Suc.IH) simp
  ultimately show ?case using info [OF i] by (simp add: add.commute)
qed

lemma GetResultRightRecordEx_rows:
  assumes rep: "represents rs all_columns (map (tuple []) rows)"
  shows "GetResultRightRecordEx (Some rs) fresh = (int (length rows), map info_of_row rows)"
proof -
  let ?t = "(table_indices all_columns 0 fresh)\<lparr>rowCount := int (length rows), columnCount := 9\<rparr>"
  have "GetResultSetTableInfo (Some rs) fresh = (0, ?t)"
    using rep by (simp add: GetResultSetTableInfo_def represents_def USB_RIGHT_OK_def)
  moreover have "read_rows rs ?t (int 0) (length rows) False [] = [] @ map info_of_row (drop 0 rows)"
    by (rule read_rows_from [OF rep])
       (auto intro!: read_info_row [OF rep] simp: table_indices_all)
  ultimately show ?thesis
    by (simp add: GetResultRightRecordEx_def USB_RIGHT_OK_def)
qed

theorem query_rows:
  assumes law: "rdb_law st v" and h: "rightDatabase h = Some (Some st)" and w: "saved v w = None"
    and d: "\<not> list_ex (\<lambda>p. p = Distinct) preds"
    and run: "QueryAndGetResult h preds [] w = (n, infos, w')"
  shows "saved v w' = None \<and> table v w' = table v w \<and>
    (n < 0 \<and> infos = [] \<or>
     infos = map info_of_row (filter (\<lambda>r. list_all (predicate_holds r) preds) (table v w)) \<and>
     n = int (length infos))"
proof -
  obtain res w1 where q: "query_in_transaction (Some st) preds [] w = (res, w1)" by (metis surj_pair)
  note s = query_step [OF law w q]
  show ?thesis
  proof (cases res)
    case (Inl e)
    with s run h q show ?thesis by (auto simp: QueryAndGetResult_def)
  next
    case (Inr rs)
    with s d have "represents rs all_columns
        (map (tuple []) (filter (\<lambda>r. list_all (predicate_holds r) preds) (table v w)))"
      by (simp add: selection_def Let_def)
    from GetResultRightRecordEx_rows [OF this] s Inr run h q show ?thesis
      by (auto simp: QueryAndGetResult_def)
  qed
qed


subsection \<open>A store in memory\<close>

text \<open>
  A store that keeps its table in memory and follows \<open>rdb_law\<close>: it shows that the law can hold.
  \<open>first_id\<close> is the identity of the first row it inserts, and \<open>commits\<close> says whether it commits.
\<close>

record memory =
  rows :: "right_row list"
  backup :: "right_row list option"

definition memory_result :: "string list \<Rightarrow> sql_value option list list \<Rightarrow> result_set" where
  "memory_result columns ts = \<lparr>rs_GetRowCount = Some (int (length ts)),
     rs_GetColumnCount = Some (int (length columns)), rs_GetAllColumnNames = Some columns,
     rs_GoToRow = (\<lambda>i. 0 \<le> i \<and> i < int (length ts)), rs_IsEnded = (\<lambda>i. int (length ts) \<le> i),
     rs_GetInt = (\<lambda>i j. case ts ! nat i ! nat j of Some (VInt n) \<Rightarrow> Some (int32_of n) | _ \<Rightarrow> None),
     rs_GetLong = (\<lambda>i j. case ts ! nat i ! nat j of Some (VInt n) \<Rightarrow> Some n | _ \<Rightarrow> None),
     rs_GetString = (\<lambda>i j. case ts ! nat i ! nat j of
        Some (VText s) \<Rightarrow> Some s | Some (VInt n) \<Rightarrow> Some (to_string n) | None \<Rightarrow> None)\<rparr>"

definition memory_store :: "int \<Rightarrow> bool \<Rightarrow> memory rdb_store" where
  "memory_store first_id commits = \<lparr>
     rdb_BeginTransaction = (\<lambda>w. (0, w\<lparr>backup := Some (rows w)\<rparr>)),
     rdb_Commit = (\<lambda>w. if commits then (0, w\<lparr>backup := None\<rparr>) else (1, w)),
     rdb_RollBack = (\<lambda>w. case backup w of None \<Rightarrow> (1, w) | Some t \<Rightarrow> (0, \<lparr>rows = t, backup = None\<rparr>)),
     rdb_Insert = (\<lambda>values w. let i = max 1 first_id + int (length (rows w))
        in (0, i, w\<lparr>rows := rows w @ [assign values (empty_row i)]\<rparr>)),
     rdb_Update = (\<lambda>values clause args w. (0, int (length (filter (clause_holds clause args) (rows w))),
        w\<lparr>rows := map (\<lambda>r. if clause_holds clause args r then assign values r else r) (rows w)\<rparr>)),
     rdb_UpdatePredicates = (\<lambda>values preds w. (1, 0, w)),
     rdb_Delete = (\<lambda>clause args w. (0, int (length (filter (clause_holds clause args) (rows w))),
        w\<lparr>rows := filter (\<lambda>r. \<not> clause_holds clause args r) (rows w)\<rparr>)),
     rdb_DeletePredicates = (\<lambda>preds w. (0, int (length (filter (\<lambda>r. list_all (predicate_holds r) preds) (rows w))),
        w\<lparr>rows := filter (\<lambda>r. \<not> list_all (predicate_holds r) preds) (rows w)\<rparr>)),
     rdb_ExecuteSql = (\<lambda>sql args w. (0, w)),
     rdb_QuerySql = (\<lambda>sql w. (None, w)),
     rdb_Query = (\<lambda>preds columns w.
        (Some (memory_result (if columns = [] then all_columns else columns) (selection preds columns (rows w))), w))\<rparr>"

definition memory_view :: "memory rdb_view" where
  "memory_view = \<lparr>table = rows, saved = backup\<rparr>"

definition no_table_info :: UsbRightTableInfo where
  "no_table_info = \<lparr>rowCount = 0, columnCount = 0, primaryKeyIndex = 0, uidIndex = 0, installTimeIndex = 0,
     updateTimeIndex = 0, requestTimeIndex = 0, validPeriodIndex = 0, deviceNameIndex = 0, bundleNameIndex = 0\<rparr>"

definition memory_helper :: "int \<Rightarrow> bool \<Rightarrow> memory right_helper" where
  "memory_helper i c = \<lparr>rightDatabase = Some (Some (memory_store i c)), fresh_table = no_table_info\<rparr>"

lemma memory_result_represents: "represents (memory_result columns ts) columns ts"
  by (simp add: represents_def memory_result_def)

lemma memory_law [simp]: "rdb_law (memory_store i c) memory_view"
  unfolding rdb_law_def rdb_query_law_def
  by (intro conjI allI)
     (auto simp: memory_store_def memory_view_def unchanged_def memory_result_represents Let_def split: if_splits)

lemma memory_helper_database [simp]: "rightDatabase (memory_helper i c) = Some (Some (memory_store i c))"
  by (simp add: memory_helper_def)

lemma memory_view_simps [simp]: "table memory_view = rows" "saved memory_view = backup"
  by (simp_all add: memory_view_def)


subsection \<open>Properties\<close>

lemma put_effect_keys:
  assumes "put_effect dev app tok info t t'"
  shows "filter (\<lambda>r. \<not> has_key (info_uid info) dev app tok r) t' =
      filter (\<lambda>r. \<not> has_key (info_uid info) dev app tok r) t"
    and "list_ex (has_key (info_uid info) dev app tok) t'"
    and "r \<in> set t' \<Longrightarrow> has_key (info_uid info) dev app tok r \<Longrightarrow> \<exists>r0. r = put_values info dev app tok r0"
proof -
  let ?k = "has_key (info_uid info) dev app tok" and ?p = "put_values info dev app tok"
  have "filter (\<lambda>r. \<not> ?k r) (map (\<lambda>r. if ?k r then ?p r else r) xs) = filter (\<lambda>r. \<not> ?k r) xs" for xs
    by (induction xs) auto
  then show "filter (\<lambda>r. \<not> ?k r) t' = filter (\<lambda>r. \<not> ?k r) t"
    using assms by (auto simp: put_effect_def split: if_splits)
  have some: "list_ex ?k xs \<Longrightarrow> list_ex ?k (map (\<lambda>r. if ?k r then ?p r else r) xs)" for xs
    by (induction xs) auto
  show "list_ex ?k t'"
  proof (cases "list_ex ?k t")
    case True
    with assms have "t' = map (\<lambda>r. if ?k r then ?p r else r) t" by (simp add: put_effect_def)
    with some [OF True] show ?thesis by simp
  next
    case False
    with assms show ?thesis by (auto simp: put_effect_def)
  qed
  show "r \<in> set t' \<Longrightarrow> ?k r \<Longrightarrow> \<exists>r0. r = ?p r0"
    using assms by (auto simp: put_effect_def list_ex_iff split: if_splits)
qed

text \<open>
  C14: adding a right is all or nothing on every store that follows the law. Whatever call of
  the store fails, no transaction is left open; on an error the table is as before, and on success
  the records of every other key are as before and the ones of this key, at least one, all hold
  the new times and period.\<close>

theorem AddOrUpdateRightRecord_atomic:
  assumes "rdb_law st v" and "rightDatabase h = Some (Some st)" and "saved v w = None"
    and "AddOrUpdateRightRecord h (info_uid info) dev app tok info w = (ret, w')"
  shows "saved v w' = None \<and>
    (if ret < 0 then table v w' = table v w
     else filter (\<lambda>r. \<not> has_key (info_uid info) dev app tok r) (table v w') =
            filter (\<lambda>r. \<not> has_key (info_uid info) dev app tok r) (table v w) \<and>
          list_ex (has_key (info_uid info) dev app tok) (table v w') \<and>
          (\<forall>r \<in> set (table v w'). has_key (info_uid info) dev app tok r \<longrightarrow>
             row_requestTime r = sint (info_requestTime info) \<and>
             row_validPeriod r = sint (info_validPeriod info) \<and>
             row_installTime r = sint (info_installTime info) \<and>
             row_updateTime r = sint (info_updateTime info)))"
  using add_record.atomic [OF assms] put_effect_keys [of dev app tok info "table v w" "table v w'"]
  by (fastforce simp: put_values_def)

definition sample_row :: right_row where
  "sample_row = \<lparr>row_id = 1, row_uid = 100, row_installTime = 5, row_updateTime = 5, row_requestTime = 10,
     row_validPeriod = 0x0FFFFFFF, row_deviceName = ''1-2'', row_bundleName = ''app'', row_tokenId = Some ''t''\<rparr>"

definition sample_info :: UsbRightAppInfo where
  "sample_info = \<lparr>info_primaryKeyId = 0, info_uid = 100, info_installTime = 5, info_updateTime = 5,
     info_requestTime = 90, info_validPeriod = 0\<rparr>"

lemma AddOrUpdateRightRecord_atomic_witness:
  "saved memory_view (snd (AddOrUpdateRightRecord (memory_helper 1 False) (info_uid sample_info) ''1-2'' ''app'' ''t''
     sample_info \<lparr>rows = [sample_row], backup = None\<rparr>)) = None"
  using AddOrUpdateRightRecord_atomic [of "memory_store 1 False" memory_view "memory_helper 1 False"
      "\<lparr>rows = [sample_row], backup = None\<rparr>" sample_info "''1-2''" "''app''" "''t''", OF _ _ _ surjective_pairing]
  by simp

text \<open>The periods that the manager grants, and a clock that the table can hold.\<close>

definition grantable :: "right_row \<Rightarrow> bool" where
  "grantable r \<longleftrightarrow> 0 \<le> row_requestTime r \<and> row_requestTime r < 2 ^ 63 \<and>
     row_validPeriod r \<in> {USB_RIGHT_VALID_PERIOD_MIN, USB_RIGHT_VALID_PERIOD_MAX, uint USB_RIGHT_VALID_PERIOD_SET}"

lemma selected_is_expired:
  assumes g: "grantable r" and rel: "row_requestTime r < uint (relative_expired now)"
    and period: "row_validPeriod r \<noteq> USB_RIGHT_VALID_PERIOD_MIN" "row_validPeriod r \<noteq> USB_RIGHT_VALID_PERIOD_MAX"
  shows "IsRecordExpired (info_of_row r) now"
proof -
  let ?rel = "relative_expired now"
  have time: "0 \<le> row_requestTime r" "row_requestTime r < 2 ^ 63" using g by (auto simp: grantable_def)
  with rel have "USB_RIGHT_VALID_PERIOD_SET < now"
    by (auto simp: relative_expired_def not_le split: if_splits)
  then have "\<not> now \<le> USB_RIGHT_VALID_PERIOD_SET" "USB_RIGHT_VALID_PERIOD_SET \<le> now" by auto
  then have "uint ?rel = uint now - uint USB_RIGHT_VALID_PERIOD_SET"
    by (simp add: relative_expired_def uint_minus_simple_alt [symmetric])
  moreover define q :: u64 where "q = word_of_int (row_requestTime r)"
  have uq: "uint q = row_requestTime r" using time by (simp add: q_def uint_word_of_int)
  ultimately have less: "uint q < uint now - uint USB_RIGHT_VALID_PERIOD_SET" using rel by simp
  then have "uint q \<le> uint now" using uint_ge_0 [of USB_RIGHT_VALID_PERIOD_SET] by linarith
  then have "q \<le> now" "uint (now - q) = uint now - uint q"
    by (simp_all add: word_le_def uint_minus_simple_alt [symmetric])
  then have "q \<le> now \<and> USB_RIGHT_VALID_PERIOD_SET \<le> now - q"
    using less by (simp add: word_le_def)
  moreover have "word_of_int (row_validPeriod r) = USB_RIGHT_VALID_PERIOD_SET"
    using period g by (simp add: grantable_def valid_periods)
  ultimately show ?thesis
    by (simp add: IsRecordExpired_def info_of_row_def not_less valid_periods flip: q_def)
qed

lemma removed_is_expired:
  assumes law: "rdb_law st v" "rightDatabase h = Some (Some st)" "saved v w = None"
    and run: "DeleteNormalExpiredRightRecord h uid now w = (ret, w')"
    and r: "r \<in> set (table v w)" "r \<notin> set (table v w')" "grantable r"
  shows "row_uid r = uid \<and> IsRecordExpired (info_of_row r) now"
  using delete_where.atomic [OF law run [unfolded DeleteNormalExpiredRightRecord_def]] r selected_is_expired
  by (auto simp: delete_effect_def clause_expired)

text \<open>
  The periodic clean-up only removes records that have expired. For the three periods the
  manager grants, every record that disappears is expired at the given time by the test that
  \<^verbatim>\<open>HasRight\<close> uses, and belongs to the user being cleaned.\<close>

theorem DeleteNormalExpiredRightRecord_safe:
  assumes "rdb_law st v" and "rightDatabase h = Some (Some st)" and "saved v w = None"
    and "DeleteNormalExpiredRightRecord h uid now w = (ret, w')" and "list_all grantable (table v w)"
  shows "\<forall>r \<in> set (table v w) - set (table v w'). row_uid r = uid \<and> IsRecordExpired (info_of_row r) now"
  using removed_is_expired [OF assms(1-4)] assms(5) by (auto simp: list_all_iff)

lemma DeleteNormalExpiredRightRecord_safe_witness:
  "IsRecordExpired (info_of_row sample_row) 0x20000000"
proof -
  let ?w = "\<lparr>rows = [sample_row], backup = None\<rparr>"
  have "rows (snd (DeleteNormalExpiredRightRecord (memory_helper 1 True) 100 0x20000000 ?w)) = []"
    by (simp add: DeleteNormalExpiredRightRecord_def DeleteAndNoOtherOperation_def memory_store_def
        database_defs clause_expired sample_row_def relative_expired_def valid_periods USB_RIGHT_OK_def)
  then show ?thesis
    using DeleteNormalExpiredRightRecord_safe [of "memory_store 1 True" memory_view "memory_helper 1 True"
        ?w 100 "0x20000000", OF _ _ _ surjective_pairing]
    by (simp add: grantable_def sample_row_def valid_periods)
qed

text \<open>
  The row identity that the store returns as a 64-bit integer is read back as a 32-bit
  status. Once the identities reach \<open>2 ^ 31\<close>, a record that was inserted is reported as an error
  and rolled back, so that no new right can be granted.\<close>

theorem AddOrUpdateRightRecordEx_large_id:
  assumes "Insert db (right_values info dev app @ [(''tokenId'', VText tok)]) w = (rowId, w1)"
    and "2 ^ 31 \<le> rowId" and "rowId < 2 ^ 32"
  shows "AddOrUpdateRightRecordEx db False dev app tok info w = (rowId - 2 ^ 32, snd (RollBack db w1))"
  using assms by (simp add: AddOrUpdateRightRecordEx_def int32_of_def sint32_high)

lemma AddOrUpdateRightRecordEx_large_id_witness:
  "fst (AddOrUpdateRightRecordEx (Some (memory_store (2 ^ 31) True)) False ''1-2'' ''app'' ''t'' sample_info
     \<lparr>rows = [], backup = None\<rparr>) < 0"
  using AddOrUpdateRightRecordEx_large_id [of "Some (memory_store (2 ^ 31) True)" sample_info "''1-2''" "''app''" "''t''"
      "\<lparr>rows = [], backup = None\<rparr>", OF surjective_pairing]
  by (simp add: Insert_def memory_store_def)

end
