(* ===== verification/Usb_Accessory.thy ===== *)
theory Usb_Accessory
  imports Usb_Data
begin

section \<open>The accessory data class\<close>

text \<open>
  \<^verbatim>\<open>interfaces/innerkits/native/include/usb_accessory.h\<close>: the five strings that describe an
  accessory, the update from the driver's list, the comparison and the parcel methods, which
  follow the contract \<open>parcelable\<close> of the device data.
\<close>

record USBAccessory =
  acc_manufacturer :: string
  acc_product :: string
  acc_description :: string
  acc_version :: string
  acc_serialNumber :: string

definition new_accessory :: USBAccessory where
  "new_accessory = \<lparr>acc_manufacturer = [], acc_product = [], acc_description = [], acc_version = [],
     acc_serialNumber = []\<rparr>"

definition ACC_SIZE :: nat where "ACC_SIZE = 5"

definition SetAccessory :: "string list \<Rightarrow> USBAccessory \<Rightarrow> USBAccessory" where
  "SetAccessory accessorys a =
     (if length accessorys < ACC_SIZE then a
      else a\<lparr>acc_manufacturer := accessorys ! 0, acc_product := accessorys ! 1,
        acc_description := accessorys ! 2, acc_version := accessorys ! 3,
        acc_serialNumber := accessorys ! 4\<rparr>)"

definition same_accessory :: "USBAccessory \<Rightarrow> USBAccessory \<Rightarrow> bool" where
  "same_accessory a b \<longleftrightarrow> acc_manufacturer a = acc_manufacturer b \<and> acc_product a = acc_product b \<and>
     acc_description a = acc_description b \<and> acc_version a = acc_version b \<and>
     acc_serialNumber a = acc_serialNumber b"

definition accessory_ToString :: "USBAccessory \<Rightarrow> string" where
  "accessory_ToString a = ''USBAccessory['' @ ''manufacturer='' @ acc_manufacturer a @ '','' @
     ''product='' @ acc_product a @ '','' @ ''description='' @ acc_description a @ '','' @
     ''version='' @ acc_version a @ '','' @ ''serialNumber='' @ acc_serialNumber a @ '';  '' @ '']''"

definition marshal_accessory :: "'p parcel_ops \<Rightarrow> USBAccessory \<Rightarrow> 'p \<Rightarrow> bool \<times> 'p" where
  "marshal_accessory ops a = write_seq
     [WriteString ops (acc_manufacturer a), WriteString ops (acc_product a),
      WriteString ops (acc_description a), WriteString ops (acc_version a),
      WriteString ops (acc_serialNumber a)]"

definition unmarshal_accessory :: "'p parcel_ops \<Rightarrow> ('p, USBAccessory) state" where
  "unmarshal_accessory ops = do {
     manufacturer \<leftarrow> ReadString ops;
     product \<leftarrow> ReadString ops;
     description \<leftarrow> ReadString ops;
     version \<leftarrow> ReadString ops;
     serialNumber \<leftarrow> ReadString ops;
     State_Monad.return (new_accessory\<lparr>acc_manufacturer := manufacturer, acc_product := product,
       acc_description := description, acc_version := version, acc_serialNumber := serialNumber\<rparr>) }"

definition wire_accessory :: "USBAccessory \<Rightarrow> cell list" where
  "wire_accessory a = map CStr [acc_manufacturer a, acc_product a, acc_description a, acc_version a,
     acc_serialNumber a]"

lemma same_accessory_eq: "same_accessory (a :: USBAccessory) b \<longleftrightarrow> a = b"
  by (cases a, cases b) (simp add: same_accessory_def)

interpretation accessory_parcel: parcelable marshal_accessory unmarshal_accessory wire_accessory "\<lambda>a. a"
proof
  fix ops :: "'p parcel_ops" and view x
  assume f: "parcel_fifo ops view"
  show "writes view (marshal_accessory ops x) (wire_accessory x)"
    unfolding marshal_accessory_def wire_accessory_def
    using writes_seq [of view _ "[[CStr (acc_manufacturer x)], [CStr (acc_product x)],
      [CStr (acc_description x)], [CStr (acc_version x)], [CStr (acc_serialNumber x)]]"]
    by (simp add: parcel_fifo_writes [OF f])
  show "reads view (unmarshal_accessory ops) (wire_accessory x) x"
    unfolding unmarshal_accessory_def wire_accessory_def list.map
    by (intro reads_cell_bind [OF f] reads_return) (simp add: new_accessory_def)
qed

end
