(* ===== verification/Right_Manager.thy ===== *)
theory Right_Manager
  imports Right_DbHelper Usb_Accessory
begin

section \<open>Right manager\<close>

text \<open>
  \<^verbatim>\<open>services/native/src/usb_right_manager.cpp\<close>: who may use which device. The manager grants,
  checks and withdraws rights over the records of \<^verbatim>\<open>Right_DbHelper\<close>, asks the user through
  a dialog, and cleans the records up when applications, users or devices go away. The system
  services it calls (clock, accounts, bundles, tokens, parameters, dialogs) are the record
  \<open>right_env\<close>. The interface \<open>right_cleanup\<close> is the contract of every operation that may only
  withdraw rights.
\<close>

subsection \<open>Environment and state\<close>

text \<open>
  \<open>env_now\<close> reads the clock; \<open>env_calling_user\<close> is \<^verbatim>\<open>GetOsAccountLocalIdFromUid\<close> of the
  caller; \<open>env_GetBundleInfo\<close> gives the install and update time; \<open>env_GetHapTokenInfo\<close> gives the
  user and the bundle of a token; \<open>env_wait_dialog\<close> is what happens while the dialog with the
  given parameters is shown, until the user closes it. A \<open>None\<close> is the failure of the call.
\<close>

record 'w right_env =
  env_now :: "'w \<Rightarrow> u64 \<times> 'w"
  env_calling_user :: "'w \<Rightarrow> int option"
  env_IsOsAccountExists :: "int \<Rightarrow> 'w \<Rightarrow> bool option"
  env_BundleMgr :: "'w \<Rightarrow> bool"
  env_GetApplicationInfo :: "string \<Rightarrow> int \<Rightarrow> 'w \<Rightarrow> bool"
  env_GetBundleInfo :: "string \<Rightarrow> int \<Rightarrow> 'w \<Rightarrow> (u64 \<times> u64) option"
  env_GetBundleResourceInfo :: "string \<Rightarrow> 'w \<Rightarrow> string option"
  env_GetHapTokenInfo :: "u32 \<Rightarrow> 'w \<Rightarrow> (int \<times> string) option"
  env_GetParameter :: "string \<Rightarrow> 'w \<Rightarrow> string option"
  env_GetBoolParameter :: "string \<Rightarrow> bool \<Rightarrow> 'w \<Rightarrow> bool"
  env_StrToInt :: "string \<Rightarrow> int option"
  env_AbilityManager :: "'w \<Rightarrow> bool"
  env_ConnectAbility :: "string \<Rightarrow> string \<Rightarrow> int \<Rightarrow> 'w \<Rightarrow> int \<times> 'w"
  env_wait_dialog :: "(string, string) omap \<Rightarrow> 'w \<Rightarrow> 'w"
  env_CloseDialog :: "'w \<Rightarrow> 'w"
  env_DisconnectAbility :: "'w \<Rightarrow> int \<times> 'w"
  env_SubscribeCommonEvent :: "'w \<Rightarrow> bool \<times> 'w"
  env_json :: "USBAccessory \<Rightarrow> string"

record right_manager =
  usbAbilityConn :: bool
  usbDialogParams :: "(string, string) omap"

record SerialDeviceIdentity =
  sid_busDev :: string
  sid_deviceName :: string

definition USB_RIGHT_USERID_INVALID :: int where "USB_RIGHT_USERID_INVALID = - 1"
definition USB_RIGHT_USERID_DEFAULT :: int where "USB_RIGHT_USERID_DEFAULT = 100"
definition USB_RIGHT_USERID_CONSOLE :: int where "USB_RIGHT_USERID_CONSOLE = 0"
definition MAX_RETRY_TIMES :: nat where "MAX_RETRY_TIMES = 30"

lemmas user_ids [simp] = USB_RIGHT_USERID_INVALID_def USB_RIGHT_USERID_DEFAULT_def USB_RIGHT_USERID_CONSOLE_def

definition TIGHT_UP_USB_RIGHT_RECORD_NONE :: u32 where "TIGHT_UP_USB_RIGHT_RECORD_NONE = 0"
definition TIGHT_UP_USB_RIGHT_RECORD_APP_UNINSTALLED :: u32 where
  "TIGHT_UP_USB_RIGHT_RECORD_APP_UNINSTALLED = 1"
definition TIGHT_UP_USB_RIGHT_RECORD_USER_DELETED :: u32 where "TIGHT_UP_USB_RIGHT_RECORD_USER_DELETED = 2"
definition TIGHT_UP_USB_RIGHT_RECORD_EXPIRED :: u32 where "TIGHT_UP_USB_RIGHT_RECORD_EXPIRED = 4"
definition TIGHT_UP_USB_RIGHT_RECORD_APP_REINSTALLED :: u32 where
  "TIGHT_UP_USB_RIGHT_RECORD_APP_REINSTALLED = 8"
definition TIGHT_UP_USB_RIGHT_RECORD_ALL :: u32 where
  "TIGHT_UP_USB_RIGHT_RECORD_ALL = TIGHT_UP_USB_RIGHT_RECORD_APP_UNINSTALLED OR
     TIGHT_UP_USB_RIGHT_RECORD_USER_DELETED OR TIGHT_UP_USB_RIGHT_RECORD_EXPIRED OR
     TIGHT_UP_USB_RIGHT_RECORD_APP_REINSTALLED"

lemmas tidy_up_choices = TIGHT_UP_USB_RIGHT_RECORD_NONE_def TIGHT_UP_USB_RIGHT_RECORD_APP_UNINSTALLED_def
  TIGHT_UP_USB_RIGHT_RECORD_USER_DELETED_def TIGHT_UP_USB_RIGHT_RECORD_EXPIRED_def
  TIGHT_UP_USB_RIGHT_RECORD_APP_REINSTALLED_def TIGHT_UP_USB_RIGHT_RECORD_ALL_def

subsection \<open>Accounts, bundles, parameters\<close>

definition or_else :: "'a option \<Rightarrow> 'a \<Rightarrow> 'a" where
  "or_else x d = (case x of Some v \<Rightarrow> v | None \<Rightarrow> d)"

definition GetCurrentUserId :: "'w right_env \<Rightarrow> 'w \<Rightarrow> int" where
  "GetCurrentUserId env w = (case env_calling_user env w of Some uid \<Rightarrow> uid | None \<Rightarrow> USB_RIGHT_USERID_DEFAULT)"

definition IsOsAccountExists :: "'w right_env \<Rightarrow> int \<Rightarrow> 'w \<Rightarrow> int \<times> bool" where
  "IsOsAccountExists env uid w = (case env_IsOsAccountExists env uid w of
       Some isAccountExists \<Rightarrow> (USB_RIGHT_OK, isAccountExists) | None \<Rightarrow> (USB_RIGHT_FAILURE, False))"

definition IsAppInstalled :: "'w right_env \<Rightarrow> int \<Rightarrow> string \<Rightarrow> 'w \<Rightarrow> bool" where
  "IsAppInstalled env uid bundleName w \<longleftrightarrow>
     env_BundleMgr env w \<and> env_GetApplicationInfo env bundleName uid w"

definition GetBundleInstallAndUpdateTime :: "'w right_env \<Rightarrow> int \<Rightarrow> string \<Rightarrow> 'w \<Rightarrow> (u64 \<times> u64) option" where
  "GetBundleInstallAndUpdateTime env uid bundleName w =
     (if \<not> env_BundleMgr env w then None else env_GetBundleInfo env bundleName uid w)"

definition GetAppName :: "'w right_env \<Rightarrow> string \<Rightarrow> 'w \<Rightarrow> string option" where
  "GetAppName env bundleName w =
     (if \<not> env_BundleMgr env w then None else env_GetBundleResourceInfo env bundleName w)"

text \<open>A failed read of the parameter leaves the buffer empty.\<close>

definition HasSetFuncRight :: "'w right_env \<Rightarrow> u32 \<Rightarrow> 'w \<Rightarrow> retcode" where
  "HasSetFuncRight env functions w =
     (if functions AND FUNCTION_HDC = 0 then UEC_OK
      else let paramValue = (case env_GetParameter env ''persist.hdc.control'' w of Some s \<Rightarrow> s | None \<Rightarrow> [])
      in if paramValue \<noteq> ''true'' then UEC_SERVICE_PERMISSION_CHECK_HDC
         else if \<not> env_GetBoolParameter env ''const.security.developermode.state'' False w
         then UEC_SERVICE_PERMISSION_CHECK_HDC
         else UEC_OK)"

definition is_space :: "char \<Rightarrow> bool" where
  "is_space c \<longleftrightarrow> c = CHR '' '' \<or> (9 \<le> (of_char c :: nat) \<and> (of_char c :: nat) \<le> 13)"

text \<open>\<^verbatim>\<open>strtoull\<close>: blanks, a sign, and as many digits as there are; \<open>None\<close> is \<^verbatim>\<open>ERANGE\<close>.\<close>

definition strtoull :: "string \<Rightarrow> nat option" where
  "strtoull s =
     (let t = dropWhile is_space s;
          (neg, d) = (case t of c # r \<Rightarrow> if c = CHR ''-'' then (True, r) else if c = CHR ''+'' then (False, r)
            else (False, t) | [] \<Rightarrow> (False, []));
          n = dec_value (takeWhile is_digit d)
      in if 2 ^ 64 \<le> n then None else Some (if neg then (2 ^ 64 - n) mod 2 ^ 64 else n))"

definition IsWithinUint64Range :: "string \<Rightarrow> bool" where
  "IsWithinUint64Range numberStr \<longleftrightarrow> numberStr \<noteq> [] \<and> strtoull numberStr \<noteq> None"

definition IsAllDigits :: "string \<Rightarrow> bool" where
  "IsAllDigits s \<longleftrightarrow> list_all is_digit s"

definition StringVectorSortAndUniq :: "string list \<Rightarrow> string list" where
  "StringVectorSortAndUniq strings = remdups_adj (sort strings)"

fun StringVectorFound :: "string list \<Rightarrow> string \<Rightarrow> nat option" where
  "StringVectorFound [] v = None"
| "StringVectorFound (s # ss) v = (if v = s then Some 0 else map_option Suc (StringVectorFound ss v))"

subsection \<open>Cleaning up\<close>

definition CleanUpRightTemporaryExpired :: "'w right_helper \<Rightarrow> string \<Rightarrow> 'w \<Rightarrow> int \<times> 'w" where
  "CleanUpRightTemporaryExpired h deviceName w =
     DeleteValidPeriodRightRecord h USB_RIGHT_VALID_PERIOD_MIN deviceName w"

definition CleanUpRightNormalExpired :: "'w right_env \<Rightarrow> 'w right_helper \<Rightarrow> int \<Rightarrow> 'w \<Rightarrow> int \<times> 'w" where
  "CleanUpRightNormalExpired env h uid w =
     (case env_now env w of (nowTime, w1) \<Rightarrow> DeleteNormalExpiredRightRecord h uid nowTime w1)"

fun clean_devices :: "'w right_helper \<Rightarrow> string list \<Rightarrow> 'w \<Rightarrow> 'w" where
  "clean_devices h [] w = w"
| "clean_devices h (dev # devs) w = clean_devices h devs (snd (CleanUpRightTemporaryExpired h dev w))"

definition CleanUpRightExpired :: "'w right_env \<Rightarrow> 'w right_helper \<Rightarrow> string list \<Rightarrow> 'w \<Rightarrow> int \<times> 'w" where
  "CleanUpRightExpired env h devices w =
     (let w1 = clean_devices h devices w in CleanUpRightNormalExpired env h (GetCurrentUserId env w1) w1)"

fun clean_apps :: "'w right_env \<Rightarrow> 'w right_helper \<Rightarrow> int \<Rightarrow> string list \<Rightarrow> int \<Rightarrow> int \<Rightarrow> 'w \<Rightarrow> int \<times> int \<times> 'w" where
  "clean_apps env h uid [] ret deleteApps w = (ret, deleteApps, w)"
| "clean_apps env h uid (app # apps) ret deleteApps w =
     (if IsAppInstalled env uid app w then clean_apps env h uid apps ret deleteApps w
      else (case DeleteAppRightRecord h uid app w of (ret, w1) \<Rightarrow>
        clean_apps env h uid apps ret (if ret \<noteq> USB_RIGHT_OK then deleteApps else deleteApps + 1) w1))"

definition CleanUpRightAppUninstalled :: "'w right_env \<Rightarrow> 'w right_helper \<Rightarrow> int \<Rightarrow> 'w \<Rightarrow> int \<times> 'w" where
  "CleanUpRightAppUninstalled env h uid w =
     (case QueryRightRecordApps h uid w of (ret, apps, w1) \<Rightarrow>
        if ret \<le> 0 then (USB_RIGHT_NOP, w1)
        else (case clean_apps env h uid apps ret 0 w1 of (ret, deleteApps, w2) \<Rightarrow> (ret, w2)))"

definition CleanUpRightAppUninstalledBundle :: "'w right_helper \<Rightarrow> int \<Rightarrow> string \<Rightarrow> 'w \<Rightarrow> int \<times> 'w" where
  "CleanUpRightAppUninstalledBundle h uid bundleName w =
     (case QueryRightRecordApps h uid w of (ret, apps, w1) \<Rightarrow>
        if ret \<le> 0 then (USB_RIGHT_NOP, w1)
        else (case StringVectorFound apps bundleName of None \<Rightarrow> (USB_RIGHT_NOP, w1)
          | Some index \<Rightarrow> DeleteAppRightRecord h uid (apps ! index) w1))"

text \<open>The loop over the applications; \<open>None\<close> is the early return of an error.\<close>

fun reinstalled_apps :: "'w right_env \<Rightarrow> 'w right_helper \<Rightarrow> int \<Rightarrow> string list \<Rightarrow> string list \<Rightarrow> 'w \<Rightarrow>
    string list option \<times> 'w" where
  "reinstalled_apps env h uid [] deleteBundleNames w = (Some deleteBundleNames, w)"
| "reinstalled_apps env h uid (bundleName # apps) deleteBundleNames w =
     (case QueryAppRightRecord h uid bundleName w of (ret, infos, w1) \<Rightarrow>
        if ret < 0 then (None, w1)
        else (case GetBundleInstallAndUpdateTime env uid bundleName w1 of None \<Rightarrow> (None, w1)
          | Some (installTime, updateTime) \<Rightarrow> reinstalled_apps env h uid apps
              (if list_ex (\<lambda>info. info_installTime info \<noteq> installTime) infos
               then deleteBundleNames @ [bundleName] else deleteBundleNames) w1))"

definition CleanUpRightAppReinstalled :: "'w right_env \<Rightarrow> 'w right_helper \<Rightarrow> int \<Rightarrow> 'w \<Rightarrow> int \<times> 'w" where
  "CleanUpRightAppReinstalled env h uid w =
     (case QueryRightRecordApps h uid w of (ret, apps, w1) \<Rightarrow>
        if ret \<le> 0 then (USB_RIGHT_NOP, w1)
        else (case reinstalled_apps env h uid (StringVectorSortAndUniq apps) [] w1 of
            (None, w2) \<Rightarrow> (USB_RIGHT_FAILURE, w2)
          | (Some deleteBundleNames, w2) \<Rightarrow>
              DeleteAppsRightRecord h uid (StringVectorSortAndUniq deleteBundleNames) w2))"

fun clean_users :: "'w right_env \<Rightarrow> 'w right_helper \<Rightarrow> string list \<Rightarrow> int \<Rightarrow> 'w \<Rightarrow> int \<times> 'w" where
  "clean_users env h [] deleteUsers w = (deleteUsers, w)"
| "clean_users env h (s # ss) deleteUsers w =
     (case env_StrToInt env s of None \<Rightarrow> clean_users env h ss deleteUsers w
      | Some uid \<Rightarrow> (case IsOsAccountExists env uid w of (ret, isAccountExists) \<Rightarrow>
          if ret \<noteq> USB_RIGHT_OK then clean_users env h ss deleteUsers w
          else if isAccountExists then clean_users env h ss deleteUsers w
          else clean_users env h ss (deleteUsers + 1) (snd (DeleteUidRightRecord h uid w))))"

definition CleanUpRightUserDeleted :: "'w right_env \<Rightarrow> 'w right_helper \<Rightarrow> 'w \<Rightarrow> int \<times> 'w" where
  "CleanUpRightUserDeleted env h w =
     (case QueryRightRecordUids h w of (ret, uids, w1) \<Rightarrow>
        if ret \<le> 0 then (USB_RIGHT_NOP, w1)
        else (USB_RIGHT_OK, snd (clean_users env h uids 0 w1)))"

definition CleanUpRightUserStopped :: "'w right_helper \<Rightarrow> int \<Rightarrow> 'w \<Rightarrow> int \<times> 'w" where
  "CleanUpRightUserStopped h uid w = DeleteUidRightRecord h uid w"

text \<open>A clean-up that is run when its bit is chosen; the result of the last one run is kept.\<close>

definition chosen :: "u32 \<Rightarrow> u32 \<Rightarrow> ('w \<Rightarrow> int \<times> 'w) \<Rightarrow> int \<times> 'w \<Rightarrow> int \<times> 'w" where
  "chosen choice bits f rw = (if choice AND bits \<noteq> 0 then f (snd rw) else rw)"

text \<open>The codes of \<^verbatim>\<open>TidyUpRight\<close>: right codes, except for an invalid choice.\<close>

definition TidyUpRight :: "'w right_env \<Rightarrow> 'w right_helper \<Rightarrow> u32 \<Rightarrow> 'w \<Rightarrow> retcode \<times> 'w" where
  "TidyUpRight env h choice w =
     (if choice = TIGHT_UP_USB_RIGHT_RECORD_NONE then (Code USB_RIGHT_NOP, w)
      else if choice OR TIGHT_UP_USB_RIGHT_RECORD_ALL \<noteq> TIGHT_UP_USB_RIGHT_RECORD_ALL
      then (UEC_SERVICE_INVALID_VALUE, w)
      else let uid = GetCurrentUserId env w in
        if uid = USB_RIGHT_USERID_CONSOLE then (Code 1, w)
        else let r1 = chosen choice TIGHT_UP_USB_RIGHT_RECORD_APP_UNINSTALLED
               (CleanUpRightAppUninstalled env h uid) (0, w);
             r2 = chosen choice TIGHT_UP_USB_RIGHT_RECORD_USER_DELETED (CleanUpRightUserDeleted env h) r1;
             r3 = chosen choice TIGHT_UP_USB_RIGHT_RECORD_EXPIRED (CleanUpRightNormalExpired env h uid) r2;
             r4 = chosen choice TIGHT_UP_USB_RIGHT_RECORD_APP_REINSTALLED
               (CleanUpRightAppReinstalled env h uid) r3
        in (ret_of_int (fst r4), snd r4))"

subsection \<open>Checking, granting and withdrawing\<close>

definition HasRight :: "'w right_env \<Rightarrow> 'w right_helper \<Rightarrow> string \<Rightarrow> string \<Rightarrow> string \<Rightarrow> int \<Rightarrow> 'w \<Rightarrow> bool \<times> 'w" where
  "HasRight env h deviceName bundleName tokenId userId w =
     (if userId = USB_RIGHT_USERID_CONSOLE then (True, w)
      else (case env_now env w of (nowTime, w1) \<Rightarrow>
        (case TidyUpRight env h TIGHT_UP_USB_RIGHT_RECORD_EXPIRED w1 of (ret, w2) \<Rightarrow>
          (case IsRecordExpiredQuery h userId deviceName bundleName tokenId nowTime w2 of (expired, w3) \<Rightarrow>
            (\<not> expired, w3)))))"

text \<open>The common part of the two \<^verbatim>\<open>AddDeviceRight\<close>: three readings of the clock.\<close>

definition add_right :: "'w right_env \<Rightarrow> 'w right_helper \<Rightarrow> string \<Rightarrow> string \<Rightarrow> string \<Rightarrow> int \<Rightarrow> 'w \<Rightarrow> bool \<times> 'w" where
  "add_right env h deviceName bundleName tokenId uid w =
     (case env_now env w of (t1, w1) \<Rightarrow>
      (case env_now env w1 of (t2, w2) \<Rightarrow>
       let (installTime, updateTime) = or_else (GetBundleInstallAndUpdateTime env uid bundleName w2) (t1, t2)
       in (case env_now env w2 of (requestTime, w3) \<Rightarrow>
         let info = \<lparr>info_primaryKeyId = 0, info_uid = uid, info_installTime = installTime,
               info_updateTime = updateTime, info_requestTime = requestTime,
               info_validPeriod = USB_RIGHT_VALID_PERIOD_SET\<rparr>
         in (case AddOrUpdateRightRecord h uid deviceName bundleName tokenId info w3 of (ret, w4) \<Rightarrow>
           (\<not> ret < 0, w4)))))"

definition AddDeviceRightToken :: "'w right_env \<Rightarrow> 'w right_helper \<Rightarrow> string \<Rightarrow> string \<Rightarrow> 'w \<Rightarrow> bool \<times> 'w" where
  "AddDeviceRightToken env h deviceName tokenIdStr w =
     (if \<not> IsAllDigits tokenIdStr then (False, w)
      else if \<not> IsWithinUint64Range tokenIdStr then (False, w)
      else (case env_GetHapTokenInfo env (word_of_nat (dec_value tokenIdStr)) w of None \<Rightarrow> (False, w)
        | Some (uid, bundleName) \<Rightarrow>
          if uid = USB_RIGHT_USERID_CONSOLE then (True, w)
          else add_right env h deviceName bundleName tokenIdStr uid w))"

definition AddDeviceRight :: "'w right_env \<Rightarrow> 'w right_helper \<Rightarrow> string \<Rightarrow> string \<Rightarrow> string \<Rightarrow> int \<Rightarrow> 'w \<Rightarrow>
    bool \<times> 'w" where
  "AddDeviceRight env h deviceName bundleName tokenId userId w =
     (if userId = USB_RIGHT_USERID_CONSOLE then (True, w)
      else add_right env h deviceName bundleName tokenId userId w)"

definition RemoveDeviceRight :: "'w right_helper \<Rightarrow> string \<Rightarrow> string \<Rightarrow> string \<Rightarrow> int \<Rightarrow> 'w \<Rightarrow> bool \<times> 'w" where
  "RemoveDeviceRight h deviceName bundleName tokenId userId w =
     (if userId = USB_RIGHT_USERID_CONSOLE then (True, w)
      else (case DeleteRightRecord h userId deviceName bundleName tokenId w of (ret, w1) \<Rightarrow> (\<not> ret < 0, w1)))"

definition CancelDeviceRight :: "'w right_helper \<Rightarrow> string \<Rightarrow> string \<Rightarrow> string \<Rightarrow> int \<Rightarrow> 'w \<Rightarrow> retcode \<times> 'w" where
  "CancelDeviceRight h deviceName bundleName tokenId userId w =
     (if userId = USB_RIGHT_USERID_CONSOLE then (UEC_SERVICE_INVALID_VALUE, w)
      else (case DeleteRightRecord h userId deviceName bundleName tokenId w of (ret, w1) \<Rightarrow> (UEC_OK, w1)))"

subsection \<open>The dialog\<close>

definition ConnectAbility :: "'w right_env \<Rightarrow> int \<Rightarrow> right_manager \<Rightarrow> 'w \<Rightarrow> int \<times> right_manager \<times> 'w" where
  "ConnectAbility env userId m w =
     (let m1 = m\<lparr>usbAbilityConn := True\<rparr> in
      if \<not> env_AbilityManager env w then (USB_RIGHT_FAILURE, m1, w)
      else (case env_ConnectAbility env ''com.ohos.sceneboard'' ''com.ohos.sceneboard.systemdialog'' userId w of
        (ret, w1) \<Rightarrow>
          if ret \<noteq> 0 then
            (case env_ConnectAbility env ''com.ohos.systemui'' ''com.ohos.systemui.dialog'' userId w1 of
              (ret, w2) \<Rightarrow> if ret \<noteq> 0 then (ret, m1\<lparr>usbAbilityConn := False\<rparr>, w2) else (USB_RIGHT_OK, m1, w2))
          else (USB_RIGHT_OK, m1, w1)))"

definition UnShowUsbDialog :: "'w right_env \<Rightarrow> right_manager \<Rightarrow> 'w \<Rightarrow> bool \<times> 'w" where
  "UnShowUsbDialog env m w =
     (if \<not> usbAbilityConn m then (True, w)
      else if \<not> env_AbilityManager env w then (False, w)
      else (case env_DisconnectAbility env (env_CloseDialog env w) of (ret, w1) \<Rightarrow> (ret = 0, w1)))"

definition set_params :: "(string \<times> string) list \<Rightarrow> right_manager \<Rightarrow> right_manager" where
  "set_params kvs m = m\<lparr>usbDialogParams := foldl (\<lambda>p (k, v). omap_put k v p) [] kvs\<rparr>"

text \<open>The end of every dialog: connect, then wait until the user has closed it.\<close>

definition show_dialog :: "'w right_env \<Rightarrow> int \<Rightarrow> right_manager \<Rightarrow> 'w \<Rightarrow> bool \<times> right_manager \<times> 'w" where
  "show_dialog env userId m w =
     (case ConnectAbility env userId m w of (ret, m1, w1) \<Rightarrow>
        if ret \<noteq> 0 then (False, m1, w1)
        else (True, m1, env_wait_dialog env (usbDialogParams m1) w1))"

definition ShowUsbDialog :: "'w right_env \<Rightarrow> (string \<Rightarrow> 'w \<Rightarrow> string option) \<Rightarrow> string \<Rightarrow> string \<Rightarrow> string \<Rightarrow>
    string \<Rightarrow> int \<Rightarrow> right_manager \<Rightarrow> 'w \<Rightarrow> bool \<times> right_manager \<times> 'w" where
  "ShowUsbDialog env GetProductName busDev deviceName bundleName tokenId userId m w =
     show_dialog env userId (set_params
       [(''bundleName'', bundleName), (''deviceName'', busDev), (''tokenId'', tokenId),
        (''appName'', or_else (GetAppName env bundleName w) bundleName),
        (''productName'', or_else (GetProductName busDev w) busDev)] m) w"

definition ShowAccessoryDialog :: "'w right_env \<Rightarrow> USBAccessory \<Rightarrow> string \<Rightarrow> string \<Rightarrow> string \<Rightarrow>
    right_manager \<Rightarrow> 'w \<Rightarrow> bool \<times> right_manager \<times> 'w" where
  "ShowAccessoryDialog env access seriaValue bundleName tokenId m w =
     show_dialog env USB_RIGHT_USERID_INVALID (set_params
       [(''bundleName'', bundleName), (''deviceName'', seriaValue), (''tokenId'', tokenId),
        (''appName'', or_else (GetAppName env bundleName w) bundleName),
        (''productName'', acc_product access), (''accessory'', env_json env access)] m) w"

definition ShowSerialDialog :: "'w right_env \<Rightarrow> int \<Rightarrow> u32 \<Rightarrow> string \<Rightarrow> string \<Rightarrow>
    right_manager \<Rightarrow> 'w \<Rightarrow> bool \<times> right_manager \<times> 'w" where
  "ShowSerialDialog env portId tokenId bundleName busDev m w =
     (let castId = sint tokenId in
      if castId < 0 then (False, m, w)
      else show_dialog env USB_RIGHT_USERID_INVALID (set_params
        [(''portId'', to_string portId), (''tokenId'', to_string castId),
         (''bundleName'', ''com.example.serial''), (''deviceName'', ''1-1''),
         (''appName'', or_else (GetAppName env bundleName w) bundleName),
         (''productName'', ''COM'' @ to_string portId)] m) w)"

subsection \<open>Requests\<close>

text \<open>After the dialog the right is checked again: only a record grants it.\<close>

definition after_dialog :: "'w right_env \<Rightarrow> 'w right_helper \<Rightarrow> string \<Rightarrow> string \<Rightarrow> string \<Rightarrow> int \<Rightarrow>
    bool \<times> right_manager \<times> 'w \<Rightarrow> bool \<times> right_manager \<times> 'w" where
  "after_dialog env h deviceName bundleName tokenId userId shown =
     (case shown of (ok, m, w) \<Rightarrow>
        if \<not> ok then (False, m, w)
        else (case HasRight env h deviceName bundleName tokenId userId w of (r, w1) \<Rightarrow> (r, m, w1)))"

definition GetUserAgreementByDiag :: "'w right_env \<Rightarrow> 'w right_helper \<Rightarrow> (string \<Rightarrow> 'w \<Rightarrow> string option) \<Rightarrow>
    string \<Rightarrow> string \<Rightarrow> string \<Rightarrow> string \<Rightarrow> int \<Rightarrow> right_manager \<Rightarrow> 'w \<Rightarrow> bool \<times> right_manager \<times> 'w" where
  "GetUserAgreementByDiag env h GetProductName busDev deviceName bundleName tokenId userId m w =
     after_dialog env h deviceName bundleName tokenId userId
       (ShowUsbDialog env GetProductName busDev deviceName bundleName tokenId userId m w)"

definition GetUserAgreementByDiagAccessory :: "'w right_env \<Rightarrow> 'w right_helper \<Rightarrow> USBAccessory \<Rightarrow> string \<Rightarrow>
    string \<Rightarrow> string \<Rightarrow> int \<Rightarrow> right_manager \<Rightarrow> 'w \<Rightarrow> bool \<times> right_manager \<times> 'w" where
  "GetUserAgreementByDiagAccessory env h access seriaValue bundleName tokenId userId m w =
     after_dialog env h seriaValue bundleName tokenId userId
       (ShowAccessoryDialog env access seriaValue bundleName tokenId m w)"

text \<open>\<open>None\<close> is the exception of \<^verbatim>\<open>std::stoul\<close> on a number out of range.\<close>

definition GetUserAgreementByDiagSerial :: "'w right_env \<Rightarrow> 'w right_helper \<Rightarrow> int \<Rightarrow> SerialDeviceIdentity \<Rightarrow>
    string \<Rightarrow> string \<Rightarrow> int \<Rightarrow> right_manager \<Rightarrow> 'w \<Rightarrow> (bool \<times> right_manager \<times> 'w) option" where
  "GetUserAgreementByDiagSerial env h portId ident bundleName tokenId userId m w =
     (if \<not> (tokenId \<noteq> [] \<and> list_all is_digit tokenId) then Some (False, m, w)
      else (case strtoull tokenId of None \<Rightarrow> None
        | Some n \<Rightarrow> Some (after_dialog env h (sid_deviceName ident) bundleName tokenId userId
            (ShowSerialDialog env portId (word_of_nat n) bundleName (sid_busDev ident) m w))))"

definition RequestRight :: "'w right_env \<Rightarrow> 'w right_helper \<Rightarrow> (string \<Rightarrow> 'w \<Rightarrow> string option) \<Rightarrow>
    string \<Rightarrow> string \<Rightarrow> string \<Rightarrow> string \<Rightarrow> int \<Rightarrow> right_manager \<Rightarrow> 'w \<Rightarrow> retcode \<times> right_manager \<times> 'w" where
  "RequestRight env h GetProductName busDev deviceName bundleName tokenId userId m w =
     (case HasRight env h deviceName bundleName tokenId userId w of (r, w1) \<Rightarrow>
        if r then (UEC_OK, m, w1)
        else (case GetUserAgreementByDiag env h GetProductName busDev deviceName bundleName tokenId userId m w1 of
          (agreed, m2, w2) \<Rightarrow> (if \<not> agreed then UEC_SERVICE_PERMISSION_DENIED else UEC_OK, m2, w2)))"

definition RequestRightAccessory :: "'w right_env \<Rightarrow> 'w right_helper \<Rightarrow> USBAccessory \<Rightarrow> string \<Rightarrow> string \<Rightarrow>
    string \<Rightarrow> int \<Rightarrow> right_manager \<Rightarrow> 'w \<Rightarrow> retcode \<times> bool \<times> right_manager \<times> 'w" where
  "RequestRightAccessory env h access seriaValue bundleName tokenId userId m w =
     (case HasRight env h seriaValue bundleName tokenId userId w of (r, w1) \<Rightarrow>
        if r then (UEC_OK, True, m, w1)
        else (case GetUserAgreementByDiagAccessory env h access seriaValue bundleName tokenId userId m w1 of
          (agreed, m2, w2) \<Rightarrow> (UEC_OK, agreed, m2, w2)))"

definition RequestRightSerial :: "'w right_env \<Rightarrow> 'w right_helper \<Rightarrow> int \<Rightarrow> SerialDeviceIdentity \<Rightarrow> string \<Rightarrow>
    string \<Rightarrow> int \<Rightarrow> right_manager \<Rightarrow> 'w \<Rightarrow> (retcode \<times> right_manager \<times> 'w) option" where
  "RequestRightSerial env h portId ident bundleName tokenId userId m w =
     (case HasRight env h (sid_deviceName ident) bundleName tokenId userId w of (r, w1) \<Rightarrow>
        if r then Some (UEC_OK, m, w1)
        else (case GetUserAgreementByDiagSerial env h portId ident bundleName tokenId userId m w1 of None \<Rightarrow> None
          | Some (agreed, m2, w2) \<Rightarrow> Some (if \<not> agreed then UEC_SERVICE_PERMISSION_DENIED else UEC_OK, m2, w2)))"

definition RemoveDeviceAllRight :: "'w right_env \<Rightarrow> 'w right_helper \<Rightarrow> string \<Rightarrow> right_manager \<Rightarrow> 'w \<Rightarrow> bool \<times> 'w" where
  "RemoveDeviceAllRight env h deviceName m w =
     (let w1 = snd (CleanUpRightTemporaryExpired h deviceName w);
          w2 = snd (TidyUpRight env h TIGHT_UP_USB_RIGHT_RECORD_ALL w1);
          w3 = snd (UnShowUsbDialog env m w2)
      in (True, w3))"

subsection \<open>System events\<close>

datatype right_event = PACKAGE_REMOVED | BUNDLE_REMOVED | PACKAGE_FULLY_REMOVED | UID_REMOVED | USER_REMOVED
  | USER_STOPPED | DATA_SHARE_READY | POWER_CONNECTED | POWER_DISCONNECTED | USER_SWITCHED | OTHER_EVENT string

datatype service_call = InitSettingsDataHdcStatus | SetPhyConnect bool | CallUserChangeProcess

text \<open>The event's parameter \<^verbatim>\<open>userId\<close> may be missing; the calls to the service are returned.\<close>

definition OnReceiveEvent :: "'w right_env \<Rightarrow> 'w right_helper \<Rightarrow> right_event \<Rightarrow> int option \<Rightarrow> string \<Rightarrow> int \<Rightarrow> 'w \<Rightarrow>
    service_call list \<times> 'w" where
  "OnReceiveEvent env h wantAction userId bundleName code w =
     (if wantAction = PACKAGE_REMOVED \<or> wantAction = BUNDLE_REMOVED \<or> wantAction = PACKAGE_FULLY_REMOVED
      then ([], snd (CleanUpRightAppUninstalledBundle h (or_else userId USB_RIGHT_USERID_DEFAULT) bundleName w))
      else if wantAction = UID_REMOVED \<or> wantAction = USER_REMOVED
      then ([], snd (CleanUpRightUserDeleted env h w))
      else if wantAction = USER_STOPPED then ([], snd (CleanUpRightUserStopped h code w))
      else if wantAction = DATA_SHARE_READY then ([InitSettingsDataHdcStatus], w)
      else if wantAction = POWER_CONNECTED \<or> wantAction = POWER_DISCONNECTED
      then ([SetPhyConnect (wantAction = POWER_CONNECTED)], w)
      else if wantAction = USER_SWITCHED then ([CallUserChangeProcess], w)
      else ([], w))"

fun subscribe :: "'w right_env \<Rightarrow> nat \<Rightarrow> 'w \<Rightarrow> retcode \<times> 'w" where
  "subscribe env 0 w = (UEC_SERVICE_INNER_ERR, w)"
| "subscribe env (Suc n) w = (case env_SubscribeCommonEvent env w of (ok, w1) \<Rightarrow>
     if \<not> ok then subscribe env n w1 else (UEC_OK, w1))"

definition right_Init :: "'w right_env \<Rightarrow> 'w \<Rightarrow> retcode \<times> 'w" where
  "right_Init env w = subscribe env MAX_RETRY_TIMES w"


subsection \<open>The contract of withdrawing operations\<close>

text \<open>Reading the clock does not touch the table.\<close>

definition clock_law :: "'w right_env \<Rightarrow> 'w rdb_view \<Rightarrow> bool" where
  "clock_law env v \<longleftrightarrow> (\<forall>w t w'. env_now env w = (t, w') \<longrightarrow> unchanged v w w')"

definition ready :: "'w right_env \<Rightarrow> 'w right_helper \<Rightarrow> 'w rdb_view \<Rightarrow> bool" where
  "ready env h v \<longleftrightarrow> clock_law env v \<and> (\<exists>st. rightDatabase h = Some (Some st) \<and> rdb_law st v)"

definition withdraws :: "'w rdb_view \<Rightarrow> 'w \<Rightarrow> 'w \<Rightarrow> bool" where
  "withdraws v w w' \<longleftrightarrow> saved v w' = None \<and> set (table v w') \<subseteq> set (table v w)"

lemma withdraws_refl: "saved v w = None \<Longrightarrow> withdraws v w w"
  by (simp add: withdraws_def)

lemma withdraws_trans: "withdraws v w w1 \<Longrightarrow> withdraws v w1 w2 \<Longrightarrow> withdraws v w w2"
  by (auto simp: withdraws_def)

lemma withdraws_closed: "withdraws v w w' \<Longrightarrow> saved v w' = None"
  by (simp add: withdraws_def)

lemma unchanged_withdraws: "unchanged v w w' \<Longrightarrow> saved v w = None \<Longrightarrow> withdraws v w w'"
  by (simp add: withdraws_def unchanged_def)

lemma clock_unchanged: "ready env h v \<Longrightarrow> unchanged v w (snd (env_now env w))"
  by (cases "env_now env w") (auto simp: ready_def clock_law_def)

locale right_cleanup =
  fixes op :: "'w right_env \<Rightarrow> 'w right_helper \<Rightarrow> 'w \<Rightarrow> 'w"
  assumes only_withdraws: "ready env h v \<Longrightarrow> saved v w = None \<Longrightarrow> withdraws v w (op env h w)"
begin

text \<open>No operation of the contract can grant a right that was not there.\<close>

lemma grants_nothing:
  "ready env h v \<Longrightarrow> saved v w = None \<Longrightarrow> \<not> list_ex P (table v w) \<Longrightarrow> \<not> list_ex P (table v (op env h w))"
  using only_withdraws [of env h v w] by (auto simp: withdraws_def list_ex_iff)

lemma closed: "ready env h v \<Longrightarrow> saved v w = None \<Longrightarrow> saved v (op env h w) = None"
  using only_withdraws by (rule withdraws_closed)

end

interpretation delete_clause: right_cleanup "\<lambda>env h w. snd (DeleteAndNoOtherOperation h clause args w)"
  for clause args
proof
  fix env :: "'w right_env" and h v w
  assume r: "ready env h v" and w: "saved v w = None"
  from r obtain st where st: "rightDatabase h = Some (Some st)" "rdb_law st v" by (auto simp: ready_def)
  from delete_where.atomic [OF st(2,1) w surjective_pairing, of clause args]
  show "withdraws v w (snd (DeleteAndNoOtherOperation h clause args w))"
    by (auto simp: withdraws_def delete_effect_def)
qed

interpretation delete_predicates: right_cleanup "\<lambda>env h w. snd (DeleteAndNoOtherOperationPredicates h preds w)"
  for preds
proof
  fix env :: "'w right_env" and h v w
  assume r: "ready env h v" and w: "saved v w = None"
  from r obtain st where st: "rightDatabase h = Some (Some st)" "rdb_law st v" by (auto simp: ready_def)
  from delete_matching.atomic [OF st(2,1) w surjective_pairing, of preds]
  show "withdraws v w (snd (DeleteAndNoOtherOperationPredicates h preds w))"
    by (auto simp: withdraws_def delete_effect_def)
qed

lemmas delete_defs = DeleteRightRecord_def DeleteAppRightRecord_def DeleteAppsRightRecord_def
  DeleteUidRightRecord_def DeleteNormalExpiredRightRecord_def DeleteValidPeriodRightRecord_def

lemma deletes_withdraw:
  assumes "ready env h v" and "saved v w = None"
  shows "withdraws v w (snd (DeleteRightRecord h uid dev app tok w))"
    and "withdraws v w (snd (DeleteAppRightRecord h uid app w))"
    and "withdraws v w (snd (DeleteAppsRightRecord h uid apps w))"
    and "withdraws v w (snd (DeleteUidRightRecord h uid w))"
    and "withdraws v w (snd (DeleteNormalExpiredRightRecord h uid now w))"
    and "withdraws v w (snd (DeleteValidPeriodRightRecord h p dev w))"
  unfolding delete_defs
  using assms by (blast intro: delete_clause.only_withdraws delete_predicates.only_withdraws)+

subsection \<open>Queries leave the table\<close>

lemma query_unchanged:
  assumes "ready env h v" and "saved v w = None" and "rightDatabase h = Some db"
    and "query_in_transaction db preds columns w = (res, w')"
  shows "saved v w' = None \<and> table v w' = table v w"
  using assms query_step by (fastforce simp: ready_def)

lemma QueryAndGetResult_unchanged:
  assumes "ready env h v" and "saved v w = None" and "QueryAndGetResult h preds columns w = (n, infos, w')"
  shows "unchanged v w w'"
proof -
  obtain db where db: "rightDatabase h = Some db" using assms(1) by (auto simp: ready_def)
  obtain res w1 where q: "query_in_transaction db preds columns w = (res, w1)" by (metis surj_pair)
  have "w' = w1" using assms(3) db q by (auto simp: QueryAndGetResult_def split: sum.splits prod.splits)
  with query_unchanged [OF assms(1,2) db q] assms(2) show ?thesis by (simp add: unchanged_def)
qed

lemma QueryAndGetResultColumnValues_unchanged:
  assumes "ready env h v" and "saved v w = None"
    and "QueryAndGetResultColumnValues h preds columns c w = (n, vals, w')"
  shows "unchanged v w w'"
proof -
  obtain db where db: "rightDatabase h = Some db" using assms(1) by (auto simp: ready_def)
  obtain res w1 where q: "query_in_transaction db preds columns w = (res, w1)" by (metis surj_pair)
  have "w' = w1" using assms(3) db q
    by (auto simp: QueryAndGetResultColumnValues_def split: sum.splits prod.splits option.splits)
  with query_unchanged [OF assms(1,2) db q] assms(2) show ?thesis by (simp add: unchanged_def)
qed

lemma queries_withdraw:
  assumes "ready env h v" and "saved v w = None"
  shows "QueryRightRecordApps h uid w = (n, vals, w') \<Longrightarrow> withdraws v w w'"
    and "QueryRightRecordUids h w = (n, vals, w') \<Longrightarrow> withdraws v w w'"
    and "QueryAppRightRecord h uid app w = (n, infos, w') \<Longrightarrow> withdraws v w w'"
    and "QueryRightRecord h uid dev app tok w = (n, infos, w') \<Longrightarrow> withdraws v w w'"
  unfolding QueryRightRecordApps_def QueryRightRecordUids_def QueryAppRightRecord_def QueryRightRecord_def
  using assms by (blast intro: unchanged_withdraws QueryAndGetResult_unchanged
      QueryAndGetResultColumnValues_unchanged)+

subsection \<open>Every clean-up only withdraws\<close>

lemma clean_devices_withdraws:
  "ready env h v \<Longrightarrow> saved v w = None \<Longrightarrow> withdraws v w (clean_devices h devs w)"
proof (induction devs arbitrary: w)
  case Nil
  then show ?case by (simp add: withdraws_refl)
next
  case (Cons d devs)
  have "withdraws v w (snd (CleanUpRightTemporaryExpired h d w))"
    unfolding CleanUpRightTemporaryExpired_def using Cons.prems by (rule deletes_withdraw)
  with Cons show ?case using withdraws_trans withdraws_closed by fastforce
qed

lemma clean_apps_withdraws:
  "ready env h v \<Longrightarrow> saved v w = None \<Longrightarrow> withdraws v w (snd (snd (clean_apps env h uid apps ret n w)))"
proof (induction env h uid apps ret n w rule: clean_apps.induct)
  case (1 env h uid ret n w)
  then show ?case by (simp add: withdraws_refl)
next
  case (2 env h uid app apps ret n w)
  obtain r w1 where d: "DeleteAppRightRecord h uid app w = (r, w1)" by (metis surj_pair)
  with deletes_withdraw(2) [OF 2(3,4), of uid app] have w1: "withdraws v w w1" by simp
  show ?case
  proof (cases "IsAppInstalled env uid app w")
    case True
    with 2 show ?thesis by simp
  next
    case False
    with 2(2) [OF False d [symmetric] 2(3)] d w1 withdraws_trans [OF w1] withdraws_closed [OF w1]
    show ?thesis by simp
  qed
qed

lemma reinstalled_apps_withdraws:
  "ready env h v \<Longrightarrow> saved v w = None \<Longrightarrow> withdraws v w (snd (reinstalled_apps env h uid apps names w))"
proof (induction apps arbitrary: names w)
  case Nil
  then show ?case by (simp add: withdraws_refl)
next
  case (Cons app apps)
  obtain n infos w1 where q: "QueryAppRightRecord h uid app w = (n, infos, w1)" by (metis surj_pair)
  with queries_withdraw(3) [OF Cons.prems] have w1: "withdraws v w w1" by blast
  with Cons.IH [OF Cons.prems(1) withdraws_closed [OF w1]] withdraws_trans [OF w1] q show ?case
    by (auto split: option.splits)
qed

lemma clean_users_withdraws:
  "ready env h v \<Longrightarrow> saved v w = None \<Longrightarrow> withdraws v w (snd (clean_users env h uids n w))"
proof (induction uids arbitrary: n w)
  case Nil
  then show ?case by (simp add: withdraws_refl)
next
  case (Cons s ss)
  have "withdraws v w (snd (clean_users env h ss m (snd (DeleteUidRightRecord h uid w))))" for uid m
  proof -
    have w1: "withdraws v w (snd (DeleteUidRightRecord h uid w))" using Cons.prems by (rule deletes_withdraw)
    from withdraws_trans [OF w1 Cons.IH [OF Cons.prems(1) withdraws_closed [OF w1]]] show ?thesis .
  qed
  with Cons.IH [OF Cons.prems] show ?case
    by (auto split: option.splits prod.splits)
qed

interpretation temporary_expired: right_cleanup "\<lambda>env h w. snd (CleanUpRightTemporaryExpired h dev w)" for dev
  by unfold_locales (simp add: CleanUpRightTemporaryExpired_def deletes_withdraw)

interpretation user_stopped: right_cleanup "\<lambda>env h w. snd (CleanUpRightUserStopped h uid w)" for uid
  by unfold_locales (simp add: CleanUpRightUserStopped_def deletes_withdraw)

interpretation normal_expired: right_cleanup "\<lambda>env h w. snd (CleanUpRightNormalExpired env h uid w)" for uid
proof
  fix env :: "'w right_env" and h v w
  assume r: "ready env h v" and w: "saved v w = None"
  have c: "withdraws v w (snd (env_now env w))" using clock_unchanged [OF r] w by (rule unchanged_withdraws)
  from withdraws_trans [OF c deletes_withdraw(5) [OF r withdraws_closed [OF c]]]
  show "withdraws v w (snd (CleanUpRightNormalExpired env h uid w))"
    by (simp add: CleanUpRightNormalExpired_def case_prod_beta)
qed

interpretation all_expired: right_cleanup "\<lambda>env h w. snd (CleanUpRightExpired env h devs w)" for devs
proof
  fix env :: "'w right_env" and h v w
  assume r: "ready env h v" and w: "saved v w = None"
  note c = clean_devices_withdraws [OF r w, of devs]
  from withdraws_trans [OF c normal_expired.only_withdraws [OF r withdraws_closed [OF c]]]
  show "withdraws v w (snd (CleanUpRightExpired env h devs w))"
    by (simp add: CleanUpRightExpired_def Let_def)
qed

interpretation app_uninstalled: right_cleanup "\<lambda>env h w. snd (CleanUpRightAppUninstalled env h uid w)" for uid
proof
  fix env :: "'w right_env" and h v w
  assume r: "ready env h v" and w: "saved v w = None"
  obtain n apps w1 where q: "QueryRightRecordApps h uid w = (n, apps, w1)" by (metis surj_pair)
  note c = queries_withdraw(1) [OF r w q]
  from withdraws_trans [OF c clean_apps_withdraws [OF r withdraws_closed [OF c]]] q c
  show "withdraws v w (snd (CleanUpRightAppUninstalled env h uid w))"
    by (simp add: CleanUpRightAppUninstalled_def case_prod_beta)
qed

interpretation bundle_uninstalled: right_cleanup "\<lambda>env h w. snd (CleanUpRightAppUninstalledBundle h uid app w)"
  for uid app
proof
  fix env :: "'w right_env" and h v w
  assume r: "ready env h v" and w: "saved v w = None"
  obtain n apps w1 where q: "QueryRightRecordApps h uid w = (n, apps, w1)" by (metis surj_pair)
  note c = queries_withdraw(1) [OF r w q]
  from withdraws_trans [OF c deletes_withdraw(2) [OF r withdraws_closed [OF c]]] q c
  show "withdraws v w (snd (CleanUpRightAppUninstalledBundle h uid app w))"
    by (simp add: CleanUpRightAppUninstalledBundle_def split: option.splits)
qed

interpretation app_reinstalled: right_cleanup "\<lambda>env h w. snd (CleanUpRightAppReinstalled env h uid w)" for uid
proof
  fix env :: "'w right_env" and h v w
  assume r: "ready env h v" and w: "saved v w = None"
  obtain n apps w1 where q: "QueryRightRecordApps h uid w = (n, apps, w1)" by (metis surj_pair)
  note c = queries_withdraw(1) [OF r w q]
  obtain names w2 where i: "reinstalled_apps env h uid (StringVectorSortAndUniq apps) [] w1 = (names, w2)"
    by (metis surj_pair)
  with reinstalled_apps_withdraws [OF r withdraws_closed [OF c], of uid "StringVectorSortAndUniq apps" "[]"]
  have "withdraws v w1 w2" by simp
  with c have c2: "withdraws v w w2" by (rule withdraws_trans)
  from withdraws_trans [OF c2 deletes_withdraw(3) [OF r withdraws_closed [OF c2]]] q c c2 i
  show "withdraws v w (snd (CleanUpRightAppReinstalled env h uid w))"
    by (simp add: CleanUpRightAppReinstalled_def split: option.splits)
qed

interpretation user_deleted: right_cleanup "\<lambda>env h w. snd (CleanUpRightUserDeleted env h w)"
proof
  fix env :: "'w right_env" and h v w
  assume r: "ready env h v" and w: "saved v w = None"
  obtain n uids w1 where q: "QueryRightRecordUids h w = (n, uids, w1)" by (metis surj_pair)
  note c = queries_withdraw(2) [OF r w q]
  from withdraws_trans [OF c clean_users_withdraws [OF r withdraws_closed [OF c]]] q c
  show "withdraws v w (snd (CleanUpRightUserDeleted env h w))"
    by (simp add: CleanUpRightUserDeleted_def)
qed

lemma chosen_withdraws:
  assumes "withdraws v w (snd rw)" and "\<And>w'. saved v w' = None \<Longrightarrow> withdraws v w' (snd (f w'))"
  shows "withdraws v w (snd (chosen choice bits f rw))"
  using assms(1) withdraws_trans [OF assms(1) assms(2) [OF withdraws_closed [OF assms(1)]]]
  by (simp add: chosen_def)

interpretation tidy_up: right_cleanup "\<lambda>env h w. snd (TidyUpRight env h choice w)" for choice
proof
  fix env :: "'w right_env" and h v w
  assume r: "ready env h v" and w: "saved v w = None"
  show "withdraws v w (snd (TidyUpRight env h choice w))"
    unfolding TidyUpRight_def Let_def
    by (auto intro!: chosen_withdraws withdraws_refl [OF w] app_uninstalled.only_withdraws [OF r]
        user_deleted.only_withdraws [OF r] normal_expired.only_withdraws [OF r]
        app_reinstalled.only_withdraws [OF r])
qed

interpretation has_right: right_cleanup "\<lambda>env h w. snd (HasRight env h dev app tok uid w)" for dev app tok uid
proof
  fix env :: "'w right_env" and h v w
  assume r: "ready env h v" and w: "saved v w = None"
  obtain t w1 where n: "env_now env w = (t, w1)" by (metis surj_pair)
  have c: "withdraws v w w1" using clock_unchanged [OF r, of w] n w by (simp add: unchanged_withdraws)
  obtain x w2 where t: "TidyUpRight env h TIGHT_UP_USB_RIGHT_RECORD_EXPIRED w1 = (x, w2)" by (metis surj_pair)
  have c2: "withdraws v w w2"
    using withdraws_trans [OF c tidy_up.only_withdraws [OF r withdraws_closed [OF c],
      of TIGHT_UP_USB_RIGHT_RECORD_EXPIRED]] t by simp
  obtain k infos w3 where q: "QueryRightRecord h uid dev app tok w2 = (k, infos, w3)" by (metis surj_pair)
  from withdraws_trans [OF c2 queries_withdraw(4) [OF r withdraws_closed [OF c2] q]] n t q withdraws_refl [OF w]
  show "withdraws v w (snd (HasRight env h dev app tok uid w))"
    by (simp add: HasRight_def IsRecordExpiredQuery_def)
qed


subsection \<open>What the check decides\<close>

text \<open>The steps of the check: a clock reading, the clean-up, the query of the records.\<close>

lemma HasRight_steps:
  assumes r: "ready env h v" and w: "saved v w = None" and u: "uid \<noteq> 0"
  obtains w2 n infos w3 where
    "QueryRightRecord h uid dev app tok w2 = (n, infos, w3)" and "withdraws v w w2"
    and "w2 = snd (TidyUpRight env h TIGHT_UP_USB_RIGHT_RECORD_EXPIRED (snd (env_now env w)))"
    and "HasRight env h dev app tok uid w =
      (\<not> (n \<le> 0 \<or> list_all (\<lambda>i. IsRecordExpired i (fst (env_now env w))) infos), w3)"
proof -
  let ?w1 = "snd (env_now env w)"
  let ?w2 = "snd (TidyUpRight env h TIGHT_UP_USB_RIGHT_RECORD_EXPIRED ?w1)"
  obtain n infos w3 where q: "QueryRightRecord h uid dev app tok ?w2 = (n, infos, w3)" by (metis surj_pair)
  have c: "withdraws v w ?w1" using clock_unchanged [OF r, of w] w by (simp add: unchanged_withdraws)
  have "withdraws v w ?w2"
    using withdraws_trans [OF c tidy_up.only_withdraws [OF r withdraws_closed [OF c]]] .
  moreover have "HasRight env h dev app tok uid w =
      (\<not> (n \<le> 0 \<or> list_all (\<lambda>i. IsRecordExpired i (fst (env_now env w))) infos), w3)"
    using q u by (simp add: HasRight_def IsRecordExpiredQuery_def case_prod_beta)
  ultimately show thesis using that q by blast
qed

lemma QueryRightRecord_rows:
  assumes "ready env h v" and "saved v w = None" and "QueryRightRecord h uid dev app tok w = (n, infos, w')"
  shows "n < 0 \<and> infos = [] \<or>
    infos = map info_of_row (filter (has_key uid dev app tok) (table v w)) \<and> n = int (length infos)"
proof -
  obtain st where "rightDatabase h = Some (Some st)" "rdb_law st v" using assms(1) by (auto simp: ready_def)
  from query_rows [OF this(2,1) assms(2) record_key_not_distinct assms(3) [unfolded QueryRightRecord_def]]
  show ?thesis by (simp add: has_key_predicates)
qed

text \<open>
  C3: a right is never invented. On every store that follows the law, whichever of its calls
  fail, \<^verbatim>\<open>HasRight\<close> answers yes to an ordinary user only when the table holds a record for
  exactly this user, device, application and token that has not expired when the clock was read.\<close>

theorem HasRight_sound:
  assumes "ready env h v" and "saved v w = None" and "uid \<noteq> USB_RIGHT_USERID_CONSOLE"
    and "fst (HasRight env h dev app tok uid w)"
  shows "\<exists>r \<in> set (table v w). has_key uid dev app tok r \<and>
    \<not> IsRecordExpired (info_of_row r) (fst (env_now env w))"
proof -
  from assms(3) have u: "uid \<noteq> 0" by simp
  from assms(1,2) u obtain w2 n infos w3 where q: "QueryRightRecord h uid dev app tok w2 = (n, infos, w3)"
    and c: "withdraws v w w2" and res: "HasRight env h dev app tok uid w =
      (\<not> (n \<le> 0 \<or> list_all (\<lambda>i. IsRecordExpired i (fst (env_now env w))) infos), w3)"
    by (rule HasRight_steps)
  from QueryRightRecord_rows [OF assms(1) withdraws_closed [OF c] q] res assms(4) c show ?thesis
    by (auto simp: list_all_iff withdraws_def)
qed

text \<open>A store whose calls all succeed, to state when the answer is yes.\<close>

definition reliable :: "'w rdb_store \<Rightarrow> bool" where
  "reliable st \<longleftrightarrow> (\<forall>w. fst (rdb_BeginTransaction st w) = 0) \<and> (\<forall>w. fst (rdb_Commit st w) = 0) \<and>
     (\<forall>clause args w. fst (rdb_Delete st clause args w) = 0) \<and>
     (\<forall>preds columns w. fst (rdb_Query st preds columns w) \<noteq> None)"

lemma reliable_query:
  assumes "reliable st"
  obtains rs w' where "query_in_transaction (Some st) preds columns w = (Inr rs, w')"
proof -
  obtain r1 w1 where b: "rdb_BeginTransaction st w = (r1, w1)" by (metis surj_pair)
  obtain o2 w2 where q: "rdb_Query st preds columns w1 = (o2, w2)" by (metis surj_pair)
  obtain r3 w3 where c: "rdb_Commit st w2 = (r3, w3)" by (metis surj_pair)
  have "r1 = 0" "r3 = 0" "o2 \<noteq> None"
    using assms b c q unfolding reliable_def by (metis fst_conv)+
  with b q c that show thesis
    by (auto simp: query_in_transaction_def BeginTransaction_def Commit_def Query_def code_of_def)
qed

lemma reliable_QueryRightRecord:
  assumes "reliable st" and "rightDatabase h = Some (Some st)" and "rdb_law st v" and "saved v w = None"
    and "QueryRightRecord h uid dev app tok w = (n, infos, w')"
  shows "infos = map info_of_row (filter (has_key uid dev app tok) (table v w)) \<and> n = int (length infos)"
proof -
  obtain rs w1 where q: "query_in_transaction (Some st) (record_key uid dev app tok) [] w = (Inr rs, w1)"
    using reliable_query [OF assms(1)] .
  from query_step [OF assms(3,4) q]
  have "represents rs all_columns (map (tuple []) (filter (has_key uid dev app tok) (table v w)))"
    by (simp add: selection_def Let_def has_key_predicates)
  from GetResultRightRecordEx_rows [OF this] q assms(2,5) show ?thesis
    by (auto simp: QueryRightRecord_def QueryAndGetResult_def)
qed

lemma TidyUpRight_expired_only:
  "TidyUpRight env h TIGHT_UP_USB_RIGHT_RECORD_EXPIRED w =
     (let uid = GetCurrentUserId env w in
      if uid = 0 then (Code 1, w)
      else case CleanUpRightNormalExpired env h uid w of (r, w1) \<Rightarrow> (ret_of_int r, w1))"
  by (simp add: TidyUpRight_def tidy_up_choices chosen_def Let_def case_prod_beta)


lemma TidyUpRight_keeps:
  assumes r: "ready env h v" and w: "saved v w = None" and row: "r \<in> set (table v w)" "grantable r"
    and valid: "\<not> IsRecordExpired (info_of_row r) (fst (env_now env w))"
  shows "r \<in> set (table v (snd (TidyUpRight env h TIGHT_UP_USB_RIGHT_RECORD_EXPIRED w)))"
proof (rule ccontr)
  assume gone: "\<not> ?thesis"
  obtain st where st: "rightDatabase h = Some (Some st)" "rdb_law st v" using r by (auto simp: ready_def)
  obtain t w1 where n: "env_now env w = (t, w1)" by (metis surj_pair)
  have c: "table v w1 = table v w" "saved v w1 = None"
    using clock_unchanged [OF r, of w] n w by (simp_all add: unchanged_def)
  let ?uid = "GetCurrentUserId env w"
  have "r \<notin> set (table v (snd (DeleteNormalExpiredRightRecord h ?uid t w1)))"
    using gone n row by (simp add: TidyUpRight_expired_only CleanUpRightNormalExpired_def Let_def case_prod_beta
        split: if_splits)
  with removed_is_expired [OF st(2,1) c(2) surjective_pairing] row c valid n show False by simp
qed

lemma HasRight_complete:
  assumes r: "ready env h v" and st: "rightDatabase h = Some (Some st)" "reliable st" and w: "saved v w = None"
    and row: "r \<in> set (table v w)" "grantable r" "has_key uid dev app tok r"
    and valid: "\<not> IsRecordExpired (info_of_row r) (fst (env_now env w))"
      "\<not> IsRecordExpired (info_of_row r) (fst (env_now env (snd (env_now env w))))"
  shows "fst (HasRight env h dev app tok uid w)"
proof (cases "uid = 0")
  case True
  then show ?thesis by (simp add: HasRight_def)
next
  case False
  with r w obtain w2 n infos w3 where q: "QueryRightRecord h uid dev app tok w2 = (n, infos, w3)"
    and c: "withdraws v w w2"
    and w2: "w2 = snd (TidyUpRight env h TIGHT_UP_USB_RIGHT_RECORD_EXPIRED (snd (env_now env w)))"
    and res: "HasRight env h dev app tok uid w =
      (\<not> (n \<le> 0 \<or> list_all (\<lambda>i. IsRecordExpired i (fst (env_now env w))) infos), w3)"
    by (rule HasRight_steps)
  have u: "unchanged v w (snd (env_now env w))" using clock_unchanged [OF r] .
  have "r \<in> set (table v w2)"
    unfolding w2 using u w row valid(2) by (intro TidyUpRight_keeps [OF r]) (simp_all add: unchanged_def)
  moreover have law: "rdb_law st v" using r st(1) by (auto simp: ready_def)
  ultimately have "info_of_row r \<in> set infos \<and> 0 < n"
    using reliable_QueryRightRecord [OF st(2,1) law withdraws_closed [OF c] q] row(3)
    by (auto simp: filter_empty_conv)
  with res valid(1) show ?thesis by (auto simp: list_all_iff)
qed


subsection \<open>Granting and withdrawing\<close>

text \<open>The third clock reading of a grant is its request time.\<close>

definition request_time :: "'w right_env \<Rightarrow> 'w \<Rightarrow> u64" where
  "request_time env w = fst (env_now env (snd (env_now env (snd (env_now env w)))))"

lemma sint_small: "rt < 2 ^ 63 \<Longrightarrow> sint (rt :: u64) = uint rt"
  using signed_take_bit_int_eq_self [of 63 "uint rt"] uint_ge_0 [of rt] by (simp add: sint_uint word_less_def)

text \<open>A record that was just granted is valid from its request time for the granted period.\<close>

lemma granted_row_valid:
  assumes "info_requestTime info = rt" and "info_validPeriod info = USB_RIGHT_VALID_PERIOD_SET" and "rt < 2 ^ 63"
    and "rt \<le> t" and "uint t < uint rt + uint USB_RIGHT_VALID_PERIOD_SET"
  shows "grantable (put_values info dev app tok r)"
    and "\<not> IsRecordExpired (info_of_row (put_values info dev app tok r)) t"
proof -
  have set: "sint USB_RIGHT_VALID_PERIOD_SET = uint USB_RIGHT_VALID_PERIOD_SET"
    by (simp add: valid_periods)
  have "uint rt < 2 ^ 63" using assms(3) by (simp add: word_less_def)
  then show "grantable (put_values info dev app tok r)"
    using assms(1,2) sint_small [OF assms(3)] set by (simp add: grantable_def put_values_def)
  have "uint (t - rt) = uint t - uint rt" using assms(4) by (simp add: uint_minus_simple_alt [symmetric])
  then have "t - rt < USB_RIGHT_VALID_PERIOD_SET" using assms(5) by (simp add: word_less_def)
  then show "\<not> IsRecordExpired (info_of_row (put_values info dev app tok r)) t"
    using assms(1,2,4) by (simp add: IsRecordExpired_def info_of_row_def put_values_def not_less)
qed

lemma add_right_row:
  assumes r: "ready env h v" and w: "saved v w = None" and run: "add_right env h dev app tok uid w = (True, w')"
  obtains info r0 where "put_values info dev app tok r0 \<in> set (table v w')" and "saved v w' = None"
    and "info_uid info = uid" and "info_requestTime info = request_time env w"
    and "info_validPeriod info = USB_RIGHT_VALID_PERIOD_SET"
proof -
  obtain st where st: "rightDatabase h = Some (Some st)" "rdb_law st v" using r by (auto simp: ready_def)
  let ?w1 = "snd (env_now env w)"
  let ?w2 = "snd (env_now env ?w1)"
  let ?w3 = "snd (env_now env ?w2)"
  have w3: "saved v ?w3 = None" using w clock_unchanged [OF r] by (simp add: unchanged_def)
  obtain it ut where times: "or_else (GetBundleInstallAndUpdateTime env uid app ?w2)
      (fst (env_now env w), fst (env_now env ?w1)) = (it, ut)" by (metis surj_pair)
  define info where "info = \<lparr>info_primaryKeyId = 0, info_uid = uid, info_installTime = it,
    info_updateTime = ut, info_requestTime = request_time env w, info_validPeriod = USB_RIGHT_VALID_PERIOD_SET\<rparr>"
  have uid: "info_uid info = uid" by (simp add: info_def)
  obtain ret x where x: "AddOrUpdateRightRecord h (info_uid info) dev app tok info ?w3 = (ret, x)"
    by (metis surj_pair)
  with run times have a: "AddOrUpdateRightRecord h (info_uid info) dev app tok info ?w3 = (ret, w')" "0 \<le> ret"
    by (auto simp: add_right_def case_prod_beta Let_def info_def request_time_def)
  from add_record.atomic [OF st(2,1) w3 a(1)] a(2)
  have e: "saved v w' = None" "put_effect dev app tok info (table v ?w3) (table v w')" by auto
  from put_effect_keys(2,3) [OF e(2)] obtain r0 where "put_values info dev app tok r0 \<in> set (table v w')"
    by (auto simp: list_ex_iff)
  with that [of info r0] e(1) show thesis by (simp add: info_def)
qed

lemma add_right_honoured:
  assumes "ready env h v" and "rightDatabase h = Some (Some st)" and "reliable st" and "saved v w = None"
    and "uid \<noteq> USB_RIGHT_USERID_CONSOLE" and "add_right env h dev app tok uid w = (True, w')"
    and "request_time env w < 2 ^ 63"
    and "\<forall>t \<in> {fst (env_now env w'), fst (env_now env (snd (env_now env w')))}.
      request_time env w \<le> t \<and> uint t < uint (request_time env w) + uint USB_RIGHT_VALID_PERIOD_SET"
  shows "fst (HasRight env h dev app tok uid w')"
proof -
  from assms(1,4,6) obtain info r0 where row: "put_values info dev app tok r0 \<in> set (table v w')"
    and c: "saved v w' = None" and info: "info_uid info = uid" "info_requestTime info = request_time env w"
      "info_validPeriod info = USB_RIGHT_VALID_PERIOD_SET"
    by (rule add_right_row)
  note valid = granted_row_valid [OF info(2,3) assms(7)]
  show ?thesis
    by (rule HasRight_complete [OF assms(1-3) c row]) (use valid assms(5,8) info(1) in auto)
qed

text \<open>
  C4: a grant is honoured until it ends. After a successful \<^verbatim>\<open>AddDeviceRight\<close> the check by
  the same user, application and token for the same device answers yes as long as the clock has not
  gone back behind the grant and less than \<^verbatim>\<open>USB_RIGHT_VALID_PERIOD_SET\<close> seconds have passed,
  although the check itself cleans up expired records first.\<close>

theorem grant_is_honoured:
  assumes "ready env h v" and "rightDatabase h = Some (Some st)" and "reliable st" and "saved v w = None"
    and "uid \<noteq> USB_RIGHT_USERID_CONSOLE"
    and "AddDeviceRight env h dev app tok uid w = (True, w')"
    and "request_time env w < 2 ^ 63"
    and "\<forall>t \<in> {fst (env_now env w'), fst (env_now env (snd (env_now env w')))}.
      request_time env w \<le> t \<and> uint t < uint (request_time env w) + uint USB_RIGHT_VALID_PERIOD_SET"
  shows "fst (HasRight env h dev app tok uid w')"
  using add_right_honoured [OF assms(1-5) _ assms(7,8)] assms(5,6) by (simp add: AddDeviceRight_def)

lemma DeleteRightRecord_gone:
  assumes "ready env h v" and "saved v w = None" and "DeleteRightRecord h uid dev app tok w = (ret, w')" and "0 \<le> ret"
  shows "saved v w' = None \<and> table v w' = filter (\<lambda>r. \<not> has_key uid dev app tok r) (table v w)"
proof -
  obtain st where st: "rightDatabase h = Some (Some st)" "rdb_law st v" using assms(1) by (auto simp: ready_def)
  from delete_where.atomic [OF st(2,1) assms(2) assms(3) [unfolded DeleteRightRecord_def]] assms(4)
  show ?thesis by (auto simp: delete_effect_def)
qed

lemma no_record_no_right:
  assumes "ready env h v" and "saved v w = None" and "uid \<noteq> 0" and "\<not> list_ex (has_key uid dev app tok) (table v w)"
  shows "\<not> fst (HasRight env h dev app tok uid w)"
proof
  assume y: "fst (HasRight env h dev app tok uid w)"
  from assms(1-3) obtain w2 n infos w3 where q: "QueryRightRecord h uid dev app tok w2 = (n, infos, w3)"
    and c: "withdraws v w w2" and res: "HasRight env h dev app tok uid w =
      (\<not> (n \<le> 0 \<or> list_all (\<lambda>i. IsRecordExpired i (fst (env_now env w))) infos), w3)"
    by (rule HasRight_steps)
  from QueryRightRecord_rows [OF assms(1) withdraws_closed [OF c] q] res y c assms(4) show False
    by (auto simp: list_all_iff list_ex_iff withdraws_def)
qed

text \<open>
  C15: a withdrawn right is gone. After \<^verbatim>\<open>RemoveDeviceRight\<close> has returned true for an
  ordinary user, the check for the same key answers no, whatever the clock says and whichever calls
  of the store fail; the records of every other key are still there.\<close>

theorem removed_right_is_gone:
  assumes "ready env h v" and "saved v w = None" and "uid \<noteq> USB_RIGHT_USERID_CONSOLE"
    and "RemoveDeviceRight h dev app tok uid w = (True, w')"
  shows "\<not> fst (HasRight env h dev app tok uid w') \<and>
    table v w' = filter (\<lambda>r. \<not> has_key uid dev app tok r) (table v w)"
proof -
  obtain ret where d: "DeleteRightRecord h uid dev app tok w = (ret, w')" "0 \<le> ret"
    using assms(3,4) by (auto simp: RemoveDeviceRight_def split: prod.splits)
  note g = DeleteRightRecord_gone [OF assms(1,2) d]
  from assms(3) have u: "uid \<noteq> 0" by simp
  from no_record_no_right [OF assms(1) _ u] g show ?thesis
    by (auto simp: list_ex_iff)
qed


subsection \<open>Requests\<close>

text \<open>Showing the dialog leaves no transaction open.\<close>

definition dialog_law :: "'w right_env \<Rightarrow> 'w rdb_view \<Rightarrow> bool" where
  "dialog_law env v \<longleftrightarrow>
     (\<forall>p w. saved v w = None \<longrightarrow> saved v (env_wait_dialog env p w) = None) \<and>
     (\<forall>b a u w. saved v w = None \<longrightarrow> saved v (snd (env_ConnectAbility env b a u w)) = None)"

definition on_record :: "'w rdb_view \<Rightarrow> string \<Rightarrow> string \<Rightarrow> string \<Rightarrow> int \<Rightarrow> 'w \<Rightarrow> bool" where
  "on_record v dev app tok uid w \<longleftrightarrow> saved v w = None \<and> list_ex (has_key uid dev app tok) (table v w)"

lemma HasRight_on_record:
  assumes "ready env h v" and "saved v w = None" and "uid \<noteq> 0" and "HasRight env h dev app tok uid w = (True, w')"
  shows "on_record v dev app tok uid w'"
proof -
  from assms(1-3) obtain w2 n infos w3 where q: "QueryRightRecord h uid dev app tok w2 = (n, infos, w3)"
    and c: "withdraws v w w2" and res: "HasRight env h dev app tok uid w =
      (\<not> (n \<le> 0 \<or> list_all (\<lambda>i. IsRecordExpired i (fst (env_now env w))) infos), w3)"
    by (rule HasRight_steps)
  have "unchanged v w2 w3"
    using QueryAndGetResult_unchanged [OF assms(1) withdraws_closed [OF c] q [unfolded QueryRightRecord_def]] .
  with QueryRightRecord_rows [OF assms(1) withdraws_closed [OF c] q] res assms(4) withdraws_closed [OF c] show ?thesis
    by (auto simp: on_record_def unchanged_def list_all_iff list_ex_iff)
qed

lemma show_dialog_closed:
  assumes "dialog_law env v" and "saved v w = None"
  shows "saved v (snd (snd (show_dialog env u m w))) = None"
proof -
  have "saved v (snd (snd (ConnectAbility env u m w))) = None"
    using assms by (simp add: dialog_law_def ConnectAbility_def Let_def case_prod_beta)
  with assms(1) show ?thesis by (simp add: dialog_law_def show_dialog_def case_prod_beta)
qed

lemma after_dialog_refused [simp]: "after_dialog env h dev app tok uid (False, m, w) = (False, m, w)"
  by (simp add: after_dialog_def)

lemma after_dialog_on_record:
  assumes "ready env h v" and "uid \<noteq> 0" and "after_dialog env h dev app tok uid shown = (True, m', w')"
    and "saved v (snd (snd shown)) = None"
  shows "on_record v dev app tok uid w'"
  using assms(3,4) HasRight_on_record [OF assms(1) _ assms(2)]
  by (auto simp: after_dialog_def split: prod.splits if_splits)

text \<open>
  C18: a request ends with a record. Whenever one of the three requests succeeds for an ordinary
  user (device, accessory or serial port), a record of exactly this user, device, application and
  token is in the table at the end; neither an opened dialog nor its closing grants anything.\<close>

theorem request_needs_record:
  assumes r: "ready env h v" and d: "dialog_law env v" and w: "saved v w = None"
    and u: "uid \<noteq> USB_RIGHT_USERID_CONSOLE"
  shows "(RequestRight env h names busDev dev app tok uid m w = (UEC_OK, m', w') \<longrightarrow>
      on_record v dev app tok uid w') \<and>
    (RequestRightAccessory env h acc dev app tok uid m w = (ret, True, m', w') \<longrightarrow>
      on_record v dev app tok uid w') \<and>
    (RequestRightSerial env h port ident app tok uid m w = Some (UEC_OK, m', w') \<longrightarrow>
      on_record v (sid_deviceName ident) app tok uid w')"
proof (intro conjI impI)
  from u have u0: "uid \<noteq> 0" by simp
  have closed: "HasRight env h e app tok uid w = (b, w1) \<Longrightarrow> saved v w1 = None" for e b w1
    using has_right.closed [OF r w, of e app tok uid] by simp
  note use = HasRight_on_record [OF r w u0] after_dialog_on_record [OF r u0] show_dialog_closed [OF d] closed
  show "on_record v dev app tok uid w'"
    if "RequestRight env h names busDev dev app tok uid m w = (UEC_OK, m', w')"
    using that by (auto simp: RequestRight_def GetUserAgreementByDiag_def ShowUsbDialog_def
        split: prod.splits if_splits intro: use)
  show "on_record v dev app tok uid w'"
    if "RequestRightAccessory env h acc dev app tok uid m w = (ret, True, m', w')"
    using that by (auto simp: RequestRightAccessory_def GetUserAgreementByDiagAccessory_def ShowAccessoryDialog_def
        split: prod.splits if_splits intro: use)
  show "on_record v (sid_deviceName ident) app tok uid w'"
    if "RequestRightSerial env h port ident app tok uid m w = Some (UEC_OK, m', w')"
    using that by (auto simp: RequestRightSerial_def GetUserAgreementByDiagSerial_def ShowSerialDialog_def Let_def
        split: prod.splits if_splits option.splits intro: use)
qed

subsection \<open>Applications that go away\<close>

lemma reliable_delete:
  assumes "ready env h v" and "rightDatabase h = Some (Some st)" and "reliable st" and "saved v w = None"
  shows "table v (snd (DeleteAndNoOtherOperation h clause args w)) =
    filter (\<lambda>r. \<not> clause_holds clause args r) (table v w)"
proof -
  have law: "rdb_law st v" using assms(1,2) by (auto simp: ready_def)
  obtain r1 w1 where b: "rdb_BeginTransaction st w = (r1, w1)" by (metis surj_pair)
  obtain r2 n w2 where d: "rdb_Delete st clause args w1 = (r2, n, w2)" by (metis surj_pair)
  obtain r3 w3 where c: "rdb_Commit st w2 = (r3, w3)" by (metis surj_pair)
  have z: "r1 = 0" "r2 = 0" "r3 = 0"
    using assms(3) b c d unfolding reliable_def by (metis fst_conv)+
  have "snd (DeleteAndNoOtherOperation h clause args w) = w3"
    using b c d z assms(2) by (simp add: DeleteAndNoOtherOperation_def BeginTransaction_def Delete_def Commit_def
        code_of_def)
  with law_begin [OF law b] law_delete [OF law d] law_commit [OF law c] z show ?thesis by simp
qed

lemma read_column_all:
  assumes "\<And>i. i < n \<Longrightarrow> rs_GoToRow rs (int i) \<and> \<not> rs_IsEnded rs (int i) \<and> rs_GetString rs (int i) 0 = Some (f i)"
  shows "i + k = n \<Longrightarrow> read_column rs 0 (int i) k False vs = Some (vs @ map f [i ..< n])"
proof (induction k arbitrary: i vs)
  case 0
  then show ?case by simp
next
  case (Suc k)
  then have i: "i < n" by simp
  with Suc.IH [of "Suc i" "vs @ [f i]"] Suc.prems assms [OF i] show ?case
    by (simp add: upt_conv_Cons [OF i] add.commute)
qed

lemma reliable_QueryRightRecordApps:
  assumes "ready env h v" and "rightDatabase h = Some (Some st)" and "reliable st" and "saved v w = None"
    and "QueryRightRecordApps h uid w = (n, apps, w')"
  shows "set apps = row_bundleName ` {r \<in> set (table v w). row_uid r = uid} \<and> n = int (length apps)"
proof -
  have law: "rdb_law st v" using assms(1,2) by (auto simp: ready_def)
  let ?preds = "[EqualTo ''uid'' (to_string uid), Distinct]"
  let ?ts = "remdups (map (\<lambda>r. [Some (VText (row_bundleName r))]) (filter (\<lambda>r. row_uid r = uid) (table v w)))"
  obtain rs w1 where q: "query_in_transaction (Some st) ?preds [''bundleName''] w = (Inr rs, w1)"
    using reliable_query [OF assms(3)] .
  have "tuple [''bundleName''] = (\<lambda>r. [Some (VText (row_bundleName r))])"
    by (simp add: fun_eq_iff tuple_def column_def)
  with query_step [OF law assms(4) q] have rep: "represents rs [''bundleName''] ?ts"
    by (simp add: selection_def Let_def)
  define f where "f i = (case ?ts ! i ! 0 of Some (VText s) \<Rightarrow> s | _ \<Rightarrow> [])" for i
  have cell: "\<exists>s. t = [Some (VText s)]" if "t \<in> set ?ts" for t using that by auto
  have "rs_GoToRow rs (int i) \<and> \<not> rs_IsEnded rs (int i) \<and> rs_GetString rs (int i) 0 = Some (f i)"
    if "i < length ?ts" for i
    using rep that cell [OF nth_mem [OF that]] by (auto simp: represents_def f_def)
  from read_column_all [of "length ?ts" rs f 0 "length ?ts" "[]", OF this]
  have col: "read_column rs 0 0 (length ?ts) False [] = Some (map f [0 ..< length ?ts])" by simp
  have "apps = map f [0 ..< length ?ts] \<and> n = int (length apps)"
    using assms(2,5) q col rep
    by (auto simp: QueryRightRecordApps_def QueryAndGetResultColumnValues_def GetColumnIndex_def represents_def)
  moreover have "map f [0 ..< length ?ts] = map (\<lambda>t. case t ! 0 of Some (VText s) \<Rightarrow> s | _ \<Rightarrow> []) ?ts"
    by (rule nth_equalityI) (simp_all add: f_def)
  ultimately show ?thesis by (auto simp: image_iff)
qed


lemma StringVectorFound_iff:
  "StringVectorFound ss x = Some i \<Longrightarrow> i < length ss \<and> ss ! i = x"
  "StringVectorFound ss x = None \<longleftrightarrow> x \<notin> set ss"
  by (induction ss arbitrary: i) (auto split: if_splits)

lemma bundle_uninstalled_table:
  assumes "ready env h v" and "rightDatabase h = Some (Some st)" and "reliable st" and "saved v w = None"
  shows "table v (snd (CleanUpRightAppUninstalledBundle h uid app w)) =
    filter (\<lambda>r. \<not> (row_uid r = uid \<and> row_bundleName r = app)) (table v w)"
proof -
  obtain n apps w1 where q: "QueryRightRecordApps h uid w = (n, apps, w1)" by (metis surj_pair)
  note a = reliable_QueryRightRecordApps [OF assms q]
  have u: "unchanged v w w1"
    using QueryAndGetResultColumnValues_unchanged [OF assms(1,4) q [unfolded QueryRightRecordApps_def]] .
  note d = reliable_delete [OF assms(1-3), of w1 "''uid = ? AND bundleName = ?''" "[to_string uid, app]"]
  show ?thesis
  proof (cases "app \<in> set apps")
    case True
    then obtain i where "StringVectorFound apps app = Some i" "apps ! i = app"
      using StringVectorFound_iff by (metis option.exhaust)
    moreover have "0 < n" using True a by (auto simp: image_iff dest: length_pos_if_in_set)
    ultimately show ?thesis using d u assms(4) q
      by (simp add: CleanUpRightAppUninstalledBundle_def DeleteAppRightRecord_def clause_app unchanged_def)
  next
    case False
    then have "StringVectorFound apps app = None" by (simp add: StringVectorFound_iff)
    moreover have "\<forall>r \<in> set (table v w). \<not> (row_uid r = uid \<and> row_bundleName r = app)"
      using False a by auto
    ultimately show ?thesis using u q
      by (simp add: CleanUpRightAppUninstalledBundle_def unchanged_def filter_id_conv)
  qed
qed

text \<open>
  An application that is removed loses its rights, and only these. Each of the three removal
  events deletes exactly the records of the named application and user (user 100 when the event
  names none).\<close>

theorem package_removed_withdraws:
  assumes "ready env h v" and "rightDatabase h = Some (Some st)" and "reliable st" and "saved v w = None"
    and "e \<in> {PACKAGE_REMOVED, BUNDLE_REMOVED, PACKAGE_FULLY_REMOVED}"
    and "OnReceiveEvent env h e userId app code w = (calls, w')"
  shows "table v w' = filter (\<lambda>r. \<not> (row_uid r = or_else userId USB_RIGHT_USERID_DEFAULT \<and>
    row_bundleName r = app)) (table v w) \<and> calls = []"
  using bundle_uninstalled_table [OF assms(1-4), of "or_else userId USB_RIGHT_USERID_DEFAULT" app] assms(5,6)
  by (auto simp: OnReceiveEvent_def)

text \<open>
  No event and no clean-up grants a right. Whatever the event, the clean-up choice, the
  device that went away and the failures of the store, a key without a record before has none
  after.\<close>

theorem cleanup_grants_nothing:
  assumes r: "ready env h v" and w: "saved v w = None" and no: "\<not> list_ex P (table v w)"
  shows "\<not> list_ex P (table v (snd (OnReceiveEvent env h e userId app code w))) \<and>
    \<not> list_ex P (table v (snd (TidyUpRight env h choice w))) \<and>
    \<not> list_ex P (table v (snd (CleanUpRightExpired env h devices w))) \<and>
    \<not> list_ex P (table v (snd (HasRight env h dev app tok uid w)))"
  using no user_stopped.grants_nothing [OF r w no] user_deleted.grants_nothing [OF r w no]
    bundle_uninstalled.grants_nothing [OF r w no] tidy_up.grants_nothing [OF r w no]
    all_expired.grants_nothing [OF r w no] has_right.grants_nothing [OF r w no]
  by (simp add: OnReceiveEvent_def)

text \<open>
  The serial dialog rejects half of the tokens. A token identifier is unsigned; from \<open>2 ^ 31\<close>
  on, the cast to a signed integer is negative, and a request for a serial port fails without asking
  the user, with nothing changed.\<close>

theorem serial_dialog_rejects_large_tokens:
  assumes "2 ^ 31 \<le> tokenId"
  shows "ShowSerialDialog env portId tokenId bundleName busDev m w = (False, m, w)"
proof -
  have "2 ^ 31 \<le> uint tokenId" "uint tokenId < 2 ^ 32"
    using assms uint_bounded [of tokenId] by (simp_all add: word_le_def)
  then have "sint tokenId < 0" using sint32_high [of "uint tokenId"] by simp
  then show ?thesis by (simp add: ShowSerialDialog_def)
qed

subsection \<open>An environment in memory\<close>

definition memory_env :: "u64 \<Rightarrow> int option \<Rightarrow> memory right_env" where
  "memory_env t user = \<lparr>env_now = (\<lambda>w. (t, w)), env_calling_user = (\<lambda>w. user),
     env_IsOsAccountExists = (\<lambda>i w. Some True), env_BundleMgr = (\<lambda>w. True),
     env_GetApplicationInfo = (\<lambda>b u w. True), env_GetBundleInfo = (\<lambda>b u w. Some (5, 5)),
     env_GetBundleResourceInfo = (\<lambda>b w. None), env_GetHapTokenInfo = (\<lambda>i w. None),
     env_GetParameter = (\<lambda>s w. Some ''true''), env_GetBoolParameter = (\<lambda>s b w. True),
     env_StrToInt = (\<lambda>s. parse_int s), env_AbilityManager = (\<lambda>w. True),
     env_ConnectAbility = (\<lambda>b a u w. (0, w)), env_wait_dialog = (\<lambda>p w. w), env_CloseDialog = (\<lambda>w. w),
     env_DisconnectAbility = (\<lambda>w. (0, w)), env_SubscribeCommonEvent = (\<lambda>w. (True, w)), env_json = (\<lambda>a. [])\<rparr>"

lemma memory_env_laws [simp]:
  "ready (memory_env t user) (memory_helper i c) memory_view" "dialog_law (memory_env t user) memory_view"
  "env_now (memory_env t user) w = (t, w)"
  by (simp_all add: ready_def clock_law_def dialog_law_def memory_env_def unchanged_def)

lemma memory_reliable [simp]: "reliable (memory_store i True)"
  by (simp add: reliable_def memory_store_def)


subsection \<open>Witnesses\<close>

definition sample_world :: memory where
  "sample_world = \<lparr>rows = [sample_row], backup = None\<rparr>"

lemma sample_world_simps [simp]: "rows sample_world = [sample_row]" "backup sample_world = None"
  by (simp_all add: sample_world_def)

lemma sample_has_right:
  "fst (HasRight (memory_env 100 (Some 100)) (memory_helper 1 True) ''1-2'' ''app'' ''t'' 100 sample_world)"
  by (rule HasRight_complete [OF memory_env_laws(1) memory_helper_database memory_reliable, of _ sample_row])
     (simp_all add: grantable_def has_key_def sample_row_def valid_periods IsRecordExpired_def info_of_row_def)

lemma HasRight_sound_witness: "has_key 100 ''1-2'' ''app'' ''t'' sample_row"
  using HasRight_sound [OF memory_env_laws(1) _ _ sample_has_right] by simp

lemma grant_is_honoured_witness:
  "fst (HasRight (memory_env 100 (Some 100)) (memory_helper 1 True) ''3-4'' ''app'' ''t'' 100
     (snd (AddDeviceRight (memory_env 100 (Some 100)) (memory_helper 1 True) ''3-4'' ''app'' ''t'' 100 sample_world)))"
proof -
  let ?r = "AddDeviceRight (memory_env 100 (Some 100)) (memory_helper 1 True) ''3-4'' ''app'' ''t'' 100 sample_world"
  have "fst ?r" by code_simp
  then have "?r = (True, snd ?r)" by (metis prod.collapse)
  from grant_is_honoured [OF memory_env_laws(1) memory_helper_database memory_reliable _ _ this] show ?thesis
    by (simp add: request_time_def valid_periods)
qed

lemma removed_right_is_gone_witness:
  "\<not> fst (HasRight (memory_env 100 (Some 100)) (memory_helper 1 True) ''1-2'' ''app'' ''t'' 100
     (snd (RemoveDeviceRight (memory_helper 1 True) ''1-2'' ''app'' ''t'' 100 sample_world)))"
proof -
  let ?r = "RemoveDeviceRight (memory_helper 1 True) ''1-2'' ''app'' ''t'' 100 sample_world"
  have "fst ?r" by code_simp
  then have "?r = (True, snd ?r)" by (metis prod.collapse)
  from removed_right_is_gone [OF memory_env_laws(1) _ _ this, of "100" "Some 100"] show ?thesis by simp
qed

lemma request_needs_record_witness: "\<exists>w'. on_record memory_view ''1-2'' ''app'' ''t'' 100 w'"
proof -
  let ?m = "\<lparr>usbAbilityConn = False, usbDialogParams = []\<rparr>"
  let ?env = "memory_env 100 (Some 100)"
  obtain w1 where "HasRight ?env (memory_helper 1 True) ''1-2'' ''app'' ''t'' 100 sample_world = (True, w1)"
    using sample_has_right by (cases "HasRight ?env (memory_helper 1 True) ''1-2'' ''app'' ''t'' 100 sample_world") auto
  then have "RequestRight ?env (memory_helper 1 True) (\<lambda>b w. None) ''5'' ''1-2'' ''app'' ''t'' 100 ?m sample_world =
      (UEC_OK, ?m, w1)"
    by (simp add: RequestRight_def)
  with request_needs_record [OF memory_env_laws(1,2), of sample_world 100] show ?thesis by fastforce
qed

lemma package_removed_withdraws_witness:
  "rows (snd (OnReceiveEvent (memory_env 100 (Some 100)) (memory_helper 1 True) PACKAGE_REMOVED None ''app'' 0
     sample_world)) = []"
  using package_removed_withdraws [OF memory_env_laws(1) memory_helper_database memory_reliable _ _ surjective_pairing,
      where w = sample_world and e = PACKAGE_REMOVED and userId = None and app = "''app''" and code = 0]
  by (simp add: or_else_def sample_row_def)

lemma cleanup_grants_nothing_witness:
  "\<not> list_ex (has_key 100 ''3-4'' ''app'' ''t'') (rows (snd (TidyUpRight (memory_env 100 (Some 100))
     (memory_helper 1 True) TIGHT_UP_USB_RIGHT_RECORD_ALL sample_world)))"
  using cleanup_grants_nothing [OF memory_env_laws(1), of sample_world "has_key 100 ''3-4'' ''app'' ''t''"]
  by (simp add: has_key_def sample_row_def)

lemma serial_dialog_rejects_large_tokens_witness:
  "\<not> fst (ShowSerialDialog (memory_env 100 (Some 100)) 1 0x80000001 ''app'' ''1-2''
     \<lparr>usbAbilityConn = False, usbDialogParams = []\<rparr> sample_world)"
  using serial_dialog_rejects_large_tokens [of "0x80000001" "memory_env 100 (Some 100)"] by simp

end
