(* ===== verification/Device_Manager.thy ===== *)
theory Device_Manager
  imports Usb_Prelude
begin

section \<open>Device manager\<close>

text \<open>
  \<^verbatim>\<open>services/native/src/usb_device_manager.cpp\<close>, the build with the V2_0 device interface:
  the names of the gadget functions and their masks, the current function, and the reaction to
  cable events through delayed tasks. The driver \<^verbatim>\<open>IUsbDeviceInterface\<close> is the record
  \<open>device_hdi\<close> over an abstract world (with the two HDF codes the source compares with), the
  timer is the one pending task that \<^verbatim>\<open>delayDisconnTimerId_\<close> names, and everything the
  manager sends (common events, system events, notifications, window requests) is a trace in the
  order it is sent. A function set, an \<^verbatim>\<open>int32_t\<close> cast to \<^verbatim>\<open>uint32_t\<close> wherever it is
  used, is a 32-bit word.
\<close>

subsection \<open>Function names\<close>

text \<open>The map of names to masks, in the order \<^verbatim>\<open>std::map\<close> iterates it.\<close>

definition FUNCTION_MAPPING_N2C :: "(string, u32) omap" where
  "FUNCTION_MAPPING_N2C =
     [(''acm'', FUNCTION_ACM), (''devmode_auth'', FUNCTION_DEVMODE_AUTH), (''ecm'', FUNCTION_ECM),
      (''hdc'', FUNCTION_HDC), (''mtp'', FUNCTION_MTP), (''ncm'', FUNCTION_NCM),
      (''none'', FUNCTION_NONE), (''ptp'', FUNCTION_PTP), (''rndis'', FUNCTION_RNDIS),
      (''storage'', FUNCTION_STORAGE)]"

definition functionSettable :: u32 where
  "functionSettable = FUNCTION_HDC OR FUNCTION_ACM OR FUNCTION_ECM OR FUNCTION_MTP OR
     FUNCTION_PTP OR FUNCTION_RNDIS OR FUNCTION_NCM OR FUNCTION_STORAGE"

definition IsSettableFunctions :: "u32 \<Rightarrow> bool" where
  "IsSettableFunctions funcs \<longleftrightarrow> funcs = FUNCTION_NONE \<or> NOT functionSettable AND funcs = 0"

lemma tl_dropWhile_less: "dropWhile P s \<noteq> [] \<Longrightarrow> length (tl (dropWhile P s)) < length s"
  using length_dropWhile_le [of P s] by (cases "dropWhile P s") auto

text \<open>
  The loop that cuts the string at its commas; a comma at the very end starts no further name.
\<close>

function split_names :: "string \<Rightarrow> string list" where
  "split_names s =
     (if s = [] then []
      else let item = takeWhile (\<lambda>c. c \<noteq> CHR '','') s; rest = dropWhile (\<lambda>c. c \<noteq> CHR '','') s
           in if rest = [] then [item] else item # split_names (tl rest))"
  by pat_completeness auto
termination
  by (relation "measure length") (auto simp: tl_dropWhile_less simp del: length_tl)

declare split_names.simps [simp del]

fun masks_of :: "string list \<Rightarrow> u32 \<Rightarrow> retcode + u32" where
  "masks_of [] ret = Inr ret"
| "masks_of (item # items) ret =
     (case map_of FUNCTION_MAPPING_N2C item of
        Some m \<Rightarrow> masks_of items (ret OR m)
      | None \<Rightarrow> Inl UEC_SERVICE_INVALID_VALUE)"

definition ConvertFromString :: "string \<Rightarrow> retcode + u32" where
  "ConvertFromString strFun =
     (if strFun = ''none'' then Inr FUNCTION_NONE
      else if strFun = [] then Inl UEC_SERVICE_INVALID_VALUE
      else masks_of (split_names strFun) 0)"

fun append_names :: "u32 \<Rightarrow> (string \<times> u32) list \<Rightarrow> bool \<Rightarrow> string \<Rightarrow> string" where
  "append_names function [] flag stream = stream"
| "append_names function ((name, code) # m) flag stream =
     (if function AND code \<noteq> 0
      then append_names function m True ((if flag then stream @ '','' else stream) @ name)
      else append_names function m flag stream)"

definition ConvertToString :: "u32 \<Rightarrow> string" where
  "ConvertToString function =
     (if function \<le> FUNCTION_NONE \<or> functionSettable < function then ''none''
      else append_names function FUNCTION_MAPPING_N2C False [])"

subsection \<open>State, effects and driver\<close>

datatype device_effect =
    RemoveSticky
  | UsbStateEvent bool "string list"
  | PlugSysEvent u32 bool
  | FuncChangeSysEvent u32 u32
  | FaultSysEvent retcode string
  | Notify notifier
  | CancelNotification
  | HdcNotify
  | HdcCancel
  | WindowPopUp
  | WindowDismiss

datatype device_task = ConnectTask | DisconnectTask

record device_manager =
  currentFunctions :: u32
  connected :: bool
  isReverseCharge :: bool
  hasHdcNotifier :: bool
  gadgetConnected :: bool
  isDisableDialog :: bool
  phyConnect :: bool
  pendingTask :: "(device_task \<times> nat) option"
  effects :: "device_effect list"

record 'w device_hdi =
  dhdi_GetCurrentFunctions :: "u32 \<Rightarrow> 'w \<Rightarrow> int \<times> u32 \<times> 'w"
  dhdi_SetCurrentFunctions :: "u32 \<Rightarrow> 'w \<Rightarrow> int \<times> 'w"
  HDF_ERR_NOT_SUPPORT :: int
  HDF_FAILURE :: int

definition new_device_manager :: device_manager where
  "new_device_manager = \<lparr>currentFunctions = FUNCTION_HDC, connected = False,
     isReverseCharge = False, hasHdcNotifier = False, gadgetConnected = False,
     isDisableDialog = False, phyConnect = False, pendingTask = None, effects = []\<rparr>"

definition emit :: "device_effect \<Rightarrow> device_manager \<Rightarrow> device_manager" where
  "emit e dm = dm\<lparr>effects := effects dm @ [e]\<rparr>"

subsection \<open>Telling the system\<close>

text \<open>
  The loop that names the function bits one by one: it goes on until no bit is left, so it is a
  partial function.
\<close>

partial_function (option) name_bits :: "u32 \<Rightarrow> u32 \<Rightarrow> string list \<Rightarrow> string list option" where
  "name_bits remainderFunc b params =
     (if remainderFunc \<noteq> 0 then
        if remainderFunc AND b \<noteq> 0
        then name_bits (remainderFunc AND NOT b) (push_bit 1 b) (params @ [ConvertToString b])
        else name_bits remainderFunc (push_bit 1 b) params
      else Some params)"

declare name_bits.simps [code]

definition BroadcastFuncChange :: "bool \<Rightarrow> u32 \<Rightarrow> device_manager \<Rightarrow> device_manager option" where
  "BroadcastFuncChange conn currentFunc dm =
     (case name_bits currentFunc 1 [] of None \<Rightarrow> None
      | Some params \<Rightarrow> Some (emit (PlugSysEvent currentFunc conn)
          (emit (UsbStateEvent conn params) (emit RemoveSticky dm))))"

definition ProcessFunctionNotifier :: "bool \<Rightarrow> u32 \<Rightarrow> device_manager \<Rightarrow> device_manager" where
  "ProcessFunctionNotifier conn func dm =
     (if conn then
        let dm1 = emit (Notify (if func AND FUNCTION_MTP \<noteq> 0 then USB_FUNC_MTP
                                else if func AND FUNCTION_PTP \<noteq> 0 then USB_FUNC_PTP
                                else if isReverseCharge dm then USB_FUNC_REVERSE_CHARGE
                                else USB_FUNC_CHARGE)) dm;
            dm2 = (if func AND FUNCTION_HDC \<noteq> 0 \<and> \<not> hasHdcNotifier dm1
                   then (emit HdcNotify dm1)\<lparr>hasHdcNotifier := True\<rparr> else dm1)
        in if func AND FUNCTION_HDC = 0 \<and> hasHdcNotifier dm2
           then (emit HdcCancel dm2)\<lparr>hasHdcNotifier := False\<rparr> else dm2
      else let dm1 = emit CancelNotification dm
           in if hasHdcNotifier dm1 then (emit HdcCancel dm1)\<lparr>hasHdcNotifier := False\<rparr> else dm1)"

definition ProcessFunctionSwitchWindow :: "bool \<Rightarrow> device_manager \<Rightarrow> device_manager" where
  "ProcessFunctionSwitchWindow conn dm = emit (if conn then WindowPopUp else WindowDismiss) dm"

definition ProcessFuncChange :: "bool \<Rightarrow> u32 \<Rightarrow> device_manager \<Rightarrow> device_manager option" where
  "ProcessFuncChange conn currentFunc dm =
     (case BroadcastFuncChange conn currentFunc dm of None \<Rightarrow> None
      | Some dm1 \<Rightarrow> Some (ProcessFunctionNotifier conn currentFunc
          (if \<not> isDisableDialog dm1 then ProcessFunctionSwitchWindow conn dm1 else dm1)))"

definition UpdateFunctions :: "u32 \<Rightarrow> device_manager \<Rightarrow> device_manager option" where
  "UpdateFunctions func dm =
     (if func = currentFunctions dm then Some dm
      else let dm1 = (emit (FuncChangeSysEvent (currentFunctions dm) func) dm)\<lparr>currentFunctions := func\<rparr>
           in map_option (ProcessFunctionNotifier (connected dm) func)
                (if \<not> connected dm1 \<and> gadgetConnected dm1 then Some dm1
                 else BroadcastFuncChange (connected dm1) (currentFunctions dm1) dm1))"

subsection \<open>Functions of the driver\<close>

definition GetCurrentFunctions ::
  "'w device_hdi option \<Rightarrow> u32 \<Rightarrow> 'w \<Rightarrow> retcode \<times> u32 \<times> 'w" where
  "GetCurrentFunctions hdi funcs w =
     (case hdi of None \<Rightarrow> (UEC_SERVICE_INVALID_VALUE, funcs, w)
      | Some h \<Rightarrow> (case dhdi_GetCurrentFunctions h funcs w of (ret, f, w') \<Rightarrow> (ret_of_int ret, f, w')))"

definition SetCurrentFunctions :: "'w device_hdi option \<Rightarrow> u32 \<Rightarrow> device_manager \<Rightarrow> 'w \<Rightarrow>
    (retcode \<times> device_manager \<times> 'w) option" where
  "SetCurrentFunctions hdi funcs dm w =
     (case hdi of None \<Rightarrow> Some (UEC_SERVICE_INVALID_VALUE, dm, w)
      | Some h \<Rightarrow> (case dhdi_GetCurrentFunctions h 0 w of (r, lastFunc, w1) \<Rightarrow>
          if r \<noteq> 0 then
            Some (UEC_SERVICE_INVALID_VALUE,
                  emit (FaultSysEvent UEC_SERVICE_INVALID_VALUE ''DevIntfGetFunc is failed'') dm, w1)
          else if lastFunc = funcs then Some (UEC_OK, dm, w1)
          else (case dhdi_SetCurrentFunctions h funcs w1 of (ret, w2) \<Rightarrow>
            if ret \<noteq> 0 then
              Some (if ret = HDF_ERR_NOT_SUPPORT h then UEC_SERVICE_FUNCTION_NOT_SUPPORT
                    else ret_of_int ret,
                    emit (FaultSysEvent (ret_of_int ret) ''DevIntfSetFunc is failed'') dm, w2)
            else map_option (\<lambda>dm'. (UEC_OK, dm', w2)) (UpdateFunctions funcs dm))))"

subsection \<open>Cable events\<close>

definition ACT_DEVUP :: int where "ACT_DEVUP = 0"
definition ACT_DEVDOWN :: int where "ACT_DEVDOWN = 1"
definition ACT_UPDEVICE :: int where "ACT_UPDEVICE = 2"
definition ACT_DOWNDEVICE :: int where "ACT_DOWNDEVICE = 3"
definition ACT_ACCESSORYUP :: int where "ACT_ACCESSORYUP = 4"
definition ACT_ACCESSORYDOWN :: int where "ACT_ACCESSORYDOWN = 5"
definition ACT_ACCESSORYSEND :: int where "ACT_ACCESSORYSEND = 6"

lemmas act_codes [simp] = ACT_DEVUP_def ACT_DEVDOWN_def ACT_UPDEVICE_def ACT_DOWNDEVICE_def
  ACT_ACCESSORYUP_def ACT_ACCESSORYDOWN_def ACT_ACCESSORYSEND_def

definition DELAY_CONNECT_INTERVAL :: nat where "DELAY_CONNECT_INTERVAL = 1000"
definition DELAY_DISCONN_INTERVAL :: nat where "DELAY_DISCONN_INTERVAL = 1400"

definition ProcessStatus :: "int \<Rightarrow> device_manager \<Rightarrow> bool \<times> device_manager" where
  "ProcessStatus status dm =
     (if status = ACT_UPDEVICE then (True, dm\<lparr>gadgetConnected := True\<rparr>)
      else if status = ACT_DOWNDEVICE then (False, dm\<lparr>gadgetConnected := False\<rparr>)
      else if status \<in> {ACT_ACCESSORYUP, ACT_ACCESSORYDOWN, ACT_ACCESSORYSEND}
      then (False, ProcessFunctionSwitchWindow False (dm\<lparr>isDisableDialog := True\<rparr>))
      else (False, dm))"

definition SetPhyConnectState :: "bool \<Rightarrow> device_manager \<Rightarrow> device_manager" where
  "SetPhyConnectState phy dm = dm\<lparr>phyConnect := phy\<rparr>"

definition SetChargeFlag :: "bool \<Rightarrow> device_manager \<Rightarrow> device_manager" where
  "SetChargeFlag flag dm = dm\<lparr>isReverseCharge := flag\<rparr>"

definition HandleEvent :: "'w device_hdi option \<Rightarrow> int \<Rightarrow> device_manager \<Rightarrow> device_manager" where
  "HandleEvent hdi status dm =
     (if hdi = None then dm
      else (case ProcessStatus status dm of (curConnect, dm1) \<Rightarrow>
        let dm2 = dm1\<lparr>pendingTask := None\<rparr> in
        if curConnect \<and> connected dm2 \<noteq> curConnect
        then dm2\<lparr>pendingTask := Some (ConnectTask, DELAY_CONNECT_INTERVAL)\<rparr>
        else if \<not> curConnect \<and> connected dm2 \<noteq> curConnect
        then dm2\<lparr>pendingTask := Some (DisconnectTask,
               if phyConnect dm2 then DELAY_DISCONN_INTERVAL + DELAY_DISCONN_INTERVAL
               else DELAY_DISCONN_INTERVAL)\<rparr>
        else dm2))"

text \<open>The bodies of the two delayed tasks, run when the timer expires.\<close>

definition without_transfer :: "u32 \<Rightarrow> u32" where
  "without_transfer func =
     (let f = func AND NOT FUNCTION_MTP AND NOT FUNCTION_PTP
      in if f = 0 then FUNCTION_STORAGE else f)"

definition connect_task :: "'w device_hdi \<Rightarrow> device_manager \<Rightarrow> 'w \<Rightarrow> (device_manager \<times> 'w) option" where
  "connect_task h dm w =
     (case GetCurrentFunctions (Some h) (currentFunctions dm) w of (ret, f, w') \<Rightarrow>
        map_option (\<lambda>dm'. (dm', w'))
          (ProcessFuncChange True f (dm\<lparr>connected := True, currentFunctions := f\<rparr>)))"

definition disconnect_task :: "'w device_hdi \<Rightarrow> device_manager \<Rightarrow> 'w \<Rightarrow> (device_manager \<times> 'w) option" where
  "disconnect_task h dm w =
     (let dm1 = dm\<lparr>connected := False, isDisableDialog := False\<rparr>;
          f = currentFunctions dm1;
          (g, w') = (if f AND FUNCTION_MTP \<noteq> 0 \<or> f AND FUNCTION_PTP \<noteq> 0 then
                       (without_transfer f, snd (dhdi_SetCurrentFunctions h (without_transfer f) w))
                     else if f AND FUNCTION_DEVMODE_AUTH \<noteq> 0 then
                       (FUNCTION_STORAGE, snd (dhdi_SetCurrentFunctions h FUNCTION_STORAGE w))
                     else (f, w))
      in map_option (\<lambda>dm'. (dm', w')) (ProcessFuncChange False g (dm1\<lparr>currentFunctions := g\<rparr>)))"

definition run_pending :: "'w device_hdi \<Rightarrow> device_manager \<Rightarrow> 'w \<Rightarrow> (device_manager \<times> 'w) option" where
  "run_pending h dm w =
     (case pendingTask dm of
        None \<Rightarrow> Some (dm, w)
      | Some (ConnectTask, delay) \<Rightarrow> connect_task h (dm\<lparr>pendingTask := None\<rparr>) w
      | Some (DisconnectTask, delay) \<Rightarrow> disconnect_task h (dm\<lparr>pendingTask := None\<rparr>) w)"

definition UserChangeProcess :: "'w device_hdi \<Rightarrow> device_manager \<Rightarrow> 'w \<Rightarrow>
    (retcode \<times> device_manager \<times> 'w) option" where
  "UserChangeProcess h dm w =
     (if currentFunctions dm AND FUNCTION_MTP \<noteq> 0 \<or> currentFunctions dm AND FUNCTION_PTP \<noteq> 0 then
        let funcs = without_transfer (currentFunctions dm) in
        (case dhdi_SetCurrentFunctions h funcs w of (ret, w') \<Rightarrow>
          if ret = 0 \<and> funcs \<noteq> currentFunctions dm then
            let dm1 = dm\<lparr>currentFunctions := funcs\<rparr>;
                dm2 = emit (FuncChangeSysEvent (currentFunctions dm1) funcs) dm1
            in map_option (\<lambda>dm3. (ret_of_int ret,
                    ProcessFunctionNotifier (connected dm3) (currentFunctions dm3) dm3, w'))
                 (BroadcastFuncChange (connected dm2) (currentFunctions dm2) dm2)
          else Some (ret_of_int ret,
                 ProcessFunctionNotifier (connected dm) (currentFunctions dm) dm, w'))
      else Some (ret_of_int (HDF_FAILURE h),
             ProcessFunctionNotifier (connected dm) (currentFunctions dm) dm, w))"

definition IsGadgetConnected :: "device_manager \<Rightarrow> bool" where
  "IsGadgetConnected dm = gadgetConnected dm"

subsection \<open>Steps and reachable states\<close>

text \<open>
  What can happen to the manager: a cable event, the expiry of the pending timer, a switch of the
  functions by an application or by a change of the user, the two flags, and steps of the world.
\<close>

inductive device_step :: "'w device_hdi \<Rightarrow> device_manager \<times> 'w \<Rightarrow> device_manager \<times> 'w \<Rightarrow> bool"
  for h where
  event: "device_step h (dm, w) (HandleEvent (Some h) status dm, w)"
| timer: "run_pending h dm w = Some (dm', w') \<Longrightarrow> device_step h (dm, w) (dm', w')"
| set_functions: "SetCurrentFunctions (Some h) f dm w = Some (ret, dm', w') \<Longrightarrow>
    device_step h (dm, w) (dm', w')"
| user_change: "UserChangeProcess h dm w = Some (ret, dm', w') \<Longrightarrow> device_step h (dm, w) (dm', w')"
| charge: "device_step h (dm, w) (SetChargeFlag flag dm, w)"
| phy: "device_step h (dm, w) (SetPhyConnectState flag dm, w)"
| environment: "device_step h (dm, w) (dm, w')"

inductive device_reachable :: "'w device_hdi \<Rightarrow> device_manager \<times> 'w \<Rightarrow> bool" for h where
  start: "device_reachable h (new_device_manager, w)"
| step: "device_reachable h s \<Longrightarrow> device_step h s s' \<Longrightarrow> device_reachable h s'"

inductive_cases device_stepE: "device_step h s s'"

text \<open>
  The debugging notification as the user sees it after a trace: shown by \<open>HdcNotify\<close>, gone after
  \<open>HdcCancel\<close>; \<open>None\<close> when it was sent twice or cancelled without being there.
\<close>

fun hdc_shown :: "bool \<Rightarrow> device_effect list \<Rightarrow> bool option" where
  "hdc_shown b [] = Some b"
| "hdc_shown b (HdcNotify # es) = (if b then None else hdc_shown True es)"
| "hdc_shown b (HdcCancel # es) = (if b then hdc_shown False es else None)"
| "hdc_shown b (e # es) = hdc_shown b es"

definition hdc_consistent :: "device_manager \<Rightarrow> bool" where
  "hdc_consistent dm \<longleftrightarrow> hdc_shown False (effects dm) = Some (hasHdcNotifier dm)"

text \<open>The names selected by a function set, joined by commas: the reading of a name list.\<close>

fun join_names :: "string list \<Rightarrow> string" where
  "join_names [] = []"
| "join_names [x] = x"
| "join_names (x # y # ys) = x @ '','' @ join_names (y # ys)"

definition selected :: "u32 \<Rightarrow> (string \<times> u32) list \<Rightarrow> (string \<times> u32) list" where
  "selected f m = filter (\<lambda>(n, c). f AND c \<noteq> 0) m"

definition function_bits :: "u32 \<Rightarrow> string list" where
  "function_bits f = map (\<lambda>i. ConvertToString (push_bit i 1)) (filter (bit f) [0..<32])"

text \<open>A driver that has one function set and accepts every change of it.\<close>

definition sample_device_hdi :: "u32 device_hdi" where
  "sample_device_hdi = \<lparr>dhdi_GetCurrentFunctions = (\<lambda>f w. (0, w, w)),
     dhdi_SetCurrentFunctions = (\<lambda>f w. (0, f)), HDF_ERR_NOT_SUPPORT = - 2, HDF_FAILURE = - 1\<rparr>"

subsection \<open>Names and masks\<close>

lemma selected_Cons:
  "selected f ((n, c) # m) = (if f AND c \<noteq> 0 then (n, c) # selected f m else selected f m)"
  by (simp add: selected_def)

lemma join_names_Cons: "join_names (x # xs) = (if xs = [] then x else x @ '','' @ join_names xs)"
  by (cases xs) auto

lemma append_names_join:
  "append_names f m flag stream = stream @
     (if selected f m = [] then [] else (if flag then '','' else []) @ join_names (map fst (selected f m)))"
  by (induction f m flag stream rule: append_names.induct)
    (auto simp: selected_Cons join_names_Cons selected_def)

lemma split_join:
  "list_all (\<lambda>x. x \<noteq> [] \<and> CHR '','' \<notin> set x) xs \<Longrightarrow> split_names (join_names xs) = xs"
proof (induction xs rule: join_names.induct)
  case 1
  show ?case by (simp add: split_names.simps)
next
  case (2 x)
  then show ?case by (auto simp: split_names.simps [of x] takeWhile_eq_all_conv dropWhile_eq_Nil_conv Let_def)
next
  case (3 x y ys)
  then have x: "\<forall>c \<in> set x. c \<noteq> CHR '',''" "x \<noteq> []" by auto
  let ?r = "CHR '','' # join_names (y # ys)"
  have "takeWhile (\<lambda>c. c \<noteq> CHR '','') (x @ ?r) = x" and "dropWhile (\<lambda>c. c \<noteq> CHR '','') (x @ ?r) = ?r"
    using x(1) by (simp_all add: takeWhile_append2 dropWhile_append2)
  with 3 x(2) show ?case by (simp add: split_names.simps [of "x @ ?r"] Let_def)
qed

lemma masks_of_selected:
  "set ms \<subseteq> set FUNCTION_MAPPING_N2C \<Longrightarrow>
   masks_of (map fst ms) r = Inr (foldl (\<lambda>r (n, c). r OR c) r ms)"
proof (induction ms arbitrary: r)
  case Nil
  then show ?case by simp
next
  case (Cons nc ms)
  obtain n c where nc: "nc = (n, c)" by (cases nc)
  have "distinct (map fst FUNCTION_MAPPING_N2C)" by (simp add: FUNCTION_MAPPING_N2C_def)
  with Cons.prems have "map_of FUNCTION_MAPPING_N2C n = Some c" by (simp add: nc)
  with Cons show ?case by (simp add: nc)
qed

lemma foldl_selected:
  "foldl (\<lambda>r (n, c). r OR c) r (selected f m) =
   foldl (\<lambda>r (n, c). if f AND c \<noteq> 0 then r OR c else r) r m"
  by (induction m arbitrary: r) (auto simp: selected_Cons selected_def)

lemma or_single_bit: "c = 2 ^ k \<Longrightarrow> (if f AND c \<noteq> 0 then r OR c else r) = r OR (f AND c)"
  for f r c :: u32
  by (rule bit_word_eqI) (auto simp: bit_simps and_exp_eq_0_iff_not_bit)

lemma functionSettable_value [simp]: "functionSettable = 831"
  by (simp add: functionSettable_def)

lemma and_not_zero: "NOT m AND f = 0 \<Longrightarrow> f AND m = f" for f m :: u32
proof -
  assume "NOT m AND f = 0"
  moreover have "f AND (m OR NOT m) = (f AND m) OR (f AND NOT m)"
    by (rule bit.conj_disj_distrib)
  ultimately show ?thesis by (simp add: and.commute [of "NOT m"])
qed

lemma masks_of_settable:
  assumes "f AND functionSettable = f"
  shows "foldl (\<lambda>r (n, c). r OR c) 0 (selected f FUNCTION_MAPPING_N2C) = f"
proof -
  note bits = or_single_bit [of _ 0] or_single_bit [of _ 1] or_single_bit [of _ 2]
    or_single_bit [of _ 3] or_single_bit [of _ 4] or_single_bit [of _ 5] or_single_bit [of _ 8]
    or_single_bit [of _ 9] or_single_bit [of _ 12]
  have "foldl (\<lambda>r (n, c). r OR c) 0 (selected f FUNCTION_MAPPING_N2C) =
      (((((((((f AND 1) OR (f AND 4096)) OR (f AND 2)) OR (f AND 4)) OR (f AND 8)) OR (f AND 256))
        OR (f AND 16)) OR (f AND 32)) OR (f AND 512))"
    unfolding foldl_selected FUNCTION_MAPPING_N2C_def function_masks
    by (simp only: foldl_Cons foldl_Nil case_prod_conv bits numeral_One power_0 power_one_right) (simp add: bits)
  also have "\<dots> = f AND (1 OR 4096 OR 2 OR 4 OR 8 OR 256 OR 16 OR 32 OR 512)"
    by (simp only: bit.conj_disj_distrib or.assoc)
  also have "\<dots> = f AND 4927" by simp
  also have "\<dots> = (f AND 831) AND 4927" using assms by simp
  also have "\<dots> = f AND 831" by (simp add: and.assoc)
  also have "\<dots> = f" using assms by simp
  finally show ?thesis .
qed

lemma selected_names_ok:
  "list_all (\<lambda>x. x \<noteq> [] \<and> CHR '','' \<notin> set x) (map fst (selected f FUNCTION_MAPPING_N2C))"
  by (auto simp: list_all_iff selected_def FUNCTION_MAPPING_N2C_def)

lemma selected_nonempty:
  assumes "f AND functionSettable = f" and "f \<noteq> 0"
  shows "selected f FUNCTION_MAPPING_N2C \<noteq> []"
  using masks_of_settable [OF assms(1)] assms(2) by auto

lemma settable_le: "f AND functionSettable = f \<Longrightarrow> f \<le> functionSettable"
  by (metis and.commute functionSettable_value word_and_le1)

lemma none_name: "map_of FUNCTION_MAPPING_N2C ''none'' = Some 0"
  by (simp add: FUNCTION_MAPPING_N2C_def)

lemma convert_roundtrip:
  assumes "f AND functionSettable = f"
  shows "ConvertFromString (ConvertToString f) = Inr f"
proof (cases "f = 0")
  case True
  then show ?thesis by (simp add: ConvertToString_def ConvertFromString_def)
next
  case False
  let ?ns = "map fst (selected f FUNCTION_MAPPING_N2C)"
  have s: "ConvertToString f = join_names ?ns"
    using False settable_le [OF assms] selected_nonempty [OF assms False]
    by (auto simp: ConvertToString_def append_names_join)
  have m: "masks_of (split_names (ConvertToString f)) 0 = Inr f"
    using masks_of_selected [of "selected f FUNCTION_MAPPING_N2C" 0] masks_of_settable [OF assms]
      split_join [OF selected_names_ok, of f] s by (simp add: selected_def)
  show ?thesis
  proof (cases "ConvertToString f = ''none''")
    case True
    have "masks_of (split_names ''none'') 0 = Inr 0"
      using split_join [of "[''none'']"] none_name by simp
    with m True have "f = 0" by simp
    with False show ?thesis by simp
  next
    case n: False
    have "ConvertToString f \<noteq> []"
    proof
      assume "ConvertToString f = []"
      with m have "Inr f = (Inr 0 :: retcode + u32)" by (simp add: split_names.simps)
      with False show False by simp
    qed
    with n m show ?thesis by (simp add: ConvertFromString_def)
  qed
qed

subsection \<open>The broadcast names every function bit once\<close>

lemma name_bits_from:
  "k \<le> 32 \<Longrightarrow> (\<And>i. i < k \<Longrightarrow> \<not> bit rem i) \<Longrightarrow>
   name_bits rem (push_bit k 1) ps =
     Some (ps @ map (\<lambda>i. ConvertToString (push_bit i 1)) (filter (bit rem) [k..<32]))"
proof (induction "32 - k" arbitrary: k rem ps)
  case 0
  then have k: "k = 32" by simp
  have "rem = 0"
    by (rule bit_word_eqI) (use 0 k in auto)
  then show ?case by (simp add: name_bits.simps k)
next
  case (Suc n)
  then have k: "k < 32" and n: "n = 32 - Suc k" by auto
  have upt: "[k..<32] = k # [Suc k..<32]" using k by (simp add: upt_conv_Cons)
  have next_bit: "push_bit 1 (push_bit k 1) = (push_bit (Suc k) 1 :: u32)"
    by (simp add: push_bit_push_bit)
  have this_bit: "rem AND push_bit k 1 \<noteq> 0 \<longleftrightarrow> bit rem k"
    using and_exp_eq_0_iff_not_bit [of rem k] by (simp add: push_bit_of_1)
  show ?case
  proof (cases "rem = 0")
    case True
    then show ?thesis by (simp add: name_bits.simps)
  next
    case nz: False
    show ?thesis
    proof (cases "bit rem k")
      case True
      let ?rem = "rem AND NOT (push_bit k 1)"
      have r: "bit ?rem i \<longleftrightarrow> bit rem i \<and> i \<noteq> k" if "i < 32" for i
        using that by (auto simp: bit_simps)
      have "\<not> bit ?rem i" if "i < Suc k" for i
        using that r [of i] Suc.prems k by (cases "i = k") auto
      then have "name_bits ?rem (push_bit (Suc k) 1) (ps @ [ConvertToString (push_bit k 1)]) =
          Some ((ps @ [ConvertToString (push_bit k 1)]) @
            map (\<lambda>i. ConvertToString (push_bit i 1)) (filter (bit ?rem) [Suc k..<32]))"
        using Suc.hyps(1) [OF n, of ?rem] k by simp
      moreover have "filter (bit ?rem) [Suc k..<32] = filter (bit rem) [Suc k..<32]"
        by (rule filter_cong) (use r in auto)
      ultimately show ?thesis
        using nz True this_bit by (subst name_bits.simps) (simp add: upt next_bit mult.commute)
    next
      case False
      have "\<not> bit rem i" if "i < Suc k" for i
        using that False Suc.prems by (cases "i = k") auto
      with nz False this_bit Suc.hyps(1) [OF n, of rem ps] k show ?thesis
        by (subst name_bits.simps) (simp add: upt next_bit mult.commute)
    qed
  qed
qed

lemma name_bits_all: "name_bits f 1 [] = Some (function_bits f)"
  using name_bits_from [of 0 f "[]"] by (simp add: function_bits_def)

lemma BroadcastFuncChange_total [simp]:
  "BroadcastFuncChange conn f dm = Some (emit (PlugSysEvent f conn)
     (emit (UsbStateEvent conn (function_bits f)) (emit RemoveSticky dm)))"
  by (simp add: BroadcastFuncChange_def name_bits_all)

subsection \<open>The debugging notification\<close>

lemma hdc_shown_append:
  "hdc_shown b (es @ es') = Option.bind (hdc_shown b es) (\<lambda>b'. hdc_shown b' es')"
  by (induction b es rule: hdc_shown.induct) auto

lemma hdc_consistent_emit:
  "hdc_consistent (emit e dm) \<longleftrightarrow>
     Option.bind (hdc_shown False (effects dm)) (\<lambda>b. hdc_shown b [e]) = Some (hasHdcNotifier dm)"
  by (simp add: hdc_consistent_def emit_def hdc_shown_append)

lemma emit_simps [simp]:
  "hasHdcNotifier (emit e dm) = hasHdcNotifier dm" "connected (emit e dm) = connected dm"
  "currentFunctions (emit e dm) = currentFunctions dm" "pendingTask (emit e dm) = pendingTask dm"
  "isDisableDialog (emit e dm) = isDisableDialog dm" "effects (emit e dm) = effects dm @ [e]"
  "isReverseCharge (emit e dm) = isReverseCharge dm" "gadgetConnected (emit e dm) = gadgetConnected dm"
  by (simp_all add: emit_def)

lemma ProcessFunctionNotifier_consistent:
  "hdc_consistent dm \<Longrightarrow> hdc_consistent (ProcessFunctionNotifier conn f dm)"
  by (auto simp: ProcessFunctionNotifier_def Let_def hdc_consistent_def hdc_shown_append)

lemma ProcessFuncChange_total:
  "\<exists>dm'. ProcessFuncChange conn f dm = Some dm' \<and> (hdc_consistent dm \<longrightarrow> hdc_consistent dm') \<and>
     connected dm' = connected dm \<and> currentFunctions dm' = currentFunctions dm"
proof -
  let ?dm = "emit (PlugSysEvent f conn) (emit (UsbStateEvent conn (function_bits f)) (emit RemoveSticky dm))"
  let ?dm' = "if \<not> isDisableDialog ?dm then ProcessFunctionSwitchWindow conn ?dm else ?dm"
  have "hdc_consistent dm \<longrightarrow> hdc_consistent ?dm'"
    by (auto simp: hdc_consistent_def ProcessFunctionSwitchWindow_def hdc_shown_append)
  then show ?thesis
    using ProcessFunctionNotifier_consistent [of ?dm' conn f]
    by (auto simp: ProcessFuncChange_def ProcessFunctionNotifier_def Let_def
        ProcessFunctionSwitchWindow_def)
qed

lemma UpdateFunctions_consistent:
  "hdc_consistent dm \<Longrightarrow> UpdateFunctions f dm = Some dm' \<Longrightarrow> hdc_consistent dm'"
  by (auto simp: UpdateFunctions_def Let_def hdc_consistent_def hdc_shown_append
      intro!: ProcessFunctionNotifier_consistent [unfolded hdc_consistent_def] split: if_splits)

lemma HandleEvent_consistent: "hdc_consistent dm \<Longrightarrow> hdc_consistent (HandleEvent hdi s dm)"
  by (auto simp: HandleEvent_def ProcessStatus_def ProcessFunctionSwitchWindow_def Let_def
      hdc_consistent_def hdc_shown_append)

lemma ProcessFuncChange_consistent:
  "ProcessFuncChange conn f dm = Some dm' \<Longrightarrow> hdc_consistent dm \<Longrightarrow> hdc_consistent dm'"
  using ProcessFuncChange_total [of conn f dm] by auto

lemma run_pending_consistent:
  "run_pending h dm w = Some (dm', w') \<Longrightarrow> hdc_consistent dm \<Longrightarrow> hdc_consistent dm'"
  by (auto simp: run_pending_def connect_task_def disconnect_task_def Let_def hdc_consistent_def
      split: option.splits device_task.splits prod.splits if_splits
      dest!: ProcessFuncChange_consistent [unfolded hdc_consistent_def])

lemma SetCurrentFunctions_consistent:
  "SetCurrentFunctions hdi f dm w = Some (ret, dm', w') \<Longrightarrow> hdc_consistent dm \<Longrightarrow> hdc_consistent dm'"
  by (auto simp: SetCurrentFunctions_def hdc_consistent_emit split: option.splits prod.splits if_splits
      intro: UpdateFunctions_consistent) (auto simp: hdc_consistent_def)

lemma UserChangeProcess_consistent:
  "UserChangeProcess h dm w = Some (ret, dm', w') \<Longrightarrow> hdc_consistent dm \<Longrightarrow> hdc_consistent dm'"
  by (auto simp: UserChangeProcess_def Let_def split: prod.splits if_splits
      intro!: ProcessFunctionNotifier_consistent) (auto simp: hdc_consistent_def hdc_shown_append)

lemma device_step_consistent:
  "device_step h s s' \<Longrightarrow> hdc_consistent (fst s) \<Longrightarrow> hdc_consistent (fst s')"
  by (erule device_stepE)
    (auto simp: HandleEvent_consistent SetChargeFlag_def SetPhyConnectState_def hdc_consistent_def
      dest: run_pending_consistent [unfolded hdc_consistent_def]
        SetCurrentFunctions_consistent [unfolded hdc_consistent_def]
        UserChangeProcess_consistent [unfolded hdc_consistent_def]
        HandleEvent_consistent [unfolded hdc_consistent_def])

lemma device_reachable_consistent: "device_reachable h s \<Longrightarrow> hdc_consistent (fst s)"
proof (induction rule: device_reachable.induct)
  case (start w)
  show ?case by (simp add: hdc_consistent_def new_device_manager_def)
next
  case (step s s')
  then show ?case by (blast intro: device_step_consistent)
qed

subsection \<open>Properties\<close>

text \<open>
  The textual form of a function set reads back as the set, for every set that
  \<^verbatim>\<open>IsSettableFunctions\<close> admits (the empty one included).
\<close>

theorem ConvertString_roundtrip:
  assumes "IsSettableFunctions f"
  shows "ConvertFromString (ConvertToString f) = Inr f"
  using assms convert_roundtrip [of f] and_not_zero [of functionSettable f]
  by (auto simp: IsSettableFunctions_def)

theorem ConvertString_roundtrip_witness:
  "ConvertFromString (ConvertToString 516) = Inr 516"
  using ConvertString_roundtrip [of 516] by (simp add: IsSettableFunctions_def)

text \<open>
  C35: the loop of \<^verbatim>\<open>BroadcastFuncChange\<close> ends for every function set, and one state event
  is published that names each function bit once, in ascending order, between the removal of the
  old sticky event and the system event.
\<close>

theorem BroadcastFuncChange_terminates:
  "\<exists>dm'. BroadcastFuncChange conn f dm = Some dm' \<and>
     effects dm' = effects dm @ [RemoveSticky,
       UsbStateEvent conn (map (\<lambda>i. ConvertToString (push_bit i 1)) (filter (bit f) [0..<32])),
       PlugSysEvent f conn]"
  by (simp add: function_bits_def)

text \<open>
  C22: in every reachable state the flag \<^verbatim>\<open>hasHdcNotifier_\<close> tells whether the debugging
  notification is shown to the user, and the notification is never sent while it is shown nor
  cancelled while it is not.
\<close>

theorem hdc_notifier_accurate:
  assumes "device_reachable h (dm, w)"
  shows "hdc_shown False (effects dm) = Some (hasHdcNotifier dm)"
  using device_reachable_consistent [OF assms] by (simp add: hdc_consistent_def)

theorem hdc_notifier_accurate_witness:
  "\<exists>dm w. device_reachable sample_device_hdi (dm, w) \<and> pendingTask dm \<noteq> None \<and>
     hdc_shown False (effects dm) = Some (hasHdcNotifier dm)"
proof -
  let ?dm = "HandleEvent (Some sample_device_hdi) ACT_UPDEVICE new_device_manager"
  have "device_reachable sample_device_hdi (?dm, 4)"
    by (rule device_reachable.step [OF device_reachable.start device_step.event])
  with hdc_notifier_accurate [OF this] show ?thesis
    by (intro exI [of _ ?dm] exI [of _ 4])
      (simp add: HandleEvent_def ProcessStatus_def new_device_manager_def)
qed

text \<open>
  When the disconnect task runs, the manager is disconnected and the media functions are
  gone: MTP and PTP are removed (storage takes the place of an empty set), the authorisation mode
  is replaced by storage, any other set stays, and the driver is told exactly when the set
  changed. The task always returns.
\<close>

theorem disconnect_task_resets:
  assumes "pendingTask dm = Some (DisconnectTask, delay)"
  shows "\<exists>dm' w'. run_pending h dm w = Some (dm', w') \<and> \<not> connected dm' \<and>
    currentFunctions dm' AND FUNCTION_MTP = 0 \<and> currentFunctions dm' AND FUNCTION_PTP = 0 \<and>
    (currentFunctions dm' = currentFunctions dm \<and> w' = w \<or>
     currentFunctions dm' \<noteq> 0 \<and> w' = snd (dhdi_SetCurrentFunctions h (currentFunctions dm') w))"
proof -
  let ?f = "currentFunctions dm"
  define g where "g = (if ?f AND FUNCTION_MTP \<noteq> 0 \<or> ?f AND FUNCTION_PTP \<noteq> 0 then without_transfer ?f
    else if ?f AND FUNCTION_DEVMODE_AUTH \<noteq> 0 then FUNCTION_STORAGE else ?f)"
  define v where "v = (if ?f AND FUNCTION_MTP \<noteq> 0 \<or> ?f AND FUNCTION_PTP \<noteq> 0 \<or>
    ?f AND FUNCTION_DEVMODE_AUTH \<noteq> 0 then snd (dhdi_SetCurrentFunctions h g w) else w)"
  let ?dm = "dm\<lparr>pendingTask := None, connected := False, isDisableDialog := False, currentFunctions := g\<rparr>"
  obtain dm' where dm': "ProcessFuncChange False g ?dm = Some dm'" "connected dm' = connected ?dm"
    "currentFunctions dm' = currentFunctions ?dm"
    using ProcessFuncChange_total [of False g ?dm] by blast
  have run: "run_pending h dm w = Some (dm', v)"
    using assms dm'(1) by (auto simp: run_pending_def disconnect_task_def Let_def g_def v_def)
  have clear: "(x AND NOT 8 AND NOT 16) AND 8 = 0" "(x AND NOT 8 AND NOT 16) AND 16 = 0" for x :: u32
    by (simp_all add: and.assoc)
  have "g AND 8 = 0 \<and> g AND 16 = 0"
    using clear by (auto simp: g_def without_transfer_def Let_def)
  moreover have "g = ?f \<and> v = w \<or> g \<noteq> 0 \<and> v = snd (dhdi_SetCurrentFunctions h g w)"
    by (auto simp: g_def v_def without_transfer_def Let_def)
  ultimately show ?thesis using run dm' by auto
qed

theorem disconnect_task_resets_witness:
  "\<exists>dm' w'. run_pending sample_device_hdi (new_device_manager\<lparr>currentFunctions := 8, connected := True,
      pendingTask := Some (DisconnectTask, 1400)\<rparr>) 8 = Some (dm', w') \<and> \<not> connected dm' \<and>
    currentFunctions dm' AND FUNCTION_MTP = 0"
  using disconnect_task_resets [of "new_device_manager\<lparr>currentFunctions := 8, connected := True,
      pendingTask := Some (DisconnectTask, 1400)\<rparr>" 1400 sample_device_hdi 8] by auto

text \<open>
  A short interruption is not noticed: when the cable event for a disconnect is followed by
  the one for a connect before the timer expires, no task is pending, the manager stays connected
  and nothing has been sent.
\<close>

theorem short_disconnect_unnoticed:
  assumes "connected dm"
  shows "let dm1 = HandleEvent (Some h) ACT_DOWNDEVICE dm; dm2 = HandleEvent (Some h) ACT_UPDEVICE dm1
    in pendingTask dm1 = Some (DisconnectTask, if phyConnect dm then 2800 else 1400) \<and>
       pendingTask dm2 = None \<and> connected dm2 \<and> currentFunctions dm2 = currentFunctions dm \<and>
       effects dm2 = effects dm"
  using assms by (simp add: HandleEvent_def ProcessStatus_def Let_def DELAY_DISCONN_INTERVAL_def)

theorem short_disconnect_unnoticed_witness:
  "pendingTask (HandleEvent (Some sample_device_hdi) ACT_UPDEVICE
     (HandleEvent (Some sample_device_hdi) ACT_DOWNDEVICE (new_device_manager\<lparr>connected := True\<rparr>))) = None"
  using short_disconnect_unnoticed [of "new_device_manager\<lparr>connected := True\<rparr>" sample_device_hdi]
  by (simp add: Let_def)

text \<open>
  C45: while the manager is connected, every event other than \<^verbatim>\<open>ACT_UPDEVICE\<close> starts the
  disconnect timer, also the accessory events and codes that \<^verbatim>\<open>ProcessStatus\<close> calls
  invalid, which say nothing about the gadget's connection.
\<close>

theorem other_events_disconnect:
  assumes "connected dm" and "status \<noteq> ACT_UPDEVICE"
  shows "\<exists>delay. pendingTask (HandleEvent (Some h) status dm) = Some (DisconnectTask, delay) \<and>
    (status \<noteq> ACT_DOWNDEVICE \<longrightarrow>
       gadgetConnected (HandleEvent (Some h) status dm) = gadgetConnected dm)"
  using assms by (auto simp: HandleEvent_def ProcessStatus_def ProcessFunctionSwitchWindow_def Let_def)

theorem other_events_disconnect_witness:
  "\<exists>delay. pendingTask (HandleEvent (Some sample_device_hdi) ACT_ACCESSORYSEND
     (new_device_manager\<lparr>connected := True, gadgetConnected := True\<rparr>)) = Some (DisconnectTask, delay)"
  using other_events_disconnect [of "new_device_manager\<lparr>connected := True, gadgetConnected := True\<rparr>"
      ACT_ACCESSORYSEND sample_device_hdi] by auto

text \<open>
  \<^verbatim>\<open>SetCurrentFunctions\<close> always returns; when it reports success the driver either had
  the functions already or has been set to them and the manager records them, and when it reports
  an error the manager keeps the functions it had.
\<close>

theorem SetCurrentFunctions_outcome:
  "\<exists>ret dm' w'. SetCurrentFunctions (Some h) f dm w = Some (ret, dm', w') \<and>
     (ret \<noteq> UEC_OK \<longrightarrow> currentFunctions dm' = currentFunctions dm) \<and>
     (ret = UEC_OK \<longrightarrow> (case dhdi_GetCurrentFunctions h 0 w of (r, old, w1) \<Rightarrow> r = 0 \<and>
        (old = f \<and> dm' = dm \<and> w' = w1 \<or>
         old \<noteq> f \<and> dhdi_SetCurrentFunctions h f w1 = (0, w') \<and> currentFunctions dm' = f)))"
proof -
  obtain r old w1 where g: "dhdi_GetCurrentFunctions h 0 w = (r, old, w1)" by (metis prod_cases3)
  obtain ret w2 where u: "dhdi_SetCurrentFunctions h f w1 = (ret, w2)" by (metis prod.collapse)
  have "\<exists>dm'. UpdateFunctions f dm = Some dm' \<and> currentFunctions dm' = f"
    by (auto simp: UpdateFunctions_def Let_def ProcessFunctionNotifier_def)
  then show ?thesis using g u by (auto simp: SetCurrentFunctions_def)
qed

theorem SetCurrentFunctions_outcome_witness:
  "\<exists>dm' w'. SetCurrentFunctions (Some sample_device_hdi) 512 new_device_manager 4 = Some (UEC_OK, dm', w') \<and>
     currentFunctions dm' = 512"
  using SetCurrentFunctions_outcome [of sample_device_hdi 512 new_device_manager 4]
  by (auto simp: sample_device_hdi_def SetCurrentFunctions_def split: option.splits)

text \<open>
  The system event of \<^verbatim>\<open>UserChangeProcess\<close> carries the new function set both as the
  current and as the updated one: it is written after the current set has been overwritten.
\<close>

theorem UserChangeProcess_report:
  assumes "currentFunctions dm AND FUNCTION_MTP \<noteq> 0"
    and "dhdi_SetCurrentFunctions h (without_transfer (currentFunctions dm)) w = (0, w')"
  shows "\<exists>dm'. UserChangeProcess h dm w = Some (UEC_OK, dm', w') \<and>
    currentFunctions dm' = without_transfer (currentFunctions dm) \<and>
    FuncChangeSysEvent (currentFunctions dm') (currentFunctions dm') \<in> set (effects dm')"
proof -
  have "without_transfer (currentFunctions dm) AND 8 = 0"
    by (auto simp: without_transfer_def Let_def and.assoc)
  then have "without_transfer (currentFunctions dm) \<noteq> currentFunctions dm" using assms(1) by auto
  then show ?thesis
    using assms by (auto simp: UserChangeProcess_def Let_def ret_of_int_def ProcessFunctionNotifier_def)
qed

theorem UserChangeProcess_report_witness:
  "\<exists>dm'. UserChangeProcess sample_device_hdi (new_device_manager\<lparr>currentFunctions := 12\<rparr>) 12 =
      Some (UEC_OK, dm', 4) \<and> FuncChangeSysEvent 4 4 \<in> set (effects dm')"
  using UserChangeProcess_report [of "new_device_manager\<lparr>currentFunctions := 12\<rparr>" sample_device_hdi 12 4]
  by (auto simp: sample_device_hdi_def without_transfer_def)

text \<open>
  The function \<^verbatim>\<open>devmode_auth\<close> has a name that is understood but never printed: the
  name reads as mask 4096, which \<^verbatim>\<open>ConvertToString\<close> prints as \<^verbatim>\<open>none\<close>, and a
  broadcast of that function announces \<^verbatim>\<open>none\<close>.
\<close>

theorem devmode_auth_printed_as_none:
  "ConvertFromString ''devmode_auth'' = Inr FUNCTION_DEVMODE_AUTH \<and>
   ConvertToString FUNCTION_DEVMODE_AUTH = ''none'' \<and>
   map_option effects (BroadcastFuncChange True FUNCTION_DEVMODE_AUTH new_device_manager) =
     Some [RemoveSticky, UsbStateEvent True [''none''], PlugSysEvent FUNCTION_DEVMODE_AUTH True]"
proof -
  have "filter (bit (4096 :: u32)) [0..<32] = [12]" by (simp add: upt_rec)
  moreover have "split_names ''devmode_auth'' = [''devmode_auth'']"
    using split_join [of "[''devmode_auth'']"] by simp
  ultimately show ?thesis
    by (simp add: ConvertFromString_def ConvertToString_def function_bits_def new_device_manager_def
        FUNCTION_MAPPING_N2C_def)
qed

end
