(* ===== verification/Accessory_Manager.thy ===== *)
theory Accessory_Manager
  imports Device_Manager Usb_Accessory
begin

section \<open>Accessory manager\<close>

text \<open>
  \<^verbatim>\<open>services/native/src/usb_accessory_manager.cpp\<close>, the build with the V2_0 device interface:
  the state machine that switches the device into accessory mode and back, the accessory that
  applications see, and the decoding of the extra data. The driver is the record \<open>acc_hdi\<close>; the
  hash functions of the C++ library, the clock and the JSON printer are the record \<open>acc_lib\<close>. The
  two timers are flags that tell whether their task is registered; the broadcasts are a trace.
\<close>

subsection \<open>State\<close>

datatype ACCESSORYMODE = ACC_NONE | ACC_CONFIGURING | ACC_START | ACC_STOP | ACC_SEND

datatype acc_event = Attached USBAccessory | Detached USBAccessory

record accessory_manager =
  accessory :: USBAccessory
  accStatus :: ACCESSORYMODE
  eventStatus :: int
  curDeviceFunc :: u32
  lastDeviceFunc :: u32
  accFd :: int
  accDelayTimer :: bool
  antiShakeTimer :: bool
  broadcasts :: "acc_event list"

record 'w acc_hdi =
  ahdi_GetAccessoryInfo :: "'w \<Rightarrow> string list \<times> 'w"
  ahdi_SetCurrentFunctions :: "u32 \<Rightarrow> 'w \<Rightarrow> int \<times> 'w"
  ahdi_GetCurrentFunctions :: "'w \<Rightarrow> int \<times> u32 \<times> 'w"
  ahdi_OpenAccessory :: "'w \<Rightarrow> int \<times> int \<times> 'w"
  ahdi_CloseAccessory :: "'w \<Rightarrow> int \<times> 'w"

record 'w acc_lib =
  lib_string_hash :: "string \<Rightarrow> u64"
  lib_int_hash :: "u64 \<Rightarrow> u64"
  lib_millis :: "'w \<Rightarrow> u64"
  lib_print_numbers :: "u8 list \<Rightarrow> string option"
  lib_publish :: "'w \<Rightarrow> bool"

definition new_accessory_manager :: accessory_manager where
  "new_accessory_manager = \<lparr>accessory = new_accessory, accStatus = ACC_NONE, eventStatus = 0,
     curDeviceFunc = FUNCTION_NONE, lastDeviceFunc = FUNCTION_NONE, accFd = 0, accDelayTimer = False,
     antiShakeTimer = False, broadcasts = []\<rparr>"

definition FUN_ACCESSORY :: u32 where "FUN_ACCESSORY = 2048"
definition ACCESSORY_IS_BUSY :: int where "ACCESSORY_IS_BUSY = - 16"

definition acc_emit :: "acc_event \<Rightarrow> accessory_manager \<Rightarrow> accessory_manager" where
  "acc_emit e am = am\<lparr>broadcasts := broadcasts am @ [e]\<rparr>"

subsection \<open>The serial number\<close>

text \<open>\<^verbatim>\<open>std::hex\<close> with a width of 16 filled with zeros.\<close>

fun hex_digits :: "nat \<Rightarrow> nat \<Rightarrow> string" where
  "hex_digits 0 n = []"
| "hex_digits (Suc k) n = hex_digits k (n div 16) @
     [if n mod 16 < 10 then char_of (48 + n mod 16) else char_of (87 + n mod 16)]"

text \<open>The combined hash is stored in 32 bits, so eight of the sixteen digits are zero.\<close>

definition SerialValueHash :: "'w acc_lib \<Rightarrow> string \<Rightarrow> 'w \<Rightarrow> string" where
  "SerialValueHash lib serialValue w =
     (let hashValue = ucast (lib_string_hash lib serialValue XOR push_bit 1 (lib_int_hash lib (lib_millis lib w))) :: u32
      in hex_digits 16 (unat hashValue))"

subsection \<open>Base64\<close>

definition BASE_64_CHARS :: string where
  "BASE_64_CHARS = ''ABCDEFGHIJKLMNOPQRSTUVWXYZabcdefghijklmnopqrstuvwxyz0123456789+/''"

definition IsBase64 :: "char \<Rightarrow> bool" where
  "IsBase64 c \<longleftrightarrow> (let n = of_char c :: nat in 48 \<le> n \<and> n \<le> 57 \<or> 65 \<le> n \<and> n \<le> 90 \<or> 97 \<le> n \<and> n \<le> 122) \<or>
     c = CHR ''+'' \<or> c = CHR ''/''"

text \<open>\<^verbatim>\<open>std::string::find\<close> of a character; the result \<^verbatim>\<open>npos\<close> is cut to 255.\<close>

fun find_char :: "char \<Rightarrow> string \<Rightarrow> nat \<Rightarrow> u8" where
  "find_char c [] n = 255"
| "find_char c (d # s) n = (if c = d then word_of_nat n else find_char c s (Suc n))"

definition base64_bytes :: "u8 list \<Rightarrow> u8 list" where
  "base64_bytes a = (case a of
       [a0, a1, a2, a3] \<Rightarrow> [push_bit 2 a0 + drop_bit 4 (a1 AND 0x30), push_bit 4 (a1 AND 0xf) + drop_bit 2 (a2 AND 0x3c),
         push_bit 6 (a2 AND 0x3) + a3]
     | _ \<Rightarrow> [])"

text \<open>The loop over the characters: \<open>buf\<close> is the part of \<^verbatim>\<open>charArray4\<close> that is filled.\<close>

fun base64_loop :: "string \<Rightarrow> string \<Rightarrow> u8 list \<Rightarrow> string \<times> u8 list" where
  "base64_loop [] buf out = (buf, out)"
| "base64_loop (c # cs) buf out =
     (if c = CHR ''='' \<or> \<not> IsBase64 c then (buf, out)
      else let buf' = buf @ [c] in
        if length buf' = 4
        then base64_loop cs [] (out @ base64_bytes (map (\<lambda>d. find_char d BASE_64_CHARS 0) buf'))
        else base64_loop cs buf' out)"

definition Base64Decode :: "string \<Rightarrow> u8 list" where
  "Base64Decode s = (case base64_loop s [] [] of (buf, out) \<Rightarrow>
     if buf = [] then out
     else out @ take (length buf - 1) (base64_bytes
       (map (\<lambda>d. find_char d BASE_64_CHARS 0) (buf @ replicate (4 - length buf) (char_of (0 :: nat))))))"

subsection \<open>Driver calls\<close>

definition acc_SetCurrentFunctions :: "'w acc_hdi option \<Rightarrow> u32 \<Rightarrow> 'w \<Rightarrow> retcode \<times> 'w" where
  "acc_SetCurrentFunctions hdi funcs w = (case hdi of None \<Rightarrow> (UEC_SERVICE_INVALID_VALUE, w)
     | Some h \<Rightarrow> (case ahdi_SetCurrentFunctions h funcs w of (ret, w') \<Rightarrow> (ret_of_int ret, w')))"

definition acc_GetCurrentFunctions :: "'w acc_hdi option \<Rightarrow> 'w \<Rightarrow> retcode \<times> u32 \<times> 'w" where
  "acc_GetCurrentFunctions hdi w = (case hdi of None \<Rightarrow> (UEC_SERVICE_INVALID_VALUE, 0, w)
     | Some h \<Rightarrow> (case ahdi_GetCurrentFunctions h w of (ret, funcs, w') \<Rightarrow> (ret_of_int ret, funcs, w')))"

definition GetAccessoryInfo :: "'w acc_hdi option \<Rightarrow> 'w \<Rightarrow> string list \<times> 'w" where
  "GetAccessoryInfo hdi w = (case hdi of None \<Rightarrow> ([], w) | Some h \<Rightarrow> ahdi_GetAccessoryInfo h w)"

definition OpenAccessory :: "'w acc_hdi option \<Rightarrow> accessory_manager \<Rightarrow> 'w \<Rightarrow> retcode \<times> int \<times> accessory_manager \<times> 'w" where
  "OpenAccessory hdi am w = (case hdi of None \<Rightarrow> (UEC_SERVICE_INVALID_VALUE, 0, am, w)
     | Some h \<Rightarrow> (case ahdi_OpenAccessory h w of (ret, fd, w') \<Rightarrow>
         if ret = 0 then (UEC_OK, fd, am\<lparr>accFd := fd\<rparr>, w')
         else if ret = ACCESSORY_IS_BUSY then (UEC_SERVICE_ACCESSORY_REOPEN, fd, am, w')
         else (UEC_SERVICE_ACCESSORY_OPEN_NATIVE_NODE_FAILED, fd, am, w')))"

text \<open>The driver call stands for opening the node, closing the accessory and closing the node.\<close>

definition CloseAccessory :: "'w acc_hdi option \<Rightarrow> accessory_manager \<Rightarrow> 'w \<Rightarrow> retcode \<times> accessory_manager \<times> 'w" where
  "CloseAccessory hdi am w = (case hdi of None \<Rightarrow> (UEC_SERVICE_INVALID_VALUE, am, w)
     | Some h \<Rightarrow> (case ahdi_CloseAccessory h w of (ret, w') \<Rightarrow>
         if ret \<noteq> 0 then (ret_of_int ret, am, w') else (UEC_OK, am\<lparr>accFd := 0\<rparr>, w')))"

definition GetAccessoryList :: "string \<Rightarrow> accessory_manager \<Rightarrow> USBAccessory list" where
  "GetAccessoryList bundleName am =
     (if accStatus am = ACC_START
      then [(accessory am)\<lparr>acc_serialNumber := bundleName @ acc_serialNumber (accessory am)\<rparr>] else [])"

definition acc_compare :: "string \<Rightarrow> string \<Rightarrow> bool" where
  "acc_compare s1 s2 = (if s1 = [] then s2 = [] else s1 = s2)"

definition GetAccessorySerialNumber :: "USBAccessory \<Rightarrow> string \<Rightarrow> accessory_manager \<Rightarrow> retcode + string" where
  "GetAccessorySerialNumber access bundleName am =
     (if accStatus am \<noteq> ACC_START then Inl UEC_SERVICE_ACCESSORY_NOT_MATCH
      else if acc_compare (acc_manufacturer (accessory am)) (acc_manufacturer access) \<and>
        acc_compare (acc_product (accessory am)) (acc_product access) \<and>
        acc_compare (acc_description (accessory am)) (acc_description access) \<and>
        acc_compare (acc_version (accessory am)) (acc_version access) \<and>
        (acc_compare (acc_serialNumber (accessory am)) (acc_serialNumber access) \<or>
         acc_compare (bundleName @ acc_serialNumber (accessory am)) (acc_serialNumber access))
      then Inr (acc_manufacturer access @ acc_product access @ acc_version access @ acc_serialNumber access)
      else Inl UEC_SERVICE_ACCESSORY_NOT_MATCH)"

subsection \<open>The state machine\<close>

text \<open>The publication returns a boolean, which is returned as an integer: success is the code 1.\<close>

definition publish_code :: "bool \<Rightarrow> retcode" where
  "publish_code ok = (if ok then Code 1 else UEC_OK)"

definition ProcessAccessoryStart :: "'w acc_hdi option \<Rightarrow> 'w acc_lib \<Rightarrow> u32 \<Rightarrow> ACCESSORYMODE \<Rightarrow>
    accessory_manager \<Rightarrow> 'w \<Rightarrow> retcode \<times> accessory_manager \<times> 'w" where
  "ProcessAccessoryStart hdi lib curFunc curAccStatus am w =
     (if curFunc AND FUN_ACCESSORY \<noteq> 0 \<and> accStatus am \<noteq> ACC_START then
        (case GetAccessoryInfo hdi w of (accessorys, w1) \<Rightarrow>
          let acc = SetAccessory accessorys (accessory am);
              acc' = acc\<lparr>acc_serialNumber := SerialValueHash lib (acc_serialNumber acc) w1\<rparr>
          in (publish_code (lib_publish lib w1),
              acc_emit (Attached acc') (am\<lparr>accStatus := ACC_START, accessory := acc'\<rparr>), w1))
      else if curFunc AND FUN_ACCESSORY = 0 \<and> curAccStatus = ACC_CONFIGURING then
        (case acc_SetCurrentFunctions hdi FUN_ACCESSORY w of (ret, w1) \<Rightarrow>
          if ret \<noteq> UEC_OK then (ret, am, w1)
          else (UEC_OK, am\<lparr>lastDeviceFunc := curFunc, accDelayTimer := True, accStatus := ACC_CONFIGURING\<rparr>, w1))
      else (UEC_OK, am, w))"

text \<open>The task that gives the accessory mode up when the host does not come back.\<close>

definition acc_delay_task :: "'w acc_hdi option \<Rightarrow> accessory_manager \<Rightarrow> 'w \<Rightarrow> accessory_manager \<times> 'w" where
  "acc_delay_task hdi am w =
     (am\<lparr>accStatus := ACC_STOP, accDelayTimer := False\<rparr>, snd (acc_SetCurrentFunctions hdi (lastDeviceFunc am) w))"

definition ProcessAccessoryStop :: "'w acc_hdi option \<Rightarrow> 'w acc_lib \<Rightarrow> u32 \<Rightarrow> accessory_manager \<Rightarrow> 'w \<Rightarrow>
    retcode \<times> accessory_manager \<times> 'w" where
  "ProcessAccessoryStop hdi lib curFunc am w =
     (if curFunc AND FUN_ACCESSORY \<noteq> 0 \<and> accStatus am = ACC_START then
        (case acc_SetCurrentFunctions hdi (lastDeviceFunc am) w of (ret, w1) \<Rightarrow>
          (publish_code (lib_publish lib w1),
           acc_emit (Detached (accessory am)) (am\<lparr>accStatus := ACC_STOP, curDeviceFunc := lastDeviceFunc am\<rparr>), w1))
      else (UEC_OK, am, w))"

definition ProcessAccessorySend :: "'w acc_hdi option \<Rightarrow> 'w acc_lib \<Rightarrow> accessory_manager \<Rightarrow> 'w \<Rightarrow>
    retcode \<times> accessory_manager \<times> 'w" where
  "ProcessAccessorySend hdi lib am w =
     (case GetAccessoryInfo hdi w of (accessorys, w1) \<Rightarrow>
        let am1 = am\<lparr>accStatus := ACC_SEND, accessory := SetAccessory accessorys (accessory am)\<rparr>;
            send = (\<lambda>extra. (UEC_OK, acc_emit (Attached (new_accessory\<lparr>acc_description := extra\<rparr>)) am1, w1))
        in if 5 < length accessorys \<and> accessorys ! 5 \<noteq> [] then
             (case lib_print_numbers lib (Base64Decode (accessorys ! 5)) of
                None \<Rightarrow> (UEC_SERVICE_INVALID_VALUE, am1, w1)
              | Some extraInfo \<Rightarrow> send extraInfo)
           else send [])"

definition ProcessHandle :: "'w acc_hdi option \<Rightarrow> 'w acc_lib \<Rightarrow> ACCESSORYMODE \<Rightarrow> accessory_manager \<Rightarrow> 'w \<Rightarrow>
    accessory_manager \<times> 'w" where
  "ProcessHandle hdi lib curAccStatus am w =
     (if curAccStatus = ACC_CONFIGURING \<or> curAccStatus = ACC_START then
        let am1 = am\<lparr>accDelayTimer := False\<rparr> in
        (case acc_GetCurrentFunctions hdi w of (ret, curFunc, w1) \<Rightarrow>
          if ret \<noteq> UEC_OK then (am1, w1)
          else snd (ProcessAccessoryStart hdi lib curFunc curAccStatus (am1\<lparr>curDeviceFunc := curFunc\<rparr>) w1))
      else if curAccStatus = ACC_STOP \<and> accStatus am \<noteq> ACC_CONFIGURING
      then snd (ProcessAccessoryStop hdi lib (curDeviceFunc am) am w)
      else if curAccStatus = ACC_SEND then snd (ProcessAccessorySend hdi lib am w)
      else (am, w))"

definition event_mode :: "int \<Rightarrow> accessory_manager \<Rightarrow> ACCESSORYMODE" where
  "event_mode status am =
     (if status = ACT_UPDEVICE then if accStatus am = ACC_CONFIGURING then ACC_START else ACC_NONE
      else if status = ACT_ACCESSORYUP then ACC_CONFIGURING
      else if status = ACT_DOWNDEVICE \<or> status = ACT_ACCESSORYDOWN then ACC_STOP
      else if status = ACT_ACCESSORYSEND then ACC_SEND
      else ACC_NONE)"

definition acc_HandleEvent :: "'w acc_hdi option \<Rightarrow> 'w acc_lib \<Rightarrow> int \<Rightarrow> bool \<Rightarrow> accessory_manager \<Rightarrow> 'w \<Rightarrow>
    accessory_manager \<times> 'w" where
  "acc_HandleEvent hdi lib status delayProcess am w =
     (case hdi of None \<Rightarrow> (am, w)
      | Some h \<Rightarrow>
        let am1 = am\<lparr>eventStatus := status\<rparr>;
            am2 = (if delayProcess then am1\<lparr>antiShakeTimer := False\<rparr> else am1)
        in if (status = ACT_UPDEVICE \<or> status = ACT_DOWNDEVICE) \<and> delayProcess
           then (am2\<lparr>antiShakeTimer := True\<rparr>, w)
           else ProcessHandle hdi lib (event_mode status am2) am2 w)"

text \<open>The task of the anti-shake timer: the last event, without delay.\<close>

definition anti_shake_task :: "'w acc_hdi option \<Rightarrow> 'w acc_lib \<Rightarrow> accessory_manager \<Rightarrow> 'w \<Rightarrow> accessory_manager \<times> 'w" where
  "anti_shake_task hdi lib am w =
     acc_HandleEvent hdi lib (eventStatus am) False (am\<lparr>antiShakeTimer := False\<rparr>) w"

text \<open>What can happen to the manager, with any change of the driver's world in between.\<close>

inductive acc_step :: "'w acc_hdi option \<Rightarrow> 'w acc_lib \<Rightarrow> accessory_manager \<times> 'w \<Rightarrow> accessory_manager \<times> 'w \<Rightarrow> bool"
  for hdi lib where
  event: "acc_step hdi lib (am, w) (acc_HandleEvent hdi lib status True am w)"
| shaken: "antiShakeTimer am \<Longrightarrow> acc_step hdi lib (am, w) (anti_shake_task hdi lib am w)"
| delayed: "accDelayTimer am \<Longrightarrow> acc_step hdi lib (am, w) (acc_delay_task hdi am w)"
| opened: "acc_step hdi lib (am, w) (snd (snd (OpenAccessory hdi am w)))"
| closed: "acc_step hdi lib (am, w) (snd (CloseAccessory hdi am w))"
| world: "acc_step hdi lib (am, w) (am, w')"

inductive acc_reachable :: "'w acc_hdi option \<Rightarrow> 'w acc_lib \<Rightarrow> accessory_manager \<times> 'w \<Rightarrow> bool" for hdi lib where
  start: "acc_reachable hdi lib (new_accessory_manager, w)"
| step: "acc_reachable hdi lib s \<Longrightarrow> acc_step hdi lib s s' \<Longrightarrow> acc_reachable hdi lib s'"

inductive_cases acc_stepE: "acc_step hdi lib s s'"


subsection \<open>Attached and detached\<close>

definition acc_inv3 :: "ACCESSORYMODE \<Rightarrow> USBAccessory \<Rightarrow> acc_event list \<Rightarrow> bool" where
  "acc_inv3 st acc bs \<longleftrightarrow> (st = ACC_START \<longrightarrow> (\<exists>zs. bs = zs @ [Attached acc])) \<and>
     (\<forall>xs a ys. bs = xs @ Detached a # ys \<longrightarrow> (\<exists>zs. xs = zs @ [Attached a]))"

abbreviation acc_inv :: "accessory_manager \<Rightarrow> bool" where
  "acc_inv am \<equiv> acc_inv3 (accStatus am) (accessory am) (broadcasts am)"

lemma snoc_split: "bs @ [e] = xs @ x # ys \<longleftrightarrow> ys = [] \<and> bs = xs \<and> e = x \<or> (\<exists>zs. ys = zs @ [e] \<and> bs = xs @ x # zs)"
  by (cases ys rule: rev_cases) auto

lemma acc_inv_quiet: "acc_inv3 st acc bs \<Longrightarrow> st' \<noteq> ACC_START \<Longrightarrow> acc_inv3 st' acc' bs"
  by (simp add: acc_inv3_def)

lemma acc_inv_attached:
  "acc_inv3 st acc bs \<Longrightarrow> (st' = ACC_START \<Longrightarrow> a = acc') \<Longrightarrow> acc_inv3 st' acc' (bs @ [Attached a])"
  by (auto simp: acc_inv3_def snoc_split)

lemma acc_inv_detached:
  "acc_inv3 ACC_START acc bs \<Longrightarrow> st' \<noteq> ACC_START \<Longrightarrow> acc_inv3 st' acc' (bs @ [Detached acc])"
  by (auto simp: acc_inv3_def snoc_split)

lemma ProcessAccessoryStart_inv:
  assumes "acc_inv am"
  shows "acc_inv (fst (snd (ProcessAccessoryStart hdi lib f m am w)))"
  using assms by (auto simp: ProcessAccessoryStart_def Let_def acc_emit_def split: prod.splits
      intro: acc_inv_attached [OF assms] acc_inv_quiet [OF assms])

lemma ProcessAccessoryStop_inv:
  "acc_inv am \<Longrightarrow> acc_inv (fst (snd (ProcessAccessoryStop hdi lib f am w)))"
  by (auto simp: ProcessAccessoryStop_def acc_emit_def acc_inv_detached split: prod.splits)

lemma ProcessAccessorySend_inv:
  assumes "acc_inv am"
  shows "acc_inv (fst (snd (ProcessAccessorySend hdi lib am w)))"
  using assms by (auto simp: ProcessAccessorySend_def Let_def acc_emit_def split: prod.splits option.splits
      intro: acc_inv_attached [OF assms] acc_inv_quiet [OF assms])

lemma ProcessHandle_inv: "acc_inv am \<Longrightarrow> acc_inv (fst (ProcessHandle hdi lib m am w))"
  by (simp add: ProcessHandle_def Let_def ProcessAccessoryStart_inv ProcessAccessoryStop_inv
      ProcessAccessorySend_inv case_prod_beta)

lemma acc_HandleEvent_inv: "acc_inv am \<Longrightarrow> acc_inv (fst (acc_HandleEvent hdi lib st d am w))"
  by (simp add: acc_HandleEvent_def Let_def ProcessHandle_inv split: option.splits)

lemma acc_step_inv: "acc_step hdi lib s s' \<Longrightarrow> acc_inv (fst s) \<Longrightarrow> acc_inv (fst s')"
proof (induction rule: acc_step.induct)
  case (event am w status)
  then show ?case by (simp add: acc_HandleEvent_inv)
next
  case (shaken am w)
  then have "acc_inv (am\<lparr>antiShakeTimer := False\<rparr>)" by simp
  then show ?case by (simp add: anti_shake_task_def acc_HandleEvent_inv)
next
  case (delayed am w)
  then show ?case by (simp add: acc_delay_task_def acc_inv_quiet)
next
  case (opened am w)
  then show ?case by (simp add: OpenAccessory_def split: option.splits prod.splits)
next
  case (closed am w)
  then show ?case by (simp add: CloseAccessory_def split: option.splits prod.splits)
qed simp

lemma acc_reachable_inv: "acc_reachable hdi lib s \<Longrightarrow> acc_inv (fst s)"
proof (induction rule: acc_reachable.induct)
  case (start w)
  show ?case by (simp add: acc_inv3_def new_accessory_manager_def)
next
  case (step s s')
  then show ?case using acc_step_inv by blast
qed

subsection \<open>Decoding\<close>

fun base64_encode :: "u8 list \<Rightarrow> string" where
  "base64_encode [] = []"
| "base64_encode [a] = [BASE_64_CHARS ! (unat a div 4), BASE_64_CHARS ! (unat a mod 4 * 16), CHR ''='', CHR ''='']"
| "base64_encode [a, b] = [BASE_64_CHARS ! (unat a div 4), BASE_64_CHARS ! (unat a mod 4 * 16 + unat b div 16),
     BASE_64_CHARS ! (unat b mod 16 * 4), CHR ''='']"
| "base64_encode (a # b # c # r) = BASE_64_CHARS ! (unat a div 4) #
     BASE_64_CHARS ! (unat a mod 4 * 16 + unat b div 16) # BASE_64_CHARS ! (unat b mod 16 * 4 + unat c div 64) #
     BASE_64_CHARS ! (unat c mod 64) # base64_encode r"

lemma base64_chars_table: "list_all (\<lambda>n. find_char (BASE_64_CHARS ! n) BASE_64_CHARS 0 = word_of_nat n \<and>
    IsBase64 (BASE_64_CHARS ! n) \<and> BASE_64_CHARS ! n \<noteq> CHR ''='') [0 ..< 64]"
  by code_simp

lemma base64_bits_table: "list_all (\<lambda>n. drop_bit 4 ((word_of_nat n :: u8) AND 0x30) = word_of_nat (n div 16) \<and>
    (word_of_nat n :: u8) AND 0xf = word_of_nat (n mod 16) \<and>
    drop_bit 2 ((word_of_nat n :: u8) AND 0x3c) = word_of_nat (n div 4) \<and>
    (word_of_nat n :: u8) AND 0x3 = word_of_nat (n mod 4)) [0 ..< 64]"
  by code_simp

lemma base64_chars [simp]:
  "n < 64 \<Longrightarrow> find_char (BASE_64_CHARS ! n) BASE_64_CHARS 0 = word_of_nat n"
  "n < 64 \<Longrightarrow> IsBase64 (BASE_64_CHARS ! n)" "n < 64 \<Longrightarrow> BASE_64_CHARS ! n \<noteq> CHR ''=''"
  using base64_chars_table by (simp_all add: list_all_iff)

lemma base64_nul [simp]: "find_char (char_of (0 :: nat)) BASE_64_CHARS 0 = 255"
  by code_simp

lemma base64_bits:
  assumes "n < 64"
  shows "drop_bit 4 ((word_of_nat n :: u8) AND 0x30) = word_of_nat (n div 16)"
    and "(word_of_nat n :: u8) AND 0xf = word_of_nat (n mod 16)"
    and "drop_bit 2 ((word_of_nat n :: u8) AND 0x3c) = word_of_nat (n div 4)"
    and "(word_of_nat n :: u8) AND 0x3 = word_of_nat (n mod 4)"
  using base64_bits_table assms by (simp_all add: list_all_iff)


lemma base64_group:
  assumes "n0 < 64" "n1 < 64" "n2 < 64"
  shows "base64_bytes [word_of_nat n0, word_of_nat n1, word_of_nat n2, a3] =
    [word_of_nat (n0 * 4 + n1 div 16), word_of_nat (n1 mod 16 * 16 + n2 div 4), word_of_nat (n2 mod 4 * 64) + a3]"
  unfolding base64_bytes_def list.case base64_bits [OF assms(2)] base64_bits [OF assms(3)]
  by (simp add: push_bit_of_nat push_bit_eq_mult mult.commute)

lemma base64_first:
  assumes "n0 < 64" "n1 < 64"
  shows "take (Suc 0) (base64_bytes [word_of_nat n0, word_of_nat n1, a2, a3]) = [word_of_nat (n0 * 4 + n1 div 16)]"
  unfolding base64_bytes_def list.case base64_bits [OF assms(2)]
  by (simp add: push_bit_of_nat push_bit_eq_mult mult.commute)

lemma base64_loop_group:
  assumes "n0 < 64" "n1 < 64" "n2 < 64" "n3 < 64"
  shows "base64_loop (BASE_64_CHARS ! n0 # BASE_64_CHARS ! n1 # BASE_64_CHARS ! n2 # BASE_64_CHARS ! n3 # cs) [] out =
    base64_loop cs [] (out @ [word_of_nat (n0 * 4 + n1 div 16), word_of_nat (n1 mod 16 * 16 + n2 div 4),
      word_of_nat (n2 mod 4 * 64 + n3)])"
  using assms by (simp add: base64_group)

lemma sextets:
  fixes a b c :: nat
  assumes "a < 256" and "b < 256" and "c < 256"
  shows "a div 4 < 64" and "a mod 4 * 16 < 64" and "a mod 4 * 16 + b div 16 < 64" and "b mod 16 * 4 < 64"
    and "b mod 16 * 4 + c div 64 < 64" and "c mod 64 < 64"
    and "a div 4 * 4 + (a mod 4 * 16 + b div 16) div 16 = a" and "a div 4 * 4 + (a mod 4 * 16) div 16 = a"
    and "(a mod 4 * 16 + b div 16) mod 16 * 16 + (b mod 16 * 4 + c div 64) div 4 = b"
    and "(a mod 4 * 16 + b div 16) mod 16 * 16 + (b mod 16 * 4) div 4 = b"
    and "(b mod 16 * 4 + c div 64) mod 4 * 64 + c mod 64 = c"
proof -
  have x: "b div 16 < 16" "c div 64 < 4" "a mod 4 < 4" "b mod 16 < 16" using assms by auto
  then have y: "(m * 16 + b div 16) div 16 = m" "(m * 16 + b div 16) mod 16 = b div 16"
    "(m * 4 + c div 64) div 4 = m" "(m * 4 + c div 64) mod 4 = c div 64" for m by simp_all
  show "a div 4 < 64" "a mod 4 * 16 < 64" "a mod 4 * 16 + b div 16 < 64" "b mod 16 * 4 < 64"
    "b mod 16 * 4 + c div 64 < 64" "c mod 64 < 64" using assms x by auto
  show "a div 4 * 4 + (a mod 4 * 16 + b div 16) div 16 = a" "a div 4 * 4 + (a mod 4 * 16) div 16 = a"
    "(a mod 4 * 16 + b div 16) mod 16 * 16 + (b mod 16 * 4 + c div 64) div 4 = b"
    "(a mod 4 * 16 + b div 16) mod 16 * 16 + (b mod 16 * 4) div 4 = b"
    "(b mod 16 * 4 + c div 64) mod 4 * 64 + c mod 64 = c" unfolding y by simp_all
qed

lemma u8_less: "unat (a :: u8) < 256"
  using unsigned_less [of a, where ?'a = nat] by simp

lemma Base64Decode_append:
  "base64_loop (cs @ s) [] [] = base64_loop s [] out \<Longrightarrow> Base64Decode (cs @ s) = out @ Base64Decode s"
proof -
  assume a: "base64_loop (cs @ s) [] [] = base64_loop s [] out"
  have "base64_loop t buf (out @ o1) = (case base64_loop t buf o1 of (b, o') \<Rightarrow> (b, out @ o'))" for t buf o1
    by (induction t buf o1 rule: base64_loop.induct) (auto simp: Let_def)
  from this [of s "[]" "[]"] a show ?thesis
    by (simp add: Base64Decode_def split: prod.splits)
qed

lemma Base64Decode_encode: "Base64Decode (base64_encode bs) = bs"
proof (induction bs rule: base64_encode.induct)
  case 1
  show ?case by (simp add: Base64Decode_def)
next
  case (2 a)
  note p = sextets [of "unat a" "unat a" "unat a", OF u8_less u8_less u8_less]
  have "Base64Decode (base64_encode [a]) = take (Suc 0) (base64_bytes
      [word_of_nat (unat a div 4), word_of_nat (unat a mod 4 * 16), 255, 255])"
    using base64_chars [OF p(1)] base64_chars [OF p(2)]
    by (simp add: Base64Decode_def numeral_2_eq_2)
  also have "\<dots> = [a]" unfolding base64_first [OF p(1,2)] p(8) by simp
  finally show ?case .
next
  case (3 a b)
  note p = sextets [of "unat a" "unat b" "unat b", OF u8_less u8_less u8_less]
  have "Base64Decode (base64_encode [a, b]) = take (Suc (Suc 0)) (base64_bytes
      [word_of_nat (unat a div 4), word_of_nat (unat a mod 4 * 16 + unat b div 16),
       word_of_nat (unat b mod 16 * 4), 255])"
    using base64_chars [OF p(1)] base64_chars [OF p(3)] base64_chars [OF p(4)]
    by (simp add: Base64Decode_def numeral_3_eq_3)
  also have "\<dots> = [a, b]" unfolding base64_group [OF p(1,3,4)] p(7) p(9) p(10) by simp
  finally show ?case .
next
  case (4 a b c r)
  note p = sextets [of "unat a" "unat b" "unat c", OF u8_less u8_less u8_less]
  let ?cs = "[BASE_64_CHARS ! (unat a div 4), BASE_64_CHARS ! (unat a mod 4 * 16 + unat b div 16),
    BASE_64_CHARS ! (unat b mod 16 * 4 + unat c div 64), BASE_64_CHARS ! (unat c mod 64)]"
  have "base64_loop (?cs @ base64_encode r) [] [] = base64_loop (base64_encode r) [] [a, b, c]"
    using base64_loop_group [OF p(1,3,5,6), of "base64_encode r" "[]", unfolded p(7,9,11)]
    by (simp del: base64_loop.simps)
  from Base64Decode_append [OF this] 4 show ?case by simp
qed


subsection \<open>Properties\<close>

text \<open>
  C25: applications are told in pairs. In every reachable state, whatever the cable, the host, the
  timers and the driver do, a detached broadcast comes directly after the attached broadcast of
  the same accessory, with the same serial number.
\<close>

theorem detached_follows_attached:
  assumes "acc_reachable hdi lib (am, w)" and "broadcasts am = xs @ Detached a # ys"
  shows "\<exists>zs. xs = zs @ [Attached a]"
  using acc_reachable_inv [OF assms(1)] assms(2) by (auto simp: acc_inv3_def)

text \<open>
  \<^verbatim>\<open>Base64Decode\<close> inverts the standard encoding: every byte sequence of any length,
  encoded with padding, decodes to itself.
\<close>

theorem Base64_roundtrip: "Base64Decode (base64_encode bs) = bs"
  by (rule Base64Decode_encode)

text \<open>
  An accessory taken from the list an application was given is recognised, and only the
  attached one is: with the accessory in use, the serial key is returned exactly for an accessory
  whose members are those of the attached one and whose serial number is the attached one's, bare or
  after the application's own name.
\<close>

theorem accessory_recognised:
  "(\<forall>a \<in> set (GetAccessoryList app am). GetAccessorySerialNumber a app am =
      Inr (acc_manufacturer a @ acc_product a @ acc_version a @ app @ acc_serialNumber (accessory am))) \<and>
   (GetAccessorySerialNumber a app am = Inr key \<longrightarrow> accStatus am = ACC_START \<and>
      (\<exists>s. a = (accessory am)\<lparr>acc_serialNumber := s\<rparr> \<and>
         (s = acc_serialNumber (accessory am) \<or> s = app @ acc_serialNumber (accessory am))))"
proof (intro conjI impI)
  show "\<forall>a \<in> set (GetAccessoryList app am). GetAccessorySerialNumber a app am =
      Inr (acc_manufacturer a @ acc_product a @ acc_version a @ app @ acc_serialNumber (accessory am))"
    by (auto simp: GetAccessoryList_def GetAccessorySerialNumber_def acc_compare_def)
  assume k: "GetAccessorySerialNumber a app am = Inr key"
  then show "accStatus am = ACC_START" by (auto simp: GetAccessorySerialNumber_def split: if_splits)
  from k have "acc_serialNumber a = acc_serialNumber (accessory am) \<or>
      acc_serialNumber a = app @ acc_serialNumber (accessory am)"
    and "a = (accessory am)\<lparr>acc_serialNumber := acc_serialNumber a\<rparr>"
    by (auto simp: GetAccessorySerialNumber_def acc_compare_def intro!: USBAccessory.equality split: if_splits)
  then show "\<exists>s. a = (accessory am)\<lparr>acc_serialNumber := s\<rparr> \<and>
      (s = acc_serialNumber (accessory am) \<or> s = app @ acc_serialNumber (accessory am))" by blast
qed

text \<open>
  The switch into accessory mode can be left without its way back. When the driver cannot tell
  its functions at the moment the host has come back, the fallback task has already been cancelled
  and nothing else is done: the manager stays in the configuring state with no timer, and a later
  cable removal does not change it.
\<close>

theorem configuring_without_timer:
  assumes "accStatus am = ACC_CONFIGURING" and "\<And>w. fst (ahdi_GetCurrentFunctions h w) \<noteq> 0"
  shows "\<exists>am1 w1. acc_HandleEvent (Some h) lib ACT_UPDEVICE False am w = (am1, w1) \<and>
    accStatus am1 = ACC_CONFIGURING \<and> \<not> accDelayTimer am1 \<and> broadcasts am1 = broadcasts am \<and>
    acc_HandleEvent (Some h) lib ACT_DOWNDEVICE False am1 w1 = (am1\<lparr>eventStatus := ACT_DOWNDEVICE\<rparr>, w1)"
proof -
  obtain r f w1 where g: "ahdi_GetCurrentFunctions h w = (r, f, w1)" by (cases "ahdi_GetCurrentFunctions h w")
  with assms(2) [of w] have "r \<noteq> 0" by simp
  with g assms(1) show ?thesis
    by (simp add: acc_HandleEvent_def event_mode_def ProcessHandle_def acc_GetCurrentFunctions_def Let_def)
qed

subsection \<open>Witnesses\<close>

definition sample_acc_hdi :: "bool \<Rightarrow> u32 acc_hdi" where
  "sample_acc_hdi ok = \<lparr>ahdi_GetAccessoryInfo = (\<lambda>w. ([''m'', ''p'', ''d'', ''v'', ''s''], w)),
     ahdi_SetCurrentFunctions = (\<lambda>f w. (0, f)), ahdi_GetCurrentFunctions = (\<lambda>w. (if ok then 0 else 1, w, w)),
     ahdi_OpenAccessory = (\<lambda>w. (0, 3, w)), ahdi_CloseAccessory = (\<lambda>w. (0, w))\<rparr>"

definition sample_acc_lib :: "u32 acc_lib" where
  "sample_acc_lib = \<lparr>lib_string_hash = (\<lambda>s. 7), lib_int_hash = (\<lambda>n. n), lib_millis = (\<lambda>w. 1),
     lib_print_numbers = (\<lambda>ns. Some []), lib_publish = (\<lambda>w. True)\<rparr>"

text \<open>The host asks for accessory mode, comes back, and the cable is removed.\<close>

definition sample_acc_run :: "accessory_manager \<times> u32" where
  "sample_acc_run = (let H = sample_acc_hdi True; L = sample_acc_lib;
     s1 = acc_HandleEvent (Some H) L ACT_ACCESSORYUP True new_accessory_manager 4;
     s2 = acc_HandleEvent (Some H) L ACT_UPDEVICE True (fst s1) (snd s1);
     s3 = anti_shake_task (Some H) L (fst s2) (snd s2)
   in acc_HandleEvent (Some H) L ACT_ACCESSORYDOWN True (fst s3) (snd s3))"

lemma sample_acc_reachable: "acc_reachable (Some (sample_acc_hdi True)) sample_acc_lib sample_acc_run"
proof -
  let ?H = "Some (sample_acc_hdi True)" and ?L = sample_acc_lib
  define s1 where "s1 = acc_HandleEvent ?H ?L ACT_ACCESSORYUP True new_accessory_manager 4"
  define s2 where "s2 = acc_HandleEvent ?H ?L ACT_UPDEVICE True (fst s1) (snd s1)"
  define s3 where "s3 = anti_shake_task ?H ?L (fst s2) (snd s2)"
  have 1: "acc_reachable ?H ?L (fst s1, snd s1)"
    unfolding s1_def by (simp add: acc_reachable.step [OF acc_reachable.start acc_step.event])
  have 2: "acc_reachable ?H ?L (fst s2, snd s2)"
    unfolding s2_def by (simp add: acc_reachable.step [OF 1 acc_step.event])
  have "antiShakeTimer (fst s2)" unfolding s2_def by (simp add: acc_HandleEvent_def Let_def)
  then have 3: "acc_reachable ?H ?L (fst s3, snd s3)"
    unfolding s3_def by (simp add: acc_reachable.step [OF 2 acc_step.shaken])
  show ?thesis
    unfolding sample_acc_run_def Let_def
    using acc_reachable.step [OF 3 acc_step.event, of ACT_ACCESSORYDOWN] by (simp add: s1_def s2_def s3_def)
qed

lemma detached_follows_attached_witness:
  "\<exists>a xs. broadcasts (fst sample_acc_run) = xs @ [Detached a] \<and> (\<exists>zs. xs = zs @ [Attached a])"
proof -
  have "\<exists>a b. broadcasts (fst sample_acc_run) = [b] @ Detached a # []"
    by (simp add: sample_acc_run_def acc_HandleEvent_def event_mode_def ProcessHandle_def Let_def
        acc_GetCurrentFunctions_def ProcessAccessoryStart_def acc_SetCurrentFunctions_def FUN_ACCESSORY_def
        sample_acc_hdi_def sample_acc_lib_def new_accessory_manager_def anti_shake_task_def
        GetAccessoryInfo_def acc_emit_def ProcessAccessoryStop_def)
  then obtain a b where r: "broadcasts (fst sample_acc_run) = [b] @ Detached a # []" by blast
  have "acc_reachable (Some (sample_acc_hdi True)) sample_acc_lib (fst sample_acc_run, snd sample_acc_run)"
    using sample_acc_reachable by simp
  from detached_follows_attached [OF this r] r show ?thesis by auto
qed

lemma accessory_recognised_witness:
  "GetAccessorySerialNumber (new_accessory\<lparr>acc_serialNumber := ''app''\<rparr>) ''app''
     (new_accessory_manager\<lparr>accStatus := ACC_START\<rparr>) = Inr ''app''"
  using accessory_recognised [of "''app''" "new_accessory_manager\<lparr>accStatus := ACC_START\<rparr>"]
  by (simp add: GetAccessoryList_def new_accessory_manager_def new_accessory_def)

lemma configuring_without_timer_witness:
  "\<not> accDelayTimer (fst (acc_HandleEvent (Some (sample_acc_hdi False)) sample_acc_lib ACT_UPDEVICE False
     (new_accessory_manager\<lparr>accStatus := ACC_CONFIGURING, accDelayTimer := True\<rparr>) 4))"
  using configuring_without_timer [of "new_accessory_manager\<lparr>accStatus := ACC_CONFIGURING, accDelayTimer := True\<rparr>"
      "sample_acc_hdi False" sample_acc_lib 4]
  by (auto simp: sample_acc_hdi_def)

end
