(* ===== verification/Port_Manager.thy ===== *)
theory Port_Manager
  imports Usb_Prelude
begin

section \<open>Port manager\<close>

text \<open>
  \<^verbatim>\<open>services/native/src/usb_port_manager.cpp\<close>, the build with the V2_0 port interface: the
  table of ports with their roles, the supported modes recorded when the service starts, role
  switching, and the operator's dump commands (their output as a list of lines). The driver
  \<^verbatim>\<open>IUsbPortInterface\<close> is the record \<open>port_hdi\<close> over an abstract world, \<open>None\<close> when it
  was not obtained. Notifications to the user and role-change system events are lists in the
  state. The reachable states are those of the step relation \<open>port_step\<close>.
\<close>

subsection \<open>State\<close>

record UsbPort =
  port_id :: int
  port_supportedModes :: int
  port_currentMode :: int
  port_currentPowerRole :: int
  port_currentDataRole :: int

record role_change =
  rc_currentPowerRole :: int
  rc_updatePowerRole :: int
  rc_currentDataRole :: int
  rc_updateDataRole :: int

record port_manager =
  portMap :: "(int, UsbPort) omap"
  supportedModeMap :: "(int, int) omap"
  role_events :: "role_change list"
  port_notifications :: "notifier list"

record 'w port_hdi =
  hdi_SetPortRole :: "int \<Rightarrow> int \<Rightarrow> int \<Rightarrow> 'w \<Rightarrow> int \<times> 'w"
  hdi_QueryPorts :: "'w \<Rightarrow> int \<times> UsbPort list \<times> 'w"

definition new_port_manager :: port_manager where
  "new_port_manager = \<lparr>portMap = [], supportedModeMap = [], role_events = [],
     port_notifications = []\<rparr>"

definition POWER_ROLE_SOURCE :: int where "POWER_ROLE_SOURCE = 1"
definition POWER_ROLE_SINK :: int where "POWER_ROLE_SINK = 2"
definition DATA_ROLE_HOST :: int where "DATA_ROLE_HOST = 1"
definition DATA_ROLE_DEVICE :: int where "DATA_ROLE_DEVICE = 2"
definition PORT_MODE_DEVICE :: int where "PORT_MODE_DEVICE = 1"
definition PORT_MODE_HOST :: int where "PORT_MODE_HOST = 2"
definition DEFAULT_ROLE_HOST :: int where "DEFAULT_ROLE_HOST = 1"
definition DEFAULT_ROLE_DEVICE :: int where "DEFAULT_ROLE_DEVICE = 2"
definition HOST_MODE :: int where "HOST_MODE = 2"
definition CMD_INDEX :: int where "CMD_INDEX = 1"

lemmas port_constants [simp] = POWER_ROLE_SOURCE_def POWER_ROLE_SINK_def DATA_ROLE_HOST_def
  DATA_ROLE_DEVICE_def PORT_MODE_DEVICE_def PORT_MODE_HOST_def DEFAULT_ROLE_HOST_def
  DEFAULT_ROLE_DEVICE_def HOST_MODE_def CMD_INDEX_def

subsection \<open>Operations\<close>

definition AddPort :: "UsbPort \<Rightarrow> port_manager \<Rightarrow> port_manager" where
  "AddPort port pm = pm\<lparr>portMap := omap_insert (port_id port) port (portMap pm)\<rparr>"

definition AddPortInfo :: "int \<Rightarrow> int \<Rightarrow> int \<Rightarrow> int \<Rightarrow> int \<Rightarrow> port_manager \<Rightarrow> port_manager" where
  "AddPortInfo portId supportedModes currentMode currentDataRole currentPowerRole pm =
     AddPort \<lparr>port_id = portId, port_supportedModes = supportedModes,
       port_currentMode = currentMode, port_currentPowerRole = currentPowerRole,
       port_currentDataRole = currentDataRole\<rparr> pm"

definition RemovePort :: "int \<Rightarrow> port_manager \<Rightarrow> port_manager" where
  "RemovePort portId pm = pm\<lparr>portMap := omap_erase portId (portMap pm)\<rparr>"

definition QueryPort ::
  "'w port_hdi option \<Rightarrow> port_manager \<Rightarrow> 'w \<Rightarrow> retcode \<times> port_manager \<times> 'w" where
  "QueryPort hdi pm w =
     (case hdi of None \<Rightarrow> (UEC_SERVICE_INVALID_VALUE, pm, w)
      | Some h \<Rightarrow> (case hdi_QueryPorts h w of (ret, portList, w') \<Rightarrow>
          if ret \<noteq> 0 then (ret_of_int ret, pm, w')
          else (UEC_OK, foldl (\<lambda>pm it. AddPortInfo (port_id it) (port_supportedModes it)
                  (port_currentMode it) (port_currentDataRole it) (port_currentPowerRole it) pm)
                  pm portList, w')))"

definition AddSupportedMode :: "port_manager \<Rightarrow> port_manager" where
  "AddSupportedMode pm = pm\<lparr>supportedModeMap :=
     foldl (\<lambda>m (k, v). omap_put k v m) []
       (map (\<lambda>(k, p). (k, port_supportedModes p)) (portMap pm))\<rparr>"

definition PortInit :: "'w port_hdi option \<Rightarrow> port_manager \<Rightarrow> 'w \<Rightarrow> port_manager \<times> 'w" where
  "PortInit hdi pm w = (case QueryPort hdi pm w of (ret, pm', w') \<Rightarrow> (AddSupportedMode pm', w'))"

definition IsReverseCharge :: "port_manager \<Rightarrow> bool" where
  "IsReverseCharge pm =
     (case map_of (portMap pm) CMD_INDEX of None \<Rightarrow> False
      | Some p \<Rightarrow> port_currentPowerRole p = DEFAULT_ROLE_HOST)"

definition SetPortRole :: "'w port_hdi option \<Rightarrow> int \<Rightarrow> int \<Rightarrow> int \<Rightarrow> port_manager \<Rightarrow> 'w \<Rightarrow>
    retcode \<times> port_manager \<times> 'w" where
  "SetPortRole hdi portId powerRole dataRole pm w =
     (case hdi of None \<Rightarrow> (UEC_SERVICE_INVALID_VALUE, pm, w)
      | Some h \<Rightarrow> (case hdi_SetPortRole h portId powerRole dataRole w of (ret, w') \<Rightarrow>
          if ret \<noteq> 0 then (ret_of_int ret, pm, w')
          else (UEC_OK, pm\<lparr>port_notifications := port_notifications pm @
                  [if IsReverseCharge pm then USB_FUNC_REVERSE_CHARGE else USB_FUNC_CHARGE]\<rparr>, w')))"

definition GetPorts ::
  "'w port_hdi option \<Rightarrow> port_manager \<Rightarrow> 'w \<Rightarrow> retcode \<times> UsbPort list \<times> port_manager \<times> 'w" where
  "GetPorts hdi pm w =
     (if portMap pm \<noteq> [] then (UEC_OK, map snd (portMap pm), pm, w)
      else (case QueryPort hdi pm w of (ret, pm', w') \<Rightarrow>
        if ret = UEC_OK then (ret, map snd (portMap pm'), pm', w')
        else (UEC_SERVICE_INVALID_VALUE, [], pm', w')))"

definition GetSupportedModes :: "int \<Rightarrow> port_manager \<Rightarrow> retcode \<times> int option" where
  "GetSupportedModes portId pm =
     (case map_of (supportedModeMap pm) portId of
        Some modes \<Rightarrow> (UEC_OK, Some modes)
      | None \<Rightarrow> (UEC_SERVICE_INVALID_VALUE, None))"

text \<open>The port after a role change: the mode follows the data role, not the reported mode.\<close>

definition port_with_roles :: "int \<Rightarrow> int \<Rightarrow> UsbPort \<Rightarrow> UsbPort" where
  "port_with_roles powerRole dataRole p =
     p\<lparr>port_currentPowerRole := powerRole, port_currentDataRole := dataRole,
       port_currentMode := (if dataRole = DATA_ROLE_HOST then PORT_MODE_HOST
                            else if dataRole = DATA_ROLE_DEVICE then PORT_MODE_DEVICE
                            else port_currentMode p)\<rparr>"

definition UpdatePort :: "int \<Rightarrow> int \<Rightarrow> int \<Rightarrow> int \<Rightarrow> port_manager \<Rightarrow> port_manager" where
  "UpdatePort portId powerRole dataRole mode pm =
     (case map_of (portMap pm) portId of None \<Rightarrow> pm
      | Some p \<Rightarrow>
          if port_id p = portId then
            pm\<lparr>portMap := omap_put portId (port_with_roles powerRole dataRole p) (portMap pm),
               role_events := role_events pm @
                 [\<lparr>rc_currentPowerRole = port_currentPowerRole p, rc_updatePowerRole = powerRole,
                   rc_currentDataRole = port_currentDataRole p, rc_updateDataRole = dataRole\<rparr>]\<rparr>
          else pm)"

text \<open>The overload with the supported modes does the same and drops them.\<close>

definition UpdatePort5 :: "int \<Rightarrow> int \<Rightarrow> int \<Rightarrow> int \<Rightarrow> int \<Rightarrow> port_manager \<Rightarrow> port_manager" where
  "UpdatePort5 portId powerRole dataRole mode supportedModes pm =
     UpdatePort portId powerRole dataRole mode pm"

subsection \<open>Operator commands\<close>

datatype port_line =
    PortStatusHeader | PortsFailed | PortListEmpty | PortLine UsbPort
  | GetPortsFailed | CurrentHost int | CurrentDevice int | DumpHelp | ParamError | InvalidInteger

text \<open>\<open>None\<close> is the read of the first element of an empty vector.\<close>

definition GetPortsInfo ::
  "'w port_hdi option \<Rightarrow> port_manager \<Rightarrow> 'w \<Rightarrow> (port_line list \<times> port_manager \<times> 'w) option" where
  "GetPortsInfo hdi pm w =
     (case GetPorts hdi pm w of (ret, usbports, pm', w') \<Rightarrow>
        if ret \<noteq> UEC_OK then Some ([GetPortsFailed], pm', w')
        else (case usbports of [] \<Rightarrow> None
          | p # _ \<Rightarrow> Some ([if port_currentMode p = HOST_MODE then CurrentHost (port_currentMode p)
                            else CurrentDevice (port_currentMode p)], pm', w')))"

definition DumpGetSupportPort ::
  "'w port_hdi option \<Rightarrow> port_manager \<Rightarrow> 'w \<Rightarrow> port_line list \<times> port_manager \<times> 'w" where
  "DumpGetSupportPort hdi pm w =
     (case GetPorts hdi pm w of (ret, ports, pm', w') \<Rightarrow>
        if ret \<noteq> UEC_OK then ([PortStatusHeader, PortsFailed], pm', w')
        else if ports = [] then ([PortStatusHeader, PortListEmpty], pm', w')
        else (PortStatusHeader # map PortLine ports, pm', w'))"

text \<open>
  \<open>hidumper\<close> is the build flag \<^verbatim>\<open>USB_MANAGER_HIDUMPER_SET\<close>; a number beyond 32 bits makes
  \<^verbatim>\<open>stoi\<close> throw (\<open>None\<close>).
\<close>

definition DumpSetPortRoles :: "bool \<Rightarrow> 'w port_hdi option \<Rightarrow> string \<Rightarrow> port_manager \<Rightarrow> 'w \<Rightarrow>
    (port_line list \<times> port_manager \<times> 'w) option" where
  "DumpSetPortRoles hidumper hdi arg pm w =
     (if hdi = None then Some ([], pm, w)
      else if arg = ''Q'' then GetPortsInfo hdi pm w
      else if \<not> hidumper then Some ([ParamError, DumpHelp], pm, w)
      else if arg = [] \<or> \<not> list_all is_digit arg then Some ([InvalidInteger, DumpHelp], pm, w)
      else if 2 ^ 31 \<le> dec_value arg then None
      else let mode = int (dec_value arg) in
        if mode = DEFAULT_ROLE_HOST then
          (case SetPortRole hdi PORT_MODE_DEVICE POWER_ROLE_SOURCE DATA_ROLE_HOST pm w of
             (ret, pm', w') \<Rightarrow> GetPortsInfo hdi pm' w')
        else if mode = DEFAULT_ROLE_DEVICE then
          (case SetPortRole hdi PORT_MODE_DEVICE POWER_ROLE_SINK DATA_ROLE_DEVICE pm w of
             (ret, pm', w') \<Rightarrow> GetPortsInfo hdi pm' w')
        else Some ([ParamError, DumpHelp], pm, w))"

definition PortDump :: "bool \<Rightarrow> 'w port_hdi option \<Rightarrow> string list \<Rightarrow> port_manager \<Rightarrow> 'w \<Rightarrow>
    (port_line list \<times> port_manager \<times> 'w) option" where
  "PortDump hidumper hdi args pm w =
     (if length args < 2 \<or> 3 < length args then Some ([DumpHelp], pm, w)
      else if args ! 1 = ''-a'' \<and> length args = 2 then Some (DumpGetSupportPort hdi pm w)
      else if args ! 1 = ''-p'' \<and> length args = 3 then DumpSetPortRoles hidumper hdi (args ! 2) pm w
      else Some ([ParamError, DumpHelp], pm, w))"

subsection \<open>Steps and reachable states\<close>

inductive port_step :: "'w port_hdi option \<Rightarrow> port_manager \<times> 'w \<Rightarrow> port_manager \<times> 'w \<Rightarrow> bool"
  for hdi where
  init: "port_step hdi (pm, w) (PortInit hdi pm w)"
| query: "QueryPort hdi pm w = (ret, pm', w') \<Longrightarrow> port_step hdi (pm, w) (pm', w')"
| get: "GetPorts hdi pm w = (ret, ports, pm', w') \<Longrightarrow> port_step hdi (pm, w) (pm', w')"
| set_role: "SetPortRole hdi i pr dr pm w = (ret, pm', w') \<Longrightarrow> port_step hdi (pm, w) (pm', w')"
| update: "port_step hdi (pm, w) (UpdatePort i pr dr m pm, w)"
| update5: "port_step hdi (pm, w) (UpdatePort5 i pr dr m sm pm, w)"
| remove: "port_step hdi (pm, w) (RemovePort i pm, w)"
| dump: "PortDump hid hdi args pm w = Some (out, pm', w') \<Longrightarrow> port_step hdi (pm, w) (pm', w')"
| environment: "port_step hdi (pm, w) (pm, w')"

inductive port_reachable :: "'w port_hdi option \<Rightarrow> port_manager \<times> 'w \<Rightarrow> bool" for hdi where
  start: "port_reachable hdi (new_port_manager, w)"
| step: "port_reachable hdi s \<Longrightarrow> port_step hdi s s' \<Longrightarrow> port_reachable hdi s'"

inductive_cases port_stepE: "port_step hdi s s'"

definition port_wf :: "port_manager \<Rightarrow> bool" where
  "port_wf pm \<longleftrightarrow> omap_ok (portMap pm) \<and> omap_ok (supportedModeMap pm) \<and>
     (\<forall>(k, p) \<in> set (portMap pm). port_id p = k)"

text \<open>A driver with one port that follows every role change.\<close>

definition one_port :: UsbPort where
  "one_port = \<lparr>port_id = 1, port_supportedModes = 3, port_currentMode = 1,
     port_currentPowerRole = 2, port_currentDataRole = 2\<rparr>"

definition sample_port_hdi :: "unit port_hdi" where
  "sample_port_hdi = \<lparr>hdi_SetPortRole = (\<lambda>i p d w. (0, w)),
     hdi_QueryPorts = (\<lambda>w. (0, [one_port], w))\<rparr>"

subsection \<open>Every operation keeps the table in order\<close>

lemma AddPort_wf: "port_wf pm \<Longrightarrow> port_wf (AddPort p pm)"
  using omap_insert_subset [of "port_id p" p "portMap pm"]
  by (auto simp: port_wf_def AddPort_def omap.ok_insert)

lemma foldl_keeps: "P s \<Longrightarrow> (\<And>s x. P s \<Longrightarrow> P (f s x)) \<Longrightarrow> P (foldl f s xs)"
  by (induction xs arbitrary: s) auto

lemma QueryPort_wf: "QueryPort hdi pm w = (ret, pm', w') \<Longrightarrow> port_wf pm \<Longrightarrow> port_wf pm'"
  by (auto simp: QueryPort_def AddPortInfo_def AddPort_wf split: option.splits prod.splits if_splits
      intro!: foldl_keeps [of port_wf])

lemma QueryPort_modes:
  "QueryPort hdi pm w = (ret, pm', w') \<Longrightarrow> supportedModeMap pm' = supportedModeMap pm"
  by (auto simp: QueryPort_def AddPortInfo_def AddPort_def split: option.splits prod.splits if_splits
      intro!: foldl_keeps [of "\<lambda>s. supportedModeMap s = supportedModeMap pm"])

lemma AddSupportedMode_wf: "port_wf pm \<Longrightarrow> port_wf (AddSupportedMode pm)"
  by (simp add: port_wf_def AddSupportedMode_def omap.ok_put_all)

lemma UpdatePort_wf:
  assumes "port_wf pm"
  shows "port_wf (UpdatePort i pr dr m pm)"
proof (cases "map_of (portMap pm) i")
  case (Some p)
  then show ?thesis
    using assms omap_put_subset [of i "port_with_roles pr dr p" "portMap pm"]
    by (auto simp: UpdatePort_def port_wf_def omap.ok_put port_with_roles_def)
qed (use assms in \<open>simp add: UpdatePort_def\<close>)

lemma RemovePort_wf: "port_wf pm \<Longrightarrow> port_wf (RemovePort i pm)"
  using omap_erase_subset [of i "portMap pm"]
  by (auto simp: RemovePort_def port_wf_def omap.ok_erase)

lemma SetPortRole_tables:
  "SetPortRole hdi i pr dr pm w = (ret, pm', w') \<Longrightarrow>
     portMap pm' = portMap pm \<and> supportedModeMap pm' = supportedModeMap pm"
  by (auto simp: SetPortRole_def split: option.splits prod.splits if_splits)

lemma SetPortRole_wf: "SetPortRole hdi i pr dr pm w = (ret, pm', w') \<Longrightarrow> port_wf pm \<Longrightarrow> port_wf pm'"
  by (drule SetPortRole_tables) (simp add: port_wf_def)

lemma GetPorts_wf: "GetPorts hdi pm w = (ret, ports, pm', w') \<Longrightarrow> port_wf pm \<Longrightarrow> port_wf pm'"
  by (auto simp: GetPorts_def QueryPort_wf split: prod.splits if_splits)

lemma GetPortsInfo_wf: "GetPortsInfo hdi pm w = Some (out, pm', w') \<Longrightarrow> port_wf pm \<Longrightarrow> port_wf pm'"
  by (auto simp: GetPortsInfo_def GetPorts_wf split: prod.splits if_splits list.splits)

lemma PortDump_wf:
  assumes "PortDump hid hdi args pm w = Some (out, pm', w')" and "port_wf pm"
  shows "port_wf pm'"
  using assms
  by (auto simp: PortDump_def DumpSetPortRoles_def DumpGetSupportPort_def Let_def
      split: prod.splits if_splits intro: GetPorts_wf GetPortsInfo_wf SetPortRole_wf)

lemma PortInit_wf: "PortInit hdi pm w = (pm', w') \<Longrightarrow> port_wf pm \<Longrightarrow> port_wf pm'"
  by (auto simp: PortInit_def AddSupportedMode_wf QueryPort_wf split: prod.splits)

lemma port_step_wf: "port_step hdi s s' \<Longrightarrow> port_wf (fst s) \<Longrightarrow> port_wf (fst s')"
  by (erule port_stepE)
    (auto simp: UpdatePort5_def UpdatePort_wf RemovePort_wf
      intro: QueryPort_wf GetPorts_wf SetPortRole_wf PortDump_wf
      dest: PortInit_wf [OF prod.collapse [symmetric]])

lemma port_reachable_invariant: "port_reachable hdi s \<Longrightarrow> port_wf (fst s)"
proof (induction rule: port_reachable.induct)
  case (start w)
  show ?case by (simp add: port_wf_def new_port_manager_def)
next
  case (step s s')
  then show ?case by (blast intro: port_step_wf)
qed

lemma port_wf_id: "port_wf pm \<Longrightarrow> map_of (portMap pm) i = Some p \<Longrightarrow> port_id p = i"
  by (auto simp: port_wf_def dest: map_of_SomeD)

lemma port_ids_sorted:
  assumes "port_wf pm"
  shows "sorted_wrt (<) (map port_id (map snd (portMap pm)))"
proof -
  have e: "map port_id (map snd (portMap pm)) = map fst (portMap pm)"
    using assms by (auto simp: port_wf_def)
  show ?thesis unfolding e using assms by (simp add: port_wf_def omap_ok_def strict_sorted_iff)
qed

lemma AddSupportedMode_find:
  assumes "port_wf pm"
  shows "map_of (supportedModeMap (AddSupportedMode pm)) i =
    map_option port_supportedModes (map_of (portMap pm) i)"
proof -
  let ?kvs = "map (\<lambda>(k, p). (k, port_supportedModes p)) (portMap pm)"
  have "distinct (map fst ?kvs)" using assms by (simp add: port_wf_def omap_ok_def case_prod_beta comp_def)
  then have "map_of (rev ?kvs) = map_of ?kvs" by (rule map_of_rev)
  then have "map_of (supportedModeMap (AddSupportedMode pm)) = map_of ?kvs"
    by (simp add: AddSupportedMode_def omap.find_put_all)
  then show ?thesis by (simp add: map_of_map case_prod_beta)
qed

lemma reachable_one_port: "port_reachable (Some sample_port_hdi)
    (new_port_manager\<lparr>portMap := [(1, one_port)], supportedModeMap := [(1, 3)]\<rparr>, ())"
  using port_reachable.step [OF port_reachable.start port_step.init, of "Some sample_port_hdi" "()"]
  by (simp add: PortInit_def QueryPort_def sample_port_hdi_def AddPortInfo_def AddPort_def
      AddSupportedMode_def one_port_def new_port_manager_def)

subsection \<open>Properties\<close>

text \<open>
  In every reachable state of the port manager the table lists each port once, under its own
  number and in ascending order, so that \<^verbatim>\<open>GetPorts\<close>, when it succeeds, returns the ports in
  ascending order of their numbers.
\<close>

theorem GetPorts_ordered:
  assumes "port_reachable hdi (pm, w)" and "GetPorts hdi pm w = (UEC_OK, ports, pm', w')"
  shows "ports = map snd (portMap pm') \<and> sorted_wrt (<) (map port_id ports)"
proof -
  have "port_wf pm" using port_reachable_invariant [OF assms(1)] by simp
  with assms(2) have "port_wf pm'" by (blast intro: GetPorts_wf)
  moreover have "ports = map snd (portMap pm')"
    using assms(2) by (auto simp: GetPorts_def split: prod.splits if_splits)
  ultimately show ?thesis using port_ids_sorted by blast
qed

theorem GetPorts_ordered_witness:
  "sorted_wrt (<) (map port_id [one_port])"
  using GetPorts_ordered [OF reachable_one_port, of "[one_port]"]
  by (simp add: GetPorts_def new_port_manager_def)

text \<open>
  A role change reported by the driver for a known port of a reachable state takes effect on
  this port and on no other: the roles are the reported ones, the mode is host or device as the
  data role is, the supported modes stay, and one system event records the old and new roles.
\<close>

theorem UpdatePort_known:
  assumes "port_reachable hdi (pm, w)" and "map_of (portMap pm) i = Some p"
  shows "map_of (portMap (UpdatePort i pr dr m pm)) =
      (map_of (portMap pm))(i \<mapsto> port_with_roles pr dr p) \<and>
    (dr = DATA_ROLE_HOST \<longrightarrow> port_currentMode (port_with_roles pr dr p) = PORT_MODE_HOST) \<and>
    (dr = DATA_ROLE_DEVICE \<longrightarrow> port_currentMode (port_with_roles pr dr p) = PORT_MODE_DEVICE) \<and>
    port_supportedModes (port_with_roles pr dr p) = port_supportedModes p \<and>
    (\<exists>e. role_events (UpdatePort i pr dr m pm) = role_events pm @ [e] \<and>
       rc_updatePowerRole e = pr \<and> rc_updateDataRole e = dr \<and>
       rc_currentDataRole e = port_currentDataRole p)"
proof -
  have wf: "port_wf pm" using port_reachable_invariant [OF assms(1)] by simp
  then have "port_id p = i" using assms(2) port_wf_id by blast
  then show ?thesis
    using assms(2) wf by (simp add: UpdatePort_def omap.find_put port_wf_def port_with_roles_def)
qed

theorem UpdatePort_known_witness:
  "map_of (portMap (UpdatePort 1 1 1 0
      (new_port_manager\<lparr>portMap := [(1, one_port)], supportedModeMap := [(1, 3)]\<rparr>))) =
     (map_of [(1, one_port)])(1 \<mapsto> port_with_roles 1 1 one_port)"
  using UpdatePort_known [OF reachable_one_port, of 1 one_port 1 1 0]
  by (simp add: new_port_manager_def)

text \<open>
  The supported modes are known for exactly the ports of the table once \<^verbatim>\<open>Init\<close> has run
  in a reachable state; but ports that \<^verbatim>\<open>GetPorts\<close> finds later, because the query of
  \<^verbatim>\<open>Init\<close> had failed, have none: \<^verbatim>\<open>GetSupportedModes\<close> refuses every one of them.
\<close>

theorem supported_modes_after_init:
  assumes "port_reachable hdi (pm, w)" and "PortInit hdi pm w = (pm1, w1)"
  shows "GetSupportedModes i pm1 =
      (case map_of (portMap pm1) i of
         Some p \<Rightarrow> (UEC_OK, Some (port_supportedModes p)) | None \<Rightarrow> (UEC_SERVICE_INVALID_VALUE, None)) \<and>
    (portMap pm1 = [] \<longrightarrow> (\<forall>w2 ports pm2 w3. GetPorts hdi pm1 w2 = (UEC_OK, ports, pm2, w3) \<longrightarrow>
       GetSupportedModes i pm2 = (UEC_SERVICE_INVALID_VALUE, None)))"
proof -
  have wf: "port_wf pm" using port_reachable_invariant [OF assms(1)] by simp
  from assms(2) obtain ret pm0 where q: "QueryPort hdi pm w = (ret, pm0, w1)"
    and pm1: "pm1 = AddSupportedMode pm0"
    by (auto simp: PortInit_def split: prod.splits)
  from q wf have "port_wf pm0" by (rule QueryPort_wf)
  then have f: "map_of (supportedModeMap pm1) j = map_option port_supportedModes (map_of (portMap pm1) j)" for j
    using AddSupportedMode_find [of pm0 j] by (simp add: pm1 AddSupportedMode_def)
  have keep: "supportedModeMap pm2 = supportedModeMap pm1"
    if "GetPorts hdi pm1 w2 = (UEC_OK, ports, pm2, w3)" for w2 ports pm2 w3
    using that by (auto simp: GetPorts_def QueryPort_modes split: prod.splits if_splits)
  show ?thesis
    using f keep by (auto simp: GetSupportedModes_def split: option.splits)
qed

theorem supported_modes_after_init_witness:
  "GetSupportedModes 1 (fst (PortInit (Some sample_port_hdi) new_port_manager ())) =
     (UEC_OK, Some 3)"
  using supported_modes_after_init [OF port_reachable.start,
      of "Some sample_port_hdi" "()" "fst (PortInit (Some sample_port_hdi) new_port_manager ())" "()" 1]
  by (simp add: PortInit_def QueryPort_def sample_port_hdi_def AddPortInfo_def AddPort_def
      AddSupportedMode_def one_port_def new_port_manager_def)

text \<open>
  The notification that \<^verbatim>\<open>SetPortRole\<close> sends describes the power role the port had
  before the switch: the table is only updated by the driver's later event. Switching port 1 from
  sink to source announces charging, switching it from source to sink announces reverse charging.
\<close>

theorem SetPortRole_notification_stale:
  assumes "SetPortRole hdi 1 powerRole dataRole pm w = (UEC_OK, pm', w')"
    and "map_of (portMap pm) 1 = Some p"
  shows "portMap pm' = portMap pm \<and> port_notifications pm' = port_notifications pm @
    [if port_currentPowerRole p = POWER_ROLE_SOURCE then USB_FUNC_REVERSE_CHARGE
     else USB_FUNC_CHARGE]"
  using assms by (auto simp: SetPortRole_def IsReverseCharge_def
      split: option.splits prod.splits if_splits)

theorem SetPortRole_notification_stale_witness:
  "port_notifications (fst (snd (SetPortRole (Some sample_port_hdi) 1 POWER_ROLE_SOURCE DATA_ROLE_HOST
     (new_port_manager\<lparr>portMap := [(1, one_port)]\<rparr>) ()))) = [USB_FUNC_CHARGE]"
  using SetPortRole_notification_stale [of "Some sample_port_hdi" POWER_ROLE_SOURCE DATA_ROLE_HOST
      "new_port_manager\<lparr>portMap := [(1, one_port)]\<rparr>" "()"
      "fst (snd (SetPortRole (Some sample_port_hdi) 1 POWER_ROLE_SOURCE DATA_ROLE_HOST
        (new_port_manager\<lparr>portMap := [(1, one_port)]\<rparr>) ()))" "()" one_port]
  by (simp add: SetPortRole_def sample_port_hdi_def new_port_manager_def one_port_def)

end
