(* ===== verification/Usb_Settings.thy ===== *)
theory Usb_Settings
  imports Usb_Prelude
begin

section \<open>The settings\<close>

text \<open>
  \<^verbatim>\<open>utils/native/src/usb_settings_datashare.cpp\<close>: how the service reads and writes one key of the
  system's settings. The data share is the record \<open>settings_env\<close>: \<open>se_Create\<close> tells whether the
  helper was created; \<open>se_Query\<close> returns the result set, \<open>None\<close> for none, as whether it has a first
  row and the string that can be read there; the codes of the writes are the numbers of changed rows,
  or \<^verbatim>\<open>RDB_INVALID_VALUE\<close>. A helper is a boolean: whether the constructor got one.
\<close>

record 'w settings_env =
  se_SystemAbilityManager :: "'w \<Rightarrow> bool"
  se_GetSystemAbility :: "'w \<Rightarrow> bool"
  se_Create :: "'w \<Rightarrow> bool \<times> 'w"
  se_Query :: "string \<Rightarrow> 'w \<Rightarrow> (bool \<times> string option) option \<times> 'w"
  se_Insert :: "string \<Rightarrow> string \<Rightarrow> 'w \<Rightarrow> int \<times> 'w"
  se_Update :: "string \<Rightarrow> string \<Rightarrow> 'w \<Rightarrow> int \<times> 'w"
  se_NotifyChange :: "'w \<Rightarrow> 'w"
  se_Release :: "'w \<Rightarrow> 'w"

definition RDB_INVALID_VALUE :: int where "RDB_INVALID_VALUE = - 1"

definition CreateDataShareHelper :: "'w settings_env \<Rightarrow> 'w \<Rightarrow> bool \<times> 'w" where
  "CreateDataShareHelper se w =
     (if \<not> se_SystemAbilityManager se w then (False, w)
      else if \<not> se_GetSystemAbility se w then (False, w)
      else se_Create se w)"

definition destroy :: "'w settings_env \<Rightarrow> bool \<Rightarrow> 'w \<Rightarrow> 'w" where
  "destroy se helper w = (if helper then se_Release se w else w)"

text \<open>The value of a row that cannot be read is left as it was, and the query succeeds.\<close>

definition settings_Query :: "'w settings_env \<Rightarrow> bool \<Rightarrow> string \<Rightarrow> string \<Rightarrow> 'w \<Rightarrow> bool \<times> string \<times> 'w" where
  "settings_Query se helper key val w =
     (if \<not> helper then (False, val, w)
      else (case se_Query se key w of
          (None, w1) \<Rightarrow> (False, val, w1)
        | (Some (first_row, cell), w1) \<Rightarrow>
            if \<not> first_row then (False, val, w1)
            else (True, case cell of Some v \<Rightarrow> v | None \<Rightarrow> val, w1)))"

definition settings_Insert :: "'w settings_env \<Rightarrow> bool \<Rightarrow> string \<Rightarrow> string \<Rightarrow> 'w \<Rightarrow> bool \<times> 'w" where
  "settings_Insert se helper key val w =
     (if \<not> helper then (False, w)
      else (case se_Insert se key val w of (result, w1) \<Rightarrow>
        if result = RDB_INVALID_VALUE then (False, se_Release se w1)
        else (True, se_Release se (se_NotifyChange se w1))))"

definition settings_Update :: "'w settings_env \<Rightarrow> bool \<Rightarrow> string \<Rightarrow> string \<Rightarrow> 'w \<Rightarrow> bool \<times> 'w" where
  "settings_Update se helper key val w =
     (if \<not> helper then (False, w)
      else (case settings_Query se helper key [] w of (found, _, w1) \<Rightarrow>
        if \<not> found then settings_Insert se helper key val w1
        else (case se_Update se key val w1 of (result, w2) \<Rightarrow>
          if result = RDB_INVALID_VALUE then (False, se_Release se w2)
          else (True, se_Release se (se_NotifyChange se w2)))))"

subsection \<open>The HDC status\<close>

definition HDC_STATUS :: string where "HDC_STATUS = ''HDC_STATUS''"

text \<open>
  The part of \<^verbatim>\<open>UsbService::SetSettingsDataHdcStatus\<close> (\<^verbatim>\<open>usb_service.cpp\<close>) for either value; \<open>already\<close>
  is what is returned when the setting has the value.
\<close>

definition set_status :: "'w settings_env \<Rightarrow> string \<Rightarrow> bool \<Rightarrow> 'w \<Rightarrow> bool \<times> 'w" where
  "set_status se val already w =
     (case CreateDataShareHelper se w of (helper, w1) \<Rightarrow>
      (case settings_Query se helper HDC_STATUS ''false'' w1 of (found, v, w2) \<Rightarrow>
        (case if found \<and> v = val then (already, w2) else settings_Update se helper HDC_STATUS val w2 of (ok, w3) \<Rightarrow>
          (ok, destroy se helper w3))))"

definition SetSettingsDataHdcStatus :: "'w settings_env \<Rightarrow> u32 \<Rightarrow> 'w \<Rightarrow> bool \<times> 'w" where
  "SetSettingsDataHdcStatus se func w =
     (if func AND FUNCTION_HDC \<noteq> 0 then set_status se ''true'' True w else set_status se ''false'' False w)"

subsection \<open>Properties\<close>

text \<open>
  What a data share that works promises: \<open>stored\<close> is the value of the key, if it is set; nothing but
  the writes changes it.
\<close>

definition settings_law :: "'w settings_env \<Rightarrow> ('w \<Rightarrow> string option) \<Rightarrow> bool" where
  "settings_law se stored \<longleftrightarrow>
     (\<forall>w. se_SystemAbilityManager se w \<and> se_GetSystemAbility se w \<and> fst (se_Create se w) \<and>
        stored (snd (se_Create se w)) = stored w \<and>
        fst (se_Query se HDC_STATUS w) = Some (case stored w of None \<Rightarrow> (False, None) | Some v \<Rightarrow> (True, Some v)) \<and>
        stored (snd (se_Query se HDC_STATUS w)) = stored w \<and>
        stored (se_NotifyChange se w) = stored w \<and> stored (se_Release se w) = stored w) \<and>
     (\<forall>v w. fst (se_Insert se HDC_STATUS v w) \<noteq> RDB_INVALID_VALUE \<and> stored (snd (se_Insert se HDC_STATUS v w)) = Some v \<and>
        fst (se_Update se HDC_STATUS v w) \<noteq> RDB_INVALID_VALUE \<and> stored (snd (se_Update se HDC_STATUS v w)) = Some v)"

lemma query_law:
  assumes "settings_law se stored"
  shows "settings_Query se True HDC_STATUS val w =
    (stored w \<noteq> None, case stored w of None \<Rightarrow> val | Some v \<Rightarrow> v, snd (se_Query se HDC_STATUS w))"
proof -
  have "fst (se_Query se HDC_STATUS w) = Some (case stored w of None \<Rightarrow> (False, None) | Some v \<Rightarrow> (True, Some v))"
    using assms by (simp add: settings_law_def)
  then obtain w1 where "se_Query se HDC_STATUS w = (Some (case stored w of None \<Rightarrow> (False, None) | Some v \<Rightarrow> (True, Some v)), w1)"
    by (cases "se_Query se HDC_STATUS w") simp
  then show ?thesis by (simp add: settings_Query_def split: option.split)
qed

lemma update_law:
  assumes "settings_law se stored"
  shows "fst (settings_Update se True HDC_STATUS v w) \<and> stored (snd (settings_Update se True HDC_STATUS v w)) = Some v"
  using assms by (simp add: settings_Update_def query_law [OF assms] settings_Insert_def case_prod_beta)
    (simp add: settings_law_def)

lemma set_status_law:
  assumes "settings_law se stored"
  shows "stored (snd (set_status se val already w)) = Some val \<and>
    fst (set_status se val already w) = (already \<or> stored w \<noteq> Some val)"
proof -
  have c: "fst (CreateDataShareHelper se w)" "stored (snd (CreateDataShareHelper se w)) = stored w"
    "stored (snd (se_Query se HDC_STATUS x)) = stored x" "stored (destroy se helper x) = stored x" for x helper
    using assms by (simp_all add: settings_law_def CreateDataShareHelper_def destroy_def)
  obtain w1 where w1: "CreateDataShareHelper se w = (True, w1)" using c(1) by (cases "CreateDataShareHelper se w") auto
  note u = update_law [OF assms, of val "snd (se_Query se HDC_STATUS w1)"]
  show ?thesis using u c(2-4) w1
    by (cases "stored w") (auto simp: set_status_def query_law [OF assms] case_prod_beta)
qed

text \<open>
  The setting says whether HDC is on. With a data share that works, after
  \<^verbatim>\<open>SetSettingsDataHdcStatus\<close> the key \<^verbatim>\<open>HDC_STATUS\<close> is true exactly when the functions contain
  HDC, whether the key existed or not. The result is success, except that turning HDC off when the
  setting already says so is reported as a failure.
\<close>

theorem hdc_status_follows_functions:
  assumes "settings_law se stored"
  shows "stored (snd (SetSettingsDataHdcStatus se func w)) =
      Some (if func AND FUNCTION_HDC \<noteq> 0 then ''true'' else ''false'') \<and>
    (fst (SetSettingsDataHdcStatus se func w) \<longleftrightarrow> \<not> (func AND FUNCTION_HDC = 0 \<and> stored w = Some ''false''))"
  using set_status_law [OF assms, of "''true''" True w] set_status_law [OF assms, of "''false''" False w]
  by (simp add: SetSettingsDataHdcStatus_def)

definition plain_settings :: "string option settings_env" where
  "plain_settings = \<lparr>se_SystemAbilityManager = (\<lambda>w. True), se_GetSystemAbility = (\<lambda>w. True), se_Create = (\<lambda>w. (True, w)),
     se_Query = (\<lambda>k w. (Some (case w of None \<Rightarrow> (False, None) | Some v \<Rightarrow> (True, Some v)), w)),
     se_Insert = (\<lambda>k v w. (1, Some v)), se_Update = (\<lambda>k v w. (1, Some v)), se_NotifyChange = (\<lambda>w. w),
     se_Release = (\<lambda>w. w)\<rparr>"

lemma hdc_status_follows_functions_witness:
  "snd (SetSettingsDataHdcStatus plain_settings FUNCTION_HDC None) = Some ''true'' \<and>
   \<not> fst (SetSettingsDataHdcStatus plain_settings FUNCTION_MTP (Some ''false''))"
proof -
  have l: "settings_law plain_settings (\<lambda>w. w)"
    by (simp add: settings_law_def plain_settings_def RDB_INVALID_VALUE_def)
  from hdc_status_follows_functions [OF l, of FUNCTION_HDC None]
    hdc_status_follows_functions [OF l, of FUNCTION_MTP "Some ''false''"] show ?thesis by simp
qed

end
