(* ===== verification/Usb_Service.thy ===== *)
theory Usb_Service
  imports Right_Manager Host_Invariant Device_Manager Accessory_Manager Port_Manager Usb_Settings
begin

section \<open>The service: state, callers and rights\<close>

text \<open>
  \<^verbatim>\<open>services/native/src/usb_service.cpp\<close>, the system ability that applications call. This theory
  has its state (the managers, missing when they were not created, and the two maps from what a
  client names to the identity rights are granted for), the questions it asks about its caller, and
  the operations on rights. The system services are the record \<open>service_env\<close>, which collects the
  environments of the managers; the sources of \<^verbatim>\<open>utils/native/src/usb_report_sys_event.cpp\<close> that
  decide which faults are reported are here too. The build is the one with all features and
  \<^verbatim>\<open>USB_MANAGER_PASS_THROUGH\<close>.
\<close>

subsection \<open>Environment and state\<close>

record UsbTransInfo =
  ti_endpoint :: i32
  ti_flags :: i32
  ti_type :: i32
  ti_timeOut :: i32
  ti_length :: i32
  ti_userData :: u64
  ti_numIsoPackets :: u32

text \<open>The same information as the driver takes it.\<close>

record USBTransferInfo =
  xi_endpoint :: i32
  xi_flags :: i32
  xi_type :: i32
  xi_timeOut :: i32
  xi_length :: i32
  xi_userData :: u64
  xi_numIsoPackets :: u32

record SerialAttribute =
  sa_baudrate :: u32
  sa_stopBits :: u8
  sa_parity :: u8
  sa_dataBits :: u8

text \<open>
  \<open>sv_HostInterface\<close> tells whether \<^verbatim>\<open>IUsbHostInterface::Get\<close> succeeds; \<open>sv_close\<close> is the call
  of that name on a file descriptor; \<open>sv_Ashmem\<close> maps a descriptor as shared memory; \<open>sv_DbHelper\<close>
  tells whether the instance of the right database is there; \<open>sv_watch\<close> adds the death recipient to
  the client's object; \<open>sv_tty\<close> lists \<^verbatim>\<open>/sys/bus/usb-serial/devices\<close>, for each entry whether it is
  a directory, and \<open>None\<close> when the path does not exist; \<open>sv_Setup\<close> sets the timer up. The three
  last fields are the driver framework's codes of these names.
\<close>

record ('w, 'c, 'm) service_env =
  sv_right_env :: "'w right_env"
  sv_right_db :: "'w right_helper"
  sv_DbHelper :: "'w \<Rightarrow> bool"
  sv_host :: "('w, USBTransferInfo, 'c, 'm) host_context"
  sv_serial :: "('w, SerialPort, SerialAttribute) serial_hdi option"
  sv_device :: "'w Device_Manager.device_hdi option"
  sv_accessory :: "'w acc_hdi option"
  sv_acc_lib :: "'w acc_lib"
  sv_port :: "'w port_hdi option"
  sv_HostInterface :: "'w \<Rightarrow> bool"
  sv_close :: "int \<Rightarrow> 'w \<Rightarrow> 'w"
  sv_Ashmem :: "int \<Rightarrow> int \<Rightarrow> 'w \<Rightarrow> 'm option"
  sv_watch :: "int \<Rightarrow> u32 \<Rightarrow> 'w \<Rightarrow> bool \<times> 'w"
  sv_tty :: "'w \<Rightarrow> bool list option"
  sv_settings :: "'w settings_env"
  sv_Setup :: "'w \<Rightarrow> bool"
  sv_HDF_DEV_ERR_OP :: int
  sv_HDF_ERR_NOT_SUPPORT :: int
  sv_HDF_FAILURE :: int

text \<open>The system events the service writes.\<close>

datatype sys_event =
    OPERATION_FAULT string retcode string
  | TRANSFER_FAULT string i32 i32 "i32 \<times> i32 \<times> i32" UsbPipe retcode string
  | SERIAL_OPERATION string string SerialPort SerialAttribute

record 'c usb_service =
  usbRightManager :: "right_manager option"
  usbHostManager :: "'c host_manager option"
  usbSerialManager :: "SerialPort serial_manager option"
  usbDeviceManager :: "device_manager option"
  usbAccessoryManager :: "accessory_manager option"
  usbPortManager :: "port_manager option"
  deviceVidPidMap :: "(string, string) omap"
  serialVidPidMap :: "(int, string \<times> string) omap"
  unloadSelfTimer :: bool
  critical :: "bool option"
  sys_events :: "sys_event list"

text \<open>
  \<open>unloadSelfTimer\<close> tells whether the task that unloads the service is registered, \<open>critical\<close> what the
  memory manager was last told about the process.
\<close>

definition report :: "sys_event list \<Rightarrow> 'c usb_service \<Rightarrow> 'c usb_service" where
  "report es s = s\<lparr>sys_events := sys_events s @ es\<rparr>"

definition ReportUsbOperationFaultSysEvent :: "string \<Rightarrow> retcode \<Rightarrow> string \<Rightarrow> 'c usb_service \<Rightarrow> 'c usb_service" where
  "ReportUsbOperationFaultSysEvent operationType failReason failDescription =
     report [OPERATION_FAULT operationType failReason failDescription]"

text \<open>The interface a fault is reported for: the device itself for the default pipe.\<close>

definition GetUsbInterfaceId :: "UsbDevice \<Rightarrow> UsbPipe \<Rightarrow> (i32 \<times> i32 \<times> i32) option" where
  "GetUsbInterfaceId usbDev pipe =
     (if fst pipe = 0 \<and> snd pipe = 0 then Some (dev_baseClass usbDev, dev_subClass usbDev, dev_protocol usbDev)
      else map_option (\<lambda>i. (if_klass i, if_subClass i, if_protocol i))
        (find (\<lambda>i. if_id i = ucast (fst pipe)) (concat (map cf_interfaces (dev_configs usbDev)))))"

definition ReportTransferFaultSysEvent :: "string \<Rightarrow> UsbDevice \<Rightarrow> UsbPipe \<Rightarrow> retcode \<Rightarrow> string \<Rightarrow>
    'c usb_service \<Rightarrow> 'c usb_service" where
  "ReportTransferFaultSysEvent transferType usbDev pipe ret description s =
     (case GetUsbInterfaceId usbDev pipe of None \<Rightarrow> s
      | Some itIF \<Rightarrow> report [TRANSFER_FAULT transferType (dev_vendorId usbDev) (dev_productId usbDev) itIF pipe ret
          description] s)"

text \<open>The time-out of an interrupt endpoint is not a fault.\<close>

definition CheckAttributeReportTransferFaultSysEvent :: "string \<Rightarrow> UsbDevice \<Rightarrow> UsbPipe \<Rightarrow> USBEndpoint \<Rightarrow> retcode \<Rightarrow>
    string \<Rightarrow> 'c usb_service \<Rightarrow> 'c usb_service" where
  "CheckAttributeReportTransferFaultSysEvent transferType usbDev pipe ep ret description s =
     (if ep_attributes ep = 3 \<and> ret = Code ERR_CODE_TIMEOUT then s
      else ReportTransferFaultSysEvent transferType usbDev pipe ret description s)"

subsection \<open>The caller\<close>

definition USB_DEFAULT_TOKEN :: string where "USB_DEFAULT_TOKEN = ''UsbServiceTokenId''"
definition API_VERSION_ID_18 :: int where "API_VERSION_ID_18 = 18"
definition ROOT_UID :: int where "ROOT_UID = 0"
definition EDM_UID :: int where "EDM_UID = 3057"

text \<open>The bundle, the token as a string and the user; \<open>None\<close> when the token is no application's.\<close>

definition GetCallingInfo :: "('w, 'c, 'm) service_env \<Rightarrow> caller \<Rightarrow> 'w \<Rightarrow> (string \<times> string \<times> int) option" where
  "GetCallingInfo E c w = (case env_GetHapTokenInfo (sv_right_env E) (call_token c) w of None \<Rightarrow> None
     | Some (userId, bundleName) \<Rightarrow> Some (bundleName, nat_to_string (unat (call_token c)), userId))"

definition GetBundleInfo :: "('w, 'c, 'm) service_env \<Rightarrow> caller \<Rightarrow> 'w \<Rightarrow> (string \<times> int) option" where
  "GetBundleInfo E c w = (case env_GetHapTokenInfo (sv_right_env E) (call_token c) w of None \<Rightarrow> None
     | Some (userId, bundleName) \<Rightarrow> Some (USB_DEFAULT_TOKEN, userId))"

definition GetHapApiVersion :: "('w, 'c, 'm) service_env \<Rightarrow> caller \<Rightarrow> 'w \<Rightarrow> int" where
  "GetHapApiVersion E c w = (case env_GetHapTokenInfo (sv_right_env E) (call_token c) w of None \<Rightarrow> API_VERSION_ID_18
     | Some _ \<Rightarrow> call_apiVersion c)"

definition CheckSysApiPermission :: "('w, 'c, 'm) service_env \<Rightarrow> caller \<Rightarrow> 'w \<Rightarrow> retcode" where
  "CheckSysApiPermission E c w =
     (if \<not> IsSystemAppOrSa c then UEC_SERVICE_PERMISSION_DENIED_SYSAPI
      else if \<not> VerifyPermission c
      then (if GetHapApiVersion E c w < API_VERSION_ID_18 then UEC_SERVICE_PERMISSION_DENIED_SYSAPI
            else UEC_SERVICE_PERMISSION_DENIED_SYSAPI_FAILED)
      else UEC_OK)"

definition IsCallerValid :: "caller \<Rightarrow> bool" where
  "IsCallerValid c \<longleftrightarrow> call_native c \<and> (call_uid c = ROOT_UID \<or> call_uid c = EDM_UID)"

definition PreCallFunction :: "('w, 'c, 'm) service_env \<Rightarrow> caller \<Rightarrow> 'c usb_service \<Rightarrow> 'w \<Rightarrow> retcode" where
  "PreCallFunction E c s w =
     (if \<not> sv_HostInterface E w then UEC_SERVICE_INVALID_VALUE
      else if usbRightManager s = None then UEC_SERVICE_INVALID_VALUE
      else if CheckSysApiPermission E c w \<noteq> UEC_OK then CheckSysApiPermission E c w
      else if usbHostManager s = None then UEC_SERVICE_INVALID_VALUE
      else UEC_OK)"

subsection \<open>The identity of a device\<close>

text \<open>Rights are granted for the vendor, the product and the serial number, not for the name.\<close>

definition identity :: "int \<Rightarrow> int \<Rightarrow> string \<Rightarrow> string" where
  "identity vid pid serial = to_string vid @ ''-'' @ to_string pid @ ''-'' @ serial"

definition GetDeviceVidPidSerialNumber :: "string \<Rightarrow> 'c usb_service \<Rightarrow> retcode + string" where
  "GetDeviceVidPidSerialNumber deviceName s = (case map_of (deviceVidPidMap s) deviceName of
       Some strDesc \<Rightarrow> Inr strDesc | None \<Rightarrow> Inl UEC_INTERFACE_INVALID_VALUE)"

definition GetDeviceVidPidSerialNumberOrTest :: "string \<Rightarrow> 'c usb_service \<Rightarrow> string" where
  "GetDeviceVidPidSerialNumberOrTest deviceName s = (case map_of (deviceVidPidMap s) deviceName of
       Some strDesc \<Rightarrow> strDesc | None \<Rightarrow> ''test'')"

subsection \<open>The rights of the caller\<close>

text \<open>A right may have been granted to the caller's token or to the default token.\<close>

definition has_either :: "('w, 'c, 'm) service_env \<Rightarrow> string \<Rightarrow> string \<Rightarrow> string \<Rightarrow> int \<Rightarrow> 'w \<Rightarrow> bool \<times> 'w" where
  "has_either E dev bundleName tokenId userId w =
     (case Right_Manager.HasRight (sv_right_env E) (sv_right_db E) dev bundleName tokenId userId w of (r, w1) \<Rightarrow>
        if r then (True, w1)
        else Right_Manager.HasRight (sv_right_env E) (sv_right_db E) dev bundleName USB_DEFAULT_TOKEN userId w1)"

definition HasRight :: "('w, 'c, 'm) service_env \<Rightarrow> caller \<Rightarrow> string \<Rightarrow> 'c usb_service \<Rightarrow> 'w \<Rightarrow> bool \<times> 'w" where
  "HasRight E c deviceName s w =
     (if usbRightManager s = None then (False, w)
      else (case GetDeviceVidPidSerialNumber deviceName s of Inl _ \<Rightarrow> (False, w)
        | Inr dev \<Rightarrow>
          if IsSystemAppOrSa c then (True, w)
          else (case GetCallingInfo E c w of None \<Rightarrow> (False, w)
            | Some (bundleName, tokenId, userId) \<Rightarrow> has_either E dev bundleName tokenId userId w)))"

definition CheckDevicePermission :: "('w, 'c, 'm) service_env \<Rightarrow> caller \<Rightarrow> u8 \<Rightarrow> u8 \<Rightarrow> 'c usb_service \<Rightarrow> 'w \<Rightarrow>
    bool \<times> 'w" where
  "CheckDevicePermission E c busNum devAddr = HasRight E c (device_name busNum devAddr)"

definition GetDeviceProductName :: "'c usb_service \<Rightarrow> string \<Rightarrow> 'w \<Rightarrow> string option" where
  "GetDeviceProductName s deviceName w =
     (case usbHostManager s of None \<Rightarrow> None | Some hm \<Rightarrow> GetProductName deviceName hm)"

text \<open>A caller without application information is answered \<^verbatim>\<open>false\<close>, which is \<^verbatim>\<open>UEC_OK\<close>.\<close>

definition RequestRight :: "('w, 'c, 'm) service_env \<Rightarrow> caller \<Rightarrow> string \<Rightarrow> 'c usb_service \<Rightarrow> 'w \<Rightarrow>
    retcode \<times> 'c usb_service \<times> 'w" where
  "RequestRight E c deviceName s w =
     (case usbRightManager s of None \<Rightarrow> (UEC_SERVICE_INNER_ERR, s, w)
      | Some rm \<Rightarrow> (case GetDeviceVidPidSerialNumber deviceName s of Inl ret \<Rightarrow> (ret, s, w)
        | Inr dev \<Rightarrow>
          if IsSystemAppOrSa c then (UEC_OK, s, w)
          else (case GetCallingInfo E c w of None \<Rightarrow> (UEC_OK, s, w)
            | Some (bundleName, tokenId, userId) \<Rightarrow>
              (case Right_Manager.RequestRight (sv_right_env E) (sv_right_db E) (GetDeviceProductName s) deviceName dev bundleName
                  tokenId userId rm w of
                (ret, rm', w') \<Rightarrow> (ret, s\<lparr>usbRightManager := Some rm'\<rparr>, w')))))"

definition RemoveRight :: "('w, 'c, 'm) service_env \<Rightarrow> caller \<Rightarrow> string \<Rightarrow> 'c usb_service \<Rightarrow> 'w \<Rightarrow> retcode \<times> 'w" where
  "RemoveRight E c deviceName s w =
     (if usbRightManager s = None then (UEC_SERVICE_INVALID_VALUE, w)
      else (case GetDeviceVidPidSerialNumber deviceName s of Inl ret \<Rightarrow> (ret, w)
        | Inr dev \<Rightarrow>
          if IsSystemAppOrSa c then (UEC_OK, w)
          else (case GetCallingInfo E c w of None \<Rightarrow> (UEC_OK, w)
            | Some (bundleName, tokenId, userId) \<Rightarrow>
              (case RemoveDeviceRight (sv_right_db E) dev bundleName tokenId userId w of (ok, w1) \<Rightarrow>
                if ok then (UEC_OK, w1)
                else (case RemoveDeviceRight (sv_right_db E) dev bundleName USB_DEFAULT_TOKEN userId w1 of (ok2, w2) \<Rightarrow>
                  (if \<not> ok2 then UEC_SERVICE_INNER_ERR else UEC_OK, w2))))))"

definition AddRight :: "('w, 'c, 'm) service_env \<Rightarrow> caller \<Rightarrow> string \<Rightarrow> string \<Rightarrow> 'c usb_service \<Rightarrow> 'w \<Rightarrow> retcode \<times> 'w" where
  "AddRight E c bundleName deviceName s w =
     (if usbRightManager s = None then (UEC_SERVICE_INVALID_VALUE, w)
      else if CheckSysApiPermission E c w \<noteq> UEC_OK then (CheckSysApiPermission E c w, w)
      else (case GetDeviceVidPidSerialNumber deviceName s of Inl ret \<Rightarrow> (ret, w)
        | Inr dev \<Rightarrow> (case GetBundleInfo E c w of None \<Rightarrow> (UEC_SERVICE_INVALID_VALUE, w)
          | Some (tokenId, userId) \<Rightarrow>
            (case AddDeviceRight (sv_right_env E) (sv_right_db E) dev bundleName tokenId userId w of (ok, w1) \<Rightarrow>
              (if \<not> ok then UEC_SERVICE_INNER_ERR else UEC_OK, w1)))))"

definition AddAccessRight :: "('w, 'c, 'm) service_env \<Rightarrow> caller \<Rightarrow> string \<Rightarrow> string \<Rightarrow> 'c usb_service \<Rightarrow> 'w \<Rightarrow>
    retcode \<times> 'w" where
  "AddAccessRight E c tokenId deviceName s w =
     (if usbRightManager s = None then (UEC_SERVICE_INVALID_VALUE, w)
      else if CheckSysApiPermission E c w \<noteq> UEC_OK then (CheckSysApiPermission E c w, w)
      else (case GetDeviceVidPidSerialNumber deviceName s of Inl ret \<Rightarrow> (ret, w)
        | Inr dev \<Rightarrow> (case AddDeviceRightToken (sv_right_env E) (sv_right_db E) dev tokenId w of (ok, w1) \<Rightarrow>
            (if \<not> ok then UEC_SERVICE_INNER_ERR else UEC_OK, w1))))"

definition InitUsbRight :: "('w, 'c, 'm) service_env \<Rightarrow> 'c usb_service \<Rightarrow> 'w \<Rightarrow> retcode \<times> 'w" where
  "InitUsbRight E s w =
     (if usbRightManager s = None then (UEC_SERVICE_INVALID_VALUE, w)
      else (case right_Init (sv_right_env E) w of (ret, w1) \<Rightarrow>
        if ret \<noteq> UEC_OK then (ret, w1)
        else (case CleanUpRightExpired (sv_right_env E) (sv_right_db E) (map snd (deviceVidPidMap s)) w1 of (ret2, w2) \<Rightarrow>
          (ret_of_int ret2, w2))))"

end
