(* ===== verification/Service_Host.thy ===== *)
theory Service_Host
  imports Usb_Service
begin

section \<open>The service: USB host\<close>

text \<open>
  The operations of \<^verbatim>\<open>usb_service.cpp\<close> on devices attached to the host: the requests of
  applications, each behind the check of the caller's right, the policy operations of the device
  administration, and the arrival and removal of devices. They return the code, the value of the
  output parameter, the new state and the world.
\<close>

subsection \<open>Requests behind the check of the right\<close>

text \<open>
  The frame of a request: the right is checked, then the host manager is asked. \<open>faults\<close> is what is
  reported when the right is missing, \<open>old\<close> what the caller's output variable holds before.
\<close>

definition guarded :: "('w, 'c, 'm) service_env \<Rightarrow> caller \<Rightarrow> u8 \<Rightarrow> u8 \<Rightarrow> sys_event list \<Rightarrow> 'a \<Rightarrow>
    ('c host_manager \<Rightarrow> 'w \<Rightarrow> retcode \<times> 'a \<times> 'c host_manager \<times> 'w) \<Rightarrow>
    'c usb_service \<Rightarrow> 'w \<Rightarrow> retcode \<times> 'a \<times> 'c usb_service \<times> 'w" where
  "guarded E c busNum devAddr faults old f s w =
     (case CheckDevicePermission E c busNum devAddr s w of (ok, w1) \<Rightarrow>
        if \<not> ok then (UEC_SERVICE_PERMISSION_DENIED, old, report faults s, w1)
        else (case usbHostManager s of None \<Rightarrow> (UEC_SERVICE_INVALID_VALUE, old, s, w1)
          | Some hm \<Rightarrow> (case f hm w1 of (ret, out, hm', w2) \<Rightarrow> (ret, out, s\<lparr>usbHostManager := Some hm'\<rparr>, w2))))"

text \<open>What the host manager hands to its driver, without an output and with one.\<close>

definition plain :: "('w \<Rightarrow> retcode \<times> 'w) \<Rightarrow> 'c host_manager \<Rightarrow> 'w \<Rightarrow> retcode \<times> unit \<times> 'c host_manager \<times> 'w" where
  "plain f hm w = (case f w of (ret, w') \<Rightarrow> (ret, (), hm, w'))"

definition filled :: "('w \<Rightarrow> retcode \<times> 'a \<times> 'w) \<Rightarrow> 'c host_manager \<Rightarrow> 'w \<Rightarrow> retcode \<times> 'a \<times> 'c host_manager \<times> 'w" where
  "filled f hm w = (case f w of (ret, out, w') \<Rightarrow> (ret, out, hm, w'))"

abbreviation hostd :: "('w, 'c, 'm) service_env \<Rightarrow> ('w, USBTransferInfo, 'c, 'm) host_hdi option" where
  "hostd E \<equiv> usbHostInterface (sv_host E)"

definition no_permission :: "string \<Rightarrow> sys_event list" where
  "no_permission operation =
     [OPERATION_FAULT operation UEC_SERVICE_PERMISSION_DENIED ''CheckDevicePermission failed'']"

type_synonym ('w, 'c, 'm, 'a) device_request =
  "('w, 'c, 'm) service_env \<Rightarrow> caller \<Rightarrow> u8 \<Rightarrow> u8 \<Rightarrow> 'c usb_service \<Rightarrow> 'w \<Rightarrow> retcode \<times> 'a \<times> 'c usb_service \<times> 'w"

definition OpenDevice :: "('w, 'c, 'm, unit) device_request" where
  "OpenDevice E c busNum devAddr = guarded E c busNum devAddr (no_permission ''OpenDevice'') ()
     (plain (Host_Driver.OpenDevice (hostd E) busNum devAddr))"

definition Close :: "('w, 'c, 'm, unit) device_request" where
  "Close E c busNum devAddr = guarded E c busNum devAddr [] () (plain (Host_Driver.Close (hostd E) busNum devAddr))"

definition ResetDevice :: "('w, 'c, 'm, unit) device_request" where
  "ResetDevice E c busNum devAddr s w =
     (if map_of (deviceVidPidMap s) (device_name busNum devAddr) = None then (UEC_INTERFACE_NAME_NOT_FOUND, (), s, w)
      else guarded E c busNum devAddr (no_permission ''ResetDevice'') ()
        (plain (Host_Driver.ResetDevice (hostd E) busNum devAddr)) s w)"

definition ClaimInterface :: "u8 \<Rightarrow> u8 \<Rightarrow> ('w, 'c, 'm, unit) device_request" where
  "ClaimInterface interface force E c busNum devAddr = guarded E c busNum devAddr [] ()
     (plain (Host_Driver.ClaimInterface (hostd E) busNum devAddr interface force))"

definition SetInterface :: "u8 \<Rightarrow> u8 \<Rightarrow> ('w, 'c, 'm, unit) device_request" where
  "SetInterface interfaceid altIndex E c busNum devAddr = guarded E c busNum devAddr [] ()
     (plain (Host_Driver.SetInterface (hostd E) busNum devAddr interfaceid altIndex))"

definition ReleaseInterface :: "u8 \<Rightarrow> ('w, 'c, 'm, unit) device_request" where
  "ReleaseInterface interface E c busNum devAddr = guarded E c busNum devAddr [] ()
     (plain (\<lambda>w. case Host_Driver.ReleaseInterface (hostd E) busNum devAddr interface w of (ret, w') \<Rightarrow>
        (if ret = ret_of_int (sv_HDF_DEV_ERR_OP E) then UEC_INTERFACE_INVALID_OPERATION else ret, w')))"

definition SetActiveConfig :: "u8 \<Rightarrow> ('w, 'c, 'm, unit) device_request" where
  "SetActiveConfig configIndex E c busNum devAddr = guarded E c busNum devAddr [] ()
     (plain (Host_Driver.SetActiveConfig (hostd E) busNum devAddr configIndex))"

definition UsbAttachKernelDriver :: "u8 \<Rightarrow> ('w, 'c, 'm, unit) device_request" where
  "UsbAttachKernelDriver interface E c busNum devAddr = guarded E c busNum devAddr [] ()
     (plain (Host_Driver.UsbAttachKernelDriver (hostd E) busNum devAddr interface))"

definition UsbDetachKernelDriver :: "u8 \<Rightarrow> ('w, 'c, 'm, unit) device_request" where
  "UsbDetachKernelDriver interface E c busNum devAddr = guarded E c busNum devAddr [] ()
     (plain (Host_Driver.UsbDetachKernelDriver (hostd E) busNum devAddr interface))"

definition ClearHalt :: "u8 \<Rightarrow> u8 \<Rightarrow> ('w, 'c, 'm, unit) device_request" where
  "ClearHalt interfaceId endpointId E c busNum devAddr = guarded E c busNum devAddr [] ()
     (plain (Host_Driver.ClearHalt (hostd E) busNum devAddr interfaceId endpointId))"

definition GetActiveConfig :: "u8 \<Rightarrow> ('w, 'c, 'm, u8) device_request" where
  "GetActiveConfig configIndex E c busNum devAddr = guarded E c busNum devAddr [] configIndex
     (filled (Host_Driver.GetActiveConfig (hostd E) busNum devAddr configIndex))"

definition GetRawDescriptor :: "u8 list \<Rightarrow> ('w, 'c, 'm, u8 list) device_request" where
  "GetRawDescriptor bufferData E c busNum devAddr = guarded E c busNum devAddr (no_permission ''GetRawDescriptor'') bufferData
     (filled (Host_Driver.GetRawDescriptor (hostd E) busNum devAddr bufferData))"

definition GetFileDescriptor :: "int \<Rightarrow> ('w, 'c, 'm, int) device_request" where
  "GetFileDescriptor fd E c busNum devAddr = guarded E c busNum devAddr [] fd
     (filled (Host_Driver.GetFileDescriptor (hostd E) busNum devAddr fd))"

text \<open>The pipe of an endpoint; its address is cut to eight bits.\<close>

definition pipe_of :: "USBEndpoint \<Rightarrow> UsbPipe" where
  "pipe_of ep = (ep_interfaceId ep, ucast (ep_address ep))"

definition RequestQueue :: "USBEndpoint \<Rightarrow> u8 list \<Rightarrow> u8 list \<Rightarrow> ('w, 'c, 'm, unit) device_request" where
  "RequestQueue ep clientData bufferData E c busNum devAddr = guarded E c busNum devAddr [] ()
     (plain (Host_Driver.RequestQueue (hostd E) (busNum, devAddr) (pipe_of ep) clientData bufferData))"

definition RequestWait :: "int \<Rightarrow> u8 list \<Rightarrow> u8 list \<Rightarrow> ('w, 'c, 'm, u8 list \<times> u8 list) device_request" where
  "RequestWait timeOut clientData bufferData E c busNum devAddr = guarded E c busNum devAddr [] (clientData, bufferData)
     (filled (Host_Driver.RequestWait (hostd E) (busNum, devAddr) timeOut clientData bufferData))"

definition RequestCancel :: "u8 \<Rightarrow> u8 \<Rightarrow> ('w, 'c, 'm, unit) device_request" where
  "RequestCancel interfaceId endpointId E c busNum devAddr = guarded E c busNum devAddr [] ()
     (plain (Host_Driver.RequestCancel (hostd E) busNum devAddr interfaceId endpointId))"

definition RegBulkCallback :: "USBEndpoint \<Rightarrow> 'c option \<Rightarrow> ('w, 'c, 'm, unit) device_request" where
  "RegBulkCallback ep cb E c busNum devAddr = guarded E c busNum devAddr [] ()
     (\<lambda>hm w. case Host_Driver.RegBulkCallback (hostd E) (busNum, devAddr) (pipe_of ep) cb (usbHostHdiCb hm) w of
        (ret, cb', w') \<Rightarrow> (ret, (), hm\<lparr>usbHostHdiCb := cb'\<rparr>, w'))"

definition UnRegBulkCallback :: "USBEndpoint \<Rightarrow> ('w, 'c, 'm, unit) device_request" where
  "UnRegBulkCallback ep E c busNum devAddr = guarded E c busNum devAddr [] ()
     (\<lambda>hm w. case Host_Driver.UnRegBulkCallback (hostd E) (busNum, devAddr) (pipe_of ep) (usbHostHdiCb hm) w of
        (ret, cb', w') \<Rightarrow> (ret, (), hm\<lparr>usbHostHdiCb := cb'\<rparr>, w'))"

definition UsbCancelTransfer :: "int \<Rightarrow> ('w, 'c, 'm, unit) device_request" where
  "UsbCancelTransfer endpoint E c busNum devAddr = guarded E c busNum devAddr [] ()
     (plain (Host_Driver.UsbCancelTransfer (hostd E) (busNum, devAddr) endpoint))"

definition BulkCancel :: "USBEndpoint \<Rightarrow> ('w, 'c, 'm, unit) device_request" where
  "BulkCancel ep E c busNum devAddr = guarded E c busNum devAddr [] ()
     (plain (Host_Driver.BulkCancel (hostd E) (busNum, devAddr) (pipe_of ep)))"

subsection \<open>Transfers\<close>

text \<open>
  The frame of a transfer: the host manager is looked at first; a missing right and a failure are
  reported for the device when it is in the map. \<open>denied\<close> and \<open>failed\<close> are the reports for the
  device; \<open>unready\<close> tells that no memory object could be made of the caller's descriptor, and
  \<open>cleanup\<close> is what is done with the descriptor then and when the right is missing.
\<close>

definition transfer :: "('w, 'c, 'm) service_env \<Rightarrow> caller \<Rightarrow> u8 \<Rightarrow> u8 \<Rightarrow> ('w \<Rightarrow> bool) \<Rightarrow> ('w \<Rightarrow> 'w) \<Rightarrow>
    (UsbDevice \<Rightarrow> 'c usb_service \<Rightarrow> 'c usb_service) \<Rightarrow> (retcode \<Rightarrow> UsbDevice \<Rightarrow> 'c usb_service \<Rightarrow> 'c usb_service) \<Rightarrow>
    'a \<Rightarrow> ('w \<Rightarrow> retcode \<times> 'a \<times> 'w) \<Rightarrow> 'c usb_service \<Rightarrow> 'w \<Rightarrow> retcode \<times> 'a \<times> 'c usb_service \<times> 'w" where
  "transfer E c busNum devAddr unready cleanup denied failed old f s w =
     (case usbHostManager s of None \<Rightarrow> (UEC_SERVICE_INVALID_VALUE, old, s, w)
      | Some hm \<Rightarrow>
        let for_device = (\<lambda>rep. case GetTargetDevice busNum devAddr hm of None \<Rightarrow> s | Some usbDev \<Rightarrow> rep usbDev s) in
        (case CheckDevicePermission E c busNum devAddr s w of (ok, w1) \<Rightarrow>
          if \<not> ok then (UEC_SERVICE_PERMISSION_DENIED, old, for_device denied, cleanup w1)
          else if unready w1 then (UEC_SERVICE_INVALID_VALUE, old, s, cleanup w1)
          else (case f w1 of (ret, out, w2) \<Rightarrow> (ret, out, if ret \<noteq> UEC_OK then for_device (failed ret) else s, w2))))"

text \<open>The reports of a transfer on a pipe, where a time-out of an interrupt endpoint does not count.\<close>

definition bulk_denied :: "string \<Rightarrow> USBEndpoint \<Rightarrow> UsbDevice \<Rightarrow> 'c usb_service \<Rightarrow> 'c usb_service" where
  "bulk_denied name ep usbDev = ReportTransferFaultSysEvent name usbDev (pipe_of ep)
     UEC_SERVICE_PERMISSION_DENIED ''CheckDevicePermission failed''"

definition bulk_failed :: "string \<Rightarrow> string \<Rightarrow> USBEndpoint \<Rightarrow> retcode \<Rightarrow> UsbDevice \<Rightarrow> 'c usb_service \<Rightarrow> 'c usb_service" where
  "bulk_failed name description ep ret usbDev =
     CheckAttributeReportTransferFaultSysEvent name usbDev (pipe_of ep) ep ret description"

definition BulkTransferRead :: "USBEndpoint \<Rightarrow> u8 list \<Rightarrow> int \<Rightarrow> ('w, 'c, 'm, u8 list) device_request" where
  "BulkTransferRead ep bufferData timeOut E c busNum devAddr = transfer E c busNum devAddr (\<lambda>w. False) (\<lambda>w. w)
     (bulk_denied ''BulkRead'' ep) (bulk_failed ''BulkRead'' ''BulkTransferReadFail'' ep) bufferData
     (Host_Driver.BulkTransferRead (hostd E) (busNum, devAddr) (pipe_of ep) bufferData timeOut)"

definition BulkTransferReadwithLength :: "USBEndpoint \<Rightarrow> int \<Rightarrow> u8 list \<Rightarrow> int \<Rightarrow> ('w, 'c, 'm, u8 list) device_request" where
  "BulkTransferReadwithLength ep len bufferData timeOut E c busNum devAddr = transfer E c busNum devAddr (\<lambda>w. False) (\<lambda>w. w)
     (bulk_denied ''BulkRead'' ep) (bulk_failed ''BulkRead'' ''BulkTransferReadFail'' ep) bufferData
     (Host_Driver.BulkTransferReadwithLength (hostd E) (busNum, devAddr) (pipe_of ep) len bufferData timeOut)"

definition no_output :: "('w \<Rightarrow> retcode \<times> 'w) \<Rightarrow> 'w \<Rightarrow> retcode \<times> unit \<times> 'w" where
  "no_output f w = (case f w of (ret, w') \<Rightarrow> (ret, (), w'))"

definition BulkTransferWrite :: "USBEndpoint \<Rightarrow> u8 list \<Rightarrow> int \<Rightarrow> ('w, 'c, 'm, unit) device_request" where
  "BulkTransferWrite ep bufferData timeOut E c busNum devAddr = transfer E c busNum devAddr (\<lambda>w. False) (\<lambda>w. w)
     (bulk_denied ''BulkWrite'' ep) (bulk_failed ''BulkWrite'' ''BulkTransferWriteFail'' ep) ()
     (no_output (Host_Driver.BulkTransferWrite (hostd E) (busNum, devAddr) (pipe_of ep) bufferData timeOut))"

record UsbCtlSetUp =
  cs_reqType :: i32
  cs_reqCmd :: i32
  cs_value :: i32
  cs_index :: i32
  cs_length :: i32
  cs_timeout :: i32

definition UsbCtrlTransferChange :: "UsbCtlSetUp \<Rightarrow> UsbCtrlTransfer" where
  "UsbCtrlTransferChange p = \<lparr>ct_requestType = cs_reqType p, ct_requestCmd = cs_reqCmd p, ct_value = cs_value p,
     ct_index = cs_index p, ct_timeout = cs_timeout p\<rparr>"

definition UsbCtrlTransferParamsChange :: "UsbCtlSetUp \<Rightarrow> UsbCtrlTransferParams" where
  "UsbCtrlTransferParamsChange p = \<lparr>ct_requestType = cs_reqType p, ct_requestCmd = cs_reqCmd p, ct_value = cs_value p,
     ct_index = cs_index p, ct_timeout = cs_timeout p, ct_length = cs_length p\<rparr>"

definition control_fault :: "string \<Rightarrow> retcode \<Rightarrow> UsbDevice \<Rightarrow> 'c usb_service \<Rightarrow> 'c usb_service" where
  "control_fault description ret usbDev = ReportTransferFaultSysEvent ''ControlTransfer'' usbDev (0, 0) ret description"

definition ControlTransfer :: "UsbCtlSetUp \<Rightarrow> u8 list \<Rightarrow> ('w, 'c, 'm, u8 list) device_request" where
  "ControlTransfer ctrlParams bufferData E c busNum devAddr = transfer E c busNum devAddr (\<lambda>w. False) (\<lambda>w. w)
     (control_fault ''CheckDevicePermission failed'' UEC_SERVICE_PERMISSION_DENIED) (control_fault ''ControlTransferFail'')
     bufferData (Host_Driver.ControlTransfer (hostd E) (busNum, devAddr) (UsbCtrlTransferChange ctrlParams) bufferData)"

definition UsbControlTransfer :: "UsbCtlSetUp \<Rightarrow> u8 list \<Rightarrow> ('w, 'c, 'm, u8 list) device_request" where
  "UsbControlTransfer ctrlParams bufferData E c busNum devAddr = transfer E c busNum devAddr (\<lambda>w. False) (\<lambda>w. w)
     (control_fault ''CheckDevicePermission failed'' UEC_SERVICE_PERMISSION_DENIED) (control_fault ''UsbControlTransferFail'')
     bufferData (Host_Driver.UsbControlTransfer (hostd E) (busNum, devAddr) (UsbCtrlTransferParamsChange ctrlParams) bufferData)"

text \<open>
  Transfers through shared memory: the descriptor the caller passed is closed on every path on
  which no memory object takes it over.
\<close>

definition shared :: "string \<Rightarrow> string \<Rightarrow> USBEndpoint \<Rightarrow> int \<Rightarrow> int \<Rightarrow> ('m option \<Rightarrow> 'w \<Rightarrow> retcode \<times> 'w) \<Rightarrow>
    ('w, 'c, 'm, unit) device_request" where
  "shared name description ep fd memSize f E c busNum devAddr s w =
     (if usbHostManager s = None \<or> fd \<le> 0 \<or> memSize \<le> 0 then (UEC_SERVICE_INVALID_VALUE, (), s, sv_close E fd w)
      else transfer E c busNum devAddr (\<lambda>w. sv_Ashmem E fd memSize w = None) (sv_close E fd)
        (bulk_denied name ep) (bulk_failed name description ep) ()
        (no_output (\<lambda>w. f (sv_Ashmem E fd memSize w) w)) s w)"

definition BulkRead :: "USBEndpoint \<Rightarrow> int \<Rightarrow> int \<Rightarrow> ('w, 'c, 'm, unit) device_request" where
  "BulkRead ep fd memSize E c busNum devAddr = shared ''BulkRead'' ''BulkReadFail'' ep fd memSize
     (Host_Driver.BulkRead (hostd E) (busNum, devAddr) (pipe_of ep)) E c busNum devAddr"

definition BulkWrite :: "USBEndpoint \<Rightarrow> int \<Rightarrow> int \<Rightarrow> ('w, 'c, 'm, unit) device_request" where
  "BulkWrite ep fd memSize E c busNum devAddr = shared ''BulkWrite'' ''BulkWriteFail'' ep fd memSize
     (Host_Driver.BulkWrite (hostd E) (busNum, devAddr) (pipe_of ep)) E c busNum devAddr"

definition ISO_TRANSFER_TYPE :: i32 where "ISO_TRANSFER_TYPE = 1"
definition BULK_TRANSFER_TYPE :: i32 where "BULK_TRANSFER_TYPE = 2"
definition INTP_TRANSFER_TYPE :: i32 where "INTP_TRANSFER_TYPE = 3"
definition MEMSIZE_MAX :: int where "MEMSIZE_MAX = 512 * 1024 * 1024"
definition USB_ENDPOINT_DIR_IN :: u32 where "USB_ENDPOINT_DIR_IN = 0x80"

definition UsbTransInfoChange :: "UsbTransInfo \<Rightarrow> USBTransferInfo" where
  "UsbTransInfoChange p = \<lparr>xi_endpoint = ti_endpoint p, xi_flags = ti_flags p, xi_type = ti_type p,
     xi_timeOut = ti_timeOut p, xi_length = ti_length p, xi_userData = ti_userData p,
     xi_numIsoPackets = ti_numIsoPackets p\<rparr>"

definition GetTransferTypeString :: "UsbTransInfo \<Rightarrow> USBEndpoint \<Rightarrow> string" where
  "GetTransferTypeString transInfo ep =
     (let transType = (if ti_type transInfo = ISO_TRANSFER_TYPE then ''IsochronousTransfer''
            else if ti_type transInfo = BULK_TRANSFER_TYPE then ''BulkTransfer''
            else if ti_type transInfo = INTP_TRANSFER_TYPE then ''InterruptTransfer'' else ''Unknown'');
          direction = ep_address ep AND USB_ENDPOINT_DIR_MASK
      in if direction = USB_ENDPOINT_DIR_IN then transType @ ''Read''
         else if direction = USB_ENDPOINT_DIR_OUT then transType @ ''Write'' else transType)"

definition submit_fault :: "UsbTransInfo \<Rightarrow> string \<Rightarrow> retcode \<Rightarrow> UsbDevice \<Rightarrow> 'c usb_service \<Rightarrow> 'c usb_service" where
  "submit_fault param description ret usbDev s = (case GetEndpointFromId usbDev (ti_endpoint param) of None \<Rightarrow> s
     | Some ep \<Rightarrow> ReportTransferFaultSysEvent (GetTransferTypeString param ep) usbDev
         (ep_interfaceId ep, ucast (ti_endpoint param)) ret description s)"

definition UsbSubmitTransfer :: "UsbTransInfo \<Rightarrow> 'c option \<Rightarrow> int \<Rightarrow> int \<Rightarrow> ('w, 'c, 'm, unit) device_request" where
  "UsbSubmitTransfer param cb fd memSize E c busNum devAddr s w =
     (case cb of None \<Rightarrow> (UEC_SERVICE_INVALID_VALUE, (), s, sv_close E fd w)
      | Some cb' \<Rightarrow>
        if fd \<le> 0 \<or> memSize \<le> 0 \<or> MEMSIZE_MAX \<le> memSize then (UEC_SERVICE_INVALID_VALUE, (), s, sv_close E fd w)
        else (case sv_Ashmem E fd memSize w of None \<Rightarrow> (UEC_SERVICE_INVALID_VALUE, (), s, sv_close E fd w)
          | Some ashmem \<Rightarrow> transfer E c busNum devAddr (\<lambda>w. False) (\<lambda>w. w)
              (submit_fault param ''CheckDevicePermission failed'' UEC_SERVICE_PERMISSION_DENIED)
              (submit_fault param ''UsbSubmitTransferFail'') ()
              (no_output (Host_Driver.UsbSubmitTransfer (hostd E) (host_library (sv_host E)) (busNum, devAddr)
                (UsbTransInfoChange param) cb' ashmem)) s w))"

subsection \<open>Requests of system applications\<close>

definition precall :: "'a \<Rightarrow> ('c host_manager \<Rightarrow> 'w \<Rightarrow> retcode \<times> 'a \<times> 'c host_manager \<times> 'w) \<Rightarrow>
    ('w, 'c, 'm) service_env \<Rightarrow> caller \<Rightarrow> 'c usb_service \<Rightarrow> 'w \<Rightarrow> retcode \<times> 'a \<times> 'c usb_service \<times> 'w" where
  "precall old f E c s w =
     (if PreCallFunction E c s w \<noteq> UEC_OK then (UEC_SERVICE_PRE_MANAGE_INTERFACE_FAILED, old, s, w)
      else (case usbHostManager s of None \<Rightarrow> (UEC_SERVICE_PRE_MANAGE_INTERFACE_FAILED, old, s, w)
        | Some hm \<Rightarrow> (case f hm w of (ret, out, hm', w') \<Rightarrow> (ret, out, s\<lparr>usbHostManager := Some hm'\<rparr>, w'))))"

definition GetDeviceSpeed :: "u8 \<Rightarrow> ('w, 'c, 'm, u8) device_request" where
  "GetDeviceSpeed speed E c busNum devAddr =
     precall speed (filled (Host_Driver.GetDeviceSpeed (hostd E) busNum devAddr speed)) E c"

definition GetInterfaceActiveStatus :: "u8 \<Rightarrow> bool \<Rightarrow> ('w, 'c, 'm, bool) device_request" where
  "GetInterfaceActiveStatus interfaceid unactivated E c busNum devAddr = precall unactivated
     (filled (Host_Driver.GetInterfaceActiveStatus (hostd E) busNum devAddr interfaceid unactivated)) E c"

subsection \<open>Policies\<close>

record UsbDeviceIdInfo =
  dii_productId :: i32
  dii_vendorId :: i32

record UsbDeviceTypeInfo =
  dti_baseClass :: i32
  dti_subClass :: i32
  dti_protocol :: i32
  dti_isDeviceType :: bool

type_synonym ('w, 'c, 'm) policy_request =
  "('w, 'c, 'm) service_env \<Rightarrow> caller \<Rightarrow> 'c usb_service \<Rightarrow> 'w \<Rightarrow> retcode \<times> unit \<times> 'c usb_service \<times> 'w"

text \<open>The frame of a policy operation: only root and the device administration get through.\<close>

definition policy :: "('c host_manager \<Rightarrow> 'w \<Rightarrow> retcode \<times> 'c host_manager \<times> 'w) \<Rightarrow> ('w, 'c, 'm) policy_request" where
  "policy f E c s w =
     (if \<not> IsCallerValid c then (UEC_SERVICE_INVALID_OPERATION, (), s, w)
      else precall () (\<lambda>hm w. case f hm w of (ret, hm', w') \<Rightarrow> (ret, (), hm', w')) E c s w)"

definition ManageGlobalInterface :: "bool \<Rightarrow> ('w, 'c, 'm) policy_request" where
  "ManageGlobalInterface disable E = policy (Host_Policy.ManageGlobalInterface (sv_host E) disable) E"

definition ManageDevice :: "i32 \<Rightarrow> i32 \<Rightarrow> bool \<Rightarrow> ('w, 'c, 'm) policy_request" where
  "ManageDevice vendorId productId disable E =
     policy (Host_Policy.ManageDevice (sv_host E) vendorId productId disable) E"

definition UsbDeviceIdChange :: "UsbDeviceIdInfo list \<Rightarrow> UsbDeviceId list" where
  "UsbDeviceIdChange = map (\<lambda>i. \<lparr>di_productId = dii_productId i, di_vendorId = dii_vendorId i\<rparr>)"

definition ManageDevicePolicy :: "UsbDeviceIdInfo list \<Rightarrow> ('w, 'c, 'm) policy_request" where
  "ManageDevicePolicy trustList E =
     policy (Host_Policy.ManageDevicePolicy (sv_host E) (UsbDeviceIdChange trustList)) E"

definition UsbDeviceTypeChange :: "UsbDeviceTypeInfo list \<Rightarrow> UsbDeviceType list" where
  "UsbDeviceTypeChange = map (\<lambda>i. \<lparr>dt_baseClass = dti_baseClass i, dt_subClass = dti_subClass i,
     dt_protocol = dti_protocol i, dt_isDeviceType = dti_isDeviceType i\<rparr>)"

definition ManageInterfaceType :: "UsbDeviceTypeInfo list \<Rightarrow> bool \<Rightarrow> ('w, 'c, 'm) policy_request" where
  "ManageInterfaceType devTypeInfo disable E =
     policy (Host_Policy.ManageInterfaceType (sv_host E) (UsbDeviceTypeChange devTypeInfo) disable) E"

text \<open>The switch of the serial adapters does not look at its caller.\<close>

definition ManageUsbSerialDevice :: "('w, 'c, 'm) service_env \<Rightarrow> bool \<Rightarrow> 'c usb_service \<Rightarrow> 'w \<Rightarrow>
    retcode \<times> 'c usb_service \<times> 'w" where
  "ManageUsbSerialDevice E disable s w =
     (if usbSerialManager s = None then (UEC_SERVICE_INVALID_VALUE, s, w)
      else (case usbHostManager s of None \<Rightarrow> (UEC_SERVICE_INVALID_VALUE, s, w)
        | Some hm \<Rightarrow> (case Host_Policy.ManageUsbSerialDevice (sv_host E) disable hm w of (ret, hm', w') \<Rightarrow>
            (ret, s\<lparr>usbHostManager := Some hm'\<rparr>, w'))))"

subsection \<open>The attached devices\<close>

definition GetDevices :: "caller \<Rightarrow> 'c usb_service \<Rightarrow> retcode \<times> UsbDevice list" where
  "GetDevices c s = (case usbHostManager s of None \<Rightarrow> (UEC_SERVICE_INVALID_VALUE, [])
     | Some hm \<Rightarrow> (UEC_OK, Host_Manager.GetDevices c hm))"

text \<open>\<open>None\<close> is a read outside of the descriptor, which never happens.\<close>

definition GetDeviceInfo :: "('w, 'c, 'm) service_env \<Rightarrow> u8 \<Rightarrow> u8 \<Rightarrow> UsbDevice \<Rightarrow> 'c usb_service \<Rightarrow> 'w \<Rightarrow>
    (retcode \<times> UsbDevice \<times> 'w) option" where
  "GetDeviceInfo E busNum devAddr dev s w =
     (if usbHostManager s = None then Some (UEC_SERVICE_INVALID_VALUE, dev, w)
      else Host_Description.GetDeviceInfo (hostd E) (host_library (sv_host E)) busNum devAddr dev w)"

definition GetDeviceInfoDescriptor :: "('w, 'c, 'm) service_env \<Rightarrow> UsbDev \<Rightarrow> u8 list \<Rightarrow> UsbDevice \<Rightarrow> 'c usb_service \<Rightarrow>
    'w \<Rightarrow> (retcode \<times> u8 list \<times> UsbDevice \<times> 'w) option" where
  "GetDeviceInfoDescriptor E uDev descriptor dev s w =
     (if usbHostManager s = None then Some (UEC_SERVICE_INVALID_VALUE, descriptor, dev, w)
      else Host_Description.GetDeviceInfoDescriptor (hostd E) uDev dev w)"

definition GetConfigDescriptor :: "('w, 'c, 'm) service_env \<Rightarrow> UsbDevice \<Rightarrow> u8 list \<Rightarrow> 'c usb_service \<Rightarrow> 'w \<Rightarrow>
    (retcode \<times> UsbDevice \<times> 'w) option" where
  "GetConfigDescriptor E dev descriptor s w =
     (if usbHostManager s = None then Some (UEC_SERVICE_INVALID_VALUE, dev, w)
      else Host_Description.GetConfigDescriptor (hostd E) (host_library (sv_host E)) dev descriptor w)"

definition identity_of :: "UsbDevice \<Rightarrow> string" where
  "identity_of dev = identity (sint (dev_vendorId dev)) (sint (dev_productId dev)) (dev_serial dev)"

text \<open>
  The arrival of a device: its identity is entered for its name, unless the name has one, and the
  host manager gets it. The serial manager is the one the host manager shares.
\<close>

definition AddDevice :: "('w, 'c, 'm) service_env \<Rightarrow> u8 \<Rightarrow> u8 \<Rightarrow> 'c usb_service \<Rightarrow> 'w \<Rightarrow>
    (bool \<times> 'c usb_service \<times> 'w) option" where
  "AddDevice E busNum devAddr s w =
     (case usbHostManager s of None \<Rightarrow> Some (False, s, w)
      | Some hm \<Rightarrow> (case GetDeviceInfo E busNum devAddr new_device s w of None \<Rightarrow> None
        | Some (ret, dev, w1) \<Rightarrow>
          if ret \<noteq> UEC_OK then Some (False, s, w1)
          else let vids = omap_insert (device_name busNum devAddr) (identity_of dev) (deviceVidPidMap s) in
            (case Host_Policy.AddDevice (sv_host E) (sv_serial E) (Some dev) (usbSerialManager s) hm w1 of
              (ok, sm', hm', w2) \<Rightarrow>
                Some (True, s\<lparr>deviceVidPidMap := vids, usbSerialManager := sm', usbHostManager := Some hm'\<rparr>, w2))))"

definition DelDevice :: "('w, 'c, 'm) service_env \<Rightarrow> caller \<Rightarrow> u8 \<Rightarrow> u8 \<Rightarrow> 'c usb_service \<Rightarrow> 'w \<Rightarrow>
    bool \<times> 'c usb_service \<times> 'w" where
  "DelDevice E c busNum devAddr s w =
     (case Close E c busNum devAddr s w of (ret, _, s1, w1) \<Rightarrow>
      (case usbHostManager s1 of None \<Rightarrow> (False, s1, w1)
       | Some hm \<Rightarrow> (case usbRightManager s1 of None \<Rightarrow> (False, s1, w1)
         | Some rm \<Rightarrow>
           let name = device_name busNum devAddr;
               w2 = snd (RemoveDeviceAllRight (sv_right_env E) (sv_right_db E)
                 (GetDeviceVidPidSerialNumberOrTest name s1) rm w1);
               vids = omap_erase name (deviceVidPidMap s1)
           in (case Host_Policy.DelDevice busNum devAddr hm of (ok, hm') \<Rightarrow>
                (ok, s1\<lparr>deviceVidPidMap := vids, usbHostManager := Some hm'\<rparr>, w2)))))"

end
