(* ===== verification/Service_Permission.thy ===== *)
theory Service_Permission
  imports Service_Host
begin

section \<open>The service: who reaches a device\<close>

text \<open>
  The requests of \<^verbatim>\<open>Service_Host\<close> taken together: the interface \<open>permission_guarded\<close> is what each of
  them promises when the caller has no right, and it is discharged for every one of them.
\<close>

subsection \<open>The contract of a request\<close>

lemma CheckDevicePermission_host [simp]:
  "CheckDevicePermission (E\<lparr>sv_host := x\<rparr>) c b d s w = CheckDevicePermission E c b d s w"
  by (simp add: CheckDevicePermission_def HasRight_def has_either_def GetCallingInfo_def case_prod_beta
    split: sum.split option.split)

text \<open>
  Without the right the request fails, and what it returns and leaves behind does not depend on the
  driver: nothing was asked of it.
\<close>

definition driver_free :: "('w, 'c, 'm, 'a) device_request \<Rightarrow> ('w, 'c, 'm) service_env \<Rightarrow> caller \<Rightarrow> u8 \<Rightarrow> u8 \<Rightarrow>
    'c usb_service \<Rightarrow> 'w \<Rightarrow> bool" where
  "driver_free op E c b d s w \<longleftrightarrow> fst (op E c b d s w) \<noteq> UEC_OK \<and>
     (\<forall>x. op (E\<lparr>sv_host := x\<rparr>) c b d s w = op E c b d s w)"

text \<open>
  A request changes nothing of what is attached: only reports are added, and the callback of bulk
  transfers may be replaced.
\<close>

definition strip :: "'c host_manager \<Rightarrow> 'c host_manager" where
  "strip hm = hm\<lparr>usbHostHdiCb := None\<rparr>"

definition same_attached :: "'c usb_service \<Rightarrow> 'c usb_service \<Rightarrow> bool" where
  "same_attached s s' \<longleftrightarrow> deviceVidPidMap s' = deviceVidPidMap s \<and>
     map_option strip (usbHostManager s') = map_option strip (usbHostManager s)"

definition keeps_host :: "('c host_manager \<Rightarrow> 'w \<Rightarrow> retcode \<times> 'a \<times> 'c host_manager \<times> 'w) \<Rightarrow> bool" where
  "keeps_host f \<longleftrightarrow> (\<forall>hm w. strip (fst (snd (snd (f hm w)))) = strip hm)"

definition keeps_state :: "(UsbDevice \<Rightarrow> 'c usb_service \<Rightarrow> 'c usb_service) \<Rightarrow> bool" where
  "keeps_state rep \<longleftrightarrow> (\<forall>dev s. same_attached s (rep dev s))"

locale permission_guarded =
  fixes op :: "('w, 'c, 'm, 'a) device_request"
  assumes denied: "\<not> fst (CheckDevicePermission E c b d s w) \<Longrightarrow> driver_free op E c b d s w"
    and keeps: "same_attached s (fst (snd (snd (op E c b d s w))))"
begin

lemma denied_fails: "\<not> fst (CheckDevicePermission E c b d s w) \<Longrightarrow> fst (op E c b d s w) \<noteq> UEC_OK"
  using denied by (simp add: driver_free_def)

text \<open>Seen from the other side: a request that succeeds had the right.\<close>

lemma success_has_right: "op E c b d s w = (UEC_OK, r) \<Longrightarrow> fst (CheckDevicePermission E c b d s w)"
  using denied_fails by force

end

lemma same_attached_refl [simp]: "same_attached s s"
  by (simp add: same_attached_def)

lemma report_attached [simp]: "same_attached s (report es s)"
  by (simp add: same_attached_def report_def)

lemma keeps_host_simps [simp]: "keeps_host (plain f)" "keeps_host (filled g)"
  by (simp_all add: keeps_host_def plain_def filled_def case_prod_beta)

lemma keeps_state_simps [simp]:
  "keeps_state (bulk_denied name ep)" "keeps_state (bulk_failed name description ep ret)"
  "keeps_state (control_fault description ret)" "keeps_state (submit_fault param description ret)"
  by (simp_all add: keeps_state_def bulk_denied_def bulk_failed_def control_fault_def submit_fault_def
      CheckAttributeReportTransferFaultSysEvent_def ReportTransferFaultSysEvent_def split: option.split)

lemma guarded_denied:
  assumes "\<not> fst (CheckDevicePermission E c b d s w)"
  shows "guarded E c b d faults old f s w =
    (UEC_SERVICE_PERMISSION_DENIED, old, report faults s, snd (CheckDevicePermission E c b d s w))"
  using assms by (simp add: guarded_def case_prod_beta)

lemma guarded_keeps:
  assumes "keeps_host f"
  shows "same_attached s (fst (snd (snd (guarded E c b d faults old f s w))))"
  using assms by (auto simp: guarded_def case_prod_beta keeps_host_def same_attached_def report_def split: option.split)

lemma guarded_contract:
  assumes "\<And>E c b d. op E c b d = guarded E c b d faults old (f E c b d)" and "\<And>E c b d. keeps_host (f E c b d)"
  shows "permission_guarded op"
  by unfold_locales (simp_all add: assms driver_free_def guarded_denied guarded_keeps)

lemma transfer_denied:
  assumes "\<not> fst (CheckDevicePermission E c b d s w)"
  shows "fst (transfer E c b d unready cleanup denied failed old f s w) \<noteq> UEC_OK"
    and "transfer (E\<lparr>sv_host := x\<rparr>) c b d unready' cleanup denied failed old f' s w =
      transfer E c b d unready cleanup denied failed old f s w"
  using assms by (simp_all add: transfer_def case_prod_beta Let_def split: option.split)

lemma transfer_keeps:
  assumes "keeps_state denied" and "\<And>ret. keeps_state (failed ret)"
  shows "same_attached s (fst (snd (snd (transfer E c b d unready cleanup denied failed old f s w))))"
  using assms by (simp add: transfer_def case_prod_beta Let_def keeps_state_def split: option.split)

lemma transfer_contract:
  assumes "\<And>E c b d. op E c b d = transfer E c b d unready cleanup denied failed old (f E c b d)"
    and "keeps_state denied" and "\<And>ret. keeps_state (failed ret)"
  shows "permission_guarded op"
  by unfold_locales (simp_all add: assms driver_free_def transfer_denied transfer_keeps)

lemma shared_contract:
  assumes "\<And>E c b d. op E c b d = shared name description ep fd n (f E c b d) E c b d"
  shows "permission_guarded op"
  by unfold_locales (auto simp: assms shared_def driver_free_def transfer_denied transfer_keeps)

interpretation open_device: permission_guarded OpenDevice
  by (rule guarded_contract, rule OpenDevice_def) simp

interpretation close_device: permission_guarded Close
  by (rule guarded_contract, rule Close_def) simp

interpretation reset_device: permission_guarded ResetDevice
  by unfold_locales (simp_all add: ResetDevice_def driver_free_def guarded_denied guarded_keeps)

interpretation claim_interface: permission_guarded "ClaimInterface i f" for i f
  by (rule guarded_contract, rule ClaimInterface_def) simp

interpretation set_interface: permission_guarded "SetInterface i a" for i a
  by (rule guarded_contract, rule SetInterface_def) simp

interpretation release_interface: permission_guarded "ReleaseInterface i" for i
  by (rule guarded_contract, rule ReleaseInterface_def) simp

interpretation set_config: permission_guarded "SetActiveConfig i" for i
  by (rule guarded_contract, rule SetActiveConfig_def) simp

interpretation attach_driver: permission_guarded "UsbAttachKernelDriver i" for i
  by (rule guarded_contract, rule UsbAttachKernelDriver_def) simp

interpretation detach_driver: permission_guarded "UsbDetachKernelDriver i" for i
  by (rule guarded_contract, rule UsbDetachKernelDriver_def) simp

interpretation clear_halt: permission_guarded "ClearHalt i e" for i e
  by (rule guarded_contract, rule ClearHalt_def) simp

interpretation get_config: permission_guarded "GetActiveConfig i" for i
  by (rule guarded_contract, rule GetActiveConfig_def) simp

interpretation raw_descriptor: permission_guarded "GetRawDescriptor buf" for buf
  by (rule guarded_contract, rule GetRawDescriptor_def) simp

interpretation file_descriptor: permission_guarded "GetFileDescriptor fd" for fd
  by (rule guarded_contract, rule GetFileDescriptor_def) simp

interpretation request_queue: permission_guarded "RequestQueue ep cd bd" for ep cd bd
  by (rule guarded_contract, rule RequestQueue_def) simp

interpretation request_wait: permission_guarded "RequestWait t cd bd" for t cd bd
  by (rule guarded_contract, rule RequestWait_def) simp

interpretation request_cancel: permission_guarded "RequestCancel i e" for i e
  by (rule guarded_contract, rule RequestCancel_def) simp

interpretation reg_callback: permission_guarded "RegBulkCallback ep cb" for ep cb
  by (rule guarded_contract, rule RegBulkCallback_def) (simp add: keeps_host_def strip_def case_prod_beta)

interpretation unreg_callback: permission_guarded "UnRegBulkCallback ep" for ep
  by (rule guarded_contract, rule UnRegBulkCallback_def) (simp add: keeps_host_def strip_def case_prod_beta)

interpretation cancel_transfer: permission_guarded "UsbCancelTransfer e" for e
  by (rule guarded_contract, rule UsbCancelTransfer_def) simp

interpretation bulk_cancel: permission_guarded "BulkCancel ep" for ep
  by (rule guarded_contract, rule BulkCancel_def) simp

interpretation bulk_transfer_read: permission_guarded "BulkTransferRead ep buf t" for ep buf t
  by (rule transfer_contract, rule BulkTransferRead_def) simp_all

interpretation bulk_transfer_read_length: permission_guarded "BulkTransferReadwithLength ep n buf t" for ep n buf t
  by (rule transfer_contract, rule BulkTransferReadwithLength_def) simp_all

interpretation bulk_transfer_write: permission_guarded "BulkTransferWrite ep buf t" for ep buf t
  by (rule transfer_contract, rule BulkTransferWrite_def) simp_all

interpretation control_transfer: permission_guarded "ControlTransfer p buf" for p buf
  by (rule transfer_contract, rule ControlTransfer_def) simp_all

interpretation usb_control_transfer: permission_guarded "UsbControlTransfer p buf" for p buf
  by (rule transfer_contract, rule UsbControlTransfer_def) simp_all

interpretation bulk_read: permission_guarded "BulkRead ep fd n" for ep fd n
  by (rule shared_contract) (rule BulkRead_def)

interpretation bulk_write: permission_guarded "BulkWrite ep fd n" for ep fd n
  by (rule shared_contract) (rule BulkWrite_def)

interpretation submit_transfer: permission_guarded "UsbSubmitTransfer p cb fd n" for p cb fd n
  by unfold_locales (simp_all add: UsbSubmitTransfer_def driver_free_def transfer_denied transfer_keeps split: option.split)

subsection \<open>All requests\<close>

datatype (plugins only: code) 'c device_call =
    Call_OpenDevice | Call_Close | Call_ResetDevice | Call_ClaimInterface u8 u8 | Call_SetInterface u8 u8
  | Call_ReleaseInterface u8 | Call_SetActiveConfig u8 | Call_UsbAttachKernelDriver u8 | Call_UsbDetachKernelDriver u8
  | Call_ClearHalt u8 u8 | Call_GetActiveConfig u8 | Call_GetRawDescriptor "u8 list" | Call_GetFileDescriptor int
  | Call_RequestQueue USBEndpoint "u8 list" "u8 list" | Call_RequestWait int "u8 list" "u8 list"
  | Call_RequestCancel u8 u8 | Call_RegBulkCallback USBEndpoint "'c option" | Call_UnRegBulkCallback USBEndpoint
  | Call_UsbCancelTransfer int | Call_BulkCancel USBEndpoint | Call_BulkTransferRead USBEndpoint "u8 list" int
  | Call_BulkTransferReadwithLength USBEndpoint int "u8 list" int | Call_BulkTransferWrite USBEndpoint "u8 list" int
  | Call_ControlTransfer UsbCtlSetUp "u8 list" | Call_UsbControlTransfer UsbCtlSetUp "u8 list"
  | Call_BulkRead USBEndpoint int int | Call_BulkWrite USBEndpoint int int
  | Call_UsbSubmitTransfer UsbTransInfo "'c option" int int

text \<open>What a request puts into its output parameter.\<close>

datatype reply = Nothing | Byte u8 | Bytes "u8 list" | Descriptor int | Request "u8 list \<times> u8 list"

definition out :: "('a \<Rightarrow> reply) \<Rightarrow> ('w, 'c, 'm, 'a) device_request \<Rightarrow> ('w, 'c, 'm, reply) device_request" where
  "out g op E c b d s w = (case op E c b d s w of (ret, x, r) \<Rightarrow> (ret, g x, r))"

lemma out_denied:
  assumes "permission_guarded op" and "\<not> fst (CheckDevicePermission E c b d s w)"
  shows "driver_free (out g op) E c b d s w"
  using permission_guarded.denied [OF assms] by (simp add: driver_free_def out_def case_prod_beta)

fun device_request :: "'c device_call \<Rightarrow> ('w, 'c, 'm, reply) device_request" where
  "device_request Call_OpenDevice = out (\<lambda>_. Nothing) OpenDevice"
| "device_request Call_Close = out (\<lambda>_. Nothing) Close"
| "device_request Call_ResetDevice = out (\<lambda>_. Nothing) ResetDevice"
| "device_request (Call_ClaimInterface i f) = out (\<lambda>_. Nothing) (ClaimInterface i f)"
| "device_request (Call_SetInterface i a) = out (\<lambda>_. Nothing) (SetInterface i a)"
| "device_request (Call_ReleaseInterface i) = out (\<lambda>_. Nothing) (ReleaseInterface i)"
| "device_request (Call_SetActiveConfig i) = out (\<lambda>_. Nothing) (SetActiveConfig i)"
| "device_request (Call_UsbAttachKernelDriver i) = out (\<lambda>_. Nothing) (UsbAttachKernelDriver i)"
| "device_request (Call_UsbDetachKernelDriver i) = out (\<lambda>_. Nothing) (UsbDetachKernelDriver i)"
| "device_request (Call_ClearHalt i e) = out (\<lambda>_. Nothing) (ClearHalt i e)"
| "device_request (Call_GetActiveConfig i) = out Byte (GetActiveConfig i)"
| "device_request (Call_GetRawDescriptor buf) = out Bytes (GetRawDescriptor buf)"
| "device_request (Call_GetFileDescriptor fd) = out Descriptor (GetFileDescriptor fd)"
| "device_request (Call_RequestQueue ep cd bd) = out (\<lambda>_. Nothing) (RequestQueue ep cd bd)"
| "device_request (Call_RequestWait t cd bd) = out Request (RequestWait t cd bd)"
| "device_request (Call_RequestCancel i e) = out (\<lambda>_. Nothing) (RequestCancel i e)"
| "device_request (Call_RegBulkCallback ep cb) = out (\<lambda>_. Nothing) (RegBulkCallback ep cb)"
| "device_request (Call_UnRegBulkCallback ep) = out (\<lambda>_. Nothing) (UnRegBulkCallback ep)"
| "device_request (Call_UsbCancelTransfer e) = out (\<lambda>_. Nothing) (UsbCancelTransfer e)"
| "device_request (Call_BulkCancel ep) = out (\<lambda>_. Nothing) (BulkCancel ep)"
| "device_request (Call_BulkTransferRead ep buf t) = out Bytes (BulkTransferRead ep buf t)"
| "device_request (Call_BulkTransferReadwithLength ep n buf t) = out Bytes (BulkTransferReadwithLength ep n buf t)"
| "device_request (Call_BulkTransferWrite ep buf t) = out (\<lambda>_. Nothing) (BulkTransferWrite ep buf t)"
| "device_request (Call_ControlTransfer p buf) = out Bytes (ControlTransfer p buf)"
| "device_request (Call_UsbControlTransfer p buf) = out Bytes (UsbControlTransfer p buf)"
| "device_request (Call_BulkRead ep fd n) = out (\<lambda>_. Nothing) (BulkRead ep fd n)"
| "device_request (Call_BulkWrite ep fd n) = out (\<lambda>_. Nothing) (BulkWrite ep fd n)"
| "device_request (Call_UsbSubmitTransfer p cb fd n) = out (\<lambda>_. Nothing) (UsbSubmitTransfer p cb fd n)"

lemmas all_guarded = open_device.permission_guarded_axioms close_device.permission_guarded_axioms
  reset_device.permission_guarded_axioms claim_interface.permission_guarded_axioms
  set_interface.permission_guarded_axioms release_interface.permission_guarded_axioms
  set_config.permission_guarded_axioms attach_driver.permission_guarded_axioms
  detach_driver.permission_guarded_axioms clear_halt.permission_guarded_axioms
  get_config.permission_guarded_axioms raw_descriptor.permission_guarded_axioms
  file_descriptor.permission_guarded_axioms request_queue.permission_guarded_axioms
  request_wait.permission_guarded_axioms request_cancel.permission_guarded_axioms
  reg_callback.permission_guarded_axioms unreg_callback.permission_guarded_axioms
  cancel_transfer.permission_guarded_axioms bulk_cancel.permission_guarded_axioms
  bulk_transfer_read.permission_guarded_axioms bulk_transfer_read_length.permission_guarded_axioms
  bulk_transfer_write.permission_guarded_axioms control_transfer.permission_guarded_axioms
  usb_control_transfer.permission_guarded_axioms bulk_read.permission_guarded_axioms
  bulk_write.permission_guarded_axioms submit_transfer.permission_guarded_axioms

lemma request_denied:
  assumes "\<not> fst (CheckDevicePermission E c b d s w)"
  shows "driver_free (device_request call) E c b d s w"
  by (cases call) (use assms in \<open>simp_all add: out_denied all_guarded\<close>)

lemma out_keeps:
  assumes "permission_guarded op"
  shows "same_attached s (fst (snd (snd (out g op E c b d s w))))"
  using permission_guarded.keeps [OF assms] by (simp add: out_def case_prod_beta)

lemma request_keeps: "same_attached s (fst (snd (snd (device_request call E c b d s w))))"
  by (cases call) (simp_all add: out_keeps all_guarded)

subsection \<open>Without a record\<close>

text \<open>
  The caller is an application other than the system's, and no record of the rights table is for
  its user, bundle and the device's identity, neither with its token nor with the default token.
\<close>

definition unauthorized :: "('w, 'c, 'm) service_env \<Rightarrow> 'w rdb_view \<Rightarrow> caller \<Rightarrow> string \<Rightarrow> 'c usb_service \<Rightarrow> 'w \<Rightarrow> bool" where
  "unauthorized E v c name s w \<longleftrightarrow> \<not> IsSystemAppOrSa c \<and>
     (case map_of (deviceVidPidMap s) name of None \<Rightarrow> True
      | Some dev \<Rightarrow> (case GetCallingInfo E c w of None \<Rightarrow> True
        | Some (app, tok, uid) \<Rightarrow> uid \<noteq> USB_RIGHT_USERID_CONSOLE \<and>
            \<not> list_ex (has_key uid dev app tok) (table v w) \<and>
            \<not> list_ex (has_key uid dev app USB_DEFAULT_TOKEN) (table v w)))"

lemma no_record_has_neither:
  assumes "ready (sv_right_env E) (sv_right_db E) v" and "saved v w = None" and "uid \<noteq> 0"
    and "\<not> list_ex (has_key uid dev app tok) (table v w)"
    and "\<not> list_ex (has_key uid dev app USB_DEFAULT_TOKEN) (table v w)"
  shows "\<not> fst (has_either E dev app tok uid w)"
proof -
  let ?w1 = "snd (Right_Manager.HasRight (sv_right_env E) (sv_right_db E) dev app tok uid w)"
  have "\<not> fst (Right_Manager.HasRight (sv_right_env E) (sv_right_db E) dev app USB_DEFAULT_TOKEN uid ?w1)"
    using no_record_no_right [OF assms(1) has_right.closed [OF assms(1,2)] assms(3)
      has_right.grants_nothing [OF assms(1,2,5)]] .
  with no_record_no_right [OF assms(1-4)] show ?thesis by (simp add: has_either_def case_prod_beta)
qed

lemma unauthorized_denied:
  assumes "ready (sv_right_env E) (sv_right_db E) v" and "saved v w = None" and "unauthorized E v c name s w"
  shows "\<not> fst (HasRight E c name s w)"
  using assms(3) no_record_has_neither [OF assms(1,2)]
  by (auto simp: unauthorized_def HasRight_def GetDeviceVidPidSerialNumber_def split: option.splits)

text \<open>
  C1: an application without a recorded right does not reach a device. Whichever of the 28 requests
  it makes, and whatever the state of the service and the failures of the database, the request
  fails, and its answer, the data it returns, the state and the world afterwards are the same for
  every driver: no part of it was asked of the driver.
\<close>

theorem device_calls_need_right:
  assumes "ready (sv_right_env E) (sv_right_db E) v" and "saved v w = None"
    and "unauthorized E v c (device_name busNum devAddr) s w"
  shows "fst (device_request call E c busNum devAddr s w) \<noteq> UEC_OK \<and>
    device_request call (E\<lparr>sv_host := x\<rparr>) c busNum devAddr s w = device_request call E c busNum devAddr s w"
  using request_denied [of E c busNum devAddr s w call] unauthorized_denied [OF assms]
  by (simp add: CheckDevicePermission_def driver_free_def)

subsection \<open>With a right\<close>

lemma guarded_granted:
  assumes "fst (CheckDevicePermission E c b d s w)" and "usbHostManager s = Some hm"
  shows "guarded E c b d faults old (plain f) s w =
    (case f (snd (CheckDevicePermission E c b d s w)) of (ret, w') \<Rightarrow> (ret, (), s, w'))"
  using assms by (cases s) (simp add: guarded_def plain_def case_prod_beta)

lemma AddDeviceRightToken_caller:
  assumes "env_GetHapTokenInfo env t w = Some (uid, app)" and "uid \<noteq> USB_RIGHT_USERID_CONSOLE"
    and "AddDeviceRightToken env h dev (nat_to_string (unat t)) w = (True, w')"
  shows "add_right env h dev app (nat_to_string (unat t)) uid w = (True, w')"
  using assms by (simp add: AddDeviceRightToken_def split: if_splits)

text \<open>
  C5: a granted right opens the device. After a system application has granted the right to the
  token of an application with \<^verbatim>\<open>AddAccessRight\<close>, a call of \<^verbatim>\<open>OpenDevice\<close> by that application for
  the same device is handed to the driver, and its answer is the driver's, as long as the right has
  not expired and the database works.
\<close>

theorem granted_right_reaches_driver:
  assumes "ready (sv_right_env E) (sv_right_db E) v" and "rightDatabase (sv_right_db E) = Some (Some st)"
    and "reliable st" and "saved v w = None"
    and "usbHostManager s = Some hm"
    and "\<And>w. env_GetHapTokenInfo (sv_right_env E) (call_token c) w = Some (uid, app)"
    and "uid \<noteq> USB_RIGHT_USERID_CONSOLE"
    and "AddAccessRight E admin (nat_to_string (unat (call_token c))) (device_name busNum devAddr) s w = (UEC_OK, w')"
    and "request_time (sv_right_env E) w < 2 ^ 63"
    and "\<forall>t \<in> {fst (env_now (sv_right_env E) w'), fst (env_now (sv_right_env E) (snd (env_now (sv_right_env E) w')))}.
      request_time (sv_right_env E) w \<le> t \<and>
      uint t < uint (request_time (sv_right_env E) w) + uint USB_RIGHT_VALID_PERIOD_SET"
  shows "\<exists>w1. OpenDevice E c busNum devAddr s w' =
    (case Host_Driver.OpenDevice (usbHostInterface (sv_host E)) busNum devAddr w1 of (ret, w2) \<Rightarrow> (ret, (), s, w2))"
proof -
  let ?env = "sv_right_env E" let ?tok = "nat_to_string (unat (call_token c))"
  from assms(8) obtain dev where m: "usbRightManager s \<noteq> None"
    "map_of (deviceVidPidMap s) (device_name busNum devAddr) = Some dev"
    "AddDeviceRightToken ?env (sv_right_db E) dev ?tok w = (True, w')"
    by (auto simp: AddAccessRight_def GetDeviceVidPidSerialNumber_def split: if_splits option.splits prod.splits)
  have "fst (Right_Manager.HasRight ?env (sv_right_db E) dev app ?tok uid w')"
    by (rule add_right_honoured [OF assms(1-4,7) AddDeviceRightToken_caller [OF assms(6,7) m(3)] assms(9,10)])
  then have "fst (CheckDevicePermission E c busNum devAddr s w')"
    using m(1,2) assms(6) by (auto simp: CheckDevicePermission_def HasRight_def GetDeviceVidPidSerialNumber_def
        GetCallingInfo_def has_either_def case_prod_beta)
  from guarded_granted [OF this assms(5)] show ?thesis unfolding OpenDevice_def by blast
qed

subsection \<open>Answers that are not what they say\<close>

text \<open>
  \<^verbatim>\<open>RequestRight\<close> and \<^verbatim>\<open>RemoveRight\<close> report success without doing anything when the caller's
  application cannot be determined: they return \<^verbatim>\<open>false\<close> from a function whose success code is zero.
  The request is answered with \<^verbatim>\<open>UEC_OK\<close> and nothing has changed, while the caller has no right.
\<close>

theorem request_reports_success_without_right:
  assumes "usbRightManager s = Some rm" and "map_of (deviceVidPidMap s) name = Some dev" and "\<not> IsSystemAppOrSa c"
    and "env_GetHapTokenInfo (sv_right_env E) (call_token c) w = None"
  shows "RequestRight E c name s w = (UEC_OK, s, w) \<and> RemoveRight E c name s w = (UEC_OK, w) \<and>
    HasRight E c name s w = (False, w)"
  using assms by (simp add: RequestRight_def RemoveRight_def HasRight_def GetDeviceVidPidSerialNumber_def GetCallingInfo_def)

subsection \<open>Policies\<close>

text \<open>
  Only root and the device administration change the policies. For every other caller each of
  the four policy operations is refused, and the service, the attached devices and the world stay as
  they are. The switch of the serial adapters does not ask who calls.
\<close>

theorem policies_need_administrator:
  assumes "\<not> (call_native c \<and> call_uid c \<in> {ROOT_UID, EDM_UID})"
  shows "ManageGlobalInterface disable E c s w = (UEC_SERVICE_INVALID_OPERATION, (), s, w) \<and>
    ManageDevice vid pid disable E c s w = (UEC_SERVICE_INVALID_OPERATION, (), s, w) \<and>
    ManageDevicePolicy trustList E c s w = (UEC_SERVICE_INVALID_OPERATION, (), s, w) \<and>
    ManageInterfaceType types disable E c s w = (UEC_SERVICE_INVALID_OPERATION, (), s, w)"
  using assms by (simp add: ManageGlobalInterface_def ManageDevice_def ManageDevicePolicy_def ManageInterfaceType_def
      policy_def IsCallerValid_def)

subsection \<open>A service in memory\<close>

definition sample_host :: "(memory, USBTransferInfo, unit, unit) host_context" where
  "sample_host = \<lparr>usbHostInterface = Some (quiet_host []), usbDeviceInterface = None, host_library = sample_lib,
     host_environment = \<lparr>he_GetParameter = (\<lambda>p d w. d), he_SystemAbilityManager = (\<lambda>w. True),
       he_CheckSystemAbility = (\<lambda>w. True), he_LoadSystemAbility = (\<lambda>w. w), he_SendRequest = (\<lambda>c w. (0, [], w)),
       he_ReadBool = (\<lambda>v. v \<noteq> 0), he_iterate = (\<lambda>m. m), he_now = (\<lambda>w. 0), he_json = (\<lambda>d. [])\<rparr>\<rparr>"

definition sample_service_env :: "(memory, unit, unit) service_env" where
  "sample_service_env = \<lparr>
     sv_right_env = (memory_env 100 (Some 100))\<lparr>env_GetHapTokenInfo := (\<lambda>t w. if t = 0 then None else Some (100, ''app''))\<rparr>,
     sv_right_db = memory_helper 1 True, sv_DbHelper = (\<lambda>w. True), sv_host = sample_host, sv_serial = None,
     sv_device = None, sv_accessory = None,
     sv_acc_lib = \<lparr>lib_string_hash = (\<lambda>s. 0), lib_int_hash = (\<lambda>n. n), lib_millis = (\<lambda>w. 0),
       lib_print_numbers = (\<lambda>b. None), lib_publish = (\<lambda>w. True)\<rparr>,
     sv_port = None, sv_HostInterface = (\<lambda>w. True), sv_close = (\<lambda>fd w. w), sv_Ashmem = (\<lambda>fd n w. Some ()),
     sv_watch = (\<lambda>p t w. (True, w)), sv_tty = (\<lambda>w. None),
     sv_settings = \<lparr>se_SystemAbilityManager = (\<lambda>w. False), se_GetSystemAbility = (\<lambda>w. False), se_Create = (\<lambda>w. (False, w)),
       se_Query = (\<lambda>k w. (None, w)), se_Insert = (\<lambda>k v w. (- 1, w)), se_Update = (\<lambda>k v w. (- 1, w)),
       se_NotifyChange = (\<lambda>w. w), se_Release = (\<lambda>w. w)\<rparr>,
     sv_Setup = (\<lambda>w. True), sv_HDF_DEV_ERR_OP = - 9, sv_HDF_ERR_NOT_SUPPORT = - 2, sv_HDF_FAILURE = - 1\<rparr>"

definition sample_service :: "unit usb_service" where
  "sample_service = \<lparr>usbRightManager = Some \<lparr>usbAbilityConn = False, usbDialogParams = []\<rparr>,
     usbHostManager = Some new_host_manager, usbSerialManager = None, usbDeviceManager = None,
     usbAccessoryManager = None, usbPortManager = None, deviceVidPidMap = [(''1-2'', ''4660-22136-abc'')],
     serialVidPidMap = [], unloadSelfTimer = False, critical = None, sys_events = []\<rparr>"

lemma sample_service_ready:
  "ready (sv_right_env sample_service_env) (sv_right_db sample_service_env) memory_view"
  "rightDatabase (sv_right_db sample_service_env) = Some (Some (memory_store 1 True))"
  by (simp_all add: sample_service_env_def ready_def clock_law_def memory_env_def unchanged_def)

lemma sample_name: "device_name 1 2 = ''1-2''"
  by code_simp

lemma sample_grant:
  "fst (AddAccessRight sample_service_env (sample_caller True) ''7'' ''1-2'' sample_service sample_world) = UEC_OK"
proof -
  have "fst (add_right (sv_right_env sample_service_env) (memory_helper 1 True) ''4660-22136-abc'' ''app'' ''7'' 100 sample_world)"
    by code_simp
  then show ?thesis
    by (auto simp: AddAccessRight_def CheckSysApiPermission_def sample_caller_def IsSystemAppOrSa_def VerifyPermission_def
        GetDeviceVidPidSerialNumber_def sample_service_def AddDeviceRightToken_def IsAllDigits_def IsWithinUint64Range_def
        strtoull_def is_space_def is_digit_def dec_value_def sample_service_env_def case_prod_beta)
qed

lemma device_calls_need_right_witness:
  "fst (device_request (Call_GetFileDescriptor 3) sample_service_env (sample_caller False) 1 2 sample_service sample_world)
     \<noteq> UEC_OK"
  using device_calls_need_right [OF sample_service_ready(1), of sample_world "sample_caller False" 1 2 sample_service
      "Call_GetFileDescriptor 3"]
  by (simp add: unauthorized_def sample_name sample_service_def GetCallingInfo_def sample_service_env_def
      sample_caller_def IsSystemAppOrSa_def has_key_def sample_row_def USB_DEFAULT_TOKEN_def)

lemma request_reports_success_without_right_witness:
  "fst (RequestRight sample_service_env ((sample_caller False)\<lparr>call_token := 0\<rparr>) ''1-2'' sample_service sample_world) = UEC_OK"
  using request_reports_success_without_right [of sample_service _ "''1-2''" _ "(sample_caller False)\<lparr>call_token := 0\<rparr>"
      sample_service_env sample_world]
  by (simp add: sample_service_def sample_service_env_def sample_caller_def IsSystemAppOrSa_def)

lemma policies_need_administrator_witness:
  "fst (ManageGlobalInterface True sample_service_env (sample_caller True) sample_service sample_world) =
     UEC_SERVICE_INVALID_OPERATION"
  using policies_need_administrator [of "sample_caller True" True sample_service_env sample_service sample_world]
  by (simp add: sample_caller_def)

lemma granted_right_reaches_driver_witness:
  "let w' = snd (AddAccessRight sample_service_env (sample_caller True) ''7'' ''1-2'' sample_service sample_world)
   in fst (OpenDevice sample_service_env (sample_caller False) 1 2 sample_service w') = UEC_OK"
proof -
  let ?r = "AddAccessRight sample_service_env (sample_caller True) ''7'' ''1-2'' sample_service sample_world"
  have r: "?r = (UEC_OK, snd ?r)" using sample_grant by (metis prod.collapse)
  have tok: "nat_to_string (unat (call_token (sample_caller False))) = ''7''"
    by code_simp
  have "env_GetHapTokenInfo (sv_right_env sample_service_env) (call_token (sample_caller False)) w = Some (100, ''app'')" for w
    by (simp add: sample_service_env_def sample_caller_def)
  note g = granted_right_reaches_driver [OF sample_service_ready memory_reliable, of sample_world sample_service
    new_host_manager "sample_caller False" 100 "''app''" "sample_caller True" 1 2 "snd ?r", unfolded tok sample_name, OF _ _ this _ r]
  have "\<exists>w1. OpenDevice sample_service_env (sample_caller False) 1 2 sample_service (snd ?r) =
    (case Host_Driver.OpenDevice (usbHostInterface (sv_host sample_service_env)) 1 2 w1 of (ret, w2) \<Rightarrow>
       (ret, (), sample_service, w2))"
    by (rule g) (simp_all add: sample_service_def sample_service_env_def memory_env_def request_time_def valid_periods)
  then show ?thesis
    by (auto simp: sample_service_env_def sample_host_def Host_Driver.OpenDevice_def with_hdi_def quiet_host_def)
qed

end
