(* ===== verification/Service_Invariant.thy ===== *)
theory Service_Invariant
  imports Service_Permission
begin

section \<open>The service: rights follow the device\<close>

text \<open>
  A client names a device by its place on the bus, a right is granted for the identity (vendor,
  product, serial number). This theory relates the service's map between the two to the devices the
  host manager has, over every sequence of arrivals, removals, requests and policies. Both follow the
  history of the bus: the map has the oldest device that came under a name since the name was free, the
  manager has the newest.
\<close>

subsection \<open>What identifies an attached device\<close>

lemma ident_identity:
  assumes "ident d' = ident d" shows "identity_of d' = identity_of d"
  using ident_fields [OF assms] arg_cong [OF assms, of dev_serial] by (simp add: identity_of_def ident_def)

lemma GetDeviceInfo_address:
  assumes "Host_Description.GetDeviceInfo hdi lib b d dev w = Some (UEC_OK, dev', w')"
  shows "dev_busNum dev' = b \<and> dev_devAddr dev' = d"
proof -
  have p: "ParseDeviceDescriptor buf n x = Some (r, y) \<Longrightarrow> dev_busNum y = dev_busNum x \<and> dev_devAddr y = dev_devAddr x" for buf n x r y
    by (auto simp: ParseDeviceDescriptor_def split: option.splits if_splits)
  have i: "Host_Description.GetDeviceInfoDescriptor hdi (b, d) dev w1 = Some (UEC_OK, ds, dev1, w2) \<Longrightarrow>
      dev_busNum dev1 = b \<and> dev_devAddr dev1 = d" for w1 ds dev1 w2
    by (auto simp: Host_Description.GetDeviceInfoDescriptor_def Let_def split: prod.splits if_splits option.splits dest!: p)
  have c: "Host_Description.GetConfigDescriptor hdi lib x ds w1 = Some (UEC_OK, y, w2) \<Longrightarrow>
      dev_busNum y = dev_busNum x \<and> dev_devAddr y = dev_devAddr x" for x ds w1 y w2
    by (auto simp: Host_Description.GetConfigDescriptor_def FillDevStrings_def Let_def case_prod_beta
        split: option.splits if_splits prod.splits)
  show ?thesis
    using assms by (auto simp: Host_Description.GetDeviceInfo_def split: prod.splits if_splits option.splits dest!: i c)
qed

subsection \<open>The invariant\<close>

definition oldest :: "string \<Rightarrow> bus_event list \<Rightarrow> string option" where
  "oldest name h = (case occupants name h of [] \<Rightarrow> None | ds \<Rightarrow> Some (identity_of (last ds)))"

lemma oldest_simps [simp]:
  "oldest name [] = None"
  "oldest name (Arrived n dev # h) =
    (if n = name then (case oldest name h of None \<Rightarrow> Some (identity_of dev) | Some i \<Rightarrow> Some i) else oldest name h)"
  "oldest name (Left n # h) = (if n = name then None else oldest name h)"
  by (simp_all add: oldest_def split: list.split)

definition identified :: "bus_event list \<Rightarrow> 'c usb_service \<Rightarrow> bool" where
  "identified h s \<longleftrightarrow> (\<exists>hm. usbHostManager s = Some hm \<and> follows h hm \<and> omap_ok (deviceVidPidMap s) \<and>
     (\<forall>name. map_of (deviceVidPidMap s) name = oldest name h))"

lemma follows_identity:
  assumes "follows h hm"
  shows "map_option identity_of (map_of (devices hm) name) = map_option identity_of (newest name h)"
proof -
  have i: "identity_of (ident d) = identity_of d" for d by (rule ident_identity) (simp add: ident_def)
  have "map_option ident (map_of (devices hm) name) = newest name h"
    using assms by (simp only: follows_def flip: idents_map_of)
  from arg_cong [OF this, of "map_option identity_of"] show ?thesis by (simp add: option.map_comp comp_def i)
qed

lemma strip_fields:
  assumes "strip hm' = strip hm"
  shows "devices hm' = devices hm" "host_trace hm' = host_trace hm"
  using arg_cong [OF assms, of devices] arg_cong [OF assms, of host_trace] by (simp_all add: strip_def)

lemma same_attached_identified:
  assumes "same_attached s s'" and "identified h s"
  shows "identified h s'"
proof -
  obtain hm where hm: "usbHostManager s = Some hm" "follows h hm" "omap_ok (deviceVidPidMap s)"
    "\<forall>name. map_of (deviceVidPidMap s) name = oldest name h" using assms(2) by (auto simp: identified_def)
  with assms(1) obtain hm' where hm': "usbHostManager s' = Some hm'" "strip hm' = strip hm" "deviceVidPidMap s' = deviceVidPidMap s"
    by (auto simp: same_attached_def)
  note f = strip_fields [OF hm'(2)]
  have "follows h hm'" using hm(2) same_devices [OF f(1)] f(2) by (simp add: follows_def announced_def)
  then show ?thesis using hm hm' by (simp add: identified_def)
qed

lemma evolves_identified:
  assumes "identified h s" and "usbHostManager s = Some hm" and "evolves hm hm'"
  shows "identified h (s\<lparr>usbHostManager := Some hm'\<rparr>)"
  using assms follows_evolves [of h hm hm'] by (auto simp: identified_def)

lemma policy_identified:
  assumes "identified h s" and "\<And>hm w. evolves hm (fst (snd (f hm w)))"
  shows "identified h (fst (snd (snd (policy f E c s w))))"
proof -
  obtain hm where hm: "usbHostManager s = Some hm" using assms(1) by (auto simp: identified_def)
  from evolves_identified [OF assms(1) hm assms(2)] assms(1) hm show ?thesis
    by (simp add: policy_def precall_def case_prod_beta)
qed

lemma AddDevice_identified:
  assumes "identified h s" and g: "GetDeviceInfo E b d new_device s w = Some (UEC_OK, dev, w1)"
    and "AddDevice E b d s w = Some (ok, s', w')"
  shows "identified (Arrived (device_name b d) dev # h) s'"
proof -
  obtain hm where hm: "usbHostManager s = Some hm" "follows h hm" "omap_ok (deviceVidPidMap s)"
    "\<forall>name. map_of (deviceVidPidMap s) name = oldest name h" using assms(1) by (auto simp: identified_def)
  have n: "name_of dev = device_name b d"
    using g GetDeviceInfo_address [of "usbHostInterface (sv_host E)" "host_library (sv_host E)" b d new_device w dev w1]
    by (simp add: GetDeviceInfo_def hm(1))
  obtain ok' sm' hm' w2 where a: "Host_Policy.AddDevice (sv_host E) (sv_serial E) (Some dev) (usbSerialManager s) hm w1 =
      (ok', sm', hm', w2)"
    by (cases "Host_Policy.AddDevice (sv_host E) (sv_serial E) (Some dev) (usbSerialManager s) hm w1")
  have "follows (Arrived (device_name b d) dev # h) hm'"
    using AddDevice_follows [OF hm(2), of dev "sv_host E" "sv_serial E" "usbSerialManager s" w1] a n by simp
  moreover have "s' = s\<lparr>deviceVidPidMap := omap_insert (device_name b d) (identity_of dev) (deviceVidPidMap s),
      usbSerialManager := sm', usbHostManager := Some hm'\<rparr>"
    using assms(3) by (simp add: AddDevice_def hm(1) g a Let_def)
  ultimately show ?thesis
    using hm(3,4) by (auto simp: identified_def omap_ok_insert omap_find_insert split: option.split)
qed

lemma AddDevice_fails:
  assumes "AddDevice E b d s w = Some (False, s', w')"
  shows "s' = s"
  using assms by (auto simp: AddDevice_def Let_def split: option.splits if_splits prod.splits)

lemma Close_rights: "usbRightManager (fst (snd (snd (Close E c b d s w)))) = usbRightManager s"
  by (simp add: Close_def guarded_def case_prod_beta report_def split: option.split)

lemma DelDevice_identified:
  assumes "identified h s"
  shows "identified ((if usbRightManager s = None then [] else [Left (device_name b d)]) @ h) (fst (snd (DelDevice E c b d s w)))"
proof -
  obtain ret u s1 w1 where c: "Close E c b d s w = (ret, u, s1, w1)" by (cases "Close E c b d s w")
  have "identified h s1" using same_attached_identified [OF close_device.keeps assms, of E c b d w] c by simp
  then obtain hm where hm: "usbHostManager s1 = Some hm" "follows h hm" "omap_ok (deviceVidPidMap s1)"
    "\<forall>name. map_of (deviceVidPidMap s1) name = oldest name h" by (auto simp: identified_def)
  have "usbRightManager s1 = usbRightManager s" using Close_rights [of E c b d s w] c by simp
  with hm DelDevice_follows [OF hm(2), of b d] show ?thesis
    by (auto simp: DelDevice_def c Let_def case_prod_beta identified_def omap_ok_erase omap_find_erase split: option.split)
qed

subsection \<open>Reachable states\<close>

text \<open>
  What happens to the service: devices arrive, under whatever name, and their description can be read or
  not, devices leave, applications make any of their requests, administrators apply policies, and everything
  else (rights, the other managers, the world) changes in any way. A step is labelled with what it adds to
  the history of the bus; without the manager of the rights a removal is ignored.
\<close>

inductive service_step :: "('w, 'c, 'm) service_env \<Rightarrow> 'c usb_service \<times> 'w \<Rightarrow> bus_event list \<Rightarrow> 'c usb_service \<times> 'w \<Rightarrow> bool"
  for E where
  arrives: "GetDeviceInfo E b d new_device s w = Some (UEC_OK, dev, w1) \<Longrightarrow> AddDevice E b d s w = Some (True, s', w') \<Longrightarrow>
    service_step E (s, w) [Arrived (device_name b d) dev] (s', w')"
| unreadable: "AddDevice E b d s w = Some (False, s', w') \<Longrightarrow> service_step E (s, w) [] (s', w')"
| leaves: "DelDevice E c b d s w = (ok, s', w') \<Longrightarrow>
    service_step E (s, w) (if usbRightManager s = None then [] else [Left (device_name b d)]) (s', w')"
| request: "device_request call E c b d s w = (ret, r, s', w') \<Longrightarrow> service_step E (s, w) [] (s', w')"
| global: "ManageGlobalInterface disable E c s w = (ret, u, s', w') \<Longrightarrow> service_step E (s, w) [] (s', w')"
| device: "ManageDevice vid pid disable E c s w = (ret, u, s', w') \<Longrightarrow> service_step E (s, w) [] (s', w')"
| trust: "ManageDevicePolicy trustList E c s w = (ret, u, s', w') \<Longrightarrow> service_step E (s, w) [] (s', w')"
| types: "ManageInterfaceType ts disable E c s w = (ret, u, s', w') \<Longrightarrow> service_step E (s, w) [] (s', w')"
| serial: "ManageUsbSerialDevice E disable s w = (ret, s', w') \<Longrightarrow> service_step E (s, w) [] (s', w')"
| other: "usbHostManager s' = usbHostManager s \<Longrightarrow> deviceVidPidMap s' = deviceVidPidMap s \<Longrightarrow>
    service_step E (s, w) [] (s', w')"

inductive service_reachable :: "('w, 'c, 'm) service_env \<Rightarrow> bus_event list \<Rightarrow> 'c usb_service \<times> 'w \<Rightarrow> bool" for E where
  start: "usbHostManager s = Some new_host_manager \<Longrightarrow> deviceVidPidMap s = [] \<Longrightarrow> service_reachable E [] (s, w)"
| step: "service_reachable E h x \<Longrightarrow> service_step E x es y \<Longrightarrow> service_reachable E (es @ h) y"

text \<open>Every arrival and every removal is a step.\<close>

lemma arrival_is_step:
  assumes "AddDevice E b d s w = Some (ok, s', w')"
  shows "\<exists>es. service_step E (s, w) es (s', w')"
proof (cases ok)
  case True
  then obtain dev w1 where g: "GetDeviceInfo E b d new_device s w = Some (UEC_OK, dev, w1)"
    using assms by (auto simp: AddDevice_def split: option.splits if_splits)
  from service_step.arrives [OF g, of s' w'] True assms show ?thesis by auto
next
  case False
  with assms service_step.unreadable [of E b d s w s' w'] show ?thesis by auto
qed

lemma service_step_identified: "service_step E x es y \<Longrightarrow> identified h (fst x) \<Longrightarrow> identified (es @ h) (fst y)"
proof (induction rule: service_step.induct)
  case (arrives b d s w dev w1 s' w')
  then show ?case using AddDevice_identified [of h s E b d w dev w1] by simp
next
  case (unreadable b d s w s' w')
  then show ?case using AddDevice_fails [OF unreadable(1)] by simp
next
  case (leaves c b d s w ok s' w')
  then show ?case using DelDevice_identified [of h s b d E c w] by simp
next
  case (request call c b d s w ret r s' w')
  then show ?case using same_attached_identified [OF request_keeps, of h s call E c b d w] by simp
next
  case (global disable c s w ret u s' w')
  then show ?case
    using policy_identified [of h s "Host_Policy.ManageGlobalInterface (sv_host E) disable" E c w, OF _ policies_evolve(1)]
    by (simp add: ManageGlobalInterface_def)
next
  case (device vid pid disable c s w ret u s' w')
  then show ?case
    using policy_identified [of h s "Host_Policy.ManageDevice (sv_host E) vid pid disable" E c w, OF _ policies_evolve(2)]
    by (simp add: ManageDevice_def)
next
  case (trust trustList c s w ret u s' w')
  then show ?case
    using policy_identified [of h s "Host_Policy.ManageDevicePolicy (sv_host E) (UsbDeviceIdChange trustList)" E c w,
        OF _ policies_evolve(3)]
    by (simp add: ManageDevicePolicy_def)
next
  case (types ts disable c s w ret u s' w')
  then show ?case
    using policy_identified [of h s "Host_Policy.ManageInterfaceType (sv_host E) (UsbDeviceTypeChange ts) disable" E c w,
        OF _ policies_evolve(4)]
    by (simp add: ManageInterfaceType_def)
next
  case (serial disable s w ret s' w')
  obtain hm where hm: "usbHostManager s = Some hm" using serial.prems by (auto simp: identified_def)
  from evolves_identified [OF _ hm policies_evolve(5), of h "sv_host E" disable w] serial hm
  show ?case by (auto simp: ManageUsbSerialDevice_def split: if_splits prod.splits)
next
  case (other s' s w w')
  then show ?case by (simp add: identified_def)
qed

lemma service_reachable_identified: "service_reachable E h x \<Longrightarrow> identified h (fst x)"
proof (induction rule: service_reachable.induct)
  case (start s w)
  then show ?case by (simp add: identified_def)
qed (rule service_step_identified)

subsection \<open>Properties\<close>

text \<open>
  C2: which device the right that is checked is for. In every reachable state, with any history of arrivals,
  removals, requests and policies, the service has for a name on the bus the vendor, product and serial number of the
  first device that came under this name since it was last free, while the host manager has the device that came last.
  The two are the same device unless one took the place of another before its removal, and a name without a
  device has no identity.
\<close>

theorem rights_follow_device:
  assumes "service_reachable E h (s, w)"
  shows "\<exists>hm. usbHostManager s = Some hm \<and>
    map_of (deviceVidPidMap s) name = (case occupants name h of [] \<Rightarrow> None | ds \<Rightarrow> Some (identity_of (last ds))) \<and>
    map_option identity_of (map_of (devices hm) name) = (case occupants name h of [] \<Rightarrow> None | d # _ \<Rightarrow> Some (identity_of d)) \<and>
    (length (occupants name h) \<le> 1 \<longrightarrow>
      map_of (deviceVidPidMap s) name = map_option identity_of (map_of (devices hm) name))"
proof -
  obtain hm where hm: "usbHostManager s = Some hm" "follows h hm" "map_of (deviceVidPidMap s) name = oldest name h"
    using service_reachable_identified [OF assms] by (auto simp: identified_def)
  have "identity_of (ident d) = identity_of d" for d by (rule ident_identity) (simp add: ident_def)
  then have "map_option identity_of (map_of (devices hm) name) = (case occupants name h of [] \<Rightarrow> None | d # _ \<Rightarrow> Some (identity_of d))"
    using follows_identity [OF hm(2), of name] by (simp add: newest_def split: list.split)
  with hm(1,3) show ?thesis by (auto simp: oldest_def split: list.split)
qed

text \<open>
  C38: a device that takes the place of another one before the service has seen the removal
  inherits its rights. The insertion into the map of identities keeps the old entry, so every later
  check of a right for this place is the check for the device that was there before, whichever
  device has arrived.
\<close>

theorem replaced_device_inherits_rights:
  assumes "omap_ok (deviceVidPidMap s)" and "map_of (deviceVidPidMap s) (device_name busNum devAddr) = Some old"
    and "AddDevice E busNum devAddr s w = Some (True, s', w')"
  shows "CheckDevicePermission E c busNum devAddr s' w1 = CheckDevicePermission E c busNum devAddr s w1"
proof -
  have "map_of (deviceVidPidMap s') = map_of (deviceVidPidMap s) \<and> usbRightManager s' = usbRightManager s"
    using assms by (auto simp: AddDevice_def Let_def omap_find_insert split: option.splits if_splits prod.splits)
  then show ?thesis by (simp add: CheckDevicePermission_def HasRight_def GetDeviceVidPidSerialNumber_def)
qed

definition arrival_env :: "(memory, unit, unit) service_env" where
  "arrival_env = sample_service_env\<lparr>sv_host := sample_host\<lparr>usbHostInterface := Some (quiet_host sample_device_bytes)\<rparr>\<rparr>"

definition empty_service :: "unit usb_service" where
  "empty_service = sample_service\<lparr>deviceVidPidMap := []\<rparr>"

lemma sample_described:
  "\<exists>dev w'. Host_Description.GetDeviceInfo (usbHostInterface (sv_host arrival_env)) (host_library (sv_host arrival_env)) 1 2
     new_device w = Some (UEC_OK, dev, w') \<and> dev_vendorId dev = 0x1234"
proof -
  obtain dd where d: "decode_device sample_device_bytes = Some dd" "dd_bLength dd = 18" "dd_idVendor dd = 0x1234"
    by (simp add: sample_device_bytes_def le16_def)
  from GetDeviceInfo_reads [of "quiet_host sample_device_bytes" 1 2 sample_device_bytes 0 "[]" dd
      "host_library (sv_host arrival_env)" new_device w, OF _ _ d(1,2)] d(3) show ?thesis
    by (auto simp: arrival_env_def quiet_host_serves encode_descriptors_def sample_device_bytes_def)
qed

lemma sample_arrives:
  assumes "usbHostManager s = Some hm"
  shows "\<exists>s' w'. AddDevice arrival_env 1 2 s w = Some (True, s', w')"
  using sample_described [of w] assms by (auto simp: AddDevice_def GetDeviceInfo_def Let_def case_prod_beta)

text \<open>A device arrives at a service without devices.\<close>

lemma rights_follow_device_witness:
  "\<exists>s w hm. AddDevice arrival_env 1 2 empty_service sample_world = Some (True, s, w) \<and> usbHostManager s = Some hm \<and>
     map_of (deviceVidPidMap s) ''1-2'' \<noteq> None \<and> map_of (deviceVidPidMap s) ''1-2'' = map_option identity_of (map_of (devices hm) ''1-2'')"
proof -
  obtain s w where a: "AddDevice arrival_env 1 2 empty_service sample_world = Some (True, s, w)"
    using sample_arrives by (fastforce simp: empty_service_def sample_service_def)
  obtain dev w1 where g: "GetDeviceInfo arrival_env 1 2 new_device empty_service sample_world = Some (UEC_OK, dev, w1)"
    using sample_described [of sample_world] by (auto simp: GetDeviceInfo_def empty_service_def sample_service_def)
  have "service_reachable arrival_env [] (empty_service, sample_world)"
    by (rule service_reachable.start) (simp_all add: empty_service_def sample_service_def)
  from rights_follow_device [OF service_reachable.step [OF this service_step.arrives [OF g a]], of "''1-2''"] a show ?thesis
    by (auto simp: sample_name)
qed

lemma replaced_device_inherits_rights_witness:
  "\<exists>s w. AddDevice arrival_env 1 2 sample_service sample_world = Some (True, s, w) \<and>
     CheckDevicePermission arrival_env (sample_caller False) 1 2 s w =
     CheckDevicePermission arrival_env (sample_caller False) 1 2 sample_service w"
proof -
  obtain s w where a: "AddDevice arrival_env 1 2 sample_service sample_world = Some (True, s, w)"
    using sample_arrives by (fastforce simp: sample_service_def)
  from replaced_device_inherits_rights [OF _ _ a, of "''4660-22136-abc''"] a show ?thesis
    by (auto simp: sample_service_def sample_name omap_ok_def)
qed

end
