(* ===== verification/Connection_Notifier.thy ===== *)
theory Connection_Notifier
  imports Usb_Data Device_Manager "HOL-Library.Sublist"
begin

section \<open>The connection notifier\<close>

text \<open>
  \<^verbatim>\<open>services/native/src/usb_connection_notifier.cpp\<close>: the two notifications the user sees, one for the
  function of the connection and one for debugging. The notification service, the resources of the
  dialog application, the system parameters and the bundle manager are the record \<open>notifier_env\<close>. The
  calls of the gadget manager, effects in \<open>Device_Manager\<close>, are performed here.
\<close>

subsection \<open>Environment and state\<close>

text \<open>A want: the bundle, the ability, the URI and the parameters.\<close>

record want =
  wa_bundle :: string
  wa_ability :: string
  wa_uri :: string
  wa_params :: "(string \<times> int) list"

text \<open>
  The notification request. The fields that the notifier never sets are not listed; \<open>nr_slot\<close> tells
  whether the slot type is \<^verbatim>\<open>SERVICE_REMINDER\<close>. The icon is a pointer that may be null.
\<close>

record 'p notification =
  nr_id :: int
  nr_title :: string
  nr_text :: string
  nr_uid :: int
  nr_unremovable :: bool
  nr_removeAllowed :: bool
  nr_tapDismissed :: bool
  nr_group :: string
  nr_littleIcon :: "'p option option"
  nr_want :: "want option"
  nr_slot :: bool
  nr_flags :: u32

record ('w, 'p) notifier_env =
  cn_ResourceManager :: "'w \<Rightarrow> bool"
  cn_ResConfig :: "'w \<Rightarrow> bool"
  cn_AddResource :: "string \<Rightarrow> 'w \<Rightarrow> bool"
  cn_GetStringByName :: "string \<Rightarrow> 'w \<Rightarrow> string"
  cn_ImageSource :: "'w \<Rightarrow> bool"
  cn_PixelMap :: "'w \<Rightarrow> 'p option"
  cn_GetStringParameter :: "string \<Rightarrow> string \<Rightarrow> 'w \<Rightarrow> string"
  cn_LocalId :: "'w \<Rightarrow> int"
  cn_SystemAbilityManager :: "'w \<Rightarrow> bool"
  cn_GetSystemAbility :: "int \<Rightarrow> 'w \<Rightarrow> bool"
  cn_GetUidByBundleName :: "string \<Rightarrow> int \<Rightarrow> 'w \<Rightarrow> int"
  cn_Publish :: "'p notification \<Rightarrow> 'w \<Rightarrow> int \<times> 'w"
  cn_Cancel :: "int \<Rightarrow> 'w \<Rightarrow> int \<times> 'w"

record 'p usb_notifier =
  nt_map :: "(string \<times> string) list"
  nt_supportedFunctions :: i32
  nt_request :: "'p notification"
  nt_requestHdc :: "'p notification"
  nt_icon :: "'p option option"
  nt_lastFunc :: string
  nt_uid :: int

definition USB_FUNC_MORE :: string where "USB_FUNC_MORE = ''USB_func_more_notifier''"
definition USB_HDC_NOTIFIER_TITLE :: string where "USB_HDC_NOTIFIER_TITLE = ''USB_hdc_notifier_title''"
definition USB_HDC_NOTIFIER_CONTENT :: string where "USB_HDC_NOTIFIER_CONTENT = ''USB_hdc_notifier_content''"

text \<open>The keys of the notifications the managers ask for.\<close>

fun notifier_key :: "Usb_Prelude.notifier \<Rightarrow> string" where
  "notifier_key USB_FUNC_CHARGE = ''USB_func_charge_notifier''"
| "notifier_key USB_FUNC_MTP = ''USB_func_mtp_notifier''"
| "notifier_key USB_FUNC_PTP = ''USB_func_ptp_notifier''"
| "notifier_key USB_FUNC_REVERSE_CHARGE = ''USB_func_charge_connected_notifier''"

definition notifierMap :: "(string \<times> string) list" where
  "notifierMap = map (\<lambda>k. (k, []))
     [notifier_key USB_FUNC_CHARGE, notifier_key USB_FUNC_MTP, notifier_key USB_FUNC_PTP, USB_FUNC_MORE,
      USB_HDC_NOTIFIER_TITLE, USB_HDC_NOTIFIER_CONTENT, notifier_key USB_FUNC_REVERSE_CHARGE]"

definition HAP_PATH :: string where "HAP_PATH = ''system/app/com.usb.right/usb_right_dialog.hap''"
definition SET_BUNDLE_NAME :: string where "SET_BUNDLE_NAME = ''com.usb.right''"
definition BUNDLE_NAME_KEY :: string where "BUNDLE_NAME_KEY = ''EntryAbility''"
definition SETTING_BUNDLE_NAME :: string where "SETTING_BUNDLE_NAME = ''com.ohos.settings''"
definition SETTING_BUNDLE_NAME_ABILITY :: string where "SETTING_BUNDLE_NAME_ABILITY = ''com.ohos.settings.MainAbility''"
definition SETTING_BUNDLE_NAME_URL :: string where "SETTING_BUNDLE_NAME_URL = ''developer_options_settings''"
definition NOTIFICATION_NAME :: string where "NOTIFICATION_NAME = ''usb_service''"
definition NOTIFICATION_NAME_ONE :: string where "NOTIFICATION_NAME_ONE = ''usb_service1''"
definition BUNDLE_MGR_SERVICE_SA_ID :: int where "BUNDLE_MGR_SERVICE_SA_ID = 401"
definition NOTIFIER_USER_ID :: int where "NOTIFIER_USER_ID = 100"
definition NOTIFICATION_ID_ZERO :: int where "NOTIFICATION_ID_ZERO = 0"
definition NOTIFICATION_ID_ONE :: int where "NOTIFICATION_ID_ONE = 1"

lemmas notification_ids [simp] = NOTIFICATION_ID_ZERO_def NOTIFICATION_ID_ONE_def

subsection \<open>Resources\<close>

definition GetHapIcon :: "('w, 'p) notifier_env \<Rightarrow> 'w \<Rightarrow> 'p option option" where
  "GetHapIcon ne w =
     (if \<not> cn_ResourceManager ne w then None
      else if \<not> cn_AddResource ne HAP_PATH w then None
      else if cn_ImageSource ne w then Some (cn_PixelMap ne w) else None)"

text \<open>The constructor. A request that was not filled has the identifier \<open>i\<close> the service gives to it.\<close>

definition new_notifier :: "('w, 'p) notifier_env \<Rightarrow> int \<Rightarrow> 'w \<Rightarrow> 'p usb_notifier" where
  "new_notifier ne i w =
     (let r = \<lparr>nr_id = i, nr_title = [], nr_text = [], nr_uid = 0, nr_unremovable = False, nr_removeAllowed = True,
           nr_tapDismissed = True, nr_group = [], nr_littleIcon = None, nr_want = None, nr_slot = False, nr_flags = 0\<rparr>
      in \<lparr>nt_map = notifierMap, nt_supportedFunctions = 0, nt_request = r, nt_requestHdc = r,
          nt_icon = GetHapIcon ne w, nt_lastFunc = [], nt_uid = 1018\<rparr>)"

definition GetHapString :: "('w, 'p) notifier_env \<Rightarrow> 'w \<Rightarrow> 'p usb_notifier \<Rightarrow> 'p usb_notifier" where
  "GetHapString ne w nt =
     (if \<not> cn_ResourceManager ne w then nt
      else if \<not> cn_ResConfig ne w then nt
      else if \<not> cn_AddResource ne HAP_PATH w then nt
      else nt\<lparr>nt_map := map (\<lambda>(k, v). (k, cn_GetStringByName ne k w)) (nt_map nt)\<rparr>)"

definition GetBundleMgr :: "('w, 'p) notifier_env \<Rightarrow> 'w \<Rightarrow> bool" where
  "GetBundleMgr ne w \<longleftrightarrow> cn_SystemAbilityManager ne w \<and> cn_GetSystemAbility ne BUNDLE_MGR_SERVICE_SA_ID w"

definition GetSetUid :: "('w, 'p) notifier_env \<Rightarrow> 'w \<Rightarrow> 'p usb_notifier \<Rightarrow> 'p usb_notifier" where
  "GetSetUid ne w nt =
     (if cn_LocalId ne w \<noteq> 0 then nt
      else if \<not> GetBundleMgr ne w then nt
      else nt\<lparr>nt_uid := cn_GetUidByBundleName ne SET_BUNDLE_NAME NOTIFIER_USER_ID w\<rparr>)"

text \<open>The access \<^verbatim>\<open>notifierMap[key]\<close>, which enters an empty string for a key that is not there.\<close>

definition subscript :: "string \<Rightarrow> 'p usb_notifier \<Rightarrow> string \<times> 'p usb_notifier" where
  "subscript k nt = (case map_of (nt_map nt) k of Some v \<Rightarrow> (v, nt) | None \<Rightarrow> ([], nt\<lparr>nt_map := nt_map nt @ [(k, [])]\<rparr>))"

definition SUPPORTED_FUNC_NONE :: i32 where "SUPPORTED_FUNC_NONE = - 1"
definition SUPPORTED_FUNC_MTP :: u32 where "SUPPORTED_FUNC_MTP = 8"
definition SUPPORTED_FUNC_PTP :: u32 where "SUPPORTED_FUNC_PTP = 16"
definition SUPPORTED_FUNC_REVERSECHARGE :: u32 where "SUPPORTED_FUNC_REVERSECHARGE = push_bit 30 1"
definition DEFAULT_PARAM_VALUE :: string where "DEFAULT_PARAM_VALUE = ''charge,mtp,ptp''"

definition GetSupportedFunctions :: "('w, 'p) notifier_env \<Rightarrow> 'w \<Rightarrow> i32" where
  "GetSupportedFunctions ne w =
     (let supportedFuncStr = cn_GetStringParameter ne ''const.usb_manager.supported_functions'' DEFAULT_PARAM_VALUE w in
      if sublist ''none'' supportedFuncStr then SUPPORTED_FUNC_NONE
      else let mtp = (if sublist ''mtp'' supportedFuncStr then SUPPORTED_FUNC_MTP else 0);
               ptp = (if sublist ''ptp'' supportedFuncStr then SUPPORTED_FUNC_PTP else 0);
               reverseCharge = (if sublist ''reverseCharge'' supportedFuncStr then SUPPORTED_FUNC_REVERSECHARGE else 0)
           in ucast (mtp OR ptp OR reverseCharge))"

subsection \<open>Notifications\<close>

definition SetWantAgent :: "i32 \<Rightarrow> 'p notification \<Rightarrow> 'p notification" where
  "SetWantAgent supported r = r\<lparr>nr_want := Some \<lparr>wa_bundle = SET_BUNDLE_NAME, wa_ability = BUNDLE_NAME_KEY, wa_uri = [],
     wa_params = [(''usbSupportedFunctions'', sint supported)]\<rparr>\<rparr>"

definition SetWantAgentHdc :: "'p notification \<Rightarrow> 'p notification" where
  "SetWantAgentHdc r = r\<lparr>nr_want := Some \<lparr>wa_bundle = SETTING_BUNDLE_NAME, wa_ability = SETTING_BUNDLE_NAME_ABILITY,
     wa_uri = SETTING_BUNDLE_NAME_URL, wa_params = []\<rparr>\<rparr>"

definition with_icon :: "'p option option \<Rightarrow> 'p notification \<Rightarrow> 'p notification" where
  "with_icon icon r = (case icon of Some p \<Rightarrow> r\<lparr>nr_littleIcon := Some p\<rparr> | None \<Rightarrow> r)"

definition SendNotification :: "('w, 'p) notifier_env \<Rightarrow> string \<Rightarrow> 'p usb_notifier \<Rightarrow> 'w \<Rightarrow> 'p usb_notifier \<times> 'w" where
  "SendNotification ne func nt w =
     (let nt1 = nt\<lparr>nt_supportedFunctions := GetSupportedFunctions ne w\<rparr> in
      if nt_supportedFunctions nt1 \<le>s 0 then (nt1, w)
      else let nt2 = GetHapString ne w (nt1\<lparr>nt_lastFunc := func\<rparr>);
               (title, nt3) = subscript func nt2;
               (txt, nt4) = subscript USB_FUNC_MORE nt3;
               r = (nt_request nt4)\<lparr>nr_title := title, nr_text := txt, nr_id := NOTIFICATION_ID_ZERO, nr_uid := nt_uid nt4,
                 nr_unremovable := True, nr_removeAllowed := True, nr_tapDismissed := False, nr_group := NOTIFICATION_NAME\<rparr>;
               nt5 = nt4\<lparr>nt_request := SetWantAgent (nt_supportedFunctions nt4) (with_icon (nt_icon nt4) r)\<rparr>
           in (nt5, snd (cn_Publish ne (nt_request nt5) w)))"

text \<open>
  The notification of the host side is the one for reverse charging: either side cancels only its
  own.
\<close>

definition CancelNotification :: "('w, 'p) notifier_env \<Rightarrow> bool \<Rightarrow> 'p usb_notifier \<Rightarrow> 'w \<Rightarrow> 'p usb_notifier \<times> 'w" where
  "CancelNotification ne isHost nt w =
     (if isHost \<and> nt_lastFunc nt \<noteq> notifier_key USB_FUNC_REVERSE_CHARGE \<or>
         \<not> isHost \<and> nt_lastFunc nt = notifier_key USB_FUNC_REVERSE_CHARGE
      then (nt, w)
      else (nt\<lparr>nt_lastFunc := []\<rparr>, snd (cn_Cancel ne (nr_id (nt_request nt)) w)))"

definition NOTIFICATION_STATUS_CLOSE_ALL :: u32 where
  "NOTIFICATION_STATUS_CLOSE_ALL = push_bit 0 1 OR push_bit 1 1 OR push_bit 2 1 OR push_bit 3 1 OR push_bit 4 1"

definition SendHdcNotification :: "('w, 'p) notifier_env \<Rightarrow> 'p usb_notifier \<Rightarrow> 'w \<Rightarrow> 'p usb_notifier \<times> 'w" where
  "SendHdcNotification ne nt w =
     (let nt1 = GetHapString ne w nt;
          (title, nt2) = subscript USB_HDC_NOTIFIER_TITLE nt1;
          (txt, nt3) = subscript USB_HDC_NOTIFIER_CONTENT nt2;
          r = (nt_requestHdc nt3)\<lparr>nr_title := title, nr_text := txt, nr_id := NOTIFICATION_ID_ONE, nr_uid := nt_uid nt3,
            nr_unremovable := True, nr_removeAllowed := True, nr_tapDismissed := False, nr_group := NOTIFICATION_NAME_ONE,
            nr_slot := True, nr_flags := NOTIFICATION_STATUS_CLOSE_ALL\<rparr>;
          nt4 = nt3\<lparr>nt_requestHdc := SetWantAgentHdc (with_icon (nt_icon nt3) r)\<rparr>
      in (nt4, snd (cn_Publish ne (nt_requestHdc nt4) w)))"

definition CancelHdcNotification :: "('w, 'p) notifier_env \<Rightarrow> 'p usb_notifier \<Rightarrow> 'w \<Rightarrow> 'p usb_notifier \<times> 'w" where
  "CancelHdcNotification ne nt w = (nt, snd (cn_Cancel ne (nr_id (nt_requestHdc nt)) w))"

subsection \<open>The calls of the gadget manager\<close>

fun notifier_effect :: "('w, 'p) notifier_env \<Rightarrow> device_effect \<Rightarrow> 'p usb_notifier \<times> 'w \<Rightarrow> 'p usb_notifier \<times> 'w" where
  "notifier_effect ne (Notify n) (nt, w) = SendNotification ne (notifier_key n) nt w"
| "notifier_effect ne device_effect.CancelNotification (nt, w) = CancelNotification ne False nt w"
| "notifier_effect ne HdcNotify (nt, w) = SendHdcNotification ne nt w"
| "notifier_effect ne HdcCancel (nt, w) = CancelHdcNotification ne nt w"
| "notifier_effect ne e (nt, w) = (nt, w)"

subsection \<open>What the user sees\<close>

text \<open>
  The two notifications as the managers mean them: a trace of effects shows the last function, which
  a cancellation of the gadget side takes away unless it is the one for reverse charging.
\<close>

fun displayed :: "Usb_Prelude.notifier option \<Rightarrow> device_effect list \<Rightarrow> Usb_Prelude.notifier option" where
  "displayed d [] = d"
| "displayed d (Notify n # es) = displayed (Some n) es"
| "displayed d (device_effect.CancelNotification # es) =
     displayed (if d = Some USB_FUNC_REVERSE_CHARGE then d else None) es"
| "displayed d (e # es) = displayed d es"

text \<open>A notification service that works: \<open>shown\<close> are the notifications on display by their identifiers.\<close>

definition notification_law :: "('w, 'p) notifier_env \<Rightarrow> ('w \<Rightarrow> int \<Rightarrow> 'p notification option) \<Rightarrow> bool" where
  "notification_law ne shown \<longleftrightarrow>
     (\<forall>r w. shown (snd (cn_Publish ne r w)) = (shown w)(nr_id r \<mapsto> r)) \<and>
     (\<forall>i w. shown (snd (cn_Cancel ne i w)) = (shown w)(i := None))"

definition last_key :: "Usb_Prelude.notifier option \<Rightarrow> string" where
  "last_key d = (case d of None \<Rightarrow> [] | Some n \<Rightarrow> notifier_key n)"

definition notifier_ok :: "('w \<Rightarrow> int \<Rightarrow> 'p notification option) \<Rightarrow> bool \<Rightarrow> Usb_Prelude.notifier option \<Rightarrow>
    'p usb_notifier \<times> 'w \<Rightarrow> bool" where
  "notifier_ok shown b d s \<longleftrightarrow>
     nr_id (nt_request (fst s)) = 0 \<and> (b \<longrightarrow> nr_id (nt_requestHdc (fst s)) = 1) \<and>
     nt_lastFunc (fst s) = last_key d \<and> (shown (snd s) 1 \<noteq> None) = b \<and>
     shown (snd s) 0 = (if d = None then None else Some (nt_request (fst s)))"

lemma notifier_key_inject [simp]:
  "notifier_key n = notifier_key m \<longleftrightarrow> n = m" "notifier_key n \<noteq> []" "[] \<noteq> notifier_key n"
  by (cases n; cases m; simp) (cases n; simp)+

declare notifier_key.simps [simp del]

lemma last_key_reverse [simp]:
  "last_key d = notifier_key USB_FUNC_REVERSE_CHARGE \<longleftrightarrow> d = Some USB_FUNC_REVERSE_CHARGE"
  by (auto simp: last_key_def split: option.splits)

lemma GetHapString_keeps [simp]:
  "nt_request (GetHapString ne w nt) = nt_request nt" "nt_requestHdc (GetHapString ne w nt) = nt_requestHdc nt"
  "nt_lastFunc (GetHapString ne w nt) = nt_lastFunc nt"
  by (simp_all add: GetHapString_def)

lemma subscript_keeps [simp]:
  "nt_request (snd (subscript k nt)) = nt_request nt" "nt_requestHdc (snd (subscript k nt)) = nt_requestHdc nt"
  "nt_lastFunc (snd (subscript k nt)) = nt_lastFunc nt"
  by (simp_all add: subscript_def split: option.split)

lemma want_agent_id [simp]:
  "nr_id (SetWantAgent n r) = nr_id r" "nr_id (SetWantAgentHdc r) = nr_id r" "nr_id (with_icon i r) = nr_id r"
  by (simp_all add: SetWantAgent_def SetWantAgentHdc_def with_icon_def split: option.split)

lemma notifier_effect_ok:
  assumes "notification_law ne shown" and "0 <s GetSupportedFunctions ne (snd s)"
    and "notifier_ok shown b d s" and "hdc_shown b [e] = Some b'"
  shows "notifier_ok shown b' (displayed d [e]) (notifier_effect ne e s)"
proof -
  obtain nt w where s: "s = (nt, w)" by (cases s)
  have "\<not> GetSupportedFunctions ne w \<le>s 0" using assms(2) s by (simp add: word_sle_eq word_sless_alt)
  with assms s show ?thesis
    by (cases e)
      (auto simp: notifier_ok_def notification_law_def SendNotification_def CancelNotification_def SendHdcNotification_def
        CancelHdcNotification_def Let_def case_prod_beta last_key_def split: if_splits)
qed

lemma notifier_effects_ok:
  assumes "notification_law ne shown" and "\<And>w. 0 <s GetSupportedFunctions ne w"
  shows "notifier_ok shown b d s \<Longrightarrow> hdc_shown b es = Some b' \<Longrightarrow>
    notifier_ok shown b' (displayed d es) (fold (notifier_effect ne) es s)"
proof (induction es arbitrary: b d s)
  case (Cons e es)
  have split: "hdc_shown b (e # es) = Option.bind (hdc_shown b [e]) (\<lambda>b1. hdc_shown b1 es)"
    using hdc_shown_append [of b "[e]" es] by simp
  then obtain b1 where b1: "hdc_shown b [e] = Some b1" "hdc_shown b1 es = Some b'"
    using Cons.prems(2) by (cases "hdc_shown b [e]") auto
  have "displayed d (e # es) = displayed (displayed d [e]) es" by (cases e) auto
  with Cons.IH [OF notifier_effect_ok [OF assms Cons.prems(1) b1(1)] b1(2)] show ?case by simp
qed simp

text \<open>
  C23: the notifications are those the gadget manager means. With a notification service that works
  and some function to offer, performing the calls of the gadget manager in any reachable state leaves
  the debugging notification on display exactly when \<^verbatim>\<open>hasHdcNotifier_\<close> is set, and the other one
  exactly for the function that was announced last and not taken back, with the request the notifier
  holds; reverse charging is not taken back by the gadget side.
\<close>

theorem gadget_notifications_displayed:
  assumes "device_reachable h (dm, w0)" and "notification_law ne shown" and "\<And>w. 0 <s GetSupportedFunctions ne w"
    and "shown w 0 = None" and "shown w 1 = None"
  shows "case fold (notifier_effect ne) (effects dm) (new_notifier ne 0 w, w) of (nt, w') \<Rightarrow>
    (shown w' 1 \<noteq> None) = hasHdcNotifier dm \<and>
    shown w' 0 = (if displayed None (effects dm) = None then None else Some (nt_request nt)) \<and>
    nt_lastFunc nt = (case displayed None (effects dm) of None \<Rightarrow> [] | Some n \<Rightarrow> notifier_key n)"
proof -
  have "hdc_shown False (effects dm) = Some (hasHdcNotifier dm)"
    using device_reachable_consistent [OF assms(1)] by (simp add: hdc_consistent_def)
  moreover have "notifier_ok shown False None (new_notifier ne 0 w, w)"
    using assms(4,5) by (simp add: notifier_ok_def new_notifier_def Let_def last_key_def)
  ultimately have "notifier_ok shown (hasHdcNotifier dm) (displayed None (effects dm))
      (fold (notifier_effect ne) (effects dm) (new_notifier ne 0 w, w))"
    using notifier_effects_ok [OF assms(2,3)] by blast
  then show ?thesis by (simp add: notifier_ok_def last_key_def case_prod_beta)
qed

definition memory_notifier :: "(int \<Rightarrow> unit notification option, unit) notifier_env" where
  "memory_notifier = \<lparr>cn_ResourceManager = (\<lambda>w. True), cn_ResConfig = (\<lambda>w. True), cn_AddResource = (\<lambda>p w. True),
     cn_GetStringByName = (\<lambda>k w. k), cn_ImageSource = (\<lambda>w. True), cn_PixelMap = (\<lambda>w. None),
     cn_GetStringParameter = (\<lambda>k d w. d), cn_LocalId = (\<lambda>w. 0), cn_SystemAbilityManager = (\<lambda>w. True),
     cn_GetSystemAbility = (\<lambda>i w. True), cn_GetUidByBundleName = (\<lambda>b u w. 1018),
     cn_Publish = (\<lambda>r w. (0, w(nr_id r \<mapsto> r))), cn_Cancel = (\<lambda>i w. (0, w(i := None)))\<rparr>"

lemma memory_notifier_supported: "0 <s GetSupportedFunctions memory_notifier w"
  unfolding GetSupportedFunctions_def memory_notifier_def DEFAULT_PARAM_VALUE_def by code_simp

text \<open>A gadget whose cable was plugged in and whose connect task has run with HDC as its function.\<close>

lemma connected_gadget:
  "\<exists>dm. device_reachable sample_device_hdi (dm, 4) \<and> hasHdcNotifier dm \<and> displayed None (effects dm) = Some USB_FUNC_CHARGE"
proof -
  let ?dm = "HandleEvent (Some sample_device_hdi) ACT_UPDEVICE new_device_manager"
  have r: "device_reachable sample_device_hdi (?dm, 4)"
    by (rule device_reachable.step [OF device_reachable.start device_step.event])
  have "\<exists>dm. run_pending sample_device_hdi ?dm 4 = Some (dm, 4) \<and> hasHdcNotifier dm \<and>
      displayed None (effects dm) = Some USB_FUNC_CHARGE"
    by (simp add: run_pending_def connect_task_def HandleEvent_def ProcessStatus_def new_device_manager_def Let_def
        GetCurrentFunctions_def sample_device_hdi_def ProcessFuncChange_def ProcessFunctionSwitchWindow_def
        ProcessFunctionNotifier_def)
  with device_reachable.step [OF r device_step.timer] show ?thesis by blast
qed

lemma gadget_notifications_displayed_witness:
  "\<exists>dm. device_reachable sample_device_hdi (dm, 4) \<and> hasHdcNotifier dm \<and>
     (case fold (notifier_effect memory_notifier) (effects dm) (new_notifier memory_notifier 0 (\<lambda>i. None), \<lambda>i. None) of
        (nt, w') \<Rightarrow> w' 1 \<noteq> None \<and> w' 0 = Some (nt_request nt) \<and> nt_lastFunc nt = notifier_key USB_FUNC_CHARGE)"
proof -
  obtain dm where dm: "device_reachable sample_device_hdi (dm, 4)" "hasHdcNotifier dm"
    "displayed None (effects dm) = Some USB_FUNC_CHARGE" using connected_gadget by blast
  have "notification_law memory_notifier (\<lambda>w. w)" by (simp add: notification_law_def memory_notifier_def)
  from gadget_notifications_displayed [OF dm(1) this memory_notifier_supported, of "\<lambda>i. None"] dm show ?thesis by auto
qed

end
