(* ===== verification/Transfer_Callback.thy ===== *)
theory Transfer_Callback
  imports Usb_Data
begin

section \<open>Callbacks of transfers\<close>

text \<open>
  How the end of a submitted transfer reaches the client: the driver calls the service's callback
  object (\<^verbatim>\<open>usb_transfer_callback_impl.cpp\<close>, \<^verbatim>\<open>usb_bulkcallback_impl.cpp\<close>), which writes a message with
  the structures of \<^verbatim>\<open>struct_parcel.cpp\<close>; the stub on the client's side (\<^verbatim>\<open>usbd_callback_stub.cpp\<close>,
  \<^verbatim>\<open>usbd_bulk_callback.cpp\<close>) reads it and calls the client's function (\<^verbatim>\<open>usbd_callback_server.cpp\<close>).
  The parcel operations beyond those of \<open>Usb_Data\<close> are the record \<open>message_ops\<close>.
\<close>

subsection \<open>Messages\<close>

text \<open>
  \<open>WriteMark\<close> is what \<^verbatim>\<open>WriteParcelable\<close> writes before an object, \<open>ReadMark\<close> what \<^verbatim>\<open>ReadParcelable\<close> reads
  to learn whether there is one. The reads into a variable fail on a parcel without such a value.
\<close>

record 'p message_ops =
  mo_parcel :: "'p parcel_ops"
  WriteUint64 :: "u64 \<Rightarrow> 'p \<Rightarrow> bool \<times> 'p"
  WriteInterfaceToken :: "string \<Rightarrow> 'p \<Rightarrow> bool \<times> 'p"
  WriteMark :: "'p \<Rightarrow> bool \<times> 'p"
  ReadMark :: "('p, bool) state"
  ReadInterfaceToken :: "('p, string) state"
  TryReadInt32 :: "('p, i32 option) state"
  TryReadUint32 :: "('p, u32 option) state"
  TryReadUint64 :: "('p, u64 option) state"

definition message_fifo :: "'p message_ops \<Rightarrow> ('p \<Rightarrow> cell list) \<Rightarrow> bool" where
  "message_fifo mo view \<longleftrightarrow> parcel_fifo (mo_parcel mo) view \<and>
     (\<forall>v. writes view (WriteUint64 mo v) [C64 v]) \<and> (\<forall>v. reads view (TryReadUint64 mo) [C64 v] (Some v)) \<and>
     (\<forall>s. writes view (WriteInterfaceToken mo s) [CStr s]) \<and> (\<forall>s. reads view (ReadInterfaceToken mo) [CStr s] s) \<and>
     writes view (WriteMark mo) [C32 1] \<and> reads view (ReadMark mo) [C32 1] True \<and>
     (\<forall>v. reads view (TryReadInt32 mo) [C32 v] (Some v)) \<and> (\<forall>v. reads view (TryReadUint32 mo) [C32 v] (Some v))"

definition WriteParcelable :: "'p message_ops \<Rightarrow> ('p \<Rightarrow> bool \<times> 'p) \<Rightarrow> 'p \<Rightarrow> bool \<times> 'p" where
  "WriteParcelable mo marshalling = write_seq [WriteMark mo, marshalling]"

definition ReadParcelable :: "'p message_ops \<Rightarrow> ('p, 'a option) state \<Rightarrow> ('p, 'a option) state" where
  "ReadParcelable mo unmarshalling = do {
     present \<leftarrow> ReadMark mo;
     if present then unmarshalling else State_Monad.return None }"

subsection \<open>Isochronous packets\<close>

record UsbIsoPacketDescriptor =
  isoLength :: i32
  isoActualLength :: i32
  isoStatus :: i32

definition MAX_NUM_OF_ISO_PACKAGE :: nat where "MAX_NUM_OF_ISO_PACKAGE = 15000"

definition marshal_iso :: "'p message_ops \<Rightarrow> UsbIsoPacketDescriptor \<Rightarrow> 'p \<Rightarrow> bool \<times> 'p" where
  "marshal_iso mo i = write_seq [WriteInt32 (mo_parcel mo) (isoLength i), WriteInt32 (mo_parcel mo) (isoActualLength i),
     WriteInt32 (mo_parcel mo) (isoStatus i)]"

definition unmarshal_iso :: "'p message_ops \<Rightarrow> ('p, UsbIsoPacketDescriptor option) state" where
  "unmarshal_iso mo = do {
     len \<leftarrow> ReadInt32 (mo_parcel mo);
     actual \<leftarrow> ReadInt32 (mo_parcel mo);
     status \<leftarrow> ReadInt32 (mo_parcel mo);
     State_Monad.return (Some \<lparr>isoLength = len, isoActualLength = actual, isoStatus = status\<rparr>) }"

definition marshal_iso_vec :: "'p message_ops \<Rightarrow> UsbIsoPacketDescriptor list \<Rightarrow> 'p \<Rightarrow> bool \<times> 'p" where
  "marshal_iso_vec mo isoInfoVec = write_seq (WriteUint32 (mo_parcel mo) (size32 isoInfoVec) #
     map (\<lambda>i. WriteParcelable mo (marshal_iso mo i)) (take (unat (size32 isoInfoVec)) isoInfoVec))"

fun read_packets :: "'p message_ops \<Rightarrow> nat \<Rightarrow> ('p, UsbIsoPacketDescriptor list option) state" where
  "read_packets mo 0 = State_Monad.return (Some [])"
| "read_packets mo (Suc n) = do {
     packet \<leftarrow> ReadParcelable mo (unmarshal_iso mo);
     (case packet of None \<Rightarrow> State_Monad.return None
      | Some i \<Rightarrow> do { rest \<leftarrow> read_packets mo n; State_Monad.return (map_option (\<lambda>is. i # is) rest) }) }"

definition unmarshal_iso_vec :: "'p message_ops \<Rightarrow> ('p, UsbIsoPacketDescriptor list option) state" where
  "unmarshal_iso_vec mo = do {
     vecSize \<leftarrow> TryReadUint32 mo;
     (case vecSize of None \<Rightarrow> State_Monad.return None
      | Some n \<Rightarrow> if MAX_NUM_OF_ISO_PACKAGE < unat n then State_Monad.return None else read_packets mo (unat n)) }"

subsection \<open>The service's callback objects\<close>

definition CMD_USBD_TRANSFER_CALLBACK_READ :: nat where "CMD_USBD_TRANSFER_CALLBACK_READ = 0"
definition CMD_USBD_TRANSFER_CALLBACK_WRITE :: nat where "CMD_USBD_TRANSFER_CALLBACK_WRITE = 1"
definition CMD_USBD_BULK_CALLBACK_READ :: nat where "CMD_USBD_BULK_CALLBACK_READ = 0"
definition CMD_USBD_BULK_CALLBACK_WRITE :: nat where "CMD_USBD_BULK_CALLBACK_WRITE = 1"

text \<open>The client's object: its interface descriptor, and what sending it a request with a message does.\<close>

record ('p, 'w) remote =
  ro_descriptor :: string
  ro_SendRequest :: "nat \<Rightarrow> 'p \<Rightarrow> 'w \<Rightarrow> int \<times> 'w"

definition transfer_message :: "'p message_ops \<Rightarrow> string \<Rightarrow> i32 \<Rightarrow> i32 \<Rightarrow> UsbIsoPacketDescriptor list \<Rightarrow> u64 \<Rightarrow>
    'p \<Rightarrow> bool \<times> 'p" where
  "transfer_message mo descriptor status actLength isoInfo userData = write_seq
     [WriteInterfaceToken mo descriptor, WriteParcelable mo (marshal_iso_vec mo isoInfo),
      WriteInt32 (mo_parcel mo) status, WriteInt32 (mo_parcel mo) actLength, WriteUint64 mo userData]"

text \<open>The two callbacks write the same message into an empty parcel \<open>p0\<close> and differ in the command.\<close>

definition send_callback :: "nat \<Rightarrow> (string \<Rightarrow> 'p \<Rightarrow> bool \<times> 'p) \<Rightarrow> 'p \<Rightarrow> ('p, 'w) remote option \<Rightarrow> 'w \<Rightarrow> retcode \<times> 'w" where
  "send_callback code message p0 remote w =
     (case remote of None \<Rightarrow> (UEC_SERVICE_INVALID_VALUE, w)
      | Some ro \<Rightarrow> (case message (ro_descriptor ro) p0 of (ok, p) \<Rightarrow>
          if \<not> ok then (UEC_SERVICE_INVALID_VALUE, w)
          else (case ro_SendRequest ro code p w of (ret, w') \<Rightarrow> (ret_of_int ret, w'))))"

definition OnTransferWriteCallback :: "'p message_ops \<Rightarrow> 'p \<Rightarrow> ('p, 'w) remote option \<Rightarrow> i32 \<Rightarrow> i32 \<Rightarrow>
    UsbIsoPacketDescriptor list \<Rightarrow> u64 \<Rightarrow> 'w \<Rightarrow> retcode \<times> 'w" where
  "OnTransferWriteCallback mo p0 remote status actLength isoInfo userData = send_callback CMD_USBD_TRANSFER_CALLBACK_WRITE
     (\<lambda>descriptor. transfer_message mo descriptor status actLength isoInfo userData) p0 remote"

definition OnTransferReadCallback :: "'p message_ops \<Rightarrow> 'p \<Rightarrow> ('p, 'w) remote option \<Rightarrow> i32 \<Rightarrow> i32 \<Rightarrow>
    UsbIsoPacketDescriptor list \<Rightarrow> u64 \<Rightarrow> 'w \<Rightarrow> retcode \<times> 'w" where
  "OnTransferReadCallback mo p0 remote status actLength isoInfo userData = send_callback CMD_USBD_TRANSFER_CALLBACK_READ
     (\<lambda>descriptor. transfer_message mo descriptor status actLength isoInfo userData) p0 remote"

definition bulk_message :: "'p message_ops \<Rightarrow> string \<Rightarrow> i32 \<Rightarrow> i32 \<Rightarrow> 'p \<Rightarrow> bool \<times> 'p" where
  "bulk_message mo descriptor status actLength = write_seq
     [WriteInterfaceToken mo descriptor, WriteInt32 (mo_parcel mo) status, WriteInt32 (mo_parcel mo) actLength]"

definition OnBulkWriteCallback :: "'p message_ops \<Rightarrow> 'p \<Rightarrow> ('p, 'w) remote option \<Rightarrow> i32 \<Rightarrow> i32 \<Rightarrow> 'w \<Rightarrow> retcode \<times> 'w" where
  "OnBulkWriteCallback mo p0 remote status actLength = send_callback CMD_USBD_BULK_CALLBACK_WRITE
     (\<lambda>descriptor. bulk_message mo descriptor status actLength) p0 remote"

definition OnBulkReadCallback :: "'p message_ops \<Rightarrow> 'p \<Rightarrow> ('p, 'w) remote option \<Rightarrow> i32 \<Rightarrow> i32 \<Rightarrow> 'w \<Rightarrow> retcode \<times> 'w" where
  "OnBulkReadCallback mo p0 remote status actLength = send_callback CMD_USBD_BULK_CALLBACK_READ
     (\<lambda>descriptor. bulk_message mo descriptor status actLength) p0 remote"

subsection \<open>The client's stubs\<close>

text \<open>
  The object of a submitted transfer keeps the packets of the last callback that had any.
  \<open>cs_calls\<close> are the calls of the client's function: status, length, packets and user data.
\<close>

record callback_server =
  cs_status :: i32
  cs_actualLength :: i32
  cs_isoInfo :: "UsbIsoPacketDescriptor list"
  cs_calls :: "(i32 \<times> i32 \<times> UsbIsoPacketDescriptor list \<times> u64) list"

text \<open>The callbacks for reading and writing have the same body.\<close>

definition server_OnTransferCallback :: "i32 \<Rightarrow> i32 \<Rightarrow> UsbIsoPacketDescriptor list \<Rightarrow> u64 \<Rightarrow> callback_server \<Rightarrow>
    retcode \<times> callback_server" where
  "server_OnTransferCallback status actualLength isoInfo userData cs =
     (let cs1 = cs\<lparr>cs_status := status, cs_actualLength := actualLength\<rparr>;
          cs2 = (if isoInfo \<noteq> [] then cs1\<lparr>cs_isoInfo := isoInfo\<rparr> else cs1)
      in (UEC_OK, cs2\<lparr>cs_calls := cs_calls cs2 @ [(cs_status cs2, cs_actualLength cs2, cs_isoInfo cs2, userData)]\<rparr>))"

definition read_transfer :: "'p message_ops \<Rightarrow> ('p, (UsbIsoPacketDescriptor list \<times> i32 \<times> i32 \<times> u64) option) state" where
  "read_transfer mo = do {
     isoInfo \<leftarrow> ReadParcelable mo (unmarshal_iso_vec mo);
     (case isoInfo of None \<Rightarrow> State_Monad.return None | Some is \<Rightarrow> do {
       status \<leftarrow> TryReadInt32 mo;
       (case status of None \<Rightarrow> State_Monad.return None | Some st \<Rightarrow> do {
         actLength \<leftarrow> TryReadInt32 mo;
         (case actLength of None \<Rightarrow> State_Monad.return None | Some al \<Rightarrow> do {
           userData \<leftarrow> TryReadUint64 mo;
           State_Monad.return (map_option (\<lambda>ud. (is, st, al, ud)) userData) }) }) }) }"

definition TransferCallback :: "'p message_ops \<Rightarrow> 'p \<Rightarrow> callback_server \<Rightarrow> retcode \<times> callback_server" where
  "TransferCallback mo p cs =
     (case fst (run_state (read_transfer mo) p) of None \<Rightarrow> (UEC_SERVICE_WRITE_PARCEL_ERROR, cs)
      | Some (isoInfo, status, actLength, userData) \<Rightarrow> server_OnTransferCallback status actLength isoInfo userData cs)"

text \<open>
  The result of the callback is not the result of the request. \<open>other\<close> answers the codes that are not
  the stub's own.
\<close>

definition stub_OnRemoteRequest :: "'p message_ops \<Rightarrow> string \<Rightarrow> (nat \<Rightarrow> 'p \<Rightarrow> retcode) \<Rightarrow> nat \<Rightarrow> 'p \<Rightarrow> callback_server \<Rightarrow>
    retcode \<times> callback_server" where
  "stub_OnRemoteRequest mo descriptor other code p cs =
     (if code = CMD_USBD_TRANSFER_CALLBACK_WRITE \<or> code = CMD_USBD_TRANSFER_CALLBACK_READ
      then (case run_state (ReadInterfaceToken mo) p of (remoteDescriptor, p1) \<Rightarrow>
        if descriptor \<noteq> remoteDescriptor then (UEC_INTERFACE_PERMISSION_DENIED, cs)
        else (UEC_OK, snd (TransferCallback mo p1 cs)))
      else (other code p, cs))"

text \<open>The stub of the bulk callbacks; the calls of the client's two functions are recorded.\<close>

datatype bulk_call = Bulk_Write i32 i32 | Bulk_Read i32 i32

definition bulk_OnRemoteRequest :: "'p message_ops \<Rightarrow> string \<Rightarrow> (nat \<Rightarrow> 'p \<Rightarrow> retcode) \<Rightarrow> nat \<Rightarrow> 'p \<Rightarrow> bulk_call list \<Rightarrow>
    retcode \<times> bulk_call list" where
  "bulk_OnRemoteRequest mo descriptor other code p calls =
     (if code = CMD_USBD_BULK_CALLBACK_WRITE \<or> code = CMD_USBD_BULK_CALLBACK_READ
      then (case run_state (ReadInterfaceToken mo) p of (remoteDescriptor, p1) \<Rightarrow>
        if descriptor \<noteq> remoteDescriptor then (UEC_INTERFACE_PERMISSION_DENIED, calls)
        else (case run_state (TryReadInt32 mo) p1 of (None, p2) \<Rightarrow> (UEC_SERVICE_WRITE_PARCEL_ERROR, calls)
          | (Some status, p2) \<Rightarrow> (case run_state (TryReadInt32 mo) p2 of (None, p3) \<Rightarrow> (UEC_SERVICE_WRITE_PARCEL_ERROR, calls)
            | (Some actLength, p3) \<Rightarrow>
              (UEC_OK, calls @ [(if code = CMD_USBD_BULK_CALLBACK_WRITE then Bulk_Write else Bulk_Read) status actLength]))))
      else (other code p, calls))"

subsection \<open>What is on the wire\<close>

definition wire_packets :: "UsbIsoPacketDescriptor list \<Rightarrow> cell list" where
  "wire_packets is = concat (map (\<lambda>i. [C32 1, C32 (isoLength i), C32 (isoActualLength i), C32 (isoStatus i)]) is)"

definition wire_iso_vec :: "UsbIsoPacketDescriptor list \<Rightarrow> cell list" where
  "wire_iso_vec is = C32 (size32 is) # wire_packets is"

lemma message_fifo_writes:
  assumes "message_fifo mo view"
  shows "parcel_fifo (mo_parcel mo) view" "writes view (WriteUint64 mo v) [C64 v]"
    "writes view (WriteInterfaceToken mo s) [CStr s]" "writes view (WriteMark mo) [C32 1]"
  using assms by (simp_all add: message_fifo_def)

lemma message_fifo_reads:
  assumes "message_fifo mo view"
  shows "reads view (f (Some v)) ds y \<Longrightarrow> reads view (State_Monad.bind (TryReadUint64 mo) f) (C64 v # ds) y"
    and "reads view (g (Some n)) ds y \<Longrightarrow> reads view (State_Monad.bind (TryReadInt32 mo) g) (C32 n # ds) y"
    and "reads view (g (Some n)) ds y \<Longrightarrow> reads view (State_Monad.bind (TryReadUint32 mo) g) (C32 n # ds) y"
    and "reads view (h True) ds y \<Longrightarrow> reads view (State_Monad.bind (ReadMark mo) h) (C32 1 # ds) y"
  using assms reads_bind [where cs = "[_]"] unfolding message_fifo_def by (metis append_Cons append_Nil)+

lemma marshal_iso_wire:
  assumes "message_fifo mo view"
  shows "writes view (WriteParcelable mo (marshal_iso mo i))
    [C32 1, C32 (isoLength i), C32 (isoActualLength i), C32 (isoStatus i)]"
proof -
  note p = parcel_fifo_writes [OF message_fifo_writes(1) [OF assms]]
  have "writes view (marshal_iso mo i) [C32 (isoLength i), C32 (isoActualLength i), C32 (isoStatus i)]"
    unfolding marshal_iso_def
    using writes_seq [of view _ "[[C32 (isoLength i)], [C32 (isoActualLength i)], [C32 (isoStatus i)]]"] p by simp
  then show ?thesis unfolding WriteParcelable_def
    using writes_seq [of view _ "[[C32 1], [C32 (isoLength i), C32 (isoActualLength i), C32 (isoStatus i)]]"]
      message_fifo_writes(4) [OF assms] by simp
qed

lemma marshal_iso_vec_wire:
  assumes "message_fifo mo view" and "length is < 2 ^ 32"
  shows "writes view (marshal_iso_vec mo is) (wire_iso_vec is)"
proof -
  have n: "take (unat (size32 is)) is = is"
    using assms(2) by (simp add: size32_def unat_of_nat take_bit_nat_eq_self)
  have "list_all2 (writes view) (map (\<lambda>i. WriteParcelable mo (marshal_iso mo i)) is)
      (map (\<lambda>i. [C32 1, C32 (isoLength i), C32 (isoActualLength i), C32 (isoStatus i)]) is)"
    by (simp add: list_all2_conv_all_nth marshal_iso_wire [OF assms(1)])
  then have "list_all2 (writes view)
      (WriteUint32 (mo_parcel mo) (size32 is) # map (\<lambda>i. WriteParcelable mo (marshal_iso mo i)) is)
      ([C32 (size32 is)] # map (\<lambda>i. [C32 1, C32 (isoLength i), C32 (isoActualLength i), C32 (isoStatus i)]) is)"
    using parcel_fifo_writes(2) [OF message_fifo_writes(1) [OF assms(1)]] by simp
  from writes_seq [OF this] show ?thesis
    by (simp add: marshal_iso_vec_def wire_iso_vec_def wire_packets_def n)
qed

lemma unmarshal_iso_wire:
  assumes "message_fifo mo view"
  shows "reads view (ReadParcelable mo (unmarshal_iso mo))
    [C32 1, C32 (isoLength i), C32 (isoActualLength i), C32 (isoStatus i)] (Some i)"
  unfolding ReadParcelable_def unmarshal_iso_def
  by (rule message_fifo_reads(4) [OF assms]) (auto intro!: reads_cell_bind [OF message_fifo_writes(1) [OF assms]] reads_return)

lemma read_packets_wire:
  assumes "message_fifo mo view"
  shows "reads view (read_packets mo (length is)) (wire_packets is) (Some is)"
proof (induction "is")
  case Nil
  show ?case by (simp add: wire_packets_def reads_return)
next
  case (Cons i "is")
  have "reads view (read_packets mo (length (i # is)))
      ([C32 1, C32 (isoLength i), C32 (isoActualLength i), C32 (isoStatus i)] @ wire_packets is) (Some (i # is))"
    unfolding list.size(4) add_Suc_right add_0_right read_packets.simps
    by (rule reads_bind [OF unmarshal_iso_wire [OF assms]]) (simp add: reads_bind_last [OF Cons.IH] reads_return)
  then show ?case by (simp add: wire_packets_def)
qed

lemma unmarshal_iso_vec_wire:
  assumes "message_fifo mo view" and "length is \<le> MAX_NUM_OF_ISO_PACKAGE"
  shows "reads view (unmarshal_iso_vec mo) (wire_iso_vec is) (Some is)"
proof -
  have n: "unat (size32 is) = length is"
    using assms(2) by (simp add: size32_def unat_of_nat MAX_NUM_OF_ISO_PACKAGE_def take_bit_nat_eq_self)
  show ?thesis unfolding unmarshal_iso_vec_def wire_iso_vec_def
    by (rule message_fifo_reads(3) [OF assms(1)]) (use assms(2) read_packets_wire [OF assms(1)] n in simp)
qed

lemma unmarshal_iso_vec_large:
  assumes "message_fifo mo view" and "MAX_NUM_OF_ISO_PACKAGE < unat n"
  shows "reads view (unmarshal_iso_vec mo) [C32 n] None"
  unfolding unmarshal_iso_vec_def
  by (rule message_fifo_reads(3) [OF assms(1)]) (use assms(2) in \<open>simp add: reads_return\<close>)

lemma transfer_message_wire:
  assumes "message_fifo mo view" and "length is < 2 ^ 32"
  shows "writes view (transfer_message mo d st al is ud)
    (CStr d # C32 1 # wire_iso_vec is @ [C32 st, C32 al, C64 ud])"
proof -
  note p = parcel_fifo_writes [OF message_fifo_writes(1) [OF assms(1)]] message_fifo_writes [OF assms(1)]
  have "writes view (WriteParcelable mo (marshal_iso_vec mo is)) (C32 1 # wire_iso_vec is)"
    unfolding WriteParcelable_def
    using writes_seq [of view _ "[[C32 1], wire_iso_vec is]"] marshal_iso_vec_wire [OF assms] p by simp
  then show ?thesis unfolding transfer_message_def
    using writes_seq [of view _ "[[CStr d], C32 1 # wire_iso_vec is, [C32 st], [C32 al], [C64 ud]]"] p by simp
qed

lemma read_transfer_wire:
  assumes "message_fifo mo view" and "length is \<le> MAX_NUM_OF_ISO_PACKAGE"
  shows "reads view (read_transfer mo) (C32 1 # wire_iso_vec is @ [C32 st, C32 al, C64 ud]) (Some (is, st, al, ud))"
proof -
  have v: "reads view (ReadParcelable mo (unmarshal_iso_vec mo)) (C32 1 # wire_iso_vec is) (Some is)"
    unfolding ReadParcelable_def
    by (rule message_fifo_reads(4) [OF assms(1)]) (simp add: unmarshal_iso_vec_wire [OF assms])
  have "reads view (read_transfer mo) ((C32 1 # wire_iso_vec is) @ [C32 st, C32 al, C64 ud]) (Some (is, st, al, ud))"
    unfolding read_transfer_def
    by (rule reads_bind [OF v]) (auto intro!: message_fifo_reads [OF assms(1)] reads_return)
  then show ?thesis by simp
qed

lemma read_transfer_large:
  assumes "message_fifo mo view" and "MAX_NUM_OF_ISO_PACKAGE < unat n"
  shows "reads view (read_transfer mo) [C32 1, C32 n] None"
proof -
  have v: "reads view (ReadParcelable mo (unmarshal_iso_vec mo)) [C32 1, C32 n] None"
    unfolding ReadParcelable_def
    by (rule message_fifo_reads(4) [OF assms(1)]) (simp add: unmarshal_iso_vec_large [OF assms])
  show ?thesis unfolding read_transfer_def
    by (rule reads_bind_last [OF v]) (simp add: reads_return)
qed

subsection \<open>From the driver to the client\<close>

text \<open>
  What the framework's IPC promises: a request to an object of the client runs the object's stub on the
  message, and gives 0 when the stub does.
\<close>

definition ipc_delivers :: "('p, 'w) remote \<Rightarrow> string \<Rightarrow> (nat \<Rightarrow> 'p \<Rightarrow> 'w \<Rightarrow> retcode \<times> 'w) \<Rightarrow> bool" where
  "ipc_delivers ro d stub \<longleftrightarrow> ro_descriptor ro = d \<and>
     (\<forall>code p w. fst (stub code p w) = UEC_OK \<longrightarrow> ro_SendRequest ro code p w = (0, snd (stub code p w)))"

lemma reads_result:
  assumes "reads view m cs x" and "view p = cs @ r"
  obtains q where "run_state m p = (x, q)" and "view q = r"
  using assms that [of "snd (run_state m p)"] by (auto simp: reads_def prod_eq_iff)

lemma reads_value: "reads view m cs x \<Longrightarrow> view p = cs @ r \<Longrightarrow> fst (run_state m p) = x"
  by (simp add: reads_def)

lemma send_callback_delivered:
  assumes "ipc_delivers ro d stub" and "writes view (message d) cs" and "view p0 = []"
    and "\<And>p. view p = cs \<Longrightarrow> stub code p w = (UEC_OK, w')"
  shows "send_callback code message p0 (Some ro) w = (UEC_OK, w')"
proof -
  obtain ok p where p: "message d p0 = (ok, p)" by (cases "message d p0")
  then have v: "ok" "view p = cs"
    using assms(2) [unfolded writes_def, THEN spec, of p0] assms(3) by simp_all
  then show ?thesis
    using assms(1) assms(4) [OF v(2)] p by (simp add: send_callback_def ipc_delivers_def ret_of_int_def)
qed

lemma token_read:
  assumes "message_fifo mo view" and "view p = CStr d # cs"
  obtains q where "run_state (ReadInterfaceToken mo) p = (d, q)" and "view q = cs"
  using assms reads_result [of view "ReadInterfaceToken mo" "[CStr d]" d p cs] by (auto simp: message_fifo_def)

lemma stub_OnRemoteRequest_wire:
  assumes "message_fifo mo view" and "length is < 2 ^ 32"
    and "view p = CStr d # C32 1 # wire_iso_vec is @ [C32 st, C32 al, C64 ud]"
    and "code \<in> {CMD_USBD_TRANSFER_CALLBACK_WRITE, CMD_USBD_TRANSFER_CALLBACK_READ}"
  shows "stub_OnRemoteRequest mo d other code p cs = (UEC_OK,
    if length is \<le> MAX_NUM_OF_ISO_PACKAGE then snd (server_OnTransferCallback st al is ud cs) else cs)"
proof -
  obtain q where q: "run_state (ReadInterfaceToken mo) p = (d, q)"
      "view q = C32 1 # wire_iso_vec is @ [C32 st, C32 al, C64 ud]"
    using token_read [OF assms(1,3)] .
  have "fst (run_state (read_transfer mo) q) = (if length is \<le> MAX_NUM_OF_ISO_PACKAGE then Some (is, st, al, ud) else None)"
  proof (cases "length is \<le> MAX_NUM_OF_ISO_PACKAGE")
    case True
    then show ?thesis
      using reads_value [OF read_transfer_wire [OF assms(1) True], where p = q and r = "[]"] q(2) by simp
  next
    case False
    then have "MAX_NUM_OF_ISO_PACKAGE < unat (size32 is)"
      using assms(2) by (simp add: size32_def unat_of_nat take_bit_nat_eq_self)
    from reads_value [OF read_transfer_large [OF assms(1) this], where p = q] q(2) False show ?thesis
      by (simp add: wire_iso_vec_def)
  qed
  then show ?thesis using assms(4) q(1)
    by (auto simp: stub_OnRemoteRequest_def TransferCallback_def)
qed

text \<open>
  C32: the end of a transfer reaches the client. Over a parcel that is a queue and an IPC that runs the
  client's stub, the service's callback object reports success for a transfer with fewer than \<open>2^32\<close>
  packets, whether it wrote or read, and with at most 15000 packets the client's function has been called exactly once
  more, with the transfer's status, length and user data and its packets - or, when it has none, those of
  the last transfer that had some. With more packets the client's function is not called, although
  success is reported.
\<close>

theorem transfer_end_delivered:
  assumes "message_fifo mo view" and "view p0 = []" and "length isoInfo < 2 ^ 32"
    and "ipc_delivers ro d (stub_OnRemoteRequest mo d other)"
    and "callback = OnTransferWriteCallback \<or> callback = OnTransferReadCallback"
  shows "\<exists>cs'. callback mo p0 (Some ro) status actLength isoInfo userData cs = (UEC_OK, cs') \<and>
    cs_calls cs' = cs_calls cs @ (if length isoInfo \<le> 15000
      then [(status, actLength, if isoInfo = [] then cs_isoInfo cs else isoInfo, userData)] else [])"
proof -
  note wire = transfer_message_wire [OF assms(1,3)] stub_OnRemoteRequest_wire [OF assms(1,3)]
  have "send_callback code (\<lambda>d. transfer_message mo d status actLength isoInfo userData) p0 (Some ro) cs =
      (UEC_OK, if length isoInfo \<le> MAX_NUM_OF_ISO_PACKAGE
         then snd (server_OnTransferCallback status actLength isoInfo userData cs) else cs)"
    if "code \<in> {CMD_USBD_TRANSFER_CALLBACK_WRITE, CMD_USBD_TRANSFER_CALLBACK_READ}" for code
    by (rule send_callback_delivered [OF assms(4) wire(1) assms(2)]) (rule wire(2) [OF _ that])
  then have "callback mo p0 (Some ro) status actLength isoInfo userData cs =
      (UEC_OK, if length isoInfo \<le> MAX_NUM_OF_ISO_PACKAGE
         then snd (server_OnTransferCallback status actLength isoInfo userData cs) else cs)"
    using assms(5) by (elim disjE) (simp_all add: OnTransferWriteCallback_def OnTransferReadCallback_def)
  then show ?thesis by (auto simp: server_OnTransferCallback_def Let_def MAX_NUM_OF_ISO_PACKAGE_def)
qed

text \<open>A message as the queue of its cells, and an IPC that runs the stub at once.\<close>

definition queue_message :: "cell list message_ops" where
  "queue_message = \<lparr>mo_parcel = queue_parcel,
     WriteUint64 = (\<lambda>v p. (True, p @ [C64 v])), WriteInterfaceToken = (\<lambda>s p. (True, p @ [CStr s])),
     WriteMark = (\<lambda>p. (True, p @ [C32 1])),
     ReadMark = list_read (\<lambda>c. case c of C32 v \<Rightarrow> Some (v \<noteq> 0) | _ \<Rightarrow> None) False,
     ReadInterfaceToken = list_read (\<lambda>c. case c of CStr s \<Rightarrow> Some s | _ \<Rightarrow> None) [],
     TryReadInt32 = list_read (\<lambda>c. case c of C32 v \<Rightarrow> Some (Some v) | _ \<Rightarrow> None) None,
     TryReadUint32 = list_read (\<lambda>c. case c of C32 v \<Rightarrow> Some (Some v) | _ \<Rightarrow> None) None,
     TryReadUint64 = list_read (\<lambda>c. case c of C64 v \<Rightarrow> Some (Some v) | _ \<Rightarrow> None) None\<rparr>"

definition local_remote :: "string \<Rightarrow> (nat \<Rightarrow> 'p \<Rightarrow> 'w \<Rightarrow> retcode \<times> 'w) \<Rightarrow> ('p, 'w) remote" where
  "local_remote d stub = \<lparr>ro_descriptor = d, ro_SendRequest = (\<lambda>code p w. case stub code p w of (ret, w') \<Rightarrow>
     (if ret = UEC_OK then 0 else -1, w'))\<rparr>"

lemma queue_message_fifo: "message_fifo queue_message (\<lambda>p. p)"
  using queue_parcel_fifo by (simp add: message_fifo_def queue_message_def writes_def reads_def list_read_def)

lemma local_remote_delivers: "ipc_delivers (local_remote d stub) d stub"
  by (auto simp: ipc_delivers_def local_remote_def split: prod.split)

theorem transfer_end_delivered_witness:
  "\<exists>cs'. OnTransferReadCallback queue_message [] (Some (local_remote ''d'' (stub_OnRemoteRequest queue_message ''d'' (\<lambda>_ _. UEC_OK))))
      0 8 [\<lparr>isoLength = 8, isoActualLength = 8, isoStatus = 0\<rparr>] 77
      \<lparr>cs_status = 0, cs_actualLength = 0, cs_isoInfo = [], cs_calls = []\<rparr> = (UEC_OK, cs') \<and>
    cs_calls cs' = [(0, 8, [\<lparr>isoLength = 8, isoActualLength = 8, isoStatus = 0\<rparr>], 77)]"
  using transfer_end_delivered [OF queue_message_fifo refl _ local_remote_delivers disjI2 [OF refl],
    of "[\<lparr>isoLength = 8, isoActualLength = 8, isoStatus = 0\<rparr>]" "''d''" "\<lambda>_ _. UEC_OK" 0 8 77
      "\<lparr>cs_status = 0, cs_actualLength = 0, cs_isoInfo = [], cs_calls = []\<rparr>"] by simp

text \<open>
  The end of a bulk transfer reaches the client: over a parcel that is a queue and an IPC that runs
  the client's stub, the service's callback reports success and the client's function of the same
  direction has been called exactly once more, with the transfer's status and length.
\<close>

theorem bulk_end_delivered:
  assumes "message_fifo mo view" and "view p0 = []" and "ipc_delivers ro d (bulk_OnRemoteRequest mo d other)"
  shows "OnBulkWriteCallback mo p0 (Some ro) status actLength calls = (UEC_OK, calls @ [Bulk_Write status actLength]) \<and>
    OnBulkReadCallback mo p0 (Some ro) status actLength calls = (UEC_OK, calls @ [Bulk_Read status actLength])"
proof -
  have w: "writes view (bulk_message mo d status actLength) [CStr d, C32 status, C32 actLength]"
    unfolding bulk_message_def
    using writes_seq [of view _ "[[CStr d], [C32 status], [C32 actLength]]"]
      parcel_fifo_writes [OF message_fifo_writes(1) [OF assms(1)]] message_fifo_writes [OF assms(1)] by simp
  have r: "bulk_OnRemoteRequest mo d other code p calls =
      (UEC_OK, calls @ [(if code = CMD_USBD_BULK_CALLBACK_WRITE then Bulk_Write else Bulk_Read) status actLength])"
    if p: "view p = [CStr d, C32 status, C32 actLength]"
      and code: "code = CMD_USBD_BULK_CALLBACK_WRITE \<or> code = CMD_USBD_BULK_CALLBACK_READ" for code p
  proof -
    obtain p1 where p1: "run_state (ReadInterfaceToken mo) p = (d, p1)" "view p1 = [C32 status, C32 actLength]"
      using token_read [OF assms(1) p] .
    have t: "reads view (TryReadInt32 mo) [C32 n] (Some n)" for n
      using assms(1) by (simp add: message_fifo_def)
    obtain p2 where p2: "run_state (TryReadInt32 mo) p1 = (Some status, p2)" "view p2 = [C32 actLength]"
      using reads_result [OF t, where p = p1 and r = "[C32 actLength]"] p1(2) by auto
    obtain p3 where p3: "run_state (TryReadInt32 mo) p2 = (Some actLength, p3)"
      using reads_result [OF t, where p = p2 and r = "[]"] p2(2) by auto
    show ?thesis using code p1(1) p2(1) p3 by (auto simp: bulk_OnRemoteRequest_def)
  qed
  note sent = send_callback_delivered [where message = "\<lambda>d. bulk_message mo d status actLength", OF assms(3) w assms(2) r]
  show ?thesis unfolding OnBulkWriteCallback_def OnBulkReadCallback_def
    using sent [of CMD_USBD_BULK_CALLBACK_WRITE] sent [of CMD_USBD_BULK_CALLBACK_READ]
    by (simp add: CMD_USBD_BULK_CALLBACK_READ_def CMD_USBD_BULK_CALLBACK_WRITE_def)
qed

theorem bulk_end_delivered_witness:
  "OnBulkReadCallback queue_message [] (Some (local_remote ''d'' (bulk_OnRemoteRequest queue_message ''d'' (\<lambda>_ _. UEC_OK)))) 0 64 [] =
     (UEC_OK, [Bulk_Read 0 64])"
  using bulk_end_delivered [OF queue_message_fifo refl local_remote_delivers] by simp

end
