(* ===== verification/Service_Serial.thy ===== *)
theory Service_Serial
  imports Service_Invariant
begin

section \<open>The service: serial ports\<close>

text \<open>
  The serial operations of \<^verbatim>\<open>usb_service.cpp\<close>. A port is known once the ports have been listed; its
  right is kept for the identity of the adapter the listing gave. The owner of an open port is
  checked by the serial manager. \<open>None\<close> is an uncaught exception or the dereference of a missing
  manager.
\<close>

subsection \<open>Ports and their identities\<close>

definition ReportUsbSerialOperationFaultSysEvent :: "string \<Rightarrow> retcode \<Rightarrow> string \<Rightarrow> 'c usb_service \<Rightarrow> 'c usb_service" where
  "ReportUsbSerialOperationFaultSysEvent operationType failReason failDescription =
     report [OPERATION_FAULT operationType failReason failDescription]"

definition ValidateUsbSerialManagerAndPort :: "int \<Rightarrow> 'c usb_service \<Rightarrow> retcode + SerialPort serial_manager" where
  "ValidateUsbSerialManagerAndPort portId s =
     (case usbSerialManager s of None \<Rightarrow> Inl UEC_SERVICE_INVALID_VALUE
      | Some sm \<Rightarrow> if \<not> IsPortIdExist portId sm then Inl UEC_SERIAL_PORT_NOT_EXIST else Inr sm)"

definition CheckDbAbility :: "('w, 'c, 'm) service_env \<Rightarrow> 'c usb_service \<Rightarrow> 'w \<Rightarrow> retcode \<times> 'c usb_service" where
  "CheckDbAbility E s w =
     (if \<not> sv_DbHelper E w
      then (UEC_SERIAL_DATEBASE_ERROR,
        ReportUsbSerialOperationFaultSysEvent ''RequestSerialRight'' UEC_SERIAL_DATEBASE_ERROR ''get dbHelper failed'' s)
      else (UEC_OK, s))"

definition GetPortVidPidSerialNumber :: "int \<Rightarrow> 'c usb_service \<Rightarrow> retcode + string \<times> string" where
  "GetPortVidPidSerialNumber portId s = (case map_of (serialVidPidMap s) portId of
       Some names \<Rightarrow> Inr names | None \<Rightarrow> Inl UEC_INTERFACE_INVALID_VALUE)"

definition port_names :: "SerialPort \<Rightarrow> string \<times> string" where
  "port_names p = (device_name (sp_busNum p) (sp_devAddr p), identity (sp_vid p) (sp_pid p) (sp_serialNum p))"

definition UpdateDeviceVidPidMap :: "SerialPort list \<Rightarrow> 'c usb_service \<Rightarrow> 'c usb_service" where
  "UpdateDeviceVidPidMap serialPortList s =
     s\<lparr>serialVidPidMap := foldl (\<lambda>m (k, v). omap_insert k v m) [] (map (\<lambda>p. (sp_portId p, port_names p)) serialPortList)\<rparr>"

definition CheckForTtyUSB :: "('w, 'c, 'm) service_env \<Rightarrow> 'w \<Rightarrow> bool" where
  "CheckForTtyUSB E w = (case sv_tty E w of None \<Rightarrow> False | Some entries \<Rightarrow> list_ex (\<lambda>is_directory. is_directory) entries)"

record UsbSerialPort =
  usp_portId :: int
  usp_busNum :: u8
  usp_devAddr :: u8
  usp_vid :: int
  usp_pid :: int
  usp_serialNum :: string

definition SerialPortChange :: "SerialPort list \<Rightarrow> UsbSerialPort list" where
  "SerialPortChange = map (\<lambda>p. \<lparr>usp_portId = sp_portId p, usp_busNum = sp_busNum p, usp_devAddr = sp_devAddr p,
     usp_vid = sp_vid p, usp_pid = sp_pid p, usp_serialNum = sp_serialNum p\<rparr>)"

text \<open>The listing starts the serial manager when there is none and an adapter is there.\<close>

definition SerialGetPortList :: "('w, 'c, 'm) service_env \<Rightarrow> 'c usb_service \<Rightarrow> 'w \<Rightarrow>
    retcode \<times> UsbSerialPort list \<times> 'c usb_service \<times> 'w" where
  "SerialGetPortList E s w =
     (case (case usbSerialManager s of Some sm \<Rightarrow> Some sm
            | None \<Rightarrow> if CheckForTtyUSB E w then Some new_serial_manager else None) of
        None \<Rightarrow> (UEC_OK, [], s, w)
      | Some sm \<Rightarrow> (case Serial_Manager.SerialGetPortList (sv_serial E) sm w of (ret, ports, sm', w') \<Rightarrow>
          let s1 = s\<lparr>usbSerialManager := Some sm'\<rparr> in
          if ret \<noteq> UEC_OK then (ret, [], s1, w')
          else (ret, SerialPortChange ports, UpdateDeviceVidPidMap ports s1, w')))"

subsection \<open>Rights for a port\<close>

text \<open>
  The beginning the right operations share: the right manager, the port, the database and the
  identity. The error comes with the state, to which a report may have been added.
\<close>

definition serial_identity :: "('w, 'c, 'm) service_env \<Rightarrow> (retcode \<Rightarrow> string \<Rightarrow> 'c usb_service \<Rightarrow> 'c usb_service) \<Rightarrow>
    string \<Rightarrow> int \<Rightarrow> 'c usb_service \<Rightarrow> 'w \<Rightarrow> (retcode \<times> 'c usb_service) + right_manager \<times> SerialPort serial_manager \<times> string \<times> string" where
  "serial_identity E fault invalid portId s w =
     (case usbRightManager s of
        None \<Rightarrow> Inl (UEC_SERVICE_INVALID_VALUE, fault UEC_SERVICE_INVALID_VALUE ''usbRightManager_ is nullptr'' s)
      | Some rm \<Rightarrow> (case ValidateUsbSerialManagerAndPort portId s of Inl ret \<Rightarrow> Inl (ret, fault ret invalid s)
        | Inr sm \<Rightarrow> (case CheckDbAbility E s w of (ret, s1) \<Rightarrow>
            if ret \<noteq> UEC_OK then Inl (ret, s1)
            else (case GetPortVidPidSerialNumber portId s1 of Inl ret \<Rightarrow> Inl (ret, fault ret ''can not find deviceName.'' s1)
              | Inr (deviceName, dev) \<Rightarrow> Inr (rm, sm, deviceName, dev)))))"

definition HasSerialRight :: "('w, 'c, 'm) service_env \<Rightarrow> caller \<Rightarrow> int \<Rightarrow> 'c usb_service \<Rightarrow> 'w \<Rightarrow>
    retcode \<times> bool \<times> 'c usb_service \<times> 'w" where
  "HasSerialRight E c portId s w =
     (case serial_identity E (\<lambda>ret description s. s) [] portId s w of Inl (ret, s1) \<Rightarrow> (ret, False, s1, w)
      | Inr (rm, sm, deviceName, dev) \<Rightarrow>
        if IsSystemAppOrSa c then (UEC_OK, True, s, w)
        else (case GetCallingInfo E c w of None \<Rightarrow> (UEC_SERVICE_INVALID_VALUE, False, s, w)
          | Some (bundleName, tokenId, userId) \<Rightarrow>
            (case has_either E dev bundleName tokenId userId w of (r, w') \<Rightarrow> (UEC_OK, r, s, w'))))"

definition RequestSerialRight :: "('w, 'c, 'm) service_env \<Rightarrow> caller \<Rightarrow> int \<Rightarrow> 'c usb_service \<Rightarrow> 'w \<Rightarrow>
    (retcode \<times> bool \<times> 'c usb_service \<times> 'w) option" where
  "RequestSerialRight E c portId s w =
     (let fault = ReportUsbSerialOperationFaultSysEvent ''RequestSerialRight'' in
      case serial_identity E fault ''invalid portId'' portId s w of Inl (ret, s1) \<Rightarrow> Some (ret, False, s1, w)
      | Inr (rm, sm, deviceName, dev) \<Rightarrow>
        if IsSystemAppOrSa c then Some (UEC_OK, True, s, w)
        else (case GetCallingInfo E c w of
            None \<Rightarrow> Some (UEC_SERVICE_INVALID_VALUE, False, fault UEC_SERVICE_INVALID_VALUE ''GetCallingInfo false'' s, w)
          | Some (bundleName, tokenId, userId) \<Rightarrow>
            (case RequestRightSerial (sv_right_env E) (sv_right_db E) portId
                \<lparr>sid_busDev = deviceName, sid_deviceName = dev\<rparr> bundleName tokenId userId rm w of None \<Rightarrow> None
             | Some (ret, rm', w') \<Rightarrow> Some (UEC_OK, ret = UEC_OK, s\<lparr>usbRightManager := Some rm'\<rparr>, w'))))"

text \<open>A system application is told that the right was withdrawn, but its port stays open.\<close>

definition CancelSerialRight :: "('w, 'c, 'm) service_env \<Rightarrow> caller \<Rightarrow> int \<Rightarrow> 'c usb_service \<Rightarrow> 'w \<Rightarrow>
    retcode \<times> 'c usb_service \<times> 'w" where
  "CancelSerialRight E c portId s w =
     (let fault = ReportUsbSerialOperationFaultSysEvent ''CancelSerialRight'' in
      case serial_identity E fault ''validate portId'' portId s w of Inl (ret, s1) \<Rightarrow> (ret, s1, w)
      | Inr (rm, sm, deviceName, dev) \<Rightarrow>
        if IsSystemAppOrSa c then (UEC_OK, s, w)
        else (case GetCallingInfo E c w of
            None \<Rightarrow> (UEC_SERVICE_INVALID_VALUE, fault UEC_SERVICE_INVALID_VALUE ''GetCallingInfo false'' s, w)
          | Some (bundleName, tokenId, userId) \<Rightarrow>
            (case (case RemoveDeviceRight (sv_right_db E) dev bundleName tokenId userId w of (ok, w1) \<Rightarrow>
                     if ok then (True, w1) else RemoveDeviceRight (sv_right_db E) dev bundleName USB_DEFAULT_TOKEN userId w1) of
               (ok, w1) \<Rightarrow>
                 if \<not> ok then (UEC_SERVICE_PERMISSION_DENIED, fault UEC_SERVICE_PERMISSION_DENIED ''RemoveDeviceRight failed'' s, w1)
                 else (case Serial_Manager.SerialClose (sv_serial E) (call_token c) portId sm w1 of (_, sm', w2) \<Rightarrow>
                   (UEC_OK, s\<lparr>usbSerialManager := Some sm'\<rparr>, w2)))))"

definition AddSerialRight :: "('w, 'c, 'm) service_env \<Rightarrow> caller \<Rightarrow> u32 \<Rightarrow> int \<Rightarrow> 'c usb_service \<Rightarrow> 'w \<Rightarrow>
    retcode \<times> 'c usb_service \<times> 'w" where
  "AddSerialRight E c tokenId portId s w =
     (let fault = ReportUsbSerialOperationFaultSysEvent ''AddSerialRight'' in
      if usbRightManager s = None
      then (UEC_SERVICE_INVALID_VALUE, fault UEC_SERVICE_INVALID_VALUE ''usbRightManager_ is nullptr'' s, w)
      else let ret = CheckSysApiPermission E c w in
        if ret \<noteq> UEC_OK then (ret, fault ret ''SerialCheckSysApiPermission failed'' s, w)
        else (case CheckDbAbility E s w of (ret, s1) \<Rightarrow>
          if ret \<noteq> UEC_OK then (ret, s1, w)
          else (case ValidateUsbSerialManagerAndPort portId s1 of
              Inl ret \<Rightarrow> (ret, fault ret ''ValidateUsbSerialManagerAndPort failed'' s1, w)
            | Inr sm \<Rightarrow> (case GetPortVidPidSerialNumber portId s1 of
                Inl ret \<Rightarrow> (ret, fault ret ''can not find deviceName.'' s1, w)
              | Inr (deviceName, dev) \<Rightarrow>
                (case AddDeviceRightToken (sv_right_env E) (sv_right_db E) dev (nat_to_string (unat tokenId)) w of (ok, w1) \<Rightarrow>
                  if \<not> ok then (UEC_SERIAL_DATEBASE_ERROR, fault UEC_SERIAL_DATEBASE_ERROR ''AddDeviceRight failed'' s1, w1)
                  else (UEC_OK, s1, w1))))))"

subsection \<open>The ports\<close>

text \<open>The report of a use of the port, which needs the attributes the caller can read.\<close>

definition ReportUsbSerialOperationSysEvent :: "('w, 'c, 'm) service_env \<Rightarrow> caller \<Rightarrow> int \<Rightarrow> string \<Rightarrow>
    SerialPort serial_manager \<Rightarrow> 'c usb_service \<Rightarrow> 'w \<Rightarrow> SerialPort serial_manager \<times> 'c usb_service \<times> 'w" where
  "ReportUsbSerialOperationSysEvent E c portId operationType sm s w =
     (case GetSerialPort portId sm of None \<Rightarrow> (sm, s, w)
      | Some port \<Rightarrow> (case Serial_Manager.SerialGetAttribute (sv_serial E) (call_token c) portId sm w of (ret, attribute, sm', w') \<Rightarrow>
          if ret \<noteq> UEC_OK then (sm', s, w')
          else (case (GetCallingInfo E c w', attribute) of
              (Some (bundleName, tokenId, userId), Some a) \<Rightarrow>
                (sm', report [SERIAL_OPERATION operationType bundleName port a] s, w')
            | _ \<Rightarrow> (sm', s, w'))))"

definition serial_fault :: "string \<Rightarrow> retcode \<Rightarrow> 'c usb_service \<Rightarrow> 'c usb_service" where
  "serial_fault operation ret = ReportUsbSerialOperationFaultSysEvent operation ret (operation @ '' failed'')"

definition not_validated :: "string \<Rightarrow> retcode \<Rightarrow> 'c usb_service \<Rightarrow> 'c usb_service" where
  "not_validated operation ret = ReportUsbSerialOperationFaultSysEvent operation ret ''ValidateUsbSerialManagerAndPort failed''"

definition SerialOpen :: "('w, 'c, 'm) service_env \<Rightarrow> caller \<Rightarrow> int \<Rightarrow> 'c usb_service \<Rightarrow> 'w \<Rightarrow>
    retcode \<times> 'c usb_service \<times> 'w" where
  "SerialOpen E c portId s w =
     (case ValidateUsbSerialManagerAndPort portId s of Inl ret \<Rightarrow> (ret, not_validated ''SerialOpen'' ret s, w)
      | Inr sm \<Rightarrow> (case HasSerialRight E c portId s w of (_, hasRight, s1, w1) \<Rightarrow>
          if \<not> hasRight
          then (UEC_SERVICE_PERMISSION_DENIED,
            ReportUsbSerialOperationFaultSysEvent ''SerialOpen'' UEC_SERVICE_PERMISSION_DENIED ''There are no permissions'' s1, w1)
          else (case sv_watch E portId (call_token c) w1 of (ok, w2) \<Rightarrow>
            if \<not> ok
            then (UEC_SERVICE_INVALID_VALUE, ReportUsbSerialOperationFaultSysEvent ''SerialOpen'' UEC_SERVICE_INVALID_VALUE
                ''SerialOpen add DeathRecipient failed'' s1, w2)
            else (case Serial_Manager.SerialOpen (sv_serial E) (call_token c) portId sm w2 of (ret, sm', w3) \<Rightarrow>
              if ret \<noteq> UEC_OK then (ret, serial_fault ''SerialOpen'' ret (s1\<lparr>usbSerialManager := Some sm'\<rparr>), w3)
              else (case ReportUsbSerialOperationSysEvent E c portId ''SerialOpen'' sm' s1 w3 of (sm2, s2, w4) \<Rightarrow>
                (UEC_OK, s2\<lparr>usbSerialManager := Some sm2\<rparr>, w4))))))"

definition SerialClose :: "('w, 'c, 'm) service_env \<Rightarrow> caller \<Rightarrow> int \<Rightarrow> 'c usb_service \<Rightarrow> 'w \<Rightarrow>
    retcode \<times> 'c usb_service \<times> 'w" where
  "SerialClose E c portId s w =
     (case ValidateUsbSerialManagerAndPort portId s of Inl ret \<Rightarrow> (ret, not_validated ''SerialClose'' ret s, w)
      | Inr sm \<Rightarrow> (case ReportUsbSerialOperationSysEvent E c portId ''SerialClose'' sm s w of (sm1, s1, w1) \<Rightarrow>
          (case Serial_Manager.SerialClose (sv_serial E) (call_token c) portId sm1 w1 of (ret, sm2, w2) \<Rightarrow>
            let s2 = s1\<lparr>usbSerialManager := Some sm2\<rparr>
            in (ret, if ret \<noteq> UEC_OK then serial_fault ''SerialClose'' ret s2 else s2, w2))))"

text \<open>The data returned by a read is what the driver delivered; it is empty when it was not asked.\<close>

definition SERIALREAD_SIZE_MAX :: nat where "SERIALREAD_SIZE_MAX = 64 * 1024"
definition SERIALWRITE_SIZE_MAX :: nat where "SERIALWRITE_SIZE_MAX = 200 * 1024"

definition SerialRead :: "('w, 'c, 'm) service_env \<Rightarrow> caller \<Rightarrow> int \<Rightarrow> u8 list \<Rightarrow> u32 \<Rightarrow> u32 \<Rightarrow> 'c usb_service \<Rightarrow> 'w \<Rightarrow>
    retcode \<times> (u8 list \<times> u32 option) \<times> 'c usb_service \<times> 'w" where
  "SerialRead E c portId data sz timeout s w =
     (if SERIALREAD_SIZE_MAX < unat sz \<or> SERIALREAD_SIZE_MAX < length data then (UEC_SERIAL_IO_EXCEPTION, ([], None), s, w)
      else (case ValidateUsbSerialManagerAndPort portId s of Inl ret \<Rightarrow> (ret, ([], None), not_validated ''SerialRead'' ret s, w)
        | Inr sm \<Rightarrow> (case Serial_Manager.SerialRead (sv_serial E) (call_token c) portId sz timeout sm w of (ret, res, sm', w') \<Rightarrow>
            let s1 = s\<lparr>usbSerialManager := Some sm'\<rparr>
            in (ret, res, if ret \<noteq> UEC_OK then serial_fault ''SerialRead'' ret s1 else s1, w'))))"

definition SerialWrite :: "('w, 'c, 'm) service_env \<Rightarrow> caller \<Rightarrow> int \<Rightarrow> u8 list \<Rightarrow> u32 \<Rightarrow> u32 \<Rightarrow> 'c usb_service \<Rightarrow> 'w \<Rightarrow>
    retcode \<times> u32 option \<times> 'c usb_service \<times> 'w" where
  "SerialWrite E c portId data sz timeout s w =
     (if SERIALWRITE_SIZE_MAX < unat sz \<or> SERIALWRITE_SIZE_MAX < length data then (UEC_SERIAL_IO_EXCEPTION, None, s, w)
      else (case ValidateUsbSerialManagerAndPort portId s of Inl ret \<Rightarrow> (ret, None, not_validated ''SerialWrite'' ret s, w)
        | Inr sm \<Rightarrow> (case Serial_Manager.SerialWrite (sv_serial E) (call_token c) portId data sz timeout sm w of (ret, n, sm', w') \<Rightarrow>
            let s1 = s\<lparr>usbSerialManager := Some sm'\<rparr>
            in (ret, n, if ret \<noteq> UEC_OK then serial_fault ''SerialWrite'' ret s1 else s1, w'))))"

record UsbSerialAttr =
  usa_baudRate :: u32
  usa_stopBits :: u8
  usa_parity :: u8
  usa_dataBits :: u8

definition SerialAttributeChange :: "UsbSerialAttr \<Rightarrow> SerialAttribute" where
  "SerialAttributeChange a = \<lparr>sa_baudrate = usa_baudRate a, sa_stopBits = usa_stopBits a, sa_parity = usa_parity a,
     sa_dataBits = usa_dataBits a\<rparr>"

definition SerialAttributeBack :: "SerialAttribute \<Rightarrow> UsbSerialAttr" where
  "SerialAttributeBack a = \<lparr>usa_baudRate = sa_baudrate a, usa_stopBits = sa_stopBits a, usa_parity = sa_parity a,
     usa_dataBits = sa_dataBits a\<rparr>"

text \<open>
  The attributes are copied to the caller after a failure too: what the driver left, or (\<open>None\<close>) an
  uninitialised variable.
\<close>

definition SerialGetAttribute :: "('w, 'c, 'm) service_env \<Rightarrow> caller \<Rightarrow> int \<Rightarrow> 'c usb_service \<Rightarrow> 'w \<Rightarrow>
    retcode \<times> UsbSerialAttr option \<times> 'c usb_service \<times> 'w" where
  "SerialGetAttribute E c portId s w =
     (case ValidateUsbSerialManagerAndPort portId s of Inl ret \<Rightarrow> (ret, None, not_validated ''SerialGetAttribute'' ret s, w)
      | Inr sm \<Rightarrow> (case Serial_Manager.SerialGetAttribute (sv_serial E) (call_token c) portId sm w of (ret, a, sm', w') \<Rightarrow>
          let s1 = s\<lparr>usbSerialManager := Some sm'\<rparr>
          in (ret, map_option SerialAttributeBack a, if ret \<noteq> UEC_OK then serial_fault ''SerialGetAttribute'' ret s1 else s1, w')))"

definition SerialSetAttribute :: "('w, 'c, 'm) service_env \<Rightarrow> caller \<Rightarrow> int \<Rightarrow> UsbSerialAttr \<Rightarrow> 'c usb_service \<Rightarrow> 'w \<Rightarrow>
    retcode \<times> 'c usb_service \<times> 'w" where
  "SerialSetAttribute E c portId attributeInfo s w =
     (case ValidateUsbSerialManagerAndPort portId s of Inl ret \<Rightarrow> (ret, not_validated ''SerialSetAttribute'' ret s, w)
      | Inr sm \<Rightarrow> (case Serial_Manager.SerialSetAttribute (sv_serial E) (call_token c) portId (SerialAttributeChange attributeInfo) sm w of
          (ret, sm', w') \<Rightarrow>
            if ret \<noteq> UEC_OK then (ret, serial_fault ''SerialSetAttribute'' ret (s\<lparr>usbSerialManager := Some sm'\<rparr>), w')
            else (case ReportUsbSerialOperationSysEvent E c portId ''SerialSetAttribute'' sm' s w' of (sm2, s2, w2) \<Rightarrow>
              (UEC_OK, s2\<lparr>usbSerialManager := Some sm2\<rparr>, w2))))"

definition FreeTokenId :: "('w, 'c, 'm) service_env \<Rightarrow> int \<Rightarrow> u32 \<Rightarrow> 'c usb_service \<Rightarrow> 'w \<Rightarrow> ('c usb_service \<times> 'w) option" where
  "FreeTokenId E portId tokenId s w = (case usbSerialManager s of None \<Rightarrow> None
     | Some sm \<Rightarrow> (case Serial_Manager.FreeTokenId (sv_serial E) portId tokenId sm w of (sm', w') \<Rightarrow>
         Some (s\<lparr>usbSerialManager := Some sm'\<rparr>, w')))"

text \<open>The death of the client that opened a port: the port is freed, then its right is withdrawn.\<close>

definition SerialOnRemoteDied :: "('w, 'c, 'm) service_env \<Rightarrow> caller \<Rightarrow> int \<Rightarrow> u32 \<Rightarrow> 'c usb_service \<Rightarrow> 'w \<Rightarrow>
    ('c usb_service \<times> 'w) option" where
  "SerialOnRemoteDied E c portId tokenId s w = (case FreeTokenId E portId tokenId s w of None \<Rightarrow> None
     | Some (s1, w1) \<Rightarrow> (case CancelSerialRight E c portId s1 w1 of (_, s2, w2) \<Rightarrow> Some (s2, w2)))"

subsection \<open>Properties\<close>

lemma omap_put_get [simp]: "map_of (omap_put k v m) k = Some v"
  by (induction k v m rule: omap_put.induct) auto

lemma has_either_recorded:
  assumes "ready (sv_right_env E) (sv_right_db E) v" and "saved v w = None" and "uid \<noteq> 0"
    and "has_either E dev app tok uid w = (True, w')"
  shows "list_ex (has_key uid dev app tok) (table v w) \<or> list_ex (has_key uid dev app USB_DEFAULT_TOKEN) (table v w)"
  using no_record_has_neither [OF assms(1-3), of dev app tok] assms(4) by auto

lemma serial_identity_Inr:
  assumes "serial_identity E fault invalid portId s w = Inr (rm, sm, name, dev)"
  shows "usbRightManager s = Some rm" "usbSerialManager s = Some sm" "map_of (serialVidPidMap s) portId = Some (name, dev)"
  using assms by (auto simp: serial_identity_def ValidateUsbSerialManagerAndPort_def CheckDbAbility_def
      GetPortVidPidSerialNumber_def split: option.splits sum.splits if_splits)

lemma HasSerialRight_recorded:
  assumes "ready (sv_right_env E) (sv_right_db E) v" and "saved v w = None" and "\<not> IsSystemAppOrSa c"
    and "GetCallingInfo E c w = Some (app, tok, uid)" and "uid \<noteq> 0"
    and "HasSerialRight E c portId s w = (ret, True, s', w')"
  shows "s' = s" and "\<exists>name dev. map_of (serialVidPidMap s) portId = Some (name, dev) \<and>
    (list_ex (has_key uid dev app tok) (table v w) \<or> list_ex (has_key uid dev app USB_DEFAULT_TOKEN) (table v w))"
  using assms(3,4,6) has_either_recorded [OF assms(1,2,5)]
  by (auto simp: HasSerialRight_def split: sum.splits prod.splits dest: serial_identity_Inr(3))

lemma get_attribute_keeps: "fst (snd (snd (Serial_Manager.SerialGetAttribute hdi t p sm w))) = sm"
  by (simp add: Serial_Manager.SerialGetAttribute_def Let_def split: option.split prod.split)

lemma report_port_owner:
  "portTokenMap (fst (ReportUsbSerialOperationSysEvent E c portId op sm s w)) = portTokenMap sm"
  by (simp add: ReportUsbSerialOperationSysEvent_def case_prod_beta get_attribute_keeps split: option.split)

lemma GetDeviceInfo_returns: "Host_Description.GetDeviceInfo hdi lib b d dev w \<noteq> None"
  using GetDeviceInfoDescriptor_total [of hdi "(b, d)"] GetConfigDescriptor_total [of hdi lib]
  by (simp add: Host_Description.GetDeviceInfo_def case_prod_beta del: not_None_eq split: option.split)

text \<open>
  C6: a serial port is opened only with a right, and for its opener. When \<^verbatim>\<open>SerialOpen\<close> succeeds for
  an application that is not the system's, the rights table has a record of its user and bundle for
  the adapter that the last listing gave for this port, with its token or the default token, and the
  port now belongs to the caller's token.
\<close>

theorem serial_open_needs_right:
  assumes "ready (sv_right_env E) (sv_right_db E) v" and "saved v w = None" and "\<not> IsSystemAppOrSa c"
    and "GetCallingInfo E c w = Some (app, tok, uid)" and "uid \<noteq> USB_RIGHT_USERID_CONSOLE"
    and "SerialOpen E c portId s w = (UEC_OK, s', w')"
  shows "(\<exists>name dev. map_of (serialVidPidMap s) portId = Some (name, dev) \<and>
      (list_ex (has_key uid dev app tok) (table v w) \<or> list_ex (has_key uid dev app USB_DEFAULT_TOKEN) (table v w))) \<and>
    (\<exists>sm. usbSerialManager s' = Some sm \<and> map_of (portTokenMap sm) portId = Some (call_token c))"
proof -
  from assms(5) have u: "uid \<noteq> 0" by simp
  obtain sm where sm: "ValidateUsbSerialManagerAndPort portId s = Inr sm"
    using assms(6) by (cases "ValidateUsbSerialManagerAndPort portId s")
      (auto simp: SerialOpen_def ValidateUsbSerialManagerAndPort_def split: option.splits if_splits)
  obtain ret r s1 w1 where h: "HasSerialRight E c portId s w = (ret, r, s1, w1)" by (cases "HasSerialRight E c portId s w")
  obtain ok w2 where k: "sv_watch E portId (call_token c) w1 = (ok, w2)" by (cases "sv_watch E portId (call_token c) w1")
  obtain ret' sm' w3 where o: "Serial_Manager.SerialOpen (sv_serial E) (call_token c) portId sm w2 = (ret', sm', w3)"
    by (cases "Serial_Manager.SerialOpen (sv_serial E) (call_token c) portId sm w2")
  have ok: "r" "ok" "ret' = UEC_OK" and
    s': "usbSerialManager s' = Some (fst (ReportUsbSerialOperationSysEvent E c portId ''SerialOpen'' sm' s1 w3))"
    using assms(6) by (auto simp: SerialOpen_def sm h k o split: if_splits prod.splits)
  have "map_of (portTokenMap sm') portId = Some (call_token c)"
    using o ok(3) by (auto simp: Serial_Manager.SerialOpen_def ErrorCodeWrap_def split: option.splits if_splits prod.splits)
  with s' report_port_owner [of E c portId "''SerialOpen''" sm' s1 w3]
    HasSerialRight_recorded(2) [OF assms(1-4) u h [unfolded eqTrueI [OF ok(1)]]]
  show ?thesis by auto
qed

text \<open>
  The identity of a port is the one of the last listing. After \<^verbatim>\<open>SerialGetPortList\<close> has
  succeeded, the service knows exactly the listed ports by their place and identity (the first entry
  of a port number counts), and the arrival and the removal of devices do not change that: an adapter
  that takes over the port number of another one has that one's rights until the next listing.
\<close>

theorem port_identity_of_last_listing:
  "(case SerialGetPortList E s w of (ret, ports, s', w') \<Rightarrow>
      if ret = UEC_OK \<and> usbSerialManager s' \<noteq> None
      then map_of (serialVidPidMap s') portId =
        map_of (map (\<lambda>p. (usp_portId p, device_name (usp_busNum p) (usp_devAddr p),
          identity (usp_vid p) (usp_pid p) (usp_serialNum p))) ports) portId
      else serialVidPidMap s' = serialVidPidMap s) \<and>
   (case AddDevice E b d s w of None \<Rightarrow> False | Some (ok, s', w') \<Rightarrow> serialVidPidMap s' = serialVidPidMap s) \<and>
   serialVidPidMap (fst (snd (DelDevice E c b d s w))) = serialVidPidMap s"
  (is "?list \<and> ?add \<and> ?del")
proof (intro conjI)
  have "map_of (foldl (\<lambda>m (k, v). omap_insert k v m) [] kvs) = map_of kvs" for kvs :: "(int \<times> string \<times> string) list"
    using omap.find_insert_all [of "[]" kvs] by simp
  then show ?list
    by (auto simp: SerialGetPortList_def UpdateDeviceVidPidMap_def SerialPortChange_def port_names_def o_def Let_def
        split: option.splits prod.splits if_splits)
next
  show ?add
    using GetDeviceInfo_returns [of "usbHostInterface (sv_host E)" "host_library (sv_host E)" b d new_device w]
    by (auto simp: AddDevice_def GetDeviceInfo_def Let_def split: option.split prod.split)
next
  show ?del
    by (simp add: DelDevice_def Close_def guarded_def plain_def report_def Let_def case_prod_beta split: option.split)
qed

text \<open>
  The right of a dead client is not withdrawn. The death recipient frees the port and then calls
  \<^verbatim>\<open>CancelSerialRight\<close>, which asks who is calling; in a callback that runs with the identity of the
  service itself (a native process) the answer is a system caller, and apart from the port being freed
  nothing happens: the world is the one after \<^verbatim>\<open>FreeTokenId\<close>.
\<close>

theorem dead_client_keeps_right:
  assumes "IsSystemAppOrSa c" and "SerialOnRemoteDied E c portId tokenId s w = Some (s', w')"
  shows "\<exists>sm. usbSerialManager s = Some sm \<and>
    usbSerialManager s' = Some (fst (Serial_Manager.FreeTokenId (sv_serial E) portId tokenId sm w)) \<and>
    w' = snd (Serial_Manager.FreeTokenId (sv_serial E) portId tokenId sm w)"
proof -
  obtain sm where sm: "usbSerialManager s = Some sm" using assms(2)
    by (auto simp: SerialOnRemoteDied_def FreeTokenId_def split: option.splits)
  have e: "serial_identity E (ReportUsbSerialOperationFaultSysEvent op) invalid portId x y = Inl (ret, x1) \<Longrightarrow>
      usbSerialManager x1 = usbSerialManager x" for op invalid x y ret x1
    by (auto simp: serial_identity_def CheckDbAbility_def ReportUsbSerialOperationFaultSysEvent_def report_def
        split: option.splits sum.splits if_splits)
  have k: "snd (snd (CancelSerialRight E c portId x y)) = y \<and>
      usbSerialManager (fst (snd (CancelSerialRight E c portId x y))) = usbSerialManager x" for x y
    using assms(1) e [of "''CancelSerialRight''" "''validate portId''" x y]
    by (auto simp: CancelSerialRight_def Let_def split: sum.split)
  let ?f = "Serial_Manager.FreeTokenId (sv_serial E) portId tokenId sm w"
  let ?r = "CancelSerialRight E c portId (s\<lparr>usbSerialManager := Some (fst ?f)\<rparr>) (snd ?f)"
  have "s' = fst (snd ?r) \<and> w' = snd (snd ?r)"
    using assms(2) sm by (simp add: SerialOnRemoteDied_def FreeTokenId_def case_prod_beta)
  with sm k [of "s\<lparr>usbSerialManager := Some (fst ?f)\<rparr>" "snd ?f"] show ?thesis by simp
qed

subsection \<open>An adapter in memory\<close>

definition sample_port :: SerialPort where
  "sample_port = \<lparr>sp_portId = 1, sp_busNum = 1, sp_devAddr = 2, sp_vid = 4660, sp_pid = 22136, sp_serialNum = ''abc''\<rparr>"

definition adapter_env :: "(memory, unit, unit) service_env" where
  "adapter_env = sample_service_env\<lparr>sv_serial := Some \<lparr>hdi_SerialOpen = (\<lambda>p w. (0, w)), hdi_SerialClose = (\<lambda>p w. (0, w)),
     hdi_SerialRead = (\<lambda>p n t w. (0, [], w)), hdi_SerialWrite = (\<lambda>p d n t w. (0, w)),
     hdi_SerialGetAttribute = (\<lambda>p w. (0, \<lparr>sa_baudrate = 9600, sa_stopBits = 0, sa_parity = 0, sa_dataBits = 8\<rparr>, w)),
     hdi_SerialSetAttribute = (\<lambda>p a w. (0, w)), hdi_SerialGetPortList = (\<lambda>w. (0, [sample_port], w)),
     hdi_portId = sp_portId\<rparr>\<rparr>"

definition adapter_service :: "unit usb_service" where
  "adapter_service = sample_service\<lparr>usbSerialManager := Some (new_serial_manager\<lparr>serialPortMap := [(1, sample_port)]\<rparr>),
     serialVidPidMap := [(1, ''1-2'', ''4660-22136-abc'')]\<rparr>"

definition adapter_row :: right_row where
  "adapter_row = sample_row\<lparr>row_deviceName := ''4660-22136-abc'', row_tokenId := Some ''7''\<rparr>"

definition adapter_world :: memory where
  "adapter_world = \<lparr>rows = [adapter_row], backup = None\<rparr>"

lemma adapter_ready: "ready (sv_right_env adapter_env) (sv_right_db adapter_env) memory_view"
  "rightDatabase (sv_right_db adapter_env) = Some (Some (memory_store 1 True))"
  using sample_service_ready by (simp_all add: adapter_env_def)

lemma adapter_has_right:
  "fst (Right_Manager.HasRight (sv_right_env adapter_env) (sv_right_db adapter_env) ''4660-22136-abc'' ''app'' ''7'' 100
     adapter_world)"
  by (rule HasRight_complete [OF adapter_ready memory_reliable, of _ adapter_row])
     (simp_all add: grantable_def has_key_def adapter_row_def adapter_world_def sample_row_def valid_periods
      IsRecordExpired_def info_of_row_def adapter_env_def sample_service_env_def memory_env_def)

lemma adapter_caller: "GetCallingInfo adapter_env (sample_caller False) w = Some (''app'', ''7'', 100)"
proof -
  have "nat_to_string (unat (call_token (sample_caller False))) = ''7''" by code_simp
  then show ?thesis
    by (simp add: GetCallingInfo_def adapter_env_def sample_service_env_def) (simp add: sample_caller_def)
qed

lemma adapter_opens:
  "fst (SerialOpen adapter_env (sample_caller False) 1 adapter_service adapter_world) = UEC_OK"
proof -
  have v: "ValidateUsbSerialManagerAndPort 1 adapter_service = Inr (new_serial_manager\<lparr>serialPortMap := [(1, sample_port)]\<rparr>)"
    by (simp add: ValidateUsbSerialManagerAndPort_def adapter_service_def IsPortIdExist_def)
  have e: "sv_DbHelper adapter_env adapter_world" by (simp add: adapter_env_def sample_service_env_def)
  have s: "usbRightManager adapter_service = Some \<lparr>usbAbilityConn = False, usbDialogParams = []\<rparr>"
    "map_of (serialVidPidMap adapter_service) 1 = Some (''1-2'', ''4660-22136-abc'')"
    by (simp_all add: adapter_service_def sample_service_def)
  have n: "\<not> IsSystemAppOrSa (sample_caller False)" by (simp add: IsSystemAppOrSa_def sample_caller_def)
  have "fst (snd (HasSerialRight adapter_env (sample_caller False) 1 adapter_service adapter_world))"
    using adapter_has_right
    by (simp add: HasSerialRight_def serial_identity_def CheckDbAbility_def GetPortVidPidSerialNumber_def adapter_caller
        has_either_def case_prod_beta v e s n)
  with v show ?thesis
    by (simp add: SerialOpen_def case_prod_beta)
       (simp add: adapter_env_def sample_service_env_def Serial_Manager.SerialOpen_def new_serial_manager_def)
qed

lemma serial_open_needs_right_witness:
  "list_ex (has_key 100 ''4660-22136-abc'' ''app'' ''7'') (rows adapter_world)"
proof -
  obtain s' w' where o: "SerialOpen adapter_env (sample_caller False) 1 adapter_service adapter_world = (UEC_OK, s', w')"
    using adapter_opens by (cases "SerialOpen adapter_env (sample_caller False) 1 adapter_service adapter_world") auto
  have n: "\<not> IsSystemAppOrSa (sample_caller False)" by (simp add: IsSystemAppOrSa_def sample_caller_def)
  from serial_open_needs_right [OF adapter_ready(1) _ n adapter_caller _ o] show ?thesis
    by (auto simp: adapter_world_def adapter_service_def has_key_def adapter_row_def USB_DEFAULT_TOKEN_def)
qed

lemma dead_client_keeps_right_witness:
  "\<exists>s'. SerialOnRemoteDied adapter_env (sample_caller True) 1 7 adapter_service adapter_world = Some (s', adapter_world)"
proof -
  obtain s' w' where o: "SerialOnRemoteDied adapter_env (sample_caller True) 1 7 adapter_service adapter_world = Some (s', w')"
    by (cases "SerialOnRemoteDied adapter_env (sample_caller True) 1 7 adapter_service adapter_world")
      (auto simp: SerialOnRemoteDied_def FreeTokenId_def adapter_service_def case_prod_beta)
  from dead_client_keeps_right [OF _ o] o show ?thesis
    by (auto simp: IsSystemAppOrSa_def sample_caller_def adapter_service_def Serial_Manager.FreeTokenId_def new_serial_manager_def)
qed

end
