(* ===== verification/Client_Connection.thy ===== *)
theory Client_Connection
  imports Usb_Prelude
begin

section \<open>The client's connection to the service\<close>

text \<open>
  \<^verbatim>\<open>UsbSrvClient\<close> of \<^verbatim>\<open>usb_srv_client.cpp\<close> holds one proxy of the service for the whole process. It
  is fetched from the system ability manager when it is first needed, and dropped and fetched again when
  the service's death is notified. \<open>Connect\<close> and \<open>ResetProxy\<close> run under the client's lock. The calls of
  the service that follow use the proxy without it; here a call is one step, after which a death notice may be
  delivered.
\<close>

subsection \<open>State and operations\<close>

text \<open>
  \<open>'o\<close> are the remote objects, \<open>'p\<close> the proxies made of them. \<open>ce_manager\<close> tells whether the system
  ability manager is there; \<open>ce_LoadSystemAbility\<close> starts the service and waits for it at most the
  given seconds, \<open>ce_CheckSystemAbility\<close> looks whether it runs; \<open>ce_promote\<close> makes a strong pointer of a
  weak one; \<open>ce_sleep\<close> waits milliseconds.
\<close>

record ('w, 'o, 'p) client_env =
  ce_manager :: "'w \<Rightarrow> bool"
  ce_LoadSystemAbility :: "nat \<Rightarrow> nat \<Rightarrow> 'w \<Rightarrow> 'o option \<times> 'w"
  ce_CheckSystemAbility :: "nat \<Rightarrow> 'w \<Rightarrow> 'o option \<times> 'w"
  ce_iface_cast :: "'o \<Rightarrow> 'p"
  ce_AsObject :: "'p \<Rightarrow> 'o option"
  ce_AddDeathRecipient :: "'o \<Rightarrow> 'w \<Rightarrow> bool \<times> 'w"
  ce_RemoveDeathRecipient :: "'o \<Rightarrow> 'w \<Rightarrow> bool \<times> 'w"
  ce_promote :: "'o \<Rightarrow> 'w \<Rightarrow> 'o option"
  ce_sleep :: "nat \<Rightarrow> 'w \<Rightarrow> 'w"
  ce_USB_SYSTEM_ABILITY_ID :: nat
  ce_ERR_INVALID_VALUE :: int

definition WAIT_SERVICE_LOAD :: nat where "WAIT_SERVICE_LOAD = 500"
definition MAX_WAIT_LOAD_SA_SECONDS :: nat where "MAX_WAIT_LOAD_SA_SECONDS = 4"

text \<open>The member \<open>deathRecipient_\<close> is always the recipient that was added last; it is not kept here.\<close>

record 'p usb_client =
  proxy :: "'p option"

definition ConnectUnLocked :: "('w, 'o, 'p) client_env \<Rightarrow> bool \<Rightarrow> 'p usb_client \<Rightarrow> 'w \<Rightarrow> retcode \<times> 'p usb_client \<times> 'w" where
  "ConnectUnLocked ce force cl w =
     (if \<not> ce_manager ce w then (UEC_INTERFACE_GET_SYSTEM_ABILITY_MANAGER_FAILED, cl, w)
      else (case (if force then ce_LoadSystemAbility ce (ce_USB_SYSTEM_ABILITY_ID ce) MAX_WAIT_LOAD_SA_SECONDS w
                  else ce_CheckSystemAbility ce (ce_USB_SYSTEM_ABILITY_ID ce) w) of
          (None, w1) \<Rightarrow> (UEC_INTERFACE_GET_USB_SERVICE_FAILED, cl, w1)
        | (Some remoteObject, w1) \<Rightarrow>
          let p = ce_iface_cast ce remoteObject; cl1 = cl\<lparr>proxy := Some p\<rparr> in
          (case ce_AsObject ce p of None \<Rightarrow> (UEC_INTERFACE_DEAD_OBJECT, cl1, w1)
           | Some deathObject \<Rightarrow> (UEC_OK, cl1, snd (ce_AddDeathRecipient ce deathObject w1)))))"

definition Connect :: "('w, 'o, 'p) client_env \<Rightarrow> bool \<Rightarrow> 'p usb_client \<Rightarrow> 'w \<Rightarrow> retcode \<times> 'p usb_client \<times> 'w" where
  "Connect ce force cl w = (if proxy cl \<noteq> None then (UEC_OK, cl, w) else ConnectUnLocked ce force cl w)"

definition ResetProxy :: "('w, 'o, 'p) client_env \<Rightarrow> 'o \<Rightarrow> 'p usb_client \<Rightarrow> 'w \<Rightarrow> 'p usb_client \<times> 'w" where
  "ResetProxy ce remote cl w = (case proxy cl of None \<Rightarrow> (cl, w)
     | Some p \<Rightarrow> (case ce_AsObject ce p of None \<Rightarrow> (cl, w)
       | Some serviceRemote \<Rightarrow>
         if Some serviceRemote = ce_promote ce remote w
         then (let w1 = snd (ce_RemoveDeathRecipient ce serviceRemote w);
                   w2 = ce_sleep ce WAIT_SERVICE_LOAD w1
               in snd (ConnectUnLocked ce False (cl\<lparr>proxy := None\<rparr>) w2))
         else (cl, w)))"

definition client_OnRemoteDied :: "('w, 'o, 'p) client_env \<Rightarrow> 'o option \<Rightarrow> 'p usb_client \<Rightarrow> 'w \<Rightarrow> 'p usb_client \<times> 'w" where
  "client_OnRemoteDied ce remote cl w = (case remote of None \<Rightarrow> (cl, w) | Some r \<Rightarrow> ResetProxy ce r cl w)"

definition UsbSrvClient :: "('w, 'o, 'p) client_env \<Rightarrow> 'w \<Rightarrow> 'p usb_client \<times> 'w" where
  "UsbSrvClient ce w = snd (Connect ce False \<lparr>proxy = None\<rparr> w)"

text \<open>
  How the client's operations begin: some connect first, the others need the proxy of an earlier call.
  \<open>f\<close> calls the service through the proxy. \<open>Connect\<close> gives \<open>UEC_OK\<close> only with a proxy
  (\<open>Connect_OK\<close>), so the last branch of \<open>connected\<close> is not taken.
\<close>

definition connected :: "('w, 'o, 'p) client_env \<Rightarrow> bool \<Rightarrow> 'a \<Rightarrow> ('p \<Rightarrow> 'w \<Rightarrow> 'a \<times> 'w) \<Rightarrow> 'p usb_client \<Rightarrow> 'w \<Rightarrow>
    'a \<times> 'p usb_client \<times> 'w" where
  "connected ce force unreachable f cl w =
     (case Connect ce force cl w of (ret, cl1, w1) \<Rightarrow>
        if ret \<noteq> UEC_OK then (unreachable, cl1, w1)
        else (case proxy cl1 of Some p \<Rightarrow> (case f p w1 of (r, w2) \<Rightarrow> (r, cl1, w2)) | None \<Rightarrow> (unreachable, cl1, w1)))"

definition via_proxy :: "'a \<Rightarrow> ('p \<Rightarrow> 'w \<Rightarrow> 'a \<times> 'w) \<Rightarrow> 'p usb_client \<Rightarrow> 'w \<Rightarrow> 'a \<times> 'p usb_client \<times> 'w" where
  "via_proxy unreachable f cl w = (case proxy cl of None \<Rightarrow> (unreachable, cl, w)
     | Some p \<Rightarrow> (case f p w of (r, w1) \<Rightarrow> (r, cl, w1)))"

lemma Connect_OK: "Connect ce force cl w = (UEC_OK, cl', w') \<Longrightarrow> \<exists>p. proxy cl' = Some p"
  by (auto simp: Connect_def ConnectUnLocked_def Let_def split: if_splits option.splits prod.splits)

lemma connected_via_proxy:
  "proxy cl = Some p \<Longrightarrow> connected ce force unreachable f cl w = via_proxy unreachable f cl w"
  by (simp add: connected_def via_proxy_def Connect_def)

subsection \<open>The life of the service\<close>

text \<open>
  What the IPC framework and the system ability manager promise, over views of the world: the objects
  whose process is alive, those with a death recipient of this client, those whose death notice is
  under way, and those for which the last attempt of this client to add a recipient was refused. The manager may
  hand out an object that has died meanwhile, and the service may die at any time; when adding a recipient is
  answered with success the object lives or its notice is under way; a proxy's object is the one it was made of; while
  time passes, a watched object that dies leaves a notice. Objects are promoted while the client's proxy refers to them.
\<close>

record ('w, 'o) views =
  alive :: "'w \<Rightarrow> 'o set"
  watched :: "'w \<Rightarrow> 'o set"
  pending :: "'w \<Rightarrow> 'o set"
  refused :: "'w \<Rightarrow> 'o set"

definition time_passes :: "('w, 'o) views \<Rightarrow> 'w \<Rightarrow> 'w \<Rightarrow> bool" where
  "time_passes v w w' \<longleftrightarrow> watched v w \<subseteq> watched v w' \<and> pending v w \<subseteq> pending v w' \<and>
     alive v w \<inter> watched v w \<subseteq> alive v w' \<union> pending v w'"

definition death_notices :: "('w, 'o, 'p) client_env \<Rightarrow> ('w, 'o) views \<Rightarrow> bool" where
  "death_notices ce v \<longleftrightarrow>
     (\<forall>i w ob w'. ce_CheckSystemAbility ce i w = (ob, w') \<longrightarrow> time_passes v w w' \<and> refused v w' = refused v w) \<and>
     (\<forall>i n w ob w'. ce_LoadSystemAbility ce i n w = (ob, w') \<longrightarrow> time_passes v w w' \<and> refused v w' = refused v w) \<and>
     (\<forall>ob. ce_AsObject ce (ce_iface_cast ce ob) = Some ob) \<and>
     (\<forall>ob w b w'. ce_AddDeathRecipient ce ob w = (b, w') \<longrightarrow> time_passes v w w' \<and>
        (b \<longrightarrow> ob \<in> watched v w' \<and> ob \<in> alive v w' \<union> pending v w') \<and>
        refused v w' = (if b then refused v w - {ob} else insert ob (refused v w))) \<and>
     (\<forall>ob w b w'. ce_RemoveDeathRecipient ce ob w = (b, w') \<longrightarrow> alive v w' = alive v w \<and> pending v w' = pending v w \<and>
        watched v w' = watched v w - {ob} \<and> refused v w' = refused v w) \<and>
     (\<forall>ob w. ce_promote ce ob w = Some ob) \<and>
     (\<forall>n w. time_passes v w (ce_sleep ce n w) \<and> refused v (ce_sleep ce n w) = refused v w)"

text \<open>The client constructed, its calls, time passing, and the delivery of death notices, in any order.\<close>

inductive client_run :: "('w, 'o, 'p) client_env \<Rightarrow> ('w, 'o) views \<Rightarrow> 'p usb_client \<Rightarrow> 'w \<Rightarrow> bool" for ce v where
  start: "refused v w = {} \<Longrightarrow> UsbSrvClient ce w = (cl, w') \<Longrightarrow> client_run ce v cl w'"
| call: "client_run ce v cl w \<Longrightarrow> Connect ce force cl w = (ret, cl', w') \<Longrightarrow> client_run ce v cl' w'"
| time: "client_run ce v cl w \<Longrightarrow> time_passes v w w' \<Longrightarrow> refused v w' = refused v w \<Longrightarrow> client_run ce v cl w'"
| notice: "client_run ce v cl w \<Longrightarrow> ob \<in> pending v w \<Longrightarrow>
    alive v w1 = alive v w \<Longrightarrow> watched v w1 = watched v w \<Longrightarrow> pending v w1 = pending v w - {ob} \<Longrightarrow> refused v w1 = refused v w \<Longrightarrow>
    client_OnRemoteDied ce (Some ob) cl w1 = (cl', w') \<Longrightarrow> client_run ce v cl' w'"

text \<open>The proxy's object lives and is watched, or its death notice is under way, or it could not be watched.\<close>

definition proxy_covered :: "('w, 'o, 'p) client_env \<Rightarrow> ('w, 'o) views \<Rightarrow> 'p usb_client \<Rightarrow> 'w \<Rightarrow> bool" where
  "proxy_covered ce v cl w \<longleftrightarrow> (case proxy cl of None \<Rightarrow> True
     | Some p \<Rightarrow> (case ce_AsObject ce p of None \<Rightarrow> False
       | Some ob \<Rightarrow> ob \<in> alive v w \<inter> watched v w \<union> pending v w \<union> refused v w))"

lemma covered_later: "proxy_covered ce v cl w \<Longrightarrow> time_passes v w w' \<Longrightarrow> refused v w' = refused v w \<Longrightarrow> proxy_covered ce v cl w'"
  unfolding proxy_covered_def time_passes_def by (auto split: option.splits)

lemma death_noticesD:
  assumes "death_notices ce v"
  shows "ce_AsObject ce (ce_iface_cast ce b) = Some b"
    and "ce_AddDeathRecipient ce b w = (r, w') \<Longrightarrow> b \<in> alive v w' \<inter> watched v w' \<union> pending v w' \<union> refused v w'"
    and "ce_promote ce b w = Some b"
proof -
  show "ce_AsObject ce (ce_iface_cast ce b) = Some b" and "ce_promote ce b w = Some b"
    using assms by (simp_all add: death_notices_def)
  assume "ce_AddDeathRecipient ce b w = (r, w')"
  moreover have "\<forall>b w r w'. ce_AddDeathRecipient ce b w = (r, w') \<longrightarrow> time_passes v w w' \<and>
      (r \<longrightarrow> b \<in> watched v w' \<and> b \<in> alive v w' \<union> pending v w') \<and>
      refused v w' = (if r then refused v w - {b} else insert b (refused v w))"
    using assms unfolding death_notices_def by (elim conjE)
  ultimately have "(r \<longrightarrow> b \<in> watched v w' \<and> b \<in> alive v w' \<union> pending v w') \<and>
      refused v w' = (if r then refused v w - {b} else insert b (refused v w))" by simp
  then show "b \<in> alive v w' \<inter> watched v w' \<union> pending v w' \<union> refused v w'" by (cases r) auto
qed

lemma ConnectUnLocked_covered:
  assumes D: "death_notices ce v" and "proxy cl = None"
    and C: "snd (ConnectUnLocked ce force cl w) = (cl', w')"
  shows "proxy_covered ce v cl' w'"
proof -
  obtain ob w1 where ob: "(if force then ce_LoadSystemAbility ce (ce_USB_SYSTEM_ABILITY_ID ce) MAX_WAIT_LOAD_SA_SECONDS w
      else ce_CheckSystemAbility ce (ce_USB_SYSTEM_ABILITY_ID ce) w) = (ob, w1)" by fastforce
  show ?thesis
  proof (cases "ce_manager ce w \<and> ob \<noteq> None")
    case True
    then obtain b where b: "ob = Some b" by blast
    obtain r w2 where w2: "ce_AddDeathRecipient ce b w1 = (r, w2)" by fastforce
    note D1 = death_noticesD(1) [OF D, of b] death_noticesD(2) [OF D w2]
    have "cl' = cl\<lparr>proxy := Some (ce_iface_cast ce b)\<rparr>" "w' = w2"
      using C ob b True D1(1) w2 by (auto simp: ConnectUnLocked_def Let_def)
    then show ?thesis using D1 by (simp add: proxy_covered_def)
  next
    case False
    then have "proxy cl' = None"
      using C ob assms(2) by (auto simp: ConnectUnLocked_def Let_def split: if_splits)
    then show ?thesis by (simp add: proxy_covered_def)
  qed
qed

lemma Connect_covered:
  assumes "death_notices ce v" and "proxy_covered ce v cl w" and "Connect ce force cl w = (ret, cl', w')"
  shows "proxy_covered ce v cl' w'"
  using assms ConnectUnLocked_covered [OF assms(1), of cl force w] by (auto simp: Connect_def split: if_splits)

lemma OnRemoteDied_covered:
  assumes D: "death_notices ce v" and I: "proxy_covered ce v cl w"
    and w1: "alive v w1 = alive v w" "watched v w1 = watched v w" "pending v w1 = pending v w - {ob}" "refused v w1 = refused v w"
    and O: "client_OnRemoteDied ce (Some ob) cl w1 = (cl', w')"
  shows "proxy_covered ce v cl' w'"
proof (cases "proxy cl")
  case None
  then show ?thesis using O by (simp add: client_OnRemoteDied_def ResetProxy_def proxy_covered_def)
next
  case (Some p)
  then obtain so where so: "ce_AsObject ce p = Some so" "so \<in> alive v w \<inter> watched v w \<union> pending v w \<union> refused v w"
    using I by (auto simp: proxy_covered_def split: option.splits)
  have pr: "ce_promote ce ob w1 = Some ob" by (rule death_noticesD(3) [OF D])
  show ?thesis
  proof (cases "so = ob")
    case True
    then have "snd (ConnectUnLocked ce False (cl\<lparr>proxy := None\<rparr>)
        (ce_sleep ce WAIT_SERVICE_LOAD (snd (ce_RemoveDeathRecipient ce so w1)))) = (cl', w')"
      using O Some so(1) pr by (auto simp: client_OnRemoteDied_def ResetProxy_def Let_def)
    then show ?thesis by (rule ConnectUnLocked_covered [OF D, rotated]) simp
  next
    case False
    then have "cl' = cl" "w' = w1" using O Some so(1) pr
      by (auto simp: client_OnRemoteDied_def ResetProxy_def)
    then show ?thesis using Some so w1 False by (simp add: proxy_covered_def)
  qed
qed

lemma client_run_covered:
  assumes "client_run ce v cl w" and "death_notices ce v"
  shows "proxy_covered ce v cl w"
  using assms
proof (induction rule: client_run.induct)
  case (start w cl w')
  then have "snd (ConnectUnLocked ce False \<lparr>proxy = None\<rparr> w) = (cl, w')"
    by (simp add: UsbSrvClient_def Connect_def)
  then show ?case by (rule ConnectUnLocked_covered [OF start(3), rotated]) simp
next
  case (call cl w force ret cl' w')
  show ?case by (rule Connect_covered [OF call(4) call(3) [OF call(4)] call(2)])
next
  case (time cl w w')
  show ?case by (rule covered_later [OF time(4) [OF time(5)] time(2,3)])
next
  case (notice cl w ob w1 cl' w')
  show ?case by (rule OnRemoteDied_covered [OF notice(9) notice(8) [OF notice(9)] notice(3-7)])
qed

text \<open>
  C27: when a client goes on with a dead service. In every run of the client - construction, calls,
  deaths and restarts of the service at any time, deliveries of death notices - once no death notice is under way the
  proxy, if there is one, refers to a living object, or to one for which adding the death recipient was refused. The
  code ignores this refusal, and such a proxy is what every later \<open>Connect\<close> returns with \<open>UEC_OK\<close>.
\<close>

theorem client_proxy_alive:
  assumes "client_run ce v cl w" and "death_notices ce v" and "pending v w = {}" and "proxy cl = Some p"
  shows "\<exists>ob. ce_AsObject ce p = Some ob \<and>
    (ob \<in> alive v w \<or> ob \<in> refused v w \<and> (\<forall>force w1. Connect ce force cl w1 = (UEC_OK, cl, w1)))"
  using client_run_covered [OF assms(1,2)] assms(3,4) by (auto simp: proxy_covered_def Connect_def split: option.splits)

text \<open>
  A registry with at most one living service, whose objects are numbered. When \<open>reg_ailing\<close> is set the service
  dies as soon as it has been looked up.
\<close>

record registry =
  reg_alive :: "nat set"
  reg_watched :: "nat set"
  reg_pending :: "nat set"
  reg_refused :: "nat set"
  reg_ailing :: bool

definition registry_check :: "registry \<Rightarrow> nat option \<times> registry" where
  "registry_check w = (if 0 \<in> reg_alive w then Some 0 else if 1 \<in> reg_alive w then Some 1 else None,
     if reg_ailing w then w\<lparr>reg_alive := {}, reg_pending := reg_pending w \<union> reg_alive w \<inter> reg_watched w\<rparr> else w)"

definition registry_env :: "(registry, nat, nat) client_env" where
  "registry_env = \<lparr>ce_manager = (\<lambda>_. True), ce_LoadSystemAbility = (\<lambda>_ _ w. (None, w)),
     ce_CheckSystemAbility = (\<lambda>_. registry_check), ce_iface_cast = id, ce_AsObject = Some,
     ce_AddDeathRecipient = (\<lambda>ob w. if ob \<in> reg_alive w
       then (True, w\<lparr>reg_watched := insert ob (reg_watched w), reg_refused := reg_refused w - {ob}\<rparr>)
       else (False, w\<lparr>reg_refused := insert ob (reg_refused w)\<rparr>)),
     ce_RemoveDeathRecipient = (\<lambda>ob w. (True, w\<lparr>reg_watched := reg_watched w - {ob}\<rparr>)),
     ce_promote = (\<lambda>ob w. Some ob), ce_sleep = (\<lambda>_ w. w), ce_USB_SYSTEM_ABILITY_ID = 4201, ce_ERR_INVALID_VALUE = 22\<rparr>"

definition registry_views :: "(registry, nat) views" where
  "registry_views = \<lparr>alive = reg_alive, watched = reg_watched, pending = reg_pending, refused = reg_refused\<rparr>"

lemma registry_env_notices: "death_notices registry_env registry_views"
  by (auto simp: death_notices_def registry_env_def registry_views_def registry_check_def time_passes_def split: if_splits)

lemmas connection_defs = UsbSrvClient_def Connect_def ConnectUnLocked_def client_OnRemoteDied_def ResetProxy_def
lemmas registry_defs = registry_env_def registry_views_def registry_check_def

abbreviation registry_at :: "nat set \<Rightarrow> nat set \<Rightarrow> nat set \<Rightarrow> registry" where
  "registry_at a wd pd \<equiv> \<lparr>reg_alive = a, reg_watched = wd, reg_pending = pd, reg_refused = {}, reg_ailing = False\<rparr>"

text \<open>The service with object 0 dies, is restarted with object 1, and the client follows.\<close>

lemma registry_run: "client_run registry_env registry_views \<lparr>proxy = Some 1\<rparr> (registry_at {1} {1} {})"
proof -
  let ?run = "client_run registry_env registry_views"
  have "?run \<lparr>proxy = Some 0\<rparr> (registry_at {0} {0} {})"
    by (rule client_run.start [of _ "registry_at {0} {} {}"]) (simp_all add: connection_defs registry_defs)
  then have "?run \<lparr>proxy = Some 0\<rparr> (registry_at {1} {0} {0})"
    by (rule client_run.time) (simp_all add: time_passes_def registry_views_def)
  then show ?thesis
    by (rule client_run.notice [of _ _ _ _ 0 "registry_at {1} {0} {}"]) (simp_all add: connection_defs registry_defs)
qed

text \<open>The service dies after it was looked up: the client keeps the proxy of the dead object 0.\<close>

abbreviation orphaned :: registry where
  "orphaned \<equiv> \<lparr>reg_alive = {}, reg_watched = {}, reg_pending = {}, reg_refused = {0}, reg_ailing = True\<rparr>"

lemma orphaned_run: "client_run registry_env registry_views \<lparr>proxy = Some 0\<rparr> orphaned"
  by (rule client_run.start [of _ "\<lparr>reg_alive = {0}, reg_watched = {}, reg_pending = {}, reg_refused = {}, reg_ailing = True\<rparr>"])
    (simp_all add: connection_defs registry_defs)

theorem client_proxy_alive_witness:
  "(\<exists>ob. ce_AsObject registry_env 1 = Some ob \<and> ob \<in> reg_alive (registry_at {1} {1} {})) \<and>
   (\<exists>ob. ce_AsObject registry_env 0 = Some ob \<and> ob \<notin> reg_alive orphaned \<and>
     Connect registry_env True \<lparr>proxy = Some 0\<rparr> orphaned = (UEC_OK, \<lparr>proxy = Some 0\<rparr>, orphaned))"
  using client_proxy_alive [OF registry_run registry_env_notices, of 1] client_proxy_alive [OF orphaned_run registry_env_notices, of 0]
  by (simp add: registry_views_def)

end
