(* ===== verification/Usb_Client.thy ===== *)
theory Usb_Client
  imports Service_Permission Service_Serial Client_Connection
begin

section \<open>The client library\<close>

text \<open>
  The operations of \<^verbatim>\<open>UsbSrvClient\<close> (\<^verbatim>\<open>usb_srv_client.cpp\<close>), in the build with the host, device and
  port features, and of the objects applications hold, \<^verbatim>\<open>USBDevicePipe\<close> and \<^verbatim>\<open>UsbRequest\<close>. They
  carry the prefix of their class. Each fetches or needs the proxy, converts its arguments to what
  the interface definition \<^verbatim>\<open>IUsbServer.idl\<close> declares, calls the proxy and returns the code with the
  values of the output parameters.
\<close>

subsection \<open>The proxy\<close>

text \<open>
  The generated proxy is the record \<open>server\<close>. The requests on a device are those of
  \<open>Service_Permission.device_call\<close>; their reply is \<open>Nothing\<close> when it did not arrive, and the caller's
  variable keeps its value then. The other methods take what the caller's variable held.
\<close>

record ('c, 'w) host_server =
  px_device :: "'c device_call \<Rightarrow> u8 \<Rightarrow> u8 \<Rightarrow> 'w \<Rightarrow> retcode \<times> reply \<times> 'w"
  px_GetDevices :: "UsbDevice list \<Rightarrow> 'w \<Rightarrow> retcode \<times> UsbDevice list \<times> 'w"
  px_HasRight :: "string \<Rightarrow> bool \<Rightarrow> 'w \<Rightarrow> retcode \<times> bool \<times> 'w"
  px_RequestRight :: "string \<Rightarrow> 'w \<Rightarrow> retcode \<times> 'w"
  px_RemoveRight :: "string \<Rightarrow> 'w \<Rightarrow> retcode \<times> 'w"
  px_AddRight :: "string \<Rightarrow> string \<Rightarrow> 'w \<Rightarrow> retcode \<times> 'w"
  px_AddAccessRight :: "string \<Rightarrow> string \<Rightarrow> 'w \<Rightarrow> retcode \<times> 'w"
  px_ManageGlobalInterface :: "bool \<Rightarrow> 'w \<Rightarrow> retcode \<times> 'w"
  px_ManageDevice :: "i32 \<Rightarrow> i32 \<Rightarrow> bool \<Rightarrow> 'w \<Rightarrow> retcode \<times> 'w"
  px_ManageDevicePolicy :: "UsbDeviceIdInfo list \<Rightarrow> 'w \<Rightarrow> retcode \<times> 'w"
  px_ManageInterfaceType :: "UsbDeviceTypeInfo list \<Rightarrow> bool \<Rightarrow> 'w \<Rightarrow> retcode \<times> 'w"
  px_GetDeviceSpeed :: "u8 \<Rightarrow> u8 \<Rightarrow> u8 \<Rightarrow> 'w \<Rightarrow> retcode \<times> u8 \<times> 'w"
  px_GetInterfaceActiveStatus :: "u8 \<Rightarrow> u8 \<Rightarrow> u8 \<Rightarrow> bool \<Rightarrow> 'w \<Rightarrow> retcode \<times> bool \<times> 'w"

record ('c, 'w) gadget_server = "('c, 'w) host_server" +
  px_GetCurrentFunctions :: "u32 \<Rightarrow> 'w \<Rightarrow> retcode \<times> u32 \<times> 'w"
  px_SetCurrentFunctions :: "u32 \<Rightarrow> 'w \<Rightarrow> retcode \<times> 'w"
  px_UsbFunctionsFromString :: "string \<Rightarrow> u32 \<Rightarrow> 'w \<Rightarrow> retcode \<times> u32 \<times> 'w"
  px_UsbFunctionsToString :: "u32 \<Rightarrow> string \<Rightarrow> 'w \<Rightarrow> retcode \<times> string \<times> 'w"
  px_GetAccessoryList :: "USBAccessory list \<Rightarrow> 'w \<Rightarrow> retcode \<times> USBAccessory list \<times> 'w"
  px_OpenAccessory :: "USBAccessory \<Rightarrow> int \<Rightarrow> 'w \<Rightarrow> retcode \<times> int \<times> 'w"
  px_AddAccessoryRight :: "u32 \<Rightarrow> USBAccessory \<Rightarrow> 'w \<Rightarrow> retcode \<times> 'w"
  px_HasAccessoryRight :: "USBAccessory \<Rightarrow> bool \<Rightarrow> 'w \<Rightarrow> retcode \<times> bool \<times> 'w"
  px_RequestAccessoryRight :: "USBAccessory \<Rightarrow> bool \<Rightarrow> 'w \<Rightarrow> retcode \<times> bool \<times> 'w"
  px_CancelAccessoryRight :: "USBAccessory \<Rightarrow> 'w \<Rightarrow> retcode \<times> 'w"
  px_CloseAccessory :: "int \<Rightarrow> 'w \<Rightarrow> retcode \<times> 'w"
  px_GetPorts :: "UsbPort list \<Rightarrow> 'w \<Rightarrow> retcode \<times> UsbPort list \<times> 'w"
  px_GetSupportedModes :: "int \<Rightarrow> int \<Rightarrow> 'w \<Rightarrow> retcode \<times> int \<times> 'w"
  px_SetPortRole :: "int \<Rightarrow> int \<Rightarrow> int \<Rightarrow> 'w \<Rightarrow> retcode \<times> 'w"

record ('c, 'w) server = "('c, 'w) gadget_server" +
  px_SerialOpen :: "int \<Rightarrow> 'c \<Rightarrow> 'w \<Rightarrow> retcode \<times> 'w"
  px_SerialClose :: "int \<Rightarrow> 'w \<Rightarrow> retcode \<times> 'w"
  px_SerialRead :: "int \<Rightarrow> u32 \<Rightarrow> u32 \<Rightarrow> u8 list \<times> u32 \<Rightarrow> 'w \<Rightarrow> retcode \<times> (u8 list \<times> u32) \<times> 'w"
  px_SerialWrite :: "int \<Rightarrow> u8 list \<Rightarrow> u32 \<Rightarrow> u32 \<Rightarrow> u32 \<Rightarrow> 'w \<Rightarrow> retcode \<times> u32 \<times> 'w"
  px_SerialGetAttribute :: "int \<Rightarrow> UsbSerialAttr \<Rightarrow> 'w \<Rightarrow> retcode \<times> UsbSerialAttr \<times> 'w"
  px_SerialSetAttribute :: "int \<Rightarrow> UsbSerialAttr \<Rightarrow> 'w \<Rightarrow> retcode \<times> 'w"
  px_SerialGetPortList :: "UsbSerialPort list \<Rightarrow> 'w \<Rightarrow> retcode \<times> UsbSerialPort list \<times> 'w"
  px_HasSerialRight :: "int \<Rightarrow> bool \<Rightarrow> 'w \<Rightarrow> retcode \<times> bool \<times> 'w"
  px_CancelSerialRight :: "int \<Rightarrow> 'w \<Rightarrow> retcode \<times> 'w"
  px_RequestSerialRight :: "int \<Rightarrow> bool \<Rightarrow> 'w \<Rightarrow> retcode \<times> bool \<times> 'w"
  px_AddSerialRight :: "u32 \<Rightarrow> int \<Rightarrow> 'w \<Rightarrow> retcode \<times> 'w"

text \<open>How a method with output parameters gives its results to the client's operation.\<close>

definition outcome :: "retcode \<times> 'a \<times> 'w \<Rightarrow> (retcode \<times> 'a) \<times> 'w" where
  "outcome r = (case r of (ret, x, w) \<Rightarrow> ((ret, x), w))"

definition reply_bytes :: "u8 list \<Rightarrow> reply \<Rightarrow> u8 list" where
  "reply_bytes old r = (case r of Bytes b \<Rightarrow> b | _ \<Rightarrow> old)"

definition reply_descriptor :: "int \<Rightarrow> reply \<Rightarrow> int" where
  "reply_descriptor old r = (case r of Descriptor fd \<Rightarrow> fd | _ \<Rightarrow> old)"

definition reply_request :: "u8 list \<times> u8 list \<Rightarrow> reply \<Rightarrow> u8 list \<times> u8 list" where
  "reply_request old r = (case r of Request d \<Rightarrow> d | _ \<Rightarrow> old)"

subsection \<open>Pipes and requests\<close>

record USBDevicePipe =
  pipe_busNum :: u8
  pipe_devAddr :: u8

definition new_pipe :: USBDevicePipe where
  "new_pipe = \<lparr>pipe_busNum = 255, pipe_devAddr = 255\<rparr>"

record UsbRequest =
  req_pipe :: USBDevicePipe
  req_endpoint :: USBEndpoint
  req_clientData :: "u8 list"
  req_reqData :: "u8 list"

text \<open>The operations take the map \<open>srv\<close> from a proxy to its methods.\<close>

type_synonym ('c, 'w, 'p, 'a) client_op = "('p \<Rightarrow> ('c, 'w) server) \<Rightarrow> 'p usb_client \<Rightarrow> 'w \<Rightarrow> 'a \<times> 'p usb_client \<times> 'w"

definition on_device :: "'c device_call \<Rightarrow> (reply \<Rightarrow> 'a) \<Rightarrow> USBDevicePipe \<Rightarrow> ('c, 'w) server \<Rightarrow> 'w \<Rightarrow> (retcode \<times> 'a) \<times> 'w" where
  "on_device call get pipe sv w = (case px_device sv call (pipe_busNum pipe) (pipe_devAddr pipe) w of
     (ret, r, w') \<Rightarrow> ((ret, get r), w'))"

definition on_device_plain :: "'c device_call \<Rightarrow> USBDevicePipe \<Rightarrow> ('c, 'w) server \<Rightarrow> 'w \<Rightarrow> retcode \<times> 'w" where
  "on_device_plain call pipe sv w = (case px_device sv call (pipe_busNum pipe) (pipe_devAddr pipe) w of (ret, _, w') \<Rightarrow> (ret, w'))"

subsection \<open>Devices and rights\<close>

definition client_OpenDevice :: "('w, 'o, 'p) client_env \<Rightarrow> UsbDevice \<Rightarrow> USBDevicePipe \<Rightarrow> ('c, 'w, 'p, retcode \<times> USBDevicePipe) client_op" where
  "client_OpenDevice ce device pipe srv = connected ce False (UEC_INTERFACE_NO_INIT, pipe) (\<lambda>p w.
     case px_device (srv p) Call_OpenDevice (dev_busNum device) (dev_devAddr device) w of (ret, _, w') \<Rightarrow>
       if ret \<noteq> UEC_OK then ((ret, pipe), w')
       else ((UEC_OK, pipe\<lparr>pipe_busNum := dev_busNum device, pipe_devAddr := dev_devAddr device\<rparr>), w'))"

definition client_ResetDevice :: "('w, 'o, 'p) client_env \<Rightarrow> USBDevicePipe \<Rightarrow> ('c, 'w, 'p, retcode) client_op" where
  "client_ResetDevice ce pipe srv = connected ce False UEC_INTERFACE_NO_INIT (\<lambda>p. on_device_plain Call_ResetDevice pipe (srv p))"

definition client_HasRight :: "('w, 'o, 'p) client_env \<Rightarrow> string \<Rightarrow> ('c, 'w, 'p, bool) client_op" where
  "client_HasRight ce deviceName srv = connected ce False False (\<lambda>p w.
     case px_HasRight (srv p) deviceName False w of (_, hasRight, w') \<Rightarrow> (hasRight, w'))"

definition client_RequestRight :: "('w, 'o, 'p) client_env \<Rightarrow> string \<Rightarrow> ('c, 'w, 'p, retcode) client_op" where
  "client_RequestRight ce deviceName srv = connected ce False UEC_INTERFACE_NO_INIT (\<lambda>p. px_RequestRight (srv p) deviceName)"

definition client_RemoveRight :: "('w, 'o, 'p) client_env \<Rightarrow> string \<Rightarrow> ('c, 'w, 'p, retcode) client_op" where
  "client_RemoveRight ce deviceName srv = connected ce False UEC_INTERFACE_NO_INIT (\<lambda>p. px_RemoveRight (srv p) deviceName)"

definition client_GetDevices :: "('w, 'o, 'p) client_env \<Rightarrow> UsbDevice list \<Rightarrow> ('c, 'w, 'p, retcode \<times> UsbDevice list) client_op" where
  "client_GetDevices ce deviceList srv = connected ce False (UEC_INTERFACE_NO_INIT, deviceList) (\<lambda>p w.
     outcome (px_GetDevices (srv p) deviceList w))"

definition client_AddRight :: "('w, 'o, 'p) client_env \<Rightarrow> string \<Rightarrow> string \<Rightarrow> ('c, 'w, 'p, retcode) client_op" where
  "client_AddRight ce bundleName deviceName srv =
     connected ce False UEC_INTERFACE_NO_INIT (\<lambda>p. px_AddRight (srv p) bundleName deviceName)"

definition client_AddAccessRight :: "('w, 'o, 'p) client_env \<Rightarrow> string \<Rightarrow> string \<Rightarrow> ('c, 'w, 'p, retcode) client_op" where
  "client_AddAccessRight ce tokenId deviceName srv =
     connected ce False UEC_INTERFACE_NO_INIT (\<lambda>p. px_AddAccessRight (srv p) tokenId deviceName)"

definition client_GetRawDescriptors :: "('w, 'o, 'p) client_env \<Rightarrow> USBDevicePipe \<Rightarrow> u8 list \<Rightarrow> ('c, 'w, 'p, retcode \<times> u8 list) client_op" where
  "client_GetRawDescriptors ce pipe bufferData srv = connected ce False (UEC_INTERFACE_NO_INIT, bufferData) (\<lambda>p.
     on_device (Call_GetRawDescriptor bufferData) (reply_bytes bufferData) pipe (srv p))"

definition client_GetFileDescriptor :: "('w, 'o, 'p) client_env \<Rightarrow> USBDevicePipe \<Rightarrow> int \<Rightarrow> ('c, 'w, 'p, retcode \<times> int) client_op" where
  "client_GetFileDescriptor ce pipe fd srv = connected ce False (UEC_INTERFACE_NO_INIT, fd) (\<lambda>p.
     on_device (Call_GetFileDescriptor fd) (reply_descriptor fd) pipe (srv p))"

definition client_GetDeviceSpeed :: "('w, 'o, 'p) client_env \<Rightarrow> USBDevicePipe \<Rightarrow> u8 \<Rightarrow> ('c, 'w, 'p, retcode \<times> u8) client_op" where
  "client_GetDeviceSpeed ce pipe speed srv = connected ce False (UEC_INTERFACE_NO_INIT, speed) (\<lambda>p w.
     outcome (px_GetDeviceSpeed (srv p) (pipe_busNum pipe) (pipe_devAddr pipe) speed w))"

definition client_GetInterfaceActiveStatus :: "('w, 'o, 'p) client_env \<Rightarrow> USBDevicePipe \<Rightarrow> UsbInterface \<Rightarrow> bool \<Rightarrow>
    ('c, 'w, 'p, retcode \<times> bool) client_op" where
  "client_GetInterfaceActiveStatus ce pipe interface unactivated srv = connected ce False (UEC_INTERFACE_NO_INIT, unactivated) (\<lambda>p w.
     outcome (px_GetInterfaceActiveStatus (srv p) (pipe_busNum pipe) (pipe_devAddr pipe) (ucast (if_id interface)) unactivated w))"

subsection \<open>Interfaces and transfers\<close>

text \<open>
  These need the proxy an earlier call has fetched. Identifiers of interfaces and configurations and
  addresses of endpoints are cut to eight bits.
\<close>

definition by_pipe :: "'c device_call \<Rightarrow> USBDevicePipe \<Rightarrow> ('c, 'w, 'p, retcode) client_op" where
  "by_pipe call pipe srv = via_proxy UEC_INTERFACE_NO_INIT (\<lambda>p. on_device_plain call pipe (srv p))"

definition client_ClaimInterface :: "USBDevicePipe \<Rightarrow> UsbInterface \<Rightarrow> bool \<Rightarrow> ('c, 'w, 'p, retcode) client_op" where
  "client_ClaimInterface pipe interface force = by_pipe (Call_ClaimInterface (ucast (if_id interface)) (of_bool force)) pipe"

definition client_UsbAttachKernelDriver :: "USBDevicePipe \<Rightarrow> UsbInterface \<Rightarrow> ('c, 'w, 'p, retcode) client_op" where
  "client_UsbAttachKernelDriver pipe interface = by_pipe (Call_UsbAttachKernelDriver (ucast (if_id interface))) pipe"

definition client_UsbDetachKernelDriver :: "USBDevicePipe \<Rightarrow> UsbInterface \<Rightarrow> ('c, 'w, 'p, retcode) client_op" where
  "client_UsbDetachKernelDriver pipe interface = by_pipe (Call_UsbDetachKernelDriver (ucast (if_id interface))) pipe"

definition client_ReleaseInterface :: "USBDevicePipe \<Rightarrow> UsbInterface \<Rightarrow> ('c, 'w, 'p, retcode) client_op" where
  "client_ReleaseInterface pipe interface = by_pipe (Call_ReleaseInterface (ucast (if_id interface))) pipe"

definition client_SetConfiguration :: "USBDevicePipe \<Rightarrow> USBConfig \<Rightarrow> ('c, 'w, 'p, retcode) client_op" where
  "client_SetConfiguration pipe config = by_pipe (Call_SetActiveConfig (ucast (cf_id config))) pipe"

definition client_SetInterface :: "USBDevicePipe \<Rightarrow> UsbInterface \<Rightarrow> ('c, 'w, 'p, retcode) client_op" where
  "client_SetInterface pipe interface =
     by_pipe (Call_SetInterface (ucast (if_id interface)) (ucast (if_alternateSetting interface))) pipe"

definition client_ClearHalt :: "USBDevicePipe \<Rightarrow> USBEndpoint \<Rightarrow> ('c, 'w, 'p, retcode) client_op" where
  "client_ClearHalt pipe ep = by_pipe (Call_ClearHalt (ep_interfaceId ep) (ucast (ep_address ep))) pipe"

definition client_Close :: "USBDevicePipe \<Rightarrow> ('c, 'w, 'p, bool) client_op" where
  "client_Close pipe srv = via_proxy False (\<lambda>p w. case on_device_plain Call_Close pipe (srv p) w of (ret, w') \<Rightarrow> (ret = UEC_OK, w'))"

text \<open>A read sends the size of the caller's buffer and replaces the buffer; a write sends the buffer.\<close>

definition client_BulkTransfer :: "USBDevicePipe \<Rightarrow> USBEndpoint \<Rightarrow> u8 list \<Rightarrow> int \<Rightarrow> ('c, 'w, 'p, retcode \<times> u8 list) client_op" where
  "client_BulkTransfer pipe endpoint bufferData timeOut srv = via_proxy (UEC_INTERFACE_NO_INIT, bufferData) (\<lambda>p.
     if USB_ENDPOINT_DIR_IN = GetDirection endpoint
     then on_device (Call_BulkTransferReadwithLength endpoint (sint (of_nat (length bufferData) :: i32)) [] timeOut)
       (reply_bytes []) pipe (srv p)
     else if USB_ENDPOINT_DIR_OUT = GetDirection endpoint
     then on_device (Call_BulkTransferWrite endpoint bufferData timeOut) (\<lambda>_. bufferData) pipe (srv p)
     else (\<lambda>w. ((UEC_INTERFACE_INVALID_VALUE, bufferData), w)))"

text \<open>The parameters without a length leave the member \<open>length\<close> as it was declared: \<open>l\<close>.\<close>

definition client_UsbCtrlTransferChange :: "i32 \<Rightarrow> UsbCtrlTransfer \<Rightarrow> UsbCtlSetUp" where
  "client_UsbCtrlTransferChange l p = \<lparr>cs_reqType = ct_requestType p, cs_reqCmd = ct_requestCmd p, cs_value = ct_value p,
     cs_index = ct_index p, cs_length = l, cs_timeout = ct_timeout p\<rparr>"

definition client_UsbCtrlTransferParamsChange :: "UsbCtrlTransferParams \<Rightarrow> UsbCtlSetUp" where
  "client_UsbCtrlTransferParamsChange p = \<lparr>cs_reqType = ct_requestType p, cs_reqCmd = ct_requestCmd p, cs_value = ct_value p,
     cs_index = ct_index p, cs_length = ct_length p, cs_timeout = ct_timeout p\<rparr>"

definition sent_buffer :: "UsbCtlSetUp \<Rightarrow> u8 list \<Rightarrow> u8 list" where
  "sent_buffer ctlSetup bufferData = (if cs_reqType ctlSetup AND USB_ENDPOINT_DIR_MASK = USB_ENDPOINT_DIR_IN then [] else bufferData)"

definition client_ControlTransfer :: "i32 \<Rightarrow> USBDevicePipe \<Rightarrow> UsbCtrlTransfer \<Rightarrow> u8 list \<Rightarrow>
    ('c, 'w, 'p, retcode \<times> u8 list) client_op" where
  "client_ControlTransfer l pipe ctrl bufferData srv = via_proxy (UEC_INTERFACE_NO_INIT, bufferData) (\<lambda>p.
     let ctlSetup = client_UsbCtrlTransferChange l ctrl; buf = sent_buffer ctlSetup bufferData in
     on_device (Call_ControlTransfer ctlSetup buf) (reply_bytes buf) pipe (srv p))"

definition client_UsbControlTransfer :: "USBDevicePipe \<Rightarrow> UsbCtrlTransferParams \<Rightarrow> u8 list \<Rightarrow>
    ('c, 'w, 'p, retcode \<times> u8 list) client_op" where
  "client_UsbControlTransfer pipe ctrlParams bufferData srv = via_proxy (UEC_INTERFACE_NO_INIT, bufferData) (\<lambda>p.
     let ctlSetup = client_UsbCtrlTransferParamsChange ctrlParams; buf = sent_buffer ctlSetup bufferData in
     on_device (Call_UsbControlTransfer ctlSetup buf) (reply_bytes buf) pipe (srv p))"

text \<open>The interface takes the time-out of a wait in 32 bits.\<close>

definition client_PipeRequestWait :: "USBDevicePipe \<Rightarrow> int \<Rightarrow> UsbRequest \<Rightarrow> ('c, 'w, 'p, retcode \<times> UsbRequest) client_op" where
  "client_PipeRequestWait pipe timeOut req srv = via_proxy (UEC_INTERFACE_NO_INIT, req) (\<lambda>p w.
     case on_device (Call_RequestWait (sint (of_int timeOut :: i32)) [] []) (reply_request ([], [])) pipe (srv p) w of
       ((ret, clientData, bufferData), w') \<Rightarrow>
         if ret \<noteq> UEC_OK then ((ret, req), w')
         else ((ret, req\<lparr>req_pipe := pipe, req_clientData := clientData, req_reqData := bufferData\<rparr>), w'))"

definition CLAIM_FORCE_1 :: u8 where "CLAIM_FORCE_1 = 1"

definition client_RequestInitialize :: "UsbRequest \<Rightarrow> ('c, 'w, 'p, retcode) client_op" where
  "client_RequestInitialize request =
     by_pipe (Call_ClaimInterface (ep_interfaceId (req_endpoint request)) CLAIM_FORCE_1) (req_pipe request)"

definition client_RequestFree :: "UsbRequest \<Rightarrow> ('c, 'w, 'p, retcode) client_op" where
  "client_RequestFree request =
     by_pipe (Call_RequestCancel (ep_interfaceId (req_endpoint request)) (ucast (ep_address (req_endpoint request)))) (req_pipe request)"

definition client_RequestAbort :: "UsbRequest \<Rightarrow> ('c, 'w, 'p, retcode) client_op" where
  "client_RequestAbort request =
     by_pipe (Call_RequestCancel (ep_interfaceId (req_endpoint request)) (ucast (ep_address (req_endpoint request)))) (req_pipe request)"

definition client_RequestQueue :: "UsbRequest \<Rightarrow> ('c, 'w, 'p, retcode) client_op" where
  "client_RequestQueue request =
     by_pipe (Call_RequestQueue (req_endpoint request) (req_clientData request) (req_reqData request)) (req_pipe request)"

definition client_UsbCancelTransfer :: "USBDevicePipe \<Rightarrow> int \<Rightarrow> ('c, 'w, 'p, retcode) client_op" where
  "client_UsbCancelTransfer pipe endpoint = by_pipe (Call_UsbCancelTransfer endpoint) pipe"

definition client_UsbTransInfoChange :: "USBTransferInfo \<Rightarrow> UsbTransInfo" where
  "client_UsbTransInfoChange p = \<lparr>ti_endpoint = xi_endpoint p, ti_flags = xi_flags p, ti_type = xi_type p,
     ti_timeOut = xi_timeOut p, ti_length = xi_length p, ti_userData = xi_userData p, ti_numIsoPackets = xi_numIsoPackets p\<rparr>"

definition PARAM_ERROR :: int where "PARAM_ERROR = 401"

text \<open>
  \<open>cb\<close> is the client's function, \<open>new_server\<close> makes the callback object of it; the shared memory is its
  descriptor and its size.
\<close>

definition client_UsbSubmitTransfer :: "('f \<Rightarrow> 'w \<Rightarrow> 'c \<times> 'w) \<Rightarrow> USBDevicePipe \<Rightarrow> USBTransferInfo \<Rightarrow> 'f option \<Rightarrow> int \<times> int \<Rightarrow>
    ('c, 'w, 'p, retcode) client_op" where
  "client_UsbSubmitTransfer new_server pipe info cb ashmem srv = via_proxy UEC_INTERFACE_NO_INIT (\<lambda>p w.
     case cb of None \<Rightarrow> (Code PARAM_ERROR, w)
     | Some f \<Rightarrow> (case new_server f w of (callBackService, w1) \<Rightarrow>
         on_device_plain (Call_UsbSubmitTransfer (client_UsbTransInfoChange info) (Some callBackService) (fst ashmem) (snd ashmem))
           pipe (srv p) w1))"

definition client_RegBulkCallback :: "USBDevicePipe \<Rightarrow> USBEndpoint \<Rightarrow> 'c option \<Rightarrow> ('c, 'w, 'p, retcode) client_op" where
  "client_RegBulkCallback pipe endpoint cb = by_pipe (Call_RegBulkCallback endpoint cb) pipe"

definition client_UnRegBulkCallback :: "USBDevicePipe \<Rightarrow> USBEndpoint \<Rightarrow> ('c, 'w, 'p, retcode) client_op" where
  "client_UnRegBulkCallback pipe endpoint = by_pipe (Call_UnRegBulkCallback endpoint) pipe"

definition client_BulkRead :: "USBDevicePipe \<Rightarrow> USBEndpoint \<Rightarrow> int \<times> int \<Rightarrow> ('c, 'w, 'p, retcode) client_op" where
  "client_BulkRead pipe endpoint ashmem = by_pipe (Call_BulkRead endpoint (fst ashmem) (snd ashmem)) pipe"

definition client_BulkWrite :: "USBDevicePipe \<Rightarrow> USBEndpoint \<Rightarrow> int \<times> int \<Rightarrow> ('c, 'w, 'p, retcode) client_op" where
  "client_BulkWrite pipe endpoint ashmem = by_pipe (Call_BulkWrite endpoint (fst ashmem) (snd ashmem)) pipe"

definition client_BulkCancel :: "USBDevicePipe \<Rightarrow> USBEndpoint \<Rightarrow> ('c, 'w, 'p, retcode) client_op" where
  "client_BulkCancel pipe endpoint = by_pipe (Call_BulkCancel endpoint) pipe"

subsection \<open>Policies\<close>

definition client_ManageGlobalInterface :: "bool \<Rightarrow> ('c, 'w, 'p, retcode) client_op" where
  "client_ManageGlobalInterface disable srv = via_proxy UEC_INTERFACE_NO_INIT (\<lambda>p. px_ManageGlobalInterface (srv p) disable)"

definition client_ManageDevice :: "i32 \<Rightarrow> i32 \<Rightarrow> bool \<Rightarrow> ('c, 'w, 'p, retcode) client_op" where
  "client_ManageDevice vendorId productId disable srv =
     via_proxy UEC_INTERFACE_NO_INIT (\<lambda>p. px_ManageDevice (srv p) vendorId productId disable)"

definition client_UsbDeviceIdChange :: "UsbDeviceId list \<Rightarrow> UsbDeviceIdInfo list" where
  "client_UsbDeviceIdChange = map (\<lambda>i. \<lparr>dii_productId = di_productId i, dii_vendorId = di_vendorId i\<rparr>)"

definition client_ManageDevicePolicy :: "UsbDeviceId list \<Rightarrow> ('c, 'w, 'p, retcode) client_op" where
  "client_ManageDevicePolicy trustList srv =
     via_proxy UEC_INTERFACE_NO_INIT (\<lambda>p. px_ManageDevicePolicy (srv p) (client_UsbDeviceIdChange trustList))"

definition client_UsbDeviceTypeChange :: "UsbDeviceType list \<Rightarrow> UsbDeviceTypeInfo list" where
  "client_UsbDeviceTypeChange = map (\<lambda>t. \<lparr>dti_baseClass = dt_baseClass t, dti_subClass = dt_subClass t,
     dti_protocol = dt_protocol t, dti_isDeviceType = dt_isDeviceType t\<rparr>)"

definition client_ManageInterfaceType :: "UsbDeviceType list \<Rightarrow> bool \<Rightarrow> ('c, 'w, 'p, retcode) client_op" where
  "client_ManageInterfaceType disableType disable srv =
     via_proxy UEC_INTERFACE_NO_INIT (\<lambda>p. px_ManageInterfaceType (srv p) (client_UsbDeviceTypeChange disableType) disable)"

subsection \<open>Functions and accessories\<close>

text \<open>
  The operations on the functions and the ports start the service when it does not run. Setting the
  functions returns \<^verbatim>\<open>false\<close>, which is \<open>UEC_OK\<close>, when that fails.
\<close>

definition client_GetCurrentFunctions :: "('w, 'o, 'p) client_env \<Rightarrow> u32 \<Rightarrow> ('c, 'w, 'p, retcode \<times> u32) client_op" where
  "client_GetCurrentFunctions ce funcs srv = connected ce True (UEC_INTERFACE_NO_INIT, funcs) (\<lambda>p w.
     outcome (px_GetCurrentFunctions (srv p) funcs w))"

definition client_SetCurrentFunctions :: "('w, 'o, 'p) client_env \<Rightarrow> u32 \<Rightarrow> ('c, 'w, 'p, retcode) client_op" where
  "client_SetCurrentFunctions ce funcs srv = connected ce True (ret_of_int 0) (\<lambda>p. px_SetCurrentFunctions (srv p) funcs)"

text \<open>The code and the functions share the result: a code on the left, functions on the right.\<close>

definition client_UsbFunctionsFromString :: "('w, 'o, 'p) client_env \<Rightarrow> string \<Rightarrow> ('c, 'w, 'p, retcode + u32) client_op" where
  "client_UsbFunctionsFromString ce funcs srv = connected ce True (Inl UEC_INTERFACE_NO_INIT) (\<lambda>p w.
     case px_UsbFunctionsFromString (srv p) funcs 0 w of (ret, funcResult, w') \<Rightarrow>
       (if ret \<noteq> UEC_OK then Inl ret else Inr funcResult, w'))"

definition client_UsbFunctionsToString :: "('w, 'o, 'p) client_env \<Rightarrow> u32 \<Rightarrow> ('c, 'w, 'p, string) client_op" where
  "client_UsbFunctionsToString ce funcs srv = connected ce True [] (\<lambda>p w.
     case px_UsbFunctionsToString (srv p) funcs [] w of (ret, result, w') \<Rightarrow> (if ret \<noteq> UEC_OK then [] else result, w'))"

definition client_GetAccessoryList :: "('w, 'o, 'p) client_env \<Rightarrow> USBAccessory list \<Rightarrow> ('c, 'w, 'p, retcode \<times> USBAccessory list) client_op" where
  "client_GetAccessoryList ce accessList srv = connected ce False (UEC_INTERFACE_NO_INIT, accessList) (\<lambda>p w.
     outcome (px_GetAccessoryList (srv p) accessList w))"

definition client_OpenAccessory :: "('w, 'o, 'p) client_env \<Rightarrow> USBAccessory \<Rightarrow> int \<Rightarrow> ('c, 'w, 'p, retcode \<times> int) client_op" where
  "client_OpenAccessory ce access fd srv = connected ce False (UEC_INTERFACE_NO_INIT, fd) (\<lambda>p w.
     outcome (px_OpenAccessory (srv p) access fd w))"

definition client_AddAccessoryRight :: "('w, 'o, 'p) client_env \<Rightarrow> u32 \<Rightarrow> USBAccessory \<Rightarrow> ('c, 'w, 'p, retcode) client_op" where
  "client_AddAccessoryRight ce tokenId access srv =
     connected ce False UEC_INTERFACE_NO_INIT (\<lambda>p. px_AddAccessoryRight (srv p) tokenId access)"

definition client_HasAccessoryRight :: "('w, 'o, 'p) client_env \<Rightarrow> USBAccessory \<Rightarrow> bool \<Rightarrow> ('c, 'w, 'p, retcode \<times> bool) client_op" where
  "client_HasAccessoryRight ce access result srv = connected ce False (UEC_INTERFACE_NO_INIT, result) (\<lambda>p w.
     outcome (px_HasAccessoryRight (srv p) access result w))"

definition client_RequestAccessoryRight :: "('w, 'o, 'p) client_env \<Rightarrow> USBAccessory \<Rightarrow> bool \<Rightarrow> ('c, 'w, 'p, retcode \<times> bool) client_op" where
  "client_RequestAccessoryRight ce access result srv = connected ce False (UEC_INTERFACE_NO_INIT, result) (\<lambda>p w.
     outcome (px_RequestAccessoryRight (srv p) access result w))"

definition client_CancelAccessoryRight :: "('w, 'o, 'p) client_env \<Rightarrow> USBAccessory \<Rightarrow> ('c, 'w, 'p, retcode) client_op" where
  "client_CancelAccessoryRight ce access srv =
     connected ce False UEC_INTERFACE_NO_INIT (\<lambda>p. px_CancelAccessoryRight (srv p) access)"

definition client_CloseAccessory :: "('w, 'o, 'p) client_env \<Rightarrow> int \<Rightarrow> ('c, 'w, 'p, retcode) client_op" where
  "client_CloseAccessory ce fd srv = connected ce False UEC_INTERFACE_NO_INIT (\<lambda>p. px_CloseAccessory (srv p) fd)"

subsection \<open>Ports and serial adapters\<close>

definition client_GetPorts :: "('w, 'o, 'p) client_env \<Rightarrow> UsbPort list \<Rightarrow> ('c, 'w, 'p, retcode \<times> UsbPort list) client_op" where
  "client_GetPorts ce usbports srv = connected ce True (UEC_INTERFACE_NO_INIT, usbports) (\<lambda>p w.
     outcome (px_GetPorts (srv p) usbports w))"

definition client_GetSupportedModes :: "('w, 'o, 'p) client_env \<Rightarrow> int \<Rightarrow> int \<Rightarrow> ('c, 'w, 'p, retcode \<times> int) client_op" where
  "client_GetSupportedModes ce portId result srv = connected ce True (UEC_INTERFACE_NO_INIT, result) (\<lambda>p w.
     outcome (px_GetSupportedModes (srv p) portId result w))"

definition client_SetPortRole :: "('w, 'o, 'p) client_env \<Rightarrow> int \<Rightarrow> int \<Rightarrow> int \<Rightarrow> ('c, 'w, 'p, retcode) client_op" where
  "client_SetPortRole ce portId powerRole dataRole srv =
     connected ce True UEC_INTERFACE_NO_INIT (\<lambda>p. px_SetPortRole (srv p) portId powerRole dataRole)"

text \<open>\<open>serialRemote\<close> is the object the service watches to see the client die.\<close>

definition client_SerialOpen :: "('w, 'o, 'p) client_env \<Rightarrow> 'c \<Rightarrow> int \<Rightarrow> ('c, 'w, 'p, retcode) client_op" where
  "client_SerialOpen ce serialRemote portId srv =
     connected ce False UEC_INTERFACE_NO_INIT (\<lambda>p. px_SerialOpen (srv p) portId serialRemote)"

definition client_SerialClose :: "('w, 'o, 'p) client_env \<Rightarrow> int \<Rightarrow> ('c, 'w, 'p, retcode) client_op" where
  "client_SerialClose ce portId srv = connected ce False UEC_INTERFACE_NO_INIT (\<lambda>p. px_SerialClose (srv p) portId)"

definition client_SerialRead :: "('w, 'o, 'p) client_env \<Rightarrow> int \<Rightarrow> u8 list \<Rightarrow> u32 \<Rightarrow> u32 \<Rightarrow> u32 \<Rightarrow>
    ('c, 'w, 'p, retcode \<times> u8 list \<times> u32) client_op" where
  "client_SerialRead ce portId data bufferSize actualSize timeout srv =
     connected ce False (UEC_INTERFACE_NO_INIT, data, actualSize) (\<lambda>p w.
       outcome (px_SerialRead (srv p) portId bufferSize timeout (data, actualSize) w))"

definition client_SerialWrite :: "('w, 'o, 'p) client_env \<Rightarrow> int \<Rightarrow> u8 list \<Rightarrow> u32 \<Rightarrow> u32 \<Rightarrow> u32 \<Rightarrow>
    ('c, 'w, 'p, retcode \<times> u32) client_op" where
  "client_SerialWrite ce portId data bufferSize actualSize timeout srv =
     connected ce False (UEC_INTERFACE_NO_INIT, actualSize) (\<lambda>p w.
       outcome (px_SerialWrite (srv p) portId data bufferSize timeout actualSize w))"

definition client_SerialGetAttribute :: "('w, 'o, 'p) client_env \<Rightarrow> int \<Rightarrow> UsbSerialAttr \<Rightarrow> ('c, 'w, 'p, retcode \<times> UsbSerialAttr) client_op" where
  "client_SerialGetAttribute ce portId attribute srv = connected ce False (UEC_INTERFACE_NO_INIT, attribute) (\<lambda>p w.
     outcome (px_SerialGetAttribute (srv p) portId attribute w))"

definition client_SerialSetAttribute :: "('w, 'o, 'p) client_env \<Rightarrow> int \<Rightarrow> UsbSerialAttr \<Rightarrow> ('c, 'w, 'p, retcode) client_op" where
  "client_SerialSetAttribute ce portId attribute srv =
     connected ce False UEC_INTERFACE_NO_INIT (\<lambda>p. px_SerialSetAttribute (srv p) portId attribute)"

definition client_SerialGetPortList :: "('w, 'o, 'p) client_env \<Rightarrow> UsbSerialPort list \<Rightarrow> ('c, 'w, 'p, retcode \<times> UsbSerialPort list) client_op" where
  "client_SerialGetPortList ce serialPortList srv = connected ce False (UEC_INTERFACE_NO_INIT, serialPortList) (\<lambda>p w.
     outcome (px_SerialGetPortList (srv p) serialPortList w))"

definition client_HasSerialRight :: "('w, 'o, 'p) client_env \<Rightarrow> int \<Rightarrow> bool \<Rightarrow> ('c, 'w, 'p, retcode \<times> bool) client_op" where
  "client_HasSerialRight ce portId hasRight srv = connected ce False (UEC_INTERFACE_NO_INIT, hasRight) (\<lambda>p w.
     outcome (px_HasSerialRight (srv p) portId hasRight w))"

definition client_CancelSerialRight :: "('w, 'o, 'p) client_env \<Rightarrow> int \<Rightarrow> ('c, 'w, 'p, retcode) client_op" where
  "client_CancelSerialRight ce portId srv = connected ce False UEC_INTERFACE_NO_INIT (\<lambda>p. px_CancelSerialRight (srv p) portId)"

definition client_RequestSerialRight :: "('w, 'o, 'p) client_env \<Rightarrow> int \<Rightarrow> bool \<Rightarrow> ('c, 'w, 'p, retcode \<times> bool) client_op" where
  "client_RequestSerialRight ce portId hasRight srv = connected ce False (UEC_INTERFACE_NO_INIT, hasRight) (\<lambda>p w.
     outcome (px_RequestSerialRight (srv p) portId hasRight w))"

definition client_AddSerialRight :: "('w, 'o, 'p) client_env \<Rightarrow> u32 \<Rightarrow> int \<Rightarrow> ('c, 'w, 'p, retcode) client_op" where
  "client_AddSerialRight ce tokenId portId srv =
     connected ce False UEC_INTERFACE_NO_INIT (\<lambda>p. px_AddSerialRight (srv p) tokenId portId)"

subsection \<open>The objects of the application\<close>

text \<open>The other operations of a pipe hand the pipe itself to the client's operation of that name.\<close>

definition pipe_Close :: "('w, 'o, 'p) client_env \<Rightarrow> USBDevicePipe \<Rightarrow> ('c, 'w, 'p, retcode) client_op" where
  "pipe_Close ce pipe srv cl w = (case client_Close pipe srv cl w of (bSuccess, r) \<Rightarrow>
     (if bSuccess then UEC_OK else ret_of_int (ce_ERR_INVALID_VALUE ce), r))"

definition request_Initialize :: "USBDevicePipe \<Rightarrow> USBEndpoint \<Rightarrow> UsbRequest \<Rightarrow> ('c, 'w, 'p, retcode \<times> UsbRequest) client_op" where
  "request_Initialize pipe endpoint request srv cl w =
     (let request1 = request\<lparr>req_pipe := pipe, req_endpoint := endpoint\<rparr> in
      case client_RequestInitialize request1 srv cl w of (ret, r) \<Rightarrow> ((ret, request1), r))"

text \<open>A request is queued, freed and aborted by the client's operations for the request itself.\<close>

definition request_Queue :: "UsbRequest \<Rightarrow> ('c, 'w, 'p, retcode) client_op" where
  "request_Queue = client_RequestQueue"

definition request_Free :: "UsbRequest \<Rightarrow> ('c, 'w, 'p, retcode) client_op" where
  "request_Free = client_RequestFree"

definition request_Abort :: "UsbRequest \<Rightarrow> ('c, 'w, 'p, retcode) client_op" where
  "request_Abort = client_RequestAbort"

subsection \<open>Through the service to the driver\<close>

text \<open>
  The proxy's methods run the service's operations: the world of the client is the service's state
  and the service's world, \<open>c\<close> what the service sees of the caller.
\<close>

definition served :: "('c, 'c usb_service \<times> 'w) server \<Rightarrow> ('w, 'c, 'm) service_env \<Rightarrow> caller \<Rightarrow> bool" where
  "served sv E c \<longleftrightarrow>
     (\<forall>call b d s w. px_device sv call b d (s, w) =
        (case device_request call E c b d s w of (ret, r, s', w') \<Rightarrow> (ret, r, (s', w')))) \<and>
     (\<forall>ids s w. px_ManageDevicePolicy sv ids (s, w) =
        (case ManageDevicePolicy ids E c s w of (ret, _, s', w') \<Rightarrow> (ret, (s', w')))) \<and>
     (\<forall>ts dis s w. px_ManageInterfaceType sv ts dis (s, w) =
        (case ManageInterfaceType ts dis E c s w of (ret, _, s', w') \<Rightarrow> (ret, (s', w'))))"

lemma and_exp_cases: "(x :: u32) AND 2 ^ n = (if bit x n then 2 ^ n else 0)"
  by (rule bit_word_eqI) (auto simp: bit_and_iff bit_exp_iff)

lemma direction_cases: "(x :: u32) AND 0x80 = 0 \<longleftrightarrow> x AND 0x80 \<noteq> 0x80"
  using and_exp_cases [of x 7] by (simp split: if_splits)

lemmas direction_defs = USB_ENDPOINT_DIR_MASK_def USB_ENDPOINT_DIR_IN_def USB_ENDPOINT_DIR_OUT_def GetDirection_def

lemma transfer_granted:
  assumes "usbHostManager s = Some hm" and "CheckDevicePermission E c b d s w = (True, w1)"
  shows "\<exists>s'. transfer E c b d (\<lambda>w. False) cleanup denied failed old f s w =
    (case f w1 of (ret, x, w2) \<Rightarrow> (ret, x, s', w2))"
  using assms by (cases "f w1") (simp add: transfer_def Let_def)

lemma via_served:
  assumes "proxy cl = Some p" and "served (srv p) E c"
  shows "via_proxy u (\<lambda>p. on_device call get pipe (srv p)) cl (s, w) =
    (case device_request call E c (pipe_busNum pipe) (pipe_devAddr pipe) s w of (ret, r, s', w') \<Rightarrow> ((ret, get r), cl, (s', w')))"
  using assms by (simp add: via_proxy_def on_device_def served_def split: prod.split)

lemma control_params_arrive:
  "UsbCtrlTransferChange (client_UsbCtrlTransferChange l ctrl) = ctrl"
  "UsbCtrlTransferParamsChange (client_UsbCtrlTransferParamsChange params) = params"
  by (simp_all add: UsbCtrlTransferChange_def client_UsbCtrlTransferChange_def UsbCtrlTransferParamsChange_def
    client_UsbCtrlTransferParamsChange_def)

lemma control_reaches_driver:
  assumes "served (srv p) E c" and "proxy cl = Some p" and "usbHostManager s = Some hm" and "hostd E = Some h"
    and "CheckDevicePermission E c (pipe_busNum pipe) (pipe_devAddr pipe) s w = (True, w1)"
  shows "\<exists>s'. client_ControlTransfer l pipe ctrl buf srv cl (s, w) =
      (if ct_requestType ctrl AND 0x80 = 0x80
       then (case hh_ControlTransferRead h (pipe_busNum pipe, pipe_devAddr pipe) ctrl [] w1 of (ret, data, w2) \<Rightarrow>
         ((ret_of_int ret, data), cl, (s', w2)))
       else (case hh_ControlTransferWrite h (pipe_busNum pipe, pipe_devAddr pipe) ctrl buf w1 of (ret, w2) \<Rightarrow>
         ((ret_of_int ret, buf), cl, (s', w2))))"
proof -
  let ?cs = "client_UsbCtrlTransferChange l ctrl"
  obtain s' where "ControlTransfer ?cs (sent_buffer ?cs buf) E c (pipe_busNum pipe) (pipe_devAddr pipe) s w =
    (case Host_Driver.ControlTransfer (Some h) (pipe_busNum pipe, pipe_devAddr pipe) ctrl (sent_buffer ?cs buf) w1 of
      (ret, x, w2) \<Rightarrow> (ret, x, s', w2))"
    using transfer_granted [OF assms(3,5)] assms(4) unfolding Service_Host.ControlTransfer_def control_params_arrive by metis
  then show ?thesis
    by (intro exI [of _ s']) (simp add: client_ControlTransfer_def Let_def via_served [where srv = srv, OF assms(2,1)] out_def
      Host_Driver.ControlTransfer_def with_hdi_out_def sent_buffer_def client_UsbCtrlTransferChange_def reply_bytes_def
      direction_defs direction_cases split: prod.split)
qed

lemma params_reach_driver:
  assumes "served (srv p) E c" and "proxy cl = Some p" and "usbHostManager s = Some hm" and "hostd E = Some h"
    and "CheckDevicePermission E c (pipe_busNum pipe) (pipe_devAddr pipe) s w = (True, w1)"
  shows "\<exists>s'. client_UsbControlTransfer pipe params buf srv cl (s, w) =
      (if ct_requestType params AND 0x80 = 0x80
       then (case hh_ControlTransferReadwithLength h (pipe_busNum pipe, pipe_devAddr pipe) params [] w1 of (ret, data, w2) \<Rightarrow>
         ((ret_of_int ret, data), cl, (s', w2)))
       else (case hh_ControlTransferWrite h (pipe_busNum pipe, pipe_devAddr pipe) (UsbCtrlTransfer.truncate params) buf w1 of
         (ret, w2) \<Rightarrow> ((ret_of_int ret, buf), cl, (s', w2))))"
proof -
  let ?cs = "client_UsbCtrlTransferParamsChange params"
  obtain s' where "UsbControlTransfer ?cs (sent_buffer ?cs buf) E c (pipe_busNum pipe) (pipe_devAddr pipe) s w =
    (case Host_Driver.UsbControlTransfer (Some h) (pipe_busNum pipe, pipe_devAddr pipe) params (sent_buffer ?cs buf) w1 of
      (ret, x, w2) \<Rightarrow> (ret, x, s', w2))"
    using transfer_granted [OF assms(3,5)] assms(4) unfolding Service_Host.UsbControlTransfer_def control_params_arrive by metis
  then show ?thesis
    by (intro exI [of _ s']) (simp add: client_UsbControlTransfer_def Let_def via_served [where srv = srv, OF assms(2,1)] out_def
      Host_Driver.UsbControlTransfer_def with_hdi_out_def sent_buffer_def client_UsbCtrlTransferParamsChange_def reply_bytes_def
      direction_defs direction_cases split: prod.split)
qed

lemma bulk_reaches_driver:
  assumes "served (srv p) E c" and "proxy cl = Some p" and "usbHostManager s = Some hm" and "hostd E = Some h"
    and "CheckDevicePermission E c (pipe_busNum pipe) (pipe_devAddr pipe) s w = (True, w1)"
  shows "\<exists>s'. client_BulkTransfer pipe ep buf timeOut srv cl (s, w) =
      (if ep_address ep AND 0x80 = 0x80
       then (case hh_BulkTransferReadwithLength h (pipe_busNum pipe, pipe_devAddr pipe) (pipe_of ep) timeOut
         (sint (of_nat (length buf) :: i32)) [] w1 of (ret, data, w2) \<Rightarrow> ((ret_of_int ret, data), cl, (s', w2)))
       else (case hh_BulkTransferWrite h (pipe_busNum pipe, pipe_devAddr pipe) (pipe_of ep) timeOut buf w1 of (ret, w2) \<Rightarrow>
         ((ret_of_int ret, buf), cl, (s', w2))))"
proof -
  obtain s1 where r: "BulkTransferReadwithLength ep (sint (of_nat (length buf) :: i32)) [] timeOut E c (pipe_busNum pipe) (pipe_devAddr pipe) s w =
    (case Host_Driver.BulkTransferReadwithLength (Some h) (pipe_busNum pipe, pipe_devAddr pipe) (pipe_of ep)
       (sint (of_nat (length buf) :: i32)) [] timeOut w1 of (ret, x, w2) \<Rightarrow> (ret, x, s1, w2))"
    using transfer_granted [OF assms(3,5)] assms(4) unfolding Service_Host.BulkTransferReadwithLength_def by metis
  obtain s2 where "BulkTransferWrite ep buf timeOut E c (pipe_busNum pipe) (pipe_devAddr pipe) s w =
    (case no_output (Host_Driver.BulkTransferWrite (Some h) (pipe_busNum pipe, pipe_devAddr pipe) (pipe_of ep) buf timeOut) w1 of
       (ret, x, w2) \<Rightarrow> (ret, x, s2, w2))"
    using transfer_granted [OF assms(3,5)] assms(4) unfolding Service_Host.BulkTransferWrite_def by metis
  with r show ?thesis
    by (intro exI [of _ "if ep_address ep AND 0x80 = 0x80 then s1 else s2"])
      (simp add: client_BulkTransfer_def via_served [where srv = srv, OF assms(2,1)] out_def no_output_def
      Host_Driver.BulkTransferReadwithLength_def Host_Driver.BulkTransferWrite_def with_hdi_out_def with_hdi_def reply_bytes_def
      direction_defs direction_cases split: prod.split)
qed

text \<open>
  C26: a transfer of the client is the driver's. With a proxy whose methods run the service, a caller
  with the right for the device and a driver, a control transfer and a bulk transfer of the client give
  what the driver's transfer for the device of the pipe gives: its code, its data in the caller's buffer,
  its effect. The direction decides between reading and writing, the parameters arrive unchanged, a
  reading control transfer starts with an empty buffer and a reading bulk transfer asks for the size of the
  caller's buffer.
\<close>

theorem client_transfers_reach_driver:
  assumes "served (srv p) E c" and "proxy cl = Some p" and "usbHostManager s = Some hm" and "hostd E = Some h"
    and "CheckDevicePermission E c (pipe_busNum pipe) (pipe_devAddr pipe) s w = (True, w1)"
    and "dev = (pipe_busNum pipe, pipe_devAddr pipe)" and "endpoint = (ep_interfaceId ep, ucast (ep_address ep))"
  shows "(\<exists>s'. client_ControlTransfer l pipe ctrl buf srv cl (s, w) =
      (if ct_requestType ctrl AND 0x80 = 0x80
       then (case hh_ControlTransferRead h dev ctrl [] w1 of (ret, data, w2) \<Rightarrow> ((ret_of_int ret, data), cl, (s', w2)))
       else (case hh_ControlTransferWrite h dev ctrl buf w1 of (ret, w2) \<Rightarrow> ((ret_of_int ret, buf), cl, (s', w2))))) \<and>
    (\<exists>s'. client_UsbControlTransfer pipe params buf srv cl (s, w) =
      (if ct_requestType params AND 0x80 = 0x80
       then (case hh_ControlTransferReadwithLength h dev params [] w1 of (ret, data, w2) \<Rightarrow> ((ret_of_int ret, data), cl, (s', w2)))
       else (case hh_ControlTransferWrite h dev (UsbCtrlTransfer.truncate params) buf w1 of (ret, w2) \<Rightarrow>
         ((ret_of_int ret, buf), cl, (s', w2))))) \<and>
    (\<exists>s'. client_BulkTransfer pipe ep buf timeOut srv cl (s, w) =
      (if ep_address ep AND 0x80 = 0x80
       then (case hh_BulkTransferReadwithLength h dev endpoint timeOut (sint (of_nat (length buf) :: i32)) [] w1 of
         (ret, data, w2) \<Rightarrow> ((ret_of_int ret, data), cl, (s', w2)))
       else (case hh_BulkTransferWrite h dev endpoint timeOut buf w1 of (ret, w2) \<Rightarrow> ((ret_of_int ret, buf), cl, (s', w2)))))"
  using control_reaches_driver [where srv = srv, OF assms(1-5)] params_reach_driver [where srv = srv, OF assms(1-5)]
    bulk_reaches_driver [where srv = srv, OF assms(1-5), unfolded pipe_of_def]
  unfolding assms(6,7) by blast

text \<open>
  Policies arrive as the administrator set them: with a proxy whose methods run the service, the
  client's list of trusted devices and its list of types are what the host manager gets, behind the
  service's check of the caller.
\<close>

theorem client_policies_arrive:
  assumes "served (srv p) E c" and "proxy cl = Some p"
  shows "client_ManageDevicePolicy ids srv cl (s, w) =
      (case policy (Host_Policy.ManageDevicePolicy (sv_host E) ids) E c s w of (ret, _, s', w') \<Rightarrow> (ret, cl, (s', w'))) \<and>
    client_ManageInterfaceType types disable srv cl (s, w) =
      (case policy (Host_Policy.ManageInterfaceType (sv_host E) types disable) E c s w of (ret, _, s', w') \<Rightarrow> (ret, cl, (s', w')))"
proof -
  have "UsbDeviceIdChange (client_UsbDeviceIdChange ids) = ids"
    by (simp add: UsbDeviceIdChange_def client_UsbDeviceIdChange_def comp_def map_idI)
  moreover have "UsbDeviceTypeChange (client_UsbDeviceTypeChange types) = types"
    by (simp add: UsbDeviceTypeChange_def client_UsbDeviceTypeChange_def comp_def map_idI)
  ultimately show ?thesis using assms
    by (simp add: client_ManageDevicePolicy_def client_ManageInterfaceType_def via_proxy_def served_def
      ManageDevicePolicy_def ManageInterfaceType_def split: prod.split)
qed

text \<open>
  A service that cannot be started. When the system ability manager does not give the service, a
  client without a proxy reports that it is not initialised, for the functions and the ports alike - but
  setting the functions reports success, although nothing was set.
\<close>

theorem unreachable_service_reported:
  assumes "proxy cl = None" and "ce_manager ce w"
    and "ce_LoadSystemAbility ce (ce_USB_SYSTEM_ABILITY_ID ce) 4 w = (None, w1)"
  shows "client_GetCurrentFunctions ce funcs srv cl w = ((UEC_INTERFACE_NO_INIT, funcs), cl, w1) \<and>
    client_SetPortRole ce portId powerRole dataRole srv cl w = (UEC_INTERFACE_NO_INIT, cl, w1) \<and>
    client_SetCurrentFunctions ce funcs srv cl w = (UEC_OK, cl, w1)"
  using assms by (simp add: client_GetCurrentFunctions_def client_SetPortRole_def client_SetCurrentFunctions_def
    connected_def Connect_def ConnectUnLocked_def MAX_WAIT_LOAD_SA_SECONDS_def)

subsection \<open>A client of a service in memory\<close>

text \<open>A proxy whose methods are refused, and one whose device requests and policies run the service.\<close>

definition refusing_server :: "('c, 'w) server" where
  "refusing_server = (let no = UEC_SERVICE_INVALID_OPERATION in \<lparr>
     px_device = (\<lambda>_ _ _ w. (no, Nothing, w)),
     px_GetDevices = (\<lambda>x w. (no, x, w)), px_HasRight = (\<lambda>_ x w. (no, x, w)), px_RequestRight = (\<lambda>_ w. (no, w)),
     px_RemoveRight = (\<lambda>_ w. (no, w)), px_AddRight = (\<lambda>_ _ w. (no, w)), px_AddAccessRight = (\<lambda>_ _ w. (no, w)),
     px_ManageGlobalInterface = (\<lambda>_ w. (no, w)), px_ManageDevice = (\<lambda>_ _ _ w. (no, w)),
     px_ManageDevicePolicy = (\<lambda>_ w. (no, w)), px_ManageInterfaceType = (\<lambda>_ _ w. (no, w)),
     px_GetDeviceSpeed = (\<lambda>_ _ x w. (no, x, w)), px_GetInterfaceActiveStatus = (\<lambda>_ _ _ x w. (no, x, w)),
     px_GetCurrentFunctions = (\<lambda>x w. (no, x, w)), px_SetCurrentFunctions = (\<lambda>_ w. (no, w)),
     px_UsbFunctionsFromString = (\<lambda>_ x w. (no, x, w)), px_UsbFunctionsToString = (\<lambda>_ x w. (no, x, w)),
     px_GetAccessoryList = (\<lambda>x w. (no, x, w)), px_OpenAccessory = (\<lambda>_ x w. (no, x, w)),
     px_AddAccessoryRight = (\<lambda>_ _ w. (no, w)), px_HasAccessoryRight = (\<lambda>_ x w. (no, x, w)),
     px_RequestAccessoryRight = (\<lambda>_ x w. (no, x, w)), px_CancelAccessoryRight = (\<lambda>_ w. (no, w)),
     px_CloseAccessory = (\<lambda>_ w. (no, w)), px_GetPorts = (\<lambda>x w. (no, x, w)), px_GetSupportedModes = (\<lambda>_ x w. (no, x, w)),
     px_SetPortRole = (\<lambda>_ _ _ w. (no, w)), px_SerialOpen = (\<lambda>_ _ w. (no, w)), px_SerialClose = (\<lambda>_ w. (no, w)),
     px_SerialRead = (\<lambda>_ _ _ x w. (no, x, w)), px_SerialWrite = (\<lambda>_ _ _ _ x w. (no, x, w)),
     px_SerialGetAttribute = (\<lambda>_ x w. (no, x, w)), px_SerialSetAttribute = (\<lambda>_ _ w. (no, w)),
     px_SerialGetPortList = (\<lambda>x w. (no, x, w)), px_HasSerialRight = (\<lambda>_ x w. (no, x, w)),
     px_CancelSerialRight = (\<lambda>_ w. (no, w)), px_RequestSerialRight = (\<lambda>_ x w. (no, x, w)),
     px_AddSerialRight = (\<lambda>_ _ w. (no, w))\<rparr>)"

definition service_server :: "('w, 'c, 'm) service_env \<Rightarrow> caller \<Rightarrow> ('c, 'c usb_service \<times> 'w) server" where
  "service_server E c = refusing_server\<lparr>
     px_device := (\<lambda>call b d (s, w). case device_request call E c b d s w of (ret, r, s', w') \<Rightarrow> (ret, r, (s', w'))),
     px_ManageDevicePolicy := (\<lambda>ids (s, w). case ManageDevicePolicy ids E c s w of (ret, _, s', w') \<Rightarrow> (ret, (s', w'))),
     px_ManageInterfaceType := (\<lambda>ts dis (s, w). case ManageInterfaceType ts dis E c s w of (ret, _, s', w') \<Rightarrow> (ret, (s', w')))\<rparr>"

lemma service_server_serves: "served (service_server E c) E c"
  by (simp add: served_def service_server_def)

abbreviation sample_client :: "unit \<Rightarrow> (unit, unit usb_service \<times> memory) server" where
  "sample_client \<equiv> \<lambda>_. service_server sample_service_env (sample_caller True)"

theorem client_transfers_reach_driver_witness:
  "\<exists>s'. client_BulkTransfer \<lparr>pipe_busNum = 1, pipe_devAddr = 2\<rparr> new_endpoint [7, 8] 0 sample_client \<lparr>proxy = Some ()\<rparr>
     (sample_service, sample_world) = ((UEC_OK, [7, 8]), \<lparr>proxy = Some ()\<rparr>, (s', sample_world))"
proof -
  have "CheckDevicePermission sample_service_env (sample_caller True) 1 2 sample_service sample_world = (True, sample_world)"
    by (simp add: CheckDevicePermission_def HasRight_def sample_name sample_service_def GetDeviceVidPidSerialNumber_def
      sample_caller_def IsSystemAppOrSa_def)
  note t = client_transfers_reach_driver [where srv = sample_client and cl = "\<lparr>proxy = Some ()\<rparr>" and s = sample_service
      and pipe = "\<lparr>pipe_busNum = 1, pipe_devAddr = 2\<rparr>" and hm = new_host_manager and h = "quiet_host []" and w = sample_world,
      OF service_server_serves _ _ _ _ refl refl, simplified, OF _ _ this]
  show ?thesis
    by (rule exE [OF t [THEN conjunct2, THEN conjunct2, of new_endpoint "[7, 8]" 0]])
      (simp_all add: sample_service_def sample_service_env_def sample_host_def quiet_host_def new_endpoint_def)
qed

theorem client_policies_arrive_witness:
  "fst (client_ManageInterfaceType [] True sample_client \<lparr>proxy = Some ()\<rparr> (sample_service, sample_world)) =
     UEC_SERVICE_INVALID_OPERATION"
  using client_policies_arrive [where srv = sample_client and cl = "\<lparr>proxy = Some ()\<rparr>" and types = "[]", OF service_server_serves]
  by (simp add: policy_def IsCallerValid_def sample_caller_def)

theorem unreachable_service_reported_witness:
  "fst (client_SetCurrentFunctions registry_env 4 (\<lambda>_. refusing_server :: (unit, registry) server) \<lparr>proxy = None\<rparr> (registry_at {} {} {})) = UEC_OK"
  using unreachable_service_reported [of "\<lparr>proxy = None\<rparr>" registry_env "registry_at {} {} {}"
      "registry_at {} {} {}" 4 "\<lambda>_. refusing_server :: (unit, registry) server"]
  by (simp add: registry_defs)

end
