(* ===== verification/Service_Device.thy ===== *)
theory Service_Device
  imports Service_Invariant
begin

section \<open>The service: gadget functions, accessories and ports\<close>

text \<open>
  The operations of \<^verbatim>\<open>usb_service.cpp\<close> on the device side: the functions of the gadget, the
  accessory and the ports. Where the gadget manager can run forever or a missing driver would be
  dereferenced, the result is \<open>None\<close>.
\<close>

subsection \<open>Gadget functions\<close>

definition SetPhyConnect :: "bool \<Rightarrow> 'c usb_service \<Rightarrow> 'c usb_service" where
  "SetPhyConnect on s = (case usbDeviceManager s of None \<Rightarrow> s
     | Some dm \<Rightarrow> s\<lparr>usbDeviceManager := Some (SetPhyConnectState on dm)\<rparr>)"

text \<open>The check that the operations for system applications share, with what is reported.\<close>

definition sys_api :: "('w, 'c, 'm) service_env \<Rightarrow> caller \<Rightarrow> string option \<Rightarrow> 'c usb_service \<Rightarrow> 'w \<Rightarrow>
    retcode \<times> 'c usb_service" where
  "sys_api E c operation s w =
     (if usbRightManager s = None then (UEC_SERVICE_INVALID_VALUE, s)
      else let ret = CheckSysApiPermission E c w in
        if ret \<noteq> UEC_OK
        then (ret, case operation of None \<Rightarrow> s
          | Some name \<Rightarrow> ReportUsbOperationFaultSysEvent name ret ''CheckSysApiPermission failed'' s)
        else (UEC_OK, s))"

definition GetCurrentFunctions :: "('w, 'c, 'm) service_env \<Rightarrow> caller \<Rightarrow> u32 \<Rightarrow> 'c usb_service \<Rightarrow> 'w \<Rightarrow>
    retcode \<times> u32 \<times> 'c usb_service \<times> 'w" where
  "GetCurrentFunctions E c functions s w =
     (case sys_api E c (Some ''FUNCTION_CHANGED'') s w of (ret, s1) \<Rightarrow>
        if ret \<noteq> UEC_OK then (ret, functions, s1, w)
        else if usbDeviceManager s1 = None then (UEC_SERVICE_INVALID_VALUE, functions, s1, w)
        else (case Device_Manager.GetCurrentFunctions (sv_device E) functions w of (ret, f, w') \<Rightarrow> (ret, f, s1, w')))"

definition SetCurrentFunctions :: "('w, 'c, 'm) service_env \<Rightarrow> caller \<Rightarrow> u32 \<Rightarrow> 'c usb_service \<Rightarrow> 'w \<Rightarrow>
    (retcode \<times> 'c usb_service \<times> 'w) option" where
  "SetCurrentFunctions E c functions s w =
     (case sys_api E c (Some ''FUNCTION_CHANGED'') s w of (ret, s1) \<Rightarrow>
        if ret \<noteq> UEC_OK then Some (ret, s1, w)
        else let right = HasSetFuncRight (sv_right_env E) functions w in
          if right \<noteq> UEC_OK
          then Some (right, ReportUsbOperationFaultSysEvent ''FUNCTION_CHANGED'' right ''HasSetFuncRight fail'' s1, w)
          else (case usbDeviceManager s1 of None \<Rightarrow> Some (UEC_SERVICE_INVALID_VALUE, s1, w)
            | Some dm \<Rightarrow>
              (case SetSettingsDataHdcStatus (sv_settings E) functions w of (_, w1) \<Rightarrow>
                map_option (\<lambda>(ret, dm', w2). (ret, s1\<lparr>usbDeviceManager := Some dm'\<rparr>, w2))
                  (Device_Manager.SetCurrentFunctions (sv_device E) functions dm w1))))"

text \<open>The result of the conversion is a code or a mask; the call itself always succeeds.\<close>

definition UsbFunctionsFromString :: "('w, 'c, 'm) service_env \<Rightarrow> caller \<Rightarrow> string \<Rightarrow> 'c usb_service \<Rightarrow> 'w \<Rightarrow>
    retcode \<times> (retcode + u32)" where
  "UsbFunctionsFromString E c funcs s w =
     (case sys_api E c None s w of (ret, _) \<Rightarrow>
        if ret \<noteq> UEC_OK then (UEC_OK, Inl ret) else (UEC_OK, ConvertFromString funcs))"

definition PERMISSION_DENIED_SYSAPI :: string where "PERMISSION_DENIED_SYSAPI = ''PERMISSION_DENIED_SYSAPI''"
definition SYS_APP_PERMISSION_DENIED_SYSAPI :: string where
  "SYS_APP_PERMISSION_DENIED_SYSAPI = ''SYS_APP_PERMISSION_DENIED_SYSAPI''"

definition UsbFunctionsToString :: "('w, 'c, 'm) service_env \<Rightarrow> caller \<Rightarrow> u32 \<Rightarrow> 'c usb_service \<Rightarrow> 'w \<Rightarrow>
    retcode \<times> string" where
  "UsbFunctionsToString E c funcs s w =
     (if usbRightManager s = None then (UEC_OK, [])
      else if \<not> IsSystemAppOrSa c then (UEC_OK, PERMISSION_DENIED_SYSAPI)
      else if \<not> VerifyPermission c
      then (UEC_OK, if GetHapApiVersion E c w < API_VERSION_ID_18 then PERMISSION_DENIED_SYSAPI
              else SYS_APP_PERMISSION_DENIED_SYSAPI)
      else (UEC_OK, ConvertToString funcs))"

definition InitSettingsDataHdcStatus :: "('w, 'c, 'm) service_env \<Rightarrow> 'c usb_service \<Rightarrow> 'w \<Rightarrow> bool \<times> 'w" where
  "InitSettingsDataHdcStatus E s w =
     (case CreateDataShareHelper (sv_settings E) w of (own, w0) \<Rightarrow>
      (case CreateDataShareHelper (sv_settings E) w0 of (helper, w1) \<Rightarrow>
        let (ok, w2) =
          (if \<not> helper then (False, w1)
           else if usbRightManager s = None then (False, w1)
           else if usbDeviceManager s = None then (False, w1)
           else (case Device_Manager.GetCurrentFunctions (sv_device E) 0 w1 of (ret, func, w2) \<Rightarrow>
             (True, if ret \<noteq> UEC_OK then w2 else snd (SetSettingsDataHdcStatus (sv_settings E) func w2))))
        in (ok, destroy (sv_settings E) own w2)))"

text \<open>The cable event goes to the gadget manager first, then to the accessory manager.\<close>

definition UpdateDeviceState :: "('w, 'c, 'm) service_env \<Rightarrow> int \<Rightarrow> 'c usb_service \<Rightarrow> 'w \<Rightarrow> 'c usb_service \<times> 'w" where
  "UpdateDeviceState E status s w =
     (case usbDeviceManager s of None \<Rightarrow> (s, w)
      | Some dm \<Rightarrow> let s1 = s\<lparr>usbDeviceManager := Some (Device_Manager.HandleEvent (sv_device E) status dm)\<rparr> in
        (case usbAccessoryManager s1 of None \<Rightarrow> (s1, w)
         | Some am \<Rightarrow> (case acc_HandleEvent (sv_accessory E) (sv_acc_lib E) status True am w of (am', w') \<Rightarrow>
             (s1\<lparr>usbAccessoryManager := Some am'\<rparr>, w'))))"

definition UserChangeProcess :: "('w, 'c, 'm) service_env \<Rightarrow> 'c usb_service \<Rightarrow> 'w \<Rightarrow>
    (retcode \<times> 'c usb_service \<times> 'w) option" where
  "UserChangeProcess E s w =
     (case usbDeviceManager s of None \<Rightarrow> Some (UEC_SERVICE_INVALID_VALUE, s, w)
      | Some dm \<Rightarrow> (case usbPortManager s of None \<Rightarrow> Some (UEC_SERVICE_INVALID_VALUE, s, w)
        | Some pm \<Rightarrow> let dm1 = SetChargeFlag (IsReverseCharge pm) dm in
          (case sv_device E of
            Some h \<Rightarrow> map_option (\<lambda>(ret, dm', w'). (ret, s\<lparr>usbDeviceManager := Some dm'\<rparr>, w'))
              (Device_Manager.UserChangeProcess h dm1 w)
          | None \<Rightarrow>
              if currentFunctions dm1 AND FUNCTION_MTP \<noteq> 0 \<or> currentFunctions dm1 AND FUNCTION_PTP \<noteq> 0 then None
              else Some (ret_of_int (sv_HDF_FAILURE E), s\<lparr>usbDeviceManager :=
                Some (ProcessFunctionNotifier (connected dm1) (currentFunctions dm1) dm1)\<rparr>, w))))"

subsection \<open>Accessories\<close>

definition GetAccessoryList :: "('w, 'c, 'm) service_env \<Rightarrow> caller \<Rightarrow> 'c usb_service \<Rightarrow> 'w \<Rightarrow>
    retcode \<times> USBAccessory list \<times> 'c usb_service" where
  "GetAccessoryList E c s w =
     (case usbAccessoryManager s of None \<Rightarrow> (UEC_SERVICE_INVALID_VALUE, [], s)
      | Some am \<Rightarrow> (case GetCallingInfo E c w of
          None \<Rightarrow> (UEC_SERVICE_INNER_ERR, [],
            ReportUsbOperationFaultSysEvent ''GetAccessoryList '' UEC_SERVICE_INNER_ERR ''GetCallingInfo false'' s)
        | Some (bundleName, tokenId, userId) \<Rightarrow> (UEC_OK, Accessory_Manager.GetAccessoryList bundleName am, s)))"

text \<open>
  The beginning the accessory operations share: both managers, the caller, and the serial number
  under which the right for the accessory is kept.
\<close>

definition with_accessory :: "('w, 'c, 'm) service_env \<Rightarrow> caller \<Rightarrow> USBAccessory \<Rightarrow> 'c usb_service \<Rightarrow> 'w \<Rightarrow>
    retcode + right_manager \<times> string \<times> string \<times> string \<times> int" where
  "with_accessory E c access s w =
     (case (usbRightManager s, usbAccessoryManager s) of
        (Some rm, Some am) \<Rightarrow> (case GetCallingInfo E c w of None \<Rightarrow> Inl UEC_SERVICE_GET_TOKEN_INFO_FAILED
          | Some (bundleName, tokenId, userId) \<Rightarrow>
            (case GetAccessorySerialNumber access bundleName am of Inl ret \<Rightarrow> Inl ret
             | Inr serialNum \<Rightarrow> Inr (rm, serialNum, bundleName, tokenId, userId)))
      | _ \<Rightarrow> Inl UEC_SERVICE_INVALID_VALUE)"

text \<open>The result is \<open>None\<close> when the caller's variable is not written.\<close>

definition HasAccessoryRight :: "('w, 'c, 'm) service_env \<Rightarrow> caller \<Rightarrow> USBAccessory \<Rightarrow> 'c usb_service \<Rightarrow> 'w \<Rightarrow>
    retcode \<times> bool option \<times> 'w" where
  "HasAccessoryRight E c access s w =
     (case with_accessory E c access s w of Inl ret \<Rightarrow> (ret, None, w)
      | Inr (rm, serialNum, bundleName, tokenId, userId) \<Rightarrow>
        (case Right_Manager.HasRight (sv_right_env E) (sv_right_db E) serialNum bundleName tokenId userId w of (r, w') \<Rightarrow>
          (UEC_OK, Some r, w')))"

definition OpenAccessory :: "('w, 'c, 'm) service_env \<Rightarrow> caller \<Rightarrow> USBAccessory \<Rightarrow> int \<Rightarrow> 'c usb_service \<Rightarrow> 'w \<Rightarrow>
    retcode \<times> int \<times> 'c usb_service \<times> 'w" where
  "OpenAccessory E c access fd s w =
     (let fault = (\<lambda>ret description. ReportUsbOperationFaultSysEvent ''OpenAccessory'' ret description s) in
      case usbAccessoryManager s of None \<Rightarrow> (UEC_SERVICE_INVALID_VALUE, fd, s, w)
      | Some am \<Rightarrow> (case GetCallingInfo E c w of
          None \<Rightarrow> (UEC_SERVICE_GET_TOKEN_INFO_FAILED, fd, fault UEC_SERVICE_GET_TOKEN_INFO_FAILED ''GetCallingInfo false'', w)
        | Some (bundleName, tokenId, userId) \<Rightarrow>
          (case GetAccessorySerialNumber access bundleName am of
             Inl ret \<Rightarrow> (ret, fd, fault ret ''can not find accessory'', w)
           | Inr serialNum \<Rightarrow>
             (case HasAccessoryRight E c access s w of (ret, result, w1) \<Rightarrow>
               if ret \<noteq> UEC_OK \<or> result \<noteq> Some True
               then (UEC_SERVICE_PERMISSION_DENIED, fd, fault UEC_SERVICE_PERMISSION_DENIED ''No permission'', w1)
               else (case Accessory_Manager.OpenAccessory (sv_accessory E) am w1 of (ret, fd', am', w2) \<Rightarrow>
                 (ret, fd', s\<lparr>usbAccessoryManager := Some am'\<rparr>, w2))))))"

definition CloseAccessory :: "('w, 'c, 'm) service_env \<Rightarrow> int \<Rightarrow> 'c usb_service \<Rightarrow> 'w \<Rightarrow> retcode \<times> 'c usb_service \<times> 'w" where
  "CloseAccessory E fd s w =
     (case usbAccessoryManager s of None \<Rightarrow> (UEC_SERVICE_INVALID_VALUE, s, w)
      | Some am \<Rightarrow> (case Accessory_Manager.CloseAccessory (sv_accessory E) am w of (ret, am', w') \<Rightarrow>
          (ret, s\<lparr>usbAccessoryManager := Some am'\<rparr>, w')))"

definition AddAccessoryRight :: "('w, 'c, 'm) service_env \<Rightarrow> caller \<Rightarrow> u32 \<Rightarrow> USBAccessory \<Rightarrow> 'c usb_service \<Rightarrow> 'w \<Rightarrow>
    retcode \<times> 'w" where
  "AddAccessoryRight E c tokenId access s w =
     (case (usbRightManager s, usbAccessoryManager s) of
        (Some rm, Some am) \<Rightarrow>
          if CheckSysApiPermission E c w \<noteq> UEC_OK then (CheckSysApiPermission E c w, w)
          else (case env_GetHapTokenInfo (sv_right_env E) tokenId w of None \<Rightarrow> (UEC_SERVICE_GET_TOKEN_INFO_FAILED, w)
            | Some (userId, bundleName) \<Rightarrow>
              (case GetAccessorySerialNumber access bundleName am of Inl ret \<Rightarrow> (ret, w)
               | Inr serialNum \<Rightarrow>
                 (case AddDeviceRightToken (sv_right_env E) (sv_right_db E) serialNum (nat_to_string (unat tokenId)) w of
                   (ok, w1) \<Rightarrow> (if \<not> ok then UEC_SERVICE_DATABASE_OPERATION_FAILED else UEC_OK, w1))))
      | _ \<Rightarrow> (UEC_SERVICE_INVALID_VALUE, w))"

definition RequestAccessoryRight :: "('w, 'c, 'm) service_env \<Rightarrow> caller \<Rightarrow> USBAccessory \<Rightarrow> 'c usb_service \<Rightarrow> 'w \<Rightarrow>
    retcode \<times> bool option \<times> 'c usb_service \<times> 'w" where
  "RequestAccessoryRight E c access s w =
     (case with_accessory E c access s w of Inl ret \<Rightarrow> (ret, None, s, w)
      | Inr (rm, serialNum, bundleName, tokenId, userId) \<Rightarrow>
        (case RequestRightAccessory (sv_right_env E) (sv_right_db E) access serialNum bundleName tokenId userId rm w of
          (ret, result, rm', w') \<Rightarrow> (ret, Some result, s\<lparr>usbRightManager := Some rm'\<rparr>, w')))"

definition CancelAccessoryRight :: "('w, 'c, 'm) service_env \<Rightarrow> caller \<Rightarrow> USBAccessory \<Rightarrow> 'c usb_service \<Rightarrow> 'w \<Rightarrow>
    retcode \<times> 'w" where
  "CancelAccessoryRight E c access s w =
     (case with_accessory E c access s w of Inl ret \<Rightarrow> (ret, w)
      | Inr (rm, serialNum, bundleName, tokenId, userId) \<Rightarrow>
        (case CancelDeviceRight (sv_right_db E) serialNum bundleName tokenId userId w of (ret, w') \<Rightarrow>
          (if ret \<noteq> UEC_OK then UEC_SERVICE_DATABASE_OPERATION_FAILED else UEC_OK, w')))"

subsection \<open>Ports\<close>

definition GetPorts :: "('w, 'c, 'm) service_env \<Rightarrow> caller \<Rightarrow> UsbPort list \<Rightarrow> 'c usb_service \<Rightarrow> 'w \<Rightarrow>
    retcode \<times> UsbPort list \<times> 'c usb_service \<times> 'w" where
  "GetPorts E c ports s w =
     (case sys_api E c (Some ''GetPorts'') s w of (ret, s1) \<Rightarrow>
        if ret \<noteq> UEC_OK then (ret, ports, s1, w)
        else (case usbPortManager s1 of None \<Rightarrow> (UEC_SERVICE_INVALID_VALUE, ports, s1, w)
          | Some pm \<Rightarrow> (case Port_Manager.GetPorts (sv_port E) pm w of (ret, ps, pm', w') \<Rightarrow>
              (ret, ports @ ps, s1\<lparr>usbPortManager := Some pm'\<rparr>, w'))))"

definition GetSupportedModes :: "('w, 'c, 'm) service_env \<Rightarrow> caller \<Rightarrow> int \<Rightarrow> 'c usb_service \<Rightarrow> 'w \<Rightarrow>
    retcode \<times> int option" where
  "GetSupportedModes E c portId s w =
     (case sys_api E c None s w of (ret, s1) \<Rightarrow>
        if ret \<noteq> UEC_OK then (ret, None)
        else (case usbPortManager s1 of None \<Rightarrow> (UEC_SERVICE_INVALID_VALUE, None)
          | Some pm \<Rightarrow> Port_Manager.GetSupportedModes portId pm))"

definition SetPortRole :: "('w, 'c, 'm) service_env \<Rightarrow> caller \<Rightarrow> int \<Rightarrow> int \<Rightarrow> int \<Rightarrow> 'c usb_service \<Rightarrow> 'w \<Rightarrow>
    retcode \<times> 'c usb_service \<times> 'w" where
  "SetPortRole E c portId powerRole dataRole s w =
     (case sys_api E c (Some ''SetPortRole'') s w of (ret, s1) \<Rightarrow>
        if ret \<noteq> UEC_OK then (ret, s1, w)
        else (case usbPortManager s1 of None \<Rightarrow> (UEC_SERVICE_INVALID_VALUE, s1, w)
          | Some pm \<Rightarrow> (case Port_Manager.SetPortRole (sv_port E) portId powerRole dataRole pm w of (ret, pm', w') \<Rightarrow>
              (if ret = ret_of_int (sv_HDF_ERR_NOT_SUPPORT E) then UEC_SERVICE_NOT_SUPPORT_SWITCH_PORT else ret,
               s1\<lparr>usbPortManager := Some pm'\<rparr>, w'))))"

definition UpdateUsbPort :: "int \<Rightarrow> int \<Rightarrow> int \<Rightarrow> int \<Rightarrow> 'c usb_service \<Rightarrow> 'c usb_service" where
  "UpdateUsbPort portId powerRole dataRole mode s = (case usbPortManager s of None \<Rightarrow> s
     | Some pm \<Rightarrow> s\<lparr>usbPortManager := Some (UpdatePort portId powerRole dataRole mode pm)\<rparr>)"

definition UpdateUsbPort5 :: "int \<Rightarrow> int \<Rightarrow> int \<Rightarrow> int \<Rightarrow> int \<Rightarrow> 'c usb_service \<Rightarrow> 'c usb_service" where
  "UpdateUsbPort5 portId powerRole dataRole mode supportedModes s = (case usbPortManager s of None \<Rightarrow> s
     | Some pm \<Rightarrow> s\<lparr>usbPortManager := Some (UpdatePort5 portId powerRole dataRole mode supportedModes pm)\<rparr>)"

subsection \<open>Properties\<close>

lemma HasAccessoryRight_recorded:
  assumes "ready (sv_right_env E) (sv_right_db E) v" and "saved v w = None" and "uid \<noteq> 0"
    and "GetCallingInfo E c w = Some (app, tok, uid)" and "HasAccessoryRight E c access s w = (ret, Some True, w')"
  shows "\<exists>am key. usbAccessoryManager s = Some am \<and> GetAccessorySerialNumber access app am = Inr key \<and>
    list_ex (has_key uid key app tok) (table v w)"
  using assms(4,5) no_record_no_right [OF assms(1-3), of _ app tok]
  by (auto simp: HasAccessoryRight_def with_accessory_def split: option.splits sum.splits prod.splits)
     (metis fst_conv)

text \<open>
  C7: an accessory is opened only with a right. When \<^verbatim>\<open>OpenAccessory\<close> succeeds for an application,
  system applications included, an accessory is attached, it is the one the caller named, and the
  rights table has a record of the caller's user, bundle and token for the accessory's key. (Closing
  the accessory asks for neither.)
\<close>

theorem open_accessory_needs_right:
  assumes "ready (sv_right_env E) (sv_right_db E) v" and "saved v w = None"
    and "GetCallingInfo E c w = Some (app, tok, uid)" and "uid \<noteq> USB_RIGHT_USERID_CONSOLE"
    and "OpenAccessory E c access fd s w = (UEC_OK, fd', s', w')"
  shows "\<exists>am key. usbAccessoryManager s = Some am \<and> accStatus am = ACC_START \<and>
    GetAccessorySerialNumber access app am = Inr key \<and> list_ex (has_key uid key app tok) (table v w)"
proof -
  obtain am where am: "usbAccessoryManager s = Some am" using assms(5)
    by (cases "usbAccessoryManager s") (auto simp: OpenAccessory_def)
  obtain key where k: "GetAccessorySerialNumber access app am = Inr key" using assms(3,5) am
    by (cases "GetAccessorySerialNumber access app am")
      (auto simp: OpenAccessory_def GetAccessorySerialNumber_def split: if_splits)
  obtain ret r w1 where h: "HasAccessoryRight E c access s w = (ret, r, w1)" by (cases "HasAccessoryRight E c access s w")
  have "r = Some True" using assms(3,5) am k h by (auto simp: OpenAccessory_def split: if_splits)
  with HasAccessoryRight_recorded [OF assms(1,2) _ assms(3)] assms(4) h am k show ?thesis
    by (fastforce simp: GetAccessorySerialNumber_def split: if_splits)
qed

definition accessory_env :: "(memory, unit, unit) service_env" where
  "accessory_env = sample_service_env\<lparr>sv_accessory := Some \<lparr>ahdi_GetAccessoryInfo = (\<lambda>w. ([], w)),
     ahdi_SetCurrentFunctions = (\<lambda>f w. (0, w)), ahdi_GetCurrentFunctions = (\<lambda>w. (0, 0, w)),
     ahdi_OpenAccessory = (\<lambda>w. (0, 3, w)), ahdi_CloseAccessory = (\<lambda>w. (0, w))\<rparr>\<rparr>"

definition accessory_service :: "unit usb_service" where
  "accessory_service = sample_service\<lparr>usbAccessoryManager := Some (new_accessory_manager\<lparr>accStatus := ACC_START\<rparr>)\<rparr>"

definition accessory_world :: memory where
  "accessory_world = \<lparr>rows = [sample_row\<lparr>row_deviceName := [], row_tokenId := Some ''7''\<rparr>], backup = None\<rparr>"

lemma accessory_ready: "ready (sv_right_env accessory_env) (sv_right_db accessory_env) memory_view"
  "rightDatabase (sv_right_db accessory_env) = Some (Some (memory_store 1 True))"
  using sample_service_ready by (simp_all add: accessory_env_def)

lemma accessory_caller: "GetCallingInfo accessory_env (sample_caller False) w = Some (''app'', ''7'', 100)"
proof -
  have "nat_to_string (unat (call_token (sample_caller False))) = ''7''" by code_simp
  then show ?thesis
    by (simp add: GetCallingInfo_def accessory_env_def sample_service_env_def) (simp add: sample_caller_def)
qed

lemma open_accessory_needs_right_witness:
  "list_ex (has_key 100 [] ''app'' ''7'') (rows accessory_world)"
proof -
  have h: "fst (Right_Manager.HasRight (sv_right_env accessory_env) (sv_right_db accessory_env) [] ''app'' ''7'' 100 accessory_world)"
    by (rule HasRight_complete [OF accessory_ready memory_reliable, of _ "sample_row\<lparr>row_deviceName := [], row_tokenId := Some ''7''\<rparr>"])
       (simp_all add: grantable_def has_key_def accessory_world_def sample_row_def valid_periods IsRecordExpired_def
        info_of_row_def accessory_env_def sample_service_env_def memory_env_def)
  have m: "usbAccessoryManager accessory_service = Some (new_accessory_manager\<lparr>accStatus := ACC_START\<rparr>)"
    "usbRightManager accessory_service = Some \<lparr>usbAbilityConn = False, usbDialogParams = []\<rparr>"
    by (simp_all add: accessory_service_def sample_service_def)
  have k: "GetAccessorySerialNumber new_accessory ''app'' (new_accessory_manager\<lparr>accStatus := ACC_START\<rparr>) = Inr []"
    by (simp add: GetAccessorySerialNumber_def new_accessory_manager_def new_accessory_def acc_compare_def)
  have "fst (OpenAccessory accessory_env (sample_caller False) new_accessory 0 accessory_service accessory_world) = UEC_OK"
    using h by (simp add: OpenAccessory_def HasAccessoryRight_def with_accessory_def m k accessory_caller case_prod_beta)
      (simp add: accessory_env_def Accessory_Manager.OpenAccessory_def)
  then obtain fd' s' w' where o: "OpenAccessory accessory_env (sample_caller False) new_accessory 0 accessory_service accessory_world =
      (UEC_OK, fd', s', w')"
    by (cases "OpenAccessory accessory_env (sample_caller False) new_accessory 0 accessory_service accessory_world") auto
  from open_accessory_needs_right [OF accessory_ready(1) _ accessory_caller _ o] m k show ?thesis
    by (auto simp: accessory_world_def)
qed

end
