(* ===== verification/Service_Lifecycle.thy ===== *)
theory Service_Lifecycle
  imports Service_Device Service_Serial
begin

section \<open>The service: events and unloading\<close>

text \<open>
  The events of the drivers as \<^verbatim>\<open>usb_service.cpp\<close> and \<^verbatim>\<open>usb_manager_subscriber.cpp\<close> handle them, and
  the decision when the service may be unloaded: a timer is set when no device is listed and the gadget
  is not connected, and every later event sets it anew or cancels it.
\<close>

subsection \<open>Unloading\<close>

definition IsNotNeedUnload :: "caller \<Rightarrow> 'c host_manager \<Rightarrow> device_manager \<Rightarrow> bool" where
  "IsNotNeedUnload c hm dm \<longleftrightarrow> Host_Manager.GetDevices c hm \<noteq> [] \<or> IsGadgetConnected dm"

text \<open>The delayed variant, the only one the service uses.\<close>

definition UnLoadSelf :: "('w, 'c, 'm) service_env \<Rightarrow> caller \<Rightarrow> 'c usb_service \<Rightarrow> 'w \<Rightarrow> 'c usb_service" where
  "UnLoadSelf E c s w =
     (case usbHostManager s of None \<Rightarrow> s
      | Some hm \<Rightarrow> (case usbDeviceManager s of None \<Rightarrow> s
        | Some dm \<Rightarrow>
          let s1 = s\<lparr>unloadSelfTimer := False\<rparr> in
          if IsNotNeedUnload c hm dm then s1\<lparr>critical := Some True\<rparr>
          else if \<not> sv_Setup E w then s1\<lparr>critical := Some False\<rparr>
          else s1\<lparr>critical := Some False, unloadSelfTimer := True\<rparr>))"

subsection \<open>Events\<close>

definition is_gadget_event :: "int \<Rightarrow> bool" where
  "is_gadget_event status \<longleftrightarrow> status = ACT_UPDEVICE \<or> status = ACT_DOWNDEVICE \<or>
     status = ACT_ACCESSORYUP \<or> status = ACT_ACCESSORYDOWN \<or> status = ACT_ACCESSORYSEND"

text \<open>
  Bus and address are 32-bit numbers of the event that are cut to eight bits. Everything that is not
  an event of the gadget side or an arrival is a removal. The serial manager is started with the first
  adapter; it is handed to the host manager, which the constructor of the service always creates.
\<close>

definition DeviceEvent :: "('w, 'c, 'm) service_env \<Rightarrow> caller \<Rightarrow> int \<Rightarrow> int \<Rightarrow> int \<Rightarrow> 'c usb_service \<Rightarrow> 'w \<Rightarrow>
    (retcode \<times> 'c usb_service \<times> 'w) option" where
  "DeviceEvent E c status busNum devNum s w =
     (if is_gadget_event status
      then (case UpdateDeviceState E status s w of (s1, w1) \<Rightarrow> Some (UEC_OK, UnLoadSelf E c s1 w1, w1))
      else (case (if status = ACT_DEVUP then AddDevice E (word_of_int busNum) (word_of_int devNum) s w
                  else Some (DelDevice E c (word_of_int busNum) (word_of_int devNum) s w)) of None \<Rightarrow> None
        | Some (_, s1, w1) \<Rightarrow>
          let s2 = UnLoadSelf E c s1 w1 in
          Some (UEC_OK,
            if status = ACT_DEVUP \<and> usbSerialManager s2 = None \<and> CheckForTtyUSB E w1
            then s2\<lparr>usbSerialManager := Some new_serial_manager\<rparr> else s2, w1)))"

text \<open>
  The subscriber of the driver's port events. The JSON library may fail to make the object (\<open>created\<close>)
  or to print it (\<open>printed\<close>); the result of the publication is a boolean that is returned as a code.
\<close>

definition PortChangedEvent :: "bool \<Rightarrow> bool \<Rightarrow> bool \<Rightarrow> int \<Rightarrow> int \<Rightarrow> int \<Rightarrow> int \<Rightarrow> int \<Rightarrow> 'c usb_service \<Rightarrow>
    retcode \<times> 'c usb_service" where
  "PortChangedEvent created printed published portId powerRole dataRole mode supportedModes s =
     (if \<not> created then (UEC_SERVICE_OBJECT_CREATE_FAILED, s)
      else if \<not> printed then (UEC_SERVICE_OBJECT_CREATE_FAILED, s)
      else (publish_code published, UpdateUsbPort5 portId powerRole dataRole mode supportedModes s))"

subsection \<open>Properties\<close>

lemma UnLoadSelf_decides:
  assumes "usbHostManager s = Some hm" and "usbDeviceManager s = Some dm" and "sv_Setup E w"
  shows "usbHostManager (UnLoadSelf E c s w) = Some hm" "usbDeviceManager (UnLoadSelf E c s w) = Some dm"
    "unloadSelfTimer (UnLoadSelf E c s w) = (Host_Manager.GetDevices c hm = [] \<and> \<not> gadgetConnected dm)"
    "critical (UnLoadSelf E c s w) = Some (\<not> unloadSelfTimer (UnLoadSelf E c s w))"
  using assms by (simp_all add: UnLoadSelf_def Let_def IsNotNeedUnload_def IsGadgetConnected_def)

lemma same_attached_host:
  "same_attached s s' \<Longrightarrow> usbHostManager s \<noteq> None \<Longrightarrow> usbHostManager s' \<noteq> None"
  by (auto simp: same_attached_def)

lemma event_managers:
  "DelDevice E c b d s w = (ok, s', w') \<Longrightarrow> usbHostManager s \<noteq> None \<Longrightarrow> usbHostManager s' \<noteq> None \<and> usbDeviceManager s' = usbDeviceManager s"
  "AddDevice E b d s w = Some (ok, s', w') \<Longrightarrow> usbHostManager s \<noteq> None \<Longrightarrow> usbHostManager s' \<noteq> None \<and> usbDeviceManager s' = usbDeviceManager s"
  "UpdateDeviceState E status s w = (s', w') \<Longrightarrow> usbHostManager s' = usbHostManager s \<and> (usbDeviceManager s' = None) = (usbDeviceManager s = None)"
  by (auto simp: DelDevice_def Close_def guarded_def plain_def report_def Let_def AddDevice_def UpdateDeviceState_def
      split: prod.splits option.splits if_splits)

text \<open>
  C13: the service is unloaded when nothing is connected, and only then. After every event the drivers
  report, the timer that unloads the service runs exactly when the list of devices is empty and the
  gadget is not connected, and the memory manager has been told that the process is critical exactly
  when the timer does not run.
\<close>

theorem event_schedules_unload:
  assumes "DeviceEvent E c status busNum devNum s w = Some (ret, s', w')"
    and "usbHostManager s \<noteq> None" and "usbDeviceManager s \<noteq> None" and "\<And>w. sv_Setup E w"
  shows "ret = UEC_OK \<and> (\<exists>hm dm. usbHostManager s' = Some hm \<and> usbDeviceManager s' = Some dm \<and>
    unloadSelfTimer s' = (Host_Manager.GetDevices c hm = [] \<and> \<not> gadgetConnected dm) \<and>
    critical s' = Some (\<not> unloadSelfTimer s'))"
proof -
  have "\<exists>s1 w1 sm. ret = UEC_OK \<and> usbHostManager s1 \<noteq> None \<and> usbDeviceManager s1 \<noteq> None \<and>
      s' = (UnLoadSelf E c s1 w1)\<lparr>usbSerialManager := sm\<rparr>"
  proof (cases "is_gadget_event status")
    case True
    obtain s1 w1 where u: "UpdateDeviceState E status s w = (s1, w1)" by (cases "UpdateDeviceState E status s w")
    have "s' = (UnLoadSelf E c s1 w1)\<lparr>usbSerialManager := usbSerialManager (UnLoadSelf E c s1 w1)\<rparr> \<and> ret = UEC_OK"
      using assms(1) True u by (auto simp: DeviceEvent_def)
    with event_managers(3) [OF u] assms(2,3) show ?thesis by metis
  next
    case False
    then obtain ok s1 w1 where o: "(if status = ACT_DEVUP then AddDevice E (word_of_int busNum) (word_of_int devNum) s w
        else Some (DelDevice E c (word_of_int busNum) (word_of_int devNum) s w)) = Some (ok, s1, w1)"
      using assms(1) by (auto simp: DeviceEvent_def split: option.splits)
    have m: "usbHostManager s1 \<noteq> None" "usbDeviceManager s1 \<noteq> None"
      using o event_managers(1,2) [where E = E and s = s and s' = s1] assms(2,3) by (auto split: if_splits)
    have "ret = UEC_OK \<and> (\<exists>sm. s' = (UnLoadSelf E c s1 w1)\<lparr>usbSerialManager := sm\<rparr>)"
      using assms(1) False o by (auto simp: DeviceEvent_def Let_def split: if_splits intro: exI [of _ "usbSerialManager (UnLoadSelf E c s1 w1)"])
    with m show ?thesis by blast
  qed
  then obtain s1 w1 sm hm dm where s: "ret = UEC_OK" "usbHostManager s1 = Some hm" "usbDeviceManager s1 = Some dm"
    "s' = (UnLoadSelf E c s1 w1)\<lparr>usbSerialManager := sm\<rparr>" by auto
  show ?thesis using UnLoadSelf_decides [OF s(2,3) assms(4) [of w1], of c] s by simp
qed

lemma event_schedules_unload_witness:
  "unloadSelfTimer (fst (snd (the (DeviceEvent sample_service_env (sample_caller True) ACT_DOWNDEVICE 1 2
     (sample_service\<lparr>usbDeviceManager := Some new_device_manager\<rparr>) sample_world))))"
proof -
  let ?s = "sample_service\<lparr>usbDeviceManager := Some new_device_manager\<rparr>"
  have "UpdateDeviceState sample_service_env ACT_DOWNDEVICE ?s sample_world = (?s, sample_world)"
    by (simp add: UpdateDeviceState_def sample_service_def sample_service_env_def HandleEvent_def)
  then obtain s' where e: "DeviceEvent sample_service_env (sample_caller True) ACT_DOWNDEVICE 1 2 ?s sample_world =
      Some (UEC_OK, s', sample_world)" "s' = UnLoadSelf sample_service_env (sample_caller True) ?s sample_world"
    by (simp add: DeviceEvent_def is_gadget_event_def)
  then have "usbHostManager s' = Some new_host_manager" "usbDeviceManager s' = Some new_device_manager"
    by (simp_all add: UnLoadSelf_def Let_def sample_service_def)
  with event_schedules_unload [OF e(1)] e(1) show ?thesis
    by (simp add: sample_service_def sample_service_env_def new_device_manager_def new_host_manager_def
        Host_Manager.GetDevices_def)
qed

end
