(* ===== verification/Switch_Window.thy ===== *)
theory Switch_Window
  imports Usb_Data Usb_Settings "HOL-Library.Sublist"
begin

section \<open>The function switch window\<close>

text \<open>
  \<^verbatim>\<open>services/native/src/usb_function_switch_window.cpp\<close>: the dialog in which the user chooses the function
  of a new connection. The dialog belongs to another application, to which the window connects; the
  connection object gets two callbacks later. System parameters, settings, accounts, the ability
  manager, the bundle manager, timers and the messages to the dialog are the record \<open>window_env\<close>.
\<close>

subsection \<open>Environment and state\<close>

datatype window_action =
    FUNCTION_SWITCH_WINDOW_ACTION_DEFAULT
  | FUNCTION_SWITCH_WINDOW_ACTION_SHOW
  | FUNCTION_SWITCH_WINDOW_ACTION_DISMISS
  | FUNCTION_SWITCH_WINDOW_ACTION_FORBID

text \<open>A message to the dialog: the command and the pairs of strings that are written after their number.\<close>

datatype dialog_message = Dialog_Message nat "(string \<times> string) list"

text \<open>
  \<open>we_settings\<close> is the data share of the settings for a URI (the empty one for the helper itself); \<open>we_SendRequest\<close> returns the code and the
  number in the reply, if there is one; \<open>we_json\<close> prints the parameters of the dialog and returns the
  empty string on failure; \<open>we_Setup\<close> and \<open>we_GetBundleInfo\<close> are the calls of these names.
\<close>

record 'w window_env =
  we_GetBoolParameter :: "string \<Rightarrow> bool \<Rightarrow> 'w \<Rightarrow> bool"
  we_SetParameter :: "string \<Rightarrow> string \<Rightarrow> 'w \<Rightarrow> bool \<times> 'w"
  we_GetStringParameter :: "string \<Rightarrow> string \<Rightarrow> 'w \<Rightarrow> string"
  we_WatchParameter :: "string \<Rightarrow> 'w \<Rightarrow> int \<times> 'w"
  we_settings :: "string \<Rightarrow> 'w settings_env"
  we_ActiveOsAccountIds :: "'w \<Rightarrow> int list"
  we_AbilityManager :: "'w \<Rightarrow> bool"
  we_ConnectAbility :: "string \<Rightarrow> string \<Rightarrow> 'w \<Rightarrow> int \<times> 'w"
  we_DisconnectAbility :: "'w \<Rightarrow> int \<times> 'w"
  we_GetBundleInfo :: "string \<Rightarrow> 'w \<Rightarrow> bool \<times> 'w"
  we_sleep :: "'w \<Rightarrow> 'w"
  we_Setup :: "'w \<Rightarrow> int"
  we_Subscribe :: "'w \<Rightarrow> bool \<times> 'w"
  we_SendRequest :: "dialog_message \<Rightarrow> 'w \<Rightarrow> int \<times> int option \<times> 'w"
  we_json :: "(string \<times> string) list \<Rightarrow> 'w \<Rightarrow> string"

text \<open>The connection: whether the dialog is to be aborted, and whether its remote object is held.\<close>

record ability_conn =
  isAbortDialog :: bool
  remoteObject :: bool

text \<open>\<open>checkDialogTimer\<close> tells whether the task that looks for the dialog's application is registered.\<close>

record switch_window =
  usbFuncAbilityConn :: "ability_conn option"
  windowAction :: window_action
  isDialogInstalled :: bool
  checkDialogTimer :: bool

definition new_window :: switch_window where
  "new_window = \<lparr>usbFuncAbilityConn = None, windowAction = FUNCTION_SWITCH_WINDOW_ACTION_DEFAULT,
     isDialogInstalled = False, checkDialogTimer = False\<rparr>"

definition new_conn :: ability_conn where
  "new_conn = \<lparr>isAbortDialog = False, remoteObject = False\<rparr>"

definition functionSwitchBundleName :: string where "functionSwitchBundleName = ''com.usb.right''"
definition MAX_RETRY_TIMES :: nat where "MAX_RETRY_TIMES = 30"
definition WINDOW_SUPPORTED_FUNC_NONE :: i32 where "WINDOW_SUPPORTED_FUNC_NONE = - 1"
definition WINDOW_SUPPORTED_FUNC_MTP :: u32 where "WINDOW_SUPPORTED_FUNC_MTP = 8"
definition WINDOW_SUPPORTED_FUNC_PTP :: u32 where "WINDOW_SUPPORTED_FUNC_PTP = 16"

subsection \<open>The connection\<close>

definition window_GetSupportedFunctions :: "'w window_env \<Rightarrow> 'w \<Rightarrow> i32" where
  "window_GetSupportedFunctions e w =
     (let supportedFuncStr = we_GetStringParameter e ''const.usb_manager.supported_functions'' ''charge,mtp,ptp'' w in
      if sublist ''none'' supportedFuncStr then WINDOW_SUPPORTED_FUNC_NONE
      else let mtp = (if sublist ''mtp'' supportedFuncStr then WINDOW_SUPPORTED_FUNC_MTP else 0);
               ptp = (if sublist ''ptp'' supportedFuncStr then WINDOW_SUPPORTED_FUNC_PTP else 0)
           in ucast (mtp OR ptp))"

definition PrepareJson :: "'w window_env \<Rightarrow> 'w \<Rightarrow> string" where
  "PrepareJson e w = we_json e [(''supportedFuncs'', to_string (sint (window_GetSupportedFunctions e w))),
     (''ability.want.params.uiExtensionType'', ''sysDialog/common'')] w"

definition abort_message :: dialog_message where "abort_message = Dialog_Message 3 []"

definition show_message :: "string \<Rightarrow> dialog_message" where
  "show_message parameters = Dialog_Message 1 [(''bundleName'', ''com.usb.right''),
     (''abilityName'', ''UsbFunctionSwitchExtAbility''), (''parameters'', parameters)]"

text \<open>
  The connection is established. When the dialog is to be aborted the message goes to the object that
  is held and not to the one that has come; \<open>None\<close> is the call on a null pointer.
\<close>

definition OnAbilityConnectDone :: "'w window_env \<Rightarrow> bool \<Rightarrow> ability_conn \<Rightarrow> 'w \<Rightarrow> (ability_conn \<times> 'w) option" where
  "OnAbilityConnectDone e remote cn w =
     (if \<not> remote then Some (cn, w)
      else if isAbortDialog cn
      then (if \<not> remoteObject cn then None
            else (case we_SendRequest e abort_message w of (ret, reply, w') \<Rightarrow> Some (cn, w')))
      else if PrepareJson e w = [] then Some (cn, w)
      else (case we_SendRequest e (show_message (PrepareJson e w)) w of (ret, reply, w') \<Rightarrow>
        if ret \<noteq> 0 then Some (cn, w')
        else (case reply of None \<Rightarrow> Some (cn, w')
          | Some code \<Rightarrow> if code \<noteq> 0 then Some (cn, w') else Some (cn\<lparr>remoteObject := True\<rparr>, w'))))"

definition OnAbilityDisconnectDone :: "ability_conn \<Rightarrow> ability_conn" where
  "OnAbilityDisconnectDone cn = cn\<lparr>remoteObject := False\<rparr>"

definition CloseDialog :: "'w window_env \<Rightarrow> ability_conn \<Rightarrow> 'w \<Rightarrow> ability_conn \<times> 'w" where
  "CloseDialog e cn w =
     (let cn1 = cn\<lparr>isAbortDialog := True\<rparr> in
      if \<not> remoteObject cn1 then (cn1, w)
      else (case we_SendRequest e abort_message w of (ret, reply, w') \<Rightarrow> (cn1, w')))"

definition ReopenDialog :: "ability_conn \<Rightarrow> ability_conn" where
  "ReopenDialog cn = cn\<lparr>isAbortDialog := False\<rparr>"

subsection \<open>Showing and hiding\<close>

definition ShowFunctionSwitchWindow :: "'w window_env \<Rightarrow> switch_window \<Rightarrow> 'w \<Rightarrow> bool \<times> switch_window \<times> 'w" where
  "ShowFunctionSwitchWindow e win w =
     (if \<not> isDialogInstalled win then (False, win, w)
      else let cn = (case usbFuncAbilityConn win of None \<Rightarrow> new_conn | Some cn \<Rightarrow> cn);
               win1 = win\<lparr>usbFuncAbilityConn := Some (ReopenDialog cn)\<rparr> in
        if \<not> we_AbilityManager e w then (False, win1, w)
        else (case we_ConnectAbility e ''com.ohos.sceneboard'' ''com.ohos.sceneboard.systemdialog'' w of (ret, w1) \<Rightarrow>
          if ret = 0 then (True, win1, w1)
          else (case we_ConnectAbility e ''com.ohos.systemui'' ''com.ohos.systemui.dialog'' w1 of (ret, w2) \<Rightarrow>
            if ret \<noteq> 0 then (False, win1\<lparr>usbFuncAbilityConn := None\<rparr>, w2) else (True, win1, w2))))"

definition UnShowFunctionSwitchWindow :: "'w window_env \<Rightarrow> switch_window \<Rightarrow> 'w \<Rightarrow> bool \<times> switch_window \<times> 'w" where
  "UnShowFunctionSwitchWindow e win w =
     (case usbFuncAbilityConn win of None \<Rightarrow> (True, win, w)
      | Some cn \<Rightarrow>
        if \<not> we_AbilityManager e w then (False, win, w)
        else (case CloseDialog e cn w of (cn', w1) \<Rightarrow>
          let win1 = win\<lparr>usbFuncAbilityConn := Some cn'\<rparr> in
          (case we_DisconnectAbility e w1 of (ret, w2) \<Rightarrow> (ret = 0, win1, w2))))"

definition destroy_window :: "'w window_env \<Rightarrow> switch_window \<Rightarrow> 'w \<Rightarrow> 'w" where
  "destroy_window e win w =
     (if windowAction win = FUNCTION_SWITCH_WINDOW_ACTION_SHOW
      then snd (snd (UnShowFunctionSwitchWindow e win w)) else w)"

text \<open>
  Whether the first-use guide is still running. Every query that fails is passed over; the caller only
  logs the answer.
\<close>

definition provisioned_uri :: string where
  "provisioned_uri = ''datashare:///com.ohos.settingsdata/entry/settingsdata/SETTINGSDATA?Proxy=true&key=device_provisioned''"

definition secure_uri :: "int \<Rightarrow> string \<Rightarrow> string" where
  "secure_uri userId key = ''datashare:///com.ohos.settingsdata/entry/settingsdata/USER_SETTINGSDATA_SECURE_'' @
     to_string userId @ ''?Proxy=true&key='' @ key"

definition ShouldRejectShowWindow :: "'w window_env \<Rightarrow> 'w \<Rightarrow> bool \<times> 'w" where
  "ShouldRejectShowWindow e w =
     (case CreateDataShareHelper (we_settings e []) w of (helper, w0) \<Rightarrow>
      let finish = (\<lambda>(r, w). (r, destroy (we_settings e []) helper w)) in
      finish (case settings_Query (we_settings e provisioned_uri) helper ''device_provisioned'' ''0'' w0 of (resp, v, w1) \<Rightarrow>
        if resp \<and> v \<noteq> ''1'' then (True, w1)
        else (case we_ActiveOsAccountIds e w1 of [] \<Rightarrow> (True, w1)
          | userId # _ \<Rightarrow>
            (case settings_Query (we_settings e (secure_uri userId ''user_setup_complete'')) helper ''user_setup_complete'' ''0'' w1 of
              (resp, v, w2) \<Rightarrow>
                if resp \<and> v \<noteq> ''1'' then (True, w2)
                else (case settings_Query (we_settings e (secure_uri userId ''is_ota_finished'')) helper ''is_ota_finished'' ''0'' w2 of
                  (resp, v, w3) \<Rightarrow> (resp \<and> v = ''0'', w3))))))"

definition boot_completed :: "'w window_env \<Rightarrow> 'w \<Rightarrow> bool" where
  "boot_completed e w = we_GetBoolParameter e ''bootevent.boot.completed'' False w"

definition PopUpFunctionSwitchWindow :: "'w window_env \<Rightarrow> switch_window \<Rightarrow> 'w \<Rightarrow> bool \<times> switch_window \<times> 'w" where
  "PopUpFunctionSwitchWindow e win w =
     (if \<not> we_GetBoolParameter e ''persist.usb.setting.gadget_conn_prompt'' True w then (False, win, w)
      else if \<not> we_GetBoolParameter e ''usb.setting.gadget_conn_prompt'' True w
      then (False, win, snd (we_SetParameter e ''usb.setting.gadget_conn_prompt'' ''true'' w))
      else if window_GetSupportedFunctions e w <s 0 then (False, win, w)
      else if windowAction win = FUNCTION_SWITCH_WINDOW_ACTION_FORBID then (False, win, w)
      else let win1 = win\<lparr>windowAction := FUNCTION_SWITCH_WINDOW_ACTION_SHOW\<rparr> in
        if \<not> boot_completed e w then (False, win1, snd (we_WatchParameter e ''bootevent.boot.completed'' w))
        else (case ShouldRejectShowWindow e w of (_, w1) \<Rightarrow> ShowFunctionSwitchWindow e win1 w1))"

definition DismissFunctionSwitchWindow :: "'w window_env \<Rightarrow> switch_window \<Rightarrow> 'w \<Rightarrow> bool \<times> switch_window \<times> 'w" where
  "DismissFunctionSwitchWindow e win w =
     (if windowAction win = FUNCTION_SWITCH_WINDOW_ACTION_FORBID then (False, win, w)
      else UnShowFunctionSwitchWindow e (win\<lparr>windowAction := FUNCTION_SWITCH_WINDOW_ACTION_DISMISS\<rparr>) w)"

definition ShowWindowIfConnected :: "'w window_env \<Rightarrow> switch_window \<Rightarrow> 'w \<Rightarrow> bool \<times> switch_window \<times> 'w" where
  "ShowWindowIfConnected e win w =
     (if windowAction win = FUNCTION_SWITCH_WINDOW_ACTION_SHOW then ShowFunctionSwitchWindow e win w else (False, win, w))"

definition BootCompletedEventCallback :: "'w window_env \<Rightarrow> switch_window \<Rightarrow> 'w \<Rightarrow> switch_window \<times> 'w" where
  "BootCompletedEventCallback e win w =
     (if \<not> boot_completed e w then (win, w)
      else (case ShouldRejectShowWindow e w of (_, w1) \<Rightarrow> snd (ShowWindowIfConnected e win w1)))"

subsection \<open>Looking for the dialog\<close>

text \<open>The loop of \<^verbatim>\<open>CheckDialogInstallStatus\<close>, with the number of attempts that are left.\<close>

fun check_loop :: "'w window_env \<Rightarrow> nat \<Rightarrow> switch_window \<Rightarrow> 'w \<Rightarrow> bool \<times> switch_window \<times> 'w" where
  "check_loop e 0 win w = (False, win, w)"
| "check_loop e (Suc n) win w =
     (case we_GetBundleInfo e functionSwitchBundleName w of (installed, w1) \<Rightarrow>
      let win1 = win\<lparr>isDialogInstalled := installed\<rparr> in
      if \<not> installed then check_loop e n win1 (we_sleep e w1)
      else (True, if windowAction win1 = FUNCTION_SWITCH_WINDOW_ACTION_SHOW \<and> boot_completed e w1
                  then snd (ShowFunctionSwitchWindow e win1 w1) else (win1, w1)))"

definition CheckDialogInstallStatus :: "'w window_env \<Rightarrow> switch_window \<Rightarrow> 'w \<Rightarrow> bool \<times> switch_window \<times> 'w" where
  "CheckDialogInstallStatus e = check_loop e MAX_RETRY_TIMES"

definition check_or_subscribe :: "'w window_env \<Rightarrow> switch_window \<Rightarrow> 'w \<Rightarrow> switch_window \<times> 'w" where
  "check_or_subscribe e win w = (case CheckDialogInstallStatus e win w of (checkRet, win1, w1) \<Rightarrow>
     if \<not> checkRet then (win1, snd (we_Subscribe e w1)) else (win1, w1))"

definition check_task :: "'w window_env \<Rightarrow> switch_window \<Rightarrow> 'w \<Rightarrow> switch_window \<times> 'w" where
  "check_task e win w = (case check_or_subscribe e win w of (win1, w1) \<Rightarrow> (win1\<lparr>checkDialogTimer := False\<rparr>, w1))"

definition window_Init :: "'w window_env \<Rightarrow> switch_window \<Rightarrow> 'w \<Rightarrow> retcode \<times> switch_window \<times> 'w" where
  "window_Init e win w =
     (if isDialogInstalled win then (UEC_OK, win, w)
      else let win1 = win\<lparr>checkDialogTimer := False\<rparr>; ret = we_Setup e w in
        if ret \<noteq> 0
        then (case check_or_subscribe e win1 w of (win2, w2) \<Rightarrow>
          (if isDialogInstalled win2 then UEC_OK else ret_of_int ret, win2, w2))
        else (UEC_OK, win1\<lparr>checkDialogTimer := True\<rparr>, w))"

text \<open>The subscriber: the bundle manager has finished its scan.\<close>

definition window_OnReceiveEvent :: "'w window_env \<Rightarrow> string \<Rightarrow> string \<Rightarrow> switch_window \<Rightarrow> 'w \<Rightarrow> switch_window \<times> 'w" where
  "window_OnReceiveEvent e scan_finished wantAction win w =
     (if wantAction = scan_finished then snd (CheckDialogInstallStatus e win w) else (win, w))"

subsection \<open>Steps and reachable states\<close>

text \<open>
  What can happen to the window: the calls of the gadget manager, the callbacks of the boot parameter,
  of the bundle scan, of the timer and of the connection, and steps of the world. The callback on a
  null pointer has no successor.
\<close>

inductive window_step :: "'w window_env \<Rightarrow> switch_window \<times> 'w \<Rightarrow> switch_window \<times> 'w \<Rightarrow> bool" for e where
  pop_up: "window_step e (win, w) (snd (PopUpFunctionSwitchWindow e win w))"
| dismiss: "window_step e (win, w) (snd (DismissFunctionSwitchWindow e win w))"
| boot: "window_step e (win, w) (BootCompletedEventCallback e win w)"
| scan: "window_step e (win, w) (window_OnReceiveEvent e scanned act win w)"
| init: "window_step e (win, w) (snd (window_Init e win w))"
| timer: "checkDialogTimer win \<Longrightarrow> window_step e (win, w) (check_task e win w)"
| connected: "usbFuncAbilityConn win = Some cn \<Longrightarrow> OnAbilityConnectDone e remote cn w = Some (cn', w') \<Longrightarrow>
    window_step e (win, w) (win\<lparr>usbFuncAbilityConn := Some cn'\<rparr>, w')"
| disconnected: "usbFuncAbilityConn win = Some cn \<Longrightarrow>
    window_step e (win, w) (win\<lparr>usbFuncAbilityConn := Some (OnAbilityDisconnectDone cn)\<rparr>, w)"
| environment: "window_step e (win, w) (win, w')"

inductive window_reachable :: "'w window_env \<Rightarrow> switch_window \<times> 'w \<Rightarrow> bool" for e where
  start: "window_reachable e (new_window, w)"
| step: "window_reachable e s \<Longrightarrow> window_step e s s' \<Longrightarrow> window_reachable e s'"

definition abort_pending :: "switch_window \<Rightarrow> bool" where
  "abort_pending win \<longleftrightarrow> (windowAction win = FUNCTION_SWITCH_WINDOW_ACTION_DISMISS \<longrightarrow>
     (case usbFuncAbilityConn win of None \<Rightarrow> True | Some cn \<Rightarrow> isAbortDialog cn))"

lemma abort_pending_show [simp]: "windowAction win = FUNCTION_SWITCH_WINDOW_ACTION_SHOW \<Longrightarrow> abort_pending win"
  by (simp add: abort_pending_def)

lemma Show_action:
  "windowAction (fst (snd (ShowFunctionSwitchWindow e win w))) = windowAction win"
  by (simp add: ShowFunctionSwitchWindow_def Let_def split: prod.split)

lemma PopUp_abort_pending: "abort_pending win \<Longrightarrow> abort_pending (fst (snd (PopUpFunctionSwitchWindow e win w)))"
  using Show_action [of e "win\<lparr>windowAction := FUNCTION_SWITCH_WINDOW_ACTION_SHOW\<rparr>"]
  by (simp add: PopUpFunctionSwitchWindow_def Let_def split: prod.split)

lemma Dismiss_abort_pending:
  "(\<And>w. we_AbilityManager e w) \<Longrightarrow> abort_pending win \<Longrightarrow> abort_pending (fst (snd (DismissFunctionSwitchWindow e win w)))"
  by (auto simp: DismissFunctionSwitchWindow_def UnShowFunctionSwitchWindow_def CloseDialog_def Let_def abort_pending_def
      split: option.splits prod.splits)

lemma Boot_abort_pending: "abort_pending win \<Longrightarrow> abort_pending (fst (BootCompletedEventCallback e win w))"
  using Show_action [of e win]
  by (auto simp: BootCompletedEventCallback_def ShowWindowIfConnected_def split: prod.split)

lemma check_loop_abort_pending: "abort_pending win \<Longrightarrow> abort_pending (fst (snd (check_loop e n win w)))"
proof (induction n arbitrary: win w)
  case (Suc n)
  have "abort_pending (win\<lparr>isDialogInstalled := i\<rparr>)" for i using Suc.prems by (simp add: abort_pending_def)
  with Suc.IH Show_action [of e "win\<lparr>isDialogInstalled := True\<rparr>"] show ?case
    by (auto simp: Let_def split: prod.split)
qed simp

lemma check_or_subscribe_abort_pending: "abort_pending win \<Longrightarrow> abort_pending (fst (check_or_subscribe e win w))"
  using check_loop_abort_pending [of win e MAX_RETRY_TIMES w]
  by (auto simp: check_or_subscribe_def CheckDialogInstallStatus_def split: prod.split)

lemma timer_abort_pending [simp]: "abort_pending (win\<lparr>checkDialogTimer := b\<rparr>) = abort_pending win"
  by (simp add: abort_pending_def)

lemma Init_abort_pending: "abort_pending win \<Longrightarrow> abort_pending (fst (snd (window_Init e win w)))"
  using check_or_subscribe_abort_pending [of "win\<lparr>checkDialogTimer := False\<rparr>" e w]
  by (simp add: window_Init_def Let_def case_prod_beta)

lemma OnAbilityConnectDone_abort: "OnAbilityConnectDone e remote cn w = Some (cn', w') \<Longrightarrow> isAbortDialog cn' = isAbortDialog cn"
  by (auto simp: OnAbilityConnectDone_def split: if_splits prod.splits option.splits)

lemma window_step_abort_pending:
  assumes "\<And>w. we_AbilityManager e w"
  shows "window_step e s s' \<Longrightarrow> abort_pending (fst s) \<Longrightarrow> abort_pending (fst s')"
proof (induction rule: window_step.induct)
  case (timer win w)
  with check_or_subscribe_abort_pending [of win e w] show ?case by (simp add: check_task_def case_prod_beta)
next
  case (scan win w scanned act)
  with check_loop_abort_pending [of win e MAX_RETRY_TIMES w] show ?case
    by (simp add: window_OnReceiveEvent_def CheckDialogInstallStatus_def)
next
  case (connected win cn remote w cn' w')
  with OnAbilityConnectDone_abort [OF connected(2)] show ?case by (simp add: abort_pending_def)
qed (use assms in \<open>simp_all add: PopUp_abort_pending Dismiss_abort_pending Boot_abort_pending Init_abort_pending,
  simp_all add: abort_pending_def OnAbilityDisconnectDone_def\<close>)

lemma window_reachable_abort_pending:
  assumes "\<And>w. we_AbilityManager e w"
  shows "window_reachable e s \<Longrightarrow> abort_pending (fst s)"
proof (induction rule: window_reachable.induct)
  case (start w)
  show ?case by (simp add: abort_pending_def new_window_def)
next
  case (step s s')
  then show ?case using window_step_abort_pending [OF assms] by blast
qed


text \<open>
  A connection that is dismissed too early crashes the service. When the window is popped up for the
  first time and dismissed before the connection to the dialog is established, the callback of the
  connection is a call through a null pointer.
\<close>

theorem early_dismissal_crashes:
  assumes "usbFuncAbilityConn win = None" and "PopUpFunctionSwitchWindow e win w = (True, win1, w1)"
    and "we_AbilityManager e w1"
  shows "\<exists>ret win2 w2 cn. DismissFunctionSwitchWindow e win1 w1 = (ret, win2, w2) \<and>
    usbFuncAbilityConn win2 = Some cn \<and> OnAbilityConnectDone e True cn w2 = None"
proof -
  have "usbFuncAbilityConn win1 = Some new_conn" "windowAction win1 = FUNCTION_SWITCH_WINDOW_ACTION_SHOW"
    using assms(1,2)
    by (auto simp: PopUpFunctionSwitchWindow_def ShowFunctionSwitchWindow_def ReopenDialog_def new_conn_def Let_def
        split: if_splits prod.splits)
  with assms(3) show ?thesis
    by (simp add: DismissFunctionSwitchWindow_def UnShowFunctionSwitchWindow_def CloseDialog_def new_conn_def
        OnAbilityConnectDone_def case_prod_beta)
qed

definition sample_window_env :: "dialog_message list window_env" where
  "sample_window_env = \<lparr>we_GetBoolParameter = (\<lambda>k d w. True), we_SetParameter = (\<lambda>k v w. (True, w)),
     we_GetStringParameter = (\<lambda>k d w. d), we_WatchParameter = (\<lambda>k w. (0, w)),
     we_settings = (\<lambda>uri. \<lparr>se_SystemAbilityManager = (\<lambda>w. False), se_GetSystemAbility = (\<lambda>w. False),
       se_Create = (\<lambda>w. (False, w)), se_Query = (\<lambda>k w. (None, w)), se_Insert = (\<lambda>k v w. (- 1, w)),
       se_Update = (\<lambda>k v w. (- 1, w)), se_NotifyChange = (\<lambda>w. w), se_Release = (\<lambda>w. w)\<rparr>),
     we_ActiveOsAccountIds = (\<lambda>w. [100]), we_AbilityManager = (\<lambda>w. True), we_ConnectAbility = (\<lambda>b a w. (0, w)),
     we_DisconnectAbility = (\<lambda>w. (0, w)), we_GetBundleInfo = (\<lambda>b w. (True, w)), we_sleep = (\<lambda>w. w),
     we_Setup = (\<lambda>w. 0), we_Subscribe = (\<lambda>w. (True, w)), we_SendRequest = (\<lambda>m w. (0, Some 0, w @ [m])),
     we_json = (\<lambda>ps w. ''{}'')\<rparr>"

text \<open>The window after the dialog was found, popped up, connected and dismissed.\<close>

definition installed_window :: switch_window where
  "installed_window = new_window\<lparr>isDialogInstalled := True\<rparr>"

lemma installed_window_reachable: "window_reachable sample_window_env (installed_window, [])"
proof -
  have "window_OnReceiveEvent sample_window_env [] [] new_window [] = (installed_window, [])"
    by (simp add: window_OnReceiveEvent_def CheckDialogInstallStatus_def MAX_RETRY_TIMES_def numeral_eq_Suc
        sample_window_env_def new_window_def installed_window_def Let_def)
  with window_reachable.step [OF window_reachable.start window_step.scan [of _ new_window "[]" "[]" "[]"]]
  show ?thesis by metis
qed

lemma popped_up_window:
  "PopUpFunctionSwitchWindow sample_window_env installed_window [] =
     (True, installed_window\<lparr>usbFuncAbilityConn := Some new_conn, windowAction := FUNCTION_SWITCH_WINDOW_ACTION_SHOW\<rparr>, [])"
proof -
  have "\<not> window_GetSupportedFunctions sample_window_env [] <s 0" by code_simp
  then show ?thesis
    by (simp add: PopUpFunctionSwitchWindow_def ShowFunctionSwitchWindow_def ShouldRejectShowWindow_def Let_def
        CreateDataShareHelper_def settings_Query_def destroy_def boot_completed_def ReopenDialog_def new_conn_def
        sample_window_env_def installed_window_def new_window_def)
qed

lemma sample_ability_manager [simp]: "we_AbilityManager sample_window_env w"
  by (simp add: sample_window_env_def)

lemma early_dismissal_crashes_witness:
  "\<exists>win1 ret win2 w2 cn. PopUpFunctionSwitchWindow sample_window_env installed_window [] = (True, win1, []) \<and>
     DismissFunctionSwitchWindow sample_window_env win1 [] = (ret, win2, w2) \<and> usbFuncAbilityConn win2 = Some cn \<and>
     OnAbilityConnectDone sample_window_env True cn w2 = None"
  using early_dismissal_crashes [OF _ popped_up_window] popped_up_window
  by (simp add: installed_window_def new_window_def)

text \<open>The window that was popped up, connected and dismissed.\<close>

lemma dismissed_window_reachable:
  "\<exists>win w. window_reachable sample_window_env (win, w) \<and> windowAction win = FUNCTION_SWITCH_WINDOW_ACTION_DISMISS \<and>
     usbFuncAbilityConn win = Some \<lparr>isAbortDialog = True, remoteObject = True\<rparr>"
proof -
  let ?win = "installed_window\<lparr>usbFuncAbilityConn := Some new_conn, windowAction := FUNCTION_SWITCH_WINDOW_ACTION_SHOW\<rparr>"
  let ?win' = "?win\<lparr>usbFuncAbilityConn := Some \<lparr>isAbortDialog = False, remoteObject = True\<rparr>\<rparr>"
  have "window_reachable sample_window_env (?win, [])"
    using window_reachable.step [OF installed_window_reachable window_step.pop_up] by (simp add: popped_up_window)
  moreover have "OnAbilityConnectDone sample_window_env True new_conn [] =
      Some (\<lparr>isAbortDialog = False, remoteObject = True\<rparr>, [show_message ''{}''])"
    by (simp add: OnAbilityConnectDone_def new_conn_def PrepareJson_def sample_window_env_def)
  ultimately have "window_reachable sample_window_env (?win', [show_message ''{}''])"
    using window_reachable.step [OF _ window_step.connected [of ?win new_conn]] by fastforce
  then have "window_reachable sample_window_env
      (snd (DismissFunctionSwitchWindow sample_window_env ?win' [show_message ''{}'']))"
    by (rule window_reachable.step [OF _ window_step.dismiss])
  moreover obtain r win w where "DismissFunctionSwitchWindow sample_window_env ?win' [show_message ''{}''] = (r, win, w)"
    "windowAction win = FUNCTION_SWITCH_WINDOW_ACTION_DISMISS"
    "usbFuncAbilityConn win = Some \<lparr>isAbortDialog = True, remoteObject = True\<rparr>"
    by (simp add: DismissFunctionSwitchWindow_def UnShowFunctionSwitchWindow_def CloseDialog_def Let_def case_prod_beta)
  ultimately show ?thesis by fastforce
qed


end
