(* ===== verification/Service_Start.thy ===== *)
theory Service_Start
  imports Service_Lifecycle Switch_Window
begin

section \<open>The service: starting and stopping\<close>

text \<open>
  How \<^verbatim>\<open>usb_service.cpp\<close> comes up: it waits for the common event service, then for the drivers, binds a
  subscriber to each, initialises its managers and publishes itself; and how it goes down. The parts of
  the managers that are about the drivers' interfaces are here as well (\<^verbatim>\<open>InitUsbHostInterface\<close>,
  \<^verbatim>\<open>InitUsbDeviceInterface\<close>, \<^verbatim>\<open>InitUsbPortInterface\<close>, \<^verbatim>\<open>InitUsbAccessoryInterface\<close> and the \<^verbatim>\<open>Stop\<close>
  operations).
\<close>

subsection \<open>Environment and state\<close>

text \<open>
  The first three fields tell whether the \<^verbatim>\<open>Get\<close> of a driver's interface succeeds. A subscriber is an
  object with a number. \<open>de_sleep\<close> waits seconds, \<open>de_usleep\<close> microseconds.
\<close>

record 'w driver_env =
  de_DeviceInterface :: "'w \<Rightarrow> bool \<times> 'w"
  de_PortInterface :: "'w \<Rightarrow> bool \<times> 'w"
  de_HostInterface :: "'w \<Rightarrow> bool \<times> 'w"
  de_BindUsbdDeviceSubscriber :: "nat \<Rightarrow> 'w \<Rightarrow> int \<times> 'w"
  de_BindUsbdPortSubscriber :: "nat \<Rightarrow> 'w \<Rightarrow> int \<times> 'w"
  de_BindUsbdHostSubscriber :: "nat \<Rightarrow> 'w \<Rightarrow> int \<times> 'w"
  de_UnbindUsbdDeviceSubscriber :: "nat option \<Rightarrow> 'w \<Rightarrow> int \<times> 'w"
  de_UnbindUsbdPortSubscriber :: "nat option \<Rightarrow> 'w \<Rightarrow> int \<times> 'w"
  de_UnbindUsbdHostSubscriber :: "nat option \<Rightarrow> 'w \<Rightarrow> int \<times> 'w"
  de_AddDeathRecipient :: "'w \<Rightarrow> bool \<times> 'w"
  de_RemoveDeathRecipient :: "'w \<Rightarrow> 'w"
  de_NotifyProcessStatus :: "int \<Rightarrow> 'w \<Rightarrow> 'w"
  de_sleep :: "nat \<Rightarrow> 'w \<Rightarrow> 'w"
  de_usleep :: "nat \<Rightarrow> 'w \<Rightarrow> 'w"

record 'w start_env = "'w driver_env" +
  ss_SystemAbilityManager :: "'w \<Rightarrow> bool"
  ss_CommonEventService :: "'w \<Rightarrow> bool"
  ss_GetBoolParameter :: "string \<Rightarrow> bool \<Rightarrow> 'w \<Rightarrow> bool"
  ss_WatchParameter :: "string \<Rightarrow> 'w \<Rightarrow> int \<times> 'w"
  ss_SubscribeSystemAbility :: "'w \<Rightarrow> int \<times> 'w"
  ss_AddSystemAbilityListener :: "'w \<Rightarrow> 'w"
  ss_Publish :: "'w \<Rightarrow> bool \<times> 'w"
  ss_SetCritical :: "bool \<Rightarrow> 'w \<Rightarrow> 'w"
  ss_UnloadSystemAbility :: "'w \<Rightarrow> int \<times> 'w"
  ss_window :: "'w window_env"
  ss_USB_SYSTEM_ABILITY_ID :: int
  ss_MEMORY_MANAGER_SA_ID :: int

text \<open>
  The drivers' side of the managers: whether a manager holds the interface of its driver, and the
  subscriber it has made last. \<open>next_subscriber\<close> numbers the objects.
\<close>

record drivers =
  acc_interface :: bool
  dev_interface :: bool
  port_interface :: bool
  host_dev_interface :: bool
  host_interface :: bool
  dev_subscriber :: "nat option"
  port_subscriber :: "nat option"
  host_subscriber :: "nat option"
  next_subscriber :: nat

record 'c started_service =
  ss_service :: "'c usb_service"
  ss_switch :: switch_window
  ss_drivers :: drivers
  is_ready :: bool
  commEventRetryTimes :: nat

definition COMMEVENT_REGISTER_RETRY_TIMES :: nat where "COMMEVENT_REGISTER_RETRY_TIMES = 10"
definition COMMEVENT_REGISTER_WAIT_DELAY_US :: nat where "COMMEVENT_REGISTER_WAIT_DELAY_US = 20000"
definition SERVICE_STARTUP_MAX_TIME :: nat where "SERVICE_STARTUP_MAX_TIME = 30"
definition WAIT_DELAY_US :: nat where "WAIT_DELAY_US = 20000"

definition new_drivers :: drivers where
  "new_drivers = \<lparr>acc_interface = False, dev_interface = False, port_interface = False, host_dev_interface = False,
     host_interface = False, dev_subscriber = None, port_subscriber = None, host_subscriber = None, next_subscriber = 0\<rparr>"

text \<open>The constructor creates all managers but the serial one.\<close>

definition UsbService :: "'c usb_service" where
  "UsbService = \<lparr>usbRightManager = Some \<lparr>usbAbilityConn = False, usbDialogParams = []\<rparr>,
     usbHostManager = Some new_host_manager, usbSerialManager = None, usbDeviceManager = Some new_device_manager,
     usbAccessoryManager = Some new_accessory_manager, usbPortManager = Some new_port_manager, deviceVidPidMap = [],
     serialVidPidMap = [], unloadSelfTimer = False, critical = None, sys_events = []\<rparr>"

definition new_service :: "'c started_service" where
  "new_service = \<lparr>ss_service = UsbService, ss_switch = new_window, ss_drivers = new_drivers, is_ready = False,
     commEventRetryTimes = 0\<rparr>"

subsection \<open>The interfaces of the drivers\<close>

definition InitUsbAccessoryInterface :: "('w, 'z) driver_env_scheme \<Rightarrow> drivers \<Rightarrow> 'w \<Rightarrow> bool \<times> drivers \<times> 'w" where
  "InitUsbAccessoryInterface e d w = (case de_DeviceInterface e w of (ok, w1) \<Rightarrow> (ok, d\<lparr>acc_interface := ok\<rparr>, w1))"

definition InitUsbDeviceInterface :: "('w, 'z) driver_env_scheme \<Rightarrow> drivers \<Rightarrow> 'w \<Rightarrow> bool \<times> drivers \<times> 'w" where
  "InitUsbDeviceInterface e d w = (case de_DeviceInterface e w of (ok, w1) \<Rightarrow>
     let d1 = d\<lparr>dev_interface := ok\<rparr> in
     if \<not> ok then (False, d1, w1)
     else (case de_BindUsbdDeviceSubscriber e (next_subscriber d1) w1 of (ret, w2) \<Rightarrow>
       (ret = 0, d1\<lparr>dev_subscriber := Some (next_subscriber d1), next_subscriber := Suc (next_subscriber d1)\<rparr>, w2)))"

text \<open>The interface of the ports is tried three times.\<close>

fun get_port_interface :: "('w, 'z) driver_env_scheme \<Rightarrow> nat \<Rightarrow> 'w \<Rightarrow> bool \<times> 'w" where
  "get_port_interface e 0 w = (False, w)"
| "get_port_interface e (Suc n) w = (case de_PortInterface e w of (ok, w1) \<Rightarrow>
     if ok then (True, w1) else get_port_interface e n (de_usleep e WAIT_DELAY_US w1))"

definition InitUsbPortInterface :: "('w, 'z) driver_env_scheme \<Rightarrow> drivers \<Rightarrow> 'w \<Rightarrow> bool \<times> drivers \<times> 'w" where
  "InitUsbPortInterface e d w = (case get_port_interface e 3 w of (ok, w1) \<Rightarrow>
     let d1 = d\<lparr>port_interface := ok\<rparr> in
     if \<not> ok then (False, d1, w1)
     else let sub = next_subscriber d1; d2 = d1\<lparr>port_subscriber := Some sub, next_subscriber := Suc sub\<rparr> in
       (case de_AddDeathRecipient e w1 of (added, w2) \<Rightarrow>
         if \<not> added then (False, d2, w2)
         else (case de_BindUsbdPortSubscriber e sub w2 of (ret, w3) \<Rightarrow> (ret = 0, d2, w3))))"

definition InitUsbHostInterface :: "('w, 'z) driver_env_scheme \<Rightarrow> drivers \<Rightarrow> 'w \<Rightarrow> bool \<times> drivers \<times> 'w" where
  "InitUsbHostInterface e d w = (case de_DeviceInterface e w of (dev, w1) \<Rightarrow>
     let d1 = d\<lparr>host_dev_interface := dev\<rparr> in
     if \<not> dev then (False, d1, w1)
     else (case de_HostInterface e w1 of (host, w2) \<Rightarrow>
       let d2 = d1\<lparr>host_interface := host\<rparr> in
       if \<not> host then (False, d2, w2)
       else (case de_BindUsbdHostSubscriber e (next_subscriber d2) w2 of (ret, w3) \<Rightarrow>
         (ret = 0, d2\<lparr>host_subscriber := Some (next_subscriber d2), next_subscriber := Suc (next_subscriber d2)\<rparr>, w3))))"

definition device_Stop :: "('w, 'z) driver_env_scheme \<Rightarrow> drivers \<Rightarrow> 'w \<Rightarrow> 'w" where
  "device_Stop e d w = (if \<not> dev_interface d then w
     else de_NotifyProcessStatus e 0 (snd (de_UnbindUsbdDeviceSubscriber e (dev_subscriber d) w)))"

definition port_Stop :: "('w, 'z) driver_env_scheme \<Rightarrow> drivers \<Rightarrow> 'w \<Rightarrow> 'w" where
  "port_Stop e d w = (if \<not> port_interface d then w
     else de_NotifyProcessStatus e 0 (snd (de_UnbindUsbdPortSubscriber e (port_subscriber d) (de_RemoveDeathRecipient e w))))"

definition host_Stop :: "('w, 'z) driver_env_scheme \<Rightarrow> drivers \<Rightarrow> 'w \<Rightarrow> 'w" where
  "host_Stop e d w = (if \<not> host_interface d then w
     else de_NotifyProcessStatus e 0 (snd (de_UnbindUsbdHostSubscriber e (host_subscriber d) w)))"

text \<open>Other subscribers are handed to the drivers whose interface is held.\<close>

definition host_BindUsbdSubscriber :: "('w, 'z) driver_env_scheme \<Rightarrow> drivers \<Rightarrow> nat \<Rightarrow> 'w \<Rightarrow> retcode \<times> 'w" where
  "host_BindUsbdSubscriber e d subscriber w = (if \<not> host_interface d then (UEC_SERVICE_INVALID_VALUE, w)
     else map_prod ret_of_int id (de_BindUsbdHostSubscriber e subscriber w))"

definition host_UnbindUsbdSubscriber :: "('w, 'z) driver_env_scheme \<Rightarrow> drivers \<Rightarrow> nat option \<Rightarrow> 'w \<Rightarrow> retcode \<times> 'w" where
  "host_UnbindUsbdSubscriber e d subscriber w = (if \<not> host_interface d then (UEC_SERVICE_INVALID_VALUE, w)
     else map_prod ret_of_int id (de_UnbindUsbdHostSubscriber e subscriber w))"

definition device_BindUsbdSubscriber :: "('w, 'z) driver_env_scheme \<Rightarrow> drivers \<Rightarrow> nat \<Rightarrow> 'w \<Rightarrow> retcode \<times> 'w" where
  "device_BindUsbdSubscriber e d subscriber w = (if \<not> dev_interface d then (UEC_SERVICE_INVALID_VALUE, w)
     else map_prod ret_of_int id (de_BindUsbdDeviceSubscriber e subscriber w))"

definition device_UnbindUsbdSubscriber :: "('w, 'z) driver_env_scheme \<Rightarrow> drivers \<Rightarrow> nat option \<Rightarrow> 'w \<Rightarrow> retcode \<times> 'w" where
  "device_UnbindUsbdSubscriber e d subscriber w = (if \<not> dev_interface d then (UEC_SERVICE_INVALID_VALUE, w)
     else map_prod ret_of_int id (de_UnbindUsbdDeviceSubscriber e subscriber w))"

definition port_BindUsbdSubscriber :: "('w, 'z) driver_env_scheme \<Rightarrow> drivers \<Rightarrow> nat \<Rightarrow> 'w \<Rightarrow> retcode \<times> 'w" where
  "port_BindUsbdSubscriber e d subscriber w = (if \<not> port_interface d then (UEC_SERVICE_INVALID_VALUE, w)
     else map_prod ret_of_int id (de_BindUsbdPortSubscriber e subscriber w))"

definition port_UnbindUsbdSubscriber :: "('w, 'z) driver_env_scheme \<Rightarrow> drivers \<Rightarrow> nat option \<Rightarrow> 'w \<Rightarrow> retcode \<times> 'w" where
  "port_UnbindUsbdSubscriber e d subscriber w = (if \<not> port_interface d then (UEC_SERVICE_INVALID_VALUE, w)
     else map_prod ret_of_int id (de_UnbindUsbdPortSubscriber e subscriber w))"

subsection \<open>Starting\<close>

text \<open>Each attempt goes through the managers in this order and stops at the first failure.\<close>

definition InitUsbd :: "('w, 'z) driver_env_scheme \<Rightarrow> 'c usb_service \<Rightarrow> drivers \<Rightarrow> 'w \<Rightarrow> bool \<times> drivers \<times> 'w" where
  "InitUsbd e s d w =
     (if usbAccessoryManager s = None then (False, d, w)
      else (case InitUsbAccessoryInterface e d w of (ok1, d1, w1) \<Rightarrow>
        if \<not> ok1 then (False, d1, w1)
        else if usbDeviceManager s = None then (False, d1, w1)
        else (case InitUsbDeviceInterface e d1 w1 of (ok2, d2, w2) \<Rightarrow>
          if \<not> ok2 then (False, d2, w2)
          else if usbPortManager s = None then (False, d2, w2)
          else (case InitUsbPortInterface e d2 w2 of (ok3, d3, w3) \<Rightarrow>
            if \<not> ok3 then (False, d3, w3)
            else if usbHostManager s = None then (False, d3, w3)
            else InitUsbHostInterface e d3 w3))))"

fun wait_usbd :: "('w, 'z) driver_env_scheme \<Rightarrow> 'c usb_service \<Rightarrow> nat \<Rightarrow> drivers \<Rightarrow> 'w \<Rightarrow> drivers \<times> 'w" where
  "wait_usbd e s 0 d w = (d, w)"
| "wait_usbd e s (Suc n) d w = (case InitUsbd e s d w of (ok, d1, w1) \<Rightarrow>
     if ok then (d1, w1) else wait_usbd e s n d1 (de_sleep e 1 w1))"

definition WaitUsbdService :: "('w, 'z) driver_env_scheme \<Rightarrow> 'c usb_service \<Rightarrow> drivers \<Rightarrow> 'w \<Rightarrow> drivers \<times> 'w" where
  "WaitUsbdService e s = wait_usbd e s SERVICE_STARTUP_MAX_TIME"

definition IsCommonEventServiceAbilityExist :: "'w start_env \<Rightarrow> 'w \<Rightarrow> bool" where
  "IsCommonEventServiceAbilityExist e w \<longleftrightarrow> ss_SystemAbilityManager e w \<and> ss_CommonEventService e w"

function service_Init :: "'w start_env \<Rightarrow> nat \<Rightarrow> 'w \<Rightarrow> nat \<times> 'w" where
  "service_Init e n w =
     (if n \<le> COMMEVENT_REGISTER_RETRY_TIMES
      then if \<not> IsCommonEventServiceAbilityExist e w
           then service_Init e (Suc n) (de_usleep e COMMEVENT_REGISTER_WAIT_DELAY_US w) else (0, w)
      else (n, w))"
  by pat_completeness auto
termination
  by (relation "measure (\<lambda>(e, n, w). Suc COMMEVENT_REGISTER_RETRY_TIMES - n)") auto

declare service_Init.simps [simp del]

text \<open>The managers see the drivers whose interfaces they hold.\<close>

definition obtained :: "drivers \<Rightarrow> ('w, 'c, 'm) service_env \<Rightarrow> ('w, 'c, 'm) service_env" where
  "obtained d E = E\<lparr>sv_port := if port_interface d then sv_port E else None,
     sv_device := if dev_interface d then sv_device E else None\<rparr>"

definition device_Init :: "'w start_env \<Rightarrow> switch_window \<Rightarrow> 'w \<Rightarrow> retcode \<times> switch_window \<times> 'w" where
  "device_Init e win w = window_Init (ss_window e) win w"

text \<open>
  The start. When the drivers do not come up the service goes on without them. The host manager shares
  the serial manager.
\<close>

definition start_managers :: "'w start_env \<Rightarrow> ('w, 'c, 'm) service_env \<Rightarrow> 'c started_service \<Rightarrow> 'w \<Rightarrow> 'c started_service \<times> 'w" where
  "start_managers e E ss w =
     (case WaitUsbdService e (ss_service ss) (ss_drivers ss) w of (d, w1) \<Rightarrow>
      let s = ss_service ss;
          s1 = (if ss_GetBoolParameter e ''const.SystemCapability.USB.USBManager.Serial'' False w1
                then s\<lparr>usbSerialManager := Some new_serial_manager\<rparr> else s);
          w2 = snd (ss_WatchParameter e ''persist.edm.usb_serial_disable'' w1)
      in (ss\<lparr>ss_service := s1, ss_drivers := d\<rparr>, w2))"

definition register :: "'w start_env \<Rightarrow> ('w, 'c, 'm) service_env \<Rightarrow> caller \<Rightarrow> 'c started_service \<Rightarrow> 'w \<Rightarrow> 'c started_service \<times> 'w" where
  "register e E c ss w =
     (let w1 = snd (InitUsbRight E (ss_service ss) w) in
      if \<not> ss_SystemAbilityManager e w1 then (ss, w1)
      else (case ss_SubscribeSystemAbility e w1 of (ret, w2) \<Rightarrow>
        if ret \<noteq> 0 then (ss, w2)
        else (case ss_Publish e (ss_AddSystemAbilityListener e w2) of (ok, w3) \<Rightarrow>
          if \<not> ok then (ss, w3)
          else let s1 = UnLoadSelf E c (ss_service ss) w3 in
            (ss\<lparr>is_ready := True, ss_service := s1\<rparr>,
             snd (InitSettingsDataHdcStatus (obtained (ss_drivers ss) E) s1 w3)))))"

definition OnStart :: "'w start_env \<Rightarrow> ('w, 'c, 'm) service_env \<Rightarrow> caller \<Rightarrow> 'c started_service \<Rightarrow> 'w \<Rightarrow> 'c started_service \<times> 'w" where
  "OnStart e E c ss w =
     (if is_ready ss then (ss, w)
      else (case service_Init e (commEventRetryTimes ss) w of (n, w1) \<Rightarrow>
       (case start_managers e E (ss\<lparr>commEventRetryTimes := n\<rparr>) w1 of (ss1, w2) \<Rightarrow>
        (case usbPortManager (ss_service ss1) of None \<Rightarrow> (ss1, w2)
         | Some pm \<Rightarrow> (case PortInit (sv_port (obtained (ss_drivers ss1) E)) pm w2 of (pm', w3) \<Rightarrow>
           let s2 = (ss_service ss1)\<lparr>usbPortManager := Some pm'\<rparr> in
           if usbDeviceManager s2 = None then (ss1\<lparr>ss_service := s2\<rparr>, w3)
           else (case device_Init e (ss_switch ss1) w3 of (_, win, w4) \<Rightarrow>
             register e E c (ss1\<lparr>ss_service := s2, ss_switch := win\<rparr>) w4))))))"

text \<open>The callback of the watched parameter switches the serial adapters; null pointers are \<open>None\<close>.\<close>

definition OnSerialDisableParameter :: "('w, 'c, 'm) service_env \<Rightarrow> string option \<Rightarrow> string option \<Rightarrow> 'c usb_service \<Rightarrow> 'w \<Rightarrow>
    'c usb_service \<times> 'w" where
  "OnSerialDisableParameter E key val s w = (case key of None \<Rightarrow> (s, w) | Some _ \<Rightarrow> (case val of None \<Rightarrow> (s, w)
     | Some v \<Rightarrow> snd (ManageUsbSerialDevice E (v = ''1'') s w)))"

subsection \<open>Stopping\<close>

definition OnStop :: "('w, 'z) driver_env_scheme \<Rightarrow> 'c started_service \<Rightarrow> 'w \<Rightarrow> 'c started_service \<times> 'w" where
  "OnStop e ss w =
     (if \<not> is_ready ss then (ss, w)
      else let ss1 = ss\<lparr>is_ready := False\<rparr>; s = ss_service ss; d = ss_drivers ss in
        if usbHostManager s = None then (ss1, w)
        else let w1 = host_Stop e d w in
          if usbDeviceManager s = None then (ss1, w1)
          else let w2 = device_Stop e d w1 in
            if usbPortManager s = None then (ss1, w2) else (ss1, port_Stop e d w2))"

text \<open>
  The listeners of the system abilities. The one for the service itself was made with the service's own
  member \<open>usbManagerSubscriber_\<close>, which is never set.
\<close>

definition OnAddSystemAbility :: "'w start_env \<Rightarrow> int \<Rightarrow> 'w \<Rightarrow> 'w" where
  "OnAddSystemAbility e systemAbilityId w =
     (if systemAbilityId = ss_MEMORY_MANAGER_SA_ID e then ss_SetCritical e True (de_NotifyProcessStatus e 1 w) else w)"

definition OnRemoveSystemAbility :: "'w start_env \<Rightarrow> nat option \<Rightarrow> int \<Rightarrow> 'w \<Rightarrow> 'w" where
  "OnRemoveSystemAbility e usbManagerSubscriber systemAbilityId w =
     (if systemAbilityId \<noteq> ss_USB_SYSTEM_ABILITY_ID e then w
      else case de_HostInterface e w of (host, w1) \<Rightarrow>
        let w2 = (if host then snd (de_UnbindUsbdHostSubscriber e usbManagerSubscriber w1) else w1) in
        (case de_DeviceInterface e w2 of (dev, w3) \<Rightarrow>
          let w4 = (if dev then snd (de_UnbindUsbdDeviceSubscriber e usbManagerSubscriber w3) else w3) in
          (case de_PortInterface e w4 of (port, w5) \<Rightarrow>
            if port then snd (de_UnbindUsbdPortSubscriber e usbManagerSubscriber w5) else w5)))"

definition port_OnRemoteDied :: "'w start_env \<Rightarrow> 'w \<Rightarrow> 'w" where
  "port_OnRemoteDied e w = (if \<not> ss_SystemAbilityManager e w then w else snd (ss_UnloadSystemAbility e w))"

subsection \<open>Waiting for the drivers\<close>

text \<open>
  Drivers of which that of the host comes up after \<open>k\<close> seconds and the others are there: \<open>seconds\<close> is the
  time, \<open>bound\<close> the subscribers of the gadget's driver in the order in which they were bound.
\<close>

definition host_up_at :: "('w, 'z) driver_env_scheme \<Rightarrow> ('w \<Rightarrow> nat) \<Rightarrow> ('w \<Rightarrow> nat list) \<Rightarrow> nat \<Rightarrow> bool" where
  "host_up_at e seconds bound k \<longleftrightarrow>
     (\<forall>w. de_DeviceInterface e w = (True, w)) \<and> (\<forall>w. de_PortInterface e w = (True, w)) \<and>
     (\<forall>w. de_HostInterface e w = (k \<le> seconds w, w)) \<and>
     (\<forall>sub w. fst (de_BindUsbdDeviceSubscriber e sub w) = 0 \<and> seconds (snd (de_BindUsbdDeviceSubscriber e sub w)) = seconds w \<and>
        bound (snd (de_BindUsbdDeviceSubscriber e sub w)) = bound w @ [sub]) \<and>
     (\<forall>sub w. fst (de_BindUsbdPortSubscriber e sub w) = 0 \<and> seconds (snd (de_BindUsbdPortSubscriber e sub w)) = seconds w \<and>
        bound (snd (de_BindUsbdPortSubscriber e sub w)) = bound w) \<and>
     (\<forall>sub w. fst (de_BindUsbdHostSubscriber e sub w) = 0 \<and> seconds (snd (de_BindUsbdHostSubscriber e sub w)) = seconds w \<and>
        bound (snd (de_BindUsbdHostSubscriber e sub w)) = bound w) \<and>
     (\<forall>w. fst (de_AddDeathRecipient e w) \<and> seconds (snd (de_AddDeathRecipient e w)) = seconds w \<and>
        bound (snd (de_AddDeathRecipient e w)) = bound w) \<and>
     (\<forall>n w. seconds (de_sleep e n w) = seconds w + n \<and> bound (de_sleep e n w) = bound w) \<and>
     (\<forall>sub w. bound (snd (de_UnbindUsbdDeviceSubscriber e (Some sub) w)) = remove1 sub (bound w)) \<and>
     (\<forall>sub w. bound (snd (de_UnbindUsbdPortSubscriber e sub w)) = bound w) \<and>
     (\<forall>sub w. bound (snd (de_UnbindUsbdHostSubscriber e sub w)) = bound w) \<and>
     (\<forall>w. bound (de_RemoveDeathRecipient e w) = bound w) \<and> (\<forall>n w. bound (de_NotifyProcessStatus e n w) = bound w)"

definition all_managers :: "'c usb_service \<Rightarrow> bool" where
  "all_managers s \<longleftrightarrow> usbAccessoryManager s \<noteq> None \<and> usbDeviceManager s \<noteq> None \<and> usbPortManager s \<noteq> None \<and>
     usbHostManager s \<noteq> None"

text \<open>All interfaces are held, and each driver with subscribers has one of the manager's.\<close>

definition all_bound :: "drivers \<Rightarrow> bool" where
  "all_bound d \<longleftrightarrow> acc_interface d \<and> dev_interface d \<and> port_interface d \<and> host_dev_interface d \<and> host_interface d \<and>
     dev_subscriber d \<noteq> None \<and> port_subscriber d \<noteq> None \<and> host_subscriber d \<noteq> None"

lemma InitUsbd_attempt:
  assumes "host_up_at e seconds bound k" and "all_managers s"
  shows "\<exists>d' w'. InitUsbd e s d w = (k \<le> seconds w, d', w') \<and> seconds w' = seconds w \<and> bound w' = bound w @ [next_subscriber d] \<and>
    dev_subscriber d' = Some (next_subscriber d) \<and>
    next_subscriber d' = next_subscriber d + (if k \<le> seconds w then 3 else 2) \<and> (k \<le> seconds w \<longrightarrow> all_bound d')"
  using assms by (auto simp: InitUsbd_def all_managers_def InitUsbAccessoryInterface_def InitUsbDeviceInterface_def
    InitUsbPortInterface_def InitUsbHostInterface_def Let_def all_bound_def numeral_3_eq_3 case_prod_beta host_up_at_def)

lemma wait_usbd_binds:
  assumes "host_up_at e seconds bound k" and "all_managers s" and "seconds w \<le> k" and "k < seconds w + n"
  shows "\<exists>d' w'. wait_usbd e s n d w = (d', w') \<and> all_bound d' \<and>
    bound w' = bound w @ map (\<lambda>i. next_subscriber d + 2 * i) [0..<Suc (k - seconds w)] \<and>
    dev_subscriber d' = Some (next_subscriber d + 2 * (k - seconds w))"
  using assms(3,4)
proof (induction n arbitrary: d w)
  case (Suc n)
  obtain d1 w1 where a: "InitUsbd e s d w = (k \<le> seconds w, d1, w1)" "seconds w1 = seconds w"
      "bound w1 = bound w @ [next_subscriber d]" "dev_subscriber d1 = Some (next_subscriber d)"
      "next_subscriber d1 = next_subscriber d + (if k \<le> seconds w then 3 else 2)" "k \<le> seconds w \<longrightarrow> all_bound d1"
    using InitUsbd_attempt [OF assms(1,2), of d w] by blast
  show ?case
  proof (cases "k \<le> seconds w")
    case True
    then show ?thesis using a by simp
  next
    case False
    let ?w = "de_sleep e 1 w1"
    have t: "seconds ?w = Suc (seconds w)" "bound ?w = bound w @ [next_subscriber d]"
      using assms(1) a(2,3) by (simp_all add: host_up_at_def)
    obtain d' w' where r: "wait_usbd e s n d1 ?w = (d', w')" "all_bound d'"
        "bound w' = bound ?w @ map (\<lambda>i. next_subscriber d1 + 2 * i) [0..<Suc (k - seconds ?w)]"
        "dev_subscriber d' = Some (next_subscriber d1 + 2 * (k - seconds ?w))"
      using Suc.IH [of ?w d1] Suc.prems False t(1) by auto
    have m: "k - seconds w = Suc (k - seconds ?w)" using False t(1) by simp
    have "map (\<lambda>i. next_subscriber d + 2 * i) [0..<Suc (k - seconds w)] =
        next_subscriber d # map (\<lambda>i. next_subscriber d1 + 2 * i) [0..<Suc (k - seconds ?w)]"
      unfolding m using a(5) False by (simp only: upt_conv_Cons map_Suc_upt [symmetric]) (simp add: comp_def)
    with r a(1,5) False t(2) m show ?thesis by simp
  qed
qed simp

text \<open>
  C33: the start waits for the drivers, and leaves subscribers behind. When the host's driver comes up
  after fewer than 30 seconds, the other drivers are there, binding a subscriber and watching a driver succeed
  and only sleeping takes time, waiting for the drivers ends with every manager bound to its driver; but every attempt has bound another subscriber to the gadget's driver, so that it
  has one for each second, and stopping the service takes only the last of them away.
\<close>

theorem start_binds_drivers:
  assumes "host_up_at e seconds bound k" and "k < 30" and "seconds w = 0" and "bound w = []"
    and "WaitUsbdService e (UsbService :: 'c usb_service) new_drivers w = (d, w')"
    and "ss_service ss = (UsbService :: 'c usb_service)" and "ss_drivers ss = d" and "is_ready ss"
  shows "all_bound d \<and> length (bound w') = k + 1 \<and> distinct (bound w') \<and>
    (\<exists>ss' w''. OnStop e ss w' = (ss', w'') \<and> \<not> is_ready ss' \<and> length (bound w'') = k)"
proof -
  have managers: "all_managers (UsbService :: 'c usb_service)" by (simp add: all_managers_def UsbService_def)
  have w: "all_bound d" "bound w' = map (\<lambda>i. 2 * i) [0..<Suc k]" "dev_subscriber d = Some (2 * k)"
    using wait_usbd_binds [OF assms(1) managers, of w 30 new_drivers] assms(2-5)
    by (auto simp: WaitUsbdService_def SERVICE_STARTUP_MAX_TIME_def new_drivers_def)
  have stop: "bound (snd (OnStop e ss w')) = remove1 (2 * k) (bound w')"
    using assms(1,6-8) w(1,3) by (simp add: OnStop_def UsbService_def Let_def host_Stop_def device_Stop_def port_Stop_def
      all_bound_def host_up_at_def)
  moreover have "\<not> is_ready (fst (OnStop e ss w'))"
    using assms(6,8) by (simp add: OnStop_def UsbService_def Let_def)
  moreover have "remove1 (2 * k) (bound w') = map (\<lambda>i. 2 * i) [0..<k]"
    unfolding w(2) by (auto simp: remove1_append)
  ultimately show ?thesis using w(1,2) by (cases "OnStop e ss w'") (auto simp: distinct_map inj_on_def)
qed

text \<open>A world of the time and the bound subscribers, with a host driver that takes two seconds.\<close>

definition slow_host :: "(nat \<times> nat list) driver_env" where
  "slow_host = \<lparr>de_DeviceInterface = (\<lambda>w. (True, w)), de_PortInterface = (\<lambda>w. (True, w)),
     de_HostInterface = (\<lambda>w. (2 \<le> fst w, w)), de_BindUsbdDeviceSubscriber = (\<lambda>sub (t, b). (0, (t, b @ [sub]))),
     de_BindUsbdPortSubscriber = (\<lambda>sub w. (0, w)), de_BindUsbdHostSubscriber = (\<lambda>sub w. (0, w)),
     de_UnbindUsbdDeviceSubscriber = (\<lambda>sub (t, b). (0, (t, case sub of None \<Rightarrow> b | Some x \<Rightarrow> remove1 x b))),
     de_UnbindUsbdPortSubscriber = (\<lambda>sub w. (0, w)), de_UnbindUsbdHostSubscriber = (\<lambda>sub w. (0, w)),
     de_AddDeathRecipient = (\<lambda>w. (True, w)), de_RemoveDeathRecipient = (\<lambda>w. w), de_NotifyProcessStatus = (\<lambda>n w. w),
     de_sleep = (\<lambda>n (t, b). (t + n, b)), de_usleep = (\<lambda>n w. w)\<rparr>"

lemma slow_host_up: "host_up_at slow_host fst snd 2"
  by (auto simp: host_up_at_def slow_host_def)

theorem start_binds_drivers_witness:
  "all_bound (fst (WaitUsbdService slow_host (UsbService :: unit usb_service) new_drivers (0, []))) \<and>
   length (snd (snd (WaitUsbdService slow_host (UsbService :: unit usb_service) new_drivers (0, [])))) = 3"
  using start_binds_drivers [OF slow_host_up, of "(0, [])" "fst (WaitUsbdService slow_host (UsbService :: unit usb_service) new_drivers (0, []))"
      "snd (WaitUsbdService slow_host (UsbService :: unit usb_service) new_drivers (0, []))"
      "(new_service :: unit started_service)\<lparr>ss_drivers := fst (WaitUsbdService slow_host (UsbService :: unit usb_service) new_drivers (0, [])), is_ready := True\<rparr>"]
  by (simp add: new_service_def)

end
