(* ===== verification/Service_Dump.thy ===== *)
theory Service_Dump
  imports Service_Lifecycle
begin

section \<open>The service: operator commands\<close>

text \<open>
  The commands of the system's dump tool: \<^verbatim>\<open>Dump\<close> of \<^verbatim>\<open>usb_service.cpp\<close> and the parts of the gadget
  manager and the serial manager it hands them to; those of the host and the port manager are in their
  theories. What is printed is a list of lines without the line ends. \<open>hidumper\<close> is the build flag
  \<^verbatim>\<open>USB_MANAGER_HIDUMPER_SET\<close>, with which the tool may also set. \<open>None\<close> is an exception or a null pointer.
\<close>

subsection \<open>Lines\<close>

text \<open>\<open>Attributes n a\<close> is the line of a serial port; the attribute is \<open>None\<close> when the variable was never set.\<close>

datatype dump_line = Line string | Port_Out port_line | Attributes int "SerialAttribute option"

definition rule :: dump_line where
  "rule = Line ''------------------------------------------------''"

subsection \<open>Gadget\<close>

definition device_GetDumpHelp :: "bool \<Rightarrow> dump_line list" where
  "device_GetDumpHelp hidumper =
     [Line ''========= dump the all device function ========='',
      Line ''usb_device -a:    Query all function'',
      Line ''usb_device -f Q:  Query Current function''] @
     (if hidumper then
       [Line ''usb_device -f 0:  Switch to function:none'', Line ''usb_device -f 1:  Switch to function:acm'',
        Line ''usb_device -f 2:  Switch to function:ecm'', Line ''usb_device -f 3:  Switch to function:acm&ecm'',
        Line ''usb_device -f 4:  Switch to function:hdc'', Line ''usb_device -f 5:  Switch to function:acm&hdc'',
        Line ''usb_device -f 6:  Switch to function:ecm&hdc'', Line ''usb_device -f 32: Switch to function:rndis'',
        Line ''usb_device -f 512:Switch to function:storage'', Line ''usb_device -f 36: Switch to function:rndis&hdc'',
        Line ''usb_device -f 516:Switch to function:storage&hdc''] else []) @ [rule]"

definition current_function :: "u32 \<Rightarrow> dump_line" where
  "current_function f = Line (''current function: '' @ ConvertToString f)"

definition DumpGetSupportFunc :: "device_manager \<Rightarrow> dump_line list" where
  "DumpGetSupportFunc dm = [Line ''Usb Device function list info:'', current_function (currentFunctions dm),
     Line (''supported functions list: '' @ ConvertToString functionSettable)]"

text \<open>
  \<^verbatim>\<open>strtol\<close> in base ten: blanks, a sign and digits; what is left of the string, and \<open>None\<close> when there is
  no digit. The string of the C interface ends at its first zero.
\<close>

definition strtol :: "string \<Rightarrow> (int \<times> string) option" where
  "strtol s =
     (let t = dropWhile is_space s;
          (neg, d) = (case t of c # r \<Rightarrow> if c = CHR ''-'' then (True, r) else if c = CHR ''+'' then (False, r) else (False, t)
            | [] \<Rightarrow> (False, []));
          ds = takeWhile is_digit d; n = int (dec_value ds)
      in if ds = [] then None else Some (if neg then - n else n, dropWhile is_digit d))"

definition StringToInteger :: "string \<Rightarrow> int option" where
  "StringToInteger str = (case strtol (takeWhile (\<lambda>c. c \<noteq> CHR 0x00) str) of None \<Rightarrow> None
     | Some (number, rest) \<Rightarrow>
       if number < - (2 ^ 31) \<or> 2 ^ 31 - 1 < number then None else if rest \<noteq> [] then None else Some number)"

text \<open>The tool sets the functions through the driver, past the checks of the service.\<close>

definition DumpSetFunc :: "bool \<Rightarrow> 'w Device_Manager.device_hdi option \<Rightarrow> string \<Rightarrow> 'w \<Rightarrow> dump_line list \<times> 'w" where
  "DumpSetFunc hidumper hdi args w =
     (case hdi of None \<Rightarrow> ([], w)
      | Some h \<Rightarrow>
        let query = (\<lambda>w. case dhdi_GetCurrentFunctions h 0 w of (ret, f, w') \<Rightarrow>
              (if ret \<noteq> 0 then [Line (''GetCurrentFunctions failed: '' @ to_string ret)] else [current_function f], w')) in
        if args = ''Q'' then query w
        else if \<not> hidumper
        then (Line ''Invalid input, please enter a valid argument'' # device_GetDumpHelp hidumper, w)
        else if \<not> is_number args
        then (Line ''Invalid input, please enter a valid integer'' # device_GetDumpHelp hidumper, w)
        else (case StringToInteger args of
            None \<Rightarrow> (Line ''Invalid input, the number is out of range'' # device_GetDumpHelp hidumper, w)
          | Some mode \<Rightarrow> (case dhdi_SetCurrentFunctions h (word_of_int mode) w of (ret, w1) \<Rightarrow>
              if ret \<noteq> 0 then ([Line ''SetCurrentFunctions failed''], w1) else query w1)))"

definition device_Dump :: "bool \<Rightarrow> 'w Device_Manager.device_hdi option \<Rightarrow> string list \<Rightarrow> device_manager \<Rightarrow> 'w \<Rightarrow>
    dump_line list \<times> 'w" where
  "device_Dump hidumper hdi args dm w =
     (if length args < 2 \<or> 3 < length args then (device_GetDumpHelp hidumper, w)
      else if args ! 1 = ''-a'' \<and> length args = 2 then (DumpGetSupportFunc dm, w)
      else if args ! 1 = ''-f'' \<and> length args = 3 then DumpSetFunc hidumper hdi (args ! 2) w
      else (Line ''func param error, please enter again'' # device_GetDumpHelp hidumper, w))"

subsection \<open>Serial ports\<close>

definition ListGetDumpHelp :: "dump_line list" where
  "ListGetDumpHelp = [Line ''=========== dump the serial port information ==========='',
     Line ''serail -l: Query All Serial Port List'', Line ''serial -h: Serial port help'',
     Line ''serial -g : Gets the properties of all ports'',
     Line (''serial '' @ [CHR 0x22] @ ''-g [port number]'' @ [CHR 0x22] @ '': Gets the properties of the specified port''), rule]"

fun tty_lines :: "nat \<Rightarrow> 'port list \<Rightarrow> dump_line list" where
  "tty_lines i [] = []"
| "tty_lines i (_ # ports) = Line (''ttyUSB'' @ nat_to_string i) # tty_lines (Suc i) ports"

definition SerialPortListDump :: "('w, 'port, 'attr) serial_hdi option \<Rightarrow> string list \<Rightarrow> 'port serial_manager \<Rightarrow> 'w \<Rightarrow>
    dump_line list \<times> 'port serial_manager \<times> 'w" where
  "SerialPortListDump hdi args sm w =
     (if length args \<noteq> 1 then (Line ''port param error: exactly 1 parameters are required'' # ListGetDumpHelp, sm, w)
      else if args ! 0 = ''-l''
      then (case Serial_Manager.SerialGetPortList hdi sm w of (_, ports, sm1, w1) \<Rightarrow>
        (Line ''=========== dump the serial port list ==========='' # tty_lines 0 ports @ [rule], sm1, w1))
      else (Line (''port param error: invalid command '' @ [CHR 0x27] @ args ! 0 @ [CHR 0x27]) # ListGetDumpHelp, sm, w))"

definition assigned :: "'a option \<Rightarrow> 'a option \<Rightarrow> 'a option" where
  "assigned old new = (case new of None \<Rightarrow> old | Some _ \<Rightarrow> new)"

text \<open>
  A port that is not the caller's is opened, read and closed again, whether or not the opening
  succeeded; the attribute is the variable of the whole loop, and the line names the port's index.
\<close>

definition read_attribute :: "('w, 'port, SerialAttribute) serial_hdi \<Rightarrow> u32 \<Rightarrow> int \<Rightarrow> SerialAttribute option \<Rightarrow>
    'port serial_manager \<Rightarrow> 'w \<Rightarrow> SerialAttribute option \<times> 'port serial_manager \<times> 'w" where
  "read_attribute h token portId attribute sm w =
     (case Serial_Manager.SerialGetAttribute (Some h) token portId sm w of (ret, a, sm1, w1) \<Rightarrow>
      if ret = UEC_OK then (assigned attribute a, sm1, w1)
      else (case Serial_Manager.SerialOpen (Some h) token portId sm1 w1 of (_, sm2, w2) \<Rightarrow>
        (case Serial_Manager.SerialGetAttribute (Some h) token portId sm2 w2 of (_, a3, sm3, w3) \<Rightarrow>
         (case Serial_Manager.SerialClose (Some h) token portId sm3 w3 of (_, sm4, w4) \<Rightarrow>
            (assigned (assigned attribute a) a3, sm4, w4)))))"

fun attribute_loop :: "('w, 'port, SerialAttribute) serial_hdi \<Rightarrow> u32 \<Rightarrow> nat \<Rightarrow> 'port list \<Rightarrow> SerialAttribute option \<Rightarrow>
    'port serial_manager \<Rightarrow> 'w \<Rightarrow> dump_line list \<times> 'port serial_manager \<times> 'w" where
  "attribute_loop h token i [] attribute sm w = ([], sm, w)"
| "attribute_loop h token i (port # ports) attribute sm w =
     (if 2 ^ 31 - 1 < i then ([], sm, w)
      else (case read_attribute h token (hdi_portId h port) attribute sm w of (attribute', sm', w') \<Rightarrow>
        (case attribute_loop h token (Suc i) ports attribute' sm' w' of (ls, r) \<Rightarrow>
          (Attributes (int i) attribute' # ls, r))))"

definition SerialGetAttributeDump :: "('w, 'port, SerialAttribute) serial_hdi option \<Rightarrow> u32 \<Rightarrow> string list \<Rightarrow>
    'port serial_manager \<Rightarrow> 'w \<Rightarrow> (dump_line list \<times> 'port serial_manager \<times> 'w) option" where
  "SerialGetAttributeDump hdi token args sm w =
     (if length args = 1
      then (case hdi of None \<Rightarrow> Some ([], sm, w)
        | Some h \<Rightarrow> (case Serial_Manager.SerialGetPortList hdi sm w of (ret, ports, sm1, w1) \<Rightarrow>
            if ret \<noteq> UEC_OK then Some ([], sm1, w1) else Some (attribute_loop h token 0 ports None sm1 w1)))
      else if length args = 2
      then (case CheckDataAndProcessPortId hdi token (args ! 1) None sm w of None \<Rightarrow> None
        | Some (ok, ls, sm1, w1) \<Rightarrow> Some (case ls of
            None \<Rightarrow> [Line (if \<not> is_number (args ! 1) then ''Invalid input, please enter a valid integer''
              else ''Port '' @ nat_to_string (dec_value (args ! 1)) @ '': port does not exist'')]
          | Some (portId, a) \<Rightarrow> [Attributes portId a], sm1, w1))
      else Some (ListGetDumpHelp, sm, w))"

subsection \<open>The service\<close>

definition port_GetDumpHelp :: "bool \<Rightarrow> dump_line list" where
  "port_GetDumpHelp hidumper = [Line ''=========== dump the all device port ==========='',
     Line ''usb_port -a: Query All Port List'', Line ''usb_port -p Q: Query Port''] @
     (if hidumper then [Line ''usb_port -p 1: Switch to host'', Line ''usb_port -p 2: Switch to device''] else []) @ [rule]"

definition service_DumpHelp :: "bool \<Rightarrow> 'c usb_service \<Rightarrow> dump_line list" where
  "service_DumpHelp hidumper s = [Line ''Refer to the following usage:'', Line ''-h: dump help'',
     Line ''============= dump the all device =============='', Line ''usb_host -a: dump the all device list info'', rule] @
     (if usbDeviceManager s = None then []
      else device_GetDumpHelp hidumper @ (if usbPortManager s = None then [] else port_GetDumpHelp hidumper))"

definition USB_HOST :: string where "USB_HOST = ''usb_host''"
definition USB_DEVICE :: string where "USB_DEVICE = ''usb_device''"
definition USB_PORT :: string where "USB_PORT = ''usb_port''"
definition USB_HELP :: string where "USB_HELP = ''-h''"
definition USB_LIST :: string where "USB_LIST = ''-l''"
definition USB_GETT :: string where "USB_GETT = ''-g''"

definition DoDump :: "bool \<Rightarrow> ('w, 'c, 'm) service_env \<Rightarrow> u32 \<Rightarrow> string list \<Rightarrow> SerialPort serial_manager \<Rightarrow> 'c usb_service \<Rightarrow> 'w \<Rightarrow>
    (retcode \<times> dump_line list \<times> 'c usb_service \<times> 'w) option" where
  "DoDump hidumper E token argList sm s w =
     (let cmd = argList ! 0; help = service_DumpHelp hidumper s @ ListGetDumpHelp in
      if cmd = USB_HOST
      then (case usbHostManager s of None \<Rightarrow> Some (UEC_SERVICE_INVALID_VALUE, [], s, w)
        | Some hm \<Rightarrow> if length argList < 2 then Some (UEC_SERVICE_INVALID_VALUE, [], s, w)
            else Some (UEC_OK, map (\<lambda>l. Line (butlast l)) (snd (host_Dump (host_environment (sv_host E)) (argList ! 1) hm)), s, w))
      else if cmd = USB_DEVICE
      then (case usbDeviceManager s of None \<Rightarrow> Some (UEC_SERVICE_INVALID_VALUE, [], s, w)
        | Some dm \<Rightarrow> (case device_Dump hidumper (sv_device E) argList dm w of (ls, w1) \<Rightarrow> Some (UEC_OK, ls, s, w1)))
      else if cmd = USB_PORT
      then (case usbPortManager s of None \<Rightarrow> Some (UEC_SERVICE_INVALID_VALUE, [], s, w)
        | Some pm \<Rightarrow> (case PortDump hidumper (sv_port E) argList pm w of None \<Rightarrow> None
          | Some (ls, pm', w1) \<Rightarrow> Some (UEC_OK, map Port_Out ls, s\<lparr>usbPortManager := Some pm'\<rparr>, w1)))
      else if cmd = USB_HELP then Some (UEC_OK, help, s, w)
      else if cmd = USB_LIST
      then (case SerialPortListDump (sv_serial E) argList sm w of (ls, sm1, w1) \<Rightarrow>
        Some (UEC_OK, ls, s\<lparr>usbSerialManager := Some sm1\<rparr>, w1))
      else if cmd = USB_GETT
      then (case SerialGetAttributeDump (sv_serial E) token argList sm w of None \<Rightarrow> None
        | Some (ls, sm1, w1) \<Rightarrow> Some (UEC_OK, ls, s\<lparr>usbSerialManager := Some sm1\<rparr>, w1))
      else Some (UEC_OK, Line ''Usb Dump service:invalid parameter.'' # help, s, w))"

text \<open>The serial manager is created with the first command, and handed to the host manager, which must be there.\<close>

definition Dump :: "bool \<Rightarrow> ('w, 'c, 'm) service_env \<Rightarrow> u32 \<Rightarrow> int \<Rightarrow> string list \<Rightarrow> 'c usb_service \<Rightarrow> 'w \<Rightarrow>
    (retcode \<times> dump_line list \<times> 'c usb_service \<times> 'w) option" where
  "Dump hidumper E token fd argList s w =
     (if fd < 0 then Some (UEC_SERVICE_INVALID_VALUE, [], s, w)
      else case (case usbSerialManager s of Some sm \<Rightarrow> Some sm
                 | None \<Rightarrow> if usbHostManager s = None then None else Some new_serial_manager) of None \<Rightarrow> None
        | Some sm \<Rightarrow> let s1 = s\<lparr>usbSerialManager := Some sm\<rparr> in
          if argList = [] then Some (UEC_SERVICE_INVALID_VALUE, service_DumpHelp hidumper s1 @ ListGetDumpHelp, s1, w)
          else DoDump hidumper E token argList sm s1 w)"

subsection \<open>Properties\<close>

lemma attribute_keeps_ports: "Serial_Manager.SerialGetAttribute hdi t p sm w = (ret, a, sm', w') \<Longrightarrow> sm' = sm"
  by (auto simp: Serial_Manager.SerialGetAttribute_def Let_def split: option.splits prod.splits if_splits)

lemma list_ports_owner:
  "Serial_Manager.SerialGetPortList hdi sm w = (ret, ports, sm', w') \<Longrightarrow> portTokenMap sm' = portTokenMap sm"
  using list_tokens [of hdi sm w] by (simp add: drop_out_def)

text \<open>Opening and closing a port for the tool leaves every port with its owner.\<close>

lemma open_close_owner:
  assumes "omap_ok (portTokenMap sm)" and "map_of (portTokenMap sm) q = Some a" and "t \<noteq> a"
    and "Serial_Manager.SerialOpen hdi t p sm w = (r1, sm1, w1)"
    and "Serial_Manager.SerialGetAttribute hdi t p sm1 w1 = (r2, at, sm2, w2)"
    and "Serial_Manager.SerialClose hdi t p sm2 w2 = (r3, sm3, w3)"
  shows "omap_ok (portTokenMap sm3) \<and> map_of (portTokenMap sm3) q = Some a"
proof -
  have o: "omap_ok (portTokenMap sm2)" "map_of (portTokenMap sm2) q = Some a"
    using open_tokens [OF assms(4,1)] assms(2) attribute_keeps_ports [OF assms(5)] by simp_all
  show ?thesis
    using close_op.keeps_ok [OF o(1), of hdi t p w2] close_op.owner_stable [OF o assms(3), of hdi p w2] assms(6) by simp
qed

lemma read_attribute_owner:
  assumes "omap_ok (portTokenMap sm)" and "map_of (portTokenMap sm) q = Some a" and "t \<noteq> a"
    and "read_attribute h t p attribute sm w = (x, sm', w')"
  shows "omap_ok (portTokenMap sm')" and "map_of (portTokenMap sm') q = Some a"
  using assms(4) open_close_owner [OF assms(1-3)] assms(1,2) attribute_keeps_ports
  by (fastforce simp: read_attribute_def split: prod.splits if_splits)+

lemma attribute_loop_owner:
  assumes "attribute_loop h t i ports attribute sm w = (ls, sm', w')" and "omap_ok (portTokenMap sm)"
    and "map_of (portTokenMap sm) q = Some a" and "t \<noteq> a"
  shows "map_of (portTokenMap sm') q = Some a"
  using assms
proof (induction ports arbitrary: i attribute sm w ls)
  case (Cons port ports)
  obtain x sm1 w1 where r: "read_attribute h t (hdi_portId h port) attribute sm w = (x, sm1, w1)" by (metis prod_cases3)
  show ?case
    using Cons.prems(1,3,4) r
      Cons.IH [OF _ read_attribute_owner [OF Cons.prems(2,3,4) r] Cons.prems(4)]
    by (auto split: if_splits prod.splits)
qed simp

lemma process_port_owner:
  assumes "CheckDataAndProcessPortId hdi t arg at sm w = Some (ok, ls, sm', w')" and "omap_ok (portTokenMap sm)"
    and "map_of (portTokenMap sm) q = Some a" and "t \<noteq> a"
  shows "map_of (portTokenMap sm') q = Some a"
proof -
  have op: "map_of (portTokenMap sm2) q = Some a"
    if "Serial_Manager.SerialOpen hdi t p sm w0 = (r, sm2, w2)" for p w0 r sm2 w2
    using open_tokens [OF that assms(2)] assms(3) by simp
  show ?thesis
    using assms(1,3) open_close_owner [OF assms(2-4)] op attribute_keeps_ports
    by (fastforce simp: CheckDataAndProcessPortId_def Let_def split: prod.splits if_splits)
qed

text \<open>Drivers whose setters were replaced; without the build flag the tool cannot tell the difference.\<close>

definition other_gadget :: "(u32 \<Rightarrow> 'w \<Rightarrow> int \<times> 'w) \<Rightarrow> 'w Device_Manager.device_hdi \<Rightarrow> 'w Device_Manager.device_hdi" where
  "other_gadget f h = h\<lparr>dhdi_SetCurrentFunctions := f\<rparr>"

definition other_port :: "(int \<Rightarrow> int \<Rightarrow> int \<Rightarrow> 'w \<Rightarrow> int \<times> 'w) \<Rightarrow> 'w port_hdi \<Rightarrow> 'w port_hdi" where
  "other_port r h = h\<lparr>hdi_SetPortRole := r\<rparr>"

definition other_setters where
  "other_setters f r E =
     E\<lparr>sv_device := map_option (other_gadget f) (sv_device E), sv_port := map_option (other_port r) (sv_port E)\<rparr>"

lemma device_Dump_other: "device_Dump False (map_option (other_gadget f) hdi) args dm w = device_Dump False hdi args dm w"
  by (cases hdi) (simp_all add: device_Dump_def DumpSetFunc_def Let_def other_gadget_def)

lemma GetPorts_other: "Port_Manager.GetPorts (map_option (other_port r) hdi) pm w = Port_Manager.GetPorts hdi pm w"
  by (cases hdi) (simp_all add: Port_Manager.GetPorts_def Port_Manager.QueryPort_def Let_def other_port_def)

lemma PortDump_other: "PortDump False (map_option (other_port r) hdi) args pm w = PortDump False hdi args pm w"
  by (simp add: PortDump_def DumpSetPortRoles_def GetPortsInfo_def DumpGetSupportPort_def GetPorts_other)

lemma DoDump_other: "DoDump False (other_setters f r E) t args sm s w = DoDump False E t args sm s w"
  by (simp add: DoDump_def Let_def other_setters_def device_Dump_other PortDump_other split: option.split)

lemma Dump_other: "Dump False (other_setters f r E) t fd args s w = Dump False E t fd args s w"
  by (simp add: Dump_def Let_def DoDump_other split: option.split)

definition managers where
  "managers s = (usbRightManager s, usbHostManager s, usbDeviceManager s, usbAccessoryManager s, deviceVidPidMap s,
     serialVidPidMap s, unloadSelfTimer s)"

lemma Dump_managers:
  assumes "Dump hid E t fd args s w = Some (ret, ls, s', w')"
  shows "managers s' = managers s"
  using assms
  by (auto simp: Dump_def DoDump_def Let_def managers_def split: if_splits option.splits prod.splits)

lemma attribute_dump_owner:
  assumes "SerialGetAttributeDump hdi t args sm w = Some (ls, sm', w')" and "omap_ok (portTokenMap sm)"
    and "map_of (portTokenMap sm) q = Some a" and "t \<noteq> a"
  shows "map_of (portTokenMap sm') q = Some a"
  using assms(1,3) list_ports_owner attribute_loop_owner process_port_owner [OF _ assms(2-4)] assms(2,4)
  by (fastforce simp: SerialGetAttributeDump_def split: if_splits option.splits prod.splits)

lemma list_dump_owner:
  "SerialPortListDump hdi args sm w = (ls, sm', w') \<Longrightarrow> portTokenMap sm' = portTokenMap sm"
  by (auto simp: SerialPortListDump_def dest: list_ports_owner split: if_splits prod.splits)

lemma DoDump_owner:
  assumes "DoDump hid E t args sm s w = Some (ret, ls, s', w')" and "usbSerialManager s = Some sm"
    and "omap_ok (portTokenMap sm)" and "map_of (portTokenMap sm) q = Some a" and "t \<noteq> a"
  shows "\<exists>sm'. usbSerialManager s' = Some sm' \<and> map_of (portTokenMap sm') q = Some a"
  using assms(1,2,4)
  by (auto simp: DoDump_def Let_def dest: attribute_dump_owner [OF _ assms(3-5)] list_dump_owner
      split: if_splits option.splits prod.splits)

lemma Dump_owner:
  assumes "Dump hid E t fd args s w = Some (ret, ls, s', w')" and "usbSerialManager s = Some sm"
    and "omap_ok (portTokenMap sm)" and "map_of (portTokenMap sm) q = Some a" and "t \<noteq> a"
  shows "\<exists>sm'. usbSerialManager s' = Some sm' \<and> map_of (portTokenMap sm') q = Some a"
  using assms(1,2,4) DoDump_owner [OF _ _ assms(3-5), of hid E args "s\<lparr>usbSerialManager := Some sm\<rparr>" w ret ls s' w']
  by (auto simp: Dump_def Let_def split: if_splits)

text \<open>
  Without the build flag \<^verbatim>\<open>USB_MANAGER_HIDUMPER_SET\<close>, whatever the operator's command and whatever the
  drivers answer, the dump tool neither sets the functions of the gadget nor the role of a port (with
  any other setters in the drivers the run is the same, line for line), leaves the rights, the devices,
  the gadget and the accessories as they are, and leaves a serial port that an application has opened
  with that application, although it opens and closes the ports it can get to read their attributes.
\<close>

theorem dump_reads_only:
  assumes "Dump False E token fd args s w = Some (ret, ls, s', w')" and "usbSerialManager s = Some sm"
    and "omap_ok (portTokenMap sm)" and "map_of (portTokenMap sm) q = Some a" and "token \<noteq> a"
  shows "managers s' = managers s \<and>
    (\<exists>sm'. usbSerialManager s' = Some sm' \<and> map_of (portTokenMap sm') q = Some a) \<and>
    Dump False (other_setters f r E) token fd args s w = Some (ret, ls, s', w')"
  using Dump_managers [OF assms(1)] Dump_owner [OF assms] assms(1) by (simp add: Dump_other)

definition opened_service :: "unit usb_service" where
  "opened_service = adapter_service\<lparr>usbSerialManager :=
     Some (new_serial_manager\<lparr>serialPortMap := [(1, sample_port)], portTokenMap := [(1, 7)]\<rparr>)\<rparr>"

lemma opened_dump:
  "Dump False adapter_env 9 4 [''-g''] opened_service adapter_world =
     Some (UEC_OK, [Attributes 0 None], opened_service, adapter_world)"
proof -
  have u: "UpdateSerialPortMap sp_portId [sample_port] sm = sm" if "serialPortMap sm = [(1, sample_port)]" for sm
    using that by (simp add: UpdateSerialPortMap_def sample_port_def)
  have d: "SerialGetAttributeDump (sv_serial adapter_env) 9 [''-g''] sm adapter_world = Some ([Attributes 0 None], sm, adapter_world)"
    if "portTokenMap sm = [(1, 7)]" "serialPortMap sm = [(1, sample_port)]" for sm
    using that
    by (simp add: SerialGetAttributeDump_def adapter_env_def Serial_Manager.SerialGetPortList_def read_attribute_def
        Serial_Manager.SerialGetAttribute_def Serial_Manager.SerialOpen_def Serial_Manager.SerialClose_def with_port_def
        CheckPortAndTokenId_def CheckTokenIdValidity_def u assigned_def) (simp add: sample_port_def)
  show ?thesis
    by (simp add: Dump_def DoDump_def Let_def USB_HOST_def USB_DEVICE_def USB_PORT_def USB_HELP_def USB_LIST_def
        USB_GETT_def d opened_service_def adapter_service_def sample_service_def)
qed

theorem dump_reads_only_witness:
  "Dump False (other_setters (\<lambda>f w. (0, adapter_world)) (\<lambda>p q d w. (0, adapter_world)) adapter_env) 9 4 [''-g'']
     opened_service adapter_world = Some (UEC_OK, [Attributes 0 None], opened_service, adapter_world)"
  using dump_reads_only [OF opened_dump, of _ 1 7] by (simp add: opened_service_def omap_ok_def)

end
