(* ===== verification/Usb_Json.thy ===== *)
theory Usb_Json
  imports Usb_Accessory
begin

section \<open>Data classes as JSON\<close>

text \<open>
  The JSON text of the data classes (\<^verbatim>\<open>getJsonString\<close>), the constructors from a JSON object and the
  printing for the log (\<^verbatim>\<open>ToString\<close>) of \<^verbatim>\<open>usb_endpoint.h\<close>, \<^verbatim>\<open>usb_interface.h\<close>, \<^verbatim>\<open>usb_config.h\<close>,
  \<^verbatim>\<open>usb_device.h\<close> and \<^verbatim>\<open>usb_accessory.h\<close>. The text of a device is the data of the events that announce
  it. The cJSON library is of another repository: it is the record \<open>json_lib\<close> over nodes \<open>'j\<close>, and
  \<open>json_law\<close> says in terms of the JSON value of a node what its documentation promises.
\<close>

subsection \<open>The library\<close>

record 'j json_lib =
  cj_CreateObject :: "'j option"
  cj_CreateArray :: "'j option"
  cj_AddNumberToObject :: "string \<Rightarrow> int \<Rightarrow> 'j \<Rightarrow> 'j"
  cj_AddStringToObject :: "string \<Rightarrow> string \<Rightarrow> 'j \<Rightarrow> 'j"
  cj_AddBoolToObject :: "string \<Rightarrow> bool \<Rightarrow> 'j \<Rightarrow> 'j"
  cj_AddItemToArray :: "'j option \<Rightarrow> 'j \<Rightarrow> 'j"
  cj_AddItemToObject :: "string \<Rightarrow> 'j \<Rightarrow> 'j \<Rightarrow> 'j"
  cj_PrintUnformatted :: "'j \<Rightarrow> string option"
  cj_Parse :: "string \<Rightarrow> 'j option"
  cj_GetObjectItem :: "'j option \<Rightarrow> string \<Rightarrow> 'j option"
  cj_IsNumber :: "'j \<Rightarrow> bool"
  cj_valueint :: "'j \<Rightarrow> i32"
  cj_IsString :: "'j \<Rightarrow> bool"
  cj_valuestring :: "'j \<Rightarrow> string"
  cj_GetArraySize :: "'j option \<Rightarrow> nat"
  cj_GetArrayItem :: "'j option \<Rightarrow> nat \<Rightarrow> 'j option"

text \<open>A string as the C interface sees it.\<close>

definition c_str :: "string \<Rightarrow> string" where
  "c_str s = takeWhile (\<lambda>c. c \<noteq> CHR 0x00) s"

subsection \<open>Writing\<close>

text \<open>The members that are added to an object, in this order.\<close>

datatype member = Number string int | Text string string | Flag string bool

fun add_member :: "'j json_lib \<Rightarrow> 'j \<Rightarrow> member \<Rightarrow> 'j" where
  "add_member lib j (Number key n) = cj_AddNumberToObject lib key n j"
| "add_member lib j (Text key s) = cj_AddStringToObject lib key (c_str s) j"
| "add_member lib j (Flag key b) = cj_AddBoolToObject lib key b j"

definition std_string :: "string option \<Rightarrow> string" where
  "std_string p = (case p of None \<Rightarrow> [] | Some t \<Rightarrow> c_str t)"

definition print_object :: "'j json_lib \<Rightarrow> member list \<Rightarrow> string" where
  "print_object lib ms = (case cj_CreateObject lib of None \<Rightarrow> []
     | Some obj \<Rightarrow> std_string (cj_PrintUnformatted lib (foldl (add_member lib) obj ms)))"

text \<open>An object whose last member is the array of the parsed texts; without an array it is given up.\<close>

definition print_with_array :: "'j json_lib \<Rightarrow> member list \<Rightarrow> string \<Rightarrow> string list \<Rightarrow> string" where
  "print_with_array lib ms key texts = (case cj_CreateObject lib of None \<Rightarrow> []
     | Some obj \<Rightarrow> (case cj_CreateArray lib of None \<Rightarrow> []
       | Some arr \<Rightarrow> std_string (cj_PrintUnformatted lib (cj_AddItemToObject lib key
           (foldl (\<lambda>a t. cj_AddItemToArray lib (cj_Parse lib (c_str t)) a) arr texts)
           (foldl (add_member lib) obj ms)))))"

definition endpoint_members :: "USBEndpoint \<Rightarrow> member list" where
  "endpoint_members ep = [Number ''address'' (uint (ep_address ep)), Number ''attributes'' (uint (ep_attributes ep)),
     Number ''interval'' (sint (ep_interval ep)), Number ''maxPacketSize'' (sint (ep_maxPacketSize ep)),
     Number ''direction'' (uint (GetDirection ep)), Number ''number'' (uint (GetEndpointNumber ep)),
     Number ''type'' (uint (GetType ep)), Number ''interfaceId'' (uint (ep_interfaceId ep))]"

definition endpoint_getJsonString :: "'j json_lib \<Rightarrow> USBEndpoint \<Rightarrow> string" where
  "endpoint_getJsonString lib ep = print_object lib (endpoint_members ep)"

definition interface_members :: "UsbInterface \<Rightarrow> member list" where
  "interface_members i = [Number ''id'' (sint (if_id i)), Number ''protocol'' (sint (if_protocol i)),
     Number ''clazz'' (sint (if_klass i)), Number ''subClass'' (sint (if_subClass i)),
     Number ''alternateSetting'' (sint (if_alternateSetting i)), Text ''name'' (if_name i)]"

definition interface_getJsonString :: "'j json_lib \<Rightarrow> UsbInterface \<Rightarrow> string" where
  "interface_getJsonString lib i =
     print_with_array lib (interface_members i) ''endpoints'' (map (endpoint_getJsonString lib) (if_endpoints i))"

definition config_members :: "USBConfig \<Rightarrow> member list" where
  "config_members c = [Number ''id'' (sint (cf_id c)), Number ''attributes'' (uint (cf_attributes c)),
     Number ''maxPower'' (sint (cf_maxPower c)), Text ''name'' (cf_name c),
     Flag ''isRemoteWakeup'' (IsRemoteWakeup c), Flag ''isSelfPowered'' (IsSelfPowered c)]"

definition config_getJsonString :: "'j json_lib \<Rightarrow> USBConfig \<Rightarrow> string" where
  "config_getJsonString lib c =
     print_with_array lib (config_members c) ''interfaces'' (map (interface_getJsonString lib) (cf_interfaces c))"

text \<open>The serial number is written as the empty string.\<close>

definition device_members :: "UsbDevice \<Rightarrow> member list" where
  "device_members d = [Number ''busNum'' (uint (dev_busNum d)), Number ''devAddress'' (uint (dev_devAddr d)),
     Text ''serial'' [], Text ''name'' (dev_name d), Text ''manufacturerName'' (dev_manufacturerName d),
     Text ''productName'' (dev_productName d), Text ''version'' (dev_version d),
     Number ''vendorId'' (sint (dev_vendorId d)), Number ''productId'' (sint (dev_productId d)),
     Number ''clazz'' (sint (dev_baseClass d)), Number ''subClass'' (sint (dev_subClass d)),
     Number ''protocol'' (sint (dev_protocol d))]"

definition device_getJsonString :: "'j json_lib \<Rightarrow> UsbDevice \<Rightarrow> string" where
  "device_getJsonString lib d =
     print_with_array lib (device_members d) ''configs'' (map (config_getJsonString lib) (dev_configs d))"

definition accessory_members :: "USBAccessory \<Rightarrow> member list" where
  "accessory_members a = [Text ''manufacturer'' (acc_manufacturer a), Text ''product'' (acc_product a),
     Text ''description'' (acc_description a), Text ''version'' (acc_version a), Text ''serialNumber'' (acc_serialNumber a)]"

definition accessory_GetJsonString :: "'j json_lib \<Rightarrow> USBAccessory \<Rightarrow> string" where
  "accessory_GetJsonString lib a = print_object lib (accessory_members a)"

subsection \<open>Reading\<close>

text \<open>A null pointer is \<open>None\<close>; the library takes it for a value without members.\<close>

definition GetIntValue :: "'j json_lib \<Rightarrow> 'j option \<Rightarrow> string \<Rightarrow> i32" where
  "GetIntValue lib j key = (case cj_GetObjectItem lib j key of None \<Rightarrow> 0
     | Some item \<Rightarrow> if cj_IsNumber lib item then cj_valueint lib item else 0)"

definition GetStringValue :: "'j json_lib \<Rightarrow> 'j option \<Rightarrow> string \<Rightarrow> string" where
  "GetStringValue lib j key = (case cj_GetObjectItem lib j key of None \<Rightarrow> []
     | Some item \<Rightarrow> if cj_IsString lib item then cj_valuestring lib item else [])"

definition array_items :: "'j json_lib \<Rightarrow> 'j option \<Rightarrow> 'j list" where
  "array_items lib arr = List.map_filter (cj_GetArrayItem lib arr) [0..<cj_GetArraySize lib arr]"

definition json_endpoint :: "'j json_lib \<Rightarrow> 'j option \<Rightarrow> USBEndpoint" where
  "json_endpoint lib j = new_endpoint\<lparr>ep_address := GetIntValue lib j ''address'',
     ep_attributes := GetIntValue lib j ''attributes'', ep_interval := GetIntValue lib j ''interval'',
     ep_maxPacketSize := GetIntValue lib j ''maxPacketSize'', ep_interfaceId := ucast (GetIntValue lib j ''interfaceId'')\<rparr>"

definition json_interface :: "'j json_lib \<Rightarrow> 'j option \<Rightarrow> UsbInterface" where
  "json_interface lib j = new_interface\<lparr>if_id := GetIntValue lib j ''id'', if_protocol := GetIntValue lib j ''protocol'',
     if_klass := GetIntValue lib j ''clazz'', if_subClass := GetIntValue lib j ''subClass'',
     if_alternateSetting := GetIntValue lib j ''alternateSetting'', if_name := GetStringValue lib j ''name'',
     if_endpoints := map (\<lambda>x. json_endpoint lib (Some x)) (array_items lib (cj_GetObjectItem lib j ''endpoints''))\<rparr>"

definition json_config :: "'j json_lib \<Rightarrow> 'j option \<Rightarrow> USBConfig" where
  "json_config lib j = new_config\<lparr>cf_id := GetIntValue lib j ''id'', cf_attributes := GetIntValue lib j ''attributes'',
     cf_maxPower := GetIntValue lib j ''maxPower'', cf_name := GetStringValue lib j ''name'',
     cf_interfaces := (case cj_GetObjectItem lib j ''interfaces'' of None \<Rightarrow> []
       | Some arr \<Rightarrow> map (\<lambda>x. json_interface lib (Some x)) (array_items lib (Some arr)))\<rparr>"

text \<open>The serial number is assigned from a number, which makes it a string of one character.\<close>

definition json_device :: "'j json_lib \<Rightarrow> 'j option \<Rightarrow> UsbDevice" where
  "json_device lib j = new_device\<lparr>dev_busNum := ucast (GetIntValue lib j ''busNum''),
     dev_devAddr := ucast (GetIntValue lib j ''devAddress''),
     dev_serial := [char_of (uint (ucast (GetIntValue lib j ''serial'') :: u8))],
     dev_name := GetStringValue lib j ''name'', dev_manufacturerName := GetStringValue lib j ''manufacturerName'',
     dev_productName := GetStringValue lib j ''productName'', dev_version := GetStringValue lib j ''version'',
     dev_vendorId := GetIntValue lib j ''vendorId'', dev_productId := GetIntValue lib j ''productId'',
     dev_baseClass := GetIntValue lib j ''clazz'', dev_subClass := GetIntValue lib j ''subClass'',
     dev_protocol := GetIntValue lib j ''protocol'',
     dev_configs := map (\<lambda>x. json_config lib (Some x)) (array_items lib (cj_GetObjectItem lib j ''configs''))\<rparr>"

definition json_accessory :: "'j json_lib \<Rightarrow> 'j option \<Rightarrow> USBAccessory" where
  "json_accessory lib j = (case j of None \<Rightarrow> new_accessory
     | Some _ \<Rightarrow> new_accessory\<lparr>acc_manufacturer := GetStringValue lib j ''manufacturer'',
         acc_product := GetStringValue lib j ''product'', acc_description := GetStringValue lib j ''description'',
         acc_version := GetStringValue lib j ''version'', acc_serialNumber := GetStringValue lib j ''serialNumber''\<rparr>)"

subsection \<open>Printing for the log\<close>

definition endpoint_ToString :: "USBEndpoint \<Rightarrow> string" where
  "endpoint_ToString ep = ''USBEndpoint:[Address:'' @ to_string (uint (ep_address ep)) @
     '', Direction:'' @ to_string (uint (GetDirection ep)) @ '', Attributes:'' @ to_string (uint (ep_attributes ep)) @
     '', EndpointNumber:'' @ to_string (uint (GetEndpointNumber ep)) @ '', Interval:'' @ to_string (sint (ep_interval ep)) @
     '', MaxPacketSize:'' @ to_string (sint (ep_maxPacketSize ep)) @ '', Type:'' @ to_string (uint (GetType ep)) @ '']''"

definition interface_ToString :: "UsbInterface \<Rightarrow> string" where
  "interface_ToString i = ''UsbInterface['' @ ''id='' @ to_string (sint (if_id i)) @ '','' @ ''name_='' @ if_name i @ '','' @
     ''iInterface_='' @ to_string (uint (if_iInterface i)) @ '','' @ ''klass_='' @ to_string (sint (if_klass i)) @ '','' @
     ''subClass_='' @ to_string (sint (if_subClass i)) @ '','' @ ''protocol_='' @ to_string (sint (if_protocol i)) @ '','' @
     ''alternateSetting_='' @ to_string (sint (if_alternateSetting i)) @ ''];    '' @
     concat (map endpoint_ToString (if_endpoints i))"

definition config_ToString :: "USBConfig \<Rightarrow> string" where
  "config_ToString c = ''USBConfig['' @ ''name='' @ cf_name c @ '','' @ ''id='' @ to_string (sint (cf_id c)) @ '','' @
     ''iConfiguration='' @ to_string (uint (cf_iConfiguration c)) @ '','' @
     ''attributes='' @ to_string (uint (cf_attributes c)) @ '','' @
     ''maxPower='' @ to_string (sint (cf_maxPower c)) @ '';  '' @ '']'' @ concat (map interface_ToString (cf_interfaces c))"

definition device_ToString :: "UsbDevice \<Rightarrow> string" where
  "device_ToString d = ''UsbDevice['' @ ''name_='' @ dev_name d @ '','' @
     ''manufacturerName_='' @ dev_manufacturerName d @ '','' @ ''productName_='' @ dev_productName d @ '','' @
     ''version_='' @ dev_version d @ '','' @ ''serial_='' @ dev_serial d @ '','' @
     ''busNum_='' @ to_string (uint (dev_busNum d)) @ '','' @ ''devAddr_='' @ to_string (uint (dev_devAddr d)) @ '','' @
     ''vendorId_='' @ to_string (sint (dev_vendorId d)) @ '','' @ ''productId_='' @ to_string (sint (dev_productId d)) @ '','' @
     ''baseClass_='' @ to_string (sint (dev_baseClass d)) @ '','' @ ''subClass_='' @ to_string (sint (dev_subClass d)) @ '','' @
     ''protocol_='' @ to_string (sint (dev_protocol d)) @ ''];    '' @ concat (map config_ToString (dev_configs d))"

subsection \<open>What the library promises\<close>

text \<open>
  The values. Names of members are compared without regard to case. \<open>json_ok n v\<close>: the value is nested
  at most \<open>n\<close> deep, its numbers are those of 32 bits, with or without sign, and its strings are C strings;
  such values are printed and parsed back (the library's limit is a thousand levels).
\<close>

datatype json = Num int | Str string | Bool bool | Arr "json list" | Obj "(string \<times> json) list"

fun json_ok :: "nat \<Rightarrow> json \<Rightarrow> bool" where
  "json_ok n (Num i) \<longleftrightarrow> - (2 ^ 31) \<le> i \<and> i < 2 ^ 32"
| "json_ok n (Str s) \<longleftrightarrow> CHR 0x00 \<notin> set s"
| "json_ok n (Bool b) \<longleftrightarrow> True"
| "json_ok n (Arr l) \<longleftrightarrow> 0 < n \<and> (\<forall>v\<in>set l. json_ok (n - 1) v)"
| "json_ok n (Obj m) \<longleftrightarrow> 0 < n \<and> (\<forall>p\<in>set m. CHR 0x00 \<notin> set (fst p) \<and> json_ok (n - 1) (snd p))"

definition lower :: "char \<Rightarrow> char" where
  "lower c = (if c \<in> set ''ABCDEFGHIJKLMNOPQRSTUVWXYZ'' then char_of (of_char c + 32 :: nat) else c)"

definition lowercase :: "string \<Rightarrow> string" where
  "lowercase s = map lower s"

definition json_find :: "string \<Rightarrow> (string \<times> json) list \<Rightarrow> json option" where
  "json_find key m = map_of (map (\<lambda>(k, v). (lowercase k, v)) m) (lowercase key)"

definition to_int32 :: "int \<Rightarrow> i32" where
  "to_int32 n = word_of_int (if n < - (2 ^ 31) then - (2 ^ 31) else if 2 ^ 31 - 1 < n then 2 ^ 31 - 1 else n)"

fun is_num :: "json \<Rightarrow> bool" where
  "is_num (Num n) = True"
| "is_num _ = False"

fun is_str :: "json \<Rightarrow> bool" where
  "is_str (Str s) = True"
| "is_str _ = False"

definition json_law :: "'j json_lib \<Rightarrow> ('j \<Rightarrow> json) \<Rightarrow> bool" where
  "json_law lib view \<longleftrightarrow>
     map_option view (cj_CreateObject lib) = Some (Obj []) \<and> map_option view (cj_CreateArray lib) = Some (Arr []) \<and>
     (\<forall>j m k n. view j = Obj m \<longrightarrow> view (cj_AddNumberToObject lib k n j) = Obj (m @ [(k, Num n)])) \<and>
     (\<forall>j m k s. view j = Obj m \<longrightarrow> view (cj_AddStringToObject lib k s j) = Obj (m @ [(k, Str s)])) \<and>
     (\<forall>j m k b. view j = Obj m \<longrightarrow> view (cj_AddBoolToObject lib k b j) = Obj (m @ [(k, Bool b)])) \<and>
     (\<forall>j m k x. view j = Obj m \<longrightarrow> view (cj_AddItemToObject lib k x j) = Obj (m @ [(k, view x)])) \<and>
     (\<forall>j l x. view j = Arr l \<longrightarrow> view (cj_AddItemToArray lib (Some x) j) = Arr (l @ [view x])) \<and>
     (\<forall>j. json_ok 1000 (view j) \<longrightarrow> (\<exists>t j'. cj_PrintUnformatted lib j = Some t \<and> CHR 0x00 \<notin> set t \<and>
        cj_Parse lib t = Some j' \<and> view j' = view j)) \<and>
     (\<forall>j m k. view j = Obj m \<longrightarrow> map_option view (cj_GetObjectItem lib (Some j) k) = json_find k m) \<and>
     (\<forall>j. cj_IsNumber lib j \<longleftrightarrow> is_num (view j)) \<and> (\<forall>j. cj_IsString lib j \<longleftrightarrow> is_str (view j)) \<and>
     (\<forall>j n. view j = Num n \<longrightarrow> cj_valueint lib j = to_int32 n) \<and> (\<forall>j s. view j = Str s \<longrightarrow> cj_valuestring lib j = s) \<and>
     (\<forall>j l. view j = Arr l \<longrightarrow> cj_GetArraySize lib (Some j) = length l) \<and>
     (\<forall>j l i. view j = Arr l \<longrightarrow> i < length l \<longrightarrow> map_option view (cj_GetArrayItem lib (Some j) i) = Some (l ! i))"

subsection \<open>The contract of a class\<close>

fun member_json :: "member \<Rightarrow> string \<times> json" where
  "member_json (Number k n) = (k, Num n)"
| "member_json (Text k s) = (k, Str (c_str s))"
| "member_json (Flag k b) = (k, Bool b)"

lemma json_lawD:
  assumes "json_law lib view"
  shows law_object: "\<exists>obj. cj_CreateObject lib = Some obj \<and> view obj = Obj []"
    and law_array: "\<exists>arr. cj_CreateArray lib = Some arr \<and> view arr = Arr []"
    and law_member: "view j = Obj m \<Longrightarrow> view (add_member lib j x) = Obj (m @ [member_json x])"
    and law_item: "view j = Obj m \<Longrightarrow> view (cj_AddItemToObject lib k y j) = Obj (m @ [(k, view y)])"
    and law_element: "view j = Arr l \<Longrightarrow> view (cj_AddItemToArray lib (Some y) j) = Arr (l @ [view y])"
    and law_print: "json_ok 1000 (view j) \<Longrightarrow> \<exists>t j'. cj_PrintUnformatted lib j = Some t \<and> CHR 0x00 \<notin> set t \<and>
        cj_Parse lib t = Some j' \<and> view j' = view j"
    and law_get: "view j = Obj m \<Longrightarrow> map_option view (cj_GetObjectItem lib (Some j) k) = json_find k m"
    and law_IsNumber: "cj_IsNumber lib j \<longleftrightarrow> is_num (view j)"
    and law_IsString: "cj_IsString lib j \<longleftrightarrow> is_str (view j)"
    and law_valueint: "view j = Num n \<Longrightarrow> cj_valueint lib j = to_int32 n"
    and law_valuestring: "view j = Str s \<Longrightarrow> cj_valuestring lib j = s"
    and law_size: "view j = Arr l \<Longrightarrow> cj_GetArraySize lib (Some j) = length l"
    and law_nth: "view j = Arr l \<Longrightarrow> i < length l \<Longrightarrow> map_option view (cj_GetArrayItem lib (Some j) i) = Some (l ! i)"
  using assms by (cases x; auto simp: json_law_def; fail)+

lemma c_str_id: "CHR 0x00 \<notin> set s \<Longrightarrow> c_str s = s"
  by (auto simp: c_str_def takeWhile_eq_all_conv)

lemma c_str_no_null [simp]: "CHR 0x00 \<notin> set (c_str s)"
  by (auto simp: c_str_def dest: set_takeWhileD)

lemma c_str_idem [simp]: "c_str (c_str s) = c_str s"
  by (simp add: c_str_id)

lemma add_members:
  assumes "json_law lib view" and "view j = Obj m"
  shows "view (foldl (add_member lib) j ms) = Obj (m @ map member_json ms)"
  using assms(2) by (induction ms arbitrary: j m) (simp_all add: law_member [OF assms(1)])

text \<open>A text that the library parses to a node with this value.\<close>

definition printed :: "'j json_lib \<Rightarrow> ('j \<Rightarrow> json) \<Rightarrow> string \<Rightarrow> json \<Rightarrow> bool" where
  "printed lib view t v \<longleftrightarrow> (\<exists>j. cj_Parse lib (c_str t) = Some j \<and> view j = v)"

lemma add_elements:
  assumes "json_law lib view" and "list_all2 (printed lib view) texts vs" and "view a = Arr l"
  shows "view (foldl (\<lambda>a t. cj_AddItemToArray lib (cj_Parse lib (c_str t)) a) a texts) = Arr (l @ vs)"
  using assms(2,3)
proof (induction texts vs arbitrary: a l rule: list_all2_induct)
  case (Cons t ts v vs)
  then show ?case by (auto simp: printed_def law_element [OF assms(1)])
qed simp

lemma std_string_printed:
  assumes "json_law lib view" and "json_ok 1000 (view j)"
  shows "printed lib view (std_string (cj_PrintUnformatted lib j)) (view j)"
  using law_print [OF assms] by (auto simp: printed_def std_string_def c_str_id)

lemma print_object_printed:
  assumes "json_law lib view" and "json_ok 1000 (Obj (map member_json ms))"
  shows "printed lib view (print_object lib ms) (Obj (map member_json ms))"
proof -
  obtain obj where o: "cj_CreateObject lib = Some obj" "view obj = Obj []" using law_object [OF assms(1)] by blast
  from add_members [OF assms(1) o(2)] have v: "view (foldl (add_member lib) obj ms) = Obj (map member_json ms)" by simp
  from std_string_printed [OF assms(1), of "foldl (add_member lib) obj ms"] show ?thesis
    using assms(2) by (simp add: print_object_def o v)
qed

lemma print_with_array_printed:
  assumes "json_law lib view" and "list_all2 (printed lib view) texts vs"
    and "json_ok 1000 (Obj (map member_json ms @ [(key, Arr vs)]))"
  shows "printed lib view (print_with_array lib ms key texts) (Obj (map member_json ms @ [(key, Arr vs)]))"
proof -
  obtain obj where o: "cj_CreateObject lib = Some obj" "view obj = Obj []" using law_object [OF assms(1)] by blast
  obtain arr where r: "cj_CreateArray lib = Some arr" "view arr = Arr []" using law_array [OF assms(1)] by blast
  let ?j = "cj_AddItemToObject lib key (foldl (\<lambda>a t. cj_AddItemToArray lib (cj_Parse lib (c_str t)) a) arr texts)
    (foldl (add_member lib) obj ms)"
  have "view ?j = Obj (map member_json ms @ [(key, Arr vs)])"
    using add_members [OF assms(1) o(2), of ms] add_elements [OF assms(1,2) r(2)] by (simp add: law_item [OF assms(1)])
  then show ?thesis
    using std_string_printed [OF assms(1), of ?j] assms(3) by (simp add: print_with_array_def o r)
qed

lemma get_item:
  assumes "json_law lib view" and "view j = Obj m" and "json_find k m = Some v"
  shows "\<exists>x. cj_GetObjectItem lib (Some j) k = Some x \<and> view x = v"
  using law_get [OF assms(1,2), of k] assms(3) by simp

lemma get_int:
  assumes "json_law lib view" and "view j = Obj m" and "json_find k m = Some v"
  shows "GetIntValue lib (Some j) k = (case v of Num n \<Rightarrow> to_int32 n | _ \<Rightarrow> 0)"
  using get_item [OF assms] law_IsNumber [OF assms(1)] law_valueint [OF assms(1)]
  by (auto simp: GetIntValue_def split: json.split)

lemma get_string:
  assumes "json_law lib view" and "view j = Obj m" and "json_find k m = Some v"
  shows "GetStringValue lib (Some j) k = (case v of Str s \<Rightarrow> s | _ \<Rightarrow> [])"
  using get_item [OF assms] law_IsString [OF assms(1)] law_valuestring [OF assms(1)]
  by (auto simp: GetStringValue_def split: json.split)

lemma array_items_view:
  assumes "json_law lib view" and "view a = Arr l"
  shows "map view (array_items lib (Some a)) = l"
proof -
  have "map view (List.map_filter (cj_GetArrayItem lib (Some a)) is) = map (nth l) is" if "\<forall>i\<in>set is. i < length l" for "is"
    using that law_nth [OF assms] by (induction "is") (fastforce simp: List.map_filter_simps split: option.split)+
  from this [of "[0..<length l]"] show ?thesis
    by (simp add: array_items_def law_size [OF assms] map_nth)
qed

text \<open>
  A class with a JSON form: its text is parsed to the value \<open>tree x\<close>, which is nested at most \<open>depth\<close>
  deep, and the constructor makes \<open>shown x\<close> of a node with this value. What holds of the elements holds of
  an array of them.
\<close>

locale json_class =
  fixes print :: "'j json_lib \<Rightarrow> 'a \<Rightarrow> string" and read :: "'j json_lib \<Rightarrow> 'j option \<Rightarrow> 'a"
    and tree :: "'a \<Rightarrow> json" and shown :: "'a \<Rightarrow> 'a" and depth :: nat
  assumes tree_ok: "depth \<le> n \<Longrightarrow> json_ok n (tree x)"
    and print_tree: "json_law lib view \<Longrightarrow> printed lib view (print lib x) (tree x)"
    and read_tree: "json_law lib view \<Longrightarrow> view j = tree x \<Longrightarrow> read lib (Some j) = shown x"
begin

lemma print_all: "json_law lib view \<Longrightarrow> list_all2 (printed lib view) (map (print lib) xs) (map tree xs)"
  by (induction xs) (simp_all add: print_tree)

lemma array_ok: "Suc depth \<le> n \<Longrightarrow> json_ok n (Arr (map tree xs))"
  using tree_ok [of "n - 1"] by auto

lemma read_all:
  assumes "json_law lib view" and "view a = Arr (map tree xs)"
  shows "map (\<lambda>x. read lib (Some x)) (array_items lib (Some a)) = map shown xs"
proof -
  have "map (\<lambda>x. read lib (Some x)) js = map shown xs" if "map view js = map tree xs" for js
    using that by (induction js xs rule: list_induct2') (auto simp: read_tree [OF assms(1)])
  then show ?thesis using array_items_view [OF assms] by blast
qed

lemma read_print: "json_law lib view \<Longrightarrow> read lib (cj_Parse lib (c_str (print lib x))) = shown x"
  using print_tree [of lib view x] by (auto simp: printed_def read_tree)

end

subsection \<open>The classes\<close>

lemma keys_lower [simp]:
  "lowercase ''address'' = ''address''" "lowercase ''attributes'' = ''attributes''" "lowercase ''interval'' = ''interval''"
  "lowercase ''maxPacketSize'' = ''maxpacketsize''" "lowercase ''direction'' = ''direction''" "lowercase ''number'' = ''number''"
  "lowercase ''type'' = ''type''" "lowercase ''interfaceId'' = ''interfaceid''" "lowercase ''id'' = ''id''"
  "lowercase ''protocol'' = ''protocol''" "lowercase ''clazz'' = ''clazz''" "lowercase ''subClass'' = ''subclass''"
  "lowercase ''alternateSetting'' = ''alternatesetting''" "lowercase ''name'' = ''name''" "lowercase ''endpoints'' = ''endpoints''"
  "lowercase ''maxPower'' = ''maxpower''" "lowercase ''isRemoteWakeup'' = ''isremotewakeup''"
  "lowercase ''isSelfPowered'' = ''isselfpowered''" "lowercase ''interfaces'' = ''interfaces''" "lowercase ''busNum'' = ''busnum''"
  "lowercase ''devAddress'' = ''devaddress''" "lowercase ''serial'' = ''serial''"
  "lowercase ''manufacturerName'' = ''manufacturername''" "lowercase ''productName'' = ''productname''"
  "lowercase ''version'' = ''version''" "lowercase ''vendorId'' = ''vendorid''" "lowercase ''productId'' = ''productid''"
  "lowercase ''configs'' = ''configs''" "lowercase ''manufacturer'' = ''manufacturer''" "lowercase ''product'' = ''product''"
  "lowercase ''description'' = ''description''" "lowercase ''serialNumber'' = ''serialnumber''"
  by code_simp+

text \<open>A number that does not fit 32 bits with a sign is read as the greatest that does.\<close>

definition saturate :: "u32 \<Rightarrow> u32" where
  "saturate a = (if uint a < 2 ^ 31 then a else 0x7FFFFFFF)"

lemma to_int32_simps [simp]:
  "to_int32 (sint (x :: i32)) = x"
  "to_int32 (uint (a :: u32)) = saturate a"
  "ucast (to_int32 (uint (b :: u8))) = b"
proof -
  show "to_int32 (sint x) = x"
    using sint_range_size [of x] by (simp add: to_int32_def word_size)
  have "word_of_int (2 ^ 31 - 1) = (0x7FFFFFFF :: u32)" by simp
  moreover have "\<not> uint a < - 2147483648" using uint_ge_0 [of a] by linarith
  ultimately show "to_int32 (uint a) = saturate a" by (simp add: to_int32_def saturate_def)
  have "uint b < 256" using uint_range_size [of b] by (simp add: word_size)
  then show "ucast (to_int32 (uint b)) = b"
    by (simp add: to_int32_def unsigned_of_int take_bit_int_eq_self) (use uint_ge_0 [of b] in linarith)
qed

lemma number_bounds [simp]:
  "- 2147483648 \<le> sint (x :: i32)" "sint (x :: i32) < 4294967296" "- 2147483648 \<le> uint (a :: 'a::len word)"
  "uint (a32 :: u32) < 4294967296" "uint (a8 :: u8) < 4294967296"
proof -
  show "- 2147483648 \<le> sint x" "sint x < 4294967296" using sint_range_size [of x] by (simp_all add: word_size)
  have "0 \<le> uint a" by simp
  then show "- 2147483648 \<le> uint a" by linarith
  show "uint a32 < 4294967296" "uint a8 < 4294967296"
    using uint_range_size [of a32] uint_range_size [of a8] by (simp_all add: word_size)
qed

definition endpoint_tree :: "USBEndpoint \<Rightarrow> json" where
  "endpoint_tree ep = Obj (map member_json (endpoint_members ep))"

definition shown_endpoint :: "USBEndpoint \<Rightarrow> USBEndpoint" where
  "shown_endpoint ep = ep\<lparr>ep_address := saturate (ep_address ep), ep_attributes := saturate (ep_attributes ep)\<rparr>"

definition interface_tree :: "UsbInterface \<Rightarrow> json" where
  "interface_tree i = Obj (map member_json (interface_members i) @ [(''endpoints'', Arr (map endpoint_tree (if_endpoints i)))])"

definition shown_interface :: "UsbInterface \<Rightarrow> UsbInterface" where
  "shown_interface i = i\<lparr>if_name := c_str (if_name i), if_endpoints := map shown_endpoint (if_endpoints i),
     if_iInterface := 255, if_authorized := True\<rparr>"

definition config_tree :: "USBConfig \<Rightarrow> json" where
  "config_tree c = Obj (map member_json (config_members c) @ [(''interfaces'', Arr (map interface_tree (cf_interfaces c)))])"

definition shown_config :: "USBConfig \<Rightarrow> USBConfig" where
  "shown_config c = c\<lparr>cf_attributes := saturate (cf_attributes c), cf_interfaces := map shown_interface (cf_interfaces c),
     cf_name := c_str (cf_name c), cf_iConfiguration := 255\<rparr>"

definition device_tree :: "UsbDevice \<Rightarrow> json" where
  "device_tree d = Obj (map member_json (device_members d) @ [(''configs'', Arr (map config_tree (dev_configs d)))])"

definition shown_device :: "UsbDevice \<Rightarrow> UsbDevice" where
  "shown_device d = new_device\<lparr>dev_name := c_str (dev_name d), dev_manufacturerName := c_str (dev_manufacturerName d),
     dev_productName := c_str (dev_productName d), dev_version := c_str (dev_version d), dev_serial := [CHR 0x00],
     dev_devAddr := dev_devAddr d, dev_busNum := dev_busNum d, dev_vendorId := dev_vendorId d,
     dev_productId := dev_productId d, dev_baseClass := dev_baseClass d, dev_subClass := dev_subClass d,
     dev_protocol := dev_protocol d, dev_configs := map shown_config (dev_configs d)\<rparr>"

definition accessory_tree :: "USBAccessory \<Rightarrow> json" where
  "accessory_tree a = Obj (map member_json (accessory_members a))"

definition shown_accessory :: "USBAccessory \<Rightarrow> USBAccessory" where
  "shown_accessory a = \<lparr>acc_manufacturer = c_str (acc_manufacturer a), acc_product = c_str (acc_product a),
     acc_description = c_str (acc_description a), acc_version = c_str (acc_version a),
     acc_serialNumber = c_str (acc_serialNumber a)\<rparr>"

lemma endpoint_tree_ok: "1 \<le> n \<Longrightarrow> json_ok n (endpoint_tree ep)"
  by (simp add: endpoint_tree_def endpoint_members_def)

interpretation endpoint_json: json_class endpoint_getJsonString json_endpoint endpoint_tree shown_endpoint 1
proof
  fix lib :: "'j json_lib" and view j and ep
  assume l: "json_law lib view"
  show "printed lib view (endpoint_getJsonString lib ep) (endpoint_tree ep)"
    unfolding endpoint_getJsonString_def endpoint_tree_def
    by (rule print_object_printed [OF l]) (use endpoint_tree_ok [of 1000 ep] in \<open>simp add: endpoint_tree_def\<close>)
  assume "view j = endpoint_tree ep"
  then show "json_endpoint lib (Some j) = shown_endpoint ep"
    by (simp add: json_endpoint_def get_int [OF l] endpoint_tree_def endpoint_members_def json_find_def shown_endpoint_def
        new_endpoint_def)
qed (rule endpoint_tree_ok)

interpretation accessory_json: json_class accessory_GetJsonString json_accessory accessory_tree shown_accessory 1
proof
  show ok: "json_ok n (accessory_tree a)" if "1 \<le> n" for n a
    using that by (simp add: accessory_tree_def accessory_members_def)
  fix lib :: "'j json_lib" and view j and a
  assume l: "json_law lib view"
  show "printed lib view (accessory_GetJsonString lib a) (accessory_tree a)"
    unfolding accessory_GetJsonString_def accessory_tree_def
    by (rule print_object_printed [OF l]) (use ok [of 1000 a] in \<open>simp add: accessory_tree_def\<close>)
  assume v: "view j = accessory_tree a"
  show "json_accessory lib (Some j) = shown_accessory a"
    by (simp add: json_accessory_def get_string [OF l v [unfolded accessory_tree_def]] accessory_members_def json_find_def
        shown_accessory_def new_accessory_def)
qed

interpretation interface_json: json_class interface_getJsonString json_interface interface_tree shown_interface 3
proof
  show ok: "json_ok n (interface_tree i)" if "3 \<le> n" for n i
    using that endpoint_json.array_ok [of "n - 1"] by (simp add: interface_tree_def interface_members_def)
  fix lib :: "'j json_lib" and view j and i
  assume l: "json_law lib view"
  show "printed lib view (interface_getJsonString lib i) (interface_tree i)"
    unfolding interface_getJsonString_def interface_tree_def
    by (rule print_with_array_printed [OF l endpoint_json.print_all [OF l]])
       (use ok [of 1000 i] in \<open>simp add: interface_tree_def\<close>)
  assume v: "view j = interface_tree i"
  note g = get_int [OF l v [unfolded interface_tree_def]] get_string [OF l v [unfolded interface_tree_def]]
  obtain arr where "cj_GetObjectItem lib (Some j) ''endpoints'' = Some arr" "view arr = Arr (map endpoint_tree (if_endpoints i))"
    using get_item [OF l v [unfolded interface_tree_def], of "''endpoints''"] by (auto simp: interface_members_def json_find_def)
  then show "json_interface lib (Some j) = shown_interface i"
    by (simp add: json_interface_def g interface_members_def json_find_def endpoint_json.read_all [OF l]
        shown_interface_def new_interface_def)
qed

interpretation config_json: json_class config_getJsonString json_config config_tree shown_config 5
proof
  show ok: "json_ok n (config_tree c)" if "5 \<le> n" for n c
    using that interface_json.array_ok [of "n - 1"] by (simp add: config_tree_def config_members_def)
  fix lib :: "'j json_lib" and view j and c
  assume l: "json_law lib view"
  show "printed lib view (config_getJsonString lib c) (config_tree c)"
    unfolding config_getJsonString_def config_tree_def
    by (rule print_with_array_printed [OF l interface_json.print_all [OF l]])
       (use ok [of 1000 c] in \<open>simp add: config_tree_def\<close>)
  assume v: "view j = config_tree c"
  note g = get_int [OF l v [unfolded config_tree_def]] get_string [OF l v [unfolded config_tree_def]]
  obtain arr where "cj_GetObjectItem lib (Some j) ''interfaces'' = Some arr" "view arr = Arr (map interface_tree (cf_interfaces c))"
    using get_item [OF l v [unfolded config_tree_def], of "''interfaces''"] by (auto simp: config_members_def json_find_def)
  then show "json_config lib (Some j) = shown_config c"
    by (simp add: json_config_def g config_members_def json_find_def interface_json.read_all [OF l]
        shown_config_def new_config_def)
qed

interpretation device_json: json_class device_getJsonString json_device device_tree shown_device 7
proof
  show ok: "json_ok n (device_tree d)" if "7 \<le> n" for n d
    using that config_json.array_ok [of "n - 1"] by (simp add: device_tree_def device_members_def)
  fix lib :: "'j json_lib" and view j and d
  assume l: "json_law lib view"
  show "printed lib view (device_getJsonString lib d) (device_tree d)"
    unfolding device_getJsonString_def device_tree_def
    by (rule print_with_array_printed [OF l config_json.print_all [OF l]])
       (use ok [of 1000 d] in \<open>simp add: device_tree_def\<close>)
  assume v: "view j = device_tree d"
  note g = get_int [OF l v [unfolded device_tree_def]] get_string [OF l v [unfolded device_tree_def]]
  obtain arr where "cj_GetObjectItem lib (Some j) ''configs'' = Some arr" "view arr = Arr (map config_tree (dev_configs d))"
    using get_item [OF l v [unfolded device_tree_def], of "''configs''"] by (auto simp: device_members_def json_find_def)
  then show "json_device lib (Some j) = shown_device d"
    by (simp add: json_device_def g device_members_def json_find_def config_json.read_all [OF l]
        shown_device_def new_device_def char_of_def)
qed

text \<open>
  C21: an announced device can be read back. The text of a device, of whatever strings and numbers,
  parsed and given to the constructor, is the device with its address, names, ids and classes and with
  its configurations, interfaces and endpoints; strings end at their first zero, numbers of 32 bits
  without a sign above \<open>2 ^ 31\<close> come back as \<open>2 ^ 31 - 1\<close>, what the text leaves out has its default, and
  the serial number, which the text leaves empty and the constructor reads as a number, is a single zero
  character.
\<close>

theorem device_json_roundtrip:
  assumes "json_law lib view"
  shows "json_device lib (cj_Parse lib (c_str (device_getJsonString lib d))) = shown_device d"
  using device_json.read_print [OF assms] .

subsection \<open>A library in memory\<close>

text \<open>
  A printer and a parser that satisfy the laws: the text is a program for a stack of values. A letter
  pushes an empty value or a boolean, \<open>P\<close> and \<open>M\<close> count, a plus sign takes the next character, \<open>I\<close> and \<open>K\<close>
  put the top into the array or the object below.
\<close>

fun prog :: "json \<Rightarrow> string" where
  "prog (Num i) = CHR ''Z'' # replicate (nat \<bar>i\<bar>) (if i < 0 then CHR ''M'' else CHR ''P'')"
| "prog (Str s) = CHR ''S'' # concat (map (\<lambda>c. [CHR ''+'', c]) s)"
| "prog (Bool b) = (if b then ''T'' else ''F'')"
| "prog (Arr l) = CHR ''A'' # concat (map (\<lambda>v. prog v @ ''I'') l)"
| "prog (Obj m) = CHR ''O'' # concat (map (\<lambda>p. prog (Str (fst p)) @ prog (snd p) @ ''K'') m)"

fun put :: "json \<Rightarrow> json list \<Rightarrow> json list" where
  "put v (Arr l # st) = Arr (l @ [v]) # st"
| "put v (Str k # Obj m # st) = Obj (m @ [(k, v)]) # st"
| "put v st = st"

fun count :: "int \<Rightarrow> json list \<Rightarrow> json list" where
  "count d (Num n # st) = Num (n + d) # st"
| "count d st = st"

fun extend :: "char \<Rightarrow> json list \<Rightarrow> json list" where
  "extend c (Str s # st) = Str (s @ [c]) # st"
| "extend c st = st"

definition exec_char :: "char \<Rightarrow> json list \<Rightarrow> json list" where
  "exec_char c st =
     (if c = CHR ''Z'' then Num 0 # st else if c = CHR ''P'' then count 1 st else if c = CHR ''M'' then count (- 1) st
      else if c = CHR ''S'' then Str [] # st else if c = CHR ''T'' then Bool True # st
      else if c = CHR ''F'' then Bool False # st else if c = CHR ''A'' then Arr [] # st
      else if c = CHR ''O'' then Obj [] # st else put (hd st) (tl st))"

fun exec :: "bool \<Rightarrow> string \<Rightarrow> json list \<Rightarrow> json list" where
  "exec quoted [] st = st"
| "exec True (c # r) st = exec False r (extend c st)"
| "exec False (c # r) st = (if c = CHR ''+'' then exec True r st else exec False r (exec_char c st))"

lemma exec_count:
  "exec False (replicate n CHR ''P'' @ r) (Num k # st) = exec False r (Num (k + int n) # st)"
  "exec False (replicate n CHR ''M'' @ r) (Num k # st) = exec False r (Num (k - int n) # st)"
  by (induction n arbitrary: k) (simp_all add: exec_char_def algebra_simps)

lemma exec_string: "exec False (prog (Str s) @ r) st = exec False r (Str s # st)"
proof -
  have "exec False (concat (map (\<lambda>c. [CHR ''+'', c]) s) @ r) (Str t # st) = exec False r (Str (t @ s) # st)" for t
    by (induction s arbitrary: t) simp_all
  from this [of "[]"] show ?thesis by (simp add: exec_char_def)
qed

lemma exec_prog: "exec False (prog v @ r) st = exec False r (v # st)"
proof (induction v arbitrary: r st)
  case (Num i)
  show ?case by (simp add: exec_char_def exec_count)
next
  case (Str s)
  show ?case by (rule exec_string)
next
  case (Arr l)
  have "exec False (concat (map (\<lambda>v. prog v @ ''I'') l') @ r) (Arr k # st) = exec False r (Arr (k @ l') # st)"
    if "set l' \<subseteq> set l" for l' k
    using that by (induction l' arbitrary: k) (simp_all add: Arr.IH exec_char_def)
  from this [of l "[]"] show ?case by (simp add: exec_char_def)
next
  case (Obj m)
  have "exec False (concat (map (\<lambda>p. prog (Str (fst p)) @ prog (snd p) @ ''K'') m') @ r) (Obj k # st) =
      exec False r (Obj (k @ m') # st)" if "set m' \<subseteq> set m" for m' k
    using that
  proof (induction m' arbitrary: k)
    case (Cons p m')
    have "snd p \<in> Basic_BNFs.snds p" by (cases p) (simp add: prod_set_simps)
    with Cons.prems have "exec False (prog (snd p) @ r) st = exec False r (snd p # st)" for r st
      using Obj.IH [of p "snd p"] by simp
    with Cons show ?case by (simp add: exec_string exec_char_def del: prog.simps(2))
  qed simp
  from this [of m "[]"] show ?case by (simp add: exec_char_def)
qed (simp add: exec_char_def)

lemma prog_no_null: "json_ok n v \<Longrightarrow> CHR 0x00 \<notin> set (prog v)"
  by (induction v arbitrary: n) (auto dest: spec; fail)+

definition text_lib :: "json json_lib" where
  "text_lib = \<lparr>cj_CreateObject = Some (Obj []), cj_CreateArray = Some (Arr []),
     cj_AddNumberToObject = (\<lambda>k n j. case j of Obj m \<Rightarrow> Obj (m @ [(k, Num n)]) | _ \<Rightarrow> j),
     cj_AddStringToObject = (\<lambda>k s j. case j of Obj m \<Rightarrow> Obj (m @ [(k, Str s)]) | _ \<Rightarrow> j),
     cj_AddBoolToObject = (\<lambda>k b j. case j of Obj m \<Rightarrow> Obj (m @ [(k, Bool b)]) | _ \<Rightarrow> j),
     cj_AddItemToArray = (\<lambda>x j. case (x, j) of (Some v, Arr l) \<Rightarrow> Arr (l @ [v]) | _ \<Rightarrow> j),
     cj_AddItemToObject = (\<lambda>k x j. case j of Obj m \<Rightarrow> Obj (m @ [(k, x)]) | _ \<Rightarrow> j),
     cj_PrintUnformatted = (\<lambda>j. Some (prog j)), cj_Parse = (\<lambda>t. case exec False t [] of [] \<Rightarrow> None | v # _ \<Rightarrow> Some v),
     cj_GetObjectItem = (\<lambda>j k. case j of Some (Obj m) \<Rightarrow> json_find k m | _ \<Rightarrow> None),
     cj_IsNumber = is_num, cj_valueint = (\<lambda>j. case j of Num n \<Rightarrow> to_int32 n | _ \<Rightarrow> 0),
     cj_IsString = is_str, cj_valuestring = (\<lambda>j. case j of Str s \<Rightarrow> s | _ \<Rightarrow> []),
     cj_GetArraySize = (\<lambda>j. case j of Some (Arr l) \<Rightarrow> length l | _ \<Rightarrow> 0),
     cj_GetArrayItem = (\<lambda>j i. case j of Some (Arr l) \<Rightarrow> if i < length l then Some (l ! i) else None | _ \<Rightarrow> None)\<rparr>"

lemma text_lib_law: "json_law text_lib id"
  using exec_prog [of _ "[]" "[]"] prog_no_null by (simp add: json_law_def text_lib_def option.map_id)

theorem device_json_roundtrip_witness:
  "json_device text_lib (cj_Parse text_lib (c_str (device_getJsonString text_lib (new_device\<lparr>dev_serial := ''123''\<rparr>)))) =
     new_device\<lparr>dev_serial := [CHR 0x00]\<rparr>"
  using device_json_roundtrip [OF text_lib_law, of "new_device\<lparr>dev_serial := ''123''\<rparr>"]
  by (simp add: shown_device_def new_device_def c_str_def)

end
