(* ===== verification/Port_Parcels.thy ===== *)
theory Port_Parcels
  imports Service_Serial Service_Device
begin

section \<open>Ports on parcels\<close>

text \<open>
  \<^verbatim>\<open>UsbPort\<close> of \<^verbatim>\<open>usb_port.h\<close>, \<^verbatim>\<open>UsbSerialPort\<close> and \<^verbatim>\<open>UsbSerialAttr\<close> of \<^verbatim>\<open>usb_serial_type.h\<close> on a parcel. They
  follow the contract \<open>parcelable\<close> of the device data; members of type \<^verbatim>\<open>int32_t\<close> are cut to 32 bits.
\<close>

definition int32 :: "int \<Rightarrow> i32" where
  "int32 n = word_of_int n"

definition marshal_port :: "'p parcel_ops \<Rightarrow> UsbPort \<Rightarrow> 'p \<Rightarrow> bool \<times> 'p" where
  "marshal_port ops p = write_seq [WriteInt32 ops (int32 (port_id p)), WriteInt32 ops (int32 (port_supportedModes p)),
     WriteInt32 ops (int32 (port_currentMode p)), WriteInt32 ops (int32 (port_currentPowerRole p)),
     WriteInt32 ops (int32 (port_currentDataRole p))]"

definition unmarshal_port :: "'p parcel_ops \<Rightarrow> ('p, UsbPort) state" where
  "unmarshal_port ops = do {
     id \<leftarrow> ReadInt32 ops;
     supportedModes \<leftarrow> ReadInt32 ops;
     currentMode \<leftarrow> ReadInt32 ops;
     currentPowerRole \<leftarrow> ReadInt32 ops;
     currentDataRole \<leftarrow> ReadInt32 ops;
     State_Monad.return \<lparr>port_id = sint id, port_supportedModes = sint supportedModes, port_currentMode = sint currentMode,
       port_currentPowerRole = sint currentPowerRole, port_currentDataRole = sint currentDataRole\<rparr> }"

definition marshal_serial_port :: "'p parcel_ops \<Rightarrow> UsbSerialPort \<Rightarrow> 'p \<Rightarrow> bool \<times> 'p" where
  "marshal_serial_port ops p = write_seq [WriteInt32 ops (int32 (usp_portId p)), WriteUint8 ops (usp_busNum p),
     WriteUint8 ops (usp_devAddr p), WriteInt32 ops (int32 (usp_vid p)), WriteInt32 ops (int32 (usp_pid p)),
     WriteString ops (usp_serialNum p)]"

definition unmarshal_serial_port :: "'p parcel_ops \<Rightarrow> ('p, UsbSerialPort) state" where
  "unmarshal_serial_port ops = do {
     portId \<leftarrow> ReadInt32 ops;
     busNum \<leftarrow> ReadUint8 ops;
     devAddr \<leftarrow> ReadUint8 ops;
     vid \<leftarrow> ReadInt32 ops;
     pid \<leftarrow> ReadInt32 ops;
     serialNum \<leftarrow> ReadString ops;
     State_Monad.return \<lparr>usp_portId = sint portId, usp_busNum = busNum, usp_devAddr = devAddr, usp_vid = sint vid,
       usp_pid = sint pid, usp_serialNum = serialNum\<rparr> }"

definition marshal_attribute :: "'p parcel_ops \<Rightarrow> UsbSerialAttr \<Rightarrow> 'p \<Rightarrow> bool \<times> 'p" where
  "marshal_attribute ops a = write_seq [WriteUint32 ops (usa_baudRate a), WriteUint8 ops (usa_stopBits a),
     WriteUint8 ops (usa_parity a), WriteUint8 ops (usa_dataBits a)]"

definition unmarshal_attribute :: "'p parcel_ops \<Rightarrow> ('p, UsbSerialAttr) state" where
  "unmarshal_attribute ops = do {
     baudRate \<leftarrow> ReadUint32 ops;
     stopBits \<leftarrow> ReadUint8 ops;
     parity \<leftarrow> ReadUint8 ops;
     dataBits \<leftarrow> ReadUint8 ops;
     State_Monad.return \<lparr>usa_baudRate = baudRate, usa_stopBits = stopBits, usa_parity = parity, usa_dataBits = dataBits\<rparr> }"

subsection \<open>What arrives\<close>

definition wire_port :: "UsbPort \<Rightarrow> cell list" where
  "wire_port p = [C32 (int32 (port_id p)), C32 (int32 (port_supportedModes p)), C32 (int32 (port_currentMode p)),
     C32 (int32 (port_currentPowerRole p)), C32 (int32 (port_currentDataRole p))]"

definition received_port :: "UsbPort \<Rightarrow> UsbPort" where
  "received_port p = \<lparr>port_id = sint (int32 (port_id p)), port_supportedModes = sint (int32 (port_supportedModes p)),
     port_currentMode = sint (int32 (port_currentMode p)), port_currentPowerRole = sint (int32 (port_currentPowerRole p)),
     port_currentDataRole = sint (int32 (port_currentDataRole p))\<rparr>"

definition wire_serial_port :: "UsbSerialPort \<Rightarrow> cell list" where
  "wire_serial_port p = [C32 (int32 (usp_portId p)), C8 (usp_busNum p), C8 (usp_devAddr p), C32 (int32 (usp_vid p)),
     C32 (int32 (usp_pid p)), CStr (usp_serialNum p)]"

definition received_serial_port :: "UsbSerialPort \<Rightarrow> UsbSerialPort" where
  "received_serial_port p = p\<lparr>usp_portId := sint (int32 (usp_portId p)), usp_vid := sint (int32 (usp_vid p)),
     usp_pid := sint (int32 (usp_pid p))\<rparr>"

definition wire_attribute :: "UsbSerialAttr \<Rightarrow> cell list" where
  "wire_attribute a = [C32 (usa_baudRate a), C8 (usa_stopBits a), C8 (usa_parity a), C8 (usa_dataBits a)]"

text \<open>A sequence of single cells.\<close>

lemma writes_cells:
  assumes "list_all2 (\<lambda>w c. writes view w [c]) ws cs"
  shows "writes view (write_seq ws) cs"
proof -
  have "list_all2 (writes view) ws (map (\<lambda>c. [c]) cs)" using assms by (simp add: list_all2_map2)
  from writes_seq [OF this] show ?thesis by (simp add: concat_map_singleton)
qed

interpretation port_parcel: parcelable marshal_port unmarshal_port wire_port received_port
proof
  fix ops :: "'p parcel_ops" and view x
  assume f: "parcel_fifo ops view"
  show "writes view (marshal_port ops x) (wire_port x)"
    unfolding marshal_port_def wire_port_def by (rule writes_cells) (simp add: parcel_fifo_writes [OF f])
  show "reads view (unmarshal_port ops) (wire_port x) (received_port x)"
    unfolding unmarshal_port_def wire_port_def
    by (intro reads_cell_bind [OF f] reads_return) (simp add: received_port_def)
qed

interpretation serial_port_parcel: parcelable marshal_serial_port unmarshal_serial_port wire_serial_port received_serial_port
proof
  fix ops :: "'p parcel_ops" and view x
  assume f: "parcel_fifo ops view"
  show "writes view (marshal_serial_port ops x) (wire_serial_port x)"
    unfolding marshal_serial_port_def wire_serial_port_def by (rule writes_cells) (simp add: parcel_fifo_writes [OF f])
  show "reads view (unmarshal_serial_port ops) (wire_serial_port x) (received_serial_port x)"
    unfolding unmarshal_serial_port_def wire_serial_port_def
    by (intro reads_cell_bind [OF f] reads_return) (simp add: received_serial_port_def)
qed

interpretation attribute_parcel: parcelable marshal_attribute unmarshal_attribute wire_attribute "\<lambda>a. a"
proof
  fix ops :: "'p parcel_ops" and view x
  assume f: "parcel_fifo ops view"
  show "writes view (marshal_attribute ops x) (wire_attribute x)"
    unfolding marshal_attribute_def wire_attribute_def by (rule writes_cells) (simp add: parcel_fifo_writes [OF f])
  show "reads view (unmarshal_attribute ops) (wire_attribute x) x"
    unfolding unmarshal_attribute_def wire_attribute_def
    by (intro reads_cell_bind [OF f] reads_return) simp
qed

end
