(* ===== verification/Right_Dialog.thy ===== *)
theory Right_Dialog
  imports Right_Manager Usb_Json
begin

section \<open>The messages to the dialog\<close>

text \<open>
  \<^verbatim>\<open>UsbAbilityConn\<close> of \<^verbatim>\<open>usb_right_manager.cpp\<close>: the connection to the dialog ability that asks the user for a
  right. The ability manager calls it when the dialog is connected and when it has gone; the right
  manager closes the dialog through it. The dialog is a remote object \<open>'r\<close>, and what is sent to it is a
  parameter, as are the JSON library and the conversion to UTF-16. The semaphore on which the request
  for the right waits is a number.
\<close>

datatype 't dialog_cell = Int32 int | String16 't

text \<open>\<open>dc_SendRequest\<close> returns the code and the number in the reply, if there is one.\<close>

record ('w, 'r, 't) dialog_env =
  dc_SendRequest :: "'r \<Rightarrow> nat \<Rightarrow> 't dialog_cell list \<Rightarrow> 'w \<Rightarrow> int \<times> int option \<times> 'w"
  dc_Str8ToStr16 :: "string \<Rightarrow> 't"

record 'r UsbAbilityConn =
  remoteObject :: "'r option"
  waitDialogDisappear :: nat

definition MESSAGE_PARCEL_KEY_SIZE :: int where "MESSAGE_PARCEL_KEY_SIZE = 3"

text \<open>Without an object the library adds nothing and prints nothing.\<close>

definition dialog_params :: "'j json_lib \<Rightarrow> (string, string) omap \<Rightarrow> string option" where
  "dialog_params lib params = (case cj_CreateObject lib of None \<Rightarrow> None
     | Some obj \<Rightarrow> map_option c_str (cj_PrintUnformatted lib (foldl (add_member lib) obj
         (map (\<lambda>(k, v). Text (c_str k) v) params @ [Text ''ability.want.params.uiExtensionType'' ''sysDialog/common'']))))"

definition dialog_header :: "('w, 'r, 't) dialog_env \<Rightarrow> 't dialog_cell list" where
  "dialog_header e = Int32 MESSAGE_PARCEL_KEY_SIZE # map (\<lambda>s. String16 (dc_Str8ToStr16 e s))
     [''bundleName'', ''com.usb.right'', ''abilityName'', ''UsbServiceExtAbility'', ''parameters'']"

definition dialog_OnAbilityConnectDone :: "('w, 'r, 't) dialog_env \<Rightarrow> 'j json_lib \<Rightarrow> (string, string) omap \<Rightarrow> 'r option \<Rightarrow>
    'r UsbAbilityConn \<Rightarrow> 'w \<Rightarrow> 'r UsbAbilityConn \<times> 'w" where
  "dialog_OnAbilityConnectDone e lib params remote conn w =
     (case remote of None \<Rightarrow> (conn, w)
      | Some r \<Rightarrow> (case dialog_params lib params of None \<Rightarrow> (conn, w)
        | Some paramStr \<Rightarrow>
          (case dc_SendRequest e r 1 (dialog_header e @ [String16 (dc_Str8ToStr16 e paramStr)]) w of (ret, reply, w1) \<Rightarrow>
             if ret \<noteq> 0 then (conn, w1)
             else if reply \<noteq> Some 0 then (conn, w1)
             else (conn\<lparr>remoteObject := Some r\<rparr>, w1))))"

definition dialog_OnAbilityDisconnectDone :: "'r UsbAbilityConn \<Rightarrow> 'r UsbAbilityConn" where
  "dialog_OnAbilityDisconnectDone conn =
     conn\<lparr>waitDialogDisappear := Suc (waitDialogDisappear conn), remoteObject := None\<rparr>"

definition dialog_CloseDialog :: "('w, 'r, 't) dialog_env \<Rightarrow> 'r UsbAbilityConn \<Rightarrow> 'w \<Rightarrow> 'w" where
  "dialog_CloseDialog e conn w = (case remoteObject conn of None \<Rightarrow> w
     | Some r \<Rightarrow> snd (snd (dc_SendRequest e r 3 [] w)))"

subsection \<open>Sequences of callbacks\<close>

datatype 'r dialog_event = Connected "'r option" | Disconnected | Closing

fun dialog_handle :: "('w, 'r, 't) dialog_env \<Rightarrow> 'j json_lib \<Rightarrow> (string, string) omap \<Rightarrow> 'r dialog_event \<Rightarrow>
    'r UsbAbilityConn \<times> 'w \<Rightarrow> 'r UsbAbilityConn \<times> 'w" where
  "dialog_handle e lib ps (Connected remote) (conn, w) = dialog_OnAbilityConnectDone e lib ps remote conn w"
| "dialog_handle e lib ps Disconnected (conn, w) = (dialog_OnAbilityDisconnectDone conn, w)"
| "dialog_handle e lib ps Closing (conn, w) = (conn, dialog_CloseDialog e conn w)"

definition dialog_run :: "('w, 'r, 't) dialog_env \<Rightarrow> 'j json_lib \<Rightarrow> (string, string) omap \<Rightarrow> 'r dialog_event list \<Rightarrow>
    'r UsbAbilityConn \<times> 'w \<Rightarrow> 'r UsbAbilityConn \<times> 'w" where
  "dialog_run e lib ps evs s = fold (dialog_handle e lib ps) evs s"

text \<open>
  \<open>sent\<close> lists the requests the remote objects have got.
\<close>

definition records_requests :: "('w, 'r, 't) dialog_env \<Rightarrow> ('w \<Rightarrow> ('r \<times> nat \<times> 't dialog_cell list) list) \<Rightarrow> bool" where
  "records_requests e sent \<longleftrightarrow>
     (\<forall>r c m w. sent (snd (snd (dc_SendRequest e r c m w))) = sent w @ [(r, c, m)])"

definition dialog_value :: "(string, string) omap \<Rightarrow> json" where
  "dialog_value ps = Obj (map (\<lambda>(k, v). (c_str k, Str (c_str v))) ps @
     [(''ability.want.params.uiExtensionType'', Str ''sysDialog/common'')])"

text \<open>The requests: a dialog is shown with the parameters, or the dialog that was shown is closed.\<close>

definition proper_request where
  "proper_request e lib view ps q \<longleftrightarrow> (case q of (r, c, m) \<Rightarrow>
     c = 1 \<and> (\<exists>t. m = dialog_header e @ [String16 (dc_Str8ToStr16 e t)] \<and> printed lib view t (dialog_value ps)) \<or>
     c = 3 \<and> m = [])"

lemma dialog_params_printed:
  assumes "json_law lib view"
  shows "\<exists>t. dialog_params lib ps = Some t \<and> printed lib view t (dialog_value ps)"
proof -
  obtain obj where o: "cj_CreateObject lib = Some obj" "view obj = Obj []" using law_object [OF assms] by blast
  let ?ms = "map (\<lambda>(k, v). Text (c_str k) v) ps @ [Text ''ability.want.params.uiExtensionType'' ''sysDialog/common'']"
  have v: "view (foldl (add_member lib) obj ?ms) = dialog_value ps"
    unfolding add_members [OF assms o(2)] dialog_value_def by (simp add: c_str_def case_prod_beta comp_def)
  have "json_ok 1000 (dialog_value ps)" by (auto simp: dialog_value_def)
  with law_print [OF assms, of "foldl (add_member lib) obj ?ms"] show ?thesis
    unfolding v by (auto simp: dialog_params_def o printed_def c_str_id simp del: foldl_append)
qed

text \<open>A dialog is closed only after it was told to show; \<open>shown\<close> are those told before.\<close>

fun closes_from :: "'r set \<Rightarrow> ('r \<times> nat \<times> 'm) list \<Rightarrow> bool" where
  "closes_from shown [] \<longleftrightarrow> True"
| "closes_from shown ((r, c, m) # qs) \<longleftrightarrow>
     (c = 3 \<longrightarrow> r \<in> shown) \<and> closes_from (if c = 1 then insert r shown else shown) qs"

definition closes_follow :: "('r \<times> nat \<times> 'm) list \<Rightarrow> bool" where
  "closes_follow qs \<longleftrightarrow> closes_from {} qs"

lemma closes_follow_snoc:
  "closes_follow (qs @ [(r, c, m)]) \<longleftrightarrow> closes_follow qs \<and> (c = 3 \<longrightarrow> (\<exists>q\<in>set qs. fst q = r \<and> fst (snd q) = 1))"
proof -
  have "closes_from S (qs @ [(r, c, m)]) \<longleftrightarrow>
      closes_from S qs \<and> (c = 3 \<longrightarrow> r \<in> S \<or> (\<exists>q\<in>set qs. fst q = r \<and> fst (snd q) = 1))" for S
  proof (induction qs arbitrary: S)
    case (Cons q qs)
    obtain r' c' m' where "q = (r', c', m')" by (cases q)
    then show ?case using Cons [of S] Cons [of "insert r' S"] by (cases "c' = 1") auto
  qed simp
  then show ?thesis by (simp add: closes_follow_def)
qed

text \<open>What every callback keeps: the requests so far are in order, and a dialog that is held has been shown.\<close>

definition in_order where
  "in_order e lib view ps sent base s \<longleftrightarrow> (\<exists>qs. sent (snd s) = base @ qs \<and> list_all (proper_request e lib view ps) qs \<and>
     closes_follow qs \<and> (\<forall>r. remoteObject (fst s) = Some r \<longrightarrow> (\<exists>q\<in>set qs. fst q = r \<and> fst (snd q) = 1)))"

lemma dialog_handle_in_order:
  assumes l: "json_law lib view" and q: "records_requests e sent" and i: "in_order e lib view ps sent base s"
  shows "in_order e lib view ps sent base (dialog_handle e lib ps ev s)"
proof -
  obtain conn w where s: "s = (conn, w)" by (cases s)
  obtain qs where qs: "sent w = base @ qs" "list_all (proper_request e lib view ps) qs" "closes_follow qs"
      "\<And>r. remoteObject conn = Some r \<Longrightarrow> \<exists>q\<in>set qs. fst q = r \<and> fst (snd q) = 1"
    using i unfolding s in_order_def by auto
  have sent: "sent (snd (snd (dc_SendRequest e r c m w))) = base @ qs @ [(r, c, m)]" for r c m
    using q qs(1) by (simp add: records_requests_def)
  show ?thesis
  proof (cases ev)
    case (Connected remote)
    show ?thesis
    proof (cases remote)
      case None
      then show ?thesis using i s Connected by (simp add: dialog_OnAbilityConnectDone_def)
    next
      case (Some r)
      obtain t where t: "dialog_params lib ps = Some t" "printed lib view t (dialog_value ps)"
        using dialog_params_printed [OF l] by blast
      let ?m = "dialog_header e @ [String16 (dc_Str8ToStr16 e t)]"
      have "proper_request e lib view ps (r, Suc 0, ?m)" using t(2) by (auto simp: proper_request_def)
      moreover have "closes_follow (qs @ [(r, Suc 0, ?m)])" using qs(3) by (simp add: closes_follow_snoc)
      ultimately show ?thesis
        using sent [of r 1 ?m] qs(2,4) t(1) Some s Connected
        by (auto simp: dialog_OnAbilityConnectDone_def in_order_def case_prod_beta intro!: exI [of _ "qs @ [(r, 1, ?m)]"])
    qed
  next
    case Disconnected
    then show ?thesis using qs s by (auto simp: dialog_OnAbilityDisconnectDone_def in_order_def)
  next
    case Closing
    show ?thesis
    proof (cases "remoteObject conn")
      case (Some r)
      have "closes_follow (qs @ [(r, 3, [])])" using qs(3) qs(4) [OF Some] by (simp add: closes_follow_snoc)
      then show ?thesis
        using sent [of r 3 "[]"] qs(2,4) Some s Closing
        by (auto simp: dialog_CloseDialog_def in_order_def proper_request_def intro!: exI [of _ "qs @ [(r, 3, [])]"])
    qed (use i s Closing in \<open>simp add: dialog_CloseDialog_def\<close>)
  qed
qed

lemma dialog_run_in_order:
  assumes "json_law lib view" and "records_requests e sent" and "in_order e lib view ps sent base s"
  shows "in_order e lib view ps sent base (dialog_run e lib ps evs s)"
  using assms(3) by (induction evs arbitrary: s) (simp_all add: dialog_run_def dialog_handle_in_order [OF assms(1,2)])

lemma dialog_run_posts:
  "waitDialogDisappear (fst (dialog_run e lib ps evs s)) = waitDialogDisappear (fst s) + length (filter (\<lambda>ev. ev = Disconnected) evs)"
proof (induction evs arbitrary: s)
  case (Cons ev evs)
  have "waitDialogDisappear (fst (dialog_handle e lib ps ev s)) = waitDialogDisappear (fst s) + (if ev = Disconnected then 1 else 0)"
    by (cases ev; cases s) (auto simp: dialog_OnAbilityConnectDone_def dialog_OnAbilityDisconnectDone_def
        split: option.split prod.split)
  with Cons show ?case by (simp add: dialog_run_def)
qed (simp add: dialog_run_def)

text \<open>
  C19: whatever the dialogs answer and in whatever order the ability manager connects and disconnects
  them, a dialog gets nothing but the request to show, with the parameters of the right manager as
  readable JSON, and the request to close, and the latter only when it got the former before; and the
  waiting request for a right is woken once for each dialog that has gone.
\<close>

theorem dialog_requests_in_order:
  assumes "json_law lib view" and "records_requests e sent" and "remoteObject conn = None"
    and "dialog_run e lib (usbDialogParams m) evs (conn, w) = (conn', w')"
  shows "\<exists>qs. sent w' = sent w @ qs \<and> list_all (proper_request e lib view (usbDialogParams m)) qs \<and> closes_follow qs \<and>
    waitDialogDisappear conn' = waitDialogDisappear conn + length (filter (\<lambda>ev. ev = Disconnected) evs)"
proof -
  have "in_order e lib view (usbDialogParams m) sent (sent w) (conn, w)"
    using assms(3) by (auto simp: in_order_def closes_follow_def intro: exI [of _ "[]"])
  from dialog_run_in_order [OF assms(1,2) this, of evs] show ?thesis
    using dialog_run_posts [of e lib "usbDialogParams m" evs "(conn, w)"] unfolding assms(4) by (auto simp: in_order_def)
qed

text \<open>Two dialogs that always answer, in a world of the requests they got.\<close>

definition answering_dialogs :: "((nat \<times> nat \<times> string dialog_cell list) list, nat, string) dialog_env" where
  "answering_dialogs = \<lparr>dc_SendRequest = (\<lambda>r c m w. (0, Some 0, w @ [(r, c, m)])), dc_Str8ToStr16 = (\<lambda>s. s)\<rparr>"

theorem dialog_requests_in_order_witness:
  "\<exists>qs. snd (dialog_run answering_dialogs text_lib (usbDialogParams \<lparr>usbAbilityConn = True, usbDialogParams = [(''tokenId'', ''7'')]\<rparr>)
     [Closing, Connected (Some 2), Closing, Disconnected, Closing] (\<lparr>remoteObject = None, waitDialogDisappear = 0\<rparr>, [])) = qs \<and>
   length qs = 2 \<and> closes_follow qs"
proof -
  let ?m = "\<lparr>usbAbilityConn = True, usbDialogParams = [(''tokenId'', ''7'')]\<rparr>"
  let ?evs = "[Closing, Connected (Some (2 :: nat)), Closing, Disconnected, Closing]"
  let ?s = "(\<lparr>remoteObject = None, waitDialogDisappear = 0\<rparr>, [])"
  have e: "records_requests answering_dialogs (\<lambda>w. w)" by (simp add: records_requests_def answering_dialogs_def)
  have "length (snd (dialog_run answering_dialogs text_lib (usbDialogParams ?m) ?evs ?s)) = 2"
    by (simp add: dialog_run_def dialog_CloseDialog_def dialog_OnAbilityConnectDone_def dialog_OnAbilityDisconnectDone_def
        answering_dialogs_def dialog_params_def text_lib_def)
  then show ?thesis
    using dialog_requests_in_order [OF text_lib_law e, where conn = "\<lparr>remoteObject = None, waitDialogDisappear = 0\<rparr>" and m = ?m
        and evs = ?evs and w = "[]", OF _ prod.collapse [symmetric]] by auto
qed

end
