(* ===== verification/Js_Values.thy ===== *)
theory Js_Values
  imports Usb_Json "HOL-Library.AList"
begin

section \<open>Values of JavaScript\<close>

text \<open>
  \<^verbatim>\<open>NapiUtil\<close> of \<^verbatim>\<open>interfaces/kits/js/napi/src/napi_util.cpp\<close>, which moves values between the
  run time of JavaScript and C++, and the errors of \<^verbatim>\<open>usb_napi_errors.cpp\<close>. The run time is of another
  repository: it is the record \<open>napi\<close> of the calls that are made, over its state \<open>'e\<close> and handles \<open>'v\<close>,
  and \<open>napi_law\<close> says what its documentation promises in terms of the JavaScript value of a handle.
  A call that does not return \<^verbatim>\<open>napi_ok\<close> gives \<open>None\<close> and leaves the output variable as it was. An
  object is filled by the function that made it before anyone else sees it, so setting a property gives
  the handle with its new value.
\<close>

subsection \<open>The run time\<close>

datatype napi_valuetype = napi_undefined | napi_null | napi_boolean | napi_number | napi_string | napi_symbol
  | napi_object | napi_function | napi_external | napi_bigint

datatype napi_typedarray_type = napi_uint8_array | napi_other_array

text \<open>
  The \<open>unset\<close> members are what a variable without an initial value holds. The arguments of a call from
  JavaScript are the list of their handles. An array buffer and the data of a typed array are addresses
  in the memory.
\<close>

record ('e, 'v) napi =
  nullptr :: 'v
  unset_value :: 'v
  unset_type :: napi_valuetype
  napi_get_cb_info :: "'v list \<Rightarrow> nat \<Rightarrow> ('e, (nat \<times> 'v list) option) state"
  napi_typeof :: "'v \<Rightarrow> ('e, napi_valuetype option) state"
  napi_has_named_property :: "'v \<Rightarrow> string \<Rightarrow> ('e, bool option) state"
  napi_get_named_property :: "'v \<Rightarrow> string \<Rightarrow> ('e, 'v option) state"
  napi_set_named_property :: "'v \<Rightarrow> string \<Rightarrow> 'v \<Rightarrow> ('e, 'v option) state"
  napi_is_array :: "'v \<Rightarrow> ('e, bool option) state"
  napi_get_array_length :: "'v \<Rightarrow> ('e, nat option) state"
  napi_get_element :: "'v \<Rightarrow> nat \<Rightarrow> ('e, 'v option) state"
  napi_set_element :: "'v \<Rightarrow> nat \<Rightarrow> 'v \<Rightarrow> ('e, 'v option) state"
  napi_get_value_bool :: "'v \<Rightarrow> ('e, bool option) state"
  napi_get_value_int32 :: "'v \<Rightarrow> ('e, i32 option) state"
  napi_get_value_uint32 :: "'v \<Rightarrow> ('e, u32 option) state"
  napi_get_value_string_utf8 :: "'v \<Rightarrow> nat \<Rightarrow> ('e, string option) state"
  napi_is_typedarray :: "'v \<Rightarrow> ('e, bool option) state"
  napi_get_typedarray_info :: "'v \<Rightarrow> ('e, (napi_typedarray_type \<times> nat \<times> nat \<times> nat) option) state"
  napi_create_object :: "('e, 'v option) state"
  napi_create_array :: "('e, 'v option) state"
  napi_create_string_utf8 :: "string \<Rightarrow> ('e, 'v option) state"
  napi_create_int32 :: "i32 \<Rightarrow> ('e, 'v option) state"
  napi_create_uint32 :: "u32 \<Rightarrow> ('e, 'v option) state"
  napi_get_boolean :: "bool \<Rightarrow> ('e, 'v option) state"
  napi_get_undefined :: "('e, 'v option) state"
  napi_create_arraybuffer :: "nat \<Rightarrow> ('e, (nat \<times> 'v) option) state"
  napi_create_typedarray :: "nat \<Rightarrow> 'v \<Rightarrow> ('e, 'v option) state"
  napi_create_error :: "'v \<Rightarrow> ('e, 'v option) state"
  napi_throw :: "'v \<Rightarrow> ('e, unit option) state"
  memcpy_s :: "nat \<Rightarrow> nat \<Rightarrow> bool"

text \<open>What the native functions work on; \<open>memory\<close> holds the contents of the array buffers.\<close>

record 'e js_env =
  engine :: 'e
  memory :: "nat \<Rightarrow> u8"

definition call :: "('e, 'a) state \<Rightarrow> (('e, 'm) js_env_scheme, 'a) state" where
  "call c = State (\<lambda>s. case run_state c (engine s) of (r, e) \<Rightarrow> (r, s\<lparr>engine := e\<rparr>))"

text \<open>A call that assigns an output variable which held \<open>old\<close>.\<close>

definition out_var :: "'a \<Rightarrow> ('e, 'a option) state \<Rightarrow> (('e, 'm) js_env_scheme, 'a) state" where
  "out_var old c = do { r \<leftarrow> call c; State_Monad.return (case r of None \<Rightarrow> old | Some x \<Rightarrow> x) }"

subsection \<open>Errors\<close>

definition OHEC_COMMON_PERMISSION_NOT_ALLOWED :: i32 where "OHEC_COMMON_PERMISSION_NOT_ALLOWED = 201"
definition OHEC_COMMON_NORMAL_APP_NOT_ALLOWED :: i32 where "OHEC_COMMON_NORMAL_APP_NOT_ALLOWED = 202"
definition OHEC_COMMON_PARAM_ERROR :: i32 where "OHEC_COMMON_PARAM_ERROR = 401"
definition CAPABILITY_NOT_SUPPORT :: i32 where "CAPABILITY_NOT_SUPPORT = 801"
definition UEC_COMMON_HAS_NO_RIGHT :: i32 where "UEC_COMMON_HAS_NO_RIGHT = 14400001"
definition UEC_COMMON_HDC_NOT_ALLOWED :: i32 where "UEC_COMMON_HDC_NOT_ALLOWED = 14400002"
definition UEC_COMMON_PORTROLE_SWITCH_NOT_ALLOWED :: i32 where "UEC_COMMON_PORTROLE_SWITCH_NOT_ALLOWED = 14400003"
definition UEC_COMMON_SERVICE_EXCEPTION :: i32 where "UEC_COMMON_SERVICE_EXCEPTION = 14400004"
definition UEC_COMMON_RIGHT_DATABASE_ERROR :: i32 where "UEC_COMMON_RIGHT_DATABASE_ERROR = 14400005"
definition UEC_COMMON_FUNCTION_NOT_SUPPORT :: i32 where "UEC_COMMON_FUNCTION_NOT_SUPPORT = 14400006"
definition USB_SUBMIT_TRANSFER_RESOURCE_BUSY_ERROR :: i32 where "USB_SUBMIT_TRANSFER_RESOURCE_BUSY_ERROR = 14400007"
definition USB_SUBMIT_TRANSFER_NO_DEVICE_ERROR :: i32 where "USB_SUBMIT_TRANSFER_NO_DEVICE_ERROR = 14400008"
definition USB_SUBMIT_TRANSFER_NO_MEM_ERROR :: i32 where "USB_SUBMIT_TRANSFER_NO_MEM_ERROR = 14400009"
definition USB_SUBMIT_TRANSFER_OTHER_ERROR :: i32 where "USB_SUBMIT_TRANSFER_OTHER_ERROR = 14400010"
definition USB_SUBMIT_TRANSFER_NOT_FOUND_ERROR :: i32 where "USB_SUBMIT_TRANSFER_NOT_FOUND_ERROR = 14400011"
definition USB_SUBMIT_TRANSFER_IO_ERROR :: i32 where "USB_SUBMIT_TRANSFER_IO_ERROR = 14400012"
definition USB_DEVICE_PIPE_CHECK_ERROR :: i32 where "USB_DEVICE_PIPE_CHECK_ERROR = 14400013"
definition UEC_ACCESSORY_NOT_MATCH :: i32 where "UEC_ACCESSORY_NOT_MATCH = 14401001"
definition UEC_ACCESSORY_OPEN_FAILED :: i32 where "UEC_ACCESSORY_OPEN_FAILED = 14401002"
definition UEC_ACCESSORY_CAN_NOT_REOPEN :: i32 where "UEC_ACCESSORY_CAN_NOT_REOPEN = 14401003"

lemmas js_code_defs = OHEC_COMMON_PERMISSION_NOT_ALLOWED_def OHEC_COMMON_NORMAL_APP_NOT_ALLOWED_def
  OHEC_COMMON_PARAM_ERROR_def CAPABILITY_NOT_SUPPORT_def UEC_COMMON_HAS_NO_RIGHT_def UEC_COMMON_HDC_NOT_ALLOWED_def
  UEC_COMMON_PORTROLE_SWITCH_NOT_ALLOWED_def UEC_COMMON_SERVICE_EXCEPTION_def UEC_COMMON_RIGHT_DATABASE_ERROR_def
  UEC_COMMON_FUNCTION_NOT_SUPPORT_def USB_SUBMIT_TRANSFER_RESOURCE_BUSY_ERROR_def USB_SUBMIT_TRANSFER_NO_DEVICE_ERROR_def
  USB_SUBMIT_TRANSFER_NO_MEM_ERROR_def USB_SUBMIT_TRANSFER_OTHER_ERROR_def USB_SUBMIT_TRANSFER_NOT_FOUND_ERROR_def
  USB_SUBMIT_TRANSFER_IO_ERROR_def USB_DEVICE_PIPE_CHECK_ERROR_def UEC_ACCESSORY_NOT_MATCH_def
  UEC_ACCESSORY_OPEN_FAILED_def UEC_ACCESSORY_CAN_NOT_REOPEN_def

definition ERRCODE_MSG_MAP :: "(i32 \<times> string) list" where
  "ERRCODE_MSG_MAP = [
     (OHEC_COMMON_PERMISSION_NOT_ALLOWED, ''BusinessError 201:Permission verification failed. The application does not have the permission required to call the API.''),
     (OHEC_COMMON_NORMAL_APP_NOT_ALLOWED, ''BusinessError 202:Permission denied. Normal application uses system api.''),
     (OHEC_COMMON_PARAM_ERROR, ''BusinessError 401:Parameter error.''),
     (CAPABILITY_NOT_SUPPORT, ''BusinessError 801:Capability not supported.''),
     (UEC_COMMON_HAS_NO_RIGHT, ''BusinessError 14400001:Permission denied.''),
     (UEC_COMMON_HDC_NOT_ALLOWED, ''BusinessError 14400002:Permission denied. The HDC is disabled by the system.''),
     (UEC_COMMON_PORTROLE_SWITCH_NOT_ALLOWED, ''BusinessError 14400003:Unsupported operation.The current device does not support port role switching.''),
     (UEC_COMMON_SERVICE_EXCEPTION, ''BusinessError 14400004:Service exception. Possible causes:No accessory is plugged in.''),
     (UEC_COMMON_RIGHT_DATABASE_ERROR, ''BusinessError 14400005:Database operation exception.''),
     (UEC_COMMON_FUNCTION_NOT_SUPPORT, ''BusinessError 14400006:Unsupported operation. The function is not supported.''),
     (UEC_ACCESSORY_NOT_MATCH, ''BusinessError 14401001:The target USBAccessory not matched.''),
     (UEC_ACCESSORY_OPEN_FAILED, ''BusinessError 14401002:Failed to open the native accessory node.''),
     (UEC_ACCESSORY_CAN_NOT_REOPEN, ''BusinessError 14401003:Cannot reopen the accessory.''),
     (USB_SUBMIT_TRANSFER_RESOURCE_BUSY_ERROR, ''BusinessError 14400007:Resource busy. Possible causes:1. The transfer has already been submitted.2. The interface is claimed by another program or driver.''),
     (USB_SUBMIT_TRANSFER_NO_DEVICE_ERROR, ''BusinessError 14400008:No such device (it may have been disconnected).''),
     (USB_SUBMIT_TRANSFER_NO_MEM_ERROR, ''BusinessError 14400009:Insufficient memory. Possible causes: 1. Malloc memory failed.''),
     (USB_SUBMIT_TRANSFER_OTHER_ERROR, ''BusinessError 14400010:Other USB error.''),
     (USB_SUBMIT_TRANSFER_NOT_FOUND_ERROR, ''BusinessError 14400011:The transfer is not in progress, or is already complete or cancelled.''),
     (USB_SUBMIT_TRANSFER_IO_ERROR, ''BusinessError 14400012:Transmission I/O error.''),
     (USB_DEVICE_PIPE_CHECK_ERROR, ''BusinessError 14400013:The USBDevicePipe validity check failed. Possible causes:1.The input parameters fail the validation check.2.The call chain used to obtain the input parameters is not reasonable.'')]"

text \<open>The two modules are built with different tables of messages: \<open>msgs\<close>.\<close>

type_synonym messages = "(i32 \<times> string) list"

definition GetErrMsgByErrCode :: "messages \<Rightarrow> i32 \<Rightarrow> string option" where
  "GetErrMsgByErrCode msgs errCode = map_of msgs errCode"

text \<open>\<^verbatim>\<open>NAPI_CALL\<close> gives a null pointer when a call fails.\<close>

definition CreateBusinessError :: "messages \<Rightarrow> ('e, 'v, 'n) napi_scheme \<Rightarrow> i32 \<Rightarrow> string \<Rightarrow> (('e, 'm) js_env_scheme, 'v) state" where
  "CreateBusinessError msgs n errCode errMsg =
     (case GetErrMsgByErrCode msgs errCode of
        None \<Rightarrow> out_var (unset_value n) (napi_get_undefined n)
      | Some commMsg \<Rightarrow> do {
          m \<leftarrow> call (napi_create_string_utf8 n (c_str (commMsg @ errMsg)));
          case m of None \<Rightarrow> State_Monad.return (nullptr n) | Some message \<Rightarrow> do {
            c \<leftarrow> call (napi_create_int32 n errCode);
            case c of None \<Rightarrow> State_Monad.return (nullptr n) | Some code \<Rightarrow> do {
              businessError \<leftarrow> out_var (nullptr n) (napi_create_error n message);
              out_var businessError (napi_set_named_property n businessError ''code'' code) } } })"

definition ThrowBusinessError :: "messages \<Rightarrow> ('e, 'v, 'n) napi_scheme \<Rightarrow> i32 \<Rightarrow> string \<Rightarrow> (('e, 'm) js_env_scheme, unit) state" where
  "ThrowBusinessError msgs n errCode errMsg = do {
     businessError \<leftarrow> CreateBusinessError msgs n errCode errMsg;
     _ \<leftarrow> call (napi_throw n businessError);
     State_Monad.return () }"

text \<open>\<^verbatim>\<open>USB_ASSERT_BASE\<close>: an assertion that fails throws and returns \<open>retVal\<close>; \<open>k\<close> is the rest of the function.\<close>

definition usb_assert :: "messages \<Rightarrow> ('e, 'v, 'n) napi_scheme \<Rightarrow> bool \<Rightarrow> i32 \<Rightarrow> string \<Rightarrow> 'a \<Rightarrow> (('e, 'm) js_env_scheme, 'a) state \<Rightarrow>
    (('e, 'm) js_env_scheme, 'a) state" where
  "usb_assert msgs n assertion errCode errMsg retVal k =
     (if assertion then k else do { ThrowBusinessError msgs n errCode errMsg; State_Monad.return retVal })"

subsection \<open>From JavaScript\<close>

definition MAX_STR_LENGTH :: nat where "MAX_STR_LENGTH = 1024"

text \<open>The buffer of a string is cleared first: a failed call leaves the empty string.\<close>

definition JsValueToString :: "('e, 'v, 'n) napi_scheme \<Rightarrow> 'v \<Rightarrow> nat \<Rightarrow> string \<Rightarrow> (('e, 'm) js_env_scheme, string) state" where
  "JsValueToString n value bufLen target =
     (if bufLen = 0 \<or> bufLen > MAX_STR_LENGTH then State_Monad.return target
      else do { buf \<leftarrow> out_var [] (napi_get_value_string_utf8 n value (bufLen + 1)); State_Monad.return (c_str buf) })"

text \<open>The common part of the readers of a property; \<open>get\<close> reads the value when it has the type.\<close>

definition js_field :: "messages \<Rightarrow> ('e, 'v, 'n) napi_scheme \<Rightarrow> 'v \<Rightarrow> string \<Rightarrow> napi_valuetype \<Rightarrow> string \<Rightarrow> 'a \<Rightarrow>
    ('v \<Rightarrow> (('e, 'm) js_env_scheme, 'a) state) \<Rightarrow> (('e, 'm) js_env_scheme, 'a) state" where
  "js_field msgs n obj fieldStr ty what old get = do {
     hasProperty \<leftarrow> out_var False (napi_has_named_property n obj fieldStr);
     if hasProperty then do {
       field \<leftarrow> out_var (unset_value n) (napi_get_named_property n obj fieldStr);
       valueType \<leftarrow> out_var (unset_type n) (napi_typeof n field);
       usb_assert msgs n (valueType = ty) OHEC_COMMON_PARAM_ERROR (''The type of '' @ fieldStr @ '' must be '' @ what) old (get field) }
     else State_Monad.return old }"

definition JsObjectToString :: "messages \<Rightarrow> ('e, 'v, 'n) napi_scheme \<Rightarrow> 'v \<Rightarrow> string \<Rightarrow> nat \<Rightarrow> string \<Rightarrow> (('e, 'm) js_env_scheme, string) state" where
  "JsObjectToString msgs n obj fieldStr bufLen fieldRef =
     (if bufLen = 0 then State_Monad.return fieldRef
      else js_field msgs n obj fieldStr napi_string ''string.'' fieldRef (\<lambda>field. do {
        buf \<leftarrow> out_var [] (napi_get_value_string_utf8 n field (bufLen + 1)); State_Monad.return (c_str buf) }))"

text \<open>The value that was found, if any: \<open>None\<close> leaves the caller's variable as it was.\<close>

definition JsObjectGetProperty :: "('e, 'v, 'n) napi_scheme \<Rightarrow> 'v \<Rightarrow> string \<Rightarrow> 'v \<Rightarrow> (('e, 'm) js_env_scheme, bool \<times> 'v) state" where
  "JsObjectGetProperty n obj fieldStr old = do {
     hasProperty \<leftarrow> out_var False (napi_has_named_property n obj fieldStr);
     if hasProperty then do {
       value \<leftarrow> out_var old (napi_get_named_property n obj fieldStr);
       State_Monad.return (True, value) }
     else State_Monad.return (False, old) }"

definition JsObjectToBool :: "messages \<Rightarrow> ('e, 'v, 'n) napi_scheme \<Rightarrow> 'v \<Rightarrow> string \<Rightarrow> bool \<Rightarrow> (('e, 'm) js_env_scheme, bool) state" where
  "JsObjectToBool msgs n obj fieldStr fieldRef = js_field msgs n obj fieldStr napi_boolean ''boolean.'' fieldRef (\<lambda>field.
     out_var fieldRef (napi_get_value_bool n field))"

definition JsObjectToInt :: "messages \<Rightarrow> ('e, 'v, 'n) napi_scheme \<Rightarrow> 'v \<Rightarrow> string \<Rightarrow> i32 \<Rightarrow> (('e, 'm) js_env_scheme, i32) state" where
  "JsObjectToInt msgs n obj fieldStr fieldRef = js_field msgs n obj fieldStr napi_number ''number.'' fieldRef (\<lambda>field.
     out_var fieldRef (napi_get_value_int32 n field))"

text \<open>\<open>JsObjectToUint32\<close> also tells whether the value was read; \<open>JsObjectToUint\<close> is the same without that.\<close>

definition JsObjectToUint32 :: "messages \<Rightarrow> ('e, 'v, 'n) napi_scheme \<Rightarrow> 'v \<Rightarrow> string \<Rightarrow> u32 \<Rightarrow> (('e, 'm) js_env_scheme, bool \<times> u32) state" where
  "JsObjectToUint32 msgs n obj fieldStr fieldRef = do {
     hasProperty \<leftarrow> call (napi_has_named_property n obj fieldStr);
     if hasProperty \<noteq> Some True then State_Monad.return (False, fieldRef)
     else do {
       f \<leftarrow> call (napi_get_named_property n obj fieldStr);
       case f of None \<Rightarrow> State_Monad.return (False, fieldRef) | Some field \<Rightarrow> do {
         t \<leftarrow> call (napi_typeof n field);
         case t of None \<Rightarrow> State_Monad.return (False, fieldRef) | Some valueType \<Rightarrow>
           usb_assert msgs n (valueType = napi_number) OHEC_COMMON_PARAM_ERROR (''The type of '' @ fieldStr @ '' must be number.'')
             (False, fieldRef) (do {
               v \<leftarrow> call (napi_get_value_uint32 n field);
               State_Monad.return (case v of None \<Rightarrow> (False, fieldRef) | Some x \<Rightarrow> (True, x)) }) } } }"

definition JsObjectToUint :: "messages \<Rightarrow> ('e, 'v, 'n) napi_scheme \<Rightarrow> 'v \<Rightarrow> string \<Rightarrow> u32 \<Rightarrow> (('e, 'm) js_env_scheme, u32) state" where
  "JsObjectToUint msgs n obj fieldStr fieldRef = do {
     r \<leftarrow> JsObjectToUint32 msgs n obj fieldStr fieldRef; State_Monad.return (snd r) }"

definition UINT_MAX :: u32 where "UINT_MAX = 0xFFFFFFFF"
definition SCHAR_MAX :: u32 where "SCHAR_MAX = 127"

definition JsObjectToUint8 :: "messages \<Rightarrow> ('e, 'v, 'n) napi_scheme \<Rightarrow> 'v \<Rightarrow> string \<Rightarrow> u8 \<Rightarrow> (('e, 'm) js_env_scheme, bool \<times> u8) state" where
  "JsObjectToUint8 msgs n obj fieldStr fieldRef = do {
     tmpValue \<leftarrow> JsObjectToUint msgs n obj fieldStr UINT_MAX;
     State_Monad.return (if tmpValue > SCHAR_MAX then (False, fieldRef) else (True, ucast tmpValue)) }"

text \<open>
  The address and the length of the bytes of a typed array; what was found is kept in the caller's
  variables even when the array has another type or is empty.
\<close>

definition JsUint8ArrayParse :: "messages \<Rightarrow> ('e, 'v, 'n) napi_scheme \<Rightarrow> 'v \<Rightarrow> nat option \<times> nat \<Rightarrow>
    (('e, 'm) js_env_scheme, bool \<times> nat option \<times> nat) state" where
  "JsUint8ArrayParse msgs n obj old = do {
     t \<leftarrow> call (napi_is_typedarray n obj);
     if t \<noteq> Some True
     then usb_assert msgs n False OHEC_COMMON_PARAM_ERROR ''The type of buffer must be TypedArray.'' (False, old) (State_Monad.return (False, old))
     else do {
       i \<leftarrow> call (napi_get_typedarray_info n obj);
       case i of None \<Rightarrow> State_Monad.return (False, old)
       | Some (type, bufferSize, uint8Buffer, offset) \<Rightarrow>
         usb_assert msgs n (type = napi_uint8_array) OHEC_COMMON_PARAM_ERROR ''The type of buffer must be Uint8Array.''
           (False, Some uint8Buffer, bufferSize)
           (usb_assert msgs n (bufferSize \<noteq> 0) OHEC_COMMON_PARAM_ERROR ''The size of buffer must be a positive number.''
             (False, Some uint8Buffer, bufferSize) (State_Monad.return (True, Some uint8Buffer, bufferSize))) } }"

definition JsUint8ArrayParseReserveZeroBuffer :: "messages \<Rightarrow> ('e, 'v, 'n) napi_scheme \<Rightarrow> 'v \<Rightarrow> nat option \<times> nat \<Rightarrow>
    (('e, 'm) js_env_scheme, bool \<times> nat option \<times> nat) state" where
  "JsUint8ArrayParseReserveZeroBuffer msgs n obj old = do {
     t \<leftarrow> call (napi_is_typedarray n obj);
     if t \<noteq> Some True
     then usb_assert msgs n False OHEC_COMMON_PARAM_ERROR ''The type of buffer must be TypedArray.'' (False, old) (State_Monad.return (False, old))
     else do {
       i \<leftarrow> call (napi_get_typedarray_info n obj);
       case i of None \<Rightarrow> State_Monad.return (False, old)
       | Some (type, bufferSize, uint8Buffer, offset) \<Rightarrow>
         usb_assert msgs n (type = napi_uint8_array) OHEC_COMMON_PARAM_ERROR ''The type of buffer must be Uint8Array.''
           (False, Some uint8Buffer, bufferSize) (State_Monad.return (True, Some uint8Buffer, bufferSize)) } }"

subsection \<open>To JavaScript\<close>

definition store :: "nat \<Rightarrow> u8 list \<Rightarrow> (nat \<Rightarrow> u8) \<Rightarrow> nat \<Rightarrow> u8" where
  "store p bs m a = (if p \<le> a \<and> a < p + length bs then bs ! (a - p) else m a)"

definition fetch :: "nat \<Rightarrow> nat \<Rightarrow> (nat \<Rightarrow> u8) \<Rightarrow> u8 list" where
  "fetch p len m = map m [p..<p + len]"

definition copy_to :: "nat \<Rightarrow> u8 list \<Rightarrow> (('e, 'm) js_env_scheme, unit) state" where
  "copy_to p bs = State (\<lambda>s. ((), s\<lparr>memory := store p bs (memory s)\<rparr>))"

text \<open>Every caller passes the size of the vector. Without a new buffer \<^verbatim>\<open>memcpy_s\<close> has no destination and fails.\<close>

definition Uint8ArrayToJsValue :: "('e, 'v, 'n) napi_scheme \<Rightarrow> u8 list \<Rightarrow> 'v \<Rightarrow> (('e, 'm) js_env_scheme, 'v) state" where
  "Uint8ArrayToJsValue n uint8Buffer result = do {
     b \<leftarrow> call (napi_create_arraybuffer n (length uint8Buffer));
     case b of None \<Rightarrow> State_Monad.return result | Some (nativeArraybuffer, nativeValue) \<Rightarrow>
       if \<not> memcpy_s n (length uint8Buffer) (length uint8Buffer) then State_Monad.return result
       else do {
         copy_to nativeArraybuffer uint8Buffer;
         out_var result (napi_create_typedarray n (length uint8Buffer) nativeValue) } }"

text \<open>Setting a property of \<open>result\<close> to a new value.\<close>

definition set_value :: "('e, 'v, 'n) napi_scheme \<Rightarrow> string \<Rightarrow> ('e, 'v option) state \<Rightarrow> 'v \<Rightarrow> (('e, 'm) js_env_scheme, 'v) state" where
  "set_value n fieldStr create result = do {
     value \<leftarrow> out_var (unset_value n) create;
     out_var result (napi_set_named_property n result fieldStr value) }"

definition SetValueUtf8String :: "('e, 'v, 'n) napi_scheme \<Rightarrow> string \<Rightarrow> string \<Rightarrow> 'v \<Rightarrow> (('e, 'm) js_env_scheme, 'v) state" where
  "SetValueUtf8String n fieldStr str = set_value n fieldStr (napi_create_string_utf8 n (c_str str))"

definition SetValueInt32 :: "('e, 'v, 'n) napi_scheme \<Rightarrow> string \<Rightarrow> i32 \<Rightarrow> 'v \<Rightarrow> (('e, 'm) js_env_scheme, 'v) state" where
  "SetValueInt32 n fieldStr intValue = set_value n fieldStr (napi_create_int32 n intValue)"

definition SetValueUint32 :: "('e, 'v, 'n) napi_scheme \<Rightarrow> string \<Rightarrow> u32 \<Rightarrow> 'v \<Rightarrow> (('e, 'm) js_env_scheme, 'v) state" where
  "SetValueUint32 n fieldStr uintValue result = do {
     v \<leftarrow> call (napi_create_uint32 n uintValue);
     case v of None \<Rightarrow> State_Monad.return result
     | Some value \<Rightarrow> out_var result (napi_set_named_property n result fieldStr value) }"

definition SetValueBool :: "('e, 'v, 'n) napi_scheme \<Rightarrow> string \<Rightarrow> bool \<Rightarrow> 'v \<Rightarrow> (('e, 'm) js_env_scheme, 'v) state" where
  "SetValueBool n fieldStr boolValue = set_value n fieldStr (napi_get_boolean n boolValue)"

subsection \<open>What the run time promises\<close>

text \<open>
  The values of JavaScript the bindings see. A string is its UTF-8 text, a typed array has a type, an
  address and a length; \<open>JError\<close> is an error with its properties and message.
\<close>

datatype js = JUndefined | JBool bool | JNumber int | JString string | JObject "(string \<times> js) list" | JArray "js list"
  | JBuffer nat nat | JTyped napi_typedarray_type nat nat | JError string "(string \<times> js) list" | JFunction | JOther

fun js_type :: "js \<Rightarrow> napi_valuetype option" where
  "js_type JUndefined = Some napi_undefined"
| "js_type (JBool b) = Some napi_boolean"
| "js_type (JNumber i) = Some napi_number"
| "js_type (JString s) = Some napi_string"
| "js_type JFunction = Some napi_function"
| "js_type JOther = None"
| "js_type _ = Some napi_object"

text \<open>Well-formed UTF-8 without the null character.\<close>

definition cont_byte :: "char \<Rightarrow> bool" where
  "cont_byte c \<longleftrightarrow> 0x80 \<le> (of_char c :: nat) \<and> (of_char c :: nat) < 0xC0"

fun utf8_seq :: "string \<Rightarrow> bool" where
  "utf8_seq [] = True"
| "utf8_seq (a # s) = (let x = of_char a :: nat in
     if x < 0x80 then utf8_seq s
     else if 0xC2 \<le> x \<and> x < 0xE0 then (case s of b # s' \<Rightarrow> cont_byte b \<and> utf8_seq s' | _ \<Rightarrow> False)
     else if 0xE0 \<le> x \<and> x < 0xF0 then (case s of b # c # s' \<Rightarrow> cont_byte b \<and> cont_byte c \<and>
       (x = 0xE0 \<longrightarrow> 0xA0 \<le> (of_char b :: nat)) \<and> (x = 0xED \<longrightarrow> (of_char b :: nat) < 0xA0) \<and> utf8_seq s' | _ \<Rightarrow> False)
     else if 0xF0 \<le> x \<and> x < 0xF5 then (case s of b # c # d # s' \<Rightarrow> cont_byte b \<and> cont_byte c \<and> cont_byte d \<and>
       (x = 0xF0 \<longrightarrow> 0x90 \<le> (of_char b :: nat)) \<and> (x = 0xF4 \<longrightarrow> (of_char b :: nat) < 0x90) \<and> utf8_seq s' | _ \<Rightarrow> False)
     else False)"

definition utf8 :: "string \<Rightarrow> bool" where
  "utf8 s \<longleftrightarrow> CHR 0x00 \<notin> set s \<and> utf8_seq s"

text \<open>
  A call made while no exception is pending returns \<open>x\<close>, or a handle of the value \<open>j\<close>, and leaves none;
  \<open>pend\<close> is the exception that is pending.
\<close>

definition returns :: "('e \<Rightarrow> 'v option) \<Rightarrow> ('e, 'a option) state \<Rightarrow> ('a \<Rightarrow> bool) \<Rightarrow> bool" where
  "returns pend c P \<longleftrightarrow> (\<forall>e. pend e = None \<longrightarrow> (\<exists>x e'. run_state c e = (Some x, e') \<and> pend e' = None \<and> P x))"

definition patient :: "('e \<Rightarrow> 'v option) \<Rightarrow> ('e, 'a) state \<Rightarrow> bool" where
  "patient pend c \<longleftrightarrow> (\<forall>e x. pend e = Some x \<longrightarrow> pend (snd (run_state c e)) = Some x)"

definition napi_reads :: "('e, 'v, 'n) napi_scheme \<Rightarrow> ('v \<Rightarrow> js) \<Rightarrow> ('e \<Rightarrow> 'v option) \<Rightarrow> bool" where
  "napi_reads n view pend \<longleftrightarrow>
     (\<forall>args k. returns pend (napi_get_cb_info n args k) (\<lambda>(argc, argv). argc = length args \<and> length argv = k \<and>
        (\<forall>i < k. if i < length args then argv ! i = args ! i else view (argv ! i) = JUndefined))) \<and>
     (\<forall>v t. js_type (view v) = Some t \<longrightarrow> returns pend (napi_typeof n v) (\<lambda>x. x = t)) \<and>
     (\<forall>v fs key. view v = JObject fs \<longrightarrow> returns pend (napi_has_named_property n v key) (\<lambda>x. x = (map_of fs key \<noteq> None))) \<and>
     (\<forall>v fs key j. view v = JObject fs \<longrightarrow> map_of fs key = Some j \<longrightarrow>
        returns pend (napi_get_named_property n v key) (\<lambda>x. view x = j)) \<and>
     (\<forall>v js. view v = JArray js \<longrightarrow> returns pend (napi_is_array n v) (\<lambda>x. x)) \<and>
     (\<forall>v js. view v = JArray js \<longrightarrow> returns pend (napi_get_array_length n v) (\<lambda>x. x = length js)) \<and>
     (\<forall>v js i. view v = JArray js \<longrightarrow> i < length js \<longrightarrow> returns pend (napi_get_element n v i) (\<lambda>x. view x = js ! i)) \<and>
     (\<forall>v b. view v = JBool b \<longrightarrow> returns pend (napi_get_value_bool n v) (\<lambda>x. x = b)) \<and>
     (\<forall>v i. view v = JNumber i \<longrightarrow> returns pend (napi_get_value_int32 n v) (\<lambda>x. x = word_of_int i)) \<and>
     (\<forall>v i. view v = JNumber i \<longrightarrow> returns pend (napi_get_value_uint32 n v) (\<lambda>x. x = word_of_int i)) \<and>
     (\<forall>v t k. view v = JString t \<longrightarrow> utf8 (take k t) \<longrightarrow>
        returns pend (napi_get_value_string_utf8 n v (k + 1)) (\<lambda>x. x = take k t)) \<and>
     (\<forall>v ty p l. view v = JTyped ty p l \<longrightarrow> returns pend (napi_is_typedarray n v) (\<lambda>x. x)) \<and>
     (\<forall>v ty p l. view v = JTyped ty p l \<longrightarrow>
        returns pend (napi_get_typedarray_info n v) (\<lambda>(t, len, q, off). t = ty \<and> len = l \<and> q = p))"

definition napi_writes :: "('e, 'v, 'n) napi_scheme \<Rightarrow> ('v \<Rightarrow> js) \<Rightarrow> ('e \<Rightarrow> 'v option) \<Rightarrow> bool" where
  "napi_writes n view pend \<longleftrightarrow>
     returns pend (napi_create_object n) (\<lambda>v. view v = JObject []) \<and>
     returns pend (napi_create_array n) (\<lambda>v. view v = JArray []) \<and>
     (\<forall>t. utf8 t \<longrightarrow> returns pend (napi_create_string_utf8 n t) (\<lambda>v. view v = JString t)) \<and>
     (\<forall>i. returns pend (napi_create_int32 n i) (\<lambda>v. view v = JNumber (sint i))) \<and>
     (\<forall>i. returns pend (napi_create_uint32 n i) (\<lambda>v. view v = JNumber (uint i))) \<and>
     (\<forall>b. returns pend (napi_get_boolean n b) (\<lambda>v. view v = JBool b)) \<and>
     returns pend (napi_get_undefined n) (\<lambda>v. view v = JUndefined) \<and>
     (\<forall>v fs key x. view v = JObject fs \<longrightarrow>
        returns pend (napi_set_named_property n v key x) (\<lambda>v'. view v' = JObject (AList.update key (view x) fs))) \<and>
     (\<forall>v js x. view v = JArray js \<longrightarrow>
        returns pend (napi_set_element n v (length js) x) (\<lambda>v'. view v' = JArray (js @ [view x]))) \<and>
     (\<forall>l. returns pend (napi_create_arraybuffer n l) (\<lambda>(p, v). view v = JBuffer p l)) \<and>
     (\<forall>v p l. view v = JBuffer p l \<longrightarrow> returns pend (napi_create_typedarray n l v) (\<lambda>x. view x = JTyped napi_uint8_array p l)) \<and>
     (\<forall>d k. 0 < d \<longrightarrow> d \<le> 0x7FFFFFFF \<longrightarrow> k \<le> d \<longrightarrow> memcpy_s n d k)"

text \<open>An exception stays pending until the call from JavaScript returns.\<close>

definition napi_throws :: "('e, 'v, 'n) napi_scheme \<Rightarrow> ('v \<Rightarrow> js) \<Rightarrow> ('e \<Rightarrow> 'v option) \<Rightarrow> bool" where
  "napi_throws n view pend \<longleftrightarrow>
     (\<forall>v t. view v = JString t \<longrightarrow> returns pend (napi_create_error n v) (\<lambda>x. view x = JError t [])) \<and>
     (\<forall>v t fs key x. view v = JError t fs \<longrightarrow>
        returns pend (napi_set_named_property n v key x) (\<lambda>v'. view v' = JError t (AList.update key (view x) fs))) \<and>
     (\<forall>v e. pend e = None \<longrightarrow> pend (snd (run_state (napi_throw n v) e)) = Some v) \<and>
     (\<forall>v. patient pend (napi_throw n v)) \<and> (\<forall>v. patient pend (napi_typeof n v)) \<and>
     (\<forall>v key. patient pend (napi_has_named_property n v key)) \<and> (\<forall>v key. patient pend (napi_get_named_property n v key)) \<and>
     (\<forall>v key x. patient pend (napi_set_named_property n v key x)) \<and> (\<forall>v. patient pend (napi_get_value_int32 n v)) \<and>
     (\<forall>t. patient pend (napi_create_string_utf8 n t)) \<and> (\<forall>i. patient pend (napi_create_int32 n i)) \<and>
     (\<forall>v. patient pend (napi_create_error n v)) \<and> patient pend (napi_get_undefined n) \<and>
     (\<forall>b. patient pend (napi_get_boolean n b)) \<and> patient pend (napi_create_object n)"

definition napi_law :: "('e, 'v, 'n) napi_scheme \<Rightarrow> ('v \<Rightarrow> js) \<Rightarrow> ('e \<Rightarrow> 'v option) \<Rightarrow> bool" where
  "napi_law n view pend \<longleftrightarrow> napi_reads n view pend \<and> napi_writes n view pend \<and> napi_throws n view pend"

subsection \<open>Calls that succeed\<close>

text \<open>
  A function that runs without an exception: it gives a result with \<open>P\<close>, leaves no exception and
  changes nothing but the run time's own state.
\<close>

definition quietly :: "('e \<Rightarrow> 'v option) \<Rightarrow> (('e, 'm) js_env_scheme, 'a) state \<Rightarrow> ('a \<Rightarrow> bool) \<Rightarrow> bool" where
  "quietly pend m P \<longleftrightarrow> (\<forall>s. pend (engine s) = None \<longrightarrow>
     (\<exists>x e'. run_state m s = (x, s\<lparr>engine := e'\<rparr>) \<and> pend e' = None \<and> P x))"

lemma run_bind: "run_state (m \<bind> f) s = (case run_state m s of (x, s') \<Rightarrow> run_state (f x) s')"
  by (simp add: State_Monad.bind_def split: prod.split)

lemma run_return: "run_state (State_Monad.return x) s = (x, s)"
  by (simp add: State_Monad.return_def)

lemma engine_same [simp]: "s\<lparr>engine := engine s\<rparr> = (s :: ('e, 'm) js_env_scheme)"
  by (cases s) simp

lemma quietly_return: "P x \<Longrightarrow> quietly pend (State_Monad.return x) P"
  unfolding quietly_def run_return by (metis engine_same)

lemma quietly_bind:
  assumes "quietly pend m Q" and "\<And>x. Q x \<Longrightarrow> quietly pend (f x) P"
  shows "quietly pend (m \<bind> f) P"
  unfolding quietly_def
proof (intro allI impI)
  fix s :: "('a, 'c) js_env_scheme"
  assume "pend (engine s) = None"
  then obtain x e where m: "run_state m s = (x, s\<lparr>engine := e\<rparr>)" "pend e = None" "Q x"
    using assms(1) unfolding quietly_def by blast
  then obtain y e' where "run_state (f x) (s\<lparr>engine := e\<rparr>) = (y, s\<lparr>engine := e\<rparr>\<lparr>engine := e'\<rparr>)" "pend e' = None" "P y"
    using assms(2) [OF m(3), unfolded quietly_def, rule_format, of "s\<lparr>engine := e\<rparr>"] by auto
  with m show "\<exists>y e'. run_state (m \<bind> f) s = (y, s\<lparr>engine := e'\<rparr>) \<and> pend e' = None \<and> P y"
    by (auto simp: run_bind)
qed

lemma quietly_mono: "quietly pend m P \<Longrightarrow> (\<And>x. P x \<Longrightarrow> Q x) \<Longrightarrow> quietly pend m Q"
  unfolding quietly_def by blast

lemma quietly_call: "returns pend c P \<Longrightarrow> quietly pend (call c) (\<lambda>r. \<exists>x. r = Some x \<and> P x)"
  unfolding quietly_def returns_def call_def
proof (intro allI impI)
  fix s :: "('a, 'd) js_env_scheme"
  assume "\<forall>e. pend e = None \<longrightarrow> (\<exists>x e'. run_state c e = (Some x, e') \<and> pend e' = None \<and> P x)" and "pend (engine s) = None"
  then obtain x e' where "run_state c (engine s) = (Some x, e')" "pend e' = None" "P x" by blast
  then show "\<exists>r e'. run_state (State (\<lambda>s. case run_state c (engine s) of (r, e) \<Rightarrow> (r, s\<lparr>engine := e\<rparr>))) s =
      (r, s\<lparr>engine := e'\<rparr>) \<and> pend e' = None \<and> (\<exists>x. r = Some x \<and> P x)" by auto
qed

lemma quietly_out_var: "returns pend c P \<Longrightarrow> quietly pend (out_var old c) P"
  unfolding out_var_def by (rule quietly_bind [OF quietly_call]) (auto intro: quietly_return)

lemma quietly_case_call:
  assumes "returns pend c P" and "\<And>x. P x \<Longrightarrow> quietly pend (f x) Q"
  shows "quietly pend (call c \<bind> case_option g f) Q"
  by (rule quietly_bind [OF quietly_call [OF assms(1)]]) (auto intro: assms(2))

lemma usb_assert_True [simp]: "usb_assert msgs n True errCode errMsg retVal k = k"
  by (simp add: usb_assert_def)

lemma napi_readsD:
  assumes "napi_law n view pend"
  shows "js_type (view v) = Some t \<Longrightarrow> returns pend (napi_typeof n v) (\<lambda>x. x = t)"
    and "view v = JObject fs \<Longrightarrow> returns pend (napi_has_named_property n v key) (\<lambda>x. x = (map_of fs key \<noteq> None))"
    and "view v = JObject fs \<Longrightarrow> map_of fs key = Some j \<Longrightarrow> returns pend (napi_get_named_property n v key) (\<lambda>x. view x = j)"
    and "view v = JArray js \<Longrightarrow> returns pend (napi_is_array n v) (\<lambda>x. x)"
    and "view v = JArray js \<Longrightarrow> returns pend (napi_get_array_length n v) (\<lambda>x. x = length js)"
    and "view v = JArray js \<Longrightarrow> i < length js \<Longrightarrow> returns pend (napi_get_element n v i) (\<lambda>x. view x = js ! i)"
    and "view v = JBool b \<Longrightarrow> returns pend (napi_get_value_bool n v) (\<lambda>x. x = b)"
    and "view v = JNumber k \<Longrightarrow> returns pend (napi_get_value_int32 n v) (\<lambda>x. x = word_of_int k)"
    and "view v = JNumber k \<Longrightarrow> returns pend (napi_get_value_uint32 n v) (\<lambda>x. x = word_of_int k)"
    and "view v = JString s \<Longrightarrow> utf8 (take l s) \<Longrightarrow> returns pend (napi_get_value_string_utf8 n v (l + 1)) (\<lambda>x. x = take l s)"
  using assms unfolding napi_law_def napi_reads_def by simp_all

lemma napi_arguments:
  assumes "napi_law n view pend"
  shows "returns pend (napi_get_cb_info n args k) (\<lambda>(argc, argv). argc = length args \<and> length argv = k \<and>
        (\<forall>i < k. if i < length args then argv ! i = args ! i else view (argv ! i) = JUndefined))"
    and "view v = JTyped ty p l \<Longrightarrow> returns pend (napi_is_typedarray n v) (\<lambda>x. x)"
    and "view v = JTyped ty p l \<Longrightarrow>
        returns pend (napi_get_typedarray_info n v) (\<lambda>(t, len, q, off). t = ty \<and> len = l \<and> q = p)"
  using assms unfolding napi_law_def napi_reads_def by simp_all

lemma napi_writesD:
  assumes "napi_law n view pend"
  shows "returns pend (napi_create_object n) (\<lambda>v. view v = JObject [])"
    and "returns pend (napi_create_array n) (\<lambda>v. view v = JArray [])"
    and "utf8 t \<Longrightarrow> returns pend (napi_create_string_utf8 n t) (\<lambda>v. view v = JString t)"
    and "returns pend (napi_create_int32 n i) (\<lambda>v. view v = JNumber (sint i))"
    and "returns pend (napi_create_uint32 n u) (\<lambda>v. view v = JNumber (uint u))"
    and "returns pend (napi_get_boolean n b) (\<lambda>v. view v = JBool b)"
    and "returns pend (napi_get_undefined n) (\<lambda>v. view v = JUndefined)"
    and "view v = JObject fs \<Longrightarrow>
        returns pend (napi_set_named_property n v key x) (\<lambda>v'. view v' = JObject (AList.update key (view x) fs))"
    and "view v = JArray js \<Longrightarrow>
        returns pend (napi_set_element n v (length js) x) (\<lambda>v'. view v' = JArray (js @ [view x]))"
  using assms unfolding napi_law_def napi_writes_def by simp_all

lemma utf8_c_str [simp]: "utf8 s \<Longrightarrow> c_str s = s"
  by (simp add: c_str_id utf8_def)

subsection \<open>Reading and writing properties\<close>

text \<open>A text that can be cut to the size of the buffer it is read into, without a character being divided.\<close>

definition cuttable :: "nat \<Rightarrow> string \<Rightarrow> bool" where
  "cuttable k s \<longleftrightarrow> utf8 s \<and> utf8 (take k s)"

lemma js_field_quiet:
  assumes "napi_law n view pend" and "view v = JObject fs" and "map_of fs key = Some j" and "js_type j = Some ty"
    and "\<And>f. view f = j \<Longrightarrow> quietly pend (get f) P"
  shows "quietly pend (js_field msgs n v key ty what old get) P"
  unfolding js_field_def
  by (rule quietly_bind [OF quietly_out_var [OF napi_readsD(2) [OF assms(1,2)]]], simp add: assms(3))
    (rule quietly_bind [OF quietly_out_var [OF napi_readsD(3) [OF assms(1,2,3)]]],
     rule quietly_bind [OF quietly_out_var [OF napi_readsD(1) [OF assms(1), of _ ty]]], simp_all add: assms(4,5))

lemma JsObjectToInt_quiet:
  assumes "napi_law n view pend" and "view v = JObject fs" and "map_of fs key = Some (JNumber i)"
  shows "quietly pend (JsObjectToInt msgs n v key old) (\<lambda>x. x = word_of_int i)"
  unfolding JsObjectToInt_def
  by (rule js_field_quiet [OF assms]) (simp_all add: quietly_out_var napi_readsD(8) [OF assms(1)])

lemma JsObjectToBool_quiet:
  assumes "napi_law n view pend" and "view v = JObject fs" and "map_of fs key = Some (JBool b)"
  shows "quietly pend (JsObjectToBool msgs n v key old) (\<lambda>x. x = b)"
  unfolding JsObjectToBool_def
  by (rule js_field_quiet [OF assms]) (simp_all add: quietly_out_var napi_readsD(7) [OF assms(1)])

lemma JsObjectToString_quiet:
  assumes "napi_law n view pend" and "view v = JObject fs" and "map_of fs key = Some (JString t)" and "cuttable k t" and "0 < k"
  shows "quietly pend (JsObjectToString msgs n v key k old) (\<lambda>x. x = take k t)"
  using assms(4,5) unfolding JsObjectToString_def
  by (auto simp: cuttable_def intro!: js_field_quiet [OF assms(1-3)] quietly_bind [OF quietly_out_var
    [OF napi_readsD(10) [OF assms(1), where s = t and l = k, simplified]]] quietly_return)

lemma JsObjectGetProperty_quiet:
  assumes "napi_law n view pend" and "view v = JObject fs" and "map_of fs key = Some j"
  shows "quietly pend (JsObjectGetProperty n v key old) (\<lambda>(b, x). b \<and> view x = j)"
  unfolding JsObjectGetProperty_def
  by (rule quietly_bind [OF quietly_out_var [OF napi_readsD(2) [OF assms(1,2)]]], simp add: assms(3))
    (rule quietly_bind [OF quietly_out_var [OF napi_readsD(3) [OF assms]]], simp add: quietly_return)

lemma JsObjectToUint32_quiet:
  assumes "napi_law n view pend" and "view v = JObject fs" and "map_of fs key = Some (JNumber i)"
  shows "quietly pend (JsObjectToUint32 msgs n v key old) (\<lambda>x. x = (True, word_of_int i))"
  unfolding JsObjectToUint32_def
proof (rule quietly_bind [OF quietly_call [OF napi_readsD(2) [OF assms(1,2)]]])
  fix r :: "bool option"
  assume "\<exists>x. r = Some x \<and> x = (map_of fs key \<noteq> None)"
  then have r: "r = Some True" using assms(3) by auto
  have "quietly pend (call (napi_get_value_uint32 n f) \<bind>
      (\<lambda>v. State_Monad.return (case v of None \<Rightarrow> (False, old) | Some x \<Rightarrow> (True, x)))) (\<lambda>x. x = (True, word_of_int i))"
    if "view f = JNumber i" for f
    by (rule quietly_bind [OF quietly_call [OF napi_readsD(9) [OF assms(1) that]]]) (auto intro: quietly_return)
  then show "quietly pend (if r \<noteq> Some True then State_Monad.return (False, old)
      else call (napi_get_named_property n v key) \<bind> case_option (State_Monad.return (False, old)) (\<lambda>field.
        call (napi_typeof n field) \<bind> case_option (State_Monad.return (False, old)) (\<lambda>valueType.
          usb_assert msgs n (valueType = napi_number) OHEC_COMMON_PARAM_ERROR (''The type of '' @ key @ '' must be number.'')
            (False, old) (call (napi_get_value_uint32 n field) \<bind>
              (\<lambda>v. State_Monad.return (case v of None \<Rightarrow> (False, old) | Some x \<Rightarrow> (True, x)))))))
      (\<lambda>x. x = (True, word_of_int i))"
    unfolding r by (auto intro!: quietly_case_call [OF napi_readsD(3) [OF assms]]
      quietly_case_call [OF napi_readsD(1) [OF assms(1), where t = napi_number]])
qed

lemma JsObjectToUint_quiet:
  assumes "napi_law n view pend" and "view v = JObject fs" and "map_of fs key = Some (JNumber i)"
  shows "quietly pend (JsObjectToUint msgs n v key old) (\<lambda>x. x = word_of_int i)"
  unfolding JsObjectToUint_def by (rule quietly_bind [OF JsObjectToUint32_quiet [OF assms]]) (simp add: quietly_return)

lemma set_value_quiet:
  assumes "napi_law n view pend" and "view v = JObject fs" and "returns pend create (\<lambda>x. view x = j)"
  shows "quietly pend (set_value n key create v) (\<lambda>v'. view v' = JObject (AList.update key j fs))"
  unfolding set_value_def
  by (rule quietly_bind [OF quietly_out_var [OF assms(3)]]) (metis quietly_out_var [OF napi_writesD(8) [OF assms(1,2)]])

lemma SetValue_quiet:
  assumes "napi_law n view pend" and "view v = JObject fs"
  shows "quietly pend (SetValueInt32 n key i v) (\<lambda>v'. view v' = JObject (AList.update key (JNumber (sint i)) fs))"
    and "quietly pend (SetValueBool n key b v) (\<lambda>v'. view v' = JObject (AList.update key (JBool b) fs))"
    and "quietly pend (SetValueUint32 n key u v) (\<lambda>v'. view v' = JObject (AList.update key (JNumber (uint u)) fs))"
    and "utf8 t \<Longrightarrow> quietly pend (SetValueUtf8String n key t v) (\<lambda>v'. view v' = JObject (AList.update key (JString t) fs))"
proof -
  show "quietly pend (SetValueUint32 n key u v) (\<lambda>v'. view v' = JObject (AList.update key (JNumber (uint u)) fs))"
    unfolding SetValueUint32_def
    by (rule quietly_case_call [OF napi_writesD(5) [OF assms(1)]])
      (metis quietly_out_var [OF napi_writesD(8) [OF assms]])
qed (simp_all add: SetValueInt32_def SetValueBool_def SetValueUtf8String_def set_value_quiet [OF assms] napi_writesD [OF assms(1)])

subsection \<open>A run time of trees\<close>

text \<open>Handles are the values themselves; the state is the pending exception and the next free address.\<close>

type_synonym tree_engine = "js option \<times> nat"

definition answer :: "'a option \<Rightarrow> (tree_engine, 'a option) state" where
  "answer r = State (\<lambda>e. (r, e))"

fun js_fields :: "js \<Rightarrow> (string \<times> js) list option" where
  "js_fields (JObject fs) = Some fs"
| "js_fields (JError t fs) = Some fs"
| "js_fields _ = None"

fun js_update :: "js \<Rightarrow> string \<Rightarrow> js \<Rightarrow> js option" where
  "js_update (JObject fs) key x = Some (JObject (AList.update key x fs))"
| "js_update (JError t fs) key x = Some (JError t (AList.update key x fs))"
| "js_update _ key x = None"

fun js_elements :: "js \<Rightarrow> js list option" where
  "js_elements (JArray js) = Some js"
| "js_elements _ = None"

definition tree_napi :: "(tree_engine, js) napi" where
  "tree_napi = \<lparr>nullptr = JUndefined, unset_value = JOther, unset_type = napi_undefined,
     napi_get_cb_info = (\<lambda>args k. answer (Some (length args, take k (args @ replicate k JUndefined)))),
     napi_typeof = (\<lambda>v. answer (js_type v)),
     napi_has_named_property = (\<lambda>v key. answer (map_option (\<lambda>fs. map_of fs key \<noteq> None) (js_fields v))),
     napi_get_named_property = (\<lambda>v key. answer (Option.bind (js_fields v) (\<lambda>fs. map_of fs key))),
     napi_set_named_property = (\<lambda>v key x. answer (js_update v key x)),
     napi_is_array = (\<lambda>v. answer (Some (js_elements v \<noteq> None))),
     napi_get_array_length = (\<lambda>v. answer (map_option length (js_elements v))),
     napi_get_element = (\<lambda>v i. answer (Option.bind (js_elements v) (\<lambda>js. if i < length js then Some (js ! i) else Some JUndefined))),
     napi_set_element = (\<lambda>v i x. answer (map_option (\<lambda>js. JArray (js @ [x])) (js_elements v))),
     napi_get_value_bool = (\<lambda>v. answer (case v of JBool b \<Rightarrow> Some b | _ \<Rightarrow> None)),
     napi_get_value_int32 = (\<lambda>v. answer (case v of JNumber i \<Rightarrow> Some (word_of_int i) | _ \<Rightarrow> None)),
     napi_get_value_uint32 = (\<lambda>v. answer (case v of JNumber i \<Rightarrow> Some (word_of_int i) | _ \<Rightarrow> None)),
     napi_get_value_string_utf8 = (\<lambda>v k. answer (case v of JString t \<Rightarrow> Some (take (k - 1) t) | _ \<Rightarrow> None)),
     napi_is_typedarray = (\<lambda>v. answer (Some (case v of JTyped _ _ _ \<Rightarrow> True | _ \<Rightarrow> False))),
     napi_get_typedarray_info = (\<lambda>v. answer (case v of JTyped ty p l \<Rightarrow> Some (ty, l, p, 0) | _ \<Rightarrow> None)),
     napi_create_object = answer (Some (JObject [])),
     napi_create_array = answer (Some (JArray [])),
     napi_create_string_utf8 = (\<lambda>t. answer (Some (JString t))),
     napi_create_int32 = (\<lambda>i. answer (Some (JNumber (sint i)))),
     napi_create_uint32 = (\<lambda>i. answer (Some (JNumber (uint i)))),
     napi_get_boolean = (\<lambda>b. answer (Some (JBool b))),
     napi_get_undefined = answer (Some JUndefined),
     napi_create_arraybuffer = (\<lambda>l. State (\<lambda>(x, a). (Some (a, JBuffer a l), (x, a + l)))),
     napi_create_typedarray = (\<lambda>l v. answer (case v of JBuffer p _ \<Rightarrow> Some (JTyped napi_uint8_array p l) | _ \<Rightarrow> None)),
     napi_create_error = (\<lambda>v. answer (case v of JString t \<Rightarrow> Some (JError t []) | _ \<Rightarrow> None)),
     napi_throw = (\<lambda>v. State (\<lambda>(x, a). (Some (), (case x of None \<Rightarrow> Some v | Some y \<Rightarrow> Some y, a)))),
     memcpy_s = (\<lambda>d k. 0 < d \<and> d \<le> 0x7FFFFFFF \<and> k \<le> d)\<rparr>"

lemma returns_answer: "returns fst (answer (Some x)) P \<longleftrightarrow> P x"
  by (auto simp: returns_def answer_def)

lemma patient_answer [simp]: "patient pend (answer r)"
  by (simp add: patient_def answer_def)

lemma tree_napi_law: "napi_law tree_napi (\<lambda>v. v) fst"
proof -
  have "napi_reads tree_napi (\<lambda>v. v) fst"
    unfolding napi_reads_def by (auto simp: tree_napi_def returns_answer nth_append)
  moreover have "napi_writes tree_napi (\<lambda>v. v) fst"
    unfolding napi_writes_def by (simp add: tree_napi_def returns_answer) (simp add: returns_def)
  moreover have "napi_throws tree_napi (\<lambda>v. v) fst"
    unfolding napi_throws_def by (simp add: tree_napi_def returns_answer) (simp add: patient_def split: prod.split)
  ultimately show ?thesis by (simp add: napi_law_def)
qed

definition tree_env :: "tree_engine js_env" where
  "tree_env = \<lparr>engine = (None, 0), memory = (\<lambda>a. 0)\<rparr>"

end
