(* ===== verification/Js_Data.thy ===== *)
theory Js_Data
  imports Js_Values Usb_Client
begin

section \<open>Devices as objects of JavaScript\<close>

text \<open>
  The conversions of \<^verbatim>\<open>usb_info.cpp\<close> between the data classes and the objects an application sees:
  devices, configurations, interfaces, endpoints, accessories and pipes. A reader goes on after a property
  of the wrong type has thrown. The interface \<open>js_class\<close> is the contract of a class that is written as
  an object and read back; arrays of such objects are handled once in it.
\<close>

subsection \<open>Writing\<close>

definition CreateUsbDevicePipe :: "('e, 'v, 'n) napi_scheme \<Rightarrow> USBDevicePipe \<Rightarrow> (('e, 'm) js_env_scheme, 'v) state" where
  "CreateUsbDevicePipe n pipe = do {
     obj \<leftarrow> out_var (unset_value n) (napi_create_object n);
     obj \<leftarrow> SetValueInt32 n ''busNum'' (ucast (pipe_busNum pipe)) obj;
     SetValueInt32 n ''devAddress'' (ucast (pipe_devAddr pipe)) obj }"

definition CreatAccessoryHandle :: "('e, 'v, 'n) napi_scheme \<Rightarrow> i32 \<Rightarrow> (('e, 'm) js_env_scheme, 'v) state" where
  "CreatAccessoryHandle n fd = do {
     obj \<leftarrow> out_var (unset_value n) (napi_create_object n);
     SetValueInt32 n ''accessoryFd'' fd obj }"

definition CtoJSUsbEndpoint :: "('e, 'v, 'n) napi_scheme \<Rightarrow> USBEndpoint \<Rightarrow> (('e, 'm) js_env_scheme, 'v) state" where
  "CtoJSUsbEndpoint n ep = do {
     obj \<leftarrow> out_var (unset_value n) (napi_create_object n);
     obj \<leftarrow> SetValueUint32 n ''address'' (ep_address ep) obj;
     obj \<leftarrow> SetValueUint32 n ''attributes'' (ep_attributes ep) obj;
     obj \<leftarrow> SetValueInt32 n ''interval'' (ep_interval ep) obj;
     obj \<leftarrow> SetValueInt32 n ''maxPacketSize'' (ep_maxPacketSize ep) obj;
     obj \<leftarrow> SetValueUint32 n ''direction'' (GetDirection ep) obj;
     obj \<leftarrow> SetValueUint32 n ''number'' (GetEndpointNumber ep) obj;
     obj \<leftarrow> SetValueUint32 n ''type'' (GetType ep) obj;
     SetValueInt32 n ''interfaceId'' (scast (ep_interfaceId ep)) obj }"

text \<open>An array is filled in the order of the vector, each element at its index.\<close>

fun set_elements :: "('e, 'v, 'n) napi_scheme \<Rightarrow> ('a \<Rightarrow> (('e, 'm) js_env_scheme, 'v) state) \<Rightarrow> nat \<Rightarrow> 'a list \<Rightarrow> 'v \<Rightarrow>
    (('e, 'm) js_env_scheme, 'v) state" where
  "set_elements n create i [] arr = State_Monad.return arr"
| "set_elements n create i (x # xs) arr = do {
     objTmp \<leftarrow> create x;
     arr' \<leftarrow> out_var arr (napi_set_element n arr i objTmp);
     set_elements n create (Suc i) xs arr' }"

definition js_array :: "('e, 'v, 'n) napi_scheme \<Rightarrow> ('a \<Rightarrow> (('e, 'm) js_env_scheme, 'v) state) \<Rightarrow> 'a list \<Rightarrow>
    (('e, 'm) js_env_scheme, 'v) state" where
  "js_array n create xs = do {
     arr \<leftarrow> out_var (unset_value n) (napi_create_array n);
     set_elements n create 0 xs arr }"

definition CtoJSUsbInterface :: "('e, 'v, 'n) napi_scheme \<Rightarrow> UsbInterface \<Rightarrow> (('e, 'm) js_env_scheme, 'v) state" where
  "CtoJSUsbInterface n i = do {
     obj \<leftarrow> out_var (unset_value n) (napi_create_object n);
     obj \<leftarrow> SetValueInt32 n ''id'' (if_id i) obj;
     obj \<leftarrow> SetValueInt32 n ''protocol'' (if_protocol i) obj;
     obj \<leftarrow> SetValueInt32 n ''clazz'' (if_klass i) obj;
     obj \<leftarrow> SetValueInt32 n ''subClass'' (if_subClass i) obj;
     obj \<leftarrow> SetValueInt32 n ''alternateSetting'' (if_alternateSetting i) obj;
     obj \<leftarrow> SetValueUtf8String n ''name'' (if_name i) obj;
     arr \<leftarrow> js_array n (CtoJSUsbEndpoint n) (if_endpoints i);
     out_var obj (napi_set_named_property n obj ''endpoints'' arr) }"

definition CtoJSUsbConfig :: "('e, 'v, 'n) napi_scheme \<Rightarrow> USBConfig \<Rightarrow> (('e, 'm) js_env_scheme, 'v) state" where
  "CtoJSUsbConfig n c = do {
     obj \<leftarrow> out_var (unset_value n) (napi_create_object n);
     obj \<leftarrow> SetValueInt32 n ''id'' (cf_id c) obj;
     obj \<leftarrow> SetValueUint32 n ''attributes'' (cf_attributes c) obj;
     obj \<leftarrow> SetValueBool n ''isRemoteWakeup'' (IsRemoteWakeup c) obj;
     obj \<leftarrow> SetValueBool n ''isSelfPowered'' (IsSelfPowered c) obj;
     obj \<leftarrow> SetValueInt32 n ''maxPower'' (GetMaxPower c) obj;
     obj \<leftarrow> SetValueUtf8String n ''name'' (cf_name c) obj;
     arr \<leftarrow> js_array n (CtoJSUsbInterface n) (cf_interfaces c);
     out_var obj (napi_set_named_property n obj ''interfaces'' arr) }"

definition CtoJSUsbDevice :: "('e, 'v, 'n) napi_scheme \<Rightarrow> UsbDevice \<Rightarrow> (('e, 'm) js_env_scheme, 'v) state" where
  "CtoJSUsbDevice n d = do {
     obj \<leftarrow> out_var (unset_value n) (napi_create_object n);
     obj \<leftarrow> SetValueUtf8String n ''name'' (dev_name d) obj;
     obj \<leftarrow> SetValueUtf8String n ''serial'' (dev_serial d) obj;
     obj \<leftarrow> SetValueUtf8String n ''manufacturerName'' (dev_manufacturerName d) obj;
     obj \<leftarrow> SetValueUtf8String n ''productName'' (dev_productName d) obj;
     obj \<leftarrow> SetValueUtf8String n ''version'' (dev_version d) obj;
     obj \<leftarrow> SetValueInt32 n ''vendorId'' (dev_vendorId d) obj;
     obj \<leftarrow> SetValueInt32 n ''productId'' (dev_productId d) obj;
     obj \<leftarrow> SetValueInt32 n ''clazz'' (dev_baseClass d) obj;
     obj \<leftarrow> SetValueInt32 n ''subClass'' (dev_subClass d) obj;
     obj \<leftarrow> SetValueInt32 n ''protocol'' (dev_protocol d) obj;
     obj \<leftarrow> SetValueInt32 n ''devAddress'' (ucast (dev_devAddr d)) obj;
     obj \<leftarrow> SetValueInt32 n ''busNum'' (ucast (dev_busNum d)) obj;
     arr \<leftarrow> js_array n (CtoJSUsbConfig n) (dev_configs d);
     out_var obj (napi_set_named_property n obj ''configs'' arr) }"

definition CtoJSUSBAccessory :: "('e, 'v, 'n) napi_scheme \<Rightarrow> USBAccessory \<Rightarrow> (('e, 'm) js_env_scheme, 'v) state" where
  "CtoJSUSBAccessory n a = do {
     obj \<leftarrow> out_var (unset_value n) (napi_create_object n);
     obj \<leftarrow> SetValueUtf8String n ''manufacturer'' (acc_manufacturer a) obj;
     obj \<leftarrow> SetValueUtf8String n ''product'' (acc_product a) obj;
     obj \<leftarrow> SetValueUtf8String n ''description'' (acc_description a) obj;
     obj \<leftarrow> SetValueUtf8String n ''version'' (acc_version a) obj;
     SetValueUtf8String n ''serialNumber'' (acc_serialNumber a) obj }"

subsection \<open>Reading\<close>

text \<open>The readers of properties with the messages of this module.\<close>

definition js_int :: "('e, 'v, 'n) napi_scheme \<Rightarrow> 'v \<Rightarrow> string \<Rightarrow> i32 \<Rightarrow> (('e, 'm) js_env_scheme, i32) state" where
  "js_int = JsObjectToInt ERRCODE_MSG_MAP"

definition js_string :: "('e, 'v, 'n) napi_scheme \<Rightarrow> 'v \<Rightarrow> string \<Rightarrow> nat \<Rightarrow> string \<Rightarrow> (('e, 'm) js_env_scheme, string) state" where
  "js_string = JsObjectToString ERRCODE_MSG_MAP"

definition js_bool :: "('e, 'v, 'n) napi_scheme \<Rightarrow> 'v \<Rightarrow> string \<Rightarrow> bool \<Rightarrow> (('e, 'm) js_env_scheme, bool) state" where
  "js_bool = JsObjectToBool ERRCODE_MSG_MAP"

definition param_check :: "('e, 'v, 'n) napi_scheme \<Rightarrow> bool \<Rightarrow> string \<Rightarrow> 'a \<Rightarrow> (('e, 'm) js_env_scheme, 'a) state \<Rightarrow>
    (('e, 'm) js_env_scheme, 'a) state" where
  "param_check n assertion = usb_assert ERRCODE_MSG_MAP n assertion OHEC_COMMON_PARAM_ERROR"

definition DEFAULT_DESCRIPTION_SIZE :: nat where "DEFAULT_DESCRIPTION_SIZE = 32"
definition DEFAULT_ACCESSORY_DESCRIPTION_SIZE :: nat where "DEFAULT_ACCESSORY_DESCRIPTION_SIZE = 256"

definition ParseUsbDevicePipe :: "('e, 'v, 'n) napi_scheme \<Rightarrow> 'v \<Rightarrow> USBDevicePipe \<Rightarrow> (('e, 'm) js_env_scheme, USBDevicePipe) state" where
  "ParseUsbDevicePipe n obj pipe = do {
     valueType \<leftarrow> out_var (unset_type n) (napi_typeof n obj);
     param_check n (valueType = napi_object) ''The type of pipe must be USBDevicePipe.'' pipe (do {
       busNum \<leftarrow> js_int n obj ''busNum'' 0;
       devAddr \<leftarrow> js_int n obj ''devAddress'' 0;
       State_Monad.return (pipe\<lparr>pipe_busNum := ucast busNum, pipe_devAddr := ucast devAddr\<rparr>) }) }"

text \<open>The direction, the number and the type are read and checked, but the endpoint is made of its address and attributes.\<close>

definition ParseEndpointObj :: "('e, 'v, 'n) napi_scheme \<Rightarrow> 'v \<Rightarrow> USBEndpoint \<Rightarrow> (('e, 'm) js_env_scheme, USBEndpoint) state" where
  "ParseEndpointObj n endpointObj ep = do {
     address \<leftarrow> js_int n endpointObj ''address'' 0;
     attributes \<leftarrow> js_int n endpointObj ''attributes'' 0;
     interval \<leftarrow> js_int n endpointObj ''interval'' 0;
     maxPacketSize \<leftarrow> js_int n endpointObj ''maxPacketSize'' 0;
     direction \<leftarrow> js_int n endpointObj ''direction'' 0;
     param_check n (direction = USB_ENDPOINT_DIR_IN \<or> direction = USB_ENDPOINT_DIR_OUT)
       ''The interface should have the endpoints property.'' ep (do {
         number \<leftarrow> js_int n endpointObj ''number'' 0;
         type \<leftarrow> js_int n endpointObj ''type'' 0;
         interfaceId \<leftarrow> js_int n endpointObj ''interfaceId'' 0;
         State_Monad.return (new_endpoint\<lparr>ep_address := address, ep_attributes := attributes, ep_interval := interval,
           ep_maxPacketSize := maxPacketSize, ep_interfaceId := ucast interfaceId\<rparr>) }) }"

text \<open>The loop over the elements of an array: it ends with \<open>False\<close> at an element that cannot be fetched.\<close>

fun parse_elements :: "('e, 'v, 'n) napi_scheme \<Rightarrow> ('v \<Rightarrow> (('e, 'm) js_env_scheme, 'a) state) \<Rightarrow> 'v \<Rightarrow> nat list \<Rightarrow> 'a list \<Rightarrow>
    (('e, 'm) js_env_scheme, bool \<times> 'a list) state" where
  "parse_elements n parse objs [] xs = State_Monad.return (True, xs)"
| "parse_elements n parse objs (k # ks) xs = do {
     r \<leftarrow> call (napi_get_element n objs k);
     case r of None \<Rightarrow> State_Monad.return (False, xs)
     | Some obj \<Rightarrow> do { x \<leftarrow> parse obj; parse_elements n parse objs ks (xs @ [x]) } }"

text \<open>A property that must be an array of objects.\<close>

definition parse_array :: "('e, 'v, 'n) napi_scheme \<Rightarrow> string \<Rightarrow> string \<Rightarrow> string \<Rightarrow> ('v \<Rightarrow> (('e, 'm) js_env_scheme, 'a) state) \<Rightarrow> 'v \<Rightarrow>
    (('e, 'm) js_env_scheme, bool \<times> 'a list) state" where
  "parse_array n key missing ill_typed parse obj = do {
     p \<leftarrow> JsObjectGetProperty n obj key (unset_value n);
     param_check n (fst p) missing (False, []) (do {
       a \<leftarrow> call (napi_is_array n (snd p));
       case a of None \<Rightarrow> State_Monad.return (False, [])
       | Some result \<Rightarrow> param_check n result ill_typed (False, []) (do {
           l \<leftarrow> call (napi_get_array_length n (snd p));
           case l of None \<Rightarrow> State_Monad.return (False, [])
           | Some cnt \<Rightarrow> parse_elements n parse (snd p) [0..<cnt] [] }) }) }"

definition ParseEndpointsObjs :: "('e, 'v, 'n) napi_scheme \<Rightarrow> 'v \<Rightarrow> (('e, 'm) js_env_scheme, bool \<times> USBEndpoint list) state" where
  "ParseEndpointsObjs n = parse_array n ''endpoints'' ''The interface should have the endpoints property.''
     ''The type of endpoints must be array.'' (\<lambda>obj. ParseEndpointObj n obj new_endpoint)"

text \<open>The constructor of an interface does not store the name.\<close>

definition ParseInterfaceObj :: "('e, 'v, 'n) napi_scheme \<Rightarrow> 'v \<Rightarrow> UsbInterface \<Rightarrow> (('e, 'm) js_env_scheme, UsbInterface) state" where
  "ParseInterfaceObj n interfaceObj interface = do {
     id \<leftarrow> js_int n interfaceObj ''id'' 0;
     protocol \<leftarrow> js_int n interfaceObj ''protocol'' 0;
     clzz \<leftarrow> js_int n interfaceObj ''clazz'' 0;
     subClass \<leftarrow> js_int n interfaceObj ''subClass'' 0;
     alternateSetting \<leftarrow> js_int n interfaceObj ''alternateSetting'' 0;
     name \<leftarrow> js_string n interfaceObj ''name'' DEFAULT_DESCRIPTION_SIZE [];
     eps \<leftarrow> ParseEndpointsObjs n interfaceObj;
     State_Monad.return (if \<not> fst eps then interface
       else new_interface\<lparr>if_id := id, if_protocol := protocol, if_klass := clzz, if_subClass := subClass,
         if_alternateSetting := alternateSetting, if_endpoints := snd eps\<rparr>) }"

definition ParseInterfacesObjs :: "('e, 'v, 'n) napi_scheme \<Rightarrow> 'v \<Rightarrow> (('e, 'm) js_env_scheme, bool \<times> UsbInterface list) state" where
  "ParseInterfacesObjs n = parse_array n ''interfaces'' ''The config should have the interfaces property.''
     ''The type of interfaces must be array.'' (\<lambda>obj. ParseInterfaceObj n obj new_interface)"

definition ParseConfigObj :: "('e, 'v, 'n) napi_scheme \<Rightarrow> 'v \<Rightarrow> USBConfig \<Rightarrow> (('e, 'm) js_env_scheme, USBConfig) state" where
  "ParseConfigObj n configObj config = do {
     id \<leftarrow> js_int n configObj ''id'' 0;
     attributes \<leftarrow> js_int n configObj ''attributes'' 0;
     maxPower \<leftarrow> js_int n configObj ''maxPower'' 0;
     name \<leftarrow> js_string n configObj ''name'' DEFAULT_DESCRIPTION_SIZE [];
     isRemoteWakeup \<leftarrow> js_bool n configObj ''isRemoteWakeup'' False;
     isSelfPowered \<leftarrow> js_bool n configObj ''isSelfPowered'' False;
     interfaces \<leftarrow> ParseInterfacesObjs n configObj;
     State_Monad.return (if \<not> fst interfaces then config
       else new_config\<lparr>cf_id := id, cf_attributes := attributes, cf_maxPower := maxPower, cf_name := name,
         cf_interfaces := snd interfaces\<rparr>) }"

text \<open>Here the calls on the array are not checked.\<close>

fun parse_configs :: "('e, 'v, 'n) napi_scheme \<Rightarrow> 'v \<Rightarrow> nat list \<Rightarrow> USBConfig list \<Rightarrow> (('e, 'm) js_env_scheme, USBConfig list) state" where
  "parse_configs n configsObj [] configs = State_Monad.return configs"
| "parse_configs n configsObj (i # is) configs = do {
     configObj \<leftarrow> out_var (unset_value n) (napi_get_element n configsObj i);
     config \<leftarrow> ParseConfigObj n configObj new_config;
     parse_configs n configsObj is (configs @ [config]) }"

definition ParseConfigsObjs :: "('e, 'v, 'n) napi_scheme \<Rightarrow> 'v \<Rightarrow> (('e, 'm) js_env_scheme, USBConfig list) state" where
  "ParseConfigsObjs n deviceObj = do {
     p \<leftarrow> JsObjectGetProperty n deviceObj ''configs'' (unset_value n);
     param_check n (fst p) ''The device should have the configs property.'' [] (do {
       valueType \<leftarrow> out_var (unset_type n) (napi_typeof n (snd p));
       param_check n (valueType = napi_object) ''The type of configs must be object.'' [] (do {
         configCount \<leftarrow> out_var 0 (napi_get_array_length n (snd p));
         parse_configs n (snd p) [0..<configCount] [] }) }) }"

text \<open>The serial number is read but the constructor of a device does not take it.\<close>

definition ParseDeviceObj :: "('e, 'v, 'n) napi_scheme \<Rightarrow> 'v \<Rightarrow> (('e, 'm) js_env_scheme, UsbDevice) state" where
  "ParseDeviceObj n deviceObj = do {
     name \<leftarrow> js_string n deviceObj ''name'' DEFAULT_DESCRIPTION_SIZE [];
     manufacturerName \<leftarrow> js_string n deviceObj ''manufacturerName'' DEFAULT_DESCRIPTION_SIZE [];
     productName \<leftarrow> js_string n deviceObj ''productName'' DEFAULT_DESCRIPTION_SIZE [];
     version \<leftarrow> js_string n deviceObj ''version'' DEFAULT_DESCRIPTION_SIZE [];
     serial \<leftarrow> js_string n deviceObj ''serial'' DEFAULT_DESCRIPTION_SIZE [];
     devAddr \<leftarrow> js_int n deviceObj ''devAddress'' 0;
     busNum \<leftarrow> js_int n deviceObj ''busNum'' 0;
     vendorId \<leftarrow> js_int n deviceObj ''vendorId'' 0;
     productId \<leftarrow> js_int n deviceObj ''productId'' 0;
     clazz \<leftarrow> js_int n deviceObj ''clazz'' 0;
     subClass \<leftarrow> js_int n deviceObj ''subClass'' 0;
     protocol \<leftarrow> js_int n deviceObj ''protocol'' 0;
     configs \<leftarrow> ParseConfigsObjs n deviceObj;
     State_Monad.return (new_device\<lparr>dev_name := name, dev_manufacturerName := manufacturerName, dev_productName := productName,
       dev_version := version, dev_devAddr := ucast devAddr, dev_busNum := ucast busNum, dev_vendorId := vendorId,
       dev_productId := productId, dev_baseClass := clazz, dev_subClass := subClass, dev_protocol := protocol,
       dev_configs := configs\<rparr>) }"

definition ParseAccessoryObj :: "('e, 'v, 'n) napi_scheme \<Rightarrow> 'v \<Rightarrow> (('e, 'm) js_env_scheme, USBAccessory) state" where
  "ParseAccessoryObj n accessoryObj = do {
     manufacturer \<leftarrow> js_string n accessoryObj ''manufacturer'' DEFAULT_ACCESSORY_DESCRIPTION_SIZE [];
     product \<leftarrow> js_string n accessoryObj ''product'' DEFAULT_ACCESSORY_DESCRIPTION_SIZE [];
     description \<leftarrow> js_string n accessoryObj ''description'' DEFAULT_ACCESSORY_DESCRIPTION_SIZE [];
     version \<leftarrow> js_string n accessoryObj ''version'' DEFAULT_ACCESSORY_DESCRIPTION_SIZE [];
     serialNumber \<leftarrow> js_string n accessoryObj ''serialNumber'' DEFAULT_ACCESSORY_DESCRIPTION_SIZE [];
     State_Monad.return \<lparr>acc_manufacturer = manufacturer, acc_product = product, acc_description = description,
       acc_version = version, acc_serialNumber = serialNumber\<rparr> }"

subsection \<open>The contract of a class\<close>

locale js_class =
  fixes to_js :: "('e, 'v, 'n) napi_scheme \<Rightarrow> 'a \<Rightarrow> (('e, 'm) js_env_scheme, 'v) state"
    and of_js :: "('e, 'v, 'n) napi_scheme \<Rightarrow> 'v \<Rightarrow> (('e, 'm) js_env_scheme, 'a) state"
    and tree :: "'a \<Rightarrow> js"
    and shown :: "'a \<Rightarrow> 'a"
    and ok :: "'a \<Rightarrow> bool"
  assumes to_js: "napi_law n view pend \<Longrightarrow> ok x \<Longrightarrow> quietly pend (to_js n x) (\<lambda>v. view v = tree x)"
    and of_js: "napi_law n view pend \<Longrightarrow> ok x \<Longrightarrow> view v = tree x \<Longrightarrow> quietly pend (of_js n v) (\<lambda>y. y = shown x)"
begin

lemma set_elements_quiet:
  assumes "napi_law n view pend" and "\<forall>x \<in> set xs. ok x" and "view arr = JArray js"
  shows "quietly pend (set_elements n (to_js n) (length js) xs arr) (\<lambda>v. view v = JArray (js @ map tree xs))"
  using assms(2,3)
proof (induction xs arbitrary: arr js)
  case Nil
  then show ?case by (simp add: quietly_return)
next
  case (Cons x xs)
  have "quietly pend (set_elements n (to_js n) (Suc (length js)) xs arr') (\<lambda>v. view v = JArray (js @ map tree (x # xs)))"
    if "view arr' = JArray (js @ [tree x])" for arr'
    using Cons.IH [OF _ that] Cons.prems(1) by simp
  then show ?case using Cons.prems
    by (auto intro!: quietly_bind [OF to_js [OF assms(1)]] quietly_bind [OF quietly_out_var [OF napi_writesD(9) [OF assms(1)]]])
qed

lemma js_array_quiet:
  assumes "napi_law n view pend" and "\<forall>x \<in> set xs. ok x"
  shows "quietly pend (js_array n (to_js n) xs) (\<lambda>v. view v = JArray (map tree xs))"
  unfolding js_array_def
  by (rule quietly_bind [OF quietly_out_var [OF napi_writesD(2) [OF assms(1)]]])
    (use set_elements_quiet [OF assms, of _ "[]"] in simp)

lemma parse_elements_quiet:
  assumes "napi_law n view pend" and "\<forall>x \<in> set xs. ok x" and "view objs = JArray (js @ map tree xs)"
  shows "quietly pend (parse_elements n (of_js n) objs [length js..<length js + length xs] ys) (\<lambda>r. r = (True, ys @ map shown xs))"
  using assms(2,3)
proof (induction xs arbitrary: js ys)
  case Nil
  then show ?case by (simp add: quietly_return)
next
  case (Cons x xs)
  let ?ks = "[Suc (length js)..<length js + length (x # xs)]"
  have "quietly pend (parse_elements n (of_js n) objs ?ks (ys @ [shown x])) (\<lambda>r. r = (True, ys @ map shown (x # xs)))"
    using Cons.IH [of "js @ [tree x]" "ys @ [shown x]"] Cons.prems by simp
  then have "quietly pend (of_js n obj \<bind> (\<lambda>x. parse_elements n (of_js n) objs ?ks (ys @ [x])))
      (\<lambda>r. r = (True, ys @ map shown (x # xs)))" if "view obj = tree x" for obj
    using Cons.prems(1) by (intro quietly_bind [OF of_js [OF assms(1) _ that]]) simp_all
  then have "quietly pend (parse_elements n (of_js n) objs (length js # ?ks) ys) (\<lambda>r. r = (True, ys @ map shown (x # xs)))"
    unfolding parse_elements.simps
    by (intro quietly_case_call [OF napi_readsD(6) [OF assms(1) Cons.prems(2)]]) simp_all
  then show ?case by (simp add: upt_conv_Cons del: upt_Suc)
qed

lemma parse_array_quiet:
  assumes "napi_law n view pend" and "\<forall>x \<in> set xs. ok x" and "view v = JObject fs" and "map_of fs key = Some (JArray (map tree xs))"
  shows "quietly pend (parse_array n key missing ill_typed (of_js n) v) (\<lambda>r. r = (True, map shown xs))"
  unfolding parse_array_def param_check_def
proof (rule quietly_bind [OF JsObjectGetProperty_quiet [OF assms(1,3,4)]], clarsimp)
  fix objs assume o: "view objs = JArray (map tree xs)"
  show "quietly pend (call (napi_is_array n objs) \<bind> case_option (State_Monad.return (False, []))
      (\<lambda>result. usb_assert ERRCODE_MSG_MAP n result OHEC_COMMON_PARAM_ERROR ill_typed (False, [])
         (call (napi_get_array_length n objs) \<bind> case_option (State_Monad.return (False, []))
            (\<lambda>cnt. parse_elements n (of_js n) objs [0..<cnt] []))))
      (\<lambda>r. r = (True, map shown xs))"
    using parse_elements_quiet [OF assms(1,2), of objs "[]" "[]"] o
    by (auto intro!: quietly_case_call [OF napi_readsD(4) [OF assms(1) o]] quietly_case_call [OF napi_readsD(5) [OF assms(1) o]])
qed

text \<open>What is written is read back, without an exception.\<close>

lemma read_back:
  assumes "napi_law n view pend" and "ok x"
  shows "quietly pend (to_js n x \<bind> of_js n) (\<lambda>y. y = shown x)"
  by (rule quietly_bind [OF to_js [OF assms]]) (rule of_js [OF assms])

end

subsection \<open>The data classes\<close>

lemmas new_object = quietly_bind [OF quietly_out_var [OF napi_writesD(1)]]

definition endpoint_js :: "USBEndpoint \<Rightarrow> js" where
  "endpoint_js ep = JObject [(''address'', JNumber (uint (ep_address ep))), (''attributes'', JNumber (uint (ep_attributes ep))),
     (''interval'', JNumber (sint (ep_interval ep))), (''maxPacketSize'', JNumber (sint (ep_maxPacketSize ep))),
     (''direction'', JNumber (uint (GetDirection ep))), (''number'', JNumber (uint (GetEndpointNumber ep))),
     (''type'', JNumber (uint (GetType ep))), (''interfaceId'', JNumber (sint (ep_interfaceId ep)))]"

lemma sint_scast_8 [simp]: "sint (scast (x :: u8) :: i32) = sint x"
  by (simp add: sint_up_scast is_up)

lemma ucast_scast_8 [simp]: "ucast (scast (x :: u8) :: i32) = x"
  by (rule bit_word_eqI) (simp add: bit_simps)

lemma sint_ucast_8 [simp]: "sint (ucast (x :: u8) :: i32) = uint x"
  using uint_bounded [of x] by (simp add: signed_ucast_eq signed_take_bit_int_eq_self)

lemma ucast_ucast_8 [simp]: "ucast (ucast (x :: u8) :: i32) = x"
  by (rule bit_word_eqI) (simp add: bit_simps)

interpretation endpoint_js: js_class CtoJSUsbEndpoint "\<lambda>n obj. ParseEndpointObj n obj new_endpoint" endpoint_js "\<lambda>ep. ep" "\<lambda>ep. True"
proof unfold_locales
  fix n view pend and x :: USBEndpoint
  assume law: "napi_law n view pend"
  show "quietly pend (CtoJSUsbEndpoint n x) (\<lambda>v. view v = endpoint_js x)"
    unfolding CtoJSUsbEndpoint_def
    by (rule new_object [OF law], (rule quietly_bind, erule SetValue_quiet(1,3) [OF law])+,
      rule quietly_mono, erule SetValue_quiet(1) [OF law], simp add: endpoint_js_def)
  fix v assume "view v = endpoint_js x"
  then have v: "view v = JObject [(''address'', JNumber (uint (ep_address x))), (''attributes'', JNumber (uint (ep_attributes x))),
     (''interval'', JNumber (sint (ep_interval x))), (''maxPacketSize'', JNumber (sint (ep_maxPacketSize x))),
     (''direction'', JNumber (uint (GetDirection x))), (''number'', JNumber (uint (GetEndpointNumber x))),
     (''type'', JNumber (uint (GetType x))), (''interfaceId'', JNumber (sint (ep_interfaceId x)))]" by (simp add: endpoint_js_def)
  have dir: "GetDirection x = USB_ENDPOINT_DIR_IN \<or> GetDirection x = USB_ENDPOINT_DIR_OUT"
    unfolding direction_defs using direction_cases [of "ep_address x"] by blast
  show "quietly pend (ParseEndpointObj n v new_endpoint) (\<lambda>y. y = x)"
    unfolding ParseEndpointObj_def js_int_def param_check_def
    apply (rule quietly_bind, rule JsObjectToInt_quiet [OF law v], simp)+
    apply (simp add: dir)
    apply (rule quietly_bind, rule JsObjectToInt_quiet [OF law v], simp)+
    apply (rule quietly_return, simp add: new_endpoint_def)
    done
qed

definition interface_js :: "UsbInterface \<Rightarrow> js" where
  "interface_js i = JObject [(''id'', JNumber (sint (if_id i))), (''protocol'', JNumber (sint (if_protocol i))),
     (''clazz'', JNumber (sint (if_klass i))), (''subClass'', JNumber (sint (if_subClass i))),
     (''alternateSetting'', JNumber (sint (if_alternateSetting i))), (''name'', JString (if_name i)),
     (''endpoints'', JArray (map endpoint_js (if_endpoints i)))]"

definition interface_readable :: "UsbInterface \<Rightarrow> bool" where
  "interface_readable i \<longleftrightarrow> cuttable DEFAULT_DESCRIPTION_SIZE (if_name i)"

definition seen_interface :: "UsbInterface \<Rightarrow> UsbInterface" where
  "seen_interface i = i\<lparr>if_name := [], if_iInterface := 255, if_authorized := True\<rparr>"

lemma cuttable_utf8: "cuttable k s \<Longrightarrow> utf8 s"
  by (simp add: cuttable_def)

lemma size_positive: "0 < DEFAULT_DESCRIPTION_SIZE" "0 < DEFAULT_ACCESSORY_DESCRIPTION_SIZE"
  by (simp_all add: DEFAULT_DESCRIPTION_SIZE_def DEFAULT_ACCESSORY_DESCRIPTION_SIZE_def)

text \<open>The last step of a writer adds the array.\<close>

lemma set_last:
  assumes "napi_law n view pend" and "view obj = JObject fs" and "quietly pend arr (\<lambda>v. view v = j)"
  shows "quietly pend (arr \<bind> (\<lambda>a. out_var obj (napi_set_named_property n obj key a)))
    (\<lambda>v. view v = JObject (AList.update key j fs))"
  by (rule quietly_bind [OF assms(3)]) (metis quietly_out_var [OF napi_writesD(8) [OF assms(1,2)]])

interpretation interface_js: js_class CtoJSUsbInterface "\<lambda>n obj. ParseInterfaceObj n obj new_interface" interface_js seen_interface interface_readable
proof unfold_locales
  fix n view pend and x :: UsbInterface
  assume law: "napi_law n view pend" and ok: "interface_readable x"
  show "quietly pend (CtoJSUsbInterface n x) (\<lambda>v. view v = interface_js x)"
    unfolding CtoJSUsbInterface_def
    apply (rule new_object [OF law], (rule quietly_bind, erule SetValue_quiet(1) [OF law])+, rule quietly_bind,
        erule SetValue_quiet(4) [OF law])
    using ok apply (simp add: interface_readable_def cuttable_def)
    apply (rule quietly_mono, erule set_last [OF law _ endpoint_js.js_array_quiet [OF law]])
    by (simp_all add: interface_js_def)
  fix v assume "view v = interface_js x"
  note v = this [unfolded interface_js_def]
  have eps: "quietly pend (ParseEndpointsObjs n v) (\<lambda>r. r = (True, if_endpoints x))"
    unfolding ParseEndpointsObjs_def by (rule quietly_mono, rule endpoint_js.parse_array_quiet [OF law _ v]) simp_all
  show "quietly pend (ParseInterfaceObj n v new_interface) (\<lambda>y. y = seen_interface x)"
    unfolding ParseInterfaceObj_def js_int_def js_string_def
    apply (rule quietly_bind, rule JsObjectToInt_quiet [OF law v], simp)+
    apply (rule quietly_bind, rule JsObjectToString_quiet [OF law v], simp, rule ok [unfolded interface_readable_def], rule size_positive)
    apply (rule quietly_bind, rule eps, rule quietly_return, simp add: new_interface_def seen_interface_def)
    done
qed

definition config_js :: "USBConfig \<Rightarrow> js" where
  "config_js c = JObject [(''id'', JNumber (sint (cf_id c))), (''attributes'', JNumber (uint (cf_attributes c))),
     (''isRemoteWakeup'', JBool (IsRemoteWakeup c)), (''isSelfPowered'', JBool (IsSelfPowered c)),
     (''maxPower'', JNumber (sint (GetMaxPower c))), (''name'', JString (cf_name c)),
     (''interfaces'', JArray (map interface_js (cf_interfaces c)))]"

definition config_readable :: "USBConfig \<Rightarrow> bool" where
  "config_readable c \<longleftrightarrow> cuttable DEFAULT_DESCRIPTION_SIZE (cf_name c) \<and> (\<forall>i \<in> set (cf_interfaces c). interface_readable i)"

definition seen_config :: "USBConfig \<Rightarrow> USBConfig" where
  "seen_config c = c\<lparr>cf_name := take DEFAULT_DESCRIPTION_SIZE (cf_name c), cf_maxPower := GetMaxPower c, cf_interfaces := map seen_interface (cf_interfaces c), cf_iConfiguration := 255\<rparr>"

interpretation config_js: js_class CtoJSUsbConfig "\<lambda>n obj. ParseConfigObj n obj new_config" config_js seen_config config_readable
proof unfold_locales
  fix n view pend and x :: USBConfig
  assume law: "napi_law n view pend" and ok: "config_readable x"
  show "quietly pend (CtoJSUsbConfig n x) (\<lambda>v. view v = config_js x)"
    unfolding CtoJSUsbConfig_def
    apply (rule new_object [OF law], (rule quietly_bind, erule SetValue_quiet(1,2,3) [OF law])+, rule quietly_bind,
        erule SetValue_quiet(4) [OF law])
    using ok apply (simp add: config_readable_def cuttable_def)
    apply (rule quietly_mono, erule set_last [OF law _ interface_js.js_array_quiet [OF law]])
    using ok by (simp_all add: config_js_def config_readable_def)
  fix v assume "view v = config_js x"
  note v = this [unfolded config_js_def]
  have ifs: "quietly pend (ParseInterfacesObjs n v) (\<lambda>r. r = (True, map seen_interface (cf_interfaces x)))"
    unfolding ParseInterfacesObjs_def
    by (rule interface_js.parse_array_quiet [OF law _ v]) (use ok in \<open>simp_all add: config_readable_def\<close>)
  have name: "cuttable DEFAULT_DESCRIPTION_SIZE (cf_name x)" using ok by (simp add: config_readable_def)
  show "quietly pend (ParseConfigObj n v new_config) (\<lambda>y. y = seen_config x)"
    unfolding ParseConfigObj_def js_int_def js_string_def js_bool_def
    apply (rule quietly_bind, rule JsObjectToInt_quiet [OF law v], simp)+
    apply (rule quietly_bind, rule JsObjectToString_quiet [OF law v], simp, rule name, rule size_positive)
    apply (rule quietly_bind, rule JsObjectToBool_quiet [OF law v], simp)+
    apply (rule quietly_bind, rule ifs, rule quietly_return, simp add: new_config_def seen_config_def)
    done
qed

definition device_js :: "UsbDevice \<Rightarrow> js" where
  "device_js d = JObject [(''name'', JString (dev_name d)), (''serial'', JString (dev_serial d)),
     (''manufacturerName'', JString (dev_manufacturerName d)), (''productName'', JString (dev_productName d)),
     (''version'', JString (dev_version d)), (''vendorId'', JNumber (sint (dev_vendorId d))),
     (''productId'', JNumber (sint (dev_productId d))), (''clazz'', JNumber (sint (dev_baseClass d))),
     (''subClass'', JNumber (sint (dev_subClass d))), (''protocol'', JNumber (sint (dev_protocol d))),
     (''devAddress'', JNumber (uint (dev_devAddr d))), (''busNum'', JNumber (uint (dev_busNum d))),
     (''configs'', JArray (map config_js (dev_configs d)))]"

definition device_readable :: "UsbDevice \<Rightarrow> bool" where
  "device_readable d \<longleftrightarrow> (\<forall>t \<in> {dev_name d, dev_serial d, dev_manufacturerName d, dev_productName d, dev_version d}.
     cuttable DEFAULT_DESCRIPTION_SIZE t) \<and> (\<forall>c \<in> set (dev_configs d). config_readable c)"

text \<open>The members an application can hand back; the others have their defaults.\<close>

definition seen_device :: "UsbDevice \<Rightarrow> UsbDevice" where
  "seen_device d = new_device\<lparr>dev_name := take DEFAULT_DESCRIPTION_SIZE (dev_name d),
     dev_manufacturerName := take DEFAULT_DESCRIPTION_SIZE (dev_manufacturerName d),
     dev_productName := take DEFAULT_DESCRIPTION_SIZE (dev_productName d),
     dev_version := take DEFAULT_DESCRIPTION_SIZE (dev_version d), dev_devAddr := dev_devAddr d, dev_busNum := dev_busNum d,
     dev_vendorId := dev_vendorId d, dev_productId := dev_productId d, dev_baseClass := dev_baseClass d,
     dev_subClass := dev_subClass d, dev_protocol := dev_protocol d, dev_configs := map seen_config (dev_configs d)\<rparr>"

lemma parse_configs_quiet:
  fixes n :: "('e, 'v, 'n) napi_scheme"
  assumes "napi_law n view pend" and "\<forall>c \<in> set cs. config_readable c" and "view objs = JArray (js @ map config_js cs)"
  shows "quietly pend (parse_configs n objs [length js..<length js + length cs] xs :: (('e, 'm) js_env_scheme, USBConfig list) state)
    (\<lambda>r. r = xs @ map seen_config cs)"
  using assms(2,3)
proof (induction cs arbitrary: js xs)
  case Nil
  then show ?case by (simp add: quietly_return)
next
  case (Cons c cs)
  let ?rest = "parse_configs n objs [Suc (length js)..<length js + length (c # cs)] :: _ \<Rightarrow> (('e, 'm) js_env_scheme, _) state"
  have "quietly pend (?rest (xs @ [seen_config c])) (\<lambda>r. r = xs @ map seen_config (c # cs))"
    using Cons.IH [of "js @ [config_js c]" "xs @ [seen_config c]"] Cons.prems by (simp del: upt_Suc)
  then have "quietly pend (ParseConfigObj n obj new_config \<bind> (\<lambda>x. ?rest (xs @ [x]))) (\<lambda>r. r = xs @ map seen_config (c # cs))"
    if "view obj = config_js c" for obj
    using Cons.prems(1) by (auto intro!: quietly_bind [OF config_js.of_js [OF assms(1) _ that]] simp del: upt_Suc)
  then have "quietly pend (out_var (unset_value n) (napi_get_element n objs (length js)) \<bind>
      (\<lambda>obj. ParseConfigObj n obj new_config \<bind> (\<lambda>x. ?rest (xs @ [x])))) (\<lambda>r. r = xs @ map seen_config (c # cs))"
    by (intro quietly_bind [OF quietly_out_var [OF napi_readsD(6) [OF assms(1) Cons.prems(2)]]]) simp_all
  then show ?case by (simp add: upt_conv_Cons del: upt_Suc)
qed

lemma ParseConfigsObjs_quiet:
  assumes "napi_law n view pend" and "\<forall>c \<in> set cs. config_readable c" and "view v = JObject fs"
    and "map_of fs ''configs'' = Some (JArray (map config_js cs))"
  shows "quietly pend (ParseConfigsObjs n v) (\<lambda>r. r = map seen_config cs)"
  unfolding ParseConfigsObjs_def param_check_def
proof (rule quietly_bind [OF JsObjectGetProperty_quiet [OF assms(1,3,4)]], clarsimp)
  fix objs assume o: "view objs = JArray (map config_js cs)"
  show "quietly pend (out_var (unset_type n) (napi_typeof n objs) \<bind> (\<lambda>valueType.
      usb_assert ERRCODE_MSG_MAP n (valueType = napi_object) OHEC_COMMON_PARAM_ERROR ''The type of configs must be object.'' []
        (out_var 0 (napi_get_array_length n objs) \<bind> (\<lambda>configCount. parse_configs n objs [0..<configCount] []))))
      (\<lambda>r. r = map seen_config cs)"
    using parse_configs_quiet [OF assms(1,2), of objs "[]" "[]"] o
    by (auto intro!: quietly_bind [OF quietly_out_var [OF napi_readsD(1) [OF assms(1), where t = napi_object]]]
      quietly_bind [OF quietly_out_var [OF napi_readsD(5) [OF assms(1) o]]])
qed

interpretation device_js: js_class CtoJSUsbDevice ParseDeviceObj device_js seen_device device_readable
proof unfold_locales
  fix n view pend and x :: UsbDevice
  assume law: "napi_law n view pend" and ok: "device_readable x"
  have u: "utf8 (dev_name x)" "utf8 (dev_serial x)" "utf8 (dev_manufacturerName x)" "utf8 (dev_productName x)" "utf8 (dev_version x)"
    using ok by (auto simp: device_readable_def cuttable_def)
  have f: "cuttable DEFAULT_DESCRIPTION_SIZE (dev_name x)" "cuttable DEFAULT_DESCRIPTION_SIZE (dev_serial x)"
    "cuttable DEFAULT_DESCRIPTION_SIZE (dev_manufacturerName x)" "cuttable DEFAULT_DESCRIPTION_SIZE (dev_productName x)"
    "cuttable DEFAULT_DESCRIPTION_SIZE (dev_version x)"
    using ok by (auto simp: device_readable_def)
  show "quietly pend (CtoJSUsbDevice n x) (\<lambda>v. view v = device_js x)"
    unfolding CtoJSUsbDevice_def
    apply (rule new_object [OF law], (rule quietly_bind, erule SetValue_quiet(4) [OF law], rule u)+,
        (rule quietly_bind, erule SetValue_quiet(1) [OF law])+)
    apply (rule quietly_mono, erule set_last [OF law _ config_js.js_array_quiet [OF law]])
    using ok by (simp_all add: device_js_def device_readable_def)
  fix v assume "view v = device_js x"
  note v = this [unfolded device_js_def]
  have cfgs: "quietly pend (ParseConfigsObjs n v) (\<lambda>r. r = map seen_config (dev_configs x))"
    by (rule ParseConfigsObjs_quiet [OF law _ v]) (use ok in \<open>simp_all add: device_readable_def\<close>)
  show "quietly pend (ParseDeviceObj n v) (\<lambda>y. y = seen_device x)"
    unfolding ParseDeviceObj_def js_int_def js_string_def
    apply (rule quietly_bind, rule JsObjectToString_quiet [OF law v], simp, rule f, rule size_positive)+
    apply (rule quietly_bind, rule JsObjectToInt_quiet [OF law v], simp)+
    apply (rule quietly_bind, rule cfgs, rule quietly_return, simp add: seen_device_def)
    done
qed

definition accessory_js :: "USBAccessory \<Rightarrow> js" where
  "accessory_js a = JObject [(''manufacturer'', JString (acc_manufacturer a)), (''product'', JString (acc_product a)),
     (''description'', JString (acc_description a)), (''version'', JString (acc_version a)),
     (''serialNumber'', JString (acc_serialNumber a))]"

definition accessory_readable :: "USBAccessory \<Rightarrow> bool" where
  "accessory_readable a \<longleftrightarrow> (\<forall>t \<in> {acc_manufacturer a, acc_product a, acc_description a, acc_version a, acc_serialNumber a}.
     cuttable DEFAULT_ACCESSORY_DESCRIPTION_SIZE t)"

definition seen_accessory :: "USBAccessory \<Rightarrow> USBAccessory" where
  "seen_accessory a = \<lparr>acc_manufacturer = take DEFAULT_ACCESSORY_DESCRIPTION_SIZE (acc_manufacturer a),
     acc_product = take DEFAULT_ACCESSORY_DESCRIPTION_SIZE (acc_product a),
     acc_description = take DEFAULT_ACCESSORY_DESCRIPTION_SIZE (acc_description a),
     acc_version = take DEFAULT_ACCESSORY_DESCRIPTION_SIZE (acc_version a),
     acc_serialNumber = take DEFAULT_ACCESSORY_DESCRIPTION_SIZE (acc_serialNumber a)\<rparr>"

interpretation accessory_js: js_class CtoJSUSBAccessory ParseAccessoryObj accessory_js seen_accessory accessory_readable
proof unfold_locales
  fix n view pend and x :: USBAccessory
  assume law: "napi_law n view pend" and ok: "accessory_readable x"
  have f: "cuttable DEFAULT_ACCESSORY_DESCRIPTION_SIZE (acc_manufacturer x)" "cuttable DEFAULT_ACCESSORY_DESCRIPTION_SIZE (acc_product x)"
    "cuttable DEFAULT_ACCESSORY_DESCRIPTION_SIZE (acc_description x)" "cuttable DEFAULT_ACCESSORY_DESCRIPTION_SIZE (acc_version x)"
    "cuttable DEFAULT_ACCESSORY_DESCRIPTION_SIZE (acc_serialNumber x)"
    using ok by (auto simp: accessory_readable_def)
  show "quietly pend (CtoJSUSBAccessory n x) (\<lambda>v. view v = accessory_js x)"
    unfolding CtoJSUSBAccessory_def
    by (rule new_object [OF law], (rule quietly_bind, erule SetValue_quiet(4) [OF law], rule f [THEN cuttable_utf8])+,
      rule quietly_mono, erule SetValue_quiet(4) [OF law], rule f [THEN cuttable_utf8], simp add: accessory_js_def)
  fix v assume "view v = accessory_js x"
  note v = this [unfolded accessory_js_def]
  show "quietly pend (ParseAccessoryObj n v) (\<lambda>y. y = seen_accessory x)"
    unfolding ParseAccessoryObj_def js_string_def
    apply (rule quietly_bind, rule JsObjectToString_quiet [OF law v], simp, rule f, rule size_positive)+
    apply (rule quietly_return, simp add: seen_accessory_def)
    done
qed

definition pipe_js :: "USBDevicePipe \<Rightarrow> js" where
  "pipe_js p = JObject [(''busNum'', JNumber (uint (pipe_busNum p))), (''devAddress'', JNumber (uint (pipe_devAddr p)))]"

interpretation pipe_js: js_class CreateUsbDevicePipe "\<lambda>n obj. ParseUsbDevicePipe n obj new_pipe" pipe_js "\<lambda>p. p" "\<lambda>p. True"
proof unfold_locales
  fix n view pend and x :: USBDevicePipe
  assume law: "napi_law n view pend"
  show "quietly pend (CreateUsbDevicePipe n x) (\<lambda>v. view v = pipe_js x)"
    unfolding CreateUsbDevicePipe_def
    by (rule new_object [OF law], (rule quietly_bind, erule SetValue_quiet(1) [OF law])+,
      rule quietly_mono, erule SetValue_quiet(1) [OF law], simp add: pipe_js_def)
  fix v assume "view v = pipe_js x"
  note v = this [unfolded pipe_js_def]
  show "quietly pend (ParseUsbDevicePipe n v new_pipe) (\<lambda>y. y = x)"
    unfolding ParseUsbDevicePipe_def js_int_def param_check_def
    apply (rule quietly_bind, rule quietly_out_var, rule napi_readsD(1) [OF law, where t = napi_object], simp add: v, simp)
    apply (rule quietly_bind, rule JsObjectToInt_quiet [OF law v], simp)+
    apply (rule quietly_return, simp)
    done
qed

subsection \<open>Devices go to the application and back\<close>

text \<open>
  C36: round trip. With a run time that keeps its promises, and texts in UTF-8 that can be cut to 32 bytes
  without dividing a character, the object made of a device is read back without an exception and without any
  other effect. What comes back has the bus and the address, vendor, product, class, subclass and protocol and all
  configurations, interfaces and endpoints; the names are cut to 32 bytes. The maximum power of each configuration
  is doubled, the names of the interfaces and the serial number are lost, and so are the members that the
  object does not have: the indices of the strings, the sizes and releases of the device and whether it and its
  interfaces are authorized have their defaults.
\<close>

theorem device_object_roundtrip:
  fixes n :: "('e, 'v, 'n) napi_scheme" and s :: "('e, 'm) js_env_scheme"
  assumes "napi_law n view pend" and "device_readable d" and "pend (engine s) = None"
  shows "\<exists>e'. pend e' = None \<and> run_state (CtoJSUsbDevice n d \<bind> ParseDeviceObj n) s = (new_device\<lparr>
      dev_name := take 32 (dev_name d), dev_manufacturerName := take 32 (dev_manufacturerName d),
      dev_productName := take 32 (dev_productName d), dev_version := take 32 (dev_version d),
      dev_devAddr := dev_devAddr d, dev_busNum := dev_busNum d, dev_vendorId := dev_vendorId d,
      dev_productId := dev_productId d, dev_baseClass := dev_baseClass d, dev_subClass := dev_subClass d,
      dev_protocol := dev_protocol d, dev_configs := map (\<lambda>c. c\<lparr>cf_name := take 32 (cf_name c), cf_maxPower := cf_maxPower c * 2,
        cf_iConfiguration := 255,
        cf_interfaces := map (\<lambda>i. i\<lparr>if_name := [], if_iInterface := 255, if_authorized := True\<rparr>) (cf_interfaces c)\<rparr>)
        (dev_configs d)\<rparr>, s\<lparr>engine := e'\<rparr>)"
proof -
  have seen: "seen_config = (\<lambda>c. c\<lparr>cf_name := take 32 (cf_name c), cf_maxPower := cf_maxPower c * 2, cf_iConfiguration := 255,
      cf_interfaces := map (\<lambda>i. i\<lparr>if_name := [], if_iInterface := 255, if_authorized := True\<rparr>) (cf_interfaces c)\<rparr>)"
    by (rule ext) (simp add: seen_config_def seen_interface_def GetMaxPower_def DEFAULT_DESCRIPTION_SIZE_def)
  obtain e' where "run_state (CtoJSUsbDevice n d \<bind> ParseDeviceObj n) s = (seen_device d, s\<lparr>engine := e'\<rparr>)" "pend e' = None"
    using device_js.read_back [where n = n, OF assms(1,2), unfolded quietly_def] assms(3) by blast
  then show ?thesis unfolding seen_device_def seen DEFAULT_DESCRIPTION_SIZE_def by blast
qed

definition sample_js_device :: UsbDevice where
  "sample_js_device = new_device\<lparr>dev_name := ''1-1'', dev_serial := ''S1'',
     dev_productName := replicate 40 CHR ''a'', dev_busNum := 1, dev_devAddr := 2,
     dev_configs := [new_config\<lparr>cf_maxPower := 50, cf_interfaces := [new_interface\<lparr>if_name := ''hid'',
       if_endpoints := [new_endpoint\<lparr>ep_address := 0x81, ep_interfaceId := 200\<rparr>]\<rparr>]\<rparr>]\<rparr>"

lemma utf8_letters: "utf8_seq (replicate k CHR ''a'')"
  by (induction k) simp_all

lemma sample_readable: "device_readable sample_js_device"
  by (simp add: utf8_letters device_readable_def sample_js_device_def new_data_defs config_readable_def interface_readable_def cuttable_def
    DEFAULT_DESCRIPTION_SIZE_def utf8_def cont_byte_def)

theorem device_object_roundtrip_witness:
  "case run_state (CtoJSUsbDevice tree_napi sample_js_device \<bind> ParseDeviceObj tree_napi) tree_env of (d, s) \<Rightarrow>
     dev_busNum d = 1 \<and> dev_serial d = [] \<and> dev_productName d = replicate 32 CHR ''a'' \<and> map cf_maxPower (dev_configs d) = [100] \<and> fst (engine s) = None"
  using device_object_roundtrip [OF tree_napi_law sample_readable, of tree_env]
  by (auto simp: tree_env_def sample_js_device_def new_data_defs)

end
