(* ===== verification/Js_Usb.thy ===== *)
theory Js_Usb
  imports Js_Data Service_Device
begin

section \<open>The functions of the JavaScript module\<close>

text \<open>
  The functions of \<^verbatim>\<open>usb_info.cpp\<close> that an application calls (\<^verbatim>\<open>Core\<close>, \<^verbatim>\<open>Device\<close>, \<^verbatim>\<open>Port\<close> and \<^verbatim>\<open>Pipe\<close>
  functions), with their checks of the arguments, the errors they throw and the work they queue, over the
  operations of the client library. Transfers are in \<open>Js_Transfer\<close>.
\<close>

subsection \<open>State and environment\<close>

text \<open>
  The contexts of \<^verbatim>\<open>usb_async_context.h\<close>, as far as the functions use them. A deferred that could not be made is a
  null pointer, \<open>None\<close>. The buffer of a transfer is the application's own (\<open>App\<close>, an address) or a copy the
  native code has allocated (\<open>Own\<close>).
\<close>

datatype native_buffer = Null | App nat | Own "u8 list"

record control_context =
  cx_pipe :: USBDevicePipe
  cx_request :: i32
  cx_target :: i32
  cx_reqType :: u32
  cx_value :: i32
  cx_index :: i32
  cx_buffer :: native_buffer
  cx_bufferLength :: nat
  cx_timeOut :: i32

record usb_control_context =
  ux_pipe :: USBDevicePipe
  ux_reqType :: u32
  ux_request :: i32
  ux_value :: i32
  ux_index :: i32
  ux_length :: i32
  ux_buffer :: native_buffer
  ux_bufferLength :: nat
  ux_timeOut :: i32

record bulk_context =
  bx_pipe :: USBDevicePipe
  bx_endpoint :: USBEndpoint
  bx_buffer :: native_buffer
  bx_bufferLength :: nat
  bx_timeOut :: i32

datatype usb_work = Request_Right string | Request_Accessory_Right USBAccessory | Set_Functions i32
  | Set_Port_Role i32 i32 i32 | Control_Transfer control_context | Usb_Control_Transfer usb_control_context
  | Bulk_Transfer bulk_context

text \<open>
  \<open>settled\<close> lists the promises that were resolved (\<open>True\<close>) or rejected, with the values; \<open>freed\<close> the buffers
  given to \<^verbatim>\<open>delete[]\<close>.
\<close>

record ('e, 'v, 'p, 'w) usb_module = "'e js_env" +
  client :: "'p usb_client"
  world :: 'w
  g_accFd :: i32
  works :: "('v option \<times> usb_work) list"
  settled :: "('v \<times> bool \<times> 'v) list"
  freed :: "native_buffer list"

text \<open>
  \<open>number\<close> is the value of a code in the enumeration; \<open>close_fd\<close> closes a descriptor; \<open>new_object\<close> and
  \<open>new_array\<close> tell whether \<^verbatim>\<open>new (std::nothrow)\<close> gives an object.
\<close>

record ('e, 'v, 'c, 'w, 'o, 'p) usb_binding = "('e, 'v) napi" +
  feature_host :: bool
  feature_device :: bool
  feature_port :: bool
  napi_create_promise :: "('e, ('v \<times> 'v) option) state"
  napi_create_async_work :: "'v \<Rightarrow> ('e, unit option) state"
  napi_queue_async_work :: "('e, unit option) state"
  napi_resolve_deferred :: "'v \<Rightarrow> 'v \<Rightarrow> ('e, unit option) state"
  napi_reject_deferred :: "'v \<Rightarrow> 'v \<Rightarrow> ('e, unit option) state"
  napi_define_properties :: "'v \<Rightarrow> (string \<times> 'v) list \<Rightarrow> ('e, 'v option) state"
  cenv :: "('w, 'o, 'p) client_env"
  csrv :: "'p \<Rightarrow> ('c, 'w) server"
  number :: "retcode \<Rightarrow> i32"
  unset_int :: i32
  close_fd :: "i32 \<Rightarrow> 'w \<Rightarrow> 'w"
  new_context :: bool
  new_array :: "nat \<Rightarrow> bool"
  HDF_ERR_NO_DEVICE :: int
  HDF_ERR_FAILURE :: int

definition use_client :: "('e, 'v, 'c, 'w, 'o, 'p, 'n) usb_binding_scheme \<Rightarrow> ('c, 'w, 'p, 'a) client_op \<Rightarrow>
    (('e, 'v, 'p, 'w, 'm) usb_module_scheme, 'a) state" where
  "use_client b op = State (\<lambda>s. case op (csrv b) (client s) (world s) of (r, cl, w) \<Rightarrow> (r, s\<lparr>client := cl, world := w\<rparr>))"

datatype UsbManagerFeature = FEATURE_HOST | FEATURE_DEVICE | FEATURE_PORT

definition HasFeature :: "('e, 'v, 'c, 'w, 'o, 'p, 'n) usb_binding_scheme \<Rightarrow> UsbManagerFeature \<Rightarrow> bool" where
  "HasFeature b feature = (case feature of FEATURE_HOST \<Rightarrow> feature_host b | FEATURE_DEVICE \<Rightarrow> feature_device b | FEATURE_PORT \<Rightarrow> feature_port b)"

subsection \<open>What the functions have in common\<close>

definition throw_error :: "('e, 'v, 'n) napi_scheme \<Rightarrow> i32 \<Rightarrow> string \<Rightarrow> (('e, 'm) js_env_scheme, unit) state" where
  "throw_error = ThrowBusinessError ERRCODE_MSG_MAP"

definition get_undefined :: "('e, 'v, 'n) napi_scheme \<Rightarrow> (('e, 'm) js_env_scheme, 'v) state" where
  "get_undefined n = out_var (nullptr n) (napi_get_undefined n)"

text \<open>The common beginning: the feature, the arguments (at most \<open>k\<close>) and their number.\<close>

definition api :: "('e, 'v, 'c, 'w, 'o, 'p, 'n) usb_binding_scheme \<Rightarrow> UsbManagerFeature \<Rightarrow> nat \<Rightarrow> (nat \<Rightarrow> bool) \<Rightarrow> string \<Rightarrow>
    (nat \<Rightarrow> 'v list \<Rightarrow> (('e, 'm) js_env_scheme, 'v) state) \<Rightarrow> 'v list \<Rightarrow> (('e, 'm) js_env_scheme, 'v) state" where
  "api b feature k enough msg body info =
     (if \<not> HasFeature b feature then do { throw_error b CAPABILITY_NOT_SUPPORT []; State_Monad.return (nullptr b) }
      else do {
        r \<leftarrow> call (napi_get_cb_info b info k);
        case r of None \<Rightarrow> get_undefined b
        | Some (argc, argv) \<Rightarrow> param_check b (enough argc) msg (nullptr b) (body argc argv) })"

text \<open>The two functions without arguments that do not check whether the arguments could be fetched.\<close>

definition api_no_arguments :: "('e, 'v, 'c, 'w, 'o, 'p, 'n) usb_binding_scheme \<Rightarrow> UsbManagerFeature \<Rightarrow>
    (('e, 'm) js_env_scheme, 'v) state \<Rightarrow> 'v list \<Rightarrow> (('e, 'm) js_env_scheme, 'v) state" where
  "api_no_arguments b feature body info =
     (if \<not> HasFeature b feature then do { throw_error b CAPABILITY_NOT_SUPPORT []; State_Monad.return (nullptr b) }
      else do {
        r \<leftarrow> out_var (1, [nullptr b]) (napi_get_cb_info b info 1);
        param_check b (fst r = 0) ''The function takes no arguments.'' (nullptr b) body })"

abbreviation one_argument :: string where "one_argument \<equiv> ''The function at least takes one argument.''"
abbreviation two_arguments :: string where "two_arguments \<equiv> ''The function at least takes two arguments.''"

text \<open>An argument whose type is checked, \<^verbatim>\<open>NAPI_CHECK\<close> and \<^verbatim>\<open>USB_ASSERT\<close>; and one whose type is read without \<^verbatim>\<open>NAPI_CHECK\<close>.\<close>

definition typed :: "('e, 'v, 'n) napi_scheme \<Rightarrow> 'v \<Rightarrow> napi_valuetype \<Rightarrow> string \<Rightarrow> (('e, 'm) js_env_scheme, 'v) state \<Rightarrow>
    (('e, 'm) js_env_scheme, 'v) state" where
  "typed n v ty msg body = do {
     t \<leftarrow> call (napi_typeof n v);
     case t of None \<Rightarrow> get_undefined n | Some type \<Rightarrow> param_check n (type = ty) msg (nullptr n) body }"

definition object_argument :: "('e, 'v, 'n) napi_scheme \<Rightarrow> napi_valuetype \<Rightarrow> 'v \<Rightarrow> string \<Rightarrow>
    (napi_valuetype \<Rightarrow> (('e, 'm) js_env_scheme, 'v) state) \<Rightarrow> (('e, 'm) js_env_scheme, 'v) state" where
  "object_argument n old v msg body = do {
     type \<leftarrow> out_var old (napi_typeof n v);
     param_check n (type = napi_object) msg (nullptr n) (body type) }"

abbreviation must_be_pipe :: string where "must_be_pipe \<equiv> ''The type of pipe must be USBDevicePipe.''"
abbreviation must_be_accessory :: string where "must_be_accessory \<equiv> ''The type of device must be USBAccessory.''"

text \<open>\<^verbatim>\<open>USB_ASSERT_RETURN_UNDEF\<close> makes the value it may return first.\<close>

definition assert_undef :: "('e, 'v, 'n) napi_scheme \<Rightarrow> bool \<Rightarrow> i32 \<Rightarrow> (('e, 'm) js_env_scheme, 'v) state \<Rightarrow>
    (('e, 'm) js_env_scheme, 'v) state" where
  "assert_undef n assertion errCode k = do {
     obj \<leftarrow> get_undefined n;
     usb_assert ERRCODE_MSG_MAP n assertion errCode [] obj k }"

definition sysapi_allowed :: "('e, 'v, 'n) napi_scheme \<Rightarrow> retcode \<Rightarrow> (('e, 'm) js_env_scheme, 'v) state \<Rightarrow>
    (('e, 'm) js_env_scheme, 'v) state" where
  "sysapi_allowed n ret k =
     assert_undef n (ret \<noteq> UEC_SERVICE_PERMISSION_DENIED_SYSAPI) OHEC_COMMON_NORMAL_APP_NOT_ALLOWED
       (assert_undef n (ret \<noteq> UEC_SERVICE_PERMISSION_DENIED_SYSAPI_FAILED) OHEC_COMMON_PERMISSION_NOT_ALLOWED k)"

definition throw_null :: "('e, 'v, 'n) napi_scheme \<Rightarrow> i32 \<Rightarrow> string \<Rightarrow> (('e, 'm) js_env_scheme, 'v) state" where
  "throw_null n errCode errMsg = do { throw_error n errCode errMsg; State_Monad.return (nullptr n) }"

definition STR_DEFAULT_SIZE :: nat where "STR_DEFAULT_SIZE = 256"

text \<open>
  A promise and the work that will settle it. The status of the calls is not checked; work that was not
  created or not queued is lost.
\<close>

definition add_work :: "'v option \<Rightarrow> usb_work \<Rightarrow> (('e, 'v, 'p, 'w, 'm) usb_module_scheme, unit) state" where
  "add_work deferred work = State (\<lambda>s. ((), s\<lparr>works := works s @ [(deferred, work)]\<rparr>))"

definition queue_work :: "('e, 'v, 'c, 'w, 'o, 'p, 'n) usb_binding_scheme \<Rightarrow> string \<Rightarrow> 'v option \<Rightarrow> usb_work \<Rightarrow>
    (('e, 'v, 'p, 'w, 'm) usb_module_scheme, unit) state" where
  "queue_work b name deferred work = do {
     resource \<leftarrow> out_var (nullptr b) (napi_create_string_utf8 b name);
     created \<leftarrow> call (napi_create_async_work b resource);
     queued \<leftarrow> call (napi_queue_async_work b);
     if created = Some () \<and> queued = Some () then add_work deferred work else State_Monad.return () }"

definition create_promise :: "('e, 'v, 'c, 'w, 'o, 'p, 'n) usb_binding_scheme \<Rightarrow> (('e, 'm) js_env_scheme, 'v option \<times> 'v) state" where
  "create_promise b = do {
     r \<leftarrow> call (napi_create_promise b);
     State_Monad.return (case r of None \<Rightarrow> (None, nullptr b) | Some (deferred, promise) \<Rightarrow> (Some deferred, promise)) }"

definition start_work :: "('e, 'v, 'c, 'w, 'o, 'p, 'n) usb_binding_scheme \<Rightarrow> string \<Rightarrow> usb_work \<Rightarrow>
    (('e, 'v, 'p, 'w, 'm) usb_module_scheme, 'v) state" where
  "start_work b name work =
     (if \<not> new_context b then State_Monad.return (nullptr b)
      else do {
        p \<leftarrow> create_promise b;
        queue_work b name (fst p) work;
        State_Monad.return (snd p) })"

definition settle :: "'v \<Rightarrow> bool \<Rightarrow> 'v \<Rightarrow> (('e, 'v, 'p, 'w, 'm) usb_module_scheme, unit) state" where
  "settle deferred resolved result = State (\<lambda>s. ((), s\<lparr>settled := settled s @ [(deferred, resolved, result)]\<rparr>))"

definition ProcessPromise :: "('e, 'v, 'c, 'w, 'o, 'p, 'n) usb_binding_scheme \<Rightarrow> 'v option \<Rightarrow> bool \<Rightarrow> 'v \<Rightarrow>
    (('e, 'v, 'p, 'w, 'm) usb_module_scheme, unit) state" where
  "ProcessPromise b deferred status_ok result =
     (case deferred of None \<Rightarrow> State_Monad.return () | Some d \<Rightarrow> do {
        r \<leftarrow> call ((if status_ok then napi_resolve_deferred else napi_reject_deferred) b d result);
        if r = Some () then settle d status_ok result else State_Monad.return () })"

subsection \<open>Devices and accessories\<close>

definition CoreGetDevices :: "('e, 'v, 'c, 'w, 'o, 'p, 'n) usb_binding_scheme \<Rightarrow> 'v list \<Rightarrow> (('e, 'v, 'p, 'w, 'm) usb_module_scheme, 'v) state" where
  "CoreGetDevices b = api_no_arguments b FEATURE_HOST (do {
     r \<leftarrow> use_client b (client_GetDevices (cenv b) []);
     result \<leftarrow> out_var (unset_value b) (napi_create_array b);
     if fst r \<noteq> UEC_OK then State_Monad.return result
     else set_elements b (\<lambda>ent1. do { _ \<leftarrow> call (napi_create_object b); CtoJSUsbDevice b ent1 }) 0 (snd r) result })"

definition DeviceGetAccessoryList :: "('e, 'v, 'c, 'w, 'o, 'p, 'n) usb_binding_scheme \<Rightarrow> 'v list \<Rightarrow> (('e, 'v, 'p, 'w, 'm) usb_module_scheme, 'v) state" where
  "DeviceGetAccessoryList b = api_no_arguments b FEATURE_DEVICE (do {
     r \<leftarrow> use_client b (client_GetAccessoryList (cenv b) []);
     if fst r = UEC_OK then do {
       result \<leftarrow> out_var (unset_value b) (napi_create_array b);
       set_elements b (\<lambda>ent1. do { _ \<leftarrow> call (napi_create_object b); CtoJSUSBAccessory b ent1 }) 0 (snd r) result }
     else throw_null b UEC_COMMON_SERVICE_EXCEPTION ''Service exception'' })"

definition CoreConnectDevice :: "('e, 'v, 'c, 'w, 'o, 'p, 'n) usb_binding_scheme \<Rightarrow> 'v list \<Rightarrow> (('e, 'v, 'p, 'w, 'm) usb_module_scheme, 'v) state" where
  "CoreConnectDevice b = api b FEATURE_HOST 1 (\<lambda>argc. argc \<ge> 1) one_argument (\<lambda>argc argv.
     typed b (argv ! 0) napi_object ''The type of device must be USBDevice.'' (do {
       dev \<leftarrow> ParseDeviceObj b (argv ! 0);
       r \<leftarrow> use_client b (client_OpenDevice (cenv b) dev new_pipe);
       if fst r = UEC_OK then CreateUsbDevicePipe b (snd r)
       else if fst r = UEC_SERVICE_PERMISSION_DENIED \<or> fst r = UEC_INTERFACE_PERMISSION_DENIED
       then throw_null b UEC_COMMON_HAS_NO_RIGHT ''need call requestRight to get the permission''
       else get_undefined b }))"

definition set_accFd :: "i32 \<Rightarrow> (('e, 'v, 'p, 'w, 'm) usb_module_scheme, unit) state" where
  "set_accFd fd = State (\<lambda>s. ((), s\<lparr>g_accFd := fd\<rparr>))"

definition get_accFd :: "(('e, 'v, 'p, 'w, 'm) usb_module_scheme, i32) state" where
  "get_accFd = State (\<lambda>s. (g_accFd s, s))"

definition close_descriptor :: "('e, 'v, 'c, 'w, 'o, 'p, 'n) usb_binding_scheme \<Rightarrow> i32 \<Rightarrow> (('e, 'v, 'p, 'w, 'm) usb_module_scheme, unit) state" where
  "close_descriptor b fd = State (\<lambda>s. ((), s\<lparr>world := close_fd b fd (world s)\<rparr>))"

definition DeviceOpenAccessory :: "('e, 'v, 'c, 'w, 'o, 'p, 'n) usb_binding_scheme \<Rightarrow> 'v list \<Rightarrow> (('e, 'v, 'p, 'w, 'm) usb_module_scheme, 'v) state" where
  "DeviceOpenAccessory b = api b FEATURE_DEVICE 1 (\<lambda>argc. argc \<ge> 1) one_argument (\<lambda>argc argv.
     typed b (argv ! 0) napi_object must_be_accessory (do {
       accessory \<leftarrow> ParseAccessoryObj b (argv ! 0);
       r \<leftarrow> use_client b (client_OpenAccessory (cenv b) accessory (- 1));
       let ret = fst r; fd = word_of_int (snd r) in
       if ret = UEC_OK then do { set_accFd fd; CreatAccessoryHandle b fd }
       else if ret = UEC_SERVICE_PERMISSION_DENIED \<or> ret = UEC_INTERFACE_PERMISSION_DENIED
       then throw_null b UEC_COMMON_HAS_NO_RIGHT ''Call requestAccessoryRight to get the permission first''
       else if ret = UEC_SERVICE_ACCESSORY_NOT_MATCH
       then throw_null b UEC_ACCESSORY_NOT_MATCH ''Get accessory through getAccessoryList''
       else if ret = UEC_SERVICE_ACCESSORY_OPEN_NATIVE_NODE_FAILED
       then throw_null b UEC_ACCESSORY_OPEN_FAILED ''Failed to open the native accessory node''
       else if ret = UEC_SERVICE_ACCESSORY_REOPEN
       then throw_null b UEC_ACCESSORY_CAN_NOT_REOPEN ''Cannot reopen accessory''
       else throw_null b UEC_COMMON_SERVICE_EXCEPTION ''Service exception'' }))"

text \<open>After the check of the handle has thrown, the function goes on.\<close>

definition DeviceCloseAccessory :: "('e, 'v, 'c, 'w, 'o, 'p, 'n) usb_binding_scheme \<Rightarrow> 'v list \<Rightarrow> (('e, 'v, 'p, 'w, 'm) usb_module_scheme, 'v) state" where
  "DeviceCloseAccessory b = api b FEATURE_DEVICE 1 (\<lambda>argc. argc \<ge> 1) one_argument (\<lambda>argc argv.
     typed b (argv ! 0) napi_object ''The type of device must be USBAccessoryHandle.'' (do {
       accessoryFd \<leftarrow> js_int b (argv ! 0) ''accessoryFd'' (unset_int b);
       accFd \<leftarrow> get_accFd;
       (if accessoryFd = 0 \<or> accessoryFd \<noteq> accFd \<or> accFd = 0
        then throw_error b OHEC_COMMON_PARAM_ERROR ''Parameter accessoryHandle error, need openAccessory first.''
        else State_Monad.return ());
       close_descriptor b accessoryFd;
       ret \<leftarrow> use_client b (client_CloseAccessory (cenv b) (sint accFd));
       set_accFd 0;
       if ret \<noteq> UEC_OK then throw_null b UEC_COMMON_SERVICE_EXCEPTION ''Service exception''
       else State_Monad.return (nullptr b) }))"

subsection \<open>Rights\<close>

definition get_boolean :: "('e, 'v, 'n) napi_scheme \<Rightarrow> 'v \<Rightarrow> bool \<Rightarrow> (('e, 'm) js_env_scheme, 'v) state" where
  "get_boolean n old flag = out_var old (napi_get_boolean n flag)"

text \<open>The two functions that add a right to a device take two strings.\<close>

definition add_device_right :: "('e, 'v, 'c, 'w, 'o, 'p, 'n) usb_binding_scheme \<Rightarrow> string \<Rightarrow> (string \<Rightarrow> string \<Rightarrow> ('c, 'w, 'p, retcode) client_op) \<Rightarrow>
    'v list \<Rightarrow> (('e, 'v, 'p, 'w, 'm) usb_module_scheme, 'v) state" where
  "add_device_right b msg add = api b FEATURE_HOST 2 (\<lambda>argc. argc \<ge> 2) ''The function at least takes two argument.'' (\<lambda>argc argv.
     typed b (argv ! 0) napi_string msg (do {
       first \<leftarrow> JsValueToString b (argv ! 0) STR_DEFAULT_SIZE [];
       typed b (argv ! 1) napi_string ''The type of deviceName must be string.'' (do {
         deviceName \<leftarrow> JsValueToString b (argv ! 1) STR_DEFAULT_SIZE [];
         ret \<leftarrow> use_client b (add first deviceName);
         if ret = UEC_OK then get_boolean b (unset_value b) True
         else sysapi_allowed b ret (get_boolean b (unset_value b) False) }) }))"

definition DeviceAddRight :: "('e, 'v, 'c, 'w, 'o, 'p, 'n) usb_binding_scheme \<Rightarrow> 'v list \<Rightarrow> (('e, 'v, 'p, 'w, 'm) usb_module_scheme, 'v) state" where
  "DeviceAddRight b = add_device_right b ''The type of bundleName must be string.'' (client_AddRight (cenv b))"

definition DeviceAddAccessRight :: "('e, 'v, 'c, 'w, 'o, 'p, 'n) usb_binding_scheme \<Rightarrow> 'v list \<Rightarrow> (('e, 'v, 'p, 'w, 'm) usb_module_scheme, 'v) state" where
  "DeviceAddAccessRight b = add_device_right b ''The type of tokenId must be string.'' (client_AddAccessRight (cenv b))"

definition DeviceAddAccessoryRight :: "('e, 'v, 'c, 'w, 'o, 'p, 'n) usb_binding_scheme \<Rightarrow> 'v list \<Rightarrow> (('e, 'v, 'p, 'w, 'm) usb_module_scheme, 'v) state" where
  "DeviceAddAccessoryRight b = api b FEATURE_DEVICE 2 (\<lambda>argc. argc \<ge> 2) ''The function at least takes two argument.'' (\<lambda>argc argv.
     typed b (argv ! 0) napi_number ''The type of tokenId must be number.'' (do {
       tokenId \<leftarrow> out_var (unset_int b) (napi_get_value_uint32 b (argv ! 0));
       typed b (argv ! 1) napi_object must_be_accessory (do {
         accessory \<leftarrow> ParseAccessoryObj b (argv ! 1);
         ret \<leftarrow> use_client b (client_AddAccessoryRight (cenv b) tokenId accessory);
         if ret = UEC_OK then State_Monad.return (nullptr b)
         else if ret = UEC_SERVICE_GET_TOKEN_INFO_FAILED then throw_null b OHEC_COMMON_PARAM_ERROR []
         else if ret = UEC_SERVICE_ACCESSORY_NOT_MATCH
         then throw_null b OHEC_COMMON_PARAM_ERROR ''Get accessory through getAccessoryList''
         else if ret = UEC_SERVICE_DATABASE_OPERATION_FAILED
         then throw_null b UEC_COMMON_RIGHT_DATABASE_ERROR ''Database request operation exception''
         else sysapi_allowed b ret (throw_null b UEC_COMMON_SERVICE_EXCEPTION ''Service exception'') }) }))"

definition DeviceRemoveRight :: "('e, 'v, 'c, 'w, 'o, 'p, 'n) usb_binding_scheme \<Rightarrow> 'v list \<Rightarrow> (('e, 'v, 'p, 'w, 'm) usb_module_scheme, 'v) state" where
  "DeviceRemoveRight b = api b FEATURE_HOST 1 (\<lambda>argc. argc \<ge> 1) one_argument (\<lambda>argc argv.
     typed b (argv ! 0) napi_string ''The type of deviceName must be string.'' (do {
       deviceName \<leftarrow> JsValueToString b (argv ! 0) STR_DEFAULT_SIZE [];
       ret \<leftarrow> use_client b (client_RemoveRight (cenv b) deviceName);
       get_boolean b (unset_value b) (ret = UEC_OK) }))"

text \<open>The descriptor is forgotten before the service is told which one to close.\<close>

definition DeviceCancelAccessoryRight :: "('e, 'v, 'c, 'w, 'o, 'p, 'n) usb_binding_scheme \<Rightarrow> 'v list \<Rightarrow> (('e, 'v, 'p, 'w, 'm) usb_module_scheme, 'v) state" where
  "DeviceCancelAccessoryRight b = api b FEATURE_DEVICE 1 (\<lambda>argc. argc \<ge> 1) one_argument (\<lambda>argc argv.
     typed b (argv ! 0) napi_object must_be_accessory (do {
       accessory \<leftarrow> ParseAccessoryObj b (argv ! 0);
       accFd \<leftarrow> get_accFd;
       (if accFd \<noteq> 0 then do {
          close_descriptor b accFd;
          set_accFd 0;
          fd \<leftarrow> get_accFd;
          _ \<leftarrow> use_client b (client_CloseAccessory (cenv b) (sint fd));
          State_Monad.return () }
        else State_Monad.return ());
       ret \<leftarrow> use_client b (client_CancelAccessoryRight (cenv b) accessory);
       if ret = UEC_OK then State_Monad.return (nullptr b)
       else if ret = UEC_SERVICE_ACCESSORY_NOT_MATCH
       then throw_null b UEC_ACCESSORY_NOT_MATCH ''Get accessory through getAccessoryList''
       else if ret = UEC_SERVICE_DATABASE_OPERATION_FAILED
       then throw_null b UEC_COMMON_RIGHT_DATABASE_ERROR ''Database request operation exception''
       else throw_null b UEC_COMMON_SERVICE_EXCEPTION ''Service exception'' }))"

definition CoreHasRight :: "('e, 'v, 'c, 'w, 'o, 'p, 'n) usb_binding_scheme \<Rightarrow> 'v list \<Rightarrow> (('e, 'v, 'p, 'w, 'm) usb_module_scheme, 'v) state" where
  "CoreHasRight b = api b FEATURE_HOST 1 (\<lambda>argc. argc \<ge> 1) one_argument (\<lambda>argc argv.
     typed b (argv ! 0) napi_string ''The type of deviceName must be string'' (do {
       deviceName \<leftarrow> JsValueToString b (argv ! 0) STR_DEFAULT_SIZE [];
       result \<leftarrow> use_client b (client_HasRight (cenv b) deviceName);
       get_boolean b (nullptr b) result }))"

definition DeviceHasAccessoryRight :: "('e, 'v, 'c, 'w, 'o, 'p, 'n) usb_binding_scheme \<Rightarrow> 'v list \<Rightarrow> (('e, 'v, 'p, 'w, 'm) usb_module_scheme, 'v) state" where
  "DeviceHasAccessoryRight b = api b FEATURE_DEVICE 1 (\<lambda>argc. argc \<ge> 1) one_argument (\<lambda>argc argv.
     typed b (argv ! 0) napi_object must_be_accessory (do {
       accessory \<leftarrow> ParseAccessoryObj b (argv ! 0);
       r \<leftarrow> use_client b (client_HasAccessoryRight (cenv b) accessory False);
       if fst r = UEC_OK then get_boolean b (nullptr b) (snd r)
       else if fst r = UEC_SERVICE_ACCESSORY_NOT_MATCH
       then throw_null b UEC_ACCESSORY_NOT_MATCH ''Get accessory through getAccessoryList''
       else if fst r = UEC_SERVICE_DATABASE_OPERATION_FAILED
       then throw_null b UEC_COMMON_RIGHT_DATABASE_ERROR ''Database request operation exception''
       else throw_null b UEC_COMMON_SERVICE_EXCEPTION ''Service exception'' }))"

definition CoreRequestRight :: "('e, 'v, 'c, 'w, 'o, 'p, 'n) usb_binding_scheme \<Rightarrow> 'v list \<Rightarrow> (('e, 'v, 'p, 'w, 'm) usb_module_scheme, 'v) state" where
  "CoreRequestRight b = api b FEATURE_HOST 1 (\<lambda>argc. argc \<ge> 1) one_argument (\<lambda>argc argv.
     typed b (argv ! 0) napi_string ''The type of deviceName must be string.'' (do {
       deviceName \<leftarrow> JsValueToString b (argv ! 0) STR_DEFAULT_SIZE [];
       start_work b ''RequestRight'' (Request_Right deviceName) }))"

text \<open>The promise of a request for a right is resolved with the answer, also with \<open>False\<close>.\<close>

definition g_requestRightExecute :: "('e, 'v, 'c, 'w, 'o, 'p, 'n) usb_binding_scheme \<Rightarrow> string \<Rightarrow> (('e, 'v, 'p, 'w, 'm) usb_module_scheme, bool) state" where
  "g_requestRightExecute b deviceName = do {
     ret \<leftarrow> use_client b (client_RequestRight (cenv b) deviceName);
     State_Monad.return (ret = UEC_OK) }"

definition g_requestRightComplete :: "('e, 'v, 'c, 'w, 'o, 'p, 'n) usb_binding_scheme \<Rightarrow> 'v option \<Rightarrow> bool \<Rightarrow> (('e, 'v, 'p, 'w, 'm) usb_module_scheme, unit) state" where
  "g_requestRightComplete b deferred status_ok = do {
     queryResult \<leftarrow> get_boolean b (nullptr b) status_ok;
     ProcessPromise b deferred True queryResult }"

definition DeviceRequestAccessoryRight :: "('e, 'v, 'c, 'w, 'o, 'p, 'n) usb_binding_scheme \<Rightarrow> 'v list \<Rightarrow> (('e, 'v, 'p, 'w, 'm) usb_module_scheme, 'v) state" where
  "DeviceRequestAccessoryRight b = api b FEATURE_DEVICE 1 (\<lambda>argc. argc \<ge> 1) one_argument (\<lambda>argc argv.
     typed b (argv ! 0) napi_object must_be_accessory (do {
       accessory \<leftarrow> ParseAccessoryObj b (argv ! 0);
       start_work b ''RequestRight'' (Request_Accessory_Right accessory) }))"

definition g_requestAccessoryRightExecute :: "('e, 'v, 'c, 'w, 'o, 'p, 'n) usb_binding_scheme \<Rightarrow> USBAccessory \<Rightarrow>
    (('e, 'v, 'p, 'w, 'm) usb_module_scheme, retcode \<times> bool) state" where
  "g_requestAccessoryRightExecute b acc = use_client b (client_RequestAccessoryRight (cenv b) acc False)"

text \<open>The promise is rejected with an error.\<close>

definition reject_error :: "('e, 'v, 'c, 'w, 'o, 'p, 'n) usb_binding_scheme \<Rightarrow> 'v option \<Rightarrow> i32 \<Rightarrow> (('e, 'v, 'p, 'w, 'm) usb_module_scheme, unit) state" where
  "reject_error b deferred errCode = do {
     queryResult \<leftarrow> CreateBusinessError ERRCODE_MSG_MAP b errCode [];
     ProcessPromise b deferred False queryResult }"

definition finish_boolean :: "('e, 'v, 'c, 'w, 'o, 'p, 'n) usb_binding_scheme \<Rightarrow> 'v option \<Rightarrow> bool \<Rightarrow> bool \<Rightarrow> (('e, 'v, 'p, 'w, 'm) usb_module_scheme, unit) state" where
  "finish_boolean b deferred status_ok flag = do {
     queryResult \<leftarrow> get_boolean b (nullptr b) flag;
     ProcessPromise b deferred status_ok queryResult }"

definition g_requestAccessoryRightComplete :: "('e, 'v, 'c, 'w, 'o, 'p, 'n) usb_binding_scheme \<Rightarrow> 'v option \<Rightarrow> retcode \<times> bool \<Rightarrow>
    (('e, 'v, 'p, 'w, 'm) usb_module_scheme, unit) state" where
  "g_requestAccessoryRightComplete b deferred r =
     (if fst r = UEC_OK then finish_boolean b deferred True (snd r)
      else if fst r = UEC_SERVICE_ACCESSORY_NOT_MATCH then reject_error b deferred UEC_ACCESSORY_NOT_MATCH
      else if fst r = UEC_SERVICE_DATABASE_OPERATION_FAILED then reject_error b deferred UEC_COMMON_RIGHT_DATABASE_ERROR
      else reject_error b deferred UEC_COMMON_SERVICE_EXCEPTION)"

subsection \<open>Functions and ports\<close>

definition CoreUsbFunctionsFromString :: "('e, 'v, 'c, 'w, 'o, 'p, 'n) usb_binding_scheme \<Rightarrow> 'v list \<Rightarrow> (('e, 'v, 'p, 'w, 'm) usb_module_scheme, 'v) state" where
  "CoreUsbFunctionsFromString b = api b FEATURE_DEVICE 1 (\<lambda>argc. argc \<ge> 1) one_argument (\<lambda>argc argv.
     typed b (argv ! 0) napi_string ''The type of funcs must be string.'' (do {
       funcs \<leftarrow> JsValueToString b (argv ! 0) STR_DEFAULT_SIZE [];
       r \<leftarrow> use_client b (client_UsbFunctionsFromString (cenv b) funcs);
       let numFuncs = (case r of Inl ret \<Rightarrow> number b ret | Inr f \<Rightarrow> f) in
       assert_undef b (numFuncs \<noteq> number b UEC_SERVICE_PERMISSION_DENIED_SYSAPI) OHEC_COMMON_NORMAL_APP_NOT_ALLOWED
         (assert_undef b (numFuncs \<noteq> number b UEC_SERVICE_PERMISSION_DENIED_SYSAPI_FAILED) OHEC_COMMON_PERMISSION_NOT_ALLOWED
           (out_var (unset_value b) (napi_create_int32 b numFuncs))) }))"

definition CoreUsbFunctionsToString :: "('e, 'v, 'c, 'w, 'o, 'p, 'n) usb_binding_scheme \<Rightarrow> 'v list \<Rightarrow> (('e, 'v, 'p, 'w, 'm) usb_module_scheme, 'v) state" where
  "CoreUsbFunctionsToString b = api b FEATURE_DEVICE 1 (\<lambda>argc. argc \<ge> 1) one_argument (\<lambda>argc argv.
     typed b (argv ! 0) napi_number ''The type of funcs must be number.'' (do {
       funcs \<leftarrow> out_var (unset_int b) (napi_get_value_int32 b (argv ! 0));
       strFuncs \<leftarrow> use_client b (client_UsbFunctionsToString (cenv b) funcs);
       assert_undef b (strFuncs \<noteq> PERMISSION_DENIED_SYSAPI) OHEC_COMMON_NORMAL_APP_NOT_ALLOWED
         (assert_undef b (strFuncs \<noteq> SYS_APP_PERMISSION_DENIED_SYSAPI) OHEC_COMMON_PERMISSION_NOT_ALLOWED
           (out_var (unset_value b) (napi_create_string_utf8 b (c_str strFuncs)))) }))"

definition CoreSetCurrentFunctions :: "('e, 'v, 'c, 'w, 'o, 'p, 'n) usb_binding_scheme \<Rightarrow> 'v list \<Rightarrow> (('e, 'v, 'p, 'w, 'm) usb_module_scheme, 'v) state" where
  "CoreSetCurrentFunctions b = api b FEATURE_DEVICE 1 (\<lambda>argc. argc \<ge> 1) one_argument (\<lambda>argc argv.
     typed b (argv ! 0) napi_number ''The type of funcs must be number.'' (do {
       funcs \<leftarrow> out_var 0 (napi_get_value_int32 b (argv ! 0));
       start_work b ''SetCurrentFunctions'' (Set_Functions funcs) }))"

definition g_setCurrentFunctionExecute :: "('e, 'v, 'c, 'w, 'o, 'p, 'n) usb_binding_scheme \<Rightarrow> i32 \<Rightarrow> (('e, 'v, 'p, 'w, 'm) usb_module_scheme, retcode) state" where
  "g_setCurrentFunctionExecute b functions = use_client b (client_SetCurrentFunctions (cenv b) functions)"

definition g_setCurrentFunctionComplete :: "('e, 'v, 'c, 'w, 'o, 'p, 'n) usb_binding_scheme \<Rightarrow> 'v option \<Rightarrow> retcode \<Rightarrow>
    (('e, 'v, 'p, 'w, 'm) usb_module_scheme, unit) state" where
  "g_setCurrentFunctionComplete b deferred errCode =
     (if errCode = UEC_OK then finish_boolean b deferred True True
      else if errCode = UEC_SERVICE_PERMISSION_DENIED_SYSAPI then reject_error b deferred OHEC_COMMON_NORMAL_APP_NOT_ALLOWED
      else if errCode = UEC_SERVICE_PERMISSION_DENIED_SYSAPI_FAILED then reject_error b deferred OHEC_COMMON_PERMISSION_NOT_ALLOWED
      else if errCode = UEC_SERVICE_PERMISSION_CHECK_HDC then reject_error b deferred UEC_COMMON_HDC_NOT_ALLOWED
      else if errCode = UEC_SERVICE_FUNCTION_NOT_SUPPORT then reject_error b deferred UEC_COMMON_FUNCTION_NOT_SUPPORT
      else finish_boolean b deferred False False)"

definition CoreGetCurrentFunctions :: "('e, 'v, 'c, 'w, 'o, 'p, 'n) usb_binding_scheme \<Rightarrow> 'v list \<Rightarrow> (('e, 'v, 'p, 'w, 'm) usb_module_scheme, 'v) state" where
  "CoreGetCurrentFunctions b = api b FEATURE_DEVICE 1 (\<lambda>argc. argc = 0) ''The function takes no arguments.'' (\<lambda>argc argv. do {
     r \<leftarrow> use_client b (client_GetCurrentFunctions (cenv b) (unset_int b));
     sysapi_allowed b (fst r)
       (if fst r \<noteq> UEC_OK then out_var (unset_value b) (napi_get_undefined b)
        else out_var (unset_value b) (napi_create_int32 b (snd r))) })"

definition port_object :: "('e, 'v, 'n) napi_scheme \<Rightarrow> UsbPort \<Rightarrow> (('e, 'm) js_env_scheme, 'v) state" where
  "port_object n p = do {
     port \<leftarrow> out_var (unset_value n) (napi_create_object n);
     port \<leftarrow> SetValueInt32 n ''id'' (word_of_int (port_id p)) port;
     port \<leftarrow> SetValueInt32 n ''supportedModes'' (word_of_int (port_supportedModes p)) port;
     usbPortStatus \<leftarrow> out_var (unset_value n) (napi_create_object n);
     usbPortStatus \<leftarrow> SetValueInt32 n ''currentMode'' (word_of_int (port_currentMode p)) usbPortStatus;
     usbPortStatus \<leftarrow> SetValueInt32 n ''currentPowerRole'' (word_of_int (port_currentPowerRole p)) usbPortStatus;
     usbPortStatus \<leftarrow> SetValueInt32 n ''currentDataRole'' (word_of_int (port_currentDataRole p)) usbPortStatus;
     out_var port (napi_set_named_property n port ''status'' usbPortStatus) }"

definition CoreGetPorts :: "('e, 'v, 'c, 'w, 'o, 'p, 'n) usb_binding_scheme \<Rightarrow> 'v list \<Rightarrow> (('e, 'v, 'p, 'w, 'm) usb_module_scheme, 'v) state" where
  "CoreGetPorts b = api b FEATURE_PORT 1 (\<lambda>argc. argc = 0) ''The function takes no arguments.'' (\<lambda>argc argv. do {
     r \<leftarrow> use_client b (client_GetPorts (cenv b) []);
     sysapi_allowed b (fst r)
       (if fst r \<noteq> UEC_OK then out_var (unset_value b) (napi_get_undefined b)
        else js_array b (port_object b) (snd r)) })"

text \<open>The code of a failure is only logged: the modes are \<open>0\<close> then.\<close>

definition PortGetSupportedModes :: "('e, 'v, 'c, 'w, 'o, 'p, 'n) usb_binding_scheme \<Rightarrow> 'v list \<Rightarrow> (('e, 'v, 'p, 'w, 'm) usb_module_scheme, 'v) state" where
  "PortGetSupportedModes b = api b FEATURE_PORT 1 (\<lambda>argc. argc \<ge> 1) one_argument (\<lambda>argc argv.
     typed b (argv ! 0) napi_number ''The type of portId must be number.'' (do {
       id \<leftarrow> out_var 0 (napi_get_value_int32 b (argv ! 0));
       r \<leftarrow> use_client b (client_GetSupportedModes (cenv b) (sint id) 0);
       sysapi_allowed b (fst r) (do {
         v \<leftarrow> call (napi_create_int32 b (word_of_int (snd r)));
         case v of None \<Rightarrow> get_undefined b | Some napiValue \<Rightarrow> State_Monad.return napiValue }) }))"

definition PortSetPortRole :: "('e, 'v, 'c, 'w, 'o, 'p, 'n) usb_binding_scheme \<Rightarrow> 'v list \<Rightarrow> (('e, 'v, 'p, 'w, 'm) usb_module_scheme, 'v) state" where
  "PortSetPortRole b = api b FEATURE_PORT 3 (\<lambda>argc. argc \<ge> 3) ''The function at least takes three arguments.'' (\<lambda>argc argv.
     typed b (argv ! 0) napi_number ''The type of portId must be number.''
       (typed b (argv ! 1) napi_number ''The type of powerRole must be number.''
         (typed b (argv ! 2) napi_number ''The type of dataRole must be number.'' (do {
           id \<leftarrow> out_var 0 (napi_get_value_int32 b (argv ! 0));
           powerRole \<leftarrow> out_var 0 (napi_get_value_int32 b (argv ! 1));
           dataRole \<leftarrow> out_var 0 (napi_get_value_int32 b (argv ! 2));
           start_work b ''PortSetPortRole'' (Set_Port_Role id powerRole dataRole) }))))"

definition g_setPortRoleExecute :: "('e, 'v, 'c, 'w, 'o, 'p, 'n) usb_binding_scheme \<Rightarrow> i32 \<Rightarrow> i32 \<Rightarrow> i32 \<Rightarrow> (('e, 'v, 'p, 'w, 'm) usb_module_scheme, retcode) state" where
  "g_setPortRoleExecute b portId powerRole dataRole =
     use_client b (client_SetPortRole (cenv b) (sint portId) (sint powerRole) (sint dataRole))"

definition g_setPortRoleComplete :: "('e, 'v, 'c, 'w, 'o, 'p, 'n) usb_binding_scheme \<Rightarrow> 'v option \<Rightarrow> retcode \<Rightarrow>
    (('e, 'v, 'p, 'w, 'm) usb_module_scheme, unit) state" where
  "g_setPortRoleComplete b deferred errCode =
     (if errCode = UEC_OK then finish_boolean b deferred True True
      else if errCode = UEC_SERVICE_PERMISSION_DENIED_SYSAPI then reject_error b deferred OHEC_COMMON_NORMAL_APP_NOT_ALLOWED
      else if errCode = UEC_SERVICE_PERMISSION_DENIED_SYSAPI_FAILED then reject_error b deferred OHEC_COMMON_PERMISSION_NOT_ALLOWED
      else if errCode = UEC_SERVICE_NOT_SUPPORT_SWITCH_PORT then reject_error b deferred UEC_COMMON_PORTROLE_SWITCH_NOT_ALLOWED
      else finish_boolean b deferred False False)"

subsection \<open>Pipes\<close>

text \<open>A function on a pipe and a second object. The type of an argument that cannot be told is the one seen before.\<close>

definition pipe_api :: "('e, 'v, 'c, 'w, 'o, 'p, 'n) usb_binding_scheme \<Rightarrow> string \<Rightarrow> 'v list \<Rightarrow>
    (USBDevicePipe \<Rightarrow> (('e, 'm) js_env_scheme, 'v) state) \<Rightarrow> (('e, 'm) js_env_scheme, 'v) state" where
  "pipe_api b msg info body = api b FEATURE_HOST 1 (\<lambda>argc. argc \<ge> 1) msg (\<lambda>argc argv.
     object_argument b (unset_type b) (argv ! 0) must_be_pipe (\<lambda>type. do {
       pipe \<leftarrow> ParseUsbDevicePipe b (argv ! 0) new_pipe;
       body pipe })) info"

definition pipe_and :: "('e, 'v, 'c, 'w, 'o, 'p, 'n) usb_binding_scheme \<Rightarrow> nat \<Rightarrow> string \<Rightarrow> 'v list \<Rightarrow>
    (nat \<Rightarrow> 'v list \<Rightarrow> napi_valuetype \<Rightarrow> USBDevicePipe \<Rightarrow> (('e, 'm) js_env_scheme, 'v) state) \<Rightarrow> (('e, 'm) js_env_scheme, 'v) state" where
  "pipe_and b k msg info body = api b FEATURE_HOST k (\<lambda>argc. argc \<ge> 2) two_arguments (\<lambda>argc argv.
     object_argument b (unset_type b) (argv ! 0) must_be_pipe (\<lambda>type. do {
       pipe \<leftarrow> ParseUsbDevicePipe b (argv ! 0) new_pipe;
       object_argument b type (argv ! 1) msg (\<lambda>type. body argc argv type pipe) })) info"

abbreviation must_be_interface :: string where "must_be_interface \<equiv> ''The type of iface must be USBInterface.''"

definition create_code :: "('e, 'v, 'c, 'w, 'o, 'p, 'n) usb_binding_scheme \<Rightarrow> retcode \<Rightarrow> (('e, 'm) js_env_scheme, 'v) state" where
  "create_code b ret = out_var (unset_value b) (napi_create_int32 b (number b ret))"

definition PipeClaimInterface :: "('e, 'v, 'c, 'w, 'o, 'p, 'n) usb_binding_scheme \<Rightarrow> 'v list \<Rightarrow> (('e, 'v, 'p, 'w, 'm) usb_module_scheme, 'v) state" where
  "PipeClaimInterface b info = pipe_and b 3 must_be_interface info (\<lambda>argc argv type pipe. do {
     interface \<leftarrow> ParseInterfaceObj b (argv ! 1) new_interface;
     isForce \<leftarrow> (if argc \<ge> 3 then do {
         type \<leftarrow> out_var type (napi_typeof b (argv ! 2));
         if type = napi_boolean then out_var False (napi_get_value_bool b (argv ! 2)) else State_Monad.return False }
       else State_Monad.return False);
     ret \<leftarrow> use_client b (client_ClaimInterface pipe interface isForce);
     create_code b ret })"

definition PipeReleaseInterface :: "('e, 'v, 'c, 'w, 'o, 'p, 'n) usb_binding_scheme \<Rightarrow> 'v list \<Rightarrow> (('e, 'v, 'p, 'w, 'm) usb_module_scheme, 'v) state" where
  "PipeReleaseInterface b info = pipe_and b 2 must_be_interface info (\<lambda>argc argv type pipe. do {
     interface \<leftarrow> ParseInterfaceObj b (argv ! 1) new_interface;
     ret \<leftarrow> use_client b (client_ReleaseInterface pipe interface);
     create_code b ret })"

definition PipeSetInterface :: "('e, 'v, 'c, 'w, 'o, 'p, 'n) usb_binding_scheme \<Rightarrow> 'v list \<Rightarrow> (('e, 'v, 'p, 'w, 'm) usb_module_scheme, 'v) state" where
  "PipeSetInterface b info = pipe_and b 2 must_be_interface info (\<lambda>argc argv type pipe. do {
     interface \<leftarrow> ParseInterfaceObj b (argv ! 1) new_interface;
     ret \<leftarrow> use_client b (client_SetInterface pipe interface);
     create_code b ret })"

definition PipeSetConfiguration :: "('e, 'v, 'c, 'w, 'o, 'p, 'n) usb_binding_scheme \<Rightarrow> 'v list \<Rightarrow> (('e, 'v, 'p, 'w, 'm) usb_module_scheme, 'v) state" where
  "PipeSetConfiguration b info = pipe_and b 2 ''The type of config must be USBConfig.'' info (\<lambda>argc argv type pipe. do {
     config \<leftarrow> ParseConfigObj b (argv ! 1) new_config;
     ret \<leftarrow> use_client b (client_SetConfiguration pipe config);
     create_code b ret })"

definition PipeGetRawDescriptors :: "('e, 'v, 'c, 'w, 'o, 'p, 'n) usb_binding_scheme \<Rightarrow> 'v list \<Rightarrow> (('e, 'v, 'p, 'w, 'm) usb_module_scheme, 'v) state" where
  "PipeGetRawDescriptors b info = pipe_api b one_argument info (\<lambda>pipe. do {
     r \<leftarrow> use_client b (client_GetRawDescriptors (cenv b) pipe []);
     if fst r = UEC_OK then Uint8ArrayToJsValue b (snd r) (unset_value b)
     else out_var (unset_value b) (napi_get_undefined b) })"

definition PipeGetFileDescriptor :: "('e, 'v, 'c, 'w, 'o, 'p, 'n) usb_binding_scheme \<Rightarrow> 'v list \<Rightarrow> (('e, 'v, 'p, 'w, 'm) usb_module_scheme, 'v) state" where
  "PipeGetFileDescriptor b info = pipe_api b one_argument info (\<lambda>pipe. do {
     r \<leftarrow> use_client b (client_GetFileDescriptor (cenv b) pipe (- 1));
     out_var (unset_value b) (napi_create_int32 b (word_of_int (snd r))) })"

definition PipeResetDevice :: "('e, 'v, 'c, 'w, 'o, 'p, 'n) usb_binding_scheme \<Rightarrow> 'v list \<Rightarrow> (('e, 'v, 'p, 'w, 'm) usb_module_scheme, 'v) state" where
  "PipeResetDevice b info = pipe_api b one_argument info (\<lambda>pipe. do {
     ret \<leftarrow> use_client b (client_ResetDevice (cenv b) pipe);
     (if ret = UEC_OK then State_Monad.return ()
      else if ret = Code (HDF_ERR_NO_DEVICE b) \<or> ret = UEC_INTERFACE_NAME_NOT_FOUND
      then throw_error b USB_SUBMIT_TRANSFER_NO_DEVICE_ERROR ''Submit transfer no device.''
      else if ret = UEC_SERVICE_PERMISSION_DENIED then throw_error b UEC_COMMON_HAS_NO_RIGHT ''No permission.''
      else if ret = Code (HDF_ERR_FAILURE b) then throw_error b USB_DEVICE_PIPE_CHECK_ERROR ''Check devicePipe failed.''
      else if ret = UEC_SERVICE_INVALID_VALUE then throw_error b UEC_COMMON_SERVICE_EXCEPTION ''Service exception''
      else throw_error b USB_SUBMIT_TRANSFER_OTHER_ERROR ''Other USB error'');
     get_boolean b (unset_value b) (ret = UEC_OK) })"

definition PipeClose :: "('e, 'v, 'c, 'w, 'o, 'p, 'n) usb_binding_scheme \<Rightarrow> 'v list \<Rightarrow> (('e, 'v, 'p, 'w, 'm) usb_module_scheme, 'v) state" where
  "PipeClose b info = pipe_api b ''The function takes one argument.'' info (\<lambda>pipe. do {
     ret \<leftarrow> use_client b (pipe_Close (cenv b) pipe);
     create_code b ret })"

definition SEVVERSION :: string where "SEVVERSION = ''001'' @ ''.'' @ ''001'' @ ''.'' @ ''025''"

definition client_GetVersion :: string where "client_GetVersion = SEVVERSION"

definition GetVersion :: "('e, 'v, 'n) napi_scheme \<Rightarrow> 'v list \<Rightarrow> (('e, 'm) js_env_scheme, 'v) state" where
  "GetVersion b info = out_var (unset_value b) (napi_create_string_utf8 b (c_str client_GetVersion))"

subsection \<open>The constants\<close>

definition SetEnumProperty :: "('e, 'v, 'n) napi_scheme \<Rightarrow> 'v \<Rightarrow> string \<times> i32 \<Rightarrow> (('e, 'm) js_env_scheme, 'v) state" where
  "SetEnumProperty n obj p =
     (if fst p = [] then State_Monad.return obj
      else do {
        v \<leftarrow> call (napi_create_int32 n (snd p));
        case v of None \<Rightarrow> State_Monad.return obj
        | Some tempValue \<Rightarrow> out_var obj (napi_set_named_property n obj (fst p) tempValue) })"

fun set_enum_properties :: "('e, 'v, 'n) napi_scheme \<Rightarrow> (string \<times> i32) list \<Rightarrow> 'v \<Rightarrow> (('e, 'm) js_env_scheme, 'v) state" where
  "set_enum_properties n [] obj = State_Monad.return obj"
| "set_enum_properties n (p # ps) obj = do { obj' \<leftarrow> SetEnumProperty n obj p; set_enum_properties n ps obj' }"

definition enum_object :: "('e, 'v, 'n) napi_scheme \<Rightarrow> (string \<times> i32) list \<Rightarrow> (('e, 'm) js_env_scheme, 'v) state" where
  "enum_object n ps = do {
     r \<leftarrow> call (napi_create_object n);
     case r of None \<Rightarrow> State_Monad.return (nullptr n) | Some obj \<Rightarrow> set_enum_properties n ps obj }"

definition transfer_flags :: "(string \<times> i32) list" where
  "transfer_flags = [(''USB_TRANSFER_SHORT_NOT_OK'', 0), (''USB_TRANSFER_FREE_BUFFER'', 1), (''USB_TRANSFER_FREE_TRANSFER'', 2),
     (''USB_TRANSFER_ADD_ZERO_PACKET'', 3)]"

definition transfer_types :: "(string \<times> i32) list" where
  "transfer_types = [(''TRANSFER_TYPE_ISOCHRONOUS'', 1), (''TRANSFER_TYPE_BULK'', 2), (''TRANSFER_TYPE_INTERRUPT'', 3)]"

definition transfer_statuses :: "(string \<times> i32) list" where
  "transfer_statuses = [(''TRANSFER_COMPLETED'', 0), (''TRANSFER_ERROR'', 1), (''TRANSFER_TIMED_OUT'', 2), (''TRANSFER_CANCELED'', 3),
     (''TRANSFER_STALL'', 4), (''TRANSFER_NO_DEVICE'', 5), (''TRANSFER_OVERFLOW'', 6)]"

definition power_roles :: "(string \<times> i32) list" where
  "power_roles = [(''NONE'', 0), (''SOURCE'', 1), (''SINK'', 2)]"

definition data_roles :: "(string \<times> i32) list" where
  "data_roles = [(''HOST'', 1), (''DEVICE'', 2)]"

definition port_modes :: "(string \<times> i32) list" where
  "port_modes = [(''UFP'', 1), (''DFP'', 2), (''DRP'', 3), (''NUM_MODES'', 4)]"

definition request_targets :: "(string \<times> i32) list" where
  "request_targets = [(''USB_REQUEST_TARGET_DEVICE'', 0), (''USB_REQUEST_TARGET_INTERFACE'', 1),
     (''USB_REQUEST_TARGET_ENDPOINT'', 2), (''USB_REQUEST_TARGET_OTHER'', 3)]"

definition request_types :: "(string \<times> i32) list" where
  "request_types = [(''USB_REQUEST_TYPE_STANDARD'', 0), (''USB_REQUEST_TYPE_CLASS'', 1), (''USB_REQUEST_TYPE_VENDOR'', 2)]"

definition request_directions :: "(string \<times> i32) list" where
  "request_directions = [(''USB_REQUEST_DIR_TO_DEVICE'', 0), (''USB_REQUEST_DIR_FROM_DEVICE'', 0x80)]"

definition function_types :: "(string \<times> i32) list" where
  "function_types = [(''ACM'', 1), (''ECM'', 2), (''HDC'', 4), (''MTP'', 8), (''PTP'', 16), (''RNDIS'', 32), (''MIDI'', 64),
     (''AUDIO_SOURCE'', 128), (''NCM'', 256), (''STORAGE'', 512)]"

definition NapiCreateFlagsEnum :: "('e, 'v, 'n) napi_scheme \<Rightarrow> (('e, 'm) js_env_scheme, 'v) state" where
  "NapiCreateFlagsEnum n = enum_object n transfer_flags"

definition NapiCreateTypeEnum :: "('e, 'v, 'n) napi_scheme \<Rightarrow> (('e, 'm) js_env_scheme, 'v) state" where
  "NapiCreateTypeEnum n = enum_object n transfer_types"

definition NapiCreateStatusEnum :: "('e, 'v, 'n) napi_scheme \<Rightarrow> (('e, 'm) js_env_scheme, 'v) state" where
  "NapiCreateStatusEnum n = enum_object n transfer_statuses"

definition PowerRoleTypeEnum :: "('e, 'v, 'n) napi_scheme \<Rightarrow> (('e, 'm) js_env_scheme, 'v) state" where
  "PowerRoleTypeEnum n = enum_object n power_roles"

definition DataRoleTypeEnum :: "('e, 'v, 'n) napi_scheme \<Rightarrow> (('e, 'm) js_env_scheme, 'v) state" where
  "DataRoleTypeEnum n = enum_object n data_roles"

definition PortModeTypeEnum :: "('e, 'v, 'n) napi_scheme \<Rightarrow> (('e, 'm) js_env_scheme, 'v) state" where
  "PortModeTypeEnum n = enum_object n port_modes"

definition USBRequestTargetTypeEnum :: "('e, 'v, 'n) napi_scheme \<Rightarrow> (('e, 'm) js_env_scheme, 'v) state" where
  "USBRequestTargetTypeEnum n = enum_object n request_targets"

definition USBControlRequestTypeEnum :: "('e, 'v, 'n) napi_scheme \<Rightarrow> (('e, 'm) js_env_scheme, 'v) state" where
  "USBControlRequestTypeEnum n = enum_object n request_types"

definition USBRequestDirectionEnum :: "('e, 'v, 'n) napi_scheme \<Rightarrow> (('e, 'm) js_env_scheme, 'v) state" where
  "USBRequestDirectionEnum n = enum_object n request_directions"

definition FunctionTypeEnum :: "('e, 'v, 'n) napi_scheme \<Rightarrow> (('e, 'm) js_env_scheme, 'v) state" where
  "FunctionTypeEnum n = enum_object n function_types"

definition ToInt32Value :: "('e, 'v, 'n) napi_scheme \<Rightarrow> i32 \<Rightarrow> (('e, 'm) js_env_scheme, 'v) state" where
  "ToInt32Value n i = out_var (nullptr n) (napi_create_int32 n i)"

text \<open>The initialisers of an array of property descriptors, in their order.\<close>

fun create_values :: "(string \<times> ('s, 'v) state) list \<Rightarrow> ('s, (string \<times> 'v) list) state" where
  "create_values [] = State_Monad.return []"
| "create_values ((name, c) # cs) = do { v \<leftarrow> c; vs \<leftarrow> create_values cs; State_Monad.return ((name, v) # vs) }"

definition members :: "('e, 'v, 'n) napi_scheme \<Rightarrow> (string \<times> i32) list \<Rightarrow> (string \<times> (('e, 'm) js_env_scheme, 'v) state) list" where
  "members n ps = map (\<lambda>(name, i). (name, ToInt32Value n i)) ps"

text \<open>Each enumeration is exported as an object, and the first seven also member by member.\<close>

definition enum_descriptors :: "('e, 'v, 'n) napi_scheme \<Rightarrow> (string \<times> (('e, 'm) js_env_scheme, 'v) state) list" where
  "enum_descriptors n = members n power_roles @ [(''PowerRoleType'', PowerRoleTypeEnum n)] @
     members n data_roles @ [(''DataRoleType'', DataRoleTypeEnum n)] @
     members n port_modes @ [(''PortModeType'', PortModeTypeEnum n)] @
     members n request_targets @ [(''USBRequestTargetType'', USBRequestTargetTypeEnum n)] @
     members n request_types @ [(''USBControlRequestType'', USBControlRequestTypeEnum n)] @
     members n request_directions @ [(''USBRequestDirection'', USBRequestDirectionEnum n)] @
     members n function_types @ [(''FunctionType'', FunctionTypeEnum n), (''UsbTransferFlags'', NapiCreateFlagsEnum n),
       (''UsbEndpointTransferType'', NapiCreateTypeEnum n), (''UsbTransferStatus'', NapiCreateStatusEnum n)]"

definition DeclareEnum :: "('e, 'v, 'c, 'w, 'o, 'p, 'n) usb_binding_scheme \<Rightarrow> 'v \<Rightarrow> (('e, 'm) js_env_scheme, 'v) state" where
  "DeclareEnum b exports = do {
     desc \<leftarrow> create_values (enum_descriptors b);
     r \<leftarrow> call (napi_define_properties b exports desc);
     State_Monad.return (case r of None \<Rightarrow> nullptr b | Some exports' \<Rightarrow> exports') }"

subsection \<open>How a call runs\<close>

lemma quietlyD:
  assumes "quietly pend m P" and "pend (engine s) = None"
  obtains x e where "run_state m s = (x, s\<lparr>engine := e\<rparr>)" and "pend e = None" and "P x"
  using assms unfolding quietly_def by blast

lemma engine_twice [simp]: "s\<lparr>engine := e, engine := e'\<rparr> = s\<lparr>engine := e'\<rparr>"
  by simp

lemma api_one_argument:
  assumes "napi_law b view pend" and "HasFeature b feature" and "pend (engine s) = None"
  obtains e where "pend e = None"
    and "run_state (api b feature 1 (\<lambda>argc. argc \<ge> 1) msg body [v]) s = run_state (body 1 [v]) (s\<lparr>engine := e\<rparr>)"
proof -
  obtain r e where r: "run_state (call (napi_get_cb_info b [v] 1)) s = (r, s\<lparr>engine := e\<rparr>)" "pend e = None"
    "\<exists>x. r = Some x \<and> (case x of (argc, argv) \<Rightarrow> argc = length [v] \<and> length argv = 1 \<and>
      (\<forall>i < 1. if i < length [v] then argv ! i = [v] ! i else view (argv ! i) = JUndefined))"
    using quietlyD [OF quietly_call [OF napi_arguments(1) [OF assms(1)]] assms(3)] by blast
  then obtain argv where "r = Some (1, argv)" "length argv = 1" "argv ! 0 = v" by force
  then have "r = Some (1, [v])" by (auto simp: length_Suc_conv)
  with r assms(2) show ?thesis by (intro that [of e]) (simp_all add: api_def run_bind param_check_def)
qed

lemma api_no_arguments_run:
  assumes "napi_law b view pend" and "HasFeature b feature" and "pend (engine s) = None"
  obtains e where "pend e = None" and "run_state (api_no_arguments b feature body []) s = run_state body (s\<lparr>engine := e\<rparr>)"
proof -
  obtain r e where r: "run_state (out_var (1, [nullptr b]) (napi_get_cb_info b [] 1)) s = (r, s\<lparr>engine := e\<rparr>)" "pend e = None"
    "case r of (argc, argv) \<Rightarrow> argc = length ([] :: 'b list) \<and> length argv = 1 \<and>
      (\<forall>i < 1. if i < length ([] :: 'b list) then argv ! i = [] ! i else view (argv ! i) = JUndefined)"
    using quietlyD [OF quietly_out_var [OF napi_arguments(1) [OF assms(1)]] assms(3)] by blast
  with assms(2) show ?thesis
    by (intro that [of e]) (auto simp: api_no_arguments_def run_bind param_check_def split: prod.splits)
qed

lemma quiet_next:
  assumes "quietly pend m P" and "pend e\<^sub>0 = None"
  obtains x e where "run_state m (s\<lparr>engine := e\<^sub>0\<rparr>) = (x, s\<lparr>engine := e\<rparr>)" and "pend e = None" and "P x"
  using quietlyD [OF assms(1), of "s\<lparr>engine := e\<^sub>0\<rparr>"] assms(2) by auto

lemma typed_run:
  assumes "napi_law n view pend" and "js_type (view v) = Some ty" and "pend e\<^sub>0 = None"
  obtains e where "pend e = None" and "run_state (typed n v ty msg body) (s\<lparr>engine := e\<^sub>0\<rparr>) = run_state body (s\<lparr>engine := e\<rparr>)"
proof -
  obtain r e where "run_state (call (napi_typeof n v)) (s\<lparr>engine := e\<^sub>0\<rparr>) = (r, s\<lparr>engine := e\<rparr>)" "pend e = None" "\<exists>x. r = Some x \<and> x = ty"
    by (rule quiet_next [OF quietly_call [OF napi_readsD(1) [OF assms(1,2)]] assms(3)])
  then show ?thesis by (intro that [of e]) (auto simp: typed_def run_bind param_check_def)
qed

lemma object_argument_run:
  assumes "napi_law n view pend" and "js_type (view v) = Some napi_object" and "pend e\<^sub>0 = None"
  obtains e where "pend e = None"
    and "run_state (object_argument n old v msg body) (s\<lparr>engine := e\<^sub>0\<rparr>) = run_state (body napi_object) (s\<lparr>engine := e\<rparr>)"
proof -
  obtain r e where "run_state (out_var old (napi_typeof n v)) (s\<lparr>engine := e\<^sub>0\<rparr>) = (r, s\<lparr>engine := e\<rparr>)" "pend e = None" "r = napi_object"
    by (rule quiet_next [OF quietly_out_var [OF napi_readsD(1) [OF assms(1,2)]] assms(3)])
  then show ?thesis by (intro that [of e]) (auto simp: object_argument_def run_bind param_check_def)
qed

subsection \<open>What is thrown\<close>

definition thrown :: "('v \<Rightarrow> js) \<Rightarrow> ('e \<Rightarrow> 'v option) \<Rightarrow> 'e \<Rightarrow> i32 \<Rightarrow> bool" where
  "thrown view pend e code \<longleftrightarrow> (\<exists>x t. pend e = Some x \<and> view x = JError t [(''code'', JNumber (sint code))])"

lemma napi_throwsD:
  assumes "napi_law n view pend"
  shows "view v = JString t \<Longrightarrow> returns pend (napi_create_error n v) (\<lambda>x. view x = JError t [])"
    and "view v = JError t fs \<Longrightarrow>
        returns pend (napi_set_named_property n v key x) (\<lambda>v'. view v' = JError t (AList.update key (view x) fs))"
    and "pend e = None \<Longrightarrow> pend (snd (run_state (napi_throw n v) e)) = Some v"
  using assms unfolding napi_law_def napi_throws_def by simp_all

lemma napi_patient:
  assumes "napi_law n view pend"
  shows "patient pend (napi_throw n v)" and "patient pend (napi_typeof n v)" and "patient pend (napi_has_named_property n v key)"
    and "patient pend (napi_get_named_property n v key)" and "patient pend (napi_set_named_property n v key x)"
    and "patient pend (napi_get_value_int32 n v)" and "patient pend (napi_create_string_utf8 n t)"
    and "patient pend (napi_create_int32 n i)" and "patient pend (napi_create_error n v)" and "patient pend (napi_get_undefined n)"
    and "patient pend (napi_get_boolean n flag)" and "patient pend (napi_create_object n)"
  using assms unfolding napi_law_def napi_throws_def by simp_all

lemma CreateBusinessError_quiet:
  assumes "napi_law n view pend" and "map_of msgs code = Some m" and "utf8 (m @ msg)"
  shows "quietly pend (CreateBusinessError msgs n code msg) (\<lambda>x. view x = JError (m @ msg) [(''code'', JNumber (sint code))])"
proof -
  have set_code: "quietly pend (out_var err (napi_set_named_property n err ''code'' c))
      (\<lambda>x. view x = JError (m @ msg) [(''code'', JNumber (sint code))])"
    if "view err = JError (m @ msg) []" and "view c = JNumber (sint code)" for err c
    using quietly_out_var [OF napi_throwsD(2) [OF assms(1) that(1), of "''code''" c]] that(2) by simp
  have err: "quietly pend (out_var (nullptr n) (napi_create_error n message)) (\<lambda>x. view x = JError (m @ msg) [])"
    if "view message = JString (m @ msg)" for message
    by (rule quietly_out_var [OF napi_throwsD(1) [OF assms(1) that]])
  show ?thesis
    unfolding CreateBusinessError_def GetErrMsgByErrCode_def assms(2) option.case utf8_c_str [OF assms(3)]
    by (rule quietly_case_call [OF napi_writesD(3) [OF assms(1,3)]], rule quietly_case_call [OF napi_writesD(4) [OF assms(1)]],
      rule quietly_bind [OF err], assumption, rule set_code)
qed

lemma throws_error:
  assumes "napi_law n view pend" and "map_of msgs code = Some m" and "utf8 (m @ msg)" and "pend (engine s) = None"
  obtains e where "run_state (ThrowBusinessError msgs n code msg) s = ((), s\<lparr>engine := e\<rparr>)" and "thrown view pend e code"
proof -
  obtain x e where x: "run_state (CreateBusinessError msgs n code msg) s = (x, s\<lparr>engine := e\<rparr>)" "pend e = None"
    "view x = JError (m @ msg) [(''code'', JNumber (sint code))]"
    using quietlyD [OF CreateBusinessError_quiet [OF assms(1-3)] assms(4)] by blast
  obtain r e' where t: "run_state (napi_throw n x) e = (r, e')" by (metis prod.exhaust)
  then have "pend e' = Some x" using napi_throwsD(3) [OF assms(1) x(2), of x] by simp
  with x t show ?thesis
    by (intro that [of e']) (auto simp: ThrowBusinessError_def run_bind run_return call_def thrown_def)
qed

text \<open>A function that runs on while an exception is pending keeps it.\<close>

definition stubborn :: "('e \<Rightarrow> 'v option) \<Rightarrow> (('e, 'm) js_env_scheme, 'a) state \<Rightarrow> bool" where
  "stubborn pend m \<longleftrightarrow> (\<forall>s x. pend (engine s) = Some x \<longrightarrow>
     (\<exists>y e'. run_state m s = (y, s\<lparr>engine := e'\<rparr>) \<and> pend e' = Some x))"

lemma stubbornD:
  assumes "stubborn pend m" and "pend (engine s) = Some x"
  obtains y e where "run_state m s = (y, s\<lparr>engine := e\<rparr>)" and "pend e = Some x"
  using assms unfolding stubborn_def by blast

lemma stubborn_return: "stubborn pend (State_Monad.return x)"
  unfolding stubborn_def run_return by (metis engine_same)

lemma stubborn_bind:
  assumes "stubborn pend m" and "\<And>x. stubborn pend (f x)"
  shows "stubborn pend (m \<bind> f)"
  unfolding stubborn_def
proof (intro allI impI)
  fix s :: "('a, 'c) js_env_scheme" and x
  assume "pend (engine s) = Some x"
  then obtain y e where y: "run_state m s = (y, s\<lparr>engine := e\<rparr>)" "pend e = Some x" using stubbornD [OF assms(1)] by blast
  then have "pend (engine (s\<lparr>engine := e\<rparr>)) = Some x" by simp
  then obtain z e' where "run_state (f y) (s\<lparr>engine := e\<rparr>) = (z, s\<lparr>engine := e\<rparr>\<lparr>engine := e'\<rparr>)" "pend e' = Some x"
    using stubbornD [OF assms(2)] by blast
  with y show "\<exists>z e'. run_state (m \<bind> f) s = (z, s\<lparr>engine := e'\<rparr>) \<and> pend e' = Some x" by (auto simp: run_bind)
qed

lemma stubborn_call:
  assumes "patient pend c"
  shows "stubborn pend (call c)"
  unfolding stubborn_def
proof (intro allI impI)
  fix s and x
  assume "pend (engine s) = Some x"
  then have "pend (snd (run_state c (engine s))) = Some x" using assms by (simp add: patient_def)
  then show "\<exists>y e'. run_state (call c) s = (y, s\<lparr>engine := e'\<rparr>) \<and> pend e' = Some x"
    by (cases "run_state c (engine s)") (auto simp: call_def)
qed

lemma stubborn_out_var: "patient pend c \<Longrightarrow> stubborn pend (out_var old c)"
  unfolding out_var_def by (intro stubborn_bind stubborn_call stubborn_return)

lemma stubborn_error:
  assumes "napi_law n view pend"
  shows "stubborn pend (CreateBusinessError msgs n code msg)" and "stubborn pend (ThrowBusinessError msgs n code msg)"
proof -
  note p = napi_patient [OF assms]
  show c: "stubborn pend (CreateBusinessError msgs n code msg)" for msg
    unfolding CreateBusinessError_def
    by (auto split: option.split intro!: stubborn_bind stubborn_call stubborn_out_var stubborn_return p)
  show "stubborn pend (ThrowBusinessError msgs n code msg)"
    unfolding ThrowBusinessError_def by (intro stubborn_bind stubborn_call stubborn_return c p)
qed

lemma stubborn_if: "stubborn pend m \<Longrightarrow> stubborn pend k \<Longrightarrow> stubborn pend (if c then m else k)"
  by simp

lemma stubborn_assert: "napi_law n view pend \<Longrightarrow> stubborn pend k \<Longrightarrow> stubborn pend (usb_assert msgs n assertion code msg old k)"
  unfolding usb_assert_def by (intro stubborn_if stubborn_bind stubborn_error stubborn_return)

lemma stubborn_JsObjectToInt:
  assumes "napi_law n view pend"
  shows "stubborn pend (JsObjectToInt msgs n v key old)"
  unfolding JsObjectToInt_def js_field_def
  by (intro stubborn_bind stubborn_if stubborn_assert [OF assms] stubborn_out_var stubborn_return napi_patient [OF assms])

lemma map_of_skip: "k \<noteq> k' \<Longrightarrow> map_of xs k = r \<Longrightarrow> map_of ((k', v) # xs) k = r"
  by simp

lemma map_of_hit: "k = k' \<Longrightarrow> map_of ((k', v) # xs) k = Some v"
  by simp

lemma param_message: "map_of ERRCODE_MSG_MAP OHEC_COMMON_PARAM_ERROR = Some ''BusinessError 401:Parameter error.''"
  unfolding ERRCODE_MSG_MAP_def
  by ((rule map_of_skip, (simp add: js_code_defs; fail))+, rule map_of_hit, simp)

text \<open>A property of another type throws and leaves the variable as it was.\<close>

lemma JsObjectToInt_throws:
  assumes "napi_law n view pend" and "view v = JObject fs" and "map_of fs key = Some j" and "js_type j = Some ty" and "ty \<noteq> napi_number"
    and "utf8 (''BusinessError 401:Parameter error.'' @ ''The type of '' @ key @ '' must be number.'')" and "pend (engine s) = None"
  obtains e where "run_state (js_int n v key old) s = (old, s\<lparr>engine := e\<rparr>)" and "thrown view pend e OHEC_COMMON_PARAM_ERROR"
proof -
  obtain e1 where 1: "run_state (out_var False (napi_has_named_property n v key)) s = (True, s\<lparr>engine := e1\<rparr>)" "pend e1 = None"
    using quietlyD [OF quietly_out_var [OF napi_readsD(2) [OF assms(1,2)]] assms(7)] assms(3) by (metis option.distinct(1))
  obtain f e2 where 2: "run_state (out_var (unset_value n) (napi_get_named_property n v key)) (s\<lparr>engine := e1\<rparr>) = (f, s\<lparr>engine := e2\<rparr>)"
    "pend e2 = None" "view f = j"
    using quietlyD [OF quietly_out_var [OF napi_readsD(3) [OF assms(1,2,3)]], of "s\<lparr>engine := e1\<rparr>"] 1(2) by auto
  then have t: "js_type (view f) = Some ty" using assms(4) by simp
  obtain e3 where 3: "run_state (out_var (unset_type n) (napi_typeof n f)) (s\<lparr>engine := e2\<rparr>) = (ty, s\<lparr>engine := e3\<rparr>)" "pend e3 = None"
    using quietlyD [OF quietly_out_var [OF napi_readsD(1) [OF assms(1) t]], of "s\<lparr>engine := e2\<rparr>"] 2(2) by auto
  obtain e where e: "run_state (ThrowBusinessError ERRCODE_MSG_MAP n OHEC_COMMON_PARAM_ERROR (''The type of '' @ key @ '' must be '' @ ''number.''))
      (s\<lparr>engine := e3\<rparr>) = ((), s\<lparr>engine := e3\<rparr>\<lparr>engine := e\<rparr>)" "thrown view pend e OHEC_COMMON_PARAM_ERROR"
    using throws_error [OF assms(1) param_message, of "''The type of '' @ key @ '' must be '' @ ''number.''" "s\<lparr>engine := e3\<rparr>"] assms(6) 3(2) by auto
  show ?thesis
    by (rule that [of e]) (use 1 2 3 e assms(5) in \<open>simp_all add: js_int_def JsObjectToInt_def js_field_def run_bind run_return usb_assert_def\<close>)
qed

subsection \<open>From the list of devices to a pipe\<close>

lemma use_client_run:
  "run_state (use_client b op) s = (case op (csrv b) (client s) (world s) of (r, cl, w) \<Rightarrow> (r, s\<lparr>client := cl, world := w\<rparr>))"
  by (simp add: use_client_def)

lemma quietly_after_call:
  assumes "quietly pend m P" and "returns pend c Q"
  shows "quietly pend (do { _ \<leftarrow> call c; m }) P"
  by (rule quietly_bind [OF quietly_call [OF assms(2)]]) (rule assms(1))

lemma device_elements_quiet:
  fixes n :: "('e, 'v, 'n) napi_scheme"
  assumes "napi_law n view pend" and "\<forall>d \<in> set ds. device_readable d" and "view arr = JArray js"
  shows "quietly pend (set_elements n (\<lambda>ent1. do { _ \<leftarrow> call (napi_create_object n); CtoJSUsbDevice n ent1 }) (length js) ds arr
      :: (('e, 'm) js_env_scheme, 'v) state) (\<lambda>v. view v = JArray (js @ map device_js ds))"
  using assms(2,3)
proof (induction ds arbitrary: arr js)
  case Nil
  then show ?case by (simp add: quietly_return)
next
  case (Cons d ds)
  have "device_readable d" using Cons.prems(1) by simp
  note obj = quietly_after_call [OF device_js.to_js [OF assms(1) this] napi_writesD(1) [OF assms(1)]]
  show ?case unfolding set_elements.simps
  proof (rule quietly_bind [OF obj], rule quietly_bind [OF quietly_out_var [OF napi_writesD(9) [OF assms(1) Cons.prems(2)]]])
    fix v arr' assume "view v = device_js d" and "view arr' = JArray (js @ [view v])"
    then show "quietly pend (set_elements n (\<lambda>ent1. call (napi_create_object n) \<bind> (\<lambda>_. CtoJSUsbDevice n ent1)) (Suc (length js)) ds arr'
        :: (('e, 'm) js_env_scheme, 'v) state) (\<lambda>v. view v = JArray (js @ map device_js (d # ds)))"
      using Cons.IH [of arr' "js @ [device_js d]"] Cons.prems(1) by simp
  qed
qed

lemma CoreGetDevices_run:
  assumes "napi_law b view pend" and "feature_host b" and "pend (engine s) = None"
    and "client_GetDevices (cenv b) [] (csrv b) (client s) (world s) = ((UEC_OK, ds), cl, w)" and "\<forall>d \<in> set ds. device_readable d"
  obtains v e where "run_state (CoreGetDevices b []) s = (v, s\<lparr>engine := e, client := cl, world := w\<rparr>)" and "pend e = None"
    and "view v = JArray (map device_js ds)"
proof -
  have hf: "HasFeature b FEATURE_HOST" by (simp add: HasFeature_def assms(2))
  let ?body = "do {
      r \<leftarrow> use_client b (client_GetDevices (cenv b) []);
      result \<leftarrow> out_var (unset_value b) (napi_create_array b);
      if fst r \<noteq> UEC_OK then State_Monad.return result
      else set_elements b (\<lambda>ent1. do { _ \<leftarrow> call (napi_create_object b); CtoJSUsbDevice b ent1 }) 0 (snd r) result }"
  obtain e1 where 1: "pend e1 = None" "run_state (CoreGetDevices b []) s = run_state ?body (s\<lparr>engine := e1\<rparr>)"
    unfolding CoreGetDevices_def by (rule api_no_arguments_run [OF assms(1) hf assms(3), where body = ?body])
  let ?s = "s\<lparr>engine := e1, client := cl, world := w\<rparr>"
  have q: "quietly pend (do { result \<leftarrow> out_var (unset_value b) (napi_create_array b);
      set_elements b (\<lambda>ent1. do { _ \<leftarrow> call (napi_create_object b); CtoJSUsbDevice b ent1 }) 0 ds result }) (\<lambda>v. view v = JArray (map device_js ds))"
    by (rule quietly_bind [OF quietly_out_var [OF napi_writesD(2) [OF assms(1)]]])
      (use device_elements_quiet [OF assms(1,5), of _ "[]"] in simp)
  obtain v e where "run_state (do { result \<leftarrow> out_var (unset_value b) (napi_create_array b);
      set_elements b (\<lambda>ent1. do { _ \<leftarrow> call (napi_create_object b); CtoJSUsbDevice b ent1 }) 0 ds result }) ?s = (v, ?s\<lparr>engine := e\<rparr>)"
    "pend e = None" "view v = JArray (map device_js ds)"
    using quietlyD [OF q, of ?s] 1(1) by auto
  then show ?thesis
    by (intro that [of v e]) (simp_all add: 1(2) run_bind use_client_run assms(4) split: prod.splits)
qed

lemma CoreConnectDevice_run:
  assumes "napi_law b view pend" and "feature_host b" and "pend (engine s) = None" and "device_readable d" and "view v = device_js d"
    and "client_OpenDevice (cenv b) (seen_device d) new_pipe (csrv b) (client s) (world s) = ((UEC_OK, pipe), cl, w)"
  obtains v' e where "run_state (CoreConnectDevice b [v]) s = (v', s\<lparr>engine := e, client := cl, world := w\<rparr>)" and "pend e = None"
    and "view v' = pipe_js pipe"
proof -
  have hf: "HasFeature b FEATURE_HOST" by (simp add: HasFeature_def assms(2))
  have ty: "js_type (view v) = Some napi_object" by (simp add: assms(5) device_js_def)
  let ?run = "\<lambda>dev. do {
       r \<leftarrow> use_client b (client_OpenDevice (cenv b) dev new_pipe);
       if fst r = UEC_OK then CreateUsbDevicePipe b (snd r)
       else if fst r = UEC_SERVICE_PERMISSION_DENIED \<or> fst r = UEC_INTERFACE_PERMISSION_DENIED
       then throw_null b UEC_COMMON_HAS_NO_RIGHT ''need call requestRight to get the permission''
       else get_undefined b }"
  let ?typed = "\<lambda>v. typed b v napi_object ''The type of device must be USBDevice.'' (do { dev \<leftarrow> ParseDeviceObj b v; ?run dev })"
  obtain e1 where 1: "pend e1 = None" "run_state (CoreConnectDevice b [v]) s = run_state (?typed ([v] ! 0)) (s\<lparr>engine := e1\<rparr>)"
    unfolding CoreConnectDevice_def by (rule api_one_argument [OF assms(1) hf assms(3)])
  obtain e2 where 2: "pend e2 = None"
    "run_state (?typed v) (s\<lparr>engine := e1\<rparr>) = run_state (do { dev \<leftarrow> ParseDeviceObj b v; ?run dev }) (s\<lparr>engine := e2\<rparr>)"
    by (rule typed_run [OF assms(1) ty 1(1)])
  obtain e3 where 3: "run_state (ParseDeviceObj b v) (s\<lparr>engine := e2\<rparr>) = (seen_device d, s\<lparr>engine := e3\<rparr>)" "pend e3 = None"
    by (rule quiet_next [OF device_js.of_js [OF assms(1,4,5)] 2(1)]) blast
  let ?s = "s\<lparr>engine := e3, client := cl, world := w\<rparr>"
  obtain v' e where "run_state (CreateUsbDevicePipe b pipe) ?s = (v', ?s\<lparr>engine := e\<rparr>)" "pend e = None" "view v' = pipe_js pipe"
    using quietlyD [OF pipe_js.to_js [OF assms(1)], of ?s] 3(2) by auto
  then show ?thesis
    by (intro that [of v' e]) (simp_all add: 1(2) 2(2) [simplified] 3(1) run_bind use_client_run assms(6))
qed

lemma client_same: "s\<lparr>engine := e, client := client s, world := w\<rparr> = s\<lparr>engine := e, world := w\<rparr>"
  by (cases s) simp

text \<open>
  C34: from the list to a pipe. When the service lists devices whose names are in UTF-8 and can be cut to 32
  bytes without dividing a character, and opens the one an application picks, \<^verbatim>\<open>getDevices\<close>, \<^verbatim>\<open>connectDevice\<close>
  on the picked element and the use of the returned pipe object run without an exception, ask the service to open
  exactly the bus and the address of that device, and the pipe object names them.
\<close>

theorem listed_device_connects:
  fixes b :: "('e, 'v, 'c, 'w, 'o, 'p, 'n) usb_binding_scheme" and s :: "('e, 'v, 'p, 'w, 'm) usb_module_scheme"
  assumes "napi_law b view pend" and "feature_host b" and "pend (engine s) = None" and "proxy (client s) = Some p"
    and "px_GetDevices (csrv b p) [] (world s) = (UEC_OK, ds, w1)" and "\<forall>d \<in> set ds. device_readable d" and "i < length ds"
    and "px_device (csrv b p) Call_OpenDevice (dev_busNum (ds ! i)) (dev_devAddr (ds ! i)) w1 = (UEC_OK, r, w2)"
  shows "\<exists>e. pend e = None \<and> run_state (do {
      list \<leftarrow> CoreGetDevices b [];
      dev \<leftarrow> out_var (unset_value b) (napi_get_element b list i);
      obj \<leftarrow> CoreConnectDevice b [dev];
      ParseUsbDevicePipe b obj new_pipe }) s =
    (\<lparr>pipe_busNum = dev_busNum (ds ! i), pipe_devAddr = dev_devAddr (ds ! i)\<rparr>, s\<lparr>engine := e, world := w2\<rparr>)"
proof -
  have get: "client_GetDevices (cenv b) [] (csrv b) (client s) (world s) = ((UEC_OK, ds), client s, w1)"
    by (simp add: client_GetDevices_def connected_via_proxy [OF assms(4)] via_proxy_def assms(4,5) outcome_def)
  obtain v1 e1 where 1: "run_state (CoreGetDevices b []) s = (v1, s\<lparr>engine := e1, client := client s, world := w1\<rparr>)" "pend e1 = None"
    "view v1 = JArray (map device_js ds)"
    by (rule CoreGetDevices_run [OF assms(1-3) get assms(6)])
  let ?s = "s\<lparr>world := w1\<rparr>" and ?pipe = "\<lparr>pipe_busNum = dev_busNum (ds ! i), pipe_devAddr = dev_devAddr (ds ! i)\<rparr>"
  have s1: "s\<lparr>engine := e1, client := client s, world := w1\<rparr> = ?s\<lparr>engine := e1\<rparr>" by (simp add: client_same)
  have i: "i < length (map device_js ds)" using assms(7) by simp
  obtain v2 e2 where 2: "run_state (out_var (unset_value b) (napi_get_element b v1 i)) (?s\<lparr>engine := e1\<rparr>) = (v2, ?s\<lparr>engine := e2\<rparr>)"
    "pend e2 = None" "view v2 = map device_js ds ! i"
    by (rule quiet_next [OF quietly_out_var [OF napi_readsD(6) [OF assms(1) 1(3) i]] 1(2)])
  then have v2: "view v2 = device_js (ds ! i)" using assms(7) by simp
  have "device_readable (ds ! i)" using assms(6,7) by simp
  moreover have "client_OpenDevice (cenv b) (seen_device (ds ! i)) new_pipe (csrv b) (client (?s\<lparr>engine := e2\<rparr>)) (world (?s\<lparr>engine := e2\<rparr>)) =
      ((UEC_OK, ?pipe), client s, w2)"
    by (simp add: client_OpenDevice_def connected_via_proxy [OF assms(4)] via_proxy_def assms(4,8) seen_device_def new_pipe_def)
  moreover have "pend (engine (?s\<lparr>engine := e2\<rparr>)) = None" using 2(2) by simp
  ultimately obtain v3 e3 where 3: "run_state (CoreConnectDevice b [v2]) (?s\<lparr>engine := e2\<rparr>) =
      (v3, ?s\<lparr>engine := e2\<rparr>\<lparr>engine := e3, client := client s, world := w2\<rparr>)" "pend e3 = None" "view v3 = pipe_js ?pipe"
    using CoreConnectDevice_run [OF assms(1,2) _ _ v2] by blast
  have s3: "?s\<lparr>engine := e2\<rparr>\<lparr>engine := e3, client := client s, world := w2\<rparr> = s\<lparr>world := w2\<rparr>\<lparr>engine := e3\<rparr>" by (simp add: client_same)
  obtain e where "run_state (ParseUsbDevicePipe b v3 new_pipe) (s\<lparr>world := w2\<rparr>\<lparr>engine := e3\<rparr>) = (?pipe, s\<lparr>world := w2\<rparr>\<lparr>engine := e\<rparr>)" "pend e = None"
    by (rule quiet_next [OF pipe_js.of_js [OF assms(1) TrueI 3(3)] 3(2)]) blast
  then show ?thesis by (auto simp: run_bind 1(1) [unfolded s1] 2(1) 3(1) [unfolded s3])
qed

subsection \<open>Arguments that are refused too late\<close>

lemma run_accFd:
  "run_state get_accFd s = (g_accFd s, s)" "run_state (set_accFd fd) s = ((), s\<lparr>g_accFd := fd\<rparr>)"
  "run_state (close_descriptor b fd) s = ((), s\<lparr>world := close_fd b fd (world s)\<rparr>)"
  by (simp_all add: get_accFd_def set_accFd_def close_descriptor_def)

lemma thrown_stays: "thrown view pend e code \<Longrightarrow> (\<And>x. pend e = Some x \<Longrightarrow> pend e' = Some x) \<Longrightarrow> thrown view pend e' code"
  unfolding thrown_def by blast

lemma stubborn_next:
  assumes "stubborn pend m" and "thrown view pend e\<^sub>0 code"
  obtains x e where "run_state m (s\<lparr>engine := e\<^sub>0\<rparr>) = (x, s\<lparr>engine := e\<rparr>)" and "thrown view pend e code"
proof -
  obtain y where y: "pend (engine (s\<lparr>engine := e\<^sub>0\<rparr>)) = Some y" using assms(2) by (auto simp: thrown_def)
  obtain x e where "run_state m (s\<lparr>engine := e\<^sub>0\<rparr>) = (x, s\<lparr>engine := e\<^sub>0\<rparr>\<lparr>engine := e\<rparr>)" "pend e = Some y"
    by (rule stubbornD [OF assms(1) y])
  then show ?thesis using assms(2) y by (intro that [of x e]) (auto elim!: thrown_stays)
qed

lemma throws_next:
  assumes "napi_law n view pend" and "map_of msgs code = Some m" and "utf8 (m @ msg)" and "pend e\<^sub>0 = None"
  obtains e where "run_state (ThrowBusinessError msgs n code msg) (s\<lparr>engine := e\<^sub>0\<rparr>) = ((), s\<lparr>engine := e\<rparr>)" and "thrown view pend e code"
proof -
  have "pend (engine (s\<lparr>engine := e\<^sub>0\<rparr>)) = None" using assms(4) by simp
  from throws_error [OF assms(1-3) this] show ?thesis using that by auto
qed

text \<open>
  C40: a handle that is not the open one. \<^verbatim>\<open>closeAccessory\<close> with a handle of another descriptor throws the
  error of a wrong parameter - and all the same closes that descriptor of the process and tells the service to
  close the accessory that is open, which is then forgotten.
\<close>

theorem wrong_handle_closes_accessory:
  fixes b :: "('e, 'v, 'c, 'w, 'o, 'p, 'n) usb_binding_scheme" and s :: "('e, 'v, 'p, 'w, 'm) usb_module_scheme"
  assumes "napi_law b view pend" and "feature_device b" and "pend (engine s) = None"
    and "view v = JObject fs" and "map_of fs ''accessoryFd'' = Some (JNumber k)" and "word_of_int k \<noteq> g_accFd s"
    and "client_CloseAccessory (cenv b) (sint (g_accFd s)) (csrv b) (client s) (close_fd b (word_of_int k) (world s)) = (ret, cl, w)"
  shows "\<exists>v' e. run_state (DeviceCloseAccessory b [v]) s = (v', s\<lparr>engine := e, client := cl, world := w, g_accFd := 0\<rparr>) \<and>
    thrown view pend e OHEC_COMMON_PARAM_ERROR"
proof -
  have hf: "HasFeature b FEATURE_DEVICE" by (simp add: HasFeature_def assms(2))
  have ty: "js_type (view v) = Some napi_object" by (simp add: assms(4))
  let ?rest = "\<lambda>accessoryFd accFd. do {
       close_descriptor b accessoryFd;
       ret \<leftarrow> use_client b (client_CloseAccessory (cenv b) (sint accFd));
       set_accFd 0;
       if ret \<noteq> UEC_OK then throw_null b UEC_COMMON_SERVICE_EXCEPTION ''Service exception''
       else State_Monad.return (nullptr b) }"
  let ?body = "\<lambda>v. do {
       accessoryFd \<leftarrow> js_int b v ''accessoryFd'' (unset_int b);
       accFd \<leftarrow> get_accFd;
       (if accessoryFd = 0 \<or> accessoryFd \<noteq> accFd \<or> accFd = 0
        then throw_error b OHEC_COMMON_PARAM_ERROR ''Parameter accessoryHandle error, need openAccessory first.''
        else State_Monad.return ());
       ?rest accessoryFd accFd }"
  let ?typed = "\<lambda>v. typed b v napi_object ''The type of device must be USBAccessoryHandle.'' (?body v)"
  obtain e1 where 1: "pend e1 = None" "run_state (DeviceCloseAccessory b [v]) s = run_state (?typed ([v] ! 0)) (s\<lparr>engine := e1\<rparr>)"
    unfolding DeviceCloseAccessory_def by (rule api_one_argument [OF assms(1) hf assms(3)])
  obtain e2 where 2: "pend e2 = None" "run_state (?typed v) (s\<lparr>engine := e1\<rparr>) = run_state (?body v) (s\<lparr>engine := e2\<rparr>)"
    by (rule typed_run [OF assms(1) ty 1(1)])
  obtain e3 where 3: "run_state (js_int b v ''accessoryFd'' (unset_int b)) (s\<lparr>engine := e2\<rparr>) = (word_of_int k, s\<lparr>engine := e3\<rparr>)" "pend e3 = None"
    unfolding js_int_def by (rule quiet_next [OF JsObjectToInt_quiet [OF assms(1,4,5)] 2(1)]) blast
  have utf: "utf8 (''BusinessError 401:Parameter error.'' @ ''Parameter accessoryHandle error, need openAccessory first.'')" by code_simp
  obtain e4 where 4: "run_state (throw_error b OHEC_COMMON_PARAM_ERROR ''Parameter accessoryHandle error, need openAccessory first.'')
      (s\<lparr>engine := e3\<rparr>) = ((), s\<lparr>engine := e4\<rparr>)" "thrown view pend e4 OHEC_COMMON_PARAM_ERROR"
    unfolding throw_error_def by (rule throws_next [OF assms(1) param_message utf 3(2)])
  let ?s = "s\<lparr>client := cl, world := w, g_accFd := 0\<rparr>"
  have "stubborn pend (if ret \<noteq> UEC_OK then throw_null b UEC_COMMON_SERVICE_EXCEPTION ''Service exception'' else State_Monad.return (nullptr b))"
    unfolding throw_null_def throw_error_def by (intro stubborn_if stubborn_bind stubborn_error [OF assms(1)] stubborn_return)
  then obtain v' e where 5: "run_state (if ret \<noteq> UEC_OK then throw_null b UEC_COMMON_SERVICE_EXCEPTION ''Service exception'' else State_Monad.return (nullptr b))
      (?s\<lparr>engine := e4\<rparr>) = (v', ?s\<lparr>engine := e\<rparr>)" "thrown view pend e OHEC_COMMON_PARAM_ERROR"
    by (rule stubborn_next [OF _ 4(2)])
  have eq: "s\<lparr>engine := e4, world := close_fd b (word_of_int k) (world s)\<rparr>\<lparr>client := cl, world := w\<rparr>\<lparr>g_accFd := 0\<rparr> = ?s\<lparr>engine := e4\<rparr>" by simp
  have "run_state (DeviceCloseAccessory b [v]) s = run_state (?body v) (s\<lparr>engine := e2\<rparr>)" by (simp only: 1(2) 2(2) nth_Cons_0)
  also have "\<dots> = (v', ?s\<lparr>engine := e\<rparr>)"
    using assms(6,7) 5(1) unfolding eq [symmetric] by (simp add: 3(1) 4(1) run_bind run_accFd use_client_run)
  finally have "run_state (DeviceCloseAccessory b [v]) s = (v', ?s\<lparr>engine := e\<rparr>)" .
  then show ?thesis using 5(2) by (intro exI [of _ v'] exI [of _ e]) simp
qed

text \<open>
  A pipe whose bus number is not a number. \<^verbatim>\<open>closePipe\<close> throws the error of a wrong parameter, and all the
  same the request to close goes to the service, for bus 0.
\<close>

theorem ill_typed_pipe_is_used:
  fixes b :: "('e, 'v, 'c, 'w, 'o, 'p, 'n) usb_binding_scheme" and s :: "('e, 'v, 'p, 'w, 'm) usb_module_scheme"
  assumes "napi_law b view pend" and "feature_host b" and "pend (engine s) = None"
    and "view v = JObject fs" and "map_of fs ''busNum'' = Some j" and "js_type j = Some ty" and "ty \<noteq> napi_number"
  shows "\<exists>devAddr v' e. thrown view pend e OHEC_COMMON_PARAM_ERROR \<and>
    (case pipe_Close (cenv b) \<lparr>pipe_busNum = 0, pipe_devAddr = devAddr\<rparr> (csrv b) (client s) (world s) of (ret, cl, w) \<Rightarrow>
       run_state (PipeClose b [v]) s = (v', s\<lparr>engine := e, client := cl, world := w\<rparr>))"
proof -
  have hf: "HasFeature b FEATURE_HOST" by (simp add: HasFeature_def assms(2))
  have ty: "js_type (view v) = Some napi_object" by (simp add: assms(4))
  let ?close = "\<lambda>pipe. do { ret \<leftarrow> use_client b (pipe_Close (cenv b) pipe); create_code b ret }"
  let ?obj = "\<lambda>v. object_argument b (unset_type b) v must_be_pipe (\<lambda>type. do { pipe \<leftarrow> ParseUsbDevicePipe b v new_pipe; ?close pipe })"
  obtain e1 where 1: "pend e1 = None" "run_state (PipeClose b [v]) s = run_state (?obj ([v] ! 0)) (s\<lparr>engine := e1\<rparr>)"
    unfolding PipeClose_def pipe_api_def by (rule api_one_argument [OF assms(1) hf assms(3)])
  obtain e2 where 2: "pend e2 = None"
    "run_state (?obj v) (s\<lparr>engine := e1\<rparr>) = run_state (do { pipe \<leftarrow> ParseUsbDevicePipe b v new_pipe; ?close pipe }) (s\<lparr>engine := e2\<rparr>)"
    by (rule object_argument_run [OF assms(1) ty 1(1)])
  obtain e3 where 3: "run_state (out_var (unset_type b) (napi_typeof b v)) (s\<lparr>engine := e2\<rparr>) = (napi_object, s\<lparr>engine := e3\<rparr>)" "pend e3 = None"
    by (rule quiet_next [OF quietly_out_var [OF napi_readsD(1) [OF assms(1) ty]] 2(1)]) blast
  have utf: "utf8 (''BusinessError 401:Parameter error.'' @ ''The type of '' @ ''busNum'' @ '' must be number.'')" by code_simp
  have "pend (engine (s\<lparr>engine := e3\<rparr>)) = None" using 3(2) by simp
  from JsObjectToInt_throws [OF assms(1,4,5,6,7) utf this]
  obtain e4 where 4: "run_state (js_int b v ''busNum'' 0) (s\<lparr>engine := e3\<rparr>) = (0, s\<lparr>engine := e3\<rparr>\<lparr>engine := e4\<rparr>)"
    "thrown view pend e4 OHEC_COMMON_PARAM_ERROR" by blast
  obtain a e5 where 5: "run_state (js_int b v ''devAddress'' 0) (s\<lparr>engine := e4\<rparr>) = (a, s\<lparr>engine := e5\<rparr>)"
    "thrown view pend e5 OHEC_COMMON_PARAM_ERROR"
    unfolding js_int_def by (rule stubborn_next [OF stubborn_JsObjectToInt [OF assms(1)] 4(2)])
  let ?pipe = "\<lparr>pipe_busNum = 0, pipe_devAddr = ucast a\<rparr>"
  have parsed: "run_state (ParseUsbDevicePipe b v new_pipe) (s\<lparr>engine := e2\<rparr>) = (?pipe, s\<lparr>engine := e5\<rparr>)"
    using 4(1) by (simp add: ParseUsbDevicePipe_def run_bind run_return 3(1) 5(1) param_check_def new_pipe_def)
  obtain ret cl w where c: "pipe_Close (cenv b) ?pipe (csrv b) (client s) (world s) = (ret, cl, w)" by (metis prod_cases3)
  let ?s = "s\<lparr>client := cl, world := w\<rparr>"
  obtain v' e where 6: "run_state (create_code b ret) (?s\<lparr>engine := e5\<rparr>) = (v', ?s\<lparr>engine := e\<rparr>)" "thrown view pend e OHEC_COMMON_PARAM_ERROR"
    unfolding create_code_def by (rule stubborn_next [OF stubborn_out_var [OF napi_patient(8) [OF assms(1)]] 5(2)])
  have eq: "s\<lparr>engine := e5, client := cl, world := w\<rparr> = ?s\<lparr>engine := e5\<rparr>" by simp
  have "run_state (PipeClose b [v]) s = run_state (do { pipe \<leftarrow> ParseUsbDevicePipe b v new_pipe; ?close pipe }) (s\<lparr>engine := e2\<rparr>)"
    by (simp only: 1(2) 2(2) nth_Cons_0)
  also have "\<dots> = (v', ?s\<lparr>engine := e\<rparr>)" using 6(1) unfolding eq [symmetric] by (simp add: parsed run_bind use_client_run c)
  finally show ?thesis using 6(2) c by (intro exI [of _ "ucast a"] exI [of _ v'] exI [of _ e]) simp
qed

subsection \<open>A binding of trees\<close>

lemma napi_law_extend [simp]: "napi_law (napi.extend n m) view pend \<longleftrightarrow> napi_law n view pend"
  by (simp add: napi_law_def napi_reads_def napi_writes_def napi_throws_def napi.defs)

text \<open>The world of this service is the list of what it was told: the numbers of devices and descriptors, the bytes
  written. A bulk read gives two bytes.\<close>

definition note_env :: "(i32 list, unit, unit) client_env" where
  "note_env = \<lparr>ce_manager = (\<lambda>w. True), ce_LoadSystemAbility = (\<lambda>_ _ w. (Some (), w)), ce_CheckSystemAbility = (\<lambda>_ w. (Some (), w)),
     ce_iface_cast = (\<lambda>_. ()), ce_AsObject = (\<lambda>_. Some ()), ce_AddDeathRecipient = (\<lambda>_ w. (True, w)),
     ce_RemoveDeathRecipient = (\<lambda>_ w. (True, w)), ce_promote = (\<lambda>x w. Some x), ce_sleep = (\<lambda>_ w. w),
     ce_USB_SYSTEM_ABILITY_ID = 4201, ce_ERR_INVALID_VALUE = - 22\<rparr>"

definition note_server :: "(unit, i32 list) server" where
  "note_server = refusing_server\<lparr>px_GetDevices := (\<lambda>_ w. (UEC_OK, [sample_js_device], w)),
     px_device := (\<lambda>call bus addr w. case call of
         Call_BulkTransferReadwithLength _ _ _ _ \<Rightarrow> (UEC_OK, Bytes [7, 8], w @ [ucast bus, ucast addr])
       | Call_BulkTransferWrite _ bytes _ \<Rightarrow> (UEC_OK, Nothing, w @ [ucast bus, ucast addr] @ map ucast bytes)
       | _ \<Rightarrow> (UEC_OK, Nothing, w @ [ucast bus, ucast addr])),
     px_CloseAccessory := (\<lambda>fd w. (UEC_OK, w @ [word_of_int fd]))\<rparr>"

definition tree_binding :: "(tree_engine, js, unit, i32 list, unit, unit) usb_binding" where
  "tree_binding = napi.extend tree_napi (usb_binding.fields True True True
     (State (\<lambda>(x, a). (Some (JNumber (int a), JOther), (x, Suc a)))) (\<lambda>_. answer (Some ())) (answer (Some ()))
     (\<lambda>_ _. answer (Some ())) (\<lambda>_ _. answer (Some ())) (\<lambda>v _. answer (Some v)) note_env (\<lambda>_. note_server)
     (\<lambda>ret. if ret = UEC_OK then 0 else - 1) 0 (\<lambda>fd w. w @ [fd]) True (\<lambda>_. True) (- 202) (- 1))"

lemma tree_binding_law [simp]: "napi_law tree_binding (\<lambda>v. v) fst"
  unfolding tree_binding_def napi_law_extend by (rule tree_napi_law)

lemma tree_binding_simps [simp]:
  "feature_host tree_binding" "feature_device tree_binding" "feature_port tree_binding"
  "csrv tree_binding = (\<lambda>_. note_server)" "cenv tree_binding = note_env" "close_fd tree_binding = (\<lambda>fd w. w @ [fd])"
  by (simp_all add: tree_binding_def napi.defs usb_binding.defs)

definition tree_module :: "(tree_engine, js, unit, i32 list) usb_module" where
  "tree_module = \<lparr>engine = (None, 0), memory = (\<lambda>a. 0), client = \<lparr>proxy = Some ()\<rparr>, world = [], g_accFd = 5, works = [], settled = [], freed = []\<rparr>"

lemma tree_module_simps [simp]: "fst (engine tree_module) = None" "client tree_module = \<lparr>proxy = Some ()\<rparr>" "world tree_module = []"
  "g_accFd tree_module = 5" "memory tree_module = (\<lambda>a. 0)"
  by (simp_all add: tree_module_def)

theorem listed_device_connects_witness:
  "case run_state (do {
      list \<leftarrow> CoreGetDevices tree_binding [];
      dev \<leftarrow> out_var (unset_value tree_binding) (napi_get_element tree_binding list 0);
      obj \<leftarrow> CoreConnectDevice tree_binding [dev];
      ParseUsbDevicePipe tree_binding obj new_pipe }) tree_module of
    (pipe, s) \<Rightarrow> pipe = \<lparr>pipe_busNum = 1, pipe_devAddr = 2\<rparr> \<and> world s = [1, 2] \<and> fst (engine s) = None"
  using listed_device_connects [of tree_binding "\<lambda>v. v" fst tree_module "()" "[sample_js_device]" "[]" 0 Nothing "[1, 2]"] sample_readable
  by (auto simp: note_server_def sample_js_device_def)

theorem wrong_handle_closes_accessory_witness:
  "case run_state (DeviceCloseAccessory tree_binding [JObject [(''accessoryFd'', JNumber 7)]]) tree_module of
    (v, s) \<Rightarrow> world s = [7, 5] \<and> g_accFd s = 0 \<and> thrown (\<lambda>v. v) fst (engine s) OHEC_COMMON_PARAM_ERROR"
proof -
  have "client_CloseAccessory note_env 5 (\<lambda>_. note_server) \<lparr>proxy = Some ()\<rparr> [7] = (UEC_OK, \<lparr>proxy = Some ()\<rparr>, [7, 5])"
    by (simp add: client_CloseAccessory_def connected_via_proxy via_proxy_def note_server_def)
  then show ?thesis
    using wrong_handle_closes_accessory [of tree_binding "\<lambda>v. v" fst tree_module "JObject [(''accessoryFd'', JNumber 7)]"
      "[(''accessoryFd'', JNumber 7)]" 7 UEC_OK "\<lparr>proxy = Some ()\<rparr>" "[7, 5]"] by auto
qed

theorem ill_typed_pipe_is_used_witness:
  "case run_state (PipeClose tree_binding [JObject [(''busNum'', JString ''1'')]]) tree_module of
    (v, s) \<Rightarrow> hd (world s) = 0 \<and> thrown (\<lambda>v. v) fst (engine s) OHEC_COMMON_PARAM_ERROR"
proof -
  have close: "pipe_Close note_env \<lparr>pipe_busNum = 0, pipe_devAddr = d\<rparr> (\<lambda>_. note_server) \<lparr>proxy = Some ()\<rparr> [] =
      (UEC_OK, \<lparr>proxy = Some ()\<rparr>, [0, ucast d])" for d
    by (simp add: pipe_Close_def client_Close_def via_proxy_def on_device_plain_def note_server_def)
  obtain d v' e where "thrown (\<lambda>v. v) fst e OHEC_COMMON_PARAM_ERROR"
    "run_state (PipeClose tree_binding [JObject [(''busNum'', JString ''1'')]]) tree_module =
      (v', tree_module\<lparr>engine := e, client := \<lparr>proxy = Some ()\<rparr>, world := [0, ucast (d :: u8)]\<rparr>)"
    using ill_typed_pipe_is_used [of tree_binding "\<lambda>v. v" fst tree_module "JObject [(''busNum'', JString ''1'')]"
      "[(''busNum'', JString ''1'')]" "JString ''1''" napi_string] close by auto
  then show ?thesis by simp
qed

end
