(* ===== verification/Js_Transfer.thy ===== *)
theory Js_Transfer
  imports Js_Usb Transfer_Callback
begin

section \<open>Transfers of the JavaScript module\<close>

text \<open>
  The transfer functions of \<^verbatim>\<open>usb_info.cpp\<close>: control, bulk and submitted transfers, their parameters, the work
  done on another thread, the callbacks, and the table of the module's functions. A read fills the
  application's array in place; a write sends a copy.
\<close>

subsection \<open>Parameters\<close>

record PipeControlParam =
  pc_request :: i32
  pc_target :: i32
  pc_reqType :: u32
  pc_value :: i32
  pc_index :: i32
  pc_data :: "nat option"
  pc_dataLength :: nat

definition new_control_param :: PipeControlParam where
  "new_control_param = \<lparr>pc_request = 0, pc_target = 0, pc_reqType = 0, pc_value = 0, pc_index = 0, pc_data = None, pc_dataLength = 0\<rparr>"

definition js_uint :: "('e, 'v, 'n) napi_scheme \<Rightarrow> 'v \<Rightarrow> string \<Rightarrow> u32 \<Rightarrow> (('e, 'm) js_env_scheme, u32) state" where
  "js_uint = JsObjectToUint ERRCODE_MSG_MAP"

text \<open>Whether the data were an array of bytes is not looked at.\<close>

definition ParsePipeControlParam :: "('e, 'v, 'n) napi_scheme \<Rightarrow> 'v \<Rightarrow> PipeControlParam \<Rightarrow> (('e, 'm) js_env_scheme, bool \<times> PipeControlParam) state" where
  "ParsePipeControlParam n jsObj controlParam = do {
     request \<leftarrow> js_int n jsObj ''request'' 0;
     target \<leftarrow> js_int n jsObj ''target'' 0;
     reqType \<leftarrow> js_uint n jsObj ''reqType'' 0;
     value \<leftarrow> js_int n jsObj ''value'' 0;
     index \<leftarrow> js_int n jsObj ''index'' 0;
     p \<leftarrow> JsObjectGetProperty n jsObj ''data'' (unset_value n);
     param_check n (fst p) ''The controlParam should have the data property.'' (False, controlParam) (do {
       a \<leftarrow> JsUint8ArrayParseReserveZeroBuffer ERRCODE_MSG_MAP n (snd p) (None, 0);
       State_Monad.return (True, \<lparr>pc_request = request, pc_target = target, pc_reqType = reqType, pc_value = value, pc_index = index,
         pc_data = fst (snd a), pc_dataLength = snd (snd a)\<rparr>) }) }"

record UsbPipeControlParam =
  uc_reqType :: u32
  uc_request :: i32
  uc_value :: i32
  uc_index :: i32
  uc_length :: i32
  uc_data :: "nat option"
  uc_dataLength :: nat

definition new_usb_control_param :: UsbPipeControlParam where
  "new_usb_control_param = \<lparr>uc_reqType = 0, uc_request = 0, uc_value = 0, uc_index = 0, uc_length = 0, uc_data = None, uc_dataLength = 0\<rparr>"

definition ParseUsbPipeControlParam :: "('e, 'v, 'n) napi_scheme \<Rightarrow> 'v \<Rightarrow> UsbPipeControlParam \<Rightarrow> (('e, 'm) js_env_scheme, UsbPipeControlParam) state" where
  "ParseUsbPipeControlParam n jsObj controlParam = do {
     reqType \<leftarrow> js_uint n jsObj ''bmRequestType'' 0;
     request \<leftarrow> js_int n jsObj ''bRequest'' 0;
     value \<leftarrow> js_int n jsObj ''wValue'' 0;
     index \<leftarrow> js_int n jsObj ''wIndex'' 0;
     len \<leftarrow> js_int n jsObj ''wLength'' 0;
     p \<leftarrow> JsObjectGetProperty n jsObj ''data'' (unset_value n);
     param_check n (fst p) ''The controlParam should have the data property.'' controlParam (do {
       a \<leftarrow> JsUint8ArrayParseReserveZeroBuffer ERRCODE_MSG_MAP n (snd p) (None, 0);
       State_Monad.return \<lparr>uc_reqType = reqType, uc_request = request, uc_value = value, uc_index = index, uc_length = len,
         uc_data = fst (snd a), uc_dataLength = snd (snd a)\<rparr> }) }"

text \<open>An optional number, ignored when it has another type.\<close>

definition time_out :: "('e, 'v, 'n) napi_scheme \<Rightarrow> bool \<Rightarrow> napi_valuetype \<Rightarrow> 'v \<Rightarrow> (('e, 'm) js_env_scheme, i32) state" where
  "time_out n given old v =
     (if given then do {
        type \<leftarrow> out_var old (napi_typeof n v);
        if type = napi_number then out_var 0 (napi_get_value_int32 n v) else State_Monad.return 0 }
      else State_Monad.return 0)"

text \<open>\<open>None\<close> for the tuple that begins with \<^verbatim>\<open>false\<close>.\<close>

definition GetControlTransferParam :: "('e, 'v, 'n) napi_scheme \<Rightarrow> 'v list \<Rightarrow>
    (('e, 'm) js_env_scheme, (USBDevicePipe \<times> PipeControlParam \<times> i32) option) state" where
  "GetControlTransferParam n info = do {
     r \<leftarrow> call (napi_get_cb_info n info 3);
     case r of None \<Rightarrow> State_Monad.return None
     | Some (argc, argv) \<Rightarrow> param_check n (argc \<ge> 2) two_arguments None (do {
         type \<leftarrow> out_var (unset_type n) (napi_typeof n (argv ! 0));
         param_check n (type = napi_object) must_be_pipe None (do {
           pipe \<leftarrow> ParseUsbDevicePipe n (argv ! 0) new_pipe;
           p \<leftarrow> ParsePipeControlParam n (argv ! 1) new_control_param;
           if \<not> fst p then State_Monad.return None
           else do {
             timeOut \<leftarrow> time_out n (argc > 2) type (argv ! 2);
             State_Monad.return (Some (pipe, snd p, timeOut)) } }) }) }"

definition GetUsbControlTransferParam :: "('e, 'v, 'n) napi_scheme \<Rightarrow> 'v list \<Rightarrow>
    (('e, 'm) js_env_scheme, (USBDevicePipe \<times> UsbPipeControlParam \<times> i32) option) state" where
  "GetUsbControlTransferParam n info = do {
     r \<leftarrow> call (napi_get_cb_info n info 3);
     case r of None \<Rightarrow> State_Monad.return None
     | Some (argc, argv) \<Rightarrow> param_check n (argc \<ge> 2) two_arguments None (do {
         type \<leftarrow> out_var (unset_type n) (napi_typeof n (argv ! 0));
         param_check n (type = napi_object) must_be_pipe None (do {
           pipe \<leftarrow> ParseUsbDevicePipe n (argv ! 0) new_pipe;
           type \<leftarrow> out_var type (napi_typeof n (argv ! 1));
           param_check n (type = napi_object) ''The type of pipe must be USBDeviceRequestParams.'' None (do {
             controlParam \<leftarrow> ParseUsbPipeControlParam n (argv ! 1) new_usb_control_param;
             timeOut \<leftarrow> time_out n (argc > 2) type (argv ! 2);
             State_Monad.return (Some (pipe, controlParam, timeOut)) }) }) }) }"

subsection \<open>Control and bulk transfers\<close>

definition app_buffer :: "nat option \<Rightarrow> native_buffer" where
  "app_buffer data = (case data of None \<Rightarrow> Null | Some p \<Rightarrow> App p)"

text \<open>
  The buffer of a control transfer: a copy for a write, the application's own for a read; \<open>None\<close> when the
  copy cannot be made. The contexts keep the length in 32 bits.
\<close>

definition get_memory :: "(('e, 'm) js_env_scheme, nat \<Rightarrow> u8) state" where
  "get_memory = State (\<lambda>s. (memory s, s))"

definition copy_buffer :: "('e, 'v, 'c, 'w, 'o, 'p, 'n) usb_binding_scheme \<Rightarrow> nat option \<Rightarrow> nat \<Rightarrow> (('e, 'm) js_env_scheme, native_buffer option) state" where
  "copy_buffer b data len = do {
     m \<leftarrow> get_memory;
     State_Monad.return (case data of
       Some p \<Rightarrow> if new_array b len \<and> memcpy_s b len len then Some (Own (fetch p len m)) else None
     | None \<Rightarrow> None) }"

definition control_buffer :: "('e, 'v, 'c, 'w, 'o, 'p, 'n) usb_binding_scheme \<Rightarrow> u32 \<Rightarrow> nat option \<Rightarrow> nat \<Rightarrow> (('e, 'm) js_env_scheme, native_buffer option) state" where
  "control_buffer b reqType data len =
     (if reqType AND USB_ENDPOINT_DIR_MASK = USB_ENDPOINT_DIR_OUT
      then if len > 0 then copy_buffer b data len else State_Monad.return (Some Null)
      else State_Monad.return (Some (app_buffer data)))"

definition u32_size :: "nat \<Rightarrow> nat" where
  "u32_size len = len mod 2 ^ 32"

definition PipeControlTransfer :: "('e, 'v, 'c, 'w, 'o, 'p, 'n) usb_binding_scheme \<Rightarrow> 'v list \<Rightarrow> (('e, 'v, 'p, 'w, 'm) usb_module_scheme, 'v) state" where
  "PipeControlTransfer b info =
     (if \<not> HasFeature b FEATURE_HOST then throw_null b CAPABILITY_NOT_SUPPORT []
      else do {
        r \<leftarrow> GetControlTransferParam b info;
        case r of None \<Rightarrow> State_Monad.return (nullptr b)
        | Some (pipe, p, timeOut) \<Rightarrow>
          if \<not> new_context b then State_Monad.return (nullptr b)
          else do {
            buffer \<leftarrow> control_buffer b (pc_reqType p) (pc_data p) (pc_dataLength p);
            case buffer of None \<Rightarrow> State_Monad.return (nullptr b)
            | Some buf \<Rightarrow> start_work b ''PipeControlTransfer'' (Control_Transfer \<lparr>cx_pipe = pipe, cx_request = pc_request p,
                cx_target = pc_target p, cx_reqType = pc_reqType p, cx_value = pc_value p, cx_index = pc_index p, cx_buffer = buf,
                cx_bufferLength = u32_size (pc_dataLength p), cx_timeOut = timeOut\<rparr>) } })"

definition PipeUsbControlTransfer :: "('e, 'v, 'c, 'w, 'o, 'p, 'n) usb_binding_scheme \<Rightarrow> 'v list \<Rightarrow> (('e, 'v, 'p, 'w, 'm) usb_module_scheme, 'v) state" where
  "PipeUsbControlTransfer b info =
     (if \<not> HasFeature b FEATURE_HOST then throw_null b CAPABILITY_NOT_SUPPORT []
      else do {
        r \<leftarrow> GetUsbControlTransferParam b info;
        case r of None \<Rightarrow> State_Monad.return (nullptr b)
        | Some (pipe, p, timeOut) \<Rightarrow>
          if \<not> new_context b then State_Monad.return (nullptr b)
          else do {
            buffer \<leftarrow> control_buffer b (uc_reqType p) (uc_data p) (uc_dataLength p);
            case buffer of None \<Rightarrow> State_Monad.return (nullptr b)
            | Some buf \<Rightarrow> start_work b ''PipeUsbControlTransfer'' (Usb_Control_Transfer \<lparr>ux_pipe = pipe, ux_reqType = uc_reqType p,
                ux_request = uc_request p, ux_value = uc_value p, ux_index = uc_index p, ux_length = uc_length p, ux_buffer = buf,
                ux_bufferLength = u32_size (uc_dataLength p), ux_timeOut = timeOut\<rparr>) } })"

text \<open>Only a write of at least one byte gets a copy of the bulk data.\<close>

definition GetDescriptorOnBulkTransferParam :: "('e, 'v, 'c, 'w, 'o, 'p, 'n) usb_binding_scheme \<Rightarrow> 'v \<Rightarrow> bulk_context \<Rightarrow> USBEndpoint \<Rightarrow>
    (('e, 'm) js_env_scheme, bool \<times> bulk_context) state" where
  "GetDescriptorOnBulkTransferParam b data ctx ep = do {
     a \<leftarrow> JsUint8ArrayParseReserveZeroBuffer ERRCODE_MSG_MAP b data (None, 0);
     let bufferSize = snd (snd a) in
     if \<not> fst a then State_Monad.return (False, ctx)
     else if GetDirection ep = USB_ENDPOINT_DIR_OUT \<and> bufferSize > 0 then do {
       buf \<leftarrow> copy_buffer b (fst (snd a)) bufferSize;
       State_Monad.return (case buf of None \<Rightarrow> (False, ctx\<lparr>bx_endpoint := ep\<rparr>)
         | Some nativeArrayBuffer \<Rightarrow> (True, ctx\<lparr>bx_endpoint := ep, bx_buffer := nativeArrayBuffer, bx_bufferLength := u32_size bufferSize\<rparr>)) }
     else State_Monad.return (True, ctx\<lparr>bx_endpoint := ep, bx_buffer := app_buffer (fst (snd a)), bx_bufferLength := u32_size bufferSize\<rparr>) }"

definition new_bulk_context :: bulk_context where
  "new_bulk_context = \<lparr>bx_pipe = new_pipe, bx_endpoint = new_endpoint, bx_buffer = Null, bx_bufferLength = 0, bx_timeOut = 0\<rparr>"

text \<open>
  \<^verbatim>\<open>NAPI_CHECK\<close> returns the handle of \<^verbatim>\<open>undefined\<close>, which this function converts to \<^verbatim>\<open>true\<close> when it is not null.
\<close>

definition GetBulkTransferParams :: "('e, 'v, 'c, 'w, 'o, 'p, 'n) usb_binding_scheme \<Rightarrow> 'v list \<Rightarrow> bulk_context \<Rightarrow>
    (('e, 'm) js_env_scheme, bool \<times> bulk_context) state" where
  "GetBulkTransferParams b info ctx = do {
     r \<leftarrow> call (napi_get_cb_info b info 4);
     case r of None \<Rightarrow> do { obj \<leftarrow> get_undefined b; State_Monad.return (obj \<noteq> nullptr b, ctx) }
     | Some (argc, argv) \<Rightarrow> param_check b (argc \<ge> 3) ''The function at least takes three arguments.'' (False, ctx) (do {
         type \<leftarrow> out_var (unset_type b) (napi_typeof b (argv ! 0));
         param_check b (type = napi_object) must_be_pipe (False, ctx) (do {
           pipe \<leftarrow> ParseUsbDevicePipe b (argv ! 0) new_pipe;
           let ctx1 = ctx\<lparr>bx_pipe := pipe\<rparr> in do {
           type \<leftarrow> out_var type (napi_typeof b (argv ! 1));
           param_check b (type = napi_object) ''The type of endpoint must be USBEndpoint.'' (False, ctx1) (do {
             ep \<leftarrow> ParseEndpointObj b (argv ! 1) new_endpoint;
             timeOut \<leftarrow> time_out b (argc > 3) type (argv ! 3);
             d \<leftarrow> GetDescriptorOnBulkTransferParam b (argv ! 2) ctx1 ep;
             State_Monad.return (if fst d then (True, (snd d)\<lparr>bx_timeOut := timeOut\<rparr>) else d) }) } }) }) }"

definition finish_number :: "('e, 'v, 'c, 'w, 'o, 'p, 'n) usb_binding_scheme \<Rightarrow> 'v option \<Rightarrow> i32 \<Rightarrow> (('e, 'v, 'p, 'w, 'm) usb_module_scheme, unit) state" where
  "finish_number b deferred i = do {
     queryResult \<leftarrow> out_var (nullptr b) (napi_create_int32 b i);
     ProcessPromise b deferred True queryResult }"

text \<open>The promise is made first; with wrong arguments it is resolved with \<open>-1\<close> at once.\<close>

definition PipeBulkTransfer :: "('e, 'v, 'c, 'w, 'o, 'p, 'n) usb_binding_scheme \<Rightarrow> 'v list \<Rightarrow> (('e, 'v, 'p, 'w, 'm) usb_module_scheme, 'v) state" where
  "PipeBulkTransfer b info =
     (if \<not> HasFeature b FEATURE_HOST then throw_null b CAPABILITY_NOT_SUPPORT []
      else if \<not> new_context b then State_Monad.return (nullptr b)
      else do {
        p \<leftarrow> create_promise b;
        r \<leftarrow> GetBulkTransferParams b info new_bulk_context;
        if \<not> fst r then do { finish_number b (fst p) (- 1); State_Monad.return (snd p) }
        else do {
          resource \<leftarrow> out_var (nullptr b) (napi_create_string_utf8 b ''PipeBulkTransfer'');
          created \<leftarrow> call (napi_create_async_work b resource);
          if created \<noteq> Some () then State_Monad.return (snd p)
          else do {
            queued \<leftarrow> call (napi_queue_async_work b);
            (if queued = Some () then add_work (fst p) (Bulk_Transfer (snd r)) else State_Monad.return ());
            State_Monad.return (snd p) } } })"

subsection \<open>The work on the other thread\<close>

definition buffer_bytes :: "native_buffer \<Rightarrow> nat \<Rightarrow> (nat \<Rightarrow> u8) \<Rightarrow> u8 list" where
  "buffer_bytes buf len m = (case buf of Null \<Rightarrow> [] | App p \<Rightarrow> fetch p len m | Own bs \<Rightarrow> take len bs)"

definition free_buffer :: "native_buffer \<Rightarrow> (('e, 'v, 'p, 'w, 'm) usb_module_scheme, unit) state" where
  "free_buffer buf = State (\<lambda>s. ((), if buf = Null then s else s\<lparr>freed := freed s @ [buf]\<rparr>))"

definition copy_into :: "native_buffer \<Rightarrow> u8 list \<Rightarrow> (('e, 'm) js_env_scheme, unit) state" where
  "copy_into buf bs = (case buf of App p \<Rightarrow> copy_to p bs | _ \<Rightarrow> State_Monad.return ())"

text \<open>
  The common part of the three functions: the bytes go to the device or come from it. The result is whether it
  succeeded and the number of bytes. The variable \<open>bufLen\<close> keeps the size of the buffer when nothing was read.
\<close>

definition transfer_execute :: "('e, 'v, 'c, 'w, 'o, 'p, 'n) usb_binding_scheme \<Rightarrow> bool \<Rightarrow> bool \<Rightarrow> native_buffer \<Rightarrow> nat \<Rightarrow>
    (u8 list \<Rightarrow> ('c, 'w, 'p, retcode \<times> u8 list) client_op) \<Rightarrow> (('e, 'v, 'p, 'w, 'm) usb_module_scheme, bool \<times> nat) state" where
  "transfer_execute b outgoing incoming buf len op = do {
     m \<leftarrow> get_memory;
     let bufferData = buffer_bytes buf len m in do {
     (if outgoing then free_buffer buf else State_Monad.return ());
     r \<leftarrow> use_client b (op bufferData);
     let data = snd r in
     if fst r \<noteq> UEC_OK then State_Monad.return (False, 0)
     else if incoming \<and> len > 0 \<and> length data > 0 then
       let bufLen = min (length data) len in
       if memcpy_s b len bufLen then do { copy_into buf (take bufLen data); State_Monad.return (True, bufLen) }
       else State_Monad.return (False, 0)
     else State_Monad.return (True, length bufferData) } }"

definition g_controlTransferExecute :: "('e, 'v, 'c, 'w, 'o, 'p, 'n) usb_binding_scheme \<Rightarrow> control_context \<Rightarrow> (('e, 'v, 'p, 'w, 'm) usb_module_scheme, bool \<times> nat) state" where
  "g_controlTransferExecute b ctx = transfer_execute b (cx_reqType ctx AND USB_ENDPOINT_DIR_MASK = USB_ENDPOINT_DIR_OUT)
     (cx_reqType ctx AND USB_ENDPOINT_DIR_MASK = USB_ENDPOINT_DIR_IN) (cx_buffer ctx) (cx_bufferLength ctx)
     (client_ControlTransfer (unset_int b) (cx_pipe ctx) \<lparr>ct_requestType = cx_reqType ctx, ct_requestCmd = cx_request ctx,
       ct_value = cx_value ctx, ct_index = cx_index ctx, ct_timeout = cx_timeOut ctx\<rparr>)"

definition g_usbControlTransferExecute :: "('e, 'v, 'c, 'w, 'o, 'p, 'n) usb_binding_scheme \<Rightarrow> usb_control_context \<Rightarrow> (('e, 'v, 'p, 'w, 'm) usb_module_scheme, bool \<times> nat) state" where
  "g_usbControlTransferExecute b ctx = transfer_execute b (ux_reqType ctx AND USB_ENDPOINT_DIR_MASK = USB_ENDPOINT_DIR_OUT)
     (ux_reqType ctx AND USB_ENDPOINT_DIR_MASK = USB_ENDPOINT_DIR_IN) (ux_buffer ctx) (ux_bufferLength ctx)
     (client_UsbControlTransfer (ux_pipe ctx) \<lparr>ct_requestType = ux_reqType ctx, ct_requestCmd = ux_request ctx,
       ct_value = ux_value ctx, ct_index = ux_index ctx, ct_timeout = ux_timeOut ctx, ct_length = ux_length ctx\<rparr>)"

definition g_bulkTransferExecute :: "('e, 'v, 'c, 'w, 'o, 'p, 'n) usb_binding_scheme \<Rightarrow> bulk_context \<Rightarrow> (('e, 'v, 'p, 'w, 'm) usb_module_scheme, bool \<times> nat) state" where
  "g_bulkTransferExecute b ctx = transfer_execute b (GetDirection (bx_endpoint ctx) = USB_ENDPOINT_DIR_OUT)
     (GetDirection (bx_endpoint ctx) = USB_ENDPOINT_DIR_IN) (bx_buffer ctx) (bx_bufferLength ctx)
     (\<lambda>bufferData. client_BulkTransfer (bx_pipe ctx) (bx_endpoint ctx) bufferData (sint (bx_timeOut ctx)))"

definition transfer_complete :: "('e, 'v, 'c, 'w, 'o, 'p, 'n) usb_binding_scheme \<Rightarrow> 'v option \<Rightarrow> bool \<times> nat \<Rightarrow> (('e, 'v, 'p, 'w, 'm) usb_module_scheme, unit) state" where
  "transfer_complete b deferred r = finish_number b deferred (if fst r then of_nat (snd r) else - 1)"

definition g_controlTransferComplete :: "('e, 'v, 'c, 'w, 'o, 'p, 'n) usb_binding_scheme \<Rightarrow> 'v option \<Rightarrow> bool \<times> nat \<Rightarrow> (('e, 'v, 'p, 'w, 'm) usb_module_scheme, unit) state" where
  "g_controlTransferComplete = transfer_complete"

definition g_usbControlTransferComplete :: "('e, 'v, 'c, 'w, 'o, 'p, 'n) usb_binding_scheme \<Rightarrow> 'v option \<Rightarrow> bool \<times> nat \<Rightarrow> (('e, 'v, 'p, 'w, 'm) usb_module_scheme, unit) state" where
  "g_usbControlTransferComplete = transfer_complete"

definition g_bulkTransferComplete :: "('e, 'v, 'c, 'w, 'o, 'p, 'n) usb_binding_scheme \<Rightarrow> 'v option \<Rightarrow> bool \<times> nat \<Rightarrow> (('e, 'v, 'p, 'w, 'm) usb_module_scheme, unit) state" where
  "g_bulkTransferComplete = transfer_complete"

text \<open>One piece of queued work, executed and completed.\<close>

definition run_work :: "('e, 'v, 'c, 'w, 'o, 'p, 'n) usb_binding_scheme \<Rightarrow> 'v option \<times> usb_work \<Rightarrow> (('e, 'v, 'p, 'w, 'm) usb_module_scheme, unit) state" where
  "run_work b work = (case work of
     (d, Request_Right deviceName) \<Rightarrow> do { r \<leftarrow> g_requestRightExecute b deviceName; g_requestRightComplete b d r }
   | (d, Request_Accessory_Right acc) \<Rightarrow> do { r \<leftarrow> g_requestAccessoryRightExecute b acc; g_requestAccessoryRightComplete b d r }
   | (d, Set_Functions f) \<Rightarrow> do { r \<leftarrow> g_setCurrentFunctionExecute b f; g_setCurrentFunctionComplete b d r }
   | (d, Set_Port_Role i p q) \<Rightarrow> do { r \<leftarrow> g_setPortRoleExecute b i p q; g_setPortRoleComplete b d r }
   | (d, Control_Transfer ctx) \<Rightarrow> do { r \<leftarrow> g_controlTransferExecute b ctx; g_controlTransferComplete b d r }
   | (d, Usb_Control_Transfer ctx) \<Rightarrow> do { r \<leftarrow> g_usbControlTransferExecute b ctx; g_usbControlTransferComplete b d r }
   | (d, Bulk_Transfer ctx) \<Rightarrow> do { r \<leftarrow> g_bulkTransferExecute b ctx; g_bulkTransferComplete b d r })"

subsection \<open>Submitted transfers\<close>

text \<open>
  \<^verbatim>\<open>USBTransferAsyncContext\<close>. The shared memory is its descriptor and its size. The service gets the address of the
  context and gives it back with the result.
\<close>

record 'v submit_context =
  sx_pipe :: USBDevicePipe
  sx_endpoint :: i32
  sx_flags :: i32
  sx_type :: i32
  sx_timeOut :: i32
  sx_length :: i32
  sx_buffer :: "nat option"
  sx_bufferLength :: nat
  sx_ashmem :: "(int \<times> int) option"
  sx_numIsoPackets :: u32
  sx_callbackRef :: "'v option"

definition new_submit_context :: "'v submit_context" where
  "new_submit_context = \<lparr>sx_pipe = new_pipe, sx_endpoint = 0, sx_flags = 0, sx_type = 0, sx_timeOut = 0, sx_length = 0, sx_buffer = None,
     sx_bufferLength = 0, sx_ashmem = None, sx_numIsoPackets = 0, sx_callbackRef = None\<rparr>"

record 'v callback_context =
  cb_address :: u64
  cb_actualLength :: i32
  cb_status :: i32
  cb_isoInfo :: "UsbIsoPacketDescriptor list"
  cb_callbackRef :: "'v option"

record ('e, 'v, 'p, 'w) transfer_module = "('e, 'v, 'p, 'w) usb_module" +
  transfers :: "u64 \<rightharpoonup> 'v submit_context"
  events :: "'v callback_context list"
  called :: "('v \<times> 'v list) list"

record ('e, 'v, 'c, 'w, 'o, 'p) transfer_binding = "('e, 'v, 'c, 'w, 'o, 'p) usb_binding" +
  napi_create_reference :: "'v \<Rightarrow> ('e, 'v option) state"
  napi_get_reference_value :: "'v option \<Rightarrow> ('e, 'v option) state"
  napi_call_function :: "'v \<Rightarrow> 'v list \<Rightarrow> ('e, 'v option) state"
  napi_send_event :: "('e, unit option) state"
  sb_new_callback :: bool
  sb_address :: "'w \<Rightarrow> u64"
  sb_new_server :: "unit \<Rightarrow> 'w \<Rightarrow> 'c \<times> 'w"
  sb_CreateAshmem :: "int \<Rightarrow> 'w \<Rightarrow> (int \<times> int) option \<times> 'w"
  sb_MapReadAndWriteAshmem :: "int \<times> int \<Rightarrow> 'w \<Rightarrow> 'w"
  sb_WriteToAshmem :: "int \<times> int \<Rightarrow> u8 list \<Rightarrow> 'w \<Rightarrow> bool \<times> 'w"
  sb_ReadFromAshmem :: "int \<times> int \<Rightarrow> nat \<Rightarrow> 'w \<Rightarrow> u8 list option"
  sb_UnmapAshmem :: "int \<times> int \<Rightarrow> 'w \<Rightarrow> 'w"
  sb_CloseAshmem :: "int \<times> int \<Rightarrow> 'w \<Rightarrow> 'w"

definition in_world :: "('w \<Rightarrow> 'a \<times> 'w) \<Rightarrow> (('e, 'v, 'p, 'w, 'm) usb_module_scheme, 'a) state" where
  "in_world f = State (\<lambda>s. case f (world s) of (x, w) \<Rightarrow> (x, s\<lparr>world := w\<rparr>))"

text \<open>The assertions of these parsers have the error code \<^verbatim>\<open>false\<close>, which is no code of the table: they throw \<^verbatim>\<open>undefined\<close>.\<close>

definition no_code :: i32 where "no_code = 0"

definition code_check :: "('e, 'v, 'n) napi_scheme \<Rightarrow> bool \<Rightarrow> string \<Rightarrow> 'a \<Rightarrow> (('e, 'm) js_env_scheme, 'a) state \<Rightarrow> (('e, 'm) js_env_scheme, 'a) state" where
  "code_check n assertion = usb_assert ERRCODE_MSG_MAP n assertion no_code"

definition TRANSFER_FLAGS_UNKNOWN :: i32 where "TRANSFER_FLAGS_UNKNOWN = 4"
definition TRANSFER_TYPE_UNKNOWN :: i32 where "TRANSFER_TYPE_UNKNOWN = 4"

text \<open>The common beginning of the parsers of a transfer and of its cancellation.\<close>

definition parse_dev_pipe :: "('e, 'v, 'n) napi_scheme \<Rightarrow> 'v \<Rightarrow> 'x \<Rightarrow> (napi_valuetype \<Rightarrow> USBDevicePipe \<Rightarrow> (('e, 'm) js_env_scheme, bool \<times> 'x) state) \<Rightarrow>
    (('e, 'm) js_env_scheme, bool \<times> 'x) state" where
  "parse_dev_pipe n obj ctx body = do {
     valuePipe \<leftarrow> out_var (nullptr n) (napi_get_named_property n obj ''devPipe'');
     valueType \<leftarrow> out_var (unset_type n) (napi_typeof n valuePipe);
     code_check n (valueType = napi_object) ''The valueType of pipe must be USBDevicePipe.'' (False, ctx) (do {
       pipe \<leftarrow> ParseUsbDevicePipe n valuePipe new_pipe;
       body valueType pipe }) }"

definition ParseTransferParams :: "('e, 'v, 'c, 'w, 'o, 'p, 'n) transfer_binding_scheme \<Rightarrow> 'v \<Rightarrow> 'v submit_context \<Rightarrow>
    (('e, 'm) js_env_scheme, bool \<times> 'v submit_context) state" where
  "ParseTransferParams b obj ctx = parse_dev_pipe b obj ctx (\<lambda>valueType pipe.
     let ctx1 = ctx\<lparr>sx_pipe := pipe\<rparr> in do {
     flags \<leftarrow> js_int b obj ''flags'' TRANSFER_FLAGS_UNKNOWN;
     if flags = TRANSFER_FLAGS_UNKNOWN then State_Monad.return (False, ctx1)
     else do {
       endpoint \<leftarrow> js_int b obj ''endpoint'' (sx_endpoint ctx1);
       let ctx2 = ctx1\<lparr>sx_flags := flags, sx_endpoint := endpoint\<rparr> in do {
       tranferType \<leftarrow> js_int b obj ''type'' TRANSFER_TYPE_UNKNOWN;
       if tranferType = TRANSFER_TYPE_UNKNOWN then State_Monad.return (False, ctx2)
       else do {
         timeout \<leftarrow> js_int b obj ''timeout'' (sx_timeOut ctx2);
         len \<leftarrow> js_int b obj ''length'' (sx_length ctx2);
         let ctx3 = ctx2\<lparr>sx_type := tranferType, sx_timeOut := timeout, sx_length := len\<rparr> in do {
         c \<leftarrow> JsObjectGetProperty b obj ''callback'' (unset_value b);
         valueType \<leftarrow> out_var valueType (napi_typeof b (snd c));
         code_check b (valueType = napi_function) ''The type of endpoint must be function.'' (False, ctx3) (do {
           callbackRef \<leftarrow> call (napi_create_reference b (snd c));
           let ctx4 = ctx3\<lparr>sx_callbackRef := callbackRef\<rparr> in do {
           u \<leftarrow> JsObjectGetProperty b obj ''buffer'' (unset_value b);
           a \<leftarrow> JsUint8ArrayParseReserveZeroBuffer ERRCODE_MSG_MAP b (snd u) (None, 0);
           let ctx5 = ctx4\<lparr>sx_buffer := fst (snd a), sx_bufferLength := snd (snd a)\<rparr> in
           if \<not> fst a then State_Monad.return (False, ctx5)
           else do {
             numIsoPackets \<leftarrow> js_uint b obj ''isoPacketCount'' (sx_numIsoPackets ctx5);
             State_Monad.return (True, ctx5\<lparr>sx_numIsoPackets := numIsoPackets\<rparr>) } } }) } } } } })"

text \<open>The one argument of the functions for submitted transfers, with the same conversion of \<^verbatim>\<open>undefined\<close> to \<^verbatim>\<open>true\<close>.\<close>

definition from_js_object :: "('e, 'v, 'n) napi_scheme \<Rightarrow> 'v list \<Rightarrow> 'x \<Rightarrow> ('v \<Rightarrow> (('e, 'm) js_env_scheme, bool \<times> 'x) state) \<Rightarrow>
    (('e, 'm) js_env_scheme, bool \<times> 'x) state" where
  "from_js_object n info ctx parse = do {
     r \<leftarrow> call (napi_get_cb_info n info 1);
     case r of None \<Rightarrow> do { obj \<leftarrow> get_undefined n; State_Monad.return (obj \<noteq> nullptr n, ctx) }
     | Some (argc, argv) \<Rightarrow> param_check n (argc \<ge> 1) ''The function at least takes one arguments.'' (False, ctx) (do {
         valueType \<leftarrow> out_var napi_undefined (napi_typeof n (argv ! 0));
         param_check n (valueType = napi_object) ''The type of pipe must be USBDataTransfer type.'' (False, ctx) (parse (argv ! 0)) }) }"

definition GetTransferParamsFromJsObj :: "('e, 'v, 'c, 'w, 'o, 'p, 'n) transfer_binding_scheme \<Rightarrow> 'v list \<Rightarrow> 'v submit_context \<Rightarrow>
    (('e, 'm) js_env_scheme, bool \<times> 'v submit_context) state" where
  "GetTransferParamsFromJsObj b info ctx = from_js_object b info ctx (\<lambda>obj. ParseTransferParams b obj ctx)"

definition ParseCancelParams :: "('e, 'v, 'n) napi_scheme \<Rightarrow> 'v \<Rightarrow> 'v submit_context \<Rightarrow> (('e, 'm) js_env_scheme, bool \<times> 'v submit_context) state" where
  "ParseCancelParams n obj ctx = parse_dev_pipe n obj ctx (\<lambda>valueType pipe. do {
     endpoint \<leftarrow> js_int n obj ''endpoint'' (sx_endpoint ctx);
     State_Monad.return (True, ctx\<lparr>sx_pipe := pipe, sx_endpoint := endpoint\<rparr>) })"

definition GetCancelParamsFromJsObj :: "('e, 'v, 'n) napi_scheme \<Rightarrow> 'v list \<Rightarrow> 'v submit_context \<Rightarrow>
    (('e, 'm) js_env_scheme, bool \<times> 'v submit_context) state" where
  "GetCancelParamsFromJsObj n info ctx = from_js_object n info ctx (\<lambda>obj. ParseCancelParams n obj ctx)"

text \<open>The flags are not copied.\<close>

definition GetUSBTransferInfo :: "i32 \<Rightarrow> u64 \<Rightarrow> 'v submit_context \<Rightarrow> USBTransferInfo" where
  "GetUSBTransferInfo unset address ctx = \<lparr>xi_endpoint = sx_endpoint ctx, xi_flags = unset, xi_type = sx_type ctx, xi_timeOut = sx_timeOut ctx,
     xi_length = sx_length ctx, xi_userData = address, xi_numIsoPackets = sx_numIsoPackets ctx\<rparr>"

definition DEFAULT_SUBMIT_BUFFER_SIZE :: int where "DEFAULT_SUBMIT_BUFFER_SIZE = 1024"

definition endpoint_direction :: "i32 \<Rightarrow> u32" where
  "endpoint_direction endpoint = ucast (ucast endpoint AND ucast USB_ENDPOINT_DIR_MASK :: u8)"

definition release_ashmem :: "('e, 'v, 'c, 'w, 'o, 'p, 'n) transfer_binding_scheme \<Rightarrow> int \<times> int \<Rightarrow> 'w \<Rightarrow> 'w" where
  "release_ashmem b ashmem w = sb_CloseAshmem b ashmem (sb_UnmapAshmem b ashmem w)"

text \<open>The shared memory has the length the application gave; all bytes of its array are written.\<close>

definition CreateAndWriteAshmem :: "('e, 'v, 'c, 'w, 'o, 'p, 'n) transfer_binding_scheme \<Rightarrow> 'v submit_context \<Rightarrow> USBTransferInfo \<Rightarrow>
    (('e, 'v, 'p, 'w, 'm) usb_module_scheme, ('v submit_context \<times> USBTransferInfo) option) state" where
  "CreateAndWriteAshmem b ctx obj = do {
     a \<leftarrow> in_world (sb_CreateAshmem b (if sx_length ctx \<le>s 0 then DEFAULT_SUBMIT_BUFFER_SIZE else sint (sx_length ctx)));
     case a of None \<Rightarrow> State_Monad.return None
     | Some ashmem \<Rightarrow>
       let ctx1 = ctx\<lparr>sx_ashmem := Some ashmem\<rparr> in
       if endpoint_direction (sx_endpoint ctx) = USB_ENDPOINT_DIR_OUT \<and> 0 <s sx_length ctx then do {
         m \<leftarrow> get_memory;
         let bufferData = buffer_bytes (app_buffer (sx_buffer ctx)) (sx_bufferLength ctx) m in do {
         _ \<leftarrow> in_world (\<lambda>w. ((), sb_MapReadAndWriteAshmem b ashmem w));
         written \<leftarrow> in_world (sb_WriteToAshmem b ashmem bufferData);
         if \<not> written then do { _ \<leftarrow> in_world (\<lambda>w. ((), release_ashmem b ashmem w)); State_Monad.return None }
         else State_Monad.return (Some (ctx1, obj\<lparr>xi_length := of_nat (length bufferData)\<rparr>)) } }
       else State_Monad.return (Some (ctx1, obj)) }"

text \<open>The codes of the driver and of the service, as the application sees them.\<close>

definition UsbSubmitTransferErrorCode :: "retcode \<Rightarrow> i32" where
  "UsbSubmitTransferErrorCode error =
     (if error = Code (- 1) then USB_SUBMIT_TRANSFER_IO_ERROR
      else if error = Code (- 2) then OHEC_COMMON_PARAM_ERROR
      else if error = Code (- 4) then USB_SUBMIT_TRANSFER_NO_DEVICE_ERROR
      else if error = Code (- 5) then USB_SUBMIT_TRANSFER_NOT_FOUND_ERROR
      else if error = Code (- 6) then USB_SUBMIT_TRANSFER_RESOURCE_BUSY_ERROR
      else if error = Code (- 11) then USB_SUBMIT_TRANSFER_NO_MEM_ERROR
      else if error = UEC_SERVICE_PERMISSION_DENIED then UEC_COMMON_HAS_NO_RIGHT
      else USB_SUBMIT_TRANSFER_OTHER_ERROR)"

definition keep_context :: "u64 \<Rightarrow> 'v submit_context option \<Rightarrow> (('e, 'v, 'p, 'w, 'm) transfer_module_scheme, unit) state" where
  "keep_context address ctx = State (\<lambda>s. ((), s\<lparr>transfers := (transfers s)(address := ctx)\<rparr>))"

definition UsbSubmitTransfer :: "('e, 'v, 'c, 'w, 'o, 'p, 'n) transfer_binding_scheme \<Rightarrow> 'v list \<Rightarrow> (('e, 'v, 'p, 'w, 'm) transfer_module_scheme, 'v) state" where
  "UsbSubmitTransfer b info =
     (if \<not> HasFeature b FEATURE_HOST then throw_null b CAPABILITY_NOT_SUPPORT []
      else if \<not> new_context b then State_Monad.return (nullptr b)
      else do {
        address \<leftarrow> in_world (\<lambda>w. (sb_address b w, w));
        r \<leftarrow> GetTransferParamsFromJsObj b info new_submit_context;
        if \<not> fst r then throw_null b OHEC_COMMON_PARAM_ERROR ''BusinessError 401:Parameter error.''
        else if unat (sx_numIsoPackets (snd r)) > MAX_NUM_OF_ISO_PACKAGE then State_Monad.return (nullptr b)
        else do {
          c \<leftarrow> CreateAndWriteAshmem b (snd r) (GetUSBTransferInfo (unset_int b) address (snd r));
          case c of None \<Rightarrow> State_Monad.return (nullptr b)
          | Some (ctx, obj) \<Rightarrow> do {
              keep_context address (Some ctx);
              ret \<leftarrow> use_client b (client_UsbSubmitTransfer (sb_new_server b) (sx_pipe ctx) obj (Some ()) (the (sx_ashmem ctx)));
              if ret \<noteq> UEC_OK then do {
                _ \<leftarrow> in_world (\<lambda>w. ((), release_ashmem b (the (sx_ashmem ctx)) w));
                keep_context address None;
                throw_null b (UsbSubmitTransferErrorCode ret) [] }
              else State_Monad.return (nullptr b) } } })"

definition UsbCancelTransfer :: "('e, 'v, 'c, 'w, 'o, 'p, 'n) usb_binding_scheme \<Rightarrow> 'v list \<Rightarrow> (('e, 'v, 'p, 'w, 'm) usb_module_scheme, 'v) state" where
  "UsbCancelTransfer b info =
     (if \<not> HasFeature b FEATURE_HOST then throw_null b CAPABILITY_NOT_SUPPORT []
      else do {
        r \<leftarrow> GetCancelParamsFromJsObj b info new_submit_context;
        if \<not> fst r then throw_null b OHEC_COMMON_PARAM_ERROR ''BusinessError 401:Parameter error.''
        else do {
          ret \<leftarrow> use_client b (client_UsbCancelTransfer (sx_pipe (snd r)) (sint (sx_endpoint (snd r))));
          if ret \<noteq> UEC_OK then throw_null b (UsbSubmitTransferErrorCode ret) []
          else State_Monad.return (nullptr b) } })"

subsection \<open>The result of a submitted transfer\<close>

definition map_ashmem :: "('e, 'v, 'c, 'w, 'o, 'p, 'n) transfer_binding_scheme \<Rightarrow> int \<times> int \<Rightarrow> (('e, 'v, 'p, 'w, 'm) usb_module_scheme, unit) state" where
  "map_ashmem b ashmem = in_world (\<lambda>w. ((), sb_MapReadAndWriteAshmem b ashmem w))"

definition ReadDataToBuffer :: "('e, 'v, 'c, 'w, 'o, 'p, 'n) transfer_binding_scheme \<Rightarrow> 'v submit_context \<Rightarrow> i32 \<Rightarrow>
    (('e, 'v, 'p, 'w, 'm) usb_module_scheme, i32) state" where
  "ReadDataToBuffer b ctx actualLength =
     (let ashmem = the (sx_ashmem ctx); release = in_world (\<lambda>w. ((), release_ashmem b ashmem w)) in
      if endpoint_direction (sx_endpoint ctx) = USB_ENDPOINT_DIR_IN \<and> sx_bufferLength ctx > 0 \<and> 0 <s actualLength then do {
        map_ashmem b ashmem;
        ashmemBuffer \<leftarrow> in_world (\<lambda>w. (sb_ReadFromAshmem b ashmem (nat (sint actualLength)) w, w));
        case ashmemBuffer of None \<Rightarrow> do { release; State_Monad.return actualLength }
        | Some bytes \<Rightarrow>
          let actBufLen = min (nat (sint actualLength)) (sx_bufferLength ctx) in do {
          (if memcpy_s b (sx_bufferLength ctx) actBufLen then copy_into (app_buffer (sx_buffer ctx)) (take actBufLen bytes)
           else State_Monad.return ());
          release;
          State_Monad.return (of_nat actBufLen) } }
      else do { release; State_Monad.return actualLength })"

text \<open>
  Called with the address the service gives back, which is used as a pointer: when the context of the transfer was
  deleted meanwhile the behaviour is undefined, \<open>None\<close>. When the event cannot be sent the context is not deleted.
\<close>

definition find_context :: "u64 \<Rightarrow> (('e, 'v, 'p, 'w, 'm) transfer_module_scheme, 'v submit_context option) state" where
  "find_context address = State (\<lambda>s. (transfers s address, s))"

definition add_event :: "'v callback_context \<Rightarrow> (('e, 'v, 'p, 'w, 'm) transfer_module_scheme, unit) state" where
  "add_event cb = State (\<lambda>s. ((), s\<lparr>events := events s @ [cb]\<rparr>))"

definition JsCallBack :: "('e, 'v, 'c, 'w, 'o, 'p, 'n) transfer_binding_scheme \<Rightarrow> u64 \<Rightarrow> i32 \<Rightarrow> i32 \<Rightarrow> UsbIsoPacketDescriptor list \<Rightarrow>
    (('e, 'v, 'p, 'w, 'm) transfer_module_scheme, unit option) state" where
  "JsCallBack b address status actualLength isoInfo = do {
     c \<leftarrow> find_context address;
     case c of None \<Rightarrow> State_Monad.return None
     | Some ctx \<Rightarrow> do {
         actBufLen \<leftarrow> ReadDataToBuffer b ctx actualLength;
         (if \<not> sb_new_callback b then keep_context address None
         else do {
           sent \<leftarrow> call (napi_send_event b);
           if sent = Some () then add_event \<lparr>cb_address = address, cb_actualLength = actBufLen, cb_status = status, cb_isoInfo = isoInfo,
             cb_callbackRef = sx_callbackRef ctx\<rparr>
           else State_Monad.return () });
         State_Monad.return (Some ()) } }"

definition set_int :: "('e, 'v, 'n) napi_scheme \<Rightarrow> string \<Rightarrow> i32 \<Rightarrow> 'v \<Rightarrow> (('e, 'm) js_env_scheme, 'v) state" where
  "set_int n key i obj = do {
     v \<leftarrow> out_var (nullptr n) (napi_create_int32 n i);
     out_var obj (napi_set_named_property n obj key v) }"

definition iso_object :: "('e, 'v, 'n) napi_scheme \<Rightarrow> UsbIsoPacketDescriptor \<Rightarrow> (('e, 'm) js_env_scheme, 'v) state" where
  "iso_object n d = do {
     iso \<leftarrow> out_var (nullptr n) (napi_create_object n);
     iso \<leftarrow> set_int n ''length'' (isoLength d) iso;
     iso \<leftarrow> set_int n ''actualLength'' (isoActualLength d) iso;
     set_int n ''status'' (isoStatus d) iso }"

definition ParmsInput :: "('e, 'v, 'n) napi_scheme \<Rightarrow> 'v callback_context \<Rightarrow> (('e, 'm) js_env_scheme, 'v) state" where
  "ParmsInput n cb = do {
     res \<leftarrow> out_var (nullptr n) (napi_create_object n);
     res \<leftarrow> set_int n ''status'' (cb_status cb) res;
     res \<leftarrow> set_int n ''actualLength'' (cb_actualLength cb) res;
     if cb_isoInfo cb = [] then State_Monad.return res
     else do {
       isoObjArray \<leftarrow> out_var (nullptr n) (napi_create_array n);
       isoObjArray \<leftarrow> set_elements n (iso_object n) 0 (cb_isoInfo cb) isoObjArray;
       out_var res (napi_set_named_property n res ''isoPacketDescs'' isoObjArray) } }"

text \<open>The task of the event calls the application's function and deletes the context.\<close>

definition log_call :: "'v \<times> 'v list \<Rightarrow> (('e, 'v, 'p, 'w, 'm) transfer_module_scheme, unit) state" where
  "log_call c = State (\<lambda>s. ((), s\<lparr>called := called s @ [c]\<rparr>))"

definition run_event :: "('e, 'v, 'c, 'w, 'o, 'p, 'n) transfer_binding_scheme \<Rightarrow> 'v callback_context \<Rightarrow>
    (('e, 'v, 'p, 'w, 'm) transfer_module_scheme, unit) state" where
  "run_event b cb = do {
     resultJsCb \<leftarrow> out_var (unset_value b) (napi_get_reference_value b (cb_callbackRef cb));
     arg \<leftarrow> ParmsInput b cb;
     log_call (resultJsCb, [nullptr b, arg]);
     _ \<leftarrow> call (napi_call_function b resultJsCb [nullptr b, arg]);
     keep_context (cb_address cb) None }"

subsection \<open>The functions of the module\<close>

definition usb_functions :: "('e, 'v, 'c, 'w, 'o, 'p, 'n) transfer_binding_scheme \<Rightarrow>
    (string \<times> ('v list \<Rightarrow> (('e, 'v, 'p, 'w, 'm) transfer_module_scheme, 'v) state)) list" where
  "usb_functions b = [
     (''getDevices'', CoreGetDevices b), (''connectDevice'', CoreConnectDevice b), (''hasRight'', CoreHasRight b),
     (''requestRight'', CoreRequestRight b), (''usbFunctionsFromString'', CoreUsbFunctionsFromString b),
     (''getFunctionsFromString'', CoreUsbFunctionsFromString b), (''usbFunctionsToString'', CoreUsbFunctionsToString b),
     (''getStringFromFunctions'', CoreUsbFunctionsToString b), (''setCurrentFunctions'', CoreSetCurrentFunctions b),
     (''setDeviceFunctions'', CoreSetCurrentFunctions b), (''getCurrentFunctions'', CoreGetCurrentFunctions b),
     (''getDeviceFunctions'', CoreGetCurrentFunctions b), (''getPorts'', CoreGetPorts b), (''getPortList'', CoreGetPorts b),
     (''getSupportedModes'', PortGetSupportedModes b), (''getPortSupportModes'', PortGetSupportedModes b),
     (''setPortRoles'', PortSetPortRole b), (''setPortRoleTypes'', PortSetPortRole b),
     (''claimInterface'', PipeClaimInterface b), (''releaseInterface'', PipeReleaseInterface b), (''bulkTransfer'', PipeBulkTransfer b),
     (''controlTransfer'', PipeControlTransfer b), (''usbControlTransfer'', PipeUsbControlTransfer b),
     (''setInterface'', PipeSetInterface b), (''setConfiguration'', PipeSetConfiguration b),
     (''getRawDescriptor'', PipeGetRawDescriptors b), (''getFileDescriptor'', PipeGetFileDescriptor b), (''closePipe'', PipeClose b),
     (''resetUsbDevice'', PipeResetDevice b), (''usbCancelTransfer'', Js_Transfer.UsbCancelTransfer b),
     (''usbSubmitTransfer'', Js_Transfer.UsbSubmitTransfer b), (''getVersion'', GetVersion b), (''addRight'', DeviceAddRight b),
     (''addDeviceAccessRight'', DeviceAddAccessRight b), (''removeRight'', DeviceRemoveRight b),
     (''getAccessoryList'', DeviceGetAccessoryList b), (''openAccessory'', DeviceOpenAccessory b), (''closeAccessory'', DeviceCloseAccessory b),
     (''addAccessoryRight'', DeviceAddAccessoryRight b), (''hasAccessoryRight'', DeviceHasAccessoryRight b),
     (''requestAccessoryRight'', DeviceRequestAccessoryRight b), (''cancelAccessoryRight'', DeviceCancelAccessoryRight b)]"

text \<open>A call of the module's function of that name.\<close>

definition UsbInit :: "('e, 'v, 'c, 'w, 'o, 'p, 'n) transfer_binding_scheme \<Rightarrow> string \<Rightarrow>
    ('v list \<Rightarrow> (('e, 'v, 'p, 'w, 'm) transfer_module_scheme, 'v) state) option" where
  "UsbInit b name = map_of (usb_functions b) name"

subsection \<open>A build without the features\<close>

lemma no_feature:
  assumes "\<not> HasFeature b feature"
  shows "api b feature k enough msg body info = throw_null b CAPABILITY_NOT_SUPPORT []"
    and "api_no_arguments b feature body' info = throw_null b CAPABILITY_NOT_SUPPORT []"
  using assms by (simp_all add: api_def api_no_arguments_def throw_null_def)

lemmas api_defs = CoreGetDevices_def CoreConnectDevice_def CoreHasRight_def CoreRequestRight_def CoreUsbFunctionsFromString_def
  CoreUsbFunctionsToString_def CoreSetCurrentFunctions_def CoreGetCurrentFunctions_def CoreGetPorts_def PortGetSupportedModes_def
  PortSetPortRole_def PipeClaimInterface_def PipeReleaseInterface_def PipeBulkTransfer_def PipeControlTransfer_def
  PipeUsbControlTransfer_def PipeSetInterface_def PipeSetConfiguration_def PipeGetRawDescriptors_def PipeGetFileDescriptor_def
  PipeClose_def PipeResetDevice_def Js_Transfer.UsbCancelTransfer_def Js_Transfer.UsbSubmitTransfer_def DeviceAddRight_def
  DeviceAddAccessRight_def DeviceRemoveRight_def DeviceGetAccessoryList_def DeviceOpenAccessory_def DeviceCloseAccessory_def
  DeviceAddAccessoryRight_def DeviceHasAccessoryRight_def DeviceRequestAccessoryRight_def DeviceCancelAccessoryRight_def
  pipe_api_def pipe_and_def add_device_right_def

lemma no_features_table:
  assumes "\<And>feature. \<not> HasFeature b feature"
  shows "list_all (\<lambda>(name, f). name = ''getVersion'' \<or> f = (\<lambda>info. throw_null b CAPABILITY_NOT_SUPPORT [])) (usb_functions b)"
  unfolding usb_functions_def list.pred_inject prod.case
  apply (intro conjI TrueI)
  apply ((rule disjI1, rule refl) |
    (rule disjI2, rule ext, simp only: api_defs no_feature [OF assms] assms if_True not_False_eq_True; fail))+
  apply simp
  done

lemma capability_message: "map_of ERRCODE_MSG_MAP CAPABILITY_NOT_SUPPORT = Some ''BusinessError 801:Capability not supported.''"
  unfolding ERRCODE_MSG_MAP_def
  by ((rule map_of_skip, (simp add: js_code_defs; fail))+, rule map_of_hit, simp)

text \<open>
  A build without the features. Every function of the module but \<^verbatim>\<open>getVersion\<close> throws the error that the
  capability is not supported, whatever the arguments, returns nothing and changes nothing else.
\<close>

theorem missing_features_throw:
  fixes b :: "('e, 'v, 'c, 'w, 'o, 'p, 'n) transfer_binding_scheme" and s :: "('e, 'v, 'p, 'w, 'm) transfer_module_scheme"
  assumes "napi_law b view pend" and "\<not> feature_host b" and "\<not> feature_device b" and "\<not> feature_port b"
    and "UsbInit b name = Some f" and "name \<noteq> ''getVersion''" and "pend (engine s) = None"
  shows "\<exists>e. run_state (f args) s = (nullptr b, s\<lparr>engine := e\<rparr>) \<and> thrown view pend e CAPABILITY_NOT_SUPPORT"
proof -
  have "\<not> HasFeature b feature" for feature using assms(2-4) by (cases feature) (simp_all add: HasFeature_def)
  moreover have "(name, f) \<in> set (usb_functions b)" using assms(5) unfolding UsbInit_def by (rule map_of_SomeD)
  ultimately have f: "f = (\<lambda>info. throw_null b CAPABILITY_NOT_SUPPORT [])"
    using no_features_table [of b] assms(6) by (auto simp: list_all_iff)
  have utf: "utf8 (''BusinessError 801:Capability not supported.'' @ [])" by code_simp
  obtain e where "run_state (ThrowBusinessError ERRCODE_MSG_MAP b CAPABILITY_NOT_SUPPORT []) s = ((), s\<lparr>engine := e\<rparr>)"
    "thrown view pend e CAPABILITY_NOT_SUPPORT"
    by (rule throws_error [OF assms(1) capability_message utf assms(7)])
  then show ?thesis by (auto simp: f throw_null_def throw_error_def run_bind run_return)
qed

subsection \<open>A bulk transfer from the call to the promise\<close>

text \<open>What the run time promises about promises and work: the calls succeed.\<close>

definition promise_law :: "('e, 'v, 'c, 'w, 'o, 'p, 'n) usb_binding_scheme \<Rightarrow> ('e \<Rightarrow> 'v option) \<Rightarrow> bool" where
  "promise_law b pend \<longleftrightarrow> returns pend (napi_create_promise b) (\<lambda>_. True) \<and> (\<forall>v. returns pend (napi_create_async_work b v) (\<lambda>_. True)) \<and>
     returns pend (napi_queue_async_work b) (\<lambda>_. True) \<and> (\<forall>d v. returns pend (napi_resolve_deferred b d v) (\<lambda>_. True))"

text \<open>The event loop takes the work that waits longest.\<close>

definition next_work :: "(('e, 'v, 'p, 'w, 'm) usb_module_scheme, ('v option \<times> usb_work) option) state" where
  "next_work = State (\<lambda>s. case works s of [] \<Rightarrow> (None, s) | work # rest \<Rightarrow> (Some work, s\<lparr>works := rest\<rparr>))"

definition run_next :: "('e, 'v, 'c, 'w, 'o, 'p, 'n) usb_binding_scheme \<Rightarrow> (('e, 'v, 'p, 'w, 'm) usb_module_scheme, unit) state" where
  "run_next b = do { work \<leftarrow> next_work; case work of None \<Rightarrow> State_Monad.return () | Some w \<Rightarrow> run_work b w }"

definition bulk_buffer :: "USBEndpoint \<Rightarrow> nat \<Rightarrow> nat \<Rightarrow> (nat \<Rightarrow> u8) \<Rightarrow> native_buffer" where
  "bulk_buffer ep p len m = (if GetDirection ep = USB_ENDPOINT_DIR_OUT \<and> len > 0 then Own (fetch p len m) else App p)"

lemma uint8_array_quiet:
  assumes "napi_law n view pend" and "view v = JTyped napi_uint8_array p len"
  shows "quietly pend (JsUint8ArrayParseReserveZeroBuffer msgs n v old) (\<lambda>r. r = (True, Some p, len))"
  unfolding JsUint8ArrayParseReserveZeroBuffer_def
  by (rule quietly_bind [OF quietly_call [OF napi_arguments(2) [OF assms]]], clarsimp,
    rule quietly_case_call [OF napi_arguments(3) [OF assms]]) (auto intro: quietly_return)

lemma run_get_memory: "run_state get_memory s = (memory s, s)"
  by (simp add: get_memory_def)

lemma GetDescriptorOnBulkTransferParam_run:
  fixes s :: "('e, 'm) js_env_scheme"
  assumes "napi_law b view pend" and "view va = JTyped napi_uint8_array p len" and "pend e\<^sub>0 = None"
    and "len > 0 \<longrightarrow> new_array b len \<and> memcpy_s b len len"
  obtains e where "pend e = None" and "run_state (GetDescriptorOnBulkTransferParam b va ctx ep) (s\<lparr>engine := e\<^sub>0\<rparr>) =
    ((True, ctx\<lparr>bx_endpoint := ep, bx_buffer := bulk_buffer ep p len (memory s), bx_bufferLength := u32_size len\<rparr>), s\<lparr>engine := e\<rparr>)"
proof -
  obtain r e where "run_state (JsUint8ArrayParseReserveZeroBuffer ERRCODE_MSG_MAP b va (None, 0)) (s\<lparr>engine := e\<^sub>0\<rparr>) = (r, s\<lparr>engine := e\<rparr>)"
    "pend e = None" "r = (True, Some p, len)"
    by (rule quiet_next [OF uint8_array_quiet [OF assms(1,2)] assms(3)])
  then show ?thesis using assms(4)
    by (intro that [of e]) (simp_all add: GetDescriptorOnBulkTransferParam_def run_bind run_return copy_buffer_def run_get_memory bulk_buffer_def app_buffer_def)
qed

lemma GetBulkTransferParams_run:
  fixes s :: "('e, 'm) js_env_scheme"
  assumes "napi_law b view pend" and "view vp = pipe_js pipe" and "view ve = endpoint_js ep" and "view va = JTyped napi_uint8_array p len"
    and "len > 0 \<longrightarrow> new_array b len \<and> memcpy_s b len len" and "pend e\<^sub>0 = None"
  obtains e where "pend e = None" and "run_state (GetBulkTransferParams b [vp, ve, va] ctx) (s\<lparr>engine := e\<^sub>0\<rparr>) =
    ((True, \<lparr>bx_pipe = pipe, bx_endpoint = ep, bx_buffer = bulk_buffer ep p len (memory s), bx_bufferLength = u32_size len, bx_timeOut = 0\<rparr>),
     s\<lparr>engine := e\<rparr>)"
proof -
  obtain r e1 where 1: "run_state (call (napi_get_cb_info b [vp, ve, va] 4)) (s\<lparr>engine := e\<^sub>0\<rparr>) = (r, s\<lparr>engine := e1\<rparr>)" "pend e1 = None"
    and r: "\<exists>x. r = Some x \<and> (case x of (argc, argv) \<Rightarrow> argc = length [vp, ve, va] \<and> length argv = 4 \<and>
      (\<forall>i < 4. if i < length [vp, ve, va] then argv ! i = [vp, ve, va] ! i else view (argv ! i) = JUndefined))"
    by (rule quiet_next [OF quietly_call [OF napi_arguments(1) [OF assms(1)]] assms(6)])
  obtain argv where argv: "r = Some (3, argv)" "\<forall>i < 3. argv ! i = [vp, ve, va] ! i" using r by force
  then have args: "argv ! 0 = vp" "argv ! 1 = ve" "argv ! 2 = va" by (simp_all add: numeral_3_eq_3 numeral_2_eq_2)
  have ty: "js_type (view vp) = Some napi_object" "js_type (view ve) = Some napi_object"
    by (simp_all add: assms(2,3) pipe_js_def endpoint_js_def)
  obtain e2 where 2: "run_state (out_var (unset_type b) (napi_typeof b vp)) (s\<lparr>engine := e1\<rparr>) = (napi_object, s\<lparr>engine := e2\<rparr>)" "pend e2 = None"
    by (rule quiet_next [OF quietly_out_var [OF napi_readsD(1) [OF assms(1) ty(1)]] 1(2)]) blast
  obtain e3 where 3: "run_state (ParseUsbDevicePipe b vp new_pipe) (s\<lparr>engine := e2\<rparr>) = (pipe, s\<lparr>engine := e3\<rparr>)" "pend e3 = None"
    by (rule quiet_next [OF pipe_js.of_js [OF assms(1) TrueI assms(2)] 2(2)]) blast
  obtain e4 where 4: "run_state (out_var napi_object (napi_typeof b ve)) (s\<lparr>engine := e3\<rparr>) = (napi_object, s\<lparr>engine := e4\<rparr>)" "pend e4 = None"
    by (rule quiet_next [OF quietly_out_var [OF napi_readsD(1) [OF assms(1) ty(2)]] 3(2)]) blast
  obtain e5 where 5: "run_state (ParseEndpointObj b ve new_endpoint) (s\<lparr>engine := e4\<rparr>) = (ep, s\<lparr>engine := e5\<rparr>)" "pend e5 = None"
    by (rule quiet_next [OF endpoint_js.of_js [OF assms(1) TrueI assms(3)] 4(2)]) blast
  obtain e6 where 6: "pend e6 = None" "run_state (GetDescriptorOnBulkTransferParam b va (ctx\<lparr>bx_pipe := pipe\<rparr>) ep) (s\<lparr>engine := e5\<rparr>) =
    ((True, ctx\<lparr>bx_pipe := pipe\<rparr>\<lparr>bx_endpoint := ep, bx_buffer := bulk_buffer ep p len (memory s), bx_bufferLength := u32_size len\<rparr>), s\<lparr>engine := e6\<rparr>)"
    by (rule GetDescriptorOnBulkTransferParam_run [OF assms(1,4) 5(2) assms(5)])
  show ?thesis
    by (rule that [OF 6(1)]) (simp add: GetBulkTransferParams_def run_bind 1(1) argv(1) args param_check_def time_out_def Let_def
      2(1) 3(1) 4(1) 5(1) 6(2) run_return args(2) [unfolded One_nat_def])
qed

lemma create_promise_quiet:
  assumes "promise_law b pend"
  shows "quietly pend (create_promise b) (\<lambda>r. \<exists>d v. r = (Some d, v))"
  unfolding create_promise_def
  by (rule quietly_bind [OF quietly_call [of pend _ "\<lambda>_. True"]]) (use assms in \<open>auto simp: promise_law_def intro: quietly_return\<close>)

lemma bulk_name: "utf8 ''PipeBulkTransfer''"
  by code_simp

lemma PipeBulkTransfer_run:
  fixes s :: "('e, 'v, 'p, 'w, 'm) usb_module_scheme"
  assumes "napi_law b view pend" and "promise_law b pend" and "feature_host b" and "new_context b" and "pend (engine s) = None"
    and "view vp = pipe_js pipe" and "view ve = endpoint_js ep" and "view va = JTyped napi_uint8_array p len"
    and "len > 0 \<longrightarrow> new_array b len \<and> memcpy_s b len len"
  obtains v d e where "pend e = None" and "run_state (PipeBulkTransfer b [vp, ve, va]) s = (v, s\<lparr>engine := e, works := works s @ [(Some d,
    Bulk_Transfer \<lparr>bx_pipe = pipe, bx_endpoint = ep, bx_buffer = bulk_buffer ep p len (memory s), bx_bufferLength = u32_size len, bx_timeOut = 0\<rparr>)]\<rparr>)"
proof -
  have hf: "HasFeature b FEATURE_HOST" by (simp add: HasFeature_def assms(3))
  have law: "returns pend (napi_create_async_work b x) (\<lambda>_. True)" "returns pend (napi_queue_async_work b) (\<lambda>_. True)" for x
    using assms(2) by (simp_all add: promise_law_def)
  obtain d v e1 where 1: "run_state (create_promise b) s = ((Some d, v), s\<lparr>engine := e1\<rparr>)" "pend e1 = None"
    using quietlyD [OF create_promise_quiet [OF assms(2)] assms(5)] by blast
  let ?ctx = "\<lparr>bx_pipe = pipe, bx_endpoint = ep, bx_buffer = bulk_buffer ep p len (memory s), bx_bufferLength = u32_size len, bx_timeOut = 0\<rparr>"
  obtain e2 where 2: "pend e2 = None" "run_state (GetBulkTransferParams b [vp, ve, va] new_bulk_context) (s\<lparr>engine := e1\<rparr>) = ((True, ?ctx), s\<lparr>engine := e2\<rparr>)"
    by (rule GetBulkTransferParams_run [OF assms(1,6-9) 1(2)])
  obtain x e3 where 3: "run_state (out_var (nullptr b) (napi_create_string_utf8 b ''PipeBulkTransfer'')) (s\<lparr>engine := e2\<rparr>) = (x, s\<lparr>engine := e3\<rparr>)"
    "pend e3 = None"
    by (rule quiet_next [OF quietly_out_var [OF napi_writesD(3) [OF assms(1) bulk_name]] 2(1)])
  obtain e4 where 4: "run_state (call (napi_create_async_work b x)) (s\<lparr>engine := e3\<rparr>) = (Some (), s\<lparr>engine := e4\<rparr>)" "pend e4 = None"
    by (rule quiet_next [OF quietly_call [OF law(1)] 3(2)]) force
  obtain e5 where 5: "run_state (call (napi_queue_async_work b)) (s\<lparr>engine := e4\<rparr>) = (Some (), s\<lparr>engine := e5\<rparr>)" "pend e5 = None"
    by (rule quiet_next [OF quietly_call [OF law(2)] 4(2)]) force
  show ?thesis
    by (rule that [OF 5(2)]) (simp add: PipeBulkTransfer_def hf assms(4) run_bind 1(1) 2(2) 3(1) 4(1) 5(1) add_work_def run_return)
qed

text \<open>Executing and completing a transfer.\<close>

lemma finish_number_run:
  fixes s :: "('e, 'v, 'p, 'w, 'm) usb_module_scheme"
  assumes "napi_law b view pend" and "promise_law b pend" and "pend e\<^sub>0 = None"
  obtains x e where "pend e = None" and "view x = JNumber (sint i)"
    and "run_state (finish_number b (Some d) i) (s\<lparr>engine := e\<^sub>0\<rparr>) = ((), s\<lparr>engine := e, settled := settled s @ [(d, True, x)]\<rparr>)"
proof -
  have law: "returns pend (napi_resolve_deferred b d x) (\<lambda>_. True)" for x using assms(2) by (simp add: promise_law_def)
  obtain x e1 where 1: "run_state (out_var (nullptr b) (napi_create_int32 b i)) (s\<lparr>engine := e\<^sub>0\<rparr>) = (x, s\<lparr>engine := e1\<rparr>)" "pend e1 = None"
    "view x = JNumber (sint i)"
    by (rule quiet_next [OF quietly_out_var [OF napi_writesD(4) [OF assms(1)]] assms(3)])
  obtain e2 where 2: "run_state (call (napi_resolve_deferred b d x)) (s\<lparr>engine := e1\<rparr>) = (Some (), s\<lparr>engine := e2\<rparr>)" "pend e2 = None"
    by (rule quiet_next [OF quietly_call [OF law] 1(2)]) force
  show ?thesis
    by (rule that [OF 2(2) 1(3)]) (simp add: finish_number_def run_bind 1(1) 2(1) ProcessPromise_def settle_def)
qed

lemma length_fetch [simp]: "length (fetch p len m) = len"
  by (simp add: fetch_def)

lemma fetch_empty [simp]: "fetch p 0 m = []"
  by (simp add: fetch_def)

lemma store_empty [simp]: "store p [] m = m"
  by (rule ext) (auto simp: store_def)

lemma u32_size_id: "len < 2 ^ 31 \<Longrightarrow> u32_size len = len"
  by (simp add: u32_size_def)

lemma sint_of_size: "len < 2 ^ 31 \<Longrightarrow> sint (of_nat len :: i32) = int len"
  by (simp add: signed_of_nat signed_take_bit_int_eq_self)

lemma transfer_execute_read:
  fixes s :: "('e, 'v, 'p, 'w, 'm) usb_module_scheme"
  assumes "op (fetch p len (memory s)) (csrv b) (client s) (world s) = ((UEC_OK, data), cl, w)"
    and "\<forall>k. 0 < k \<and> k \<le> len \<longrightarrow> memcpy_s b len k"
  shows "run_state (transfer_execute b False True (App p) len op) s =
    ((True, if data = [] then len else min (length data) len), s\<lparr>client := cl, world := w, memory := store p (take len data) (memory s)\<rparr>)"
proof -
  have mem: "s\<lparr>client := cl, world := w, memory := memory s\<rparr> = s\<lparr>client := cl, world := w\<rparr>" by simp
  have take: "take (min (length data) len) data = take len data" by (simp add: min_def)
  show ?thesis using assms mem take
    by (cases "len = 0"; cases "data = []") (simp_all add: transfer_execute_def run_bind run_return run_get_memory buffer_bytes_def use_client_run
      copy_into_def copy_to_def Let_def)
qed

text \<open>
  C29: a bulk read. With a pipe, an endpoint for reading and an array of bytes, \<^verbatim>\<open>bulkTransfer\<close> queues one piece of
  work; when that has run, the bytes of the device that fit are in the application's array, no other memory is
  changed, nothing is freed and the promise is resolved with their number - except that when the device sent no byte it is
  resolved with the length of the array, as if it had been filled.
\<close>

theorem bulk_read_fills_array:
  fixes b :: "('e, 'v, 'c, 'w, 'o, 'p, 'n) usb_binding_scheme" and s :: "('e, 'v, 'p, 'w, 'm) usb_module_scheme"
  assumes "napi_law b view pend" and "promise_law b pend" and "feature_host b" and "new_context b" and "pend (engine s) = None"
    and "works s = []" and "view vp = pipe_js pipe" and "view ve = endpoint_js ep" and "GetDirection ep = USB_ENDPOINT_DIR_IN"
    and "view va = JTyped napi_uint8_array p len" and "len < 2 ^ 31" and "\<forall>k. 0 < k \<and> k \<le> len \<longrightarrow> new_array b k \<and> memcpy_s b len k"
    and "client_BulkTransfer pipe ep (fetch p len (memory s)) 0 (csrv b) (client s) (world s) = ((UEC_OK, data), cl, w)"
  shows "\<exists>d x e. snd (run_state (do { _ \<leftarrow> PipeBulkTransfer b [vp, ve, va]; run_next b }) s) =
      s\<lparr>engine := e, client := cl, world := w, memory := store p (take len data) (memory s), settled := settled s @ [(d, True, x)]\<rparr> \<and>
    pend e = None \<and> view x = JNumber (int (if data = [] then len else min (length data) len))"
proof -
  obtain v d e1 where 1: "pend e1 = None" "run_state (PipeBulkTransfer b [vp, ve, va]) s = (v, s\<lparr>engine := e1, works := works s @ [(Some d,
    Bulk_Transfer \<lparr>bx_pipe = pipe, bx_endpoint = ep, bx_buffer = bulk_buffer ep p len (memory s), bx_bufferLength = u32_size len, bx_timeOut = 0\<rparr>)]\<rparr>)"
    by (rule PipeBulkTransfer_run [OF assms(1-5,7,8,10)]) (use assms(12) in auto)
  have dir: "USB_ENDPOINT_DIR_IN \<noteq> USB_ENDPOINT_DIR_OUT" by (simp add: direction_defs)
  let ?n = "if data = [] then len else min (length data) len"
  let ?s = "s\<lparr>client := cl, world := w, memory := store p (take len data) (memory s)\<rparr>"
  obtain x e2 where 2: "pend e2 = None" "view x = JNumber (sint (of_nat ?n :: i32))"
    "run_state (finish_number b (Some d) (of_nat ?n)) (?s\<lparr>engine := e1\<rparr>) = ((), ?s\<lparr>engine := e2, settled := settled ?s @ [(d, True, x)]\<rparr>)"
    by (rule finish_number_run [OF assms(1,2) 1(1)])
  have works: "s\<lparr>engine := e, works := []\<rparr> = s\<lparr>engine := e\<rparr>" for e using assms(6) by (cases s) simp
  have exec: "run_state (transfer_execute b False True (App p) len (\<lambda>bytes. client_BulkTransfer pipe ep bytes 0)) (s\<lparr>engine := e1\<rparr>) =
      ((True, ?n), ?s\<lparr>engine := e1\<rparr>)"
    by (subst transfer_execute_read [where cl = cl and w = w and data = data]) (use assms(12,13) in simp_all)
  have "snd (run_state (do { _ \<leftarrow> PipeBulkTransfer b [vp, ve, va]; run_next b }) s) = ?s\<lparr>engine := e2, settled := settled ?s @ [(d, True, x)]\<rparr>"
    using 2(3) exec by (simp add: run_bind 1(2) assms(6) run_next_def next_work_def run_work_def works g_bulkTransferExecute_def dir assms(9)
      bulk_buffer_def u32_size_id [OF assms(11)] g_bulkTransferComplete_def transfer_complete_def)
  then show ?thesis using 2(1,2) assms(11) by (intro exI [of _ d] exI [of _ x] exI [of _ e2]) (simp add: sint_of_size)
qed

lemma transfer_execute_write:
  fixes s :: "('e, 'v, 'p, 'w, 'm) usb_module_scheme"
  assumes "op (buffer_bytes buf len (memory s)) (csrv b) (client s) (world s) = ((UEC_OK, data), cl, w)" and "buf \<noteq> Null"
  shows "run_state (transfer_execute b True False buf len op) s =
    ((True, length (buffer_bytes buf len (memory s))), s\<lparr>client := cl, world := w, freed := freed s @ [buf]\<rparr>)"
  using assms by (simp add: transfer_execute_def run_bind run_return run_get_memory free_buffer_def use_client_run Let_def)

text \<open>
  C30: a bulk write. With an endpoint for writing, the bytes that the application's array had at the call are sent
  and the promise is resolved with their number, whatever the application writes to the array before the work
  runs (\<open>m\<close>); no memory is changed and the copy is freed. For an array without bytes there is no copy, and what is
  freed is the address of the application's own array.
\<close>

definition set_memory :: "(nat \<Rightarrow> u8) \<Rightarrow> (('e, 'm) js_env_scheme, unit) state" where
  "set_memory m = State (\<lambda>s. ((), s\<lparr>memory := m\<rparr>))"

theorem bulk_write_sends_copy:
  fixes b :: "('e, 'v, 'c, 'w, 'o, 'p, 'n) usb_binding_scheme" and s :: "('e, 'v, 'p, 'w, 'm) usb_module_scheme"
  assumes "napi_law b view pend" and "promise_law b pend" and "feature_host b" and "new_context b" and "pend (engine s) = None"
    and "works s = []" and "view vp = pipe_js pipe" and "view ve = endpoint_js ep" and "GetDirection ep = USB_ENDPOINT_DIR_OUT"
    and "view va = JTyped napi_uint8_array p len" and "len < 2 ^ 31" and "len > 0 \<longrightarrow> new_array b len \<and> memcpy_s b len len"
    and "client_BulkTransfer pipe ep (fetch p len (memory s)) 0 (csrv b) (client s) (world s) = ((UEC_OK, data), cl, w)"
  shows "\<exists>d x e. snd (run_state (do { _ \<leftarrow> PipeBulkTransfer b [vp, ve, va]; set_memory m; run_next b }) s) =
      s\<lparr>engine := e, client := cl, world := w, memory := m, settled := settled s @ [(d, True, x)],
        freed := freed s @ [if len > 0 then Own (fetch p len (memory s)) else App p]\<rparr> \<and>
    pend e = None \<and> view x = JNumber (int len)"
proof -
  obtain v d e1 where 1: "pend e1 = None" "run_state (PipeBulkTransfer b [vp, ve, va]) s = (v, s\<lparr>engine := e1, works := works s @ [(Some d,
    Bulk_Transfer \<lparr>bx_pipe = pipe, bx_endpoint = ep, bx_buffer = bulk_buffer ep p len (memory s), bx_bufferLength = u32_size len, bx_timeOut = 0\<rparr>)]\<rparr>)"
    by (rule PipeBulkTransfer_run [OF assms(1-5,7,8,10,12)])
  have dir: "USB_ENDPOINT_DIR_OUT \<noteq> USB_ENDPOINT_DIR_IN" by (simp add: direction_defs)
  define buf where "buf = (if len > 0 then Own (fetch p len (memory s)) else App p)"
  then have buf: "bulk_buffer ep p len (memory s) = buf" "buf \<noteq> Null" "buffer_bytes buf len m = fetch p len (memory s)"
    by (simp_all add: bulk_buffer_def assms(9) buffer_bytes_def)
  let ?s = "s\<lparr>client := cl, world := w, memory := m, freed := freed s @ [buf]\<rparr>"
  obtain x e2 where 2: "pend e2 = None" "view x = JNumber (sint (of_nat len :: i32))"
    "run_state (finish_number b (Some d) (of_nat len)) (?s\<lparr>engine := e1\<rparr>) = ((), ?s\<lparr>engine := e2, settled := settled ?s @ [(d, True, x)]\<rparr>)"
    by (rule finish_number_run [OF assms(1,2) 1(1)])
  have works: "s\<lparr>engine := e, memory := m, works := []\<rparr> = s\<lparr>engine := e, memory := m\<rparr>" for e using assms(6) by (cases s) simp
  have exec: "run_state (transfer_execute b True False buf len (\<lambda>bytes. client_BulkTransfer pipe ep bytes 0)) (s\<lparr>engine := e1, memory := m\<rparr>) =
      ((True, len), ?s\<lparr>engine := e1\<rparr>)"
    by (subst transfer_execute_write [where cl = cl and w = w and data = data]) (use assms(13) buf(2,3) in simp_all)
  have "snd (run_state (do { _ \<leftarrow> PipeBulkTransfer b [vp, ve, va]; set_memory m; run_next b }) s) =
      ?s\<lparr>engine := e2, settled := settled ?s @ [(d, True, x)]\<rparr>"
    using 2(3) exec unfolding run_bind 1(2) buf(1)
    by (simp add: assms(6) run_bind run_next_def next_work_def set_memory_def run_work_def works g_bulkTransferExecute_def dir assms(9)
      u32_size_id [OF assms(11)] g_bulkTransferComplete_def transfer_complete_def)
  then show ?thesis using 2(1,2) assms(11) by (intro exI [of _ d] exI [of _ x] exI [of _ e2]) (simp add: sint_of_size buf_def)
qed

subsection \<open>The memory that work may change\<close>

definition keeps :: "nat set \<Rightarrow> (('e, 'm) js_env_scheme, 'a) state \<Rightarrow> bool" where
  "keeps A m \<longleftrightarrow> (\<forall>s a. a \<notin> A \<longrightarrow> memory (snd (run_state m s)) a = memory s a)"

lemma keeps_return: "keeps A (State_Monad.return x)"
  by (simp add: keeps_def run_return)

lemma keeps_bind: "keeps A m \<Longrightarrow> (\<And>x. keeps A (f x)) \<Longrightarrow> keeps A (m \<bind> f)"
  unfolding keeps_def run_bind by (simp split: prod.split) (metis snd_conv)

lemma keeps_if: "keeps A m \<Longrightarrow> keeps A k \<Longrightarrow> keeps A (if c then m else k)"
  by simp

lemma keeps_call: "keeps A (call c)"
  by (simp add: keeps_def call_def split: prod.split)

lemma keeps_out_var: "keeps A (out_var old c)"
  unfolding out_var_def by (intro keeps_bind keeps_call keeps_return)

lemma keeps_module:
  "keeps A (use_client b op)" "keeps A (settle d r x)" "keeps A (free_buffer buf)" "keeps A get_memory"
  by (simp_all add: keeps_def use_client_def settle_def free_buffer_def get_memory_def split: prod.split)

lemma keeps_case_option: "keeps A g \<Longrightarrow> (\<And>x. keeps A (f x)) \<Longrightarrow> keeps A (case r of None \<Rightarrow> g | Some x \<Rightarrow> f x)"
  by (simp split: option.split)

lemmas keeps_intros = keeps_bind keeps_if keeps_call keeps_out_var keeps_module keeps_return keeps_case_option

lemma keeps_promise: "keeps A (ProcessPromise b d ok x)"
  unfolding ProcessPromise_def by (intro keeps_intros)

lemma keeps_finish: "keeps A (finish_number b d i)" "keeps A (finish_boolean b d ok flag)" "keeps A (reject_error b d code)"
  unfolding finish_number_def finish_boolean_def reject_error_def get_boolean_def CreateBusinessError_def
  by (intro keeps_intros keeps_promise)+

text \<open>The addresses of the application's buffer.\<close>

definition buffer_range :: "native_buffer \<Rightarrow> nat \<Rightarrow> nat set" where
  "buffer_range buf len = (case buf of App p \<Rightarrow> {p..<p + len} | _ \<Rightarrow> {})"

definition work_range :: "usb_work \<Rightarrow> nat set" where
  "work_range work = (case work of
     Control_Transfer ctx \<Rightarrow> buffer_range (cx_buffer ctx) (cx_bufferLength ctx)
   | Usb_Control_Transfer ctx \<Rightarrow> buffer_range (ux_buffer ctx) (ux_bufferLength ctx)
   | Bulk_Transfer ctx \<Rightarrow> buffer_range (bx_buffer ctx) (bx_bufferLength ctx)
   | _ \<Rightarrow> {})"

lemma keeps_copy_into: "length bs \<le> len \<Longrightarrow> keeps (buffer_range buf len) (copy_into buf bs)"
  by (auto simp: keeps_def copy_into_def copy_to_def store_def buffer_range_def run_return split: native_buffer.split)

lemma keeps_transfer: "keeps (buffer_range buf len) (transfer_execute b outgoing incoming buf len op)"
  unfolding transfer_execute_def Let_def by (intro keeps_intros keeps_copy_into) simp_all

text \<open>
  C31: no queued work writes outside the application's buffer: whatever the service answers and however many bytes
  it sends, the memory at an address that is not in the array given to the transfer is as it was. Requests for rights, functions and
  roles write none at all.
\<close>

theorem work_stays_in_buffer:
  fixes b :: "('e, 'v, 'c, 'w, 'o, 'p, 'n) usb_binding_scheme" and s :: "('e, 'v, 'p, 'w, 'm) usb_module_scheme"
  assumes "a \<notin> work_range work"
  shows "memory (snd (run_state (run_work b (d, work)) s)) a = memory s a"
proof -
  have "keeps (work_range work) (run_work b (d, work) :: (('e, 'v, 'p, 'w, 'm) usb_module_scheme, unit) state)"
    by (cases work) (auto simp: run_work_def work_range_def g_requestRightExecute_def g_requestRightComplete_def
      g_requestAccessoryRightExecute_def g_requestAccessoryRightComplete_def g_setCurrentFunctionExecute_def g_setCurrentFunctionComplete_def
      g_setPortRoleExecute_def g_setPortRoleComplete_def g_controlTransferExecute_def g_controlTransferComplete_def
      g_usbControlTransferExecute_def g_usbControlTransferComplete_def g_bulkTransferExecute_def g_bulkTransferComplete_def
      transfer_complete_def get_boolean_def intro!: keeps_intros keeps_promise keeps_finish keeps_transfer)
  then show ?thesis using assms by (simp add: keeps_def)
qed

subsection \<open>Instances on the run time of trees\<close>

lemma tree_promise_law [simp]: "promise_law tree_binding fst"
  by (simp add: promise_law_def tree_binding_def napi.defs usb_binding.defs returns_answer) (simp add: returns_def)

lemma tree_memory_simps [simp]: "new_context tree_binding" "new_array tree_binding k" "works tree_module = []" "settled tree_module = []" "freed tree_module = []"
    "memcpy_s tree_binding d k \<longleftrightarrow> 0 < d \<and> d \<le> 0x7FFFFFFF \<and> k \<le> d"
  by (simp_all add: tree_binding_def tree_module_def tree_napi_def napi.defs usb_binding.defs)

definition read_endpoint :: USBEndpoint where
  "read_endpoint = new_endpoint\<lparr>ep_address := 0x81\<rparr>"

definition sample_pipe :: USBDevicePipe where
  "sample_pipe = \<lparr>pipe_busNum = 1, pipe_devAddr = 2\<rparr>"

theorem bulk_read_fills_array_witness:
  "\<exists>d x e. snd (run_state (do { _ \<leftarrow> PipeBulkTransfer tree_binding [pipe_js sample_pipe, endpoint_js read_endpoint, JTyped napi_uint8_array 10 3];
      run_next tree_binding }) tree_module) = tree_module\<lparr>engine := e, client := \<lparr>proxy = Some ()\<rparr>, world := [1, 2],
      memory := store 10 [7, 8] (\<lambda>a. 0), settled := [(d, True, x)]\<rparr> \<and> fst e = None \<and> x = JNumber 2"
  using bulk_read_fills_array [of tree_binding "\<lambda>v. v" fst tree_module "pipe_js sample_pipe" sample_pipe "endpoint_js read_endpoint" read_endpoint
    "JTyped napi_uint8_array 10 3" 10 3 "[7, 8]" "\<lparr>proxy = Some ()\<rparr>" "[1, 2]"]
  by (simp add: read_endpoint_def new_endpoint_def GetDirection_def direction_defs client_BulkTransfer_def via_proxy_def on_device_def note_server_def
    reply_bytes_def sample_pipe_def)

theorem bulk_write_sends_copy_witness:
  "\<exists>d x e. snd (run_state (do { _ \<leftarrow> PipeBulkTransfer tree_binding [pipe_js sample_pipe, endpoint_js new_endpoint, JTyped napi_uint8_array 10 2];
      set_memory (\<lambda>a. 9); run_next tree_binding }) tree_module) = tree_module\<lparr>engine := e, client := \<lparr>proxy = Some ()\<rparr>, world := [1, 2, 0, 0],
      memory := (\<lambda>a. 9), settled := [(d, True, x)], freed := [Own [0, 0]]\<rparr> \<and> fst e = None \<and> x = JNumber 2"
proof -
  have bytes: "fetch 10 2 (\<lambda>a. 0) = [0, 0]" by code_simp
  show ?thesis
    using bulk_write_sends_copy [of tree_binding "\<lambda>v. v" fst tree_module "pipe_js sample_pipe" sample_pipe "endpoint_js new_endpoint" new_endpoint
      "JTyped napi_uint8_array 10 2" 10 2 "[0, 0]" "\<lparr>proxy = Some ()\<rparr>" "[1, 2, 0, 0]" "\<lambda>a. 9"]
    by (simp add: new_endpoint_def GetDirection_def direction_defs client_BulkTransfer_def via_proxy_def on_device_def note_server_def bytes
      sample_pipe_def)
qed

theorem work_stays_in_buffer_witness:
  "memory (snd (run_state (run_work tree_binding (None, Bulk_Transfer \<lparr>bx_pipe = sample_pipe, bx_endpoint = read_endpoint, bx_buffer = App 10,
     bx_bufferLength = 1, bx_timeOut = 0\<rparr>)) tree_module)) 11 = 0"
  using work_stays_in_buffer [of 11 "Bulk_Transfer \<lparr>bx_pipe = sample_pipe, bx_endpoint = read_endpoint, bx_buffer = App 10,
     bx_bufferLength = 1, bx_timeOut = 0\<rparr>" tree_binding None tree_module] by (simp add: work_range_def buffer_range_def)

text \<open>A build without features, with shared memory that is never given.\<close>

definition bare_binding :: "(tree_engine, js, unit, i32 list, unit, unit) transfer_binding" where
  "bare_binding = usb_binding.extend (tree_binding\<lparr>feature_host := False, feature_device := False, feature_port := False\<rparr>)
     (transfer_binding.fields (\<lambda>v. answer (Some v)) (\<lambda>r. answer r) (\<lambda>_ _. answer (Some JUndefined)) (answer (Some ())) True (\<lambda>w. 1)
       (\<lambda>_ w. ((), w)) (\<lambda>_ w. (None, w)) (\<lambda>_ w. w) (\<lambda>_ _ w. (False, w)) (\<lambda>_ _ w. None) (\<lambda>_ w. w) (\<lambda>_ w. w))"

lemma bare_binding_law [simp]: "napi_law bare_binding (\<lambda>v. v) fst"
proof -
  have "bare_binding = napi.extend tree_napi (napi.more bare_binding)"
    by (simp add: bare_binding_def tree_binding_def napi.defs usb_binding.defs transfer_binding.defs)
  then show ?thesis using tree_napi_law by (metis napi_law_extend)
qed

definition bare_module :: "(tree_engine, js, unit, i32 list) transfer_module" where
  "bare_module = usb_module.extend tree_module (transfer_module.fields (\<lambda>_. None) [] [])"

theorem missing_features_throw_witness:
  "case run_state (CoreGetDevices bare_binding [JNumber 1]) bare_module of
    (v, s) \<Rightarrow> v = JUndefined \<and> thrown (\<lambda>v. v) fst (engine s) CAPABILITY_NOT_SUPPORT"
proof -
  have "UsbInit bare_binding ''getDevices'' = Some (CoreGetDevices bare_binding :: js list \<Rightarrow> ((_, _, _, _) transfer_module, js) state)"
    by (simp add: UsbInit_def usb_functions_def)
  from missing_features_throw [OF bare_binding_law _ _ _ this, of bare_module "[JNumber 1]"]
  show ?thesis
    by (auto simp: bare_binding_def bare_module_def tree_binding_def tree_napi_def tree_module_def napi.defs usb_binding.defs transfer_binding.defs
      usb_module.defs transfer_module.defs)
qed

end
