(* ===== verification/Js_Serial.thy ===== *)
theory Js_Serial
  imports Js_Transfer
begin

section \<open>The JavaScript module of serial ports\<close>

text \<open>
  The functions of \<^verbatim>\<open>serial_info.cpp\<close>: the ports, their attributes, reading and writing at once or on another thread, and
  the rights. The module has its own codes and messages (\<^verbatim>\<open>serial_napi_errors.h\<close>).
\<close>

subsection \<open>Codes and messages\<close>

definition SYSPARAM_INVALID_INPUT :: i32 where "SYSPARAM_INVALID_INPUT = 401"
definition SERIAL_SYSAPI_NOPERMISSION_CALL :: i32 where "SERIAL_SYSAPI_NOPERMISSION_CALL = 201"
definition SERIAL_SYSAPI_PERMISSION_DENIED :: i32 where "SERIAL_SYSAPI_PERMISSION_DENIED = 202"
definition SERIAL_SERVICE_ABNORMAL :: i32 where "SERIAL_SERVICE_ABNORMAL = 31400001"
definition SERIAL_INTERFACE_PERMISSION_DENIED :: i32 where "SERIAL_INTERFACE_PERMISSION_DENIED = 31400002"
definition SERIAL_PORT_NOT_EXIST :: i32 where "SERIAL_PORT_NOT_EXIST = 31400003"
definition SERIAL_PORT_OCCUPIED :: i32 where "SERIAL_PORT_OCCUPIED = 31400004"
definition SERIAL_PORT_NOT_OPEN :: i32 where "SERIAL_PORT_NOT_OPEN = 31400005"
definition SERIAL_TIMED_OUT :: i32 where "SERIAL_TIMED_OUT = 31400006"
definition SERIAL_IO_EXCEPTION :: i32 where "SERIAL_IO_EXCEPTION = 31400007"

lemmas serial_code_defs = SYSPARAM_INVALID_INPUT_def SERIAL_SYSAPI_NOPERMISSION_CALL_def SERIAL_SYSAPI_PERMISSION_DENIED_def
  SERIAL_SERVICE_ABNORMAL_def SERIAL_INTERFACE_PERMISSION_DENIED_def SERIAL_PORT_NOT_EXIST_def SERIAL_PORT_OCCUPIED_def
  SERIAL_PORT_NOT_OPEN_def SERIAL_TIMED_OUT_def SERIAL_IO_EXCEPTION_def UEC_COMMON_RIGHT_DATABASE_ERROR_def

text \<open>There is no message for \<^verbatim>\<open>UEC_COMMON_RIGHT_DATABASE_ERROR\<close>.\<close>

definition serial_ERRCODE_MSG_MAP :: messages where
  "serial_ERRCODE_MSG_MAP = [
     (SYSPARAM_INVALID_INPUT, ''BusinessError 401:Parameter error.''),
     (SERIAL_SYSAPI_NOPERMISSION_CALL,
      ''BusinessError 201:Permission denied. The application does not have the permission to call the API.''),
     (SERIAL_SYSAPI_PERMISSION_DENIED, ''BusinessError 202:Permission denied. Normal application uses system api.''),
     (SERIAL_SERVICE_ABNORMAL, ''BusinessError 31400001:The serial port service is abnormal.''),
     (SERIAL_INTERFACE_PERMISSION_DENIED,
      ''BusinessError 31400002:Permission denied. no access right to serial device, call requestSerialRight first.''),
     (SERIAL_PORT_NOT_EXIST, ''BusinessError 31400003:port not exist.''),
     (SERIAL_PORT_OCCUPIED, ''BusinessError 31400004:device is using by other application.''),
     (SERIAL_PORT_NOT_OPEN, ''BusinessError 31400005:device is not open, call open first.''),
     (SERIAL_TIMED_OUT, ''BusinessError 31400006:transfer timeout.''),
     (SERIAL_IO_EXCEPTION, ''BusinessError 31400007: IO exception. Possible causes: 1. The transfer was canceled. 2. The device offered more data.'')]"

subsection \<open>State and environment\<close>

record serial_context =
  sc_portId :: i32
  sc_size :: u32
  sc_timeout :: u32
  sc_pData :: "nat option"

datatype serial_work = Serial_Write serial_context | Serial_Read serial_context | Serial_Request_Right i32

record ('e, 'v, 'p, 'w) serial_module = "('e, 'v, 'p, 'w) usb_module" +
  serial_works :: "('v \<times> serial_work) list"

text \<open>
  Two codes that the service never returns and that the conversion still names, the object by which the service sees the
  client die, the values of variables that are not set, and what \<^verbatim>\<open>memcpy_s\<close> writes to a destination of a given size from
  given bytes, with its success.
\<close>

record ('e, 'v, 'c, 'w, 'o, 'p) serial_binding = "('e, 'v, 'c, 'w, 'o, 'p) usb_binding" +
  UEC_SERIAL_PORT_REPEAT_CLOSE :: int
  UEC_SERIAL_PORT_OCCUPIED :: int
  serialRemote :: 'c
  unset_arrayType :: napi_typedarray_type
  unset_size :: nat
  unset_attribute :: UsbSerialAttr
  write_memcpy_s :: "nat \<Rightarrow> u8 list \<Rightarrow> bool \<times> u8 list"

definition ErrorCodeConversion :: "('e, 'v, 'c, 'w, 'o, 'p, 'n) serial_binding_scheme \<Rightarrow> retcode \<Rightarrow> i32" where
  "ErrorCodeConversion b value =
     (if value = UEC_SERVICE_PERMISSION_DENIED_SYSAPI then SERIAL_SYSAPI_PERMISSION_DENIED
      else if value = UEC_SERVICE_PERMISSION_DENIED then SERIAL_INTERFACE_PERMISSION_DENIED
      else if value = UEC_SERVICE_PERMISSION_DENIED_SYSAPI_FAILED then SERIAL_SYSAPI_NOPERMISSION_CALL
      else if value = UEC_SERIAL_PORT_REPEAT_OPEN then SERIAL_PORT_OCCUPIED
      else if value = Code (UEC_SERIAL_PORT_REPEAT_CLOSE b) then SERIAL_PORT_OCCUPIED
      else if value = Code (UEC_SERIAL_PORT_OCCUPIED b) then SERIAL_PORT_OCCUPIED
      else if value = UEC_SERIAL_DEVICENOTOPEN then SERIAL_PORT_NOT_OPEN
      else if value = UEC_SERIAL_PORT_NOT_OPEN then SERIAL_PORT_NOT_OPEN
      else if value = UEC_INTERFACE_TIMED_OUT then SERIAL_TIMED_OUT
      else if value = UEC_SERIAL_IO_EXCEPTION then SERIAL_IO_EXCEPTION
      else if value = UEC_SERIAL_PORT_NOT_EXIST then SERIAL_PORT_NOT_EXIST
      else if value = UEC_SERIAL_DATEBASE_ERROR then UEC_COMMON_RIGHT_DATABASE_ERROR
      else SERIAL_SERVICE_ABNORMAL)"

subsection \<open>Arguments\<close>

text \<open>A check that throws, after which the caller returns \<open>old\<close>.\<close>

definition CheckAndThrowOnError :: "('e, 'v, 'n) napi_scheme \<Rightarrow> bool \<Rightarrow> i32 \<Rightarrow> string \<Rightarrow> 'a \<Rightarrow> (('e, 'm) js_env_scheme, 'a) state \<Rightarrow>
    (('e, 'm) js_env_scheme, 'a) state" where
  "CheckAndThrowOnError = usb_assert serial_ERRCODE_MSG_MAP"

definition serial_arguments :: "('e, 'v, 'n) napi_scheme \<Rightarrow> nat \<Rightarrow> (nat \<Rightarrow> bool) \<Rightarrow> string \<Rightarrow> string \<Rightarrow> 'a \<Rightarrow>
    (nat \<Rightarrow> 'v list \<Rightarrow> (('e, 'm) js_env_scheme, 'a) state) \<Rightarrow> 'v list \<Rightarrow> (('e, 'm) js_env_scheme, 'a) state" where
  "serial_arguments n k enough failed msg old body info = do {
     r \<leftarrow> call (napi_get_cb_info n info k);
     case r of None \<Rightarrow> CheckAndThrowOnError n False SYSPARAM_INVALID_INPUT failed old (State_Monad.return old)
     | Some (argc, argv) \<Rightarrow> CheckAndThrowOnError n (enough argc) SYSPARAM_INVALID_INPUT msg old (body argc argv) }"

text \<open>The number of a port; the type is also the content of the variable for the types of the other arguments.\<close>

definition port_argument :: "('e, 'v, 'n) napi_scheme \<Rightarrow> napi_valuetype \<Rightarrow> 'v \<Rightarrow> string \<Rightarrow> 'a \<Rightarrow> (i32 \<Rightarrow> (('e, 'm) js_env_scheme, 'a) state) \<Rightarrow>
    (('e, 'm) js_env_scheme, 'a) state" where
  "port_argument n old_type v msg old body = do {
     type \<leftarrow> out_var old_type (napi_typeof n v);
     CheckAndThrowOnError n (type = napi_number) SYSPARAM_INVALID_INPUT msg old (do {
       portIdValue \<leftarrow> out_var (- 1) (napi_get_value_int32 n v);
       CheckAndThrowOnError n (portIdValue \<noteq> - 1) SYSPARAM_INVALID_INPUT ''Failed to get portId.'' old (body portIdValue) }) }"

abbreviation port_must_be_int :: string where "port_must_be_int \<equiv> ''The type of portId must be int32_t.''"
abbreviation arg0_must_be_int :: string where "arg0_must_be_int \<equiv> ''The type of arg0 must be int32_t.''"

definition with_port_id :: "('e, 'v, 'n) napi_scheme \<Rightarrow> string \<Rightarrow> string \<Rightarrow> (i32 \<Rightarrow> (('e, 'm) js_env_scheme, 'v) state) \<Rightarrow> 'v list \<Rightarrow>
    (('e, 'm) js_env_scheme, 'v) state" where
  "with_port_id n failed msg body = serial_arguments n 1 (\<lambda>argc. argc = 1) failed ''The function takes 1 arguments.'' (nullptr n) (\<lambda>argc argv.
     port_argument n (unset_type n) (argv ! 0) msg (nullptr n) body)"

abbreviation no_arguments_got :: string where "no_arguments_got \<equiv> ''get arguments failed.''"

text \<open>What the client answered: an error, or the value \<open>k\<close> makes.\<close>

definition serial_result :: "('e, 'v, 'c, 'w, 'o, 'p, 'n) serial_binding_scheme \<Rightarrow> retcode \<Rightarrow> string \<Rightarrow> (('e, 'm) js_env_scheme, 'v) state \<Rightarrow>
    (('e, 'm) js_env_scheme, 'v) state" where
  "serial_result b ret msg k = CheckAndThrowOnError b (ret = UEC_OK) (ErrorCodeConversion b ret) msg (nullptr b) k"

definition serial_done :: "('e, 'v, 'c, 'w, 'o, 'p, 'n) serial_binding_scheme \<Rightarrow> retcode \<Rightarrow> string \<Rightarrow> (('e, 'm) js_env_scheme, 'v) state" where
  "serial_done b ret msg = serial_result b ret msg (State_Monad.return (nullptr b))"

subsection \<open>Ports and attributes\<close>

definition serial_port_object :: "('e, 'v, 'n) napi_scheme \<Rightarrow> UsbSerialPort \<Rightarrow> (('e, 'm) js_env_scheme, 'v) state" where
  "serial_port_object n port = do {
     portObj \<leftarrow> out_var (unset_value n) (napi_create_object n);
     portObj \<leftarrow> SetValueInt32 n ''portId'' (word_of_int (usp_portId port)) portObj;
     SetValueUtf8String n ''deviceName'' (to_string (uint (usp_busNum port)) @ ''-'' @ to_string (uint (usp_devAddr port))) portObj }"

text \<open>Only a negative code gives an empty list.\<close>

definition SerialGetPortListNapi :: "('e, 'v, 'c, 'w, 'o, 'p, 'n) serial_binding_scheme \<Rightarrow> 'v list \<Rightarrow> (('e, 'v, 'p, 'w, 'm) usb_module_scheme, 'v) state" where
  "SerialGetPortListNapi b info = do {
     r \<leftarrow> use_client b (client_SerialGetPortList (cenv b) []);
     result \<leftarrow> out_var (nullptr b) (napi_create_array b);
     if number b (fst r) <s 0 then State_Monad.return result
     else set_elements b (serial_port_object b) 0 (snd r) result }"

definition attribute_object :: "('e, 'v, 'n) napi_scheme \<Rightarrow> UsbSerialAttr \<Rightarrow> (('e, 'm) js_env_scheme, 'v) state" where
  "attribute_object n attr = do {
     result \<leftarrow> out_var (nullptr n) (napi_create_object n);
     result \<leftarrow> SetValueUint32 n ''baudRate'' (usa_baudRate attr) result;
     result \<leftarrow> SetValueUint32 n ''dataBits'' (ucast (usa_dataBits attr)) result;
     result \<leftarrow> SetValueUint32 n ''parity'' (ucast (usa_parity attr)) result;
     SetValueUint32 n ''stopBits'' (ucast (usa_stopBits attr)) result }"

definition SerialGetAttributeNapi :: "('e, 'v, 'c, 'w, 'o, 'p, 'n) serial_binding_scheme \<Rightarrow> 'v list \<Rightarrow> (('e, 'v, 'p, 'w, 'm) usb_module_scheme, 'v) state" where
  "SerialGetAttributeNapi b = with_port_id b no_arguments_got arg0_must_be_int (\<lambda>portIdValue. do {
     r \<leftarrow> use_client b (client_SerialGetAttribute (cenv b) (sint portIdValue) (unset_attribute b));
     serial_result b (fst r) ''Failed to get attribute.'' (attribute_object b (snd r)) })"

text \<open>The properties are read in this order, until one cannot be read.\<close>

definition parse_attribute :: "('e, 'v, 'n) napi_scheme \<Rightarrow> 'v \<Rightarrow> UsbSerialAttr \<Rightarrow> (('e, 'm) js_env_scheme, UsbSerialAttr option) state" where
  "parse_attribute n obj old = do {
     baudRate \<leftarrow> JsObjectToUint32 serial_ERRCODE_MSG_MAP n obj ''baudRate'' (usa_baudRate old);
     if \<not> fst baudRate then State_Monad.return None else do {
     dataBits \<leftarrow> JsObjectToUint8 serial_ERRCODE_MSG_MAP n obj ''dataBits'' (usa_dataBits old);
     if \<not> fst dataBits then State_Monad.return None else do {
     parity \<leftarrow> JsObjectToUint8 serial_ERRCODE_MSG_MAP n obj ''parity'' (usa_parity old);
     if \<not> fst parity then State_Monad.return None else do {
     stopBits \<leftarrow> JsObjectToUint8 serial_ERRCODE_MSG_MAP n obj ''stopBits'' (usa_stopBits old);
     State_Monad.return (if \<not> fst stopBits then None
       else Some \<lparr>usa_baudRate = snd baudRate, usa_stopBits = snd stopBits, usa_parity = snd parity, usa_dataBits = snd dataBits\<rparr>) } } } }"

definition ParseSetAttributeInterfaceParams :: "('e, 'v, 'c, 'w, 'o, 'p, 'n) serial_binding_scheme \<Rightarrow> 'v list \<Rightarrow>
    (('e, 'm) js_env_scheme, (i32 \<times> UsbSerialAttr) option) state" where
  "ParseSetAttributeInterfaceParams b = serial_arguments b 2 (\<lambda>argc. argc = 2) no_arguments_got ''The function takes 2 arguments.'' None (\<lambda>argc argv.
     port_argument b (unset_type b) (argv ! 0) arg0_must_be_int None (\<lambda>portIdValue. do {
       type \<leftarrow> out_var napi_number (napi_typeof b (argv ! 1));
       CheckAndThrowOnError b (type = napi_object) SYSPARAM_INVALID_INPUT ''The type of arg1 must be SerialAttribute.'' None (do {
         attr \<leftarrow> parse_attribute b (argv ! 1) (unset_attribute b);
         CheckAndThrowOnError b (attr \<noteq> None) SYSPARAM_INVALID_INPUT ''Parse attribute failed.'' None
           (State_Monad.return (map_option (Pair portIdValue) attr)) }) }))"

definition SerialSetAttributeNapi :: "('e, 'v, 'c, 'w, 'o, 'p, 'n) serial_binding_scheme \<Rightarrow> 'v list \<Rightarrow> (('e, 'v, 'p, 'w, 'm) usb_module_scheme, 'v) state" where
  "SerialSetAttributeNapi b info = do {
     r \<leftarrow> ParseSetAttributeInterfaceParams b info;
     case r of None \<Rightarrow> State_Monad.return (nullptr b)
     | Some (portIdValue, attr) \<Rightarrow> do {
         ret \<leftarrow> use_client b (client_SerialSetAttribute (cenv b) (sint portIdValue) attr);
         serial_done b ret ''Failed to set attribute.'' } }"

subsection \<open>Reading and writing\<close>

text \<open>\<open>ParseReadInterfaceParams\<close> has the same body.\<close>

definition ParseWriteInterfaceParams :: "('e, 'v, 'n) napi_scheme \<Rightarrow> 'v list \<Rightarrow> (('e, 'm) js_env_scheme, (i32 \<times> 'v \<times> u32) option) state" where
  "ParseWriteInterfaceParams n = serial_arguments n 3 (\<lambda>argc. argc = 2 \<or> argc = 3) no_arguments_got ''The function takes 2 or 3 arguments.'' None
     (\<lambda>argc argv. port_argument n (unset_type n) (argv ! 0) port_must_be_int None (\<lambda>portIdValue.
       if argc = 3 then do {
         type \<leftarrow> out_var napi_number (napi_typeof n (argv ! 2));
         CheckAndThrowOnError n (type = napi_number) SYSPARAM_INVALID_INPUT ''The type of timeout must be uint32_t.'' None (do {
           timeoutValue \<leftarrow> out_var 0 (napi_get_value_uint32 n (argv ! 2));
           State_Monad.return (Some (portIdValue, argv ! 1, timeoutValue)) }) }
       else State_Monad.return (Some (portIdValue, argv ! 1, 0))))"

definition ParseReadInterfaceParams :: "('e, 'v, 'n) napi_scheme \<Rightarrow> 'v list \<Rightarrow> (('e, 'm) js_env_scheme, (i32 \<times> 'v \<times> u32) option) state" where
  "ParseReadInterfaceParams = ParseWriteInterfaceParams"

text \<open>The array: when it is none, the variables for its type and length are read without having been set.\<close>

definition serial_buffer :: "('e, 'v, 'c, 'w, 'o, 'p, 'n) serial_binding_scheme \<Rightarrow> 'v \<Rightarrow> (nat option \<Rightarrow> nat \<Rightarrow> (('e, 'm) js_env_scheme, 'v) state) \<Rightarrow>
    (('e, 'm) js_env_scheme, 'v) state" where
  "serial_buffer b buffer body = do {
     i \<leftarrow> call (napi_get_typedarray_info b buffer);
     case (case i of None \<Rightarrow> (unset_arrayType b, unset_size b, None) | Some (type, len, p, offset) \<Rightarrow> (type, len, Some p)) of
       (arrayType, bufferLength, bufferValue) \<Rightarrow>
         CheckAndThrowOnError b (arrayType = napi_uint8_array) SYSPARAM_INVALID_INPUT ''The type of buffer must be an array of uint8_t.''
           (nullptr b) (body bufferValue bufferLength) }"

definition with_buffer :: "('e, 'v, 'c, 'w, 'o, 'p, 'n) serial_binding_scheme \<Rightarrow>
    ('v list \<Rightarrow> (('e, 'm) js_env_scheme, (i32 \<times> 'v \<times> u32) option) state) \<Rightarrow> 'v list \<Rightarrow>
    (i32 \<Rightarrow> u32 \<Rightarrow> nat option \<Rightarrow> nat \<Rightarrow> (('e, 'm) js_env_scheme, 'v) state) \<Rightarrow> (('e, 'm) js_env_scheme, 'v) state" where
  "with_buffer b parse info body = do {
     r \<leftarrow> parse info;
     case r of None \<Rightarrow> State_Monad.return (nullptr b)
     | Some (portIdValue, buffer, timeoutValue) \<Rightarrow> serial_buffer b buffer (body portIdValue timeoutValue) }"

text \<open>The bytes from a pointer.\<close>

definition pointed_bytes :: "nat option \<Rightarrow> nat \<Rightarrow> (nat \<Rightarrow> u8) \<Rightarrow> u8 list" where
  "pointed_bytes p len m = (case p of None \<Rightarrow> [] | Some a \<Rightarrow> fetch a len m)"

definition SerialWriteSyncNapi :: "('e, 'v, 'c, 'w, 'o, 'p, 'n) serial_binding_scheme \<Rightarrow> 'v list \<Rightarrow> (('e, 'v, 'p, 'w, 'm) usb_module_scheme, 'v) state" where
  "SerialWriteSyncNapi b info = with_buffer b (ParseWriteInterfaceParams b) info (\<lambda>portIdValue timeoutValue bufferValue bufferLength. do {
     m \<leftarrow> get_memory;
     r \<leftarrow> use_client b (client_SerialWrite (cenv b) (sint portIdValue) (pointed_bytes bufferValue bufferLength m) (of_nat bufferLength) 0 timeoutValue);
     serial_result b (fst r) ''SerialWrite Failed.'' (out_var (nullptr b) (napi_create_int32 b (snd r))) })"

definition copy_reply :: "('e, 'v, 'c, 'w, 'o, 'p, 'n) serial_binding_scheme \<Rightarrow> nat option \<Rightarrow> nat \<Rightarrow> u8 list \<Rightarrow> (('e, 'm) js_env_scheme, unit) state" where
  "copy_reply b p len bytes = (case p of None \<Rightarrow> State_Monad.return () | Some a \<Rightarrow> copy_to a (snd (write_memcpy_s b len bytes)))"

text \<open>A reply that does not fit is only logged; the number of bytes is what the service said.\<close>

definition SerialReadSyncNapi :: "('e, 'v, 'c, 'w, 'o, 'p, 'n) serial_binding_scheme \<Rightarrow> 'v list \<Rightarrow> (('e, 'v, 'p, 'w, 'm) usb_module_scheme, 'v) state" where
  "SerialReadSyncNapi b info = with_buffer b (ParseReadInterfaceParams b) info (\<lambda>portIdValue timeoutValue bufferValue bufferLength. do {
     r \<leftarrow> use_client b (client_SerialRead (cenv b) (sint portIdValue) [] (of_nat bufferLength) 0 timeoutValue);
     serial_result b (fst r) ''SerialReadSync Failed.'' (do {
       copy_reply b bufferValue bufferLength (fst (snd r));
       out_var (nullptr b) (napi_create_int32 b (snd (snd r))) }) })"

subsection \<open>Work on the other thread\<close>

definition add_serial_work :: "'v \<Rightarrow> serial_work \<Rightarrow> (('e, 'v, 'p, 'w, 'm) serial_module_scheme, unit) state" where
  "add_serial_work deferred work = State (\<lambda>s. ((), s\<lparr>serial_works := serial_works s @ [(deferred, work)]\<rparr>))"

definition start_serial_work :: "('e, 'v, 'c, 'w, 'o, 'p, 'n) serial_binding_scheme \<Rightarrow> string \<Rightarrow> string \<Rightarrow> serial_work \<Rightarrow>
    (('e, 'v, 'p, 'w, 'm) serial_module_scheme, 'v) state" where
  "start_serial_work b no_context name work =
     CheckAndThrowOnError b (new_context b) SYSPARAM_INVALID_INPUT no_context (nullptr b) (do {
       p \<leftarrow> call (napi_create_promise b);
       case p of None \<Rightarrow> CheckAndThrowOnError b False SERIAL_SERVICE_ABNORMAL ''promise is null'' (nullptr b) (State_Monad.return (nullptr b))
       | Some (deferred, promise) \<Rightarrow> do {
           resourceName \<leftarrow> out_var (unset_value b) (napi_create_string_utf8 b name);
           created \<leftarrow> call (napi_create_async_work b resourceName);
           queued \<leftarrow> call (napi_queue_async_work b);
           (if created = Some () \<and> queued = Some () then add_serial_work deferred work else State_Monad.return ());
           State_Monad.return promise } })"

definition SerialWriteNapi :: "('e, 'v, 'c, 'w, 'o, 'p, 'n) serial_binding_scheme \<Rightarrow> 'v list \<Rightarrow> (('e, 'v, 'p, 'w, 'm) serial_module_scheme, 'v) state" where
  "SerialWriteNapi b info = with_buffer b (ParseWriteInterfaceParams b) info (\<lambda>portIdValue timeoutValue bufferValue bufferLength.
     start_serial_work b ''asyncContext is null'' ''SerialWrite'' (Serial_Write \<lparr>sc_portId = portIdValue, sc_size = of_nat bufferLength,
       sc_timeout = timeoutValue, sc_pData = bufferValue\<rparr>))"

definition SerialReadNapi :: "('e, 'v, 'c, 'w, 'o, 'p, 'n) serial_binding_scheme \<Rightarrow> 'v list \<Rightarrow> (('e, 'v, 'p, 'w, 'm) serial_module_scheme, 'v) state" where
  "SerialReadNapi b info = with_buffer b (ParseReadInterfaceParams b) info (\<lambda>portIdValue timeoutValue bufferValue bufferLength.
     start_serial_work b ''Failed to create promise.'' ''SerialRead'' (Serial_Read \<lparr>sc_portId = portIdValue, sc_size = of_nat bufferLength,
       sc_timeout = timeoutValue, sc_pData = bufferValue\<rparr>))"

definition SerialRequestRightNapi :: "('e, 'v, 'c, 'w, 'o, 'p, 'n) serial_binding_scheme \<Rightarrow> 'v list \<Rightarrow> (('e, 'v, 'p, 'w, 'm) serial_module_scheme, 'v) state" where
  "SerialRequestRightNapi b = with_port_id b ''can not get arguments.'' port_must_be_int (\<lambda>portIdValue.
     start_serial_work b ''Failed to create promise.'' ''SerialRequestRight'' (Serial_Request_Right portIdValue))"

text \<open>The error, \<open>0\<close> for none, and the result, which a write of no bytes leaves unset.\<close>

definition errno_of :: "('e, 'v, 'c, 'w, 'o, 'p, 'n) serial_binding_scheme \<Rightarrow> retcode \<Rightarrow> i32" where
  "errno_of b ret = (if ret \<noteq> UEC_OK then ErrorCodeConversion b ret else 0)"

definition g_serialWriteExecute :: "('e, 'v, 'c, 'w, 'o, 'p, 'n) serial_binding_scheme \<Rightarrow> serial_context \<Rightarrow> (('e, 'v, 'p, 'w, 'm) usb_module_scheme, i32 \<times> i32) state" where
  "g_serialWriteExecute b ctx =
     (if sc_size ctx = 0 then State_Monad.return (0, unset_int b)
      else do {
        m \<leftarrow> get_memory;
        r \<leftarrow> use_client b (client_SerialWrite (cenv b) (sint (sc_portId ctx)) (pointed_bytes (sc_pData ctx) (unat (sc_size ctx)) m)
          (sc_size ctx) 0 (sc_timeout ctx));
        State_Monad.return (errno_of b (fst r), snd r) })"

definition g_serialReadExecute :: "('e, 'v, 'c, 'w, 'o, 'p, 'n) serial_binding_scheme \<Rightarrow> serial_context \<Rightarrow> (('e, 'v, 'p, 'w, 'm) usb_module_scheme, i32 \<times> i32) state" where
  "g_serialReadExecute b ctx = do {
     r \<leftarrow> use_client b (client_SerialRead (cenv b) (sint (sc_portId ctx)) [] (sc_size ctx) 0 (sc_timeout ctx));
     copy_reply b (sc_pData ctx) (unat (sc_size ctx)) (fst (snd r));
     State_Monad.return (errno_of b (fst r), snd (snd r)) }"

definition g_serialRequestRightExecute :: "('e, 'v, 'c, 'w, 'o, 'p, 'n) serial_binding_scheme \<Rightarrow> i32 \<Rightarrow> (('e, 'v, 'p, 'w, 'm) usb_module_scheme, i32 \<times> bool) state" where
  "g_serialRequestRightExecute b portIdValue = do {
     r \<leftarrow> use_client b (client_RequestSerialRight (cenv b) (sint portIdValue) False);
     State_Monad.return (errno_of b (fst r), snd r) }"

text \<open>A promise is rejected with the number of the error, not with an error object.\<close>

definition finish_serial :: "('e, 'v, 'c, 'w, 'o, 'p, 'n) serial_binding_scheme \<Rightarrow> 'v \<Rightarrow> i32 \<Rightarrow> ('e, 'v option) state \<Rightarrow>
    (('e, 'v, 'p, 'w, 'm) usb_module_scheme, unit) state" where
  "finish_serial b deferred errno create =
     (if errno \<noteq> 0 then do { result \<leftarrow> out_var (nullptr b) (napi_create_int32 b errno); ProcessPromise b (Some deferred) False result }
      else do { result \<leftarrow> out_var (nullptr b) create; ProcessPromise b (Some deferred) True result })"

definition g_serialWriteComplete :: "('e, 'v, 'c, 'w, 'o, 'p, 'n) serial_binding_scheme \<Rightarrow> 'v \<Rightarrow> i32 \<times> i32 \<Rightarrow> (('e, 'v, 'p, 'w, 'm) usb_module_scheme, unit) state" where
  "g_serialWriteComplete b deferred r = finish_serial b deferred (fst r) (napi_create_int32 b (snd r))"

definition g_serialReadComplete :: "('e, 'v, 'c, 'w, 'o, 'p, 'n) serial_binding_scheme \<Rightarrow> 'v \<Rightarrow> i32 \<times> i32 \<Rightarrow> (('e, 'v, 'p, 'w, 'm) usb_module_scheme, unit) state" where
  "g_serialReadComplete b deferred r = finish_serial b deferred (fst r) (napi_create_int32 b (snd r))"

definition g_serialRequestRightComplete :: "('e, 'v, 'c, 'w, 'o, 'p, 'n) serial_binding_scheme \<Rightarrow> 'v \<Rightarrow> i32 \<times> bool \<Rightarrow> (('e, 'v, 'p, 'w, 'm) usb_module_scheme, unit) state" where
  "g_serialRequestRightComplete b deferred r = finish_serial b deferred (fst r) (napi_get_boolean b (snd r))"

definition run_serial_work :: "('e, 'v, 'c, 'w, 'o, 'p, 'n) serial_binding_scheme \<Rightarrow> 'v \<times> serial_work \<Rightarrow> (('e, 'v, 'p, 'w, 'm) usb_module_scheme, unit) state" where
  "run_serial_work b work = (case work of
     (d, Serial_Write ctx) \<Rightarrow> do { r \<leftarrow> g_serialWriteExecute b ctx; g_serialWriteComplete b d r }
   | (d, Serial_Read ctx) \<Rightarrow> do { r \<leftarrow> g_serialReadExecute b ctx; g_serialReadComplete b d r }
   | (d, Serial_Request_Right portId) \<Rightarrow> do { r \<leftarrow> g_serialRequestRightExecute b portId; g_serialRequestRightComplete b d r })"

subsection \<open>Opening, closing and rights\<close>

definition SerialOpenNapi :: "('e, 'v, 'c, 'w, 'o, 'p, 'n) serial_binding_scheme \<Rightarrow> 'v list \<Rightarrow> (('e, 'v, 'p, 'w, 'm) usb_module_scheme, 'v) state" where
  "SerialOpenNapi b = with_port_id b no_arguments_got port_must_be_int (\<lambda>portIdValue. do {
     ret \<leftarrow> use_client b (client_SerialOpen (cenv b) (serialRemote b) (sint portIdValue));
     serial_done b ret ''SerialOpen failed.'' })"

definition SerialCloseNapi :: "('e, 'v, 'c, 'w, 'o, 'p, 'n) serial_binding_scheme \<Rightarrow> 'v list \<Rightarrow> (('e, 'v, 'p, 'w, 'm) usb_module_scheme, 'v) state" where
  "SerialCloseNapi b = with_port_id b no_arguments_got port_must_be_int (\<lambda>portIdValue. do {
     ret \<leftarrow> use_client b (client_SerialClose (cenv b) (sint portIdValue));
     serial_done b ret ''SerialClose failed.'' })"

definition SerialHasRightNapi :: "('e, 'v, 'c, 'w, 'o, 'p, 'n) serial_binding_scheme \<Rightarrow> 'v list \<Rightarrow> (('e, 'v, 'p, 'w, 'm) usb_module_scheme, 'v) state" where
  "SerialHasRightNapi b = with_port_id b no_arguments_got port_must_be_int (\<lambda>portIdValue. do {
     r \<leftarrow> use_client b (client_HasSerialRight (cenv b) (sint portIdValue) False);
     serial_result b (fst r) ''SerialHasRight failed.'' (get_boolean b (nullptr b) (snd r)) })"

definition CancelSerialRightNapi :: "('e, 'v, 'c, 'w, 'o, 'p, 'n) serial_binding_scheme \<Rightarrow> 'v list \<Rightarrow> (('e, 'v, 'p, 'w, 'm) usb_module_scheme, 'v) state" where
  "CancelSerialRightNapi b = with_port_id b no_arguments_got port_must_be_int (\<lambda>portIdValue. do {
     ret \<leftarrow> use_client b (client_CancelSerialRight (cenv b) (sint portIdValue));
     serial_done b ret ''SerialRemoveRight failed.'' })"

definition SerialAddRightNapi :: "('e, 'v, 'c, 'w, 'o, 'p, 'n) serial_binding_scheme \<Rightarrow> 'v list \<Rightarrow> (('e, 'v, 'p, 'w, 'm) usb_module_scheme, 'v) state" where
  "SerialAddRightNapi b = serial_arguments b 2 (\<lambda>argc. argc = 2) ''can not get arguments.'' ''The function takes 2 arguments.'' (nullptr b) (\<lambda>argc argv. do {
     type \<leftarrow> out_var (unset_type b) (napi_typeof b (argv ! 0));
     CheckAndThrowOnError b (type = napi_number) SYSPARAM_INVALID_INPUT ''The type of tokenId must be int32_t.'' (nullptr b) (do {
       tokenIdValue \<leftarrow> out_var 0 (napi_get_value_int32 b (argv ! 0));
       CheckAndThrowOnError b (tokenIdValue \<noteq> 0) SYSPARAM_INVALID_INPUT ''Failed to get tokenId.'' (nullptr b)
         (port_argument b type (argv ! 1) port_must_be_int (nullptr b) (\<lambda>portIdValue. do {
           ret \<leftarrow> use_client b (client_AddSerialRight (cenv b) tokenIdValue (sint portIdValue));
           serial_done b ret ''SerialAddRight failed.'' })) }) })"

subsection \<open>The constants and the table\<close>

definition stop_bits :: "(string \<times> i32) list" where
  "stop_bits = [(''STOPBIT_1'', 0), (''STOPBIT_2'', 1)]"

definition parities :: "(string \<times> i32) list" where
  "parities = [(''PARITY_NONE'', 0), (''PARITY_ODD'', 1), (''PARITY_EVEN'', 2), (''PARITY_MARK'', 3), (''PARITY_SPACE'', 4)]"

definition data_bits :: "(string \<times> i32) list" where
  "data_bits = [(''DATABIT_8'', 8), (''DATABIT_7'', 7), (''DATABIT_6'', 6), (''DATABIT_5'', 5)]"

definition baud_rates :: "(string \<times> i32) list" where
  "baud_rates = [(''BAUDRATE_50'', 50), (''BAUDRATE_75'', 75), (''BAUDRATE_110'', 110), (''BAUDRATE_134'', 134), (''BAUDRATE_150'', 150),
     (''BAUDRATE_200'', 200), (''BAUDRATE_300'', 300), (''BAUDRATE_600'', 600), (''BAUDRATE_1200'', 1200), (''BAUDRATE_1800'', 1800),
     (''BAUDRATE_2400'', 2400), (''BAUDRATE_4800'', 4800), (''BAUDRATE_9600'', 9600), (''BAUDRATE_19200'', 19200),
     (''BAUDRATE_38400'', 38400), (''BAUDRATE_57600'', 57600), (''BAUDRATE_115200'', 115200), (''BAUDRATE_230400'', 230400),
     (''BAUDRATE_460800'', 460800), (''BAUDRATE_500000'', 500000), (''BAUDRATE_576000'', 576000), (''BAUDRATE_921600'', 921600),
     (''BAUDRATE_1000000'', 1000000), (''BAUDRATE_1152000'', 1152000), (''BAUDRATE_1500000'', 1500000), (''BAUDRATE_2000000'', 2000000),
     (''BAUDRATE_2500000'', 2500000), (''BAUDRATE_3000000'', 3000000), (''BAUDRATE_3500000'', 3500000), (''BAUDRATE_4000000'', 4000000)]"

definition NapiCreateStopBitsTypeEnum :: "('e, 'v, 'n) napi_scheme \<Rightarrow> (('e, 'm) js_env_scheme, 'v) state" where
  "NapiCreateStopBitsTypeEnum n = enum_object n stop_bits"

definition NapiCreateParityTypeEnum :: "('e, 'v, 'n) napi_scheme \<Rightarrow> (('e, 'm) js_env_scheme, 'v) state" where
  "NapiCreateParityTypeEnum n = enum_object n parities"

definition NapiCreateDataBitsTypeEnum :: "('e, 'v, 'n) napi_scheme \<Rightarrow> (('e, 'm) js_env_scheme, 'v) state" where
  "NapiCreateDataBitsTypeEnum n = enum_object n data_bits"

definition NapiCreateBaudRatesTypeEnum :: "('e, 'v, 'n) napi_scheme \<Rightarrow> (('e, 'm) js_env_scheme, 'v) state" where
  "NapiCreateBaudRatesTypeEnum n = enum_object n baud_rates"

definition serial_DeclareEnum :: "('e, 'v, 'c, 'w, 'o, 'p, 'n) usb_binding_scheme \<Rightarrow> 'v \<Rightarrow> (('e, 'm) js_env_scheme, 'v) state" where
  "serial_DeclareEnum b exports = do {
     desc \<leftarrow> create_values [(''StopBits'', NapiCreateStopBitsTypeEnum b), (''Parity'', NapiCreateParityTypeEnum b),
       (''DataBits'', NapiCreateDataBitsTypeEnum b), (''BaudRates'', NapiCreateBaudRatesTypeEnum b)];
     r \<leftarrow> call (napi_define_properties b exports desc);
     State_Monad.return (case r of None \<Rightarrow> nullptr b | Some exports' \<Rightarrow> exports') }"

definition serial_functions :: "('e, 'v, 'c, 'w, 'o, 'p, 'n) serial_binding_scheme \<Rightarrow>
    (string \<times> ('v list \<Rightarrow> (('e, 'v, 'p, 'w, 'm) serial_module_scheme, 'v) state)) list" where
  "serial_functions b = [
     (''getPortList'', SerialGetPortListNapi b), (''open'', SerialOpenNapi b), (''close'', SerialCloseNapi b), (''read'', SerialReadNapi b),
     (''readSync'', SerialReadSyncNapi b), (''write'', SerialWriteNapi b), (''writeSync'', SerialWriteSyncNapi b),
     (''getAttribute'', SerialGetAttributeNapi b), (''setAttribute'', SerialSetAttributeNapi b), (''hasSerialRight'', SerialHasRightNapi b),
     (''requestSerialRight'', SerialRequestRightNapi b), (''addSerialRight'', SerialAddRightNapi b),
     (''cancelSerialRight'', CancelSerialRightNapi b)]"

text \<open>A call of the module's function of that name.\<close>

definition SerialInit :: "('e, 'v, 'c, 'w, 'o, 'p, 'n) serial_binding_scheme \<Rightarrow> string \<Rightarrow>
    ('v list \<Rightarrow> (('e, 'v, 'p, 'w, 'm) serial_module_scheme, 'v) state) option" where
  "SerialInit b name = map_of (serial_functions b) name"

subsection \<open>How a call runs\<close>

lemma check_True [simp]: "CheckAndThrowOnError n True code msg old k = k"
  by (simp add: CheckAndThrowOnError_def)

lemma serial_arguments_run:
  fixes s :: "('e, 'm) js_env_scheme"
  assumes "napi_law n view pend" and "pend e\<^sub>0 = None" and "enough (length info)"
  obtains e argv where "pend e = None" and "\<forall>i < k. i < length info \<longrightarrow> argv ! i = info ! i"
    and "run_state (serial_arguments n k enough failed msg old body info) (s\<lparr>engine := e\<^sub>0\<rparr>) = run_state (body (length info) argv) (s\<lparr>engine := e\<rparr>)"
proof -
  obtain r e where 1: "run_state (call (napi_get_cb_info n info k)) (s\<lparr>engine := e\<^sub>0\<rparr>) = (r, s\<lparr>engine := e\<rparr>)" "pend e = None"
    and r: "\<exists>x. r = Some x \<and> (case x of (argc, argv) \<Rightarrow> argc = length info \<and> length argv = k \<and>
      (\<forall>i < k. if i < length info then argv ! i = info ! i else view (argv ! i) = JUndefined))"
    by (rule quiet_next [OF quietly_call [OF napi_arguments(1) [OF assms(1)]] assms(2)])
  from r obtain argv where "r = Some (length info, argv)" "\<forall>i < k. i < length info \<longrightarrow> argv ! i = info ! i" by auto
  with 1 assms(3) show ?thesis by (intro that [of e argv]) (simp_all add: serial_arguments_def run_bind)
qed

lemma port_argument_run:
  fixes s :: "('e, 'm) js_env_scheme"
  assumes "napi_law n view pend" and "view v = JNumber k" and "word_of_int k \<noteq> (- 1 :: i32)" and "pend e\<^sub>0 = None"
  obtains e where "pend e = None"
    and "run_state (port_argument n old_type v msg old body) (s\<lparr>engine := e\<^sub>0\<rparr>) = run_state (body (word_of_int k)) (s\<lparr>engine := e\<rparr>)"
proof -
  have ty: "js_type (view v) = Some napi_number" by (simp add: assms(2))
  obtain e1 where 1: "run_state (out_var old_type (napi_typeof n v)) (s\<lparr>engine := e\<^sub>0\<rparr>) = (napi_number, s\<lparr>engine := e1\<rparr>)" "pend e1 = None"
    by (rule quiet_next [OF quietly_out_var [OF napi_readsD(1) [OF assms(1) ty]] assms(4)]) blast
  obtain e2 where 2: "run_state (out_var (- 1) (napi_get_value_int32 n v)) (s\<lparr>engine := e1\<rparr>) = (word_of_int k, s\<lparr>engine := e2\<rparr>)" "pend e2 = None"
    by (rule quiet_next [OF quietly_out_var [OF napi_readsD(8) [OF assms(1,2)]] 1(2)]) blast
  show ?thesis by (rule that [OF 2(2)]) (simp add: port_argument_def run_bind 1(1) 2(1) assms(3))
qed

lemma with_port_id_run:
  fixes s :: "('e, 'm) js_env_scheme"
  assumes "napi_law n view pend" and "view v = JNumber k" and "word_of_int k \<noteq> (- 1 :: i32)" and "pend e\<^sub>0 = None"
  obtains e where "pend e = None"
    and "run_state (with_port_id n failed msg body [v]) (s\<lparr>engine := e\<^sub>0\<rparr>) = run_state (body (word_of_int k)) (s\<lparr>engine := e\<rparr>)"
proof -
  let ?body = "\<lambda>argc argv. port_argument n (unset_type n) (argv ! 0) msg (nullptr n) body"
  obtain e1 argv where 1: "pend e1 = None" "\<forall>i < 1. i < length [v] \<longrightarrow> argv ! i = [v] ! i"
    "run_state (serial_arguments n 1 (\<lambda>argc. argc = 1) failed ''The function takes 1 arguments.'' (nullptr n) ?body [v]) (s\<lparr>engine := e\<^sub>0\<rparr>) =
      run_state (?body (length [v]) argv) (s\<lparr>engine := e1\<rparr>)"
    by (rule serial_arguments_run [OF assms(1,4), of "\<lambda>argc. argc = 1" "[v]" 1 failed _ "nullptr n" ?body s]) simp_all
  have arg: "argv ! 0 = v" using 1(2) by simp
  obtain e2 where 2: "pend e2 = None"
    "run_state (port_argument n (unset_type n) v msg (nullptr n) body) (s\<lparr>engine := e1\<rparr>) = run_state (body (word_of_int k)) (s\<lparr>engine := e2\<rparr>)"
    by (rule port_argument_run [OF assms(1-3) 1(1)])
  show ?thesis by (rule that [OF 2(1)]) (simp only: with_port_id_def 1(3) arg 2(2))
qed

subsection \<open>Errors of the service\<close>

lemma serial_codes:
  "ErrorCodeConversion b ret \<in> fst ` set serial_ERRCODE_MSG_MAP \<longleftrightarrow> ret \<noteq> UEC_SERIAL_DATEBASE_ERROR"
  by (simp add: ErrorCodeConversion_def serial_ERRCODE_MSG_MAP_def serial_code_defs)

lemma serial_message:
  assumes "ret \<noteq> UEC_SERIAL_DATEBASE_ERROR" and "list_all (\<lambda>(code, m). utf8 (m @ msg)) serial_ERRCODE_MSG_MAP"
  obtains m where "map_of serial_ERRCODE_MSG_MAP (ErrorCodeConversion b ret) = Some m" and "utf8 (m @ msg)"
proof -
  have "ErrorCodeConversion b ret \<in> fst ` set serial_ERRCODE_MSG_MAP" using assms(1) by (simp add: serial_codes)
  then obtain m where m: "map_of serial_ERRCODE_MSG_MAP (ErrorCodeConversion b ret) = Some m" by (metis map_of_eq_None_iff option.exhaust)
  then have "(ErrorCodeConversion b ret, m) \<in> set serial_ERRCODE_MSG_MAP" by (rule map_of_SomeD)
  with assms(2) have "utf8 (m @ msg)" by (auto simp: list_all_iff)
  with m that show ?thesis by blast
qed

lemma throws_undefined:
  assumes "napi_law n view pend" and "map_of msgs code = None" and "pend (engine s) = None"
  obtains x e where "run_state (ThrowBusinessError msgs n code msg) s = ((), s\<lparr>engine := e\<rparr>)" and "pend e = Some x" and "view x = JUndefined"
proof -
  obtain x e where x: "run_state (out_var (unset_value n) (napi_get_undefined n)) s = (x, s\<lparr>engine := e\<rparr>)" "pend e = None" "view x = JUndefined"
    using quietlyD [OF quietly_out_var [OF napi_writesD(7) [OF assms(1)]] assms(3)] by blast
  obtain r e' where t: "run_state (napi_throw n x) e = (r, e')" by (metis prod.exhaust)
  then have "pend e' = Some x" using napi_throwsD(3) [OF assms(1) x(2), of x] by simp
  with x t show ?thesis
    by (intro that [of e' x]) (auto simp: ThrowBusinessError_def CreateBusinessError_def GetErrMsgByErrCode_def assms(2) run_bind run_return call_def)
qed

text \<open>What an application sees of a code: the error with the converted code, or \<^verbatim>\<open>undefined\<close>.\<close>

definition serial_thrown :: "('e, 'v, 'c, 'w, 'o, 'p, 'n) serial_binding_scheme \<Rightarrow> ('v \<Rightarrow> js) \<Rightarrow> ('e \<Rightarrow> 'v option) \<Rightarrow> 'e \<Rightarrow> retcode \<Rightarrow> bool" where
  "serial_thrown b view pend e ret \<longleftrightarrow>
     (if ret = UEC_SERIAL_DATEBASE_ERROR then \<exists>x. pend e = Some x \<and> view x = JUndefined else thrown view pend e (ErrorCodeConversion b ret))"

lemma serial_result_throws:
  fixes s :: "('e, 'm) js_env_scheme"
  assumes "napi_law b view pend" and "ret \<noteq> UEC_OK" and "list_all (\<lambda>(code, m). utf8 (m @ msg)) serial_ERRCODE_MSG_MAP" and "pend e\<^sub>0 = None"
  obtains e where "run_state (serial_result b ret msg k) (s\<lparr>engine := e\<^sub>0\<rparr>) = (nullptr b, s\<lparr>engine := e\<rparr>)" and "serial_thrown b view pend e ret"
proof -
  have q: "pend (engine (s\<lparr>engine := e\<^sub>0\<rparr>)) = None" using assms(4) by simp
  show ?thesis
  proof (cases "ret = UEC_SERIAL_DATEBASE_ERROR")
    case True
    then have none: "map_of serial_ERRCODE_MSG_MAP (ErrorCodeConversion b ret) = None" by (simp add: map_of_eq_None_iff serial_codes)
    obtain x e where "run_state (ThrowBusinessError serial_ERRCODE_MSG_MAP b (ErrorCodeConversion b ret) msg) (s\<lparr>engine := e\<^sub>0\<rparr>) =
        ((), s\<lparr>engine := e\<^sub>0\<rparr>\<lparr>engine := e\<rparr>)" "pend e = Some x" "view x = JUndefined"
      by (rule throws_undefined [OF assms(1) none q])
    with assms(2) True show ?thesis
      by (intro that [of e]) (simp_all add: serial_result_def CheckAndThrowOnError_def usb_assert_def run_bind run_return serial_thrown_def)
  next
    case False
    then obtain m where m: "map_of serial_ERRCODE_MSG_MAP (ErrorCodeConversion b ret) = Some m" "utf8 (m @ msg)"
      by (rule serial_message [OF _ assms(3)])
    obtain e where "run_state (ThrowBusinessError serial_ERRCODE_MSG_MAP b (ErrorCodeConversion b ret) msg) (s\<lparr>engine := e\<^sub>0\<rparr>) = ((), s\<lparr>engine := e\<rparr>)"
      "thrown view pend e (ErrorCodeConversion b ret)"
      by (rule throws_next [OF assms(1) m assms(4)])
    with assms(2) False show ?thesis
      by (intro that [of e]) (simp_all add: serial_result_def CheckAndThrowOnError_def usb_assert_def run_bind run_return serial_thrown_def)
  qed
qed

lemma utf8_seq_append: "utf8_seq s \<Longrightarrow> utf8_seq t \<Longrightarrow> utf8_seq (s @ t)"
  by (induction s rule: utf8_seq.induct) (auto simp: Let_def split: if_splits list.splits)

lemma utf8_append: "utf8 s \<Longrightarrow> utf8 t \<Longrightarrow> utf8 (s @ t)"
  by (auto simp: utf8_def utf8_seq_append)

lemma serial_table_text: "list_all (\<lambda>(code, m). utf8 m) serial_ERRCODE_MSG_MAP"
  unfolding serial_ERRCODE_MSG_MAP_def list.pred_inject prod.case by (intro conjI TrueI; code_simp)

lemma serial_text: "utf8 msg \<Longrightarrow> list_all (\<lambda>(code, m). utf8 (m @ msg)) serial_ERRCODE_MSG_MAP"
  using serial_table_text by (auto simp: list_all_iff utf8_append)

lemma serial_texts:
  "utf8 ''SerialOpen failed.''" "utf8 ''SerialClose failed.''" "utf8 ''SerialRemoveRight failed.''"
  by code_simp+

lemma port_call_throws:
  fixes b :: "('e, 'v, 'c, 'w, 'o, 'p, 'n) serial_binding_scheme" and s :: "('e, 'v, 'p, 'w, 'm) usb_module_scheme"
  assumes "napi_law b view pend" and "pend (engine s) = None" and "view v = JNumber k" and "word_of_int k \<noteq> (- 1 :: i32)"
    and "op (sint (word_of_int k :: i32)) (csrv b) (client s) (world s) = (ret, cl, w)" and "ret \<noteq> UEC_OK"
    and "list_all (\<lambda>(code, m). utf8 (m @ msg)) serial_ERRCODE_MSG_MAP"
  shows "\<exists>e. run_state (with_port_id b failed must (\<lambda>port. do { ret \<leftarrow> use_client b (op (sint port)); serial_done b ret msg }) [v]) s =
      (nullptr b, s\<lparr>engine := e, client := cl, world := w\<rparr>) \<and> serial_thrown b view pend e ret"
proof -
  let ?body = "\<lambda>port :: i32. do { ret \<leftarrow> use_client b (op (sint port)); serial_done b ret msg }"
  obtain e1 where 1: "pend e1 = None"
    "run_state (with_port_id b failed must ?body [v]) (s\<lparr>engine := engine s\<rparr>) = run_state (?body (word_of_int k)) (s\<lparr>engine := e1\<rparr>)"
    by (rule with_port_id_run [OF assms(1,3,4,2), of failed must ?body s])
  let ?s = "s\<lparr>client := cl, world := w\<rparr>"
  obtain e2 where 2: "run_state (serial_done b ret msg) (?s\<lparr>engine := e1\<rparr>) = (nullptr b, ?s\<lparr>engine := e2\<rparr>)" "serial_thrown b view pend e2 ret"
    unfolding serial_done_def by (rule serial_result_throws [OF assms(1,6,7) 1(1)])
  have eq: "s\<lparr>engine := e1, client := cl, world := w\<rparr> = ?s\<lparr>engine := e1\<rparr>" by simp
  have "run_state (with_port_id b failed must ?body [v]) s = (nullptr b, ?s\<lparr>engine := e2\<rparr>)"
    using 1(2) 2(1) unfolding eq [symmetric] by (simp add: run_bind use_client_run assms(5))
  with 2(2) show ?thesis by (intro exI [of _ e2]) simp
qed

text \<open>
  C39: what an application sees of a failure. When opening or closing a port or giving up a right for it fails at the
  service, the function throws an error whose code is the conversion of the service's code, and changes nothing beyond what the service
  did. A failure of the database is converted to a code without a message, and what is thrown is \<^verbatim>\<open>undefined\<close>.
\<close>

theorem serial_failure_thrown:
  fixes b :: "('e, 'v, 'c, 'w, 'o, 'p, 'n) serial_binding_scheme" and s :: "('e, 'v, 'p, 'w, 'm) usb_module_scheme"
  assumes "napi_law b view pend" and "pend (engine s) = None" and "view v = JNumber k" and "word_of_int k \<noteq> (- 1 :: i32)"
    and "(f, op) \<in> {(SerialOpenNapi b, client_SerialOpen (cenv b) (serialRemote b)), (SerialCloseNapi b, client_SerialClose (cenv b)),
      (CancelSerialRightNapi b, client_CancelSerialRight (cenv b))}"
    and "op (sint (word_of_int k :: i32)) (csrv b) (client s) (world s) = (ret, cl, w)" and "ret \<noteq> UEC_OK"
  shows "\<exists>e. run_state (f [v]) s = (nullptr b, s\<lparr>engine := e, client := cl, world := w\<rparr>) \<and>
    (if ret = UEC_SERIAL_DATEBASE_ERROR then \<exists>x. pend e = Some x \<and> view x = JUndefined else thrown view pend e (ErrorCodeConversion b ret))"
  using assms(5) port_call_throws [where op = op, OF assms(1-4,6,7) serial_text [OF serial_texts(1)]] port_call_throws [where op = op, OF assms(1-4,6,7) serial_text [OF serial_texts(2)]]
    port_call_throws [where op = op, OF assms(1-4,6,7) serial_text [OF serial_texts(3)]]
  unfolding SerialOpenNapi_def SerialCloseNapi_def CancelSerialRightNapi_def serial_thrown_def [symmetric] by auto

subsection \<open>Attributes there and back\<close>

definition attribute_js :: "UsbSerialAttr \<Rightarrow> js" where
  "attribute_js attr = JObject [(''baudRate'', JNumber (uint (usa_baudRate attr))), (''dataBits'', JNumber (uint (usa_dataBits attr))),
     (''parity'', JNumber (uint (usa_parity attr))), (''stopBits'', JNumber (uint (usa_stopBits attr)))]"

definition small_attribute :: "UsbSerialAttr \<Rightarrow> bool" where
  "small_attribute attr \<longleftrightarrow> usa_dataBits attr \<le> 127 \<and> usa_parity attr \<le> 127 \<and> usa_stopBits attr \<le> 127"

lemma attribute_object_quiet:
  assumes "napi_law n view pend"
  shows "quietly pend (attribute_object n attr) (\<lambda>v. view v = attribute_js attr)"
  unfolding attribute_object_def
  by (rule new_object [OF assms], (rule quietly_bind, erule SetValue_quiet(3) [OF assms])+,
    rule quietly_mono, erule SetValue_quiet(3) [OF assms], simp add: attribute_js_def uint_up_ucast is_up)

lemma JsObjectToUint8_quiet:
  assumes "napi_law n view pend" and "view v = JObject fs" and "map_of fs key = Some (JNumber (uint (x :: u8)))"
  shows "quietly pend (JsObjectToUint8 msgs n v key old) (\<lambda>r. r = (if x \<le> 127 then (True, x) else (False, old)))"
proof -
  have up: "uint (word_of_int (uint x) :: u32) = uint x" unfolding ucast_eq [symmetric] by (rule uint_up_ucast) (simp add: is_up)
  have "(word_of_int (uint x) :: u32) > SCHAR_MAX \<longleftrightarrow> \<not> x \<le> 127"
    unfolding SCHAR_MAX_def word_less_def word_le_def up by (simp add: not_le)
  moreover have "(ucast (word_of_int (uint x) :: u32) :: u8) = x" unfolding ucast_eq [of "word_of_int (uint x) :: u32"] up by (rule word_of_int_uint)
  ultimately show ?thesis unfolding JsObjectToUint8_def
    by (intro quietly_bind [OF JsObjectToUint_quiet [OF assms]]) (auto intro!: quietly_return)
qed

lemma parse_attribute_quiet:
  assumes "napi_law n view pend" and "view v = attribute_js attr"
  shows "quietly pend (parse_attribute n v old) (\<lambda>r. r = (if small_attribute attr then Some attr else None))"
proof -
  note v = assms(2) [unfolded attribute_js_def]
  note f8 = quietly_bind [OF JsObjectToUint8_quiet [OF assms(1) v]]
  define R where "R = (if small_attribute attr then Some attr else None)"
  then have R: "\<not> usa_dataBits attr \<le> 127 \<Longrightarrow> R = None" "\<not> usa_parity attr \<le> 127 \<Longrightarrow> R = None" "\<not> usa_stopBits attr \<le> 127 \<Longrightarrow> R = None"
    "usa_dataBits attr \<le> 127 \<Longrightarrow> usa_parity attr \<le> 127 \<Longrightarrow> usa_stopBits attr \<le> 127 \<Longrightarrow> R = Some attr"
    by (simp_all add: small_attribute_def)
  show ?thesis unfolding parse_attribute_def R_def [symmetric]
    apply (rule quietly_bind [OF JsObjectToUint32_quiet [OF assms(1) v]], simp)
    apply (simp only: word_of_int_uint fst_conv snd_conv not_True_eq_False if_False)
    apply (rule f8, simp, cases "usa_dataBits attr \<le> 127"; simp add: quietly_return R)
    apply (rule f8, simp, cases "usa_parity attr \<le> 127"; simp add: quietly_return R)
    apply (rule f8, simp, cases "usa_stopBits attr \<le> 127"; simp add: quietly_return R)
    done
qed

lemma SerialGetAttributeNapi_run:
  fixes b :: "('e, 'v, 'c, 'w, 'o, 'p, 'n) serial_binding_scheme" and s :: "('e, 'v, 'p, 'w, 'm) usb_module_scheme"
  assumes "napi_law b view pend" and "pend (engine s) = None" and "view v = JNumber k" and "word_of_int k \<noteq> (- 1 :: i32)"
    and "client_SerialGetAttribute (cenv b) (sint (word_of_int k :: i32)) (unset_attribute b) (csrv b) (client s) (world s) = ((UEC_OK, attr), cl, w)"
  obtains x e where "run_state (SerialGetAttributeNapi b [v]) s = (x, s\<lparr>client := cl, world := w\<rparr>\<lparr>engine := e\<rparr>)" and "pend e = None"
    and "view x = attribute_js attr"
proof -
  let ?body = "\<lambda>port :: i32. do {
     r \<leftarrow> use_client b (client_SerialGetAttribute (cenv b) (sint port) (unset_attribute b));
     serial_result b (fst r) ''Failed to get attribute.'' (attribute_object b (snd r)) }"
  obtain e1 where 1: "pend e1 = None"
    "run_state (with_port_id b no_arguments_got arg0_must_be_int ?body [v]) (s\<lparr>engine := engine s\<rparr>) = run_state (?body (word_of_int k)) (s\<lparr>engine := e1\<rparr>)"
    by (rule with_port_id_run [OF assms(1,3,4,2), of no_arguments_got arg0_must_be_int ?body s])
  let ?s = "s\<lparr>client := cl, world := w\<rparr>"
  obtain x e2 where 2: "run_state (attribute_object b attr) (?s\<lparr>engine := e1\<rparr>) = (x, ?s\<lparr>engine := e2\<rparr>)" "pend e2 = None" "view x = attribute_js attr"
    by (rule quiet_next [OF attribute_object_quiet [OF assms(1)] 1(1)])
  have eq: "s\<lparr>engine := e1, client := cl, world := w\<rparr> = ?s\<lparr>engine := e1\<rparr>" by simp
  show ?thesis
    by (rule that [OF _ 2(2,3)]) (use 1(2) 2(1) in \<open>unfold SerialGetAttributeNapi_def eq [symmetric],
      simp add: run_bind use_client_run assms(5) serial_result_def\<close>)
qed

lemma ParseSetAttribute_run:
  fixes b :: "('e, 'v, 'c, 'w, 'o, 'p, 'n) serial_binding_scheme" and s :: "('e, 'v, 'p, 'w, 'm) usb_module_scheme"
  assumes "napi_law b view pend" and "pend e\<^sub>0 = None" and "view v = JNumber k" and "word_of_int k \<noteq> (- 1 :: i32)" and "view obj = attribute_js attr"
  obtains e where "run_state (ParseSetAttributeInterfaceParams b [v, obj]) (s\<lparr>engine := e\<^sub>0\<rparr>) =
      (if small_attribute attr then Some (word_of_int k, attr) else None, s\<lparr>engine := e\<rparr>)"
    and "if small_attribute attr then pend e = None else thrown view pend e SYSPARAM_INVALID_INPUT"
proof -
  let ?rest = "\<lambda>obj (port :: i32). do {
       type \<leftarrow> out_var napi_number (napi_typeof b obj);
       CheckAndThrowOnError b (type = napi_object) SYSPARAM_INVALID_INPUT ''The type of arg1 must be SerialAttribute.'' None (do {
         attr \<leftarrow> parse_attribute b obj (unset_attribute b);
         CheckAndThrowOnError b (attr \<noteq> None) SYSPARAM_INVALID_INPUT ''Parse attribute failed.'' None
           (State_Monad.return (map_option (Pair port) attr)) }) }"
  let ?body = "\<lambda>argc argv. port_argument b (unset_type b) (argv ! 0) arg0_must_be_int None (?rest (argv ! 1))"
  obtain e1 argv where 1: "pend e1 = None" "\<forall>i < 2. i < length [v, obj] \<longrightarrow> argv ! i = [v, obj] ! i"
    "run_state (serial_arguments b 2 (\<lambda>argc. argc = 2) no_arguments_got ''The function takes 2 arguments.'' None ?body [v, obj]) (s\<lparr>engine := e\<^sub>0\<rparr>) =
      run_state (?body (length [v, obj]) argv) (s\<lparr>engine := e1\<rparr>)"
    by (rule serial_arguments_run [OF assms(1,2), of "\<lambda>argc. argc = 2" "[v, obj]" 2 no_arguments_got _ None ?body s]) simp_all
  have args: "argv ! 0 = v" "argv ! 1 = obj" using 1(2) by (auto simp: less_Suc_eq numeral_2_eq_2)
  obtain e2 where 2: "pend e2 = None" "run_state (port_argument b (unset_type b) v arg0_must_be_int None (?rest obj)) (s\<lparr>engine := e1\<rparr>) =
      run_state (?rest obj (word_of_int k)) (s\<lparr>engine := e2\<rparr>)"
    by (rule port_argument_run [OF assms(1,3,4) 1(1), of "unset_type b" arg0_must_be_int None "?rest obj" s])
  have ty: "js_type (view obj) = Some napi_object" by (simp add: assms(5) attribute_js_def)
  obtain e3 where 3: "run_state (out_var napi_number (napi_typeof b obj)) (s\<lparr>engine := e2\<rparr>) = (napi_object, s\<lparr>engine := e3\<rparr>)" "pend e3 = None"
    by (rule quiet_next [OF quietly_out_var [OF napi_readsD(1) [OF assms(1) ty]] 2(1)]) blast
  obtain e4 where 4: "run_state (parse_attribute b obj (unset_attribute b)) (s\<lparr>engine := e3\<rparr>) =
      (if small_attribute attr then Some attr else None, s\<lparr>engine := e4\<rparr>)" "pend e4 = None"
    by (rule quiet_next [OF parse_attribute_quiet [OF assms(1,5)] 3(2)]) blast
  have run: "run_state (ParseSetAttributeInterfaceParams b [v, obj]) (s\<lparr>engine := e\<^sub>0\<rparr>) = run_state (?rest obj (word_of_int k)) (s\<lparr>engine := e2\<rparr>)"
    unfolding ParseSetAttributeInterfaceParams_def 1(3) args by (rule 2(2))
  have msg: "map_of serial_ERRCODE_MSG_MAP SYSPARAM_INVALID_INPUT = Some ''BusinessError 401:Parameter error.''"
    by (simp add: serial_ERRCODE_MSG_MAP_def)
  have utf: "utf8 (''BusinessError 401:Parameter error.'' @ ''Parse attribute failed.'')" by code_simp
  obtain e5 where 5: "run_state (ThrowBusinessError serial_ERRCODE_MSG_MAP b SYSPARAM_INVALID_INPUT ''Parse attribute failed.'') (s\<lparr>engine := e4\<rparr>) =
      ((), s\<lparr>engine := e5\<rparr>)" "thrown view pend e5 SYSPARAM_INVALID_INPUT"
    by (rule throws_next [OF assms(1) msg utf 4(2)])
  show ?thesis
  proof (cases "small_attribute attr")
    case True
    with 4(2) show ?thesis by (intro that [of e4]) (simp_all add: run run_bind 3(1) 4(1) run_return)
  next
    case False
    with 5 show ?thesis
      by (intro that [of e5]) (simp_all add: run run_bind 3(1) 4(1) run_return CheckAndThrowOnError_def usb_assert_def)
  qed
qed

text \<open>
  Round trip. The object that \<^verbatim>\<open>getAttribute\<close> gives can be handed to \<^verbatim>\<open>setAttribute\<close>, which passes the same attribute back to
  the service, when the bits and the parity are at most 127; otherwise, although the service itself reported it, the object is refused
  with the error of a wrong parameter and the service is not called.
\<close>

theorem serial_attribute_roundtrip:
  fixes b :: "('e, 'v, 'c, 'w, 'o, 'p, 'n) serial_binding_scheme" and s :: "('e, 'v, 'p, 'w, 'm) usb_module_scheme"
  assumes "napi_law b view pend" and "pend (engine s) = None" and "view v = JNumber k" and "word_of_int k \<noteq> (- 1 :: i32)"
    and "client_SerialGetAttribute (cenv b) (sint (word_of_int k :: i32)) (unset_attribute b) (csrv b) (client s) (world s) = ((UEC_OK, attr), cl, w)"
    and "client_SerialSetAttribute (cenv b) (sint (word_of_int k :: i32)) attr (csrv b) cl w = (UEC_OK, cl', w')"
  shows "\<exists>e. run_state (do { obj \<leftarrow> SerialGetAttributeNapi b [v]; SerialSetAttributeNapi b [v, obj] }) s =
      (nullptr b, if small_attribute attr then s\<lparr>engine := e, client := cl', world := w'\<rparr> else s\<lparr>engine := e, client := cl, world := w\<rparr>) \<and>
    (if small_attribute attr then pend e = None else thrown view pend e SYSPARAM_INVALID_INPUT)"
proof -
  let ?s = "s\<lparr>client := cl, world := w\<rparr>"
  obtain x e1 where 1: "run_state (SerialGetAttributeNapi b [v]) s = (x, ?s\<lparr>engine := e1\<rparr>)" "pend e1 = None" "view x = attribute_js attr"
    by (rule SerialGetAttributeNapi_run [OF assms(1-5)])
  obtain e2 where 2: "run_state (ParseSetAttributeInterfaceParams b [v, x]) (?s\<lparr>engine := e1\<rparr>) =
      (if small_attribute attr then Some (word_of_int k, attr) else None, ?s\<lparr>engine := e2\<rparr>)"
    "if small_attribute attr then pend e2 = None else thrown view pend e2 SYSPARAM_INVALID_INPUT"
    by (rule ParseSetAttribute_run [OF assms(1) 1(2) assms(3,4) 1(3)])
  show ?thesis
    by (intro exI [of _ e2] conjI 2(2)) (simp add: run_bind 1(1) 2(1) SerialSetAttributeNapi_def use_client_run assms(6) run_return
      serial_done_def serial_result_def)
qed

subsection \<open>Reading\<close>

text \<open>
  What the bounded copy promises: it never writes more than the size of the destination, and copies what fits.
\<close>

definition memcpy_law :: "('e, 'v, 'c, 'w, 'o, 'p, 'n) serial_binding_scheme \<Rightarrow> bool" where
  "memcpy_law b \<longleftrightarrow> (\<forall>d bytes. length (snd (write_memcpy_s b d bytes)) \<le> d \<and>
     (0 < length bytes \<and> length bytes \<le> d \<and> d \<le> 0x7FFFFFFF \<longrightarrow> write_memcpy_s b d bytes = (True, bytes)))"

definition next_serial_work :: "(('e, 'v, 'p, 'w, 'm) serial_module_scheme, ('v \<times> serial_work) option) state" where
  "next_serial_work = State (\<lambda>s. case serial_works s of [] \<Rightarrow> (None, s) | work # rest \<Rightarrow> (Some work, s\<lparr>serial_works := rest\<rparr>))"

definition run_next_serial :: "('e, 'v, 'c, 'w, 'o, 'p, 'n) serial_binding_scheme \<Rightarrow> (('e, 'v, 'p, 'w, 'm) serial_module_scheme, unit) state" where
  "run_next_serial b = do { work \<leftarrow> next_serial_work; case work of None \<Rightarrow> State_Monad.return () | Some w \<Rightarrow> run_serial_work b w }"

lemma with_buffer_run:
  fixes b :: "('e, 'v, 'c, 'w, 'o, 'p, 'n) serial_binding_scheme" and s :: "('e, 'm) js_env_scheme"
  assumes "napi_law b view pend" and "pend e\<^sub>0 = None" and "view vp = JNumber k" and "word_of_int k \<noteq> (- 1 :: i32)"
    and "view va = JTyped napi_uint8_array p len"
  obtains e where "pend e = None" and "run_state (with_buffer b (ParseWriteInterfaceParams b) [vp, va] body) (s\<lparr>engine := e\<^sub>0\<rparr>) =
    run_state (body (word_of_int k) 0 (Some p) len) (s\<lparr>engine := e\<rparr>)"
proof -
  let ?body = "\<lambda>argc argv. port_argument b (unset_type b) (argv ! 0) port_must_be_int None (\<lambda>portIdValue.
       if argc = 3 then do {
         type \<leftarrow> out_var napi_number (napi_typeof b (argv ! 2));
         CheckAndThrowOnError b (type = napi_number) SYSPARAM_INVALID_INPUT ''The type of timeout must be uint32_t.'' None (do {
           timeoutValue \<leftarrow> out_var 0 (napi_get_value_uint32 b (argv ! 2));
           State_Monad.return (Some (portIdValue, argv ! 1, timeoutValue)) }) }
       else State_Monad.return (Some (portIdValue, argv ! 1, 0)))"
  obtain e1 argv where 1: "pend e1 = None" "\<forall>i < 3. i < length [vp, va] \<longrightarrow> argv ! i = [vp, va] ! i"
    "run_state (serial_arguments b 3 (\<lambda>argc. argc = 2 \<or> argc = 3) no_arguments_got ''The function takes 2 or 3 arguments.'' None ?body [vp, va]) (s\<lparr>engine := e\<^sub>0\<rparr>) =
      run_state (?body (length [vp, va]) argv) (s\<lparr>engine := e1\<rparr>)"
    by (rule serial_arguments_run [OF assms(1,2), of "\<lambda>argc. argc = 2 \<or> argc = 3" "[vp, va]" 3 no_arguments_got _ None ?body s]) simp_all
  have args: "argv ! 0 = vp" "argv ! 1 = va" using 1(2) by (auto simp: less_Suc_eq numeral_3_eq_3)
  let ?rest = "\<lambda>portIdValue :: i32. State_Monad.return (Some (portIdValue, va, 0 :: u32))"
  obtain e2 where 2: "pend e2 = None" "run_state (port_argument b (unset_type b) vp port_must_be_int None ?rest) (s\<lparr>engine := e1\<rparr>) =
      run_state (?rest (word_of_int k)) (s\<lparr>engine := e2\<rparr>)"
    by (rule port_argument_run [OF assms(1,3,4) 1(1), of "unset_type b" port_must_be_int None ?rest s])
  have parsed: "run_state (ParseWriteInterfaceParams b [vp, va]) (s\<lparr>engine := e\<^sub>0\<rparr>) = (Some (word_of_int k, va, 0), s\<lparr>engine := e2\<rparr>)"
    unfolding ParseWriteInterfaceParams_def 1(3) args using 2(2) by (simp add: run_return)
  obtain i e3 where 3: "run_state (call (napi_get_typedarray_info b va)) (s\<lparr>engine := e2\<rparr>) = (i, s\<lparr>engine := e3\<rparr>)" "pend e3 = None"
    and i: "\<exists>x. i = Some x \<and> (case x of (t, l, q, off) \<Rightarrow> t = napi_uint8_array \<and> l = len \<and> q = p)"
    by (rule quiet_next [OF quietly_call [OF napi_arguments(3) [OF assms(1,5)]] 2(1)])
  then obtain off where "i = Some (napi_uint8_array, len, p, off)" by auto
  with 3 show ?thesis by (intro that [of e3]) (simp_all add: with_buffer_def run_bind parsed serial_buffer_def)
qed

lemma start_serial_work_run:
  fixes b :: "('e, 'v, 'c, 'w, 'o, 'p, 'n) serial_binding_scheme" and s :: "('e, 'v, 'p, 'w, 'm) serial_module_scheme"
  assumes "napi_law b view pend" and "promise_law b pend" and "new_context b" and "utf8 name" and "pend e\<^sub>0 = None"
  obtains v d e where "pend e = None"
    and "run_state (start_serial_work b no_context name work) (s\<lparr>engine := e\<^sub>0\<rparr>) = (v, s\<lparr>engine := e, serial_works := serial_works s @ [(d, work)]\<rparr>)"
proof -
  have law: "returns pend (napi_create_promise b) (\<lambda>_. True)" "returns pend (napi_create_async_work b x) (\<lambda>_. True)"
    "returns pend (napi_queue_async_work b) (\<lambda>_. True)" for x
    using assms(2) by (simp_all add: promise_law_def)
  obtain d v e1 where 1: "run_state (call (napi_create_promise b)) (s\<lparr>engine := e\<^sub>0\<rparr>) = (Some (d, v), s\<lparr>engine := e1\<rparr>)" "pend e1 = None"
    by (rule quiet_next [OF quietly_call [OF law(1)] assms(5)]) force
  obtain x e2 where 2: "run_state (out_var (unset_value b) (napi_create_string_utf8 b name)) (s\<lparr>engine := e1\<rparr>) = (x, s\<lparr>engine := e2\<rparr>)" "pend e2 = None"
    by (rule quiet_next [OF quietly_out_var [OF napi_writesD(3) [OF assms(1,4)]] 1(2)])
  obtain e3 where 3: "run_state (call (napi_create_async_work b x)) (s\<lparr>engine := e2\<rparr>) = (Some (), s\<lparr>engine := e3\<rparr>)" "pend e3 = None"
    by (rule quiet_next [OF quietly_call [OF law(2)] 2(2)]) force
  obtain e4 where 4: "run_state (call (napi_queue_async_work b)) (s\<lparr>engine := e3\<rparr>) = (Some (), s\<lparr>engine := e4\<rparr>)" "pend e4 = None"
    by (rule quiet_next [OF quietly_call [OF law(3)] 3(2)]) force
  show ?thesis
    by (rule that [OF 4(2)]) (simp add: start_serial_work_def assms(3) run_bind 1(1) 2(1) 3(1) 4(1) add_serial_work_def run_return)
qed

text \<open>
  A read from a serial port. \<^verbatim>\<open>read\<close> with a port and an array of bytes queues one piece of work; when that has run and the service gave
  bytes that fit, these bytes are at the beginning of the application's array, nothing else in memory is changed and the promise is
  resolved with the number the service reported.
\<close>

theorem serial_read_fills_array:
  fixes b :: "('e, 'v, 'c, 'w, 'o, 'p, 'n) serial_binding_scheme" and s :: "('e, 'v, 'p, 'w, 'm) serial_module_scheme"
  assumes "napi_law b view pend" and "promise_law b pend" and "memcpy_law b" and "new_context b" and "pend (engine s) = None"
    and "serial_works s = []" and "view vp = JNumber k" and "word_of_int k \<noteq> (- 1 :: i32)" and "view va = JTyped napi_uint8_array p len"
    and "len < 2 ^ 31"
    and "client_SerialRead (cenv b) (sint (word_of_int k :: i32)) [] (of_nat len) 0 0 (csrv b) (client s) (world s) = ((UEC_OK, data, actual), cl, w)"
    and "0 < length data" and "length data \<le> len"
  shows "\<exists>d x e. snd (run_state (do { _ \<leftarrow> SerialReadNapi b [vp, va]; run_next_serial b }) s) =
      s\<lparr>engine := e, client := cl, world := w, memory := store p data (memory s), settled := settled s @ [(d, True, x)]\<rparr> \<and>
    pend e = None \<and> view x = JNumber (sint actual)"
proof -
  let ?work = "Serial_Read \<lparr>sc_portId = word_of_int k, sc_size = of_nat len, sc_timeout = 0, sc_pData = Some p\<rparr>"
  let ?body = "\<lambda>port timeout q l. start_serial_work b ''Failed to create promise.'' ''SerialRead''
     (Serial_Read \<lparr>sc_portId = port, sc_size = of_nat l, sc_timeout = timeout, sc_pData = q\<rparr>)"
  obtain e1 where 1: "pend e1 = None" "run_state (with_buffer b (ParseWriteInterfaceParams b) [vp, va] ?body) (s\<lparr>engine := engine s\<rparr>) =
      run_state (?body (word_of_int k) 0 (Some p) len) (s\<lparr>engine := e1\<rparr>)"
    by (rule with_buffer_run [OF assms(1,5,7,8,9), of ?body s])
  have utf: "utf8 ''SerialRead''" by code_simp
  obtain v d e2 where 2: "pend e2 = None" "run_state (?body (word_of_int k) 0 (Some p) len) (s\<lparr>engine := e1\<rparr>) =
      (v, s\<lparr>engine := e2, serial_works := serial_works s @ [(d, ?work)]\<rparr>)"
    by (rule start_serial_work_run [OF assms(1,2,4) utf 1(1)])
  let ?s = "s\<lparr>client := cl, world := w, memory := store p data (memory s)\<rparr>"
  have law: "returns pend (napi_resolve_deferred b d x) (\<lambda>_. True)" for x using assms(2) by (simp add: promise_law_def)
  obtain x e3 where 3: "run_state (out_var (nullptr b) (napi_create_int32 b actual)) (?s\<lparr>engine := e2\<rparr>) = (x, ?s\<lparr>engine := e3\<rparr>)" "pend e3 = None"
    "view x = JNumber (sint actual)"
    by (rule quiet_next [OF quietly_out_var [OF napi_writesD(4) [OF assms(1)]] 2(1)])
  obtain e4 where 4: "run_state (call (napi_resolve_deferred b d x)) (?s\<lparr>engine := e3\<rparr>) = (Some (), ?s\<lparr>engine := e4\<rparr>)" "pend e4 = None"
    by (rule quiet_next [OF quietly_call [OF law] 3(2)]) force
  have size: "unat (of_nat len :: u32) = len" using assms(10) by (simp add: unat_of_nat take_bit_nat_eq_self)
  have copied: "snd (write_memcpy_s b len data) = data" using assms(3,10,12,13) by (simp add: memcpy_law_def)
  have works: "s\<lparr>engine := e, serial_works := []\<rparr> = s\<lparr>engine := e\<rparr>" for e using assms(6) by (cases s) simp
  have eq: "s\<lparr>engine := e2, client := cl, world := w, memory := store p data (memory s)\<rparr> = ?s\<lparr>engine := e2\<rparr>" by simp
  have read: "run_state (SerialReadNapi b [vp, va]) s = (v, s\<lparr>engine := e2, serial_works := [(d, ?work)]\<rparr>)"
    using 1(2) 2(2) assms(6) by (simp add: SerialReadNapi_def ParseReadInterfaceParams_def)
  have "snd (run_state (do { _ \<leftarrow> SerialReadNapi b [vp, va]; run_next_serial b }) s) = ?s\<lparr>engine := e4, settled := settled ?s @ [(d, True, x)]\<rparr>"
    using 3(1) 4(1) unfolding eq [symmetric]
    by (simp add: run_bind read run_next_serial_def next_serial_work_def works run_serial_work_def g_serialReadExecute_def use_client_run assms(11)
      copy_reply_def size copied copy_to_def run_return errno_of_def g_serialReadComplete_def finish_serial_def ProcessPromise_def settle_def)
  then show ?thesis using 3(3) 4(2) by (intro exI [of _ d] exI [of _ x] exI [of _ e4]) simp
qed

text \<open>The work on a serial port writes only to the application's buffer, whatever the service answers.\<close>

definition serial_range :: "serial_work \<Rightarrow> nat set" where
  "serial_range work = (case work of Serial_Read ctx \<Rightarrow> (case sc_pData ctx of Some p \<Rightarrow> {p..<p + unat (sc_size ctx)} | None \<Rightarrow> {}) | _ \<Rightarrow> {})"

lemma serial_work_stays_in_buffer:
  fixes b :: "('e, 'v, 'c, 'w, 'o, 'p, 'n) serial_binding_scheme" and s :: "('e, 'v, 'p, 'w, 'm) usb_module_scheme"
  assumes "memcpy_law b" and "a \<notin> serial_range work"
  shows "memory (snd (run_state (run_serial_work b (d, work)) s)) a = memory s a"
proof -
  have copy: "keeps {p..<p + len} (copy_reply b (Some p) len bytes :: (('e, 'v, 'p, 'w, 'm) usb_module_scheme, unit) state)" for p len bytes
  proof -
    have "length (snd (write_memcpy_s b len bytes)) \<le> len" using assms(1) by (simp add: memcpy_law_def)
    then show ?thesis by (auto simp: keeps_def copy_reply_def copy_to_def store_def)
  qed
  have none: "keeps A (copy_reply b None len bytes :: (('e, 'v, 'p, 'w, 'm) usb_module_scheme, unit) state)" for A len bytes
    by (simp add: copy_reply_def keeps_return)
  have finish: "keeps A (finish_serial b d errno create :: (('e, 'v, 'p, 'w, 'm) usb_module_scheme, unit) state)" for A errno create
    unfolding finish_serial_def by (intro keeps_intros keeps_promise)
  have "keeps (serial_range work) (run_serial_work b (d, work) :: (('e, 'v, 'p, 'w, 'm) usb_module_scheme, unit) state)"
    by (cases work) (auto simp: run_serial_work_def serial_range_def g_serialWriteExecute_def g_serialWriteComplete_def g_serialReadExecute_def
      g_serialReadComplete_def g_serialRequestRightExecute_def g_serialRequestRightComplete_def split: option.split
      intro!: keeps_intros finish copy none)
  then show ?thesis using assms(2) by (simp add: keeps_def)
qed

subsection \<open>Instances on the run time of trees\<close>

text \<open>A service with one port: it refuses to open it, and its attribute can be read and written.\<close>

definition sample_attribute :: UsbSerialAttr where
  "sample_attribute = \<lparr>usa_baudRate = 9600, usa_stopBits = 1, usa_parity = 0, usa_dataBits = 8\<rparr>"

definition serial_server :: "(unit, i32 list) server" where
  "serial_server = note_server\<lparr>px_SerialOpen := (\<lambda>_ _ w. (UEC_SERIAL_PORT_REPEAT_OPEN, w)),
     px_CancelSerialRight := (\<lambda>_ w. (UEC_SERIAL_DATEBASE_ERROR, w)),
     px_SerialGetAttribute := (\<lambda>_ _ w. (UEC_OK, sample_attribute, w)),
     px_SerialSetAttribute := (\<lambda>port attr w. (UEC_OK, w @ [word_of_int port, usa_baudRate attr])),
     px_SerialRead := (\<lambda>_ _ _ _ w. (UEC_OK, ([7, 8], 2), w))\<rparr>"

definition serial_tree :: "(tree_engine, js, unit, i32 list, unit, unit) serial_binding" where
  "serial_tree = usb_binding.extend (tree_binding\<lparr>csrv := (\<lambda>_. serial_server)\<rparr>)
     (serial_binding.fields 17 18 () napi_uint8_array 0 sample_attribute
       (\<lambda>d bytes. if length bytes \<le> d then (True, bytes) else (False, replicate d 0)))"

lemma serial_tree_law [simp]: "napi_law serial_tree (\<lambda>v. v) fst"
proof -
  have "serial_tree = napi.extend tree_napi (napi.more serial_tree)"
    by (simp add: serial_tree_def tree_binding_def napi.defs usb_binding.defs serial_binding.defs)
  then show ?thesis using tree_napi_law by (metis napi_law_extend)
qed

lemma serial_tree_simps [simp]: "csrv serial_tree = (\<lambda>_. serial_server)" "cenv serial_tree = note_env" "nullptr serial_tree = JUndefined"
    "unset_attribute serial_tree = sample_attribute" "new_context serial_tree" "memcpy_law serial_tree" "promise_law serial_tree fst"
  by (simp_all add: serial_tree_def tree_binding_def tree_napi_def napi.defs usb_binding.defs serial_binding.defs memcpy_law_def
    promise_law_def returns_answer) (simp_all add: returns_def)

lemma serial_conversion: "ErrorCodeConversion serial_tree UEC_SERIAL_PORT_REPEAT_OPEN = SERIAL_PORT_OCCUPIED"
  by (simp add: ErrorCodeConversion_def)

definition serial_tree_module :: "(tree_engine, js, unit, i32 list) serial_module" where
  "serial_tree_module = usb_module.extend tree_module (serial_module.fields [])"

lemma serial_tree_module_simps [simp]: "fst (engine serial_tree_module) = None" "client serial_tree_module = \<lparr>proxy = Some ()\<rparr>"
    "world serial_tree_module = []" "serial_works serial_tree_module = []" "memory serial_tree_module = (\<lambda>a. 0)" "settled serial_tree_module = []"
  by (simp_all add: serial_tree_module_def tree_module_def usb_module.defs serial_module.defs)

lemmas serial_calls = client_SerialOpen_def client_CancelSerialRight_def client_SerialGetAttribute_def client_SerialSetAttribute_def
  client_SerialRead_def connected_via_proxy via_proxy_def serial_server_def outcome_def

theorem serial_failure_thrown_witness:
  "(case run_state (SerialOpenNapi serial_tree [JNumber 1]) serial_tree_module of (v, s) \<Rightarrow> thrown (\<lambda>v. v) fst (engine s) SERIAL_PORT_OCCUPIED) \<and>
   (case run_state (CancelSerialRightNapi serial_tree [JNumber 1]) serial_tree_module of (v, s) \<Rightarrow> fst (engine s) = Some JUndefined)"
proof
  have "client_SerialOpen note_env (serialRemote serial_tree) 1 (\<lambda>_. serial_server) \<lparr>proxy = Some ()\<rparr> [] =
      (UEC_SERIAL_PORT_REPEAT_OPEN, \<lparr>proxy = Some ()\<rparr>, [])" by (simp add: serial_calls)
  then show "case run_state (SerialOpenNapi serial_tree [JNumber 1]) serial_tree_module of (v, s) \<Rightarrow> thrown (\<lambda>v. v) fst (engine s) SERIAL_PORT_OCCUPIED"
    using serial_failure_thrown [of serial_tree "\<lambda>v. v" fst serial_tree_module "JNumber 1" 1 "SerialOpenNapi serial_tree"
      "client_SerialOpen note_env (serialRemote serial_tree)" UEC_SERIAL_PORT_REPEAT_OPEN "\<lparr>proxy = Some ()\<rparr>" "[]"]
    by (auto simp: serial_conversion)
  have "client_CancelSerialRight note_env 1 (\<lambda>_. serial_server) \<lparr>proxy = Some ()\<rparr> [] =
      (UEC_SERIAL_DATEBASE_ERROR, \<lparr>proxy = Some ()\<rparr>, [])" by (simp add: serial_calls)
  then show "case run_state (CancelSerialRightNapi serial_tree [JNumber 1]) serial_tree_module of (v, s) \<Rightarrow> fst (engine s) = Some JUndefined"
    using serial_failure_thrown [of serial_tree "\<lambda>v. v" fst serial_tree_module "JNumber 1" 1 "CancelSerialRightNapi serial_tree"
      "client_CancelSerialRight note_env" UEC_SERIAL_DATEBASE_ERROR "\<lparr>proxy = Some ()\<rparr>" "[]"]
    by auto
qed

theorem serial_attribute_roundtrip_witness:
  "case run_state (do { obj \<leftarrow> SerialGetAttributeNapi serial_tree [JNumber 1]; SerialSetAttributeNapi serial_tree [JNumber 1, obj] }) serial_tree_module of
    (v, s) \<Rightarrow> world s = [1, 9600] \<and> fst (engine s) = None"
  using serial_attribute_roundtrip [of serial_tree "\<lambda>v. v" fst serial_tree_module "JNumber 1" 1 sample_attribute "\<lparr>proxy = Some ()\<rparr>" "[]"
    "\<lparr>proxy = Some ()\<rparr>" "[1, 9600]"]
  by (auto simp: serial_calls small_attribute_def sample_attribute_def)

theorem serial_read_fills_array_witness:
  "\<exists>d x e. snd (run_state (do { _ \<leftarrow> SerialReadNapi serial_tree [JNumber 1, JTyped napi_uint8_array 10 3]; run_next_serial serial_tree }) serial_tree_module) =
     serial_tree_module\<lparr>engine := e, client := \<lparr>proxy = Some ()\<rparr>, world := [], memory := store 10 [7, 8] (\<lambda>a. 0), settled := [(d, True, x)]\<rparr> \<and>
   fst e = None \<and> x = JNumber 2"
  using serial_read_fills_array [of serial_tree "\<lambda>v. v" fst serial_tree_module "JNumber 1" 1 "JTyped napi_uint8_array 10 3" 10 3 "[7, 8]" 2
    "\<lparr>proxy = Some ()\<rparr>" "[]"]
  by (simp add: serial_calls)

end
