(* ===== verification/Spec2Isabelle.thy ===== *)
theory Spec2Isabelle
  imports Usb_Descriptor_Single Host_Invariant Service_Invariant Connection_Notifier Transfer_Callback Usb_Client Service_Start Service_Dump Usb_Json Port_Parcels Right_Dialog Js_Values Js_Data Js_Usb Js_Transfer Js_Serial
begin

text \<open>
  This development models the USB manager of OpenHarmony: the system service that lets applications use
  attached USB devices, the USB functions of the device itself, its ports, accessories and serial
  adapters, and that keeps the rights of applications for them. The definitions follow the C++ sources
  under \<^verbatim>\<open>services/native/src\<close>, \<^verbatim>\<open>interfaces/innerkits/native\<close>, \<^verbatim>\<open>interfaces/kits/js/napi\<close> and \<^verbatim>\<open>utils/native\<close>, in the
  build with the host, device and port features and the pass-through drivers, and keep their names.

  \<^bold>\<open>The parts and how they interact.\<close> Applications call the functions of the JavaScript
  module, which check and convert the arguments and call the client library, which holds a proxy of \<^verbatim>\<open>UsbService\<close>. The service asks who is calling, looks up the
  identity of the named device, asks the right manager whether the caller has a right, and hands the
  call to the manager in charge: the host manager (attached devices, their descriptors, the policies of
  the device administration), the gadget manager (functions, notification, cable events), the accessory
  manager, the port manager or the serial manager. Each manager talks to a driver. The right manager
  keeps the rights in a relational database through a helper with transactions and backup. Events of
  the drivers enter through \<^verbatim>\<open>DeviceEvent\<close> and \<^verbatim>\<open>PortChangedEvent\<close> and may start or stop the timer that
  unloads the service. The end of a submitted transfer travels back through callback objects.

  \<^bold>\<open>Conventions.\<close> A class with members is a record, an operation a function that returns the code, the
  outputs, the new state and the world. The world is a type variable that drivers, database, clock and
  token service act on; they are records of functions (\<open>host_hdi\<close>, \<open>device_hdi\<close>, \<open>right_env\<close>,
  \<open>rdb_store\<close> and so on) and never defined here. What a theorem needs of them (a clock that does not go
  back, a store that answers, a data share that works) is a named hypothesis such as \<open>ready\<close>,
  \<open>reliable\<close> or \<open>settings_law\<close>, and the witness of the theorem gives a concrete environment. Machine
  integers are words of their width where the code computes with them. A null pointer, an uncaught
  exception, a read outside of a buffer and a loop that does not end are the value \<open>None\<close>; theorems say
  where they cannot occur. Broadcasts, notifications and system events are appended to a list in the
  state.

  \<^bold>\<open>Theories.\<close>
  \<^item> \<open>Usb_Prelude\<close>: result codes, words, strings and their conversions, ordered maps (\<open>omap\<close>) with the
    locale of their laws, and the lemmas the components share.
  \<^item> \<open>Usb_Data\<close>, \<open>Usb_Accessory\<close>, \<open>Usb_Interface_Type\<close>: the data classes (\<^verbatim>\<open>usb_device.h\<close>,
    \<^verbatim>\<open>usb_config.h\<close>, \<^verbatim>\<open>usb_interface.h\<close>, \<^verbatim>\<open>usb_endpoint.h\<close>, \<^verbatim>\<open>usb_accessory.h\<close>,
    \<^verbatim>\<open>usb_interface_type.h\<close>) and their parcels: what is written is read back.
  \<^item> \<open>Usb_Descriptor\<close>, \<open>Usb_Descriptor_Single\<close> (\<^verbatim>\<open>usb_descriptor_parser.cpp\<close>): the parser of the bytes a
    device sends. It terminates, never reads outside of the buffer, refines a specification on
    descriptors and inverts their encoding; endpoints belong to the interface they follow.
  \<^item> \<open>Host_Driver\<close>, \<open>Host_Description\<close>, \<open>Host_Manager\<close>, \<open>Host_Policy\<close>, \<open>Host_Invariant\<close>
    (\<^verbatim>\<open>usb_host_manager.cpp\<close>): the requests to the driver, the description of a device from its
    descriptors and strings, the map of devices, the policies and the queries for them. A listed
    device is the one that arrived last under its name and was announced, and only a device that takes the place of
    another one can leave an announcement behind; the trust list is enforced; a description always closes the device.
  \<^item> \<open>Right_Database\<close>, \<open>Right_DbHelper\<close>, \<open>Right_Manager\<close> (\<^verbatim>\<open>usb_right_database.cpp\<close>,
    \<^verbatim>\<open>usb_right_db_helper.cpp\<close>, \<^verbatim>\<open>usb_right_manager.cpp\<close>): transactions, records with their expiry, the
    dialogs. A right is honoured only with a record that has not expired, a granted right is honoured
    until it expires, removed rights are gone, failed updates leave the table as it was.
  \<^item> \<open>Usb_Caller\<close>: the caller of a request as the token service describes it.
  \<^item> \<open>Device_Manager\<close> (\<^verbatim>\<open>usb_device_manager.cpp\<close>): the functions of the gadget, the delayed connect and
    disconnect tasks as a step relation, the notification of debugging.
  \<^item> \<open>Accessory_Manager\<close> (\<^verbatim>\<open>usb_accessory_manager.cpp\<close>): the state machine with its two timers, the serial
    key and Base64.
  \<^item> \<open>Port_Manager\<close> (\<^verbatim>\<open>usb_port_manager.cpp\<close>) and \<open>Serial_Manager\<close> (\<^verbatim>\<open>serial_manager.cpp\<close>): the ports and
    their roles, the exclusive use of serial ports.
  \<^item> \<open>Usb_Settings\<close> (\<^verbatim>\<open>usb_settings_datashare.cpp\<close>): the setting that says whether debugging is on.
  \<^item> \<open>Usb_Service\<close>, \<open>Service_Host\<close>, \<open>Service_Device\<close>, \<open>Service_Serial\<close>, \<open>Service_Lifecycle\<close>
    (\<^verbatim>\<open>usb_service.cpp\<close>, \<^verbatim>\<open>usb_report_sys_event.cpp\<close>, \<^verbatim>\<open>usb_manager_subscriber.cpp\<close>): the service itself,
    composed of the managers. \<open>Service_Permission\<close> and \<open>Service_Invariant\<close> have the properties that span
    them: without a right none of the 28 requests depends on the driver, a granted right reaches it, and
    in every reachable state the identity that rights are checked for is that of the first device that came under a
    name since it was free: of the attached device, unless that one took the place of another.

  \<^item> \<open>Connection_Notifier\<close> (\<^verbatim>\<open>usb_connection_notifier.cpp\<close>): the notifications of a connection. What
    is on display is what the gadget manager meant.
  \<^item> \<open>Switch_Window\<close> (\<^verbatim>\<open>usb_function_switch_window.cpp\<close>): the dialog for the function of a connection
    as a state machine. A dismissed dialog is not shown later.
  \<^item> \<open>Transfer_Callback\<close> (\<^verbatim>\<open>usb_transfer_callback_impl.cpp\<close>, \<^verbatim>\<open>usb_bulkcallback_impl.cpp\<close>,
    \<^verbatim>\<open>struct_parcel.cpp\<close>, \<^verbatim>\<open>usbd_callback_stub.cpp\<close>, \<^verbatim>\<open>usbd_bulk_callback.cpp\<close>,
    \<^verbatim>\<open>usbd_callback_server.cpp\<close>): from the driver's callback over the message to the client's function,
    which is called once with what the driver reported.
  \<^item> \<open>Client_Connection\<close>, \<open>Usb_Client\<close> (\<^verbatim>\<open>usb_srv_client.cpp\<close>, \<^verbatim>\<open>usb_device_pipe.cpp\<close>,
    \<^verbatim>\<open>usb_request.cpp\<close>): the proxy of the service and its replacement when the service dies (a
    proxy of a dead object is kept only when watching it was refused), and the operations of the client library. Through the service's model a transfer of the client is the
    driver's, and policies arrive as they were set.
  \<^item> \<open>Service_Start\<close> (\<^verbatim>\<open>usb_service.cpp\<close> and the managers): the start of the service with its waiting
    loops, the interfaces and subscribers of the drivers, the registration and the stop. When the drivers
    come up in time, every manager is bound.
  \<^item> \<open>Service_Dump\<close> (\<^verbatim>\<open>usb_service.cpp\<close>, \<^verbatim>\<open>usb_device_manager.cpp\<close>, \<^verbatim>\<open>serial_manager.cpp\<close>): the commands of
    the operator's dump tool, which without a build flag only reads.
  \<^item> \<open>Usb_Json\<close> (the data classes): their JSON texts, the constructors from JSON and the log output, over the
    cJSON library as a parameter. What a text says is read back, except for the serial number.
  \<^item> \<open>Right_Dialog\<close> (\<^verbatim>\<open>usb_right_manager.cpp\<close>): the messages to the dialog that asks the user for a right. A
    dialog is told to close only after it was told to show.
  \<^item> \<open>Js_Values\<close> (\<^verbatim>\<open>napi_util.cpp\<close>, \<^verbatim>\<open>usb_napi_errors.cpp\<close>): reading and making JavaScript values and throwing errors,
    over the calls of the NAPI run time. The run time is a parameter; \<open>napi_law\<close> says what its calls promise, and
    \<open>tree_napi\<close> is a run time that keeps it.
  \<^item> \<open>Js_Data\<close>, \<open>Js_Usb\<close>, \<open>Js_Transfer\<close> (\<^verbatim>\<open>usb_info.cpp\<close>): the objects of devices in both directions, the functions of
    the JavaScript module over the client library, the transfers with their buffers, queued work and callbacks. A listed
    device can be connected, a transfer moves exactly the bytes of the application's array and writes nowhere else; some
    functions go on after they have thrown.
  \<^item> \<open>Js_Serial\<close> (\<^verbatim>\<open>serial_info.cpp\<close>, \<^verbatim>\<open>serial_napi_errors.h\<close>): the functions of the module for serial ports. What
    fails at the service is thrown with its converted code (undefined for a failure of the database), attributes go
    there and back, and a read fills the application's array only.
  \<^item> \<open>Port_Parcels\<close> (\<^verbatim>\<open>usb_port.h\<close>, \<^verbatim>\<open>usb_serial_type.h\<close>): ports, serial ports and attributes on parcels.

  \<^bold>\<open>Interfaces.\<close> Laws that several operations share are locales, interpreted on the definitions: the
  ordered maps, the parcels and the JSON of the data classes, the frame of the requests behind the check of the
  right (\<open>permission_guarded\<close>, interpreted for each of the requests), and others in the theories of their
  clients.

  \<^bold>\<open>Loops and bounds.\<close> The parser of whole descriptors, the retry loop for the policies, the decoders and
  all loops over lists are total functions, with their termination proofs. The loop over the function
  bits in \<^verbatim>\<open>BroadcastFuncChange\<close> and the scans of the parsers for single descriptors may not end and are
  partial functions with the result \<open>None\<close>; for which inputs the first ends is proved. No fuel is used.
  Where the clock is a hypothesis it is bounded by \<open>2 ^ 63\<close>, because the expiry is computed in 64 bits.

  \<^bold>\<open>Not modelled.\<close> The ArkTS bindings (they convert generated types and call the client
  library), the code that the interface definition generates on both sides of the IPC, the build without
  pass-through drivers, and locking: an operation is one step, which is what the mutexes of the managers
  give. The client holds its mutex only while it connects or drops the proxy, so that a death notice between connecting
  and the call that follows is not modelled; the calls of NAPI by the application's thread are not interleaved either.
\<close>

end
